(* ===== verification/Liop_Prelude.thy ===== *)
theory Liop_Prelude
  imports Main "HOL-Library.AList"
begin

text \<open>
  Shared vocabulary of the development.

  \<^item> JavaScript strings are \<open>char list\<close>s: one \<open>char\<close> stands for one UTF-16 code unit
    below 256, which is the range every literal of the sources stays in.
  \<^item> A JavaScript \<open>Map\<close> keeps insertion order, so it is an association list: \<open>map.get\<close>
    is \<open>map_of\<close>, \<open>map.set\<close> is \<open>AList.update\<close> (overwrite in place, or append),
    \<open>map.delete\<close> is \<open>AList.delete\<close>, \<open>map.size\<close> is \<open>length\<close>.
  \<^item> \<open>Date.now()\<close> is an \<open>int\<close> argument (milliseconds) of every operation that reads the
    clock.
  \<^item> The collection \<open>liop_simps\<close> holds the facts the component proofs share.
\<close>

named_theorems liop_simps \<open>rewriting facts shared by the component proofs\<close>

type_synonym time_ms = int
type_synonym ('k, 'v) js_map = "('k \<times> 'v) list"

subsection \<open>Strings\<close>

definition to_lower_char :: "char \<Rightarrow> char" where
  "to_lower_char c =
     (let n = (of_char c :: nat) in
      if (65 \<le> n \<and> n \<le> 90) \<or> (192 \<le> n \<and> n \<le> 222 \<and> n \<noteq> 215) then char_of (n + 32) else c)"

definition to_lower :: "string \<Rightarrow> string" where
  "to_lower s = map to_lower_char s"

definition starts_with :: "string \<Rightarrow> string \<Rightarrow> bool" where
  "starts_with s p \<longleftrightarrow> take (length p) s = p"

definition ends_with :: "string \<Rightarrow> string \<Rightarrow> bool" where
  "ends_with s p \<longleftrightarrow> length p \<le> length s \<and> drop (length s - length p) s = p"

fun str_includes :: "string \<Rightarrow> string \<Rightarrow> bool" where
  "str_includes [] p = (p = [])"
| "str_includes (c # cs) p = (starts_with (c # cs) p \<or> str_includes cs p)"

definition is_digit :: "char \<Rightarrow> bool" where
  "is_digit c \<longleftrightarrow> (let n = (of_char c :: nat) in 48 \<le> n \<and> n \<le> 57)"

definition is_upper :: "char \<Rightarrow> bool" where
  "is_upper c \<longleftrightarrow> (let n = (of_char c :: nat) in 65 \<le> n \<and> n \<le> 90)"

definition is_lower :: "char \<Rightarrow> bool" where
  "is_lower c \<longleftrightarrow> (let n = (of_char c :: nat) in 97 \<le> n \<and> n \<le> 122)"

definition is_alnum :: "char \<Rightarrow> bool" where
  "is_alnum c \<longleftrightarrow> is_digit c \<or> is_upper c \<or> is_lower c"

text \<open>\<open>String.prototype.trim\<close>: the white space and line terminators below 256.\<close>

definition js_space :: "char \<Rightarrow> bool" where
  "js_space c \<longleftrightarrow> (let n = (of_char c :: nat) in (9 \<le> n \<and> n \<le> 13) \<or> n = 32 \<or> n = 160)"

definition trim :: "string \<Rightarrow> string" where
  "trim s = rev (dropWhile js_space (rev (dropWhile js_space s)))"

fun split_on :: "char \<Rightarrow> string \<Rightarrow> string list" where
  "split_on c [] = [[]]"
| "split_on c (x # xs) =
     (if x = c then [] # split_on c xs
      else (case split_on c xs of [] \<Rightarrow> [[x]] | w # ws \<Rightarrow> (x # w) # ws))"

fun join :: "string \<Rightarrow> string list \<Rightarrow> string" where
  "join sep [] = []"
| "join sep [w] = w"
| "join sep (w # ws) = w @ sep @ join sep ws"

lemma length_to_lower [simp]: "length (to_lower s) = length s"
  by (simp add: to_lower_def)

lemma starts_with_refl [simp]: "starts_with s s" "starts_with s []"
  by (simp_all add: starts_with_def)

lemma starts_with_append [simp]: "starts_with (p @ s) p"
  by (simp add: starts_with_def)

lemma str_includes_iff: "str_includes s p \<longleftrightarrow> (\<exists>u v. s = u @ p @ v)"
proof (induction s)
  case (Cons c cs)
  have "starts_with (c # cs) p \<longleftrightarrow> (\<exists>v. c # cs = p @ v)"
    unfolding starts_with_def by (metis append_eq_conv_conj append_take_drop_id)
  then show ?case
    using Cons.IH by (auto simp: Cons_eq_append_conv)
qed simp

lemma split_on_nonempty [simp]: "split_on c s \<noteq> []"
  by (induction s) (auto split: list.splits)

lemma join_split_on [simp]: "join [c] (split_on c s) = s"
proof (induction s)
  case (Cons x xs)
  obtain w ws where sp: "split_on c xs = w # ws"
    by (cases "split_on c xs") auto
  with Cons.IH have "join [c] (w # ws) = xs" by simp
  with sp show ?case by (cases ws) auto
qed simp

lemma set_join: "set (join sep ws) \<subseteq> set sep \<union> (\<Union>w \<in> set ws. set w)"
  by (induction sep ws rule: join.induct) auto

subsection \<open>Numbers\<close>

text \<open>\<open>Math.ceil (a / b)\<close> for a positive \<open>b\<close>.\<close>

definition ceil_div :: "int \<Rightarrow> int \<Rightarrow> int" where
  "ceil_div a b = - ((- a) div b)"

lemma ceil_div_bounds: "0 < b \<Longrightarrow> a \<le> b * ceil_div a b \<and> b * ceil_div a b < a + b"
proof -
  assume b: "0 < b"
  have eq: "b * ((- a) div b) + (- a) mod b = - a" by simp
  have "0 \<le> (- a) mod b" "(- a) mod b < b" using b by simp_all
  with eq show ?thesis unfolding ceil_div_def mult_minus_right by linarith
qed

subsection \<open>The \<open>Map\<close> interface\<close>

text \<open>
  What the components rely on when they keep state in a \<open>Map\<close>. The client lemmas are
  proved once from the laws; the interpretation at the end is the association list with
  the operations of \<open>HOL-Library.AList\<close>.
\<close>

locale js_map_ops =
  fixes get :: "'m \<Rightarrow> 'k \<Rightarrow> 'v option"
    and put :: "'k \<Rightarrow> 'v \<Rightarrow> 'm \<Rightarrow> 'm"
    and del :: "'k \<Rightarrow> 'm \<Rightarrow> 'm"
  assumes get_put: "get (put k v m) k' = (if k' = k then Some v else get m k')"
    and get_del: "get (del k m) k' = (if k' = k then None else get m k')"
begin

lemma get_put_same [simp]: "get (put k v m) k = Some v"
  by (simp add: get_put)

lemma get_put_other: "k' \<noteq> k \<Longrightarrow> get (put k v m) k' = get m k'"
  by (simp add: get_put)

lemma get_fold_put_other:
  "k \<notin> set ks \<Longrightarrow> get (fold (\<lambda>x m. put x (f x) m) ks m) k = get m k"
  by (induction ks arbitrary: m) (auto simp: get_put)

lemma get_fold_del:
  "get (fold del ks m) k = (if k \<in> set ks then None else get m k)"
  by (induction ks arbitrary: m) (auto simp: get_del)

end

interpretation jm: js_map_ops map_of AList.update AList.delete
  by unfold_locales (auto simp: update_conv' delete_conv')

declare jm.get_put [liop_simps] jm.get_del [liop_simps]

text \<open>Component proofs reason about \<open>map_of\<close>, never about the pairs of the list.\<close>

declare map_of_eq_Some_iff [simp del]

text \<open>A JavaScript \<open>Set\<close> keeps insertion order as well.\<close>

definition set_add :: "'a \<Rightarrow> 'a list \<Rightarrow> 'a list" where
  "set_add x xs = (if x \<in> set xs then xs else xs @ [x])"

lemma set_set_add [simp]: "set (set_add x xs) = insert x (set xs)"
  by (auto simp: set_add_def)

subsection \<open>Runs of a step function\<close>

text \<open>
  Every stateful component is a step function. A run folds it over a list of events, and
  an invariant that each step keeps holds after every run.
\<close>

definition run :: "('s \<Rightarrow> 'e \<Rightarrow> 's) \<Rightarrow> 's \<Rightarrow> 'e list \<Rightarrow> 's" where
  "run step s es = foldl step s es"

lemma run_simps [simp]:
  "run step s [] = s" "run step s (e # es) = run step (step s e) es"
  "run step s (es @ fs) = run step (run step s es) fs"
  by (simp_all add: run_def)

locale preserved =
  fixes step :: "'s \<Rightarrow> 'e \<Rightarrow> 's" and inv :: "'s \<Rightarrow> bool"
  assumes step_inv: "inv s \<Longrightarrow> inv (step s e)"
begin

lemma run_inv: "inv s \<Longrightarrow> inv (run step s es)"
  by (induction es arbitrary: s) (auto intro: step_inv)

end

end
