(* ===== verification/Js_Values.thy ===== *)
theory Js_Values
  imports Liop_Prelude Complex_Main "HOL-Library.Word"
begin

text \<open>
  JavaScript values as the SDK passes them around, byte buffers, and the \<open>throw\<close>ing
  operations on them.

  \<^item> \<open>jsnum\<close>: a finite number is an exact real; \<open>NaN\<close> and the infinities are separate. The
    rounding of IEEE arithmetic is not modelled.
  \<^item> \<open>jval\<close>: the values a sandboxed computation or a JSON document can hold. An array or
    object carries its identity (\<open>Some n\<close>) when the program can reach the same object on two
    paths, \<open>None\<close> when it is a fresh object nothing else refers to; the code that keeps a
    \<open>WeakSet\<close> of visited objects sees identities only. Cyclic objects are not represented.
  \<^item> \<open>byte list\<close>: a \<open>Buffer\<close> or \<open>Uint8Array\<close>; \<open>subarray\<close>, \<open>copy\<close>, the big-endian reads and
    writes with their \<open>RangeError\<close>s.
  \<^item> A function that can throw returns \<open>'e + 'a\<close>; \<open>ebind\<close> sequences such calls.
\<close>

section \<open>Throwing computations\<close>

fun ebind :: "'e + 'a \<Rightarrow> ('a \<Rightarrow> 'e + 'b) \<Rightarrow> 'e + 'b" where
  "ebind (Inl e) f = Inl e"
| "ebind (Inr x) f = f x"

lemma ebind_Inr_iff [simp]: "ebind m f = Inr y \<longleftrightarrow> (\<exists>x. m = Inr x \<and> f x = Inr y)"
  by (cases m) auto

lemma ebind_Inl_iff: "ebind m f = Inl e \<longleftrightarrow> m = Inl e \<or> (\<exists>x. m = Inr x \<and> f x = Inl e)"
  by (cases m) auto

lemma ebind_assoc: "ebind (ebind m f) g = ebind m (\<lambda>x. ebind (f x) g)"
  by (cases m) auto

lemma ebind_cong [fundef_cong]:
  "m = m' \<Longrightarrow> (\<And>x. m' = Inr x \<Longrightarrow> f x = f' x) \<Longrightarrow> ebind m f = ebind m' f'"
  by (cases m') auto

definition guard :: "bool \<Rightarrow> 'e \<Rightarrow> 'e + unit" where
  "guard ok e = (if ok then Inr () else Inl e)"

lemma guard_Inr [simp]: "guard ok e = Inr x \<longleftrightarrow> ok"
  by (simp add: guard_def)

lemma guard_True [simp]: "guard True e = Inr ()" "guard False e = Inl e"
  by (simp_all add: guard_def)

section \<open>Values\<close>

datatype jsnum = Fin real | NaN | PosInf | NegInf

datatype jval =
  JUndef
| JNull
| JBool bool
| JNum jsnum
| JStr string
| JArr "nat option" "jval list"
| JObj "nat option" "(string \<times> jval) list"

text \<open>The truth value of a value used as a condition.\<close>

fun truthy :: "jval \<Rightarrow> bool" where
  "truthy JUndef = False"
| "truthy JNull = False"
| "truthy (JBool b) = b"
| "truthy (JNum n) = (n \<noteq> Fin 0 \<and> n \<noteq> NaN)"
| "truthy (JStr s) = (s \<noteq> [])"
| "truthy (JArr i xs) = True"
| "truthy (JObj i fs) = True"

text \<open>
  Reading property \<open>v.k\<close>: a \<open>TypeError\<close> (\<open>None\<close>) on \<open>undefined\<close> and \<open>null\<close>, the own data
  property of an object, \<open>undefined\<close> elsewhere.
\<close>

fun js_prop :: "jval \<Rightarrow> string \<Rightarrow> jval option" where
  "js_prop JUndef k = None"
| "js_prop JNull k = None"
| "js_prop (JObj i fs) k = Some (case map_of fs k of None \<Rightarrow> JUndef | Some v \<Rightarrow> v)"
| "js_prop v k = Some JUndef"

text \<open>\<open>v?.k\<close>\<close>

definition opt_prop :: "jval \<Rightarrow> string \<Rightarrow> jval" where
  "opt_prop v k = (case js_prop v k of None \<Rightarrow> JUndef | Some x \<Rightarrow> x)"

text \<open>\<open>typeof v === "object" && v !== null\<close>.\<close>

fun is_object :: "jval \<Rightarrow> bool" where
  "is_object (JArr i xs) = True"
| "is_object (JObj i fs) = True"
| "is_object v = False"

lemma jval_fields_size [termination_simp]:
  "(k, v) \<in> set fs \<Longrightarrow> size v < Suc (size_list (size_prod (\<lambda>x. 0) size) fs)"
  by (induction fs) auto

lemma size_snd_field [termination_simp]:
  "p \<in> set fs \<Longrightarrow> size (snd p) < Suc (size_list (size_prod (\<lambda>x. 0) size) fs)"
  by (induction fs) (auto simp: less_Suc_eq_le)

text \<open>
  The properties every plain object inherits: functions, with their \<open>length\<close>, and the accessor
  of the prototype, which has none.
\<close>

definition object_prototype :: "(string \<times> nat option) list" where
  "object_prototype =
    [(''constructor'', Some 1), (''toString'', Some 0), (''toLocaleString'', Some 0), (''valueOf'', Some 0),
     (''hasOwnProperty'', Some 1), (''isPrototypeOf'', Some 1), (''propertyIsEnumerable'', Some 1),
     (''__defineGetter__'', Some 2), (''__defineSetter__'', Some 2),
     (''__lookupGetter__'', Some 1), (''__lookupSetter__'', Some 1), (''__proto__'', None)]"

text \<open>The identities of the arrays and objects of a value, and the \<open>WeakSet\<close> of those already seen.\<close>

fun ids :: "jval \<Rightarrow> nat list" where
  "ids (JArr i xs) = (case i of None \<Rightarrow> [] | Some n \<Rightarrow> [n]) @ concat (map ids xs)"
| "ids (JObj i fs) = (case i of None \<Rightarrow> [] | Some n \<Rightarrow> [n]) @ concat (map (\<lambda>p. ids (snd p)) fs)"
| "ids v = []"

definition visited :: "nat option \<Rightarrow> nat set \<Rightarrow> bool" where
  "visited i seen = (case i of None \<Rightarrow> False | Some n \<Rightarrow> n \<in> seen)"

definition visit :: "nat option \<Rightarrow> nat set \<Rightarrow> nat set" where
  "visit i seen = (case i of None \<Rightarrow> seen | Some n \<Rightarrow> insert n seen)"

section \<open>Buffers\<close>

type_synonym byte = "8 word"
type_synonym bytes = "byte list"

definition subarray :: "bytes \<Rightarrow> nat \<Rightarrow> nat \<Rightarrow> bytes" where
  "subarray b from until = take (until - from) (drop from b)"

definition buf_copy :: "bytes \<Rightarrow> bytes \<Rightarrow> nat \<Rightarrow> bytes" where
  "buf_copy src target off = take off target @ src @ drop (off + length src) target"

primrec be_bytes :: "nat \<Rightarrow> nat \<Rightarrow> bytes" where
  "be_bytes 0 v = []"
| "be_bytes (Suc n) v = be_bytes n (v div 256) @ [of_nat (v mod 256)]"

definition be_val :: "bytes \<Rightarrow> nat" where
  "be_val bs = foldl (\<lambda>a b. a * 256 + unat b) 0 bs"

lemma unat_byte: "unat (b :: byte) < 256"
  using unsigned_less [of b, where ?'a = nat] by simp

lemma length_be_bytes [simp]: "length (be_bytes n v) = n"
  by (induction n arbitrary: v) auto

lemma be_val_snoc [simp]: "be_val (bs @ [b]) = be_val bs * 256 + unat b"
  by (simp add: be_val_def)

lemma be_val_be_bytes [simp]: "v < 256 ^ n \<Longrightarrow> be_val (be_bytes n v) = v"
proof (induction n arbitrary: v)
  case (Suc n)
  then have "v div 256 < 256 ^ n" by (simp add: less_mult_imp_div_less mult.commute)
  moreover have "unat (of_nat (v mod 256) :: byte) = v mod 256"
    by (simp add: unat_of_nat)
  ultimately show ?case using Suc.IH by simp
qed (simp add: be_val_def)

lemma be_bytes_be_val [simp]: "be_bytes (length bs) (be_val bs) = bs"
proof (induction bs rule: rev_induct)
  case (snoc b bs)
  have "unat b < 256" using unat_byte [of b] by simp
  then have "(be_val bs * 256 + unat b) div 256 = be_val bs"
    "(be_val bs * 256 + unat b) mod 256 = unat b" by simp_all
  with snoc show ?case by simp
qed simp

lemma be_val_bound: "be_val bs < 256 ^ length bs"
proof (induction bs rule: rev_induct)
  case (snoc b bs)
  have "unat b < 256" using unat_byte [of b] by simp
  with snoc show ?case by simp
qed (simp add: be_val_def)

lemma length_subarray [simp]: "length (subarray b i j) = min (j - i) (length b - i)"
  by (simp add: subarray_def)

text \<open>Splitting a buffer at a known prefix; the workhorse of the codec proofs.\<close>

lemma subarray_skip: "length xs \<le> i \<Longrightarrow> subarray (xs @ ys) i j = subarray ys (i - length xs) (j - length xs)"
  by (simp add: subarray_def)

lemma subarray_prefix: "j = length xs \<Longrightarrow> subarray (xs @ ys) 0 j = xs"
  by (simp add: subarray_def)

lemma subarray_at: "b = xs @ ys @ zs \<Longrightarrow> length xs = i \<Longrightarrow> j = i + length ys \<Longrightarrow> subarray b i j = ys"
  by (auto simp: subarray_def)

lemma subarray_all: "length xs \<le> j \<Longrightarrow> subarray xs 0 j = xs"
  by (simp add: subarray_def)

lemma subarray_glue: "i \<le> j \<Longrightarrow> j \<le> k \<Longrightarrow> subarray b i j @ subarray b j k = subarray b i k"
proof -
  assume "i \<le> j" "j \<le> k"
  then have "drop j b = drop (j - i) (drop i b)" "k - i = (j - i) + (k - j)" by simp_all
  then show ?thesis by (simp add: subarray_def take_add)
qed

subsection \<open>Hexadecimal text\<close>

definition hex_digit :: "nat \<Rightarrow> char" where
  "hex_digit n = (if n < 10 then char_of (48 + n) else char_of (87 + n))"

definition hex_of :: "bytes \<Rightarrow> string" where
  "hex_of bs = concat (map (\<lambda>b. [hex_digit (unat b div 16), hex_digit (unat b mod 16)]) bs)"

lemma hex_digit_inj: "m < 16 \<Longrightarrow> n < 16 \<Longrightarrow> hex_digit m = hex_digit n \<Longrightarrow> m = n"
proof -
  assume a: "m < 16" "n < 16" "hex_digit m = hex_digit n"
  have code: "of_char (hex_digit k) = (if k < 10 then 48 + k else 87 + k)" if "k < 16" for k :: nat
    using that by (simp add: hex_digit_def)
  have "(if m < 10 then 48 + m else 87 + m) = (if n < 10 then 48 + n else 87 + n)"
    using code [OF a(1)] code [OF a(2)] a(3) by metis
  then show "m = n" using a by (auto split: if_splits)
qed

lemma hex_of_inject [simp]: "hex_of a = hex_of b \<longleftrightarrow> a = b"
proof
  show "a = b" if "hex_of a = hex_of b"
    using that
  proof (induction a arbitrary: b)
    case Nil
    then show ?case by (cases b) (auto simp: hex_of_def)
  next
    case (Cons x a)
    from Cons.prems obtain y b' where b: "b = y # b'" by (cases b) (auto simp: hex_of_def)
    have lt: "unat z div 16 < 16" "unat z mod 16 < 16" for z :: byte
      using unat_byte [of z] by (auto simp: less_mult_imp_div_less)
    from Cons.prems b have "unat x div 16 = unat y div 16" "unat x mod 16 = unat y mod 16"
      and rest: "hex_of a = hex_of b'"
      by (auto simp: hex_of_def intro: hex_digit_inj [OF lt(1) lt(1)] hex_digit_inj [OF lt(2) lt(2)])
    then have "x = y" by (metis div_mult_mod_eq word_unat_eq_iff)
    with Cons.IH [OF rest] b show ?case by simp
  qed
qed simp

lemma hex_digit_code: "n < 16 \<Longrightarrow> of_char (hex_digit n) = (if n < 10 then 48 + n else 87 + n)" for n :: nat
  by (simp add: hex_digit_def)

lemma hex_digit_plain: "n < 16 \<Longrightarrow> to_lower_char (hex_digit n) = hex_digit n \<and> \<not> js_space (hex_digit n)"
  by (simp add: to_lower_char_def js_space_def hex_digit_code Let_def)

lemma hex_of_plain: "c \<in> set (hex_of b) \<Longrightarrow> to_lower_char c = c \<and> \<not> js_space c"
proof -
  assume "c \<in> set (hex_of b)"
  then obtain x :: byte where "c = hex_digit (unat x div 16) \<or> c = hex_digit (unat x mod 16)"
    by (auto simp: hex_of_def)
  moreover have "unat x div 16 < 16" "unat x mod 16 < 16"
    using unat_byte [of x] by (auto simp: less_mult_imp_div_less)
  ultimately obtain n where "n < 16" "c = hex_digit n" by blast
  then show ?thesis using hex_digit_plain by simp
qed

lemma trim_plain: "(\<And>c. c \<in> set s \<Longrightarrow> \<not> js_space c) \<Longrightarrow> trim s = s"
proof -
  assume "\<And>c. c \<in> set s \<Longrightarrow> \<not> js_space c"
  moreover from this have "js_space (hd (rev s)) \<Longrightarrow> s = []"
    by (metis hd_in_set rev_is_Nil_conv set_rev)
  ultimately have "dropWhile js_space s = s" "dropWhile js_space (rev s) = rev s"
    by (auto simp: dropWhile_eq_self_iff)
  then show ?thesis by (simp add: trim_def)
qed

lemma hex_of_normal [simp]: "to_lower (hex_of b) = hex_of b" "trim (hex_of b) = hex_of b"
  using hex_of_plain by (auto simp: to_lower_def intro!: map_idI trim_plain)

subsection \<open>Text as bytes\<close>

text \<open>The UTF-8 encoding of the code units below 256.\<close>

definition utf8_char :: "char \<Rightarrow> bytes" where
  "utf8_char c = (let n = (of_char c :: nat) in
     if n < 128 then [of_nat n] else [of_nat (192 + n div 64), of_nat (128 + n mod 64)])"

definition utf8 :: "string \<Rightarrow> bytes" where
  "utf8 s = concat (map utf8_char s)"

fun un_utf8 :: "bytes \<Rightarrow> nat \<times> bytes" where
  "un_utf8 (a # r) =
     (if unat a < 128 then (unat a, r)
      else case r of [] \<Rightarrow> (0, []) | b # r \<Rightarrow> ((unat a - 192) * 64 + (unat b - 128), r))"
| "un_utf8 [] = (0, [])"

lemma of_char_less: "(of_char c :: nat) < 256"
  by (metis of_char_of nat_of_char_less_256 char_of_nat)

lemma un_utf8_char: "un_utf8 (utf8_char c @ r) = (of_char c, r)"
proof (cases "(of_char c :: nat) < 128")
  case True
  then show ?thesis by (simp add: utf8_char_def unat_of_nat)
next
  case False
  have "(of_char c :: nat) < 256" by (rule of_char_less)
  then have "(of_char c :: nat) div 64 < 4" by (simp add: less_mult_imp_div_less)
  then have "unat (of_nat (192 + of_char c div 64) :: byte) = 192 + of_char c div 64"
    "unat (of_nat (128 + of_char c mod 64) :: byte) = 128 + of_char c mod 64"
    by (simp_all only: unat_of_nat) simp_all
  then show ?thesis using False unfolding utf8_char_def Let_def by (simp del: of_nat_add)
qed

lemma utf8_char_nonempty [simp]: "utf8_char c \<noteq> []"
  by (simp add: utf8_char_def Let_def)

lemma utf8_inject [simp]: "utf8 s = utf8 t \<longleftrightarrow> s = t"
proof
  show "s = t" if "utf8 s = utf8 t"
    using that
  proof (induction s arbitrary: t)
    case Nil
    then show ?case by (cases t) (auto simp: utf8_def)
  next
    case (Cons c s)
    then obtain d t' where t: "t = d # t'" by (cases t) (auto simp: utf8_def)
    from Cons.prems have "utf8_char c @ utf8 s = utf8_char d @ utf8 t'" by (simp add: t utf8_def)
    then have "(of_char c :: nat) = of_char d" "utf8 s = utf8 t'"
      using un_utf8_char by (metis prod.inject)+
    with Cons.IH t show ?case by simp
  qed
qed simp

end
