(* ===== verification/Json_Text.thy ===== *)
theory Json_Text
  imports Js_Values "HOL-Library.List_Lexorder" "HOL-Library.Char_ord" "HOL-Library.Multiset"
begin

text \<open>
  The part of \<open>JSON.stringify\<close> whose exact text the program hashes or writes to a file:
  strings with their escapes, integers, and flat objects. The point of the theory is that the
  text determines the value, and that it stays on one line.
\<close>

section \<open>Integers\<close>

definition digit_char :: "nat \<Rightarrow> char" where
  "digit_char n = char_of (48 + n)"

fun show_nat :: "nat \<Rightarrow> string" where
  "show_nat n = (if n < 10 then [digit_char n] else show_nat (n div 10) @ [digit_char (n mod 10)])"

declare show_nat.simps [simp del]

definition show_int :: "int \<Rightarrow> string" where
  "show_int i = (if i < 0 then CHR ''-'' # show_nat (nat (- i)) else show_nat (nat i))"

definition dec_val :: "string \<Rightarrow> nat" where
  "dec_val s = foldl (\<lambda>a c. a * 10 + (of_char c - 48)) 0 s"

lemma dec_val_snoc [simp]: "dec_val (s @ [c]) = dec_val s * 10 + (of_char c - 48)"
  by (simp add: dec_val_def)

lemma digit_char_code [simp]: "n < 10 \<Longrightarrow> of_char (digit_char n) = 48 + n" for n :: nat
  by (simp add: digit_char_def)

lemma dec_val_show_nat [simp]: "dec_val (show_nat n) = n"
proof (induction n rule: show_nat.induct)
  case (1 n)
  show ?case
  proof (cases "n < 10")
    case True
    then show ?thesis by (subst show_nat.simps) (simp add: dec_val_def)
  next
    case False
    then show ?thesis using 1 by (subst show_nat.simps) simp
  qed
qed

lemma show_nat_digits: "c \<in> set (show_nat n) \<Longrightarrow> is_digit c"
proof (induction n rule: show_nat.induct)
  case (1 n)
  have "is_digit (digit_char k)" if "k < 10" for k
    using that by (simp add: is_digit_def)
  with 1 show ?case
    using show_nat.simps [of n] by (auto split: if_splits)
qed

lemma show_nat_nonempty [simp]: "show_nat n \<noteq> []"
  by (subst show_nat.simps) simp

lemma show_nat_delim:
  assumes "show_nat m @ r = show_nat n @ r'" "r = c # u" "r' = d # v" "\<not> is_digit c" "\<not> is_digit d"
  shows "m = n \<and> r = r'"
proof -
  have split: "takeWhile is_digit (show_nat k @ x # xs) = show_nat k" if "\<not> is_digit x" for k x xs
    using that show_nat_digits by (subst takeWhile_append2) auto
  have "show_nat m = show_nat n"
    using split [OF assms(4)] split [OF assms(5)] assms(1-3) by metis
  with assms(1) show ?thesis using dec_val_show_nat by (metis same_append_eq)
qed

lemma show_int_delim:
  assumes eq: "show_int i @ r = show_int j @ r'" and r: "r = c # u" "r' = d # v" "\<not> is_digit c" "\<not> is_digit d"
  shows "i = j \<and> r = r'"
proof -
  have minus: "hd (show_nat n @ xs) \<noteq> CHR ''-''" for n xs
    using show_nat_digits [of "hd (show_nat n)" n] by (auto simp: is_digit_def)
  have sign: "hd (show_int k @ xs) = CHR ''-'' \<longleftrightarrow> k < 0" for k xs
    using minus by (simp add: show_int_def)
  have "(i < 0) = (j < 0)" using sign eq by metis
  then show ?thesis
  proof (cases "i < 0")
    case True
    then have "show_nat (nat (- i)) @ r = show_nat (nat (- j)) @ r'"
      using eq \<open>(i < 0) = (j < 0)\<close> by (simp only: show_int_def if_True append_Cons list.inject)
    from show_nat_delim [OF this r] True \<open>(i < 0) = (j < 0)\<close> show ?thesis by (metis eq_nat_nat_iff neg_0_le_iff_le neg_equal_iff_equal order_less_imp_le)
  next
    case False
    then have "show_nat (nat i) @ r = show_nat (nat j) @ r'"
      using eq \<open>(i < 0) = (j < 0)\<close> by (simp only: show_int_def if_False)
    from show_nat_delim [OF this r] False \<open>(i < 0) = (j < 0)\<close> show ?thesis by (metis eq_nat_nat_iff not_less)
  qed
qed

section \<open>Strings\<close>

definition json_esc :: "char \<Rightarrow> string" where
  "json_esc c =
     (let n = (of_char c :: nat) in
      if n = 34 then [CHR 0x5C, CHR 0x22]
      else if n = 92 then [CHR 0x5C, CHR 0x5C]
      else if n = 8 then [CHR 0x5C, CHR ''b'']
      else if n = 9 then [CHR 0x5C, CHR ''t'']
      else if n = 10 then [CHR 0x5C, CHR ''n'']
      else if n = 12 then [CHR 0x5C, CHR ''f'']
      else if n = 13 then [CHR 0x5C, CHR ''r'']
      else if n < 32 then [CHR 0x5C, CHR ''u'', CHR ''0'', CHR ''0'', hex_digit (n div 16), hex_digit (n mod 16)]
      else [c])"

definition json_string :: "string \<Rightarrow> string" where
  "json_string s = CHR 0x22 # concat (map json_esc s) @ [CHR 0x22]"

lemma of_char_eq: "(of_char c :: nat) = of_char d \<longleftrightarrow> c = d"
  by simp

lemma of_char_Char_10: "of_char (CHR 0x0A) = (10 :: nat)"
  by simp

lemma json_esc_head: "\<exists>x xs. json_esc c = x # xs \<and> x \<noteq> CHR 0x22 \<and> (x = CHR 0x5C \<or> xs = [] \<and> x = c)"
proof -
  have "(of_char c :: nat) = 34 \<longleftrightarrow> c = CHR 0x22" using of_char_eq [of c "CHR 0x22"] by simp
  then show ?thesis by (auto simp: json_esc_def Let_def)
qed

text \<open>Escapes are read back by looking at their first characters only.\<close>

definition hex_val :: "char \<Rightarrow> nat" where
  "hex_val c = (let n = (of_char c :: nat) in if n < 58 then n - 48 else n - 87)"

fun unesc_hex :: "string \<Rightarrow> nat \<times> string" where
  "unesc_hex (_ # _ # a # b # r) = (hex_val a * 16 + hex_val b, r)"
| "unesc_hex r = (0, r)"

fun unesc_letter :: "string \<Rightarrow> nat \<times> string" where
  "unesc_letter [] = (0, [])"
| "unesc_letter (k # r) =
     (if k = CHR ''u'' then unesc_hex r
      else (if k = CHR ''b'' then 8 else if k = CHR ''t'' then 9 else if k = CHR ''n'' then 10
            else if k = CHR ''f'' then 12 else if k = CHR ''r'' then 13 else of_char k, r))"

fun unesc :: "string \<Rightarrow> nat \<times> string" where
  "unesc [] = (0, [])"
| "unesc (c # r) = (if (of_char c :: nat) \<noteq> 92 then (of_char c, r) else unesc_letter r)"

lemma hex_val_digit [simp]: "n < 16 \<Longrightarrow> hex_val (hex_digit n) = n"
  by (simp add: hex_val_def hex_digit_code Let_def)

lemma unesc_json_esc: "unesc (json_esc c @ r) = (of_char c, r)"
proof -
  have "hex_val (hex_digit (of_char c div 16)) * 16 + hex_val (hex_digit (of_char c mod 16)) = of_char c"
    if "(of_char c :: nat) < 32"
  proof -
    have "(of_char c :: nat) div 16 < 16" using that by simp
    then show ?thesis by simp
  qed
  then show ?thesis unfolding json_esc_def Let_def by simp
qed

lemma json_esc_prefix_free: "json_esc c @ x = json_esc d @ y \<Longrightarrow> c = d \<and> x = y"
  using unesc_json_esc [of c x] unesc_json_esc [of d y] by (metis of_char_eq prod.inject)

lemma json_body_delim:
  "concat (map json_esc s) @ CHR 0x22 # r = concat (map json_esc t) @ CHR 0x22 # r' \<Longrightarrow> s = t \<and> r = r'"
proof (induction s arbitrary: t)
  case Nil
  then show ?case using json_esc_head [of "hd t"] by (cases t) auto
next
  case (Cons c s)
  then obtain d t' where t: "t = d # t'"
    using json_esc_head [of c] by (cases t) auto
  with Cons.prems have "json_esc c @ (concat (map json_esc s) @ CHR 0x22 # r)
      = json_esc d @ (concat (map json_esc t') @ CHR 0x22 # r')" by simp
  from json_esc_prefix_free [OF this] Cons.IH t show ?case by blast
qed

lemma json_string_delim: "json_string s @ r = json_string t @ r' \<longleftrightarrow> s = t \<and> r = r'"
  using json_body_delim [of s r t r'] by (auto simp: json_string_def)

lemma json_string_one_line: "CHR 0x0A \<notin> set (json_string s)"
proof -
  have hex: "CHR 0x0A \<noteq> hex_digit k" if "k < 16" for k
  proof
    assume "CHR 0x0A = hex_digit k"
    then have "(10 :: nat) = (if k < 10 then 48 + k else 87 + k)"
      using hex_digit_code [OF that] by (metis of_char_Char_10)
    then show False by (simp split: if_splits)
  qed
  have "CHR 0x0A \<notin> set (json_esc c)" for c
  proof (cases "(of_char c :: nat) < 32")
    case True
    then have "(of_char c :: nat) div 16 < 16" "(of_char c :: nat) mod 16 < 16" by simp_all
    then show ?thesis using hex True by (simp add: json_esc_def Let_def)
  next
    case False
    then have "c \<noteq> CHR 0x0A" by auto
    then show ?thesis using False by (simp add: json_esc_def Let_def)
  qed
  then show ?thesis by (auto simp: json_string_def)
qed

section \<open>Flat objects\<close>

datatype json_atom = AStr string | AInt int

fun atom_text :: "json_atom \<Rightarrow> string" where
  "atom_text (AStr s) = json_string s"
| "atom_text (AInt i) = show_int i"

definition json_field :: "string \<times> json_atom \<Rightarrow> string" where
  "json_field f = json_string (fst f) @ '':'' @ atom_text (snd f)"

definition json_object :: "(string \<times> json_atom) list \<Rightarrow> string" where
  "json_object fs = ''{'' @ join '','' (map json_field fs) @ ''}''"

text \<open>\<open>Object.keys(obj).sort()\<close>, then the object rebuilt in that order.\<close>

definition canonicalize :: "(string \<times> json_atom) list \<Rightarrow> string" where
  "canonicalize obj = json_object (sort_key fst obj)"

lemma json_atom_delim:
  assumes "atom_text a @ c # r = atom_text b @ d # r'" "c \<in> {CHR '','', CHR ''}''}" "d \<in> {CHR '','', CHR ''}''}"
  shows "a = b \<and> c # r = d # r'"
proof -
  have nd: "\<not> is_digit c" "\<not> is_digit d" using assms(2,3) by (auto simp: is_digit_def)
  have head: "hd (show_int i @ xs) \<noteq> CHR 0x22" for i xs
    using show_nat_digits [of "hd (show_nat (nat i))" "nat i"]
    by (auto simp: show_int_def is_digit_def)
  show ?thesis
  proof (cases a; cases b)
    fix i j assume "a = AInt i" "b = AInt j"
    then show ?thesis using show_int_delim [OF _ refl refl nd] assms(1) by auto
  next
    fix s t assume "a = AStr s" "b = AStr t"
    then show ?thesis using assms(1) by (simp add: json_string_delim)
  next
    fix i s assume "a = AInt i" "b = AStr s"
    then show ?thesis using arg_cong [OF assms(1), of hd] head by (simp add: json_string_def)
  next
    fix i s assume "a = AStr s" "b = AInt i"
    then show ?thesis using arg_cong [OF assms(1), of hd] head by (simp add: json_string_def) metis
  qed
qed

lemma json_fields_inject:
  "join '','' (map json_field fs) @ ''}'' = join '','' (map json_field gs) @ ''}'' \<Longrightarrow> fs \<noteq> [] \<Longrightarrow> gs \<noteq> [] \<Longrightarrow> fs = gs"
proof (induction fs arbitrary: gs)
  case (Cons f fs)
  then obtain g gs' where gs: "gs = g # gs'" by (cases gs) auto
  have unfold: "\<exists>c r. join '','' (map json_field (f # fs)) @ ''}'' = json_string (fst f) @ '':'' @ atom_text (snd f) @ c # r \<and>
      (fs = [] \<and> c # r = ''}'' \<or> fs \<noteq> [] \<and> c # r = CHR '','' # join '','' (map json_field fs) @ ''}'')" for f fs
    by (cases fs) (auto simp: json_field_def)
  obtain c r where 1: "join '','' (map json_field (f # fs)) @ ''}'' = json_string (fst f) @ '':'' @ atom_text (snd f) @ c # r"
    "fs = [] \<and> c # r = ''}'' \<or> fs \<noteq> [] \<and> c # r = CHR '','' # join '','' (map json_field fs) @ ''}''"
    using unfold [of f fs] by blast
  obtain d r' where 2: "join '','' (map json_field (g # gs')) @ ''}'' = json_string (fst g) @ '':'' @ atom_text (snd g) @ d # r'"
    "gs' = [] \<and> d # r' = ''}'' \<or> gs' \<noteq> [] \<and> d # r' = CHR '','' # join '','' (map json_field gs') @ ''}''"
    using unfold [of g gs'] by blast
  from Cons.prems(1) have "json_string (fst f) @ '':'' @ atom_text (snd f) @ c # r
      = json_string (fst g) @ '':'' @ atom_text (snd g) @ d # r'" unfolding gs 1(1) 2(1) .
  then have "fst f = fst g" "atom_text (snd f) @ c # r = atom_text (snd g) @ d # r'"
    by (simp_all add: json_string_delim)
  moreover have "c \<in> {CHR '','', CHR ''}''}" "d \<in> {CHR '','', CHR ''}''}" using 1(2) 2(2) by auto
  ultimately have "snd f = snd g" "c # r = d # r'" "fst f = fst g" using json_atom_delim by blast+
  then show ?case using Cons.IH [of gs'] 1(2) 2(2) gs by (auto simp: prod_eq_iff)
qed simp

lemma json_object_inject: "json_object fs = json_object gs \<Longrightarrow> fs \<noteq> [] \<Longrightarrow> gs \<noteq> [] \<Longrightarrow> fs = gs"
  using json_fields_inject [of fs gs] by (simp add: json_object_def)

lemma json_object_one_line: "CHR 0x0A \<notin> set (json_object fs)"
proof -
  have "CHR 0x0A \<notin> set (show_nat n)" for n
    using show_nat_digits [of "CHR 0x0A" n] by (auto simp: is_digit_def)
  then have atom: "CHR 0x0A \<notin> set (atom_text a)" for a
    by (cases a) (auto simp: json_string_one_line show_int_def)
  have "CHR 0x0A \<notin> set (json_field f)" for f
    by (simp add: json_field_def json_string_one_line atom)
  then have "CHR 0x0A \<notin> set (join '','' (map json_field fs))"
    using set_join [of "'',''" "map json_field fs"] by auto
  then show ?thesis by (simp add: json_object_def)
qed

lemma assoc_list_by_set:
  assumes "map fst xs = map fst ys" "distinct (map fst xs)" "set xs = set ys"
  shows "xs = ys"
proof (rule nth_equalityI)
  show len: "length xs = length ys" using assms(1) by (metis length_map)
  fix i assume i: "i < length xs"
  then have "ys ! i \<in> set xs" using assms(3) len by simp
  then obtain j where j: "j < length xs" "xs ! j = ys ! i" by (metis in_set_conv_nth)
  then have "map fst xs ! j = map fst xs ! i" using i len assms(1) by (metis nth_map)
  then show "xs ! i = ys ! i" using j i assms(2) by (metis length_map nth_eq_iff_index_eq)
qed

lemma canonicalize_inject:
  assumes "canonicalize xs = canonicalize ys" "map fst xs = map fst ys" "distinct (map fst xs)" "xs \<noteq> []"
  shows "xs = ys"
proof -
  have "ys \<noteq> []" using assms(2,4) by auto
  then have "sort_key fst xs = sort_key fst ys"
    using assms(1,4) unfolding canonicalize_def
    by (intro json_object_inject) (metis sort_key_simps(1) mset_sort mset_zero_iff)+
  then have "set xs = set ys" by (metis set_sort)
  with assms(2,3) show ?thesis by (rule assoc_list_by_set)
qed

end
