(* ===== verification/Routing_Table.thy ===== *)
theory Routing_Table
  imports Json_Text
begin

text \<open>
  \<open>runtime/routing-table.ts\<close>: the table that decides over which transport a tool call leaves the
  process, with its failure counters; and \<open>gateway/mcp-compat.ts\<close>: tool aliases and the adaption
  of requests and responses for older MCP clients. \<open>localeCompare\<close> is the parameter \<open>le\<close>.
\<close>

section \<open>Compatibility layer\<close>

record server_info =
  si_name :: string
  si_version :: string

record mcp_request =
  rq_method :: string
  rq_params :: jval

record mcp_response =
  rs_id :: jval
  rs_result :: jval
  rs_error :: jval

definition MCP_PROTOCOL_VERSION_LEGACY :: string where
  "MCP_PROTOCOL_VERSION_LEGACY = ''2025-11-25''"

definition build_legacy_initialize_response :: "server_info \<Rightarrow> jval \<Rightarrow> mcp_response" where
  "build_legacy_initialize_response serverInfo i =
     \<lparr>rs_id = (if i = JUndef then JNull else i),
      rs_result = JObj None
        [(''protocolVersion'', JStr MCP_PROTOCOL_VERSION_LEGACY),
         (''capabilities'', JObj None
            [(''tools'', JObj None [(''listChanged'', JBool True)]),
             (''resources'', JObj None [(''listChanged'', JBool True)]),
             (''prompts'', JObj None [(''listChanged'', JBool True)])]),
         (''serverInfo'', JObj None [(''name'', JStr (si_name serverInfo)), (''version'', JStr (si_version serverInfo))])],
      rs_error = JUndef\<rparr>"

definition is_legacy_request :: "mcp_request \<Rightarrow> bool" where
  "is_legacy_request request =
     (if rq_method request = ''initialize'' \<or> rq_method request = ''notifications/initialized'' then True
      else
        (let meta = opt_prop (rq_params request) ''_meta'';
             version = opt_prop meta ''io.modelcontextprotocol/protocolVersion'' in
         \<not> truthy version \<or> version = JStr MCP_PROTOCOL_VERSION_LEGACY))"

text \<open>\<open>{ ...v }\<close> on an object or array.\<close>

fun spread :: "jval \<Rightarrow> (string \<times> jval) list" where
  "spread (JObj i fs) = fs"
| "spread (JArr i xs) = map (\<lambda>(n, x). (show_nat n, x)) (List.enumerate 0 xs)"
| "spread v = []"

definition adapt_response_for_legacy_client :: "mcp_response \<Rightarrow> mcp_response" where
  "adapt_response_for_legacy_client response =
     (if \<not> truthy (rs_result response) \<or> \<not> is_object (rs_result response) then response
      else
        (let rawResult = spread (rs_result response);
             rawResult = AList.delete ''resultType'' rawResult;
             rawResult = AList.delete ''ttlMs'' rawResult;
             rawResult = AList.delete ''cacheScope'' rawResult
         in response\<lparr>rs_result := JObj None rawResult\<rparr>))"

definition TOOL_ALIASES :: "(string \<times> string) list" where
  "TOOL_ALIASES =
    [(''bank_tool'', ''Analyze_Synthetic_Bank_Transactions''),
     (''bank_tool_XDwd'', ''Analyze_Synthetic_Bank_Transactions''),
     (''vault_tool'', ''Analyze_Synthetic_Medical_Records''),
     (''vault_tool_E8wP'', ''Analyze_Synthetic_Medical_Records''),
     (''oracle_tool'', ''Analyze_HFT_Market_Data''),
     (''compute_aggregate'', ''Analyze_Synthetic_Bank_Transactions'')]"

definition field :: "(string \<times> jval) list \<Rightarrow> string \<Rightarrow> jval" where
  "field obj k = (case map_of obj k of None \<Rightarrow> JUndef | Some v \<Rightarrow> v)"

definition normalize_tool_arguments :: "(string \<times> jval) list option \<Rightarrow> (string \<times> jval) list" where
  "normalize_tool_arguments args =
     (case args of
        None \<Rightarrow> []
      | Some normalized \<Rightarrow>
          if field normalized ''data'' \<noteq> JUndef then
            (let normalized = (if field normalized ''payload'' = JUndef
                               then AList.update ''payload'' (field normalized ''data'') normalized else normalized);
                 normalized = (if field normalized ''envelope'' = JUndef
                               then AList.update ''envelope'' (field normalized ''data'') normalized else normalized)
             in normalized)
          else normalized)"

section \<open>Routes\<close>

datatype transport_provider = Http_Gateway | P2p_Grpc | Local

record tool_definition =
  td_name :: string
  td_description :: "string option"
  td_inputSchema :: "jval option"

record tool_route =
  tr_name :: string
  tr_provider :: transport_provider
  tr_endpoint :: string
  tr_description :: "string option"
  tr_inputSchema :: "jval option"
  tr_latencyMs :: int
  tr_failCount :: nat
  tr_lastSuccess :: int
  tr_authRequired :: bool

type_synonym routing_table = "(string, tool_route) js_map"

definition MAX_FAILURES :: nat where
  "MAX_FAILURES = 5"

text \<open>\<open>a ?? b?.field\<close>\<close>

fun orelse :: "'a option \<Rightarrow> 'a option \<Rightarrow> 'a option" where
  "orelse (Some x) y = Some x"
| "orelse None y = y"

definition new_route ::
    "transport_provider \<Rightarrow> string \<Rightarrow> bool \<Rightarrow> time_ms \<Rightarrow> tool_route option \<Rightarrow> tool_definition \<Rightarrow> tool_route" where
  "new_route provider endpoint authRequired now existing tool =
     \<lparr>tr_name = td_name tool, tr_provider = provider, tr_endpoint = endpoint,
      tr_description = orelse (td_description tool) (Option.bind existing tr_description),
      tr_inputSchema = orelse (td_inputSchema tool) (Option.bind existing tr_inputSchema),
      tr_latencyMs = (case existing of None \<Rightarrow> 0 | Some r \<Rightarrow> tr_latencyMs r),
      tr_failCount = 0,
      tr_lastSuccess = (case existing of None \<Rightarrow> now | Some r \<Rightarrow> tr_lastSuccess r),
      tr_authRequired = authRequired\<rparr>"

definition register_gateway_tools ::
    "time_ms \<Rightarrow> tool_definition list \<Rightarrow> string \<Rightarrow> bool \<Rightarrow> routing_table \<Rightarrow> routing_table" where
  "register_gateway_tools now tools mcpEndpoint authRequired routes =
     fold (\<lambda>tool routes. AList.update (td_name tool)
             (new_route Http_Gateway mcpEndpoint authRequired now (map_of routes (td_name tool)) tool) routes)
       tools routes"

definition healthy_gateway :: "tool_route option \<Rightarrow> bool" where
  "healthy_gateway existing =
     (case existing of None \<Rightarrow> False | Some r \<Rightarrow> tr_provider r = Http_Gateway \<and> tr_failCount r = 0)"

definition register_mesh_tools ::
    "time_ms \<Rightarrow> tool_definition list \<Rightarrow> string \<Rightarrow> bool \<Rightarrow> routing_table \<Rightarrow> routing_table" where
  "register_mesh_tools now tools grpcTarget authRequired routes =
     fold (\<lambda>tool routes.
             (let existing = map_of routes (td_name tool) in
              if healthy_gateway existing then routes
              else AList.update (td_name tool) (new_route P2p_Grpc grpcTarget authRequired now existing tool) routes))
       tools routes"

definition register_local_tool :: "time_ms \<Rightarrow> tool_definition \<Rightarrow> routing_table \<Rightarrow> routing_table" where
  "register_local_tool now tool routes =
     AList.update (td_name tool)
       \<lparr>tr_name = td_name tool, tr_provider = Local, tr_endpoint = ''in-process'',
        tr_description = td_description tool, tr_inputSchema = td_inputSchema tool, tr_latencyMs = 0,
        tr_failCount = 0, tr_lastSuccess = now, tr_authRequired = False\<rparr> routes"

text \<open>
  The aliases are an object literal; a name inherited from \<open>Object.prototype\<close> yields a value that
  is no key of the \<open>Map\<close>, and the second lookup applies, as it does for a name without alias.
\<close>

definition resolve :: "string \<Rightarrow> routing_table \<Rightarrow> tool_route option" where
  "resolve toolName routes =
     (let targetName = (case map_of TOOL_ALIASES toolName of None \<Rightarrow> toolName | Some a \<Rightarrow> a) in
      orelse (map_of routes targetName) (map_of routes toolName))"

definition circuit_tripped :: "tool_route \<Rightarrow> bool" where
  "circuit_tripped route \<longleftrightarrow> MAX_FAILURES \<le> tr_failCount route"

definition record_success :: "time_ms \<Rightarrow> string \<Rightarrow> int \<Rightarrow> routing_table \<Rightarrow> routing_table" where
  "record_success now toolName latencyMs routes =
     (case map_of routes toolName of
        None \<Rightarrow> routes
      | Some route \<Rightarrow>
          AList.update toolName
            (route\<lparr>tr_failCount := 0, tr_latencyMs := latencyMs, tr_lastSuccess := now\<rparr>) routes)"

definition record_failure :: "string \<Rightarrow> routing_table \<Rightarrow> routing_table" where
  "record_failure toolName routes =
     (case map_of routes toolName of
        None \<Rightarrow> routes
      | Some route \<Rightarrow> AList.update toolName (route\<lparr>tr_failCount := tr_failCount route + 1\<rparr>) routes)"

text \<open>The stable \<open>Array.prototype.sort\<close> for a comparison \<open>le\<close>.\<close>

fun insert_by :: "('a \<Rightarrow> 'a \<Rightarrow> bool) \<Rightarrow> 'a \<Rightarrow> 'a list \<Rightarrow> 'a list" where
  "insert_by le x [] = [x]"
| "insert_by le x (y # ys) = (if le x y then x # y # ys else y # insert_by le x ys)"

definition sort_by :: "('a \<Rightarrow> 'a \<Rightarrow> bool) \<Rightarrow> 'a list \<Rightarrow> 'a list" where
  "sort_by le xs = foldr (insert_by le) xs []"

definition get_all_tool_definitions :: "(string \<Rightarrow> string \<Rightarrow> bool) \<Rightarrow> routing_table \<Rightarrow> tool_definition list" where
  "get_all_tool_definitions le routes =
     sort_by (\<lambda>a b. le (td_name a) (td_name b))
       (map (\<lambda>(_, route). \<lparr>td_name = tr_name route, td_description = tr_description route,
                            td_inputSchema = tr_inputSchema route\<rparr>) routes)"

definition get_route :: "string \<Rightarrow> routing_table \<Rightarrow> tool_route option" where
  "get_route toolName routes = map_of routes toolName"

definition size_of :: "routing_table \<Rightarrow> nat" where
  "size_of routes = length routes"

definition clear :: "routing_table \<Rightarrow> routing_table" where
  "clear routes = []"

section \<open>Lemmas\<close>

lemma insert_by_mset [simp]: "mset (insert_by le x xs) = add_mset x (mset xs)"
  by (induction xs) auto

lemma insert_by_set [simp]: "set (insert_by le x xs) = insert x (set xs)"
  by (induction xs) auto

lemma sort_by_Cons [simp]: "sort_by le [] = []" "sort_by le (x # xs) = insert_by le x (sort_by le xs)"
  by (simp_all add: sort_by_def)

lemma sort_by_mset [simp]: "mset (sort_by le xs) = mset xs"
  by (induction xs) auto

lemma insert_by_sorted:
  assumes "\<And>x y. le x y \<or> le y x" "\<And>x y z. le x y \<Longrightarrow> le y z \<Longrightarrow> le x z"
  shows "sorted_wrt le xs \<Longrightarrow> sorted_wrt le (insert_by le x xs)"
proof (induction xs)
  case (Cons y ys)
  show ?case
  proof (cases "le x y")
    case True
    then show ?thesis using Cons.prems assms(2) [of x y] by auto
  next
    case False
    then show ?thesis using Cons assms(1) [of x y] by auto
  qed
qed simp

lemma sort_by_sorted:
  assumes "\<And>x y. le x y \<or> le y x" "\<And>x y z. le x y \<Longrightarrow> le y z \<Longrightarrow> le x z"
  shows "sorted_wrt le (sort_by le xs)"
proof (induction xs)
  case (Cons x xs)
  then show ?case using insert_by_sorted [of le] assms by simp
qed simp

definition table_inv :: "routing_table \<Rightarrow> bool" where
  "table_inv routes \<longleftrightarrow> distinct (map fst routes) \<and> list_all (\<lambda>(k, r). tr_name r = k) routes"

lemma table_inv_update: "table_inv routes \<Longrightarrow> tr_name r = k \<Longrightarrow> table_inv (AList.update k r routes)"
proof -
  assume "table_inv routes" "tr_name r = k"
  moreover have "list_all (\<lambda>(k, r). tr_name r = k) (AList.update k r routes)"
    if "list_all (\<lambda>(k, r). tr_name r = k) routes" "tr_name r = k"
    using that by (induction routes) auto
  ultimately show ?thesis by (simp add: table_inv_def distinct_update)
qed

lemma table_inv_name: "table_inv routes \<Longrightarrow> map_of routes k = Some r \<Longrightarrow> tr_name r = k"
  by (auto simp: table_inv_def list_all_iff dest: map_of_SomeD)

lemma new_route_name [simp]: "tr_name (new_route p e a now ex tool) = td_name tool"
  by (simp add: new_route_def)

datatype routing_event =
  Gateway time_ms "tool_definition list" string bool
| Mesh time_ms "tool_definition list" string bool
| Local_Tool time_ms tool_definition
| Success time_ms string int
| Failure string
| Clear

fun routing_step :: "routing_table \<Rightarrow> routing_event \<Rightarrow> routing_table" where
  "routing_step t (Gateway now tools ep auth) = register_gateway_tools now tools ep auth t"
| "routing_step t (Mesh now tools tgt auth) = register_mesh_tools now tools tgt auth t"
| "routing_step t (Local_Tool now tool) = register_local_tool now tool t"
| "routing_step t (Success now k lat) = record_success now k lat t"
| "routing_step t (Failure k) = record_failure k t"
| "routing_step t Clear = clear t"

lemma gateway_inv: "table_inv t \<Longrightarrow> table_inv (register_gateway_tools now tools ep auth t)"
  unfolding register_gateway_tools_def
  by (induction tools arbitrary: t) (simp_all add: table_inv_update)

lemma mesh_inv: "table_inv t \<Longrightarrow> table_inv (register_mesh_tools now tools tgt auth t)"
  unfolding register_mesh_tools_def
  by (induction tools arbitrary: t) (simp_all add: Let_def table_inv_update)

interpretation routing: preserved routing_step table_inv
proof
  fix t e assume inv: "table_inv t"
  then show "table_inv (routing_step t e)"
    by (cases e)
       (simp_all add: gateway_inv mesh_inv register_local_tool_def record_success_def record_failure_def clear_def
          table_inv_def [of "[]"] table_inv_update table_inv_name split: option.split)
qed

lemma mesh_lookup:
  "map_of (register_mesh_tools now tools tgt auth t) k =
     (if healthy_gateway (map_of t k) then map_of t k
      else fold (\<lambda>tool ex. if td_name tool = k then Some (new_route P2p_Grpc tgt auth now ex tool) else ex)
             tools (map_of t k))"
  unfolding register_mesh_tools_def
proof (induction tools arbitrary: t)
  case (Cons tool tools)
  have mesh: "\<not> healthy_gateway (Some (new_route P2p_Grpc tgt auth now ex tl))" for ex tl
    by (simp add: healthy_gateway_def new_route_def)
  show ?case
    using Cons [of "if healthy_gateway (map_of t (td_name tool)) then t
        else AList.update (td_name tool) (new_route P2p_Grpc tgt auth now (map_of t (td_name tool)) tool) t"] mesh
    by (auto simp: Let_def jm.get_put)
qed simp

lemma mesh_fold_last:
  "k \<in> td_name ` set tools \<Longrightarrow>
     \<exists>ex tool. td_name tool = k \<and> tool \<in> set tools \<and>
       fold (\<lambda>tool ex. if td_name tool = k then Some (new_route P2p_Grpc tgt auth now ex tool) else ex) tools ex0
         = Some (new_route P2p_Grpc tgt auth now ex tool)"
proof (induction tools arbitrary: ex0 rule: rev_induct)
  case (snoc t ts)
  show ?case
  proof (cases "td_name t = k")
    case False
    with snoc.prems snoc.IH [of ex0] show ?thesis by fastforce
  qed auto
qed simp

lemma mesh_fold_other:
  "k \<notin> td_name ` set tools \<Longrightarrow>
     fold (\<lambda>tool ex. if td_name tool = k then Some (new_route P2p_Grpc tgt auth now ex tool) else ex) tools ex = ex"
  by (induction tools arbitrary: ex) auto

section \<open>Properties\<close>

text \<open>
  Mesh discovery never displaces a healthy gateway: after \<open>registerMeshTools\<close>, a tool with a
  gateway route that has no failures keeps exactly that route, a tool that was not announced
  keeps its route, and every other announced tool is routed to the announced gRPC target with
  its failure counter reset.
\<close>

theorem register_mesh_tools_lookup:
  "case map_of (register_mesh_tools now tools grpcTarget auth routes) k of
     None \<Rightarrow> k \<notin> td_name ` set tools \<and> map_of routes k = None
   | Some r \<Rightarrow>
       if healthy_gateway (map_of routes k) then map_of routes k = Some r
       else if k \<in> td_name ` set tools
       then tr_name r = k \<and> tr_provider r = P2p_Grpc \<and> tr_endpoint r = grpcTarget \<and> tr_failCount r = 0 \<and>
            tr_authRequired r = auth
       else map_of routes k = Some r"
proof (cases "k \<in> td_name ` set tools")
  case True
  from mesh_fold_last [OF True, of grpcTarget auth now "map_of routes k"] show ?thesis
    by (auto simp: mesh_lookup True new_route_def healthy_gateway_def split: option.splits)
next
  case False
  then show ?thesis by (auto simp: mesh_lookup mesh_fold_other split: option.splits)
qed

text \<open>
  \<open>tools/list\<close> is sorted and complete: after any sequence of registrations, outcomes and
  clears, \<open>getAllToolDefinitions\<close> lists every registered tool exactly once, ordered by the
  comparison of names.
\<close>

theorem tools_list_sorted_complete:
  assumes "\<And>x y. le x y \<or> le y x" "\<And>x y z. le x y \<Longrightarrow> le y z \<Longrightarrow> le x z"
  shows "let routes = run routing_step [] events; names = map td_name (get_all_tool_definitions le routes) in
     sorted_wrt le names \<and> distinct names \<and> set names = dom (map_of routes)"
proof -
  let ?r = "run routing_step [] events"
  let ?defs = "map (\<lambda>(_, route). \<lparr>td_name = tr_name route, td_description = tr_description route,
                            td_inputSchema = tr_inputSchema route\<rparr>) ?r"
  have "table_inv ?r" by (rule routing.run_inv) (simp add: table_inv_def)
  then have names: "map td_name ?defs = map fst ?r" and dist: "distinct (map fst ?r)"
    by (auto simp: table_inv_def list_all_iff)
  have "mset (map td_name (get_all_tool_definitions le ?r)) = mset (map fst ?r)"
    unfolding get_all_tool_definitions_def names [symmetric] by (simp only: mset_map sort_by_mset)
  moreover have "sorted_wrt (\<lambda>a b. le (td_name a) (td_name b)) (get_all_tool_definitions le ?r)"
    unfolding get_all_tool_definitions_def by (rule sort_by_sorted) (use assms in blast)+
  ultimately show ?thesis
    using dist mset_eq_imp_distinct_iff [of "map td_name (get_all_tool_definitions le ?r)" "map fst ?r"]
      mset_eq_setD [of "map td_name (get_all_tool_definitions le ?r)" "map fst ?r"]
    by (simp add: Let_def sorted_wrt_map dom_map_of_conv_image_fst del: mset_map set_map) simp
qed

theorem tools_list_sorted_complete_witness:
  "map td_name (get_all_tool_definitions (\<le>) (run routing_step []
     [Gateway 0 [\<lparr>td_name = ''b'', td_description = None, td_inputSchema = None\<rparr>] ''e'' True,
      Mesh 0 [\<lparr>td_name = ''a'', td_description = None, td_inputSchema = None\<rparr>] ''g'' False])) = [''a'', ''b''] \<and>
   sorted_wrt (\<le>) (map td_name (get_all_tool_definitions (\<le>) (run routing_step []
     [Gateway 0 [\<lparr>td_name = ''b'', td_description = None, td_inputSchema = None\<rparr>] ''e'' True,
      Mesh 0 [\<lparr>td_name = ''a'', td_description = None, td_inputSchema = None\<rparr>] ''g'' False])))"
proof
  show "sorted_wrt (\<le>) (map td_name (get_all_tool_definitions (\<le>) (run routing_step []
     [Gateway 0 [\<lparr>td_name = ''b'', td_description = None, td_inputSchema = None\<rparr>] ''e'' True,
      Mesh 0 [\<lparr>td_name = ''a'', td_description = None, td_inputSchema = None\<rparr>] ''g'' False])))"
    using tools_list_sorted_complete [of "(\<le>)"] unfolding Let_def by (meson linear order_trans)
qed (simp add: register_gateway_tools_def register_mesh_tools_def new_route_def get_all_tool_definitions_def
      healthy_gateway_def Let_def less_eq_char_def)

text \<open>
  The circuit breaker does not break the circuit, and it does not see aliases: however often
  a tool fails, \<open>resolve\<close> keeps returning its route with the failures counted; and failures
  reported under an alias that is not itself a registered name are not counted at all.
\<close>

theorem breaker_never_opens:
  assumes "map_of routes name = Some route" "map_of TOOL_ALIASES name = None"
    "map_of TOOL_ALIASES short = Some name" "map_of routes short = None"
  shows "resolve name ((record_failure name ^^ n) routes) = Some (route\<lparr>tr_failCount := tr_failCount route + n\<rparr>) \<and>
     resolve short ((record_failure short ^^ n) routes) = Some route"
proof -
  have own: "map_of ((record_failure name ^^ n) routes) name = Some (route\<lparr>tr_failCount := tr_failCount route + n\<rparr>)"
    by (induction n) (simp_all add: assms(1) record_failure_def)
  have "(record_failure short ^^ n) routes = routes"
    by (induction n) (simp_all add: assms(4) record_failure_def)
  with own assms show ?thesis by (simp add: resolve_def)
qed

theorem breaker_never_opens_witness:
  "let t = register_gateway_tools 0 [\<lparr>td_name = ''Analyze_HFT_Market_Data'', td_description = None,
            td_inputSchema = None\<rparr>] ''e'' True [] in
   \<exists>r. resolve ''oracle_tool'' ((record_failure ''oracle_tool'' ^^ 9) t) = Some r \<and> \<not> circuit_tripped r \<and>
       (\<exists>r'. resolve ''Analyze_HFT_Market_Data'' ((record_failure ''Analyze_HFT_Market_Data'' ^^ 9) t) = Some r' \<and>
             circuit_tripped r')"
proof -
  let ?t = "register_gateway_tools 0 [\<lparr>td_name = ''Analyze_HFT_Market_Data'', td_description = None,
            td_inputSchema = None\<rparr>] ''e'' True []"
  obtain r where r: "map_of ?t ''Analyze_HFT_Market_Data'' = Some r" "tr_failCount r = 0"
    by (simp add: register_gateway_tools_def new_route_def)
  have "resolve ''Analyze_HFT_Market_Data'' ((record_failure ''Analyze_HFT_Market_Data'' ^^ 9) ?t)
       = Some (r\<lparr>tr_failCount := tr_failCount r + 9\<rparr>) \<and>
     resolve ''oracle_tool'' ((record_failure ''oracle_tool'' ^^ 9) ?t) = Some r"
    by (rule breaker_never_opens [OF r(1)]) (simp_all add: TOOL_ALIASES_def register_gateway_tools_def)
  with r(2) show ?thesis unfolding Let_def by (simp add: circuit_tripped_def MAX_FAILURES_def)
qed

end
