(* ===== verification/Token_Manager.thy ===== *)
theory Token_Manager
  imports Js_Values
begin

text \<open>
  \<open>runtime/token-manager.ts\<close>: the client-credentials token cache. The class is asynchronous: a
  refresh is one promise shared by all callers. The model is a state machine whose events are
  the points where the event loop hands over control: a call of \<open>getToken\<close>, the end of
  \<open>fetchNewToken\<close> (which writes \<open>expiresAt\<close>), the continuation of the shared promise (which writes
  \<open>cachedToken\<close>), and \<open>invalidate\<close>. The HTTP response is part of the event.
\<close>

section \<open>Model\<close>

record token_manager_options =
  to_tokenEndpoint :: string
  to_clientId :: string
  to_clientSecret :: string
  to_audience :: "string option"
  to_scopes :: "(string + string list) option"
  to_staticToken :: "string option"

text \<open>The pending promise: the request is on its way, or the token is received but not yet cached.\<close>

datatype phase = Requesting | Received string

record token_manager =
  tm_cachedToken :: "string option"
  tm_expiresAt :: int
  tm_pendingPromise :: "phase option"
  tm_tokenEndpoint :: string
  tm_clientId :: string
  tm_clientSecret :: string
  tm_audience :: string
  tm_scope :: string
  tm_staticToken :: "string option"
  tm_requests :: nat         \<comment> \<open>requests sent to the token endpoint so far\<close>

definition REFRESH_BUFFER_MS :: int where
  "REFRESH_BUFFER_MS = 30000"

definition token_manager_new :: "token_manager_options \<Rightarrow> token_manager" where
  "token_manager_new options =
     \<lparr>tm_cachedToken = None, tm_expiresAt = 0, tm_pendingPromise = None,
      tm_tokenEndpoint = to_tokenEndpoint options, tm_clientId = to_clientId options,
      tm_clientSecret = to_clientSecret options,
      tm_audience = (case to_audience options of None \<Rightarrow> ''urn:liop:mesh:api'' | Some a \<Rightarrow> a),
      tm_scope = (case to_scopes options of
          Some (Inr scopes) \<Rightarrow> join '' '' scopes
        | Some (Inl scope) \<Rightarrow> scope
        | None \<Rightarrow> ''liop:tools:call liop:tools:list liop:resources:read liop:schema:read liop:mesh:query''),
      tm_staticToken = to_staticToken options, tm_requests = 0\<rparr>"

text \<open>An optional string used as a condition.\<close>

fun present :: "string option \<Rightarrow> bool" where
  "present None = False"
| "present (Some s) = (s \<noteq> [])"

datatype get_result =
  Token string     \<comment> \<open>resolved at once\<close>
| Joined           \<comment> \<open>the pending promise\<close>

definition get_token :: "time_ms \<Rightarrow> token_manager \<Rightarrow> token_manager \<times> get_result" where
  "get_token now m =
     (if present (tm_staticToken m) then (m, Token (the (tm_staticToken m)))
      else if present (tm_cachedToken m) \<and> now < tm_expiresAt m - REFRESH_BUFFER_MS
      then (m, Token (the (tm_cachedToken m)))
      else if tm_pendingPromise m \<noteq> None then (m, Joined)
      else (m\<lparr>tm_pendingPromise := Some Requesting, tm_requests := tm_requests m + 1\<rparr>, Joined))"

definition invalidate :: "token_manager \<Rightarrow> token_manager" where
  "invalidate m =
     (let m = m\<lparr>tm_cachedToken := None, tm_expiresAt := 0\<rparr> in
      if tm_clientId m \<noteq> [] \<and> tm_clientSecret m \<noteq> [] then m\<lparr>tm_staticToken := None\<rparr> else m)"

definition is_expired :: "time_ms \<Rightarrow> token_manager \<Rightarrow> bool" where
  "is_expired now m =
     (if present (tm_staticToken m) then False
      else \<not> present (tm_cachedToken m) \<or> tm_expiresAt m - REFRESH_BUFFER_MS \<le> now)"

definition get_expires_at :: "token_manager \<Rightarrow> int" where
  "get_expires_at m = tm_expiresAt m"

datatype http_response =
  Failed                                   \<comment> \<open>network error or timeout\<close>
| Http_Error nat string
| Json "string option" "int option"        \<comment> \<open>\<open>access_token\<close>, and \<open>expires_in\<close> when it is a number\<close>

datatype token_error = Request_Failed | Status_Error nat string | No_Access_Token

text \<open>\<open>fetchNewToken\<close> after the response has arrived.\<close>

definition fetch_new_token :: "time_ms \<Rightarrow> http_response \<Rightarrow> token_manager \<Rightarrow> token_manager \<times> (token_error + string)" where
  "fetch_new_token now response m =
     (case response of
        Failed \<Rightarrow> (m, Inl Request_Failed)
      | Http_Error status text \<Rightarrow> (m, Inl (Status_Error status text))
      | Json access_token expires_in \<Rightarrow>
          if \<not> present access_token then (m, Inl No_Access_Token)
          else
            (let expiresInSec = (case expires_in of None \<Rightarrow> 3600 | Some n \<Rightarrow> n) in
             (m\<lparr>tm_expiresAt := now + expiresInSec * 1000\<rparr>, Inr (the access_token))))"

datatype token_event =
  Get time_ms
| Respond time_ms http_response
| Continue
| Invalidate

fun token_step :: "token_manager \<Rightarrow> token_event \<Rightarrow> token_manager" where
  "token_step m (Get now) = fst (get_token now m)"
| "token_step m (Respond now response) =
     (if tm_pendingPromise m = Some Requesting then
        (case fetch_new_token now response m of
           (m, Inl e) \<Rightarrow> m\<lparr>tm_pendingPromise := None\<rparr>
         | (m, Inr token) \<Rightarrow> m\<lparr>tm_pendingPromise := Some (Received token)\<rparr>)
      else m)"
| "token_step m Continue =
     (case tm_pendingPromise m of
        Some (Received token) \<Rightarrow> m\<lparr>tm_cachedToken := Some token, tm_pendingPromise := None\<rparr>
      | _ \<Rightarrow> m)"
| "token_step m Invalidate = invalidate m"

section \<open>Invariants\<close>

text \<open>The tokens a run received, each with the expiry its response announced.\<close>

fun issued :: "token_event list \<Rightarrow> (string \<times> int) list" where
  "issued [] = []"
| "issued (Respond now (Json (Some t) e) # es) =
     (if t = [] then [] else [(t, now + (case e of None \<Rightarrow> 3600 | Some n \<Rightarrow> n) * 1000)]) @ issued es"
| "issued (_ # es) = issued es"

lemma issued_append [simp]: "issued (es @ fs) = issued es @ issued fs"
  by (induction es rule: issued.induct) auto

definition fresh_inv :: "(string \<times> int) list \<Rightarrow> token_manager \<Rightarrow> bool" where
  "fresh_inv iss m \<longleftrightarrow>
     (case tm_pendingPromise m of
        Some (Received t) \<Rightarrow> tm_expiresAt m = 0 \<or> (t, tm_expiresAt m) \<in> set iss
      | _ \<Rightarrow> tm_expiresAt m = 0 \<or> tm_cachedToken m = None \<or>
             (the (tm_cachedToken m), tm_expiresAt m) \<in> set iss)"

lemma fresh_step:
  "fresh_inv iss m \<Longrightarrow> fresh_inv (iss @ issued [e]) (token_step m e)"
proof (cases e)
  case (Respond now r)
  assume "fresh_inv iss m"
  with Respond show ?thesis
  proof (cases r)
    case (Json t ex)
    with Respond \<open>fresh_inv iss m\<close> show ?thesis
      by (cases t) (auto simp: fresh_inv_def fetch_new_token_def Let_def split: option.splits phase.splits)
  qed (auto simp: fresh_inv_def fetch_new_token_def split: option.splits phase.splits)
qed (auto simp: fresh_inv_def get_token_def invalidate_def Let_def split: option.splits phase.splits)

lemma fresh_run: "fresh_inv [] m \<Longrightarrow> fresh_inv (issued es) (run token_step m es)"
proof (induction es rule: rev_induct)
  case (snoc e es)
  then show ?case using fresh_step [of "issued es" _ e] by simp
qed simp

text \<open>Requests that are answered, and the one that may be on its way.\<close>

fun responses :: "token_event list \<Rightarrow> nat" where
  "responses [] = 0"
| "responses (Respond now r # es) = Suc (responses es)"
| "responses (_ # es) = responses es"

definition answered :: "token_manager \<Rightarrow> nat" where
  "answered m = tm_requests m - (if tm_pendingPromise m = Some Requesting then 1 else 0)"

lemma answered_step:
  "answered (token_step m e) \<le> answered m + responses [e]"
  by (cases e) (auto simp: answered_def get_token_def fetch_new_token_def invalidate_def Let_def
      split: option.splits phase.splits http_response.splits)

lemma answered_run: "answered (run token_step m es) \<le> answered m + responses es"
proof (induction es arbitrary: m)
  case (Cons e es)
  have "responses (e # es) = responses [e] + responses es" by (cases e) auto
  then show ?case using Cons [of "token_step m e"] answered_step [of m e] by simp
qed simp

lemma requests_answered: "tm_requests m \<le> answered m + 1"
  by (auto simp: answered_def)

lemma answered_new: "answered (token_manager_new options) = 0"
  by (simp add: answered_def token_manager_new_def)

lemma static_after_new: "fresh_inv [] (token_manager_new options)"
  by (simp add: fresh_inv_def token_manager_new_def)

section \<open>Properties\<close>

text \<open>
  \<open>getToken\<close> hands out cached tokens only while they are fresh: in any history, a token it
  returns at once, with no static token configured and no refresh about to be stored, was
  issued by the endpoint with an expiry more than 30 seconds ahead.
\<close>

theorem cached_token_fresh:
  assumes "m = run token_step (token_manager_new options) events"
    and "snd (get_token now m) = Token t" "\<not> present (tm_staticToken m)" "0 \<le> now"
    and "\<And>u. tm_pendingPromise m \<noteq> Some (Received u)"
  shows "\<exists>expiry. (t, expiry) \<in> set (issued events) \<and> now + 30000 < expiry"
proof -
  have "fresh_inv (issued events) m" unfolding assms(1) by (rule fresh_run [OF static_after_new])
  moreover have "present (tm_cachedToken m)" "now < tm_expiresAt m - 30000" "t = the (tm_cachedToken m)"
    using assms(2,3) by (auto simp: get_token_def REFRESH_BUFFER_MS_def split: if_splits)
  ultimately show ?thesis
    using assms(4,5) by (auto simp: fresh_inv_def split: option.splits phase.splits)
qed

theorem cached_token_fresh_witness:
  "let m = run token_step (token_manager_new \<lparr>to_tokenEndpoint = ''u'', to_clientId = ''c'', to_clientSecret = ''s'',
             to_audience = None, to_scopes = None, to_staticToken = None\<rparr>)
             [Get 0, Respond 5 (Json (Some ''tok'') (Some 60)), Continue]
   in snd (get_token 1000 m) = Token ''tok'' \<and>
      (\<exists>expiry. (''tok'', expiry) \<in> set (issued [Get 0, Respond 5 (Json (Some ''tok'') (Some 60)), Continue]) \<and>
                1000 + 30000 < expiry)"
proof -
  let ?es = "[Get 0, Respond 5 (Json (Some ''tok'') (Some 60)), Continue]"
  let ?m = "run token_step (token_manager_new \<lparr>to_tokenEndpoint = ''u'', to_clientId = ''c'', to_clientSecret = ''s'',
             to_audience = None, to_scopes = None, to_staticToken = None\<rparr>) ?es"
  have m: "snd (get_token 1000 ?m) = Token ''tok''" "\<not> present (tm_staticToken ?m)" "tm_pendingPromise ?m = None"
    by (simp_all add: token_manager_new_def get_token_def fetch_new_token_def REFRESH_BUFFER_MS_def)
  then show ?thesis
    unfolding Let_def using cached_token_fresh [OF refl m(1,2)] by simp
qed

text \<open>
  Refreshes are single-flight: however many callers ask, the number of requests sent to the
  token endpoint exceeds the number of answers by at most one.
\<close>

theorem token_single_flight:
  "tm_requests (run token_step (token_manager_new options) events) \<le> responses events + 1"
  using requests_answered [of "run token_step (token_manager_new options) events"]
    answered_run [of "token_manager_new options" events]
  by (simp add: answered_new)

text \<open>
  There is a window in which \<open>getToken\<close> returns an expired token: \<open>fetchNewToken\<close> stores the new
  expiry before the promise continuation stores the new token, and a call in between pairs the
  old token with the new expiry.
\<close>

theorem stale_token_window:
  "let events = [Get 0, Respond 0 (Json (Some ''old'') (Some 60)), Continue,
                 Get 100000, Respond 100000 (Json (Some ''new'') (Some 60))];
       m = run token_step (token_manager_new \<lparr>to_tokenEndpoint = ''u'', to_clientId = ''c'', to_clientSecret = ''s'',
             to_audience = None, to_scopes = None, to_staticToken = None\<rparr>) events
   in snd (get_token 100000 m) = Token ''old'' \<and> issued events = [(''old'', 60000), (''new'', 160000)]"
  by (simp add: token_manager_new_def get_token_def fetch_new_token_def REFRESH_BUFFER_MS_def)

end
