(* ===== verification/Mcp_Bridge.thy ===== *)
theory Mcp_Bridge
  imports Routing_Table
begin

text \<open>
  \<open>bridge/index.ts\<close>: the JSON-RPC dispatcher of \<open>LiopMcpBridge\<close> and its check of the receipt a
  tool call returns. The server behind the bridge is the record \<open>server_ops\<close> of its operations
  (an \<open>Inl\<close> is a rejected promise with its message). \<open>JSON.parse\<close>, \<open>JSON.stringify\<close>,
  \<open>Buffer.from\<close> and the receipt verifier are the record \<open>bridge_env\<close>; an \<open>Inl\<close> of the verifier is an
  exception.
\<close>

section \<open>Responses\<close>

definition MCP_PROTOCOL_VERSION :: string where
  "MCP_PROTOCOL_VERSION = ''2026-07-28''"

definition MCP_LEGACY_SUPPORT_ENABLED :: bool where
  "MCP_LEGACY_SUPPORT_ENABLED = True"

definition success_response :: "jval \<Rightarrow> jval \<Rightarrow> jval" where
  "success_response i r = JObj None [(''jsonrpc'', JStr ''2.0''), (''id'', i), (''result'', r)]"

definition error_response :: "jval \<Rightarrow> int \<Rightarrow> string \<Rightarrow> jval" where
  "error_response i code msg =
     JObj None [(''jsonrpc'', JStr ''2.0''), (''id'', i),
       (''error'', JObj None [(''code'', JNum (Fin (of_int code))), (''message'', JStr msg)])]"

text \<open>\<open>{ a: x, ...v }\<close>: the properties of \<open>v\<close> overwrite or follow those before the spread.\<close>

definition spread_over :: "(string \<times> jval) list \<Rightarrow> jval \<Rightarrow> jval" where
  "spread_over base v = JObj None (fold (\<lambda>(k, x) m. AList.update k x m) (spread v) base)"

definition complete :: "(string \<times> jval) list" where
  "complete = [(''resultType'', JStr ''complete'')]"

definition cacheable :: "int \<Rightarrow> string \<Rightarrow> (string \<times> jval) list" where
  "cacheable ttl scope = complete @ [(''ttlMs'', JNum (Fin (of_int ttl))), (''cacheScope'', JStr scope)]"

definition list_changed :: jval where
  "list_changed = JObj None [(''listChanged'', JBool True)]"

definition bridge_capabilities :: jval where
  "bridge_capabilities = JObj None [(''prompts'', list_changed), (''resources'', list_changed), (''tools'', list_changed)]"

section \<open>Receipt check\<close>

record verify_options =
  vo_guestImageIdHex :: jval
  vo_circuitName :: jval
  vo_expectedOutput :: jval
  vo_zkPolicy :: string

record bridge_env =
  be_parse :: "string \<Rightarrow> jval option"
  be_stringify :: "jval \<Rightarrow> string"
  be_bufferFrom :: "jval \<Rightarrow> bytes option"   \<comment> \<open>\<open>Buffer.from(v, "base64")\<close>, \<open>None\<close> when it raises\<close>
  be_verify :: "string \<Rightarrow> jval \<Rightarrow> bytes \<Rightarrow> verify_options \<Rightarrow> string + bool"

text \<open>\<open>result.content[0]?.text\<close>, with \<open>None\<close> for the \<open>TypeError\<close> of indexing \<open>undefined\<close> or \<open>null\<close>.\<close>

definition first_element :: "jval \<Rightarrow> jval" where
  "first_element c =
     (case c of JArr i (x # xs) \<Rightarrow> x | JObj i fs \<Rightarrow> field fs ''0'' | _ \<Rightarrow> JUndef)"

definition content_text :: "jval \<Rightarrow> jval option" where
  "content_text result =
     (case js_prop result ''content'' of
        None \<Rightarrow> None
      | Some c \<Rightarrow> if c = JUndef \<or> c = JNull then None else Some (opt_prop (first_element c) ''text''))"

fun set_field :: "string \<Rightarrow> jval \<Rightarrow> jval \<Rightarrow> jval" where
  "set_field k x (JObj i fs) = JObj i (AList.update k x fs)"
| "set_field k x v = v"

fun set_first_text :: "string \<Rightarrow> jval \<Rightarrow> jval" where
  "set_first_text t (JArr i (x # xs)) = JArr i (set_field ''text'' (JStr t) x # xs)"
| "set_first_text t (JObj i fs) = JObj i (AList.update ''0'' (set_field ''text'' (JStr t) (field fs ''0'')) fs)"
| "set_first_text t v = v"

definition set_content_text :: "string \<Rightarrow> jval \<Rightarrow> jval" where
  "set_content_text t result = set_field ''content'' (set_first_text t (opt_prop result ''content'')) result"

text \<open>\<open>Buffer.from(data.zk_receipt || "", "base64")\<close>\<close>

definition receipt_buffer :: "bridge_env \<Rightarrow> jval \<Rightarrow> bytes option" where
  "receipt_buffer env r = be_bufferFrom env (if truthy r then r else JStr [])"

definition is_v2_receipt :: "bytes \<Rightarrow> bool" where
  "is_v2_receipt buf \<longleftrightarrow> buf \<noteq> [] \<and> hd buf = 2"

definition audit_status :: "bool \<Rightarrow> jval" where
  "audit_status isV2 =
     JStr (if isV2 then ''VERIFIED: Groth16 Zero-Knowledge Proof Certified by LiopMcpBridge''
           else ''VERIFIED: ZK-Receipt & ImageID Mathematically Verified by LiopMcpBridge'')"

definition check_receipt_data :: "bridge_env \<Rightarrow> string \<Rightarrow> jval \<Rightarrow> jval \<Rightarrow> bool \<times> jval" where
  "check_receipt_data env payload data result =
     (case (js_prop data ''image_id'', js_prop data ''zk_receipt'') of
        (Some imageId, Some receipt) \<Rightarrow>
          if truthy imageId \<or> truthy receipt then
            (case receipt_buffer env receipt of
               None \<Rightarrow> (True, result)
             | Some buf \<Rightarrow>
                 (case be_verify env payload (if truthy imageId then imageId else JStr []) buf
                         \<lparr>vo_guestImageIdHex = opt_prop data ''guest_image_id'', vo_circuitName = opt_prop data ''circuit_name'',
                          vo_expectedOutput = opt_prop data ''computation_result'',
                          vo_zkPolicy = (if is_v2_receipt buf then ''required'' else ''none'')\<rparr> of
                    Inl _ \<Rightarrow> (True, result)
                  | Inr False \<Rightarrow> (False, result)
                  | Inr True \<Rightarrow>
                      (True, set_content_text
                         (be_stringify env (set_field ''audit_status'' (audit_status (is_v2_receipt buf)) data)) result)))
          else (True, result)
      | _ \<Rightarrow> (True, result))"

definition verify_zk_receipt :: "bridge_env \<Rightarrow> jval \<Rightarrow> jval \<Rightarrow> bool \<times> jval" where
  "verify_zk_receipt env arguments result =
     (case opt_prop arguments ''payload'' of
        JStr payload \<Rightarrow>
          if payload = [] then (True, result)
          else (case content_text result of
                  None \<Rightarrow> (False, result)
                | Some (JStr t) \<Rightarrow>
                    if t = [] then (True, result)
                    else (case be_parse env t of None \<Rightarrow> (True, result) | Some data \<Rightarrow> check_receipt_data env payload data result)
                | Some _ \<Rightarrow> (True, result))
      | _ \<Rightarrow> (True, result))"

section \<open>Dispatch\<close>

record server_ops =
  so_serverInfo :: jval
  so_listTools :: "(string \<times> jval) list"       \<comment> \<open>the sort key and the object\<close>
  so_listResources :: "(string \<times> jval) list"
  so_listPrompts :: "(string \<times> jval) list"
  so_getPrompt :: "jval \<Rightarrow> jval \<Rightarrow> string + jval"
  so_readResource :: "jval \<Rightarrow> string + jval"
  so_callTool :: "jval \<Rightarrow> jval \<Rightarrow> string + jval"

definition sorted_objects :: "(string \<Rightarrow> string \<Rightarrow> bool) \<Rightarrow> (string \<times> jval) list \<Rightarrow> jval" where
  "sorted_objects le xs = JArr None (map snd (sort_by (\<lambda>a b. le (fst a) (fst b)) xs))"

definition list_result :: "bool \<Rightarrow> string \<Rightarrow> jval \<Rightarrow> jval" where
  "list_result isLegacy key xs =
     (if isLegacy then JObj None [(key, xs)] else JObj None (cacheable 300000 ''public'' @ [(key, xs)]))"

definition zero_trust_alert :: jval where
  "zero_trust_alert = JObj None
     [(''content'', JArr None [JObj None [(''type'', JStr ''text''),
         (''text'', JStr ''ALERT [LIOP ZERO-TRUST SHIELD] ZK Verification Failed. The mathematical ImageID does not match the original payload.'')]]),
      (''isError'', JBool True)]"

definition call_tool_response :: "bridge_env \<Rightarrow> server_ops \<Rightarrow> bool \<Rightarrow> jval \<Rightarrow> jval \<Rightarrow> jval" where
  "call_tool_response env srv isLegacy i params =
     (if \<not> truthy (opt_prop params ''name'') then error_response i (-32602) ''Missing tool name''
      else
        (let arguments = (if truthy (opt_prop params ''arguments'') then opt_prop params ''arguments'' else JObj None []) in
         case so_callTool srv (opt_prop params ''name'') arguments of
           Inl msg \<Rightarrow> error_response i (-32000) msg
         | Inr result \<Rightarrow>
             (case (if truthy (opt_prop result ''isError'') then (True, result) else verify_zk_receipt env arguments result) of
                (isVerified, result) \<Rightarrow>
                  if \<not> isVerified then success_response i zero_trust_alert
                  else success_response i (if isLegacy then result else spread_over complete result))))"

definition handle_liop_to_mcp ::
    "bridge_env \<Rightarrow> (string \<Rightarrow> string \<Rightarrow> bool) \<Rightarrow> server_ops \<Rightarrow> jval \<Rightarrow> string \<Rightarrow> jval \<Rightarrow> jval option" where
  "handle_liop_to_mcp env le srv i meth params =
     (let isLegacy = MCP_LEGACY_SUPPORT_ENABLED \<and> is_legacy_request \<lparr>rq_method = meth, rq_params = params\<rparr> in
      if meth = ''initialize'' then
        (if \<not> MCP_LEGACY_SUPPORT_ENABLED then Some (error_response i (-32601) ''Method retired: initialize'')
         else Some (success_response i (JObj None
           [(''protocolVersion'', JStr MCP_PROTOCOL_VERSION_LEGACY), (''capabilities'', bridge_capabilities),
            (''serverInfo'', so_serverInfo srv)])))
      else if meth = ''server/discover'' then
        Some (success_response i (JObj None (complete @
          [(''supportedVersions'', JArr None (map JStr
              (if MCP_LEGACY_SUPPORT_ENABLED then [MCP_PROTOCOL_VERSION, MCP_PROTOCOL_VERSION_LEGACY] else [MCP_PROTOCOL_VERSION]))),
           (''capabilities'', bridge_capabilities), (''serverInfo'', so_serverInfo srv)])))
      else if meth = ''notifications/initialized'' then None
      else if meth = ''ping'' then Some (success_response i (JObj None []))
      else if meth = ''tools/list'' then
        Some (success_response i (list_result isLegacy ''tools'' (sorted_objects le (so_listTools srv))))
      else if meth = ''resources/list'' then
        Some (success_response i (list_result isLegacy ''resources'' (sorted_objects le (so_listResources srv))))
      else if meth = ''prompts/list'' then
        Some (success_response i (list_result isLegacy ''prompts'' (sorted_objects le (so_listPrompts srv))))
      else if meth = ''prompts/get'' then
        (if \<not> truthy (opt_prop params ''name'') then Some (error_response i (-32602) ''Missing prompt name'')
         else Some (case so_getPrompt srv (opt_prop params ''name'') (opt_prop params ''arguments'') of
           Inl msg \<Rightarrow> error_response i (-32000) msg
         | Inr result \<Rightarrow>
             success_response i (if isLegacy \<or> \<not> is_object result then result else spread_over complete result)))
      else if meth = ''resources/read'' then
        (if \<not> truthy (opt_prop params ''uri'') then Some (error_response i (-32602) ''Missing resource URI'')
         else Some (case so_readResource srv (opt_prop params ''uri'') of
           Inl msg \<Rightarrow> error_response i (-32000) msg
         | Inr result \<Rightarrow>
             success_response i
               (if isLegacy then result
                else if is_object result then spread_over (cacheable 60000 ''private'') result
                else JObj None (cacheable 60000 ''private'' @ [(''contents'', result)]))))
      else if meth = ''tools/call'' then Some (call_tool_response env srv isLegacy i params)
      else Some (error_response i (-32601) ''Method not found''))"

text \<open>A method that is not a string equals none of the names, like the empty string.\<close>

definition method_of :: "jval \<Rightarrow> string" where
  "method_of v = (case v of JStr s \<Rightarrow> s | _ \<Rightarrow> [])"

text \<open>\<open>handleJsonRpcRequest\<close>: \<open>Inl\<close> is the \<open>TypeError\<close> of a payload that is \<open>null\<close>. The bridge has a
  server in expose mode, or in wrap mode after \<open>connect\<close>.\<close>

definition handle_json_rpc_request ::
    "bridge_env \<Rightarrow> (string \<Rightarrow> string \<Rightarrow> bool) \<Rightarrow> server_ops option \<Rightarrow> jval \<Rightarrow> unit + jval option" where
  "handle_json_rpc_request env le liopServer payload =
     (if payload = JUndef \<or> payload = JNull then Inl ()
      else
        (let i = opt_prop payload ''id'' in
         if opt_prop payload ''jsonrpc'' \<noteq> JStr ''2.0'' then Inr (Some (error_response i (-32600) ''Invalid Request''))
         else case liopServer of
           None \<Rightarrow> Inr (Some (error_response i (-32601) ''Bridge source not configured''))
         | Some srv \<Rightarrow>
             Inr (handle_liop_to_mcp env le srv i (method_of (opt_prop payload ''method'')) (opt_prop payload ''params''))))"

section \<open>Properties\<close>

definition answers :: "jval \<Rightarrow> jval \<Rightarrow> bool" where
  "answers i r \<longleftrightarrow> (\<exists>x. r = success_response i x) \<or> (\<exists>c m. r = error_response i c m)"

lemma answers_intros [intro]: "answers i (success_response i x)" "answers i (error_response i c m)"
  by (auto simp: answers_def)

lemma call_tool_answers: "answers i (call_tool_response env srv l i params)"
  by (auto simp: call_tool_response_def Let_def split: sum.split prod.split)

lemma dispatch_answers:
  "handle_liop_to_mcp env le srv i meth params = None \<longleftrightarrow> meth = ''notifications/initialized''"
  "handle_liop_to_mcp env le srv i meth params = Some r \<Longrightarrow> answers i r"
  by (auto simp: handle_liop_to_mcp_def Let_def MCP_LEGACY_SUPPORT_ENABLED_def call_tool_answers
      split: if_splits sum.splits)

text \<open>
  C39. Every JSON-RPC payload that is not \<open>null\<close> is answered, and only the initialized notification of a
  well-formed payload gets no response. A response is a result or an error with version \<open>2.0\<close>
  and the identifier of the request, whatever the server, the tool or the verifier do.
\<close>

theorem rpc_always_answered:
  assumes "payload \<noteq> JUndef" "payload \<noteq> JNull"
  shows "(\<exists>r. handle_json_rpc_request env le srv payload = Inr (Some r) \<and> answers (opt_prop payload ''id'') r) \<or>
     (handle_json_rpc_request env le srv payload = Inr None \<and> srv \<noteq> None \<and>
      opt_prop payload ''jsonrpc'' = JStr ''2.0'' \<and> opt_prop payload ''method'' = JStr ''notifications/initialized'')"
proof (cases "opt_prop payload ''jsonrpc'' = JStr ''2.0'' \<and> srv \<noteq> None")
  case True
  then obtain s where s: "srv = Some s" by auto
  let ?d = "handle_liop_to_mcp env le s (opt_prop payload ''id'') (method_of (opt_prop payload ''method'')) (opt_prop payload ''params'')"
  have h: "handle_json_rpc_request env le srv payload = Inr ?d"
    using True assms s by (simp add: handle_json_rpc_request_def Let_def)
  show ?thesis
  proof (cases ?d)
    case None
    then have "method_of (opt_prop payload ''method'') = ''notifications/initialized''" by (simp add: dispatch_answers)
    then have "opt_prop payload ''method'' = JStr ''notifications/initialized''"
      by (auto simp: method_of_def split: jval.splits)
    with h True None show ?thesis by simp
  next
    case (Some r)
    with h show ?thesis using dispatch_answers(2)[OF Some] by auto
  qed
qed (use assms in \<open>auto simp: handle_json_rpc_request_def Let_def\<close>)

definition demo_server :: server_ops where
  "demo_server = \<lparr>so_serverInfo = JNull, so_listTools = [(''b'', JStr ''b''), (''a'', JStr ''a'')], so_listResources = [],
     so_listPrompts = [], so_getPrompt = (\<lambda>_ _. Inl ''none''), so_readResource = (\<lambda>_. Inl ''none''),
     so_callTool = (\<lambda>_ _. Inr (JObj None [(''content'', JArr None [JObj None [(''text'', JStr ''R'')]])]))\<rparr>"

definition demo_env :: "(string + bool) \<Rightarrow> bridge_env" where
  "demo_env verdict = \<lparr>be_parse = (\<lambda>_. Some (JObj None [(''image_id'', JStr ''ff''), (''zk_receipt'', JStr ''AA'')])),
     be_stringify = (\<lambda>_. ''S''), be_bufferFrom = (\<lambda>_. Some [1]), be_verify = (\<lambda>_ _ _ _. verdict)\<rparr>"

theorem rpc_always_answered_witness:
  "\<exists>r. handle_json_rpc_request (demo_env (Inr True)) (\<lambda>_ _. True) (Some demo_server)
      (JObj None [(''jsonrpc'', JStr ''2.0''), (''id'', JNum (Fin 7)), (''method'', JStr ''ping'')]) = Inr (Some r) \<and>
    answers (JNum (Fin 7)) r"
  using rpc_always_answered[of "JObj None [(''jsonrpc'', JStr ''2.0''), (''id'', JNum (Fin 7)), (''method'', JStr ''ping'')]"
      "demo_env (Inr True)" "\<lambda>_ _. True" "Some demo_server"]
  by (simp add: opt_prop_def)

text \<open>
  The result of a tool call with a payload is checked: when its text is JSON that names an image or a
  receipt and the verifier rejects, the caller gets the alert and nothing of the result; when the
  verifier accepts, the text is replaced by the same data with the audit status. Whatever the
  verifier raises counts as accepted, and the result passes unchanged.
\<close>

theorem receipt_verdict_decides:
  assumes call: "so_callTool srv (opt_prop params ''name'') (opt_prop params ''arguments'') = Inr result"
    and args: "truthy (opt_prop params ''name'')" "opt_prop (opt_prop params ''arguments'') ''payload'' = JStr payload" "payload \<noteq> []"
    and res: "\<not> truthy (opt_prop result ''isError'')" "content_text result = Some (JStr t)" "t \<noteq> []"
    and data: "be_parse env t = Some (JObj d fs)" "truthy (field fs ''image_id'') \<or> truthy (field fs ''zk_receipt'')"
    and buf: "receipt_buffer env (field fs ''zk_receipt'') = Some b"
    and verdict: "v = be_verify env payload (if truthy (field fs ''image_id'') then field fs ''image_id'' else JStr []) b
       \<lparr>vo_guestImageIdHex = field fs ''guest_image_id'', vo_circuitName = field fs ''circuit_name'',
        vo_expectedOutput = field fs ''computation_result'',
        vo_zkPolicy = (if is_v2_receipt b then ''required'' else ''none'')\<rparr>"
  shows "call_tool_response env srv True i params = success_response i
     (case v of
        Inr False \<Rightarrow> zero_trust_alert
      | Inr True \<Rightarrow> set_content_text (be_stringify env (JObj d (AList.update ''audit_status'' (audit_status (is_v2_receipt b)) fs))) result
      | Inl _ \<Rightarrow> result)"
proof -
  have "truthy (opt_prop params ''arguments'')"
    using args(2) by (cases "opt_prop params ''arguments''") (auto simp: opt_prop_def)
  moreover have "verify_zk_receipt env (opt_prop params ''arguments'') result = check_receipt_data env payload (JObj d fs) result"
    using args res data by (simp add: verify_zk_receipt_def)
  moreover have "check_receipt_data env payload (JObj d fs) result =
     (v \<noteq> Inr False, case v of Inr True \<Rightarrow>
        set_content_text (be_stringify env (JObj d (AList.update ''audit_status'' (audit_status (is_v2_receipt b)) fs))) result | _ \<Rightarrow> result)"
    using data(2) buf verdict by (auto simp: check_receipt_data_def opt_prop_def field_def split: sum.split bool.split)
  ultimately show ?thesis
    using call args(1) res(1) by (auto simp: call_tool_response_def Let_def split: sum.split bool.split)
qed

theorem receipt_verdict_decides_witness:
  "call_tool_response (demo_env (Inr False)) demo_server True JNull
     (JObj None [(''name'', JStr ''t''), (''arguments'', JObj None [(''payload'', JStr ''p'')])]) =
     success_response JNull zero_trust_alert \<and>
   call_tool_response (demo_env (Inl ''worker died'')) demo_server True JNull
     (JObj None [(''name'', JStr ''t''), (''arguments'', JObj None [(''payload'', JStr ''p'')])]) =
     success_response JNull (JObj None [(''content'', JArr None [JObj None [(''text'', JStr ''R'')]])])"
proof -
  let ?ps = "JObj None [(''name'', JStr ''t''), (''arguments'', JObj None [(''payload'', JStr ''p'')])]"
    and ?r = "JObj None [(''content'', JArr None [JObj None [(''text'', JStr ''R'')]])]"
    and ?fs = "[(''image_id'', JStr ''ff''), (''zk_receipt'', JStr ''AA'')]"
  have "call_tool_response (demo_env v) demo_server True JNull ?ps = success_response JNull
     (case v of Inr False \<Rightarrow> zero_trust_alert
      | Inr True \<Rightarrow> set_content_text (be_stringify (demo_env v) (JObj None (AList.update ''audit_status'' (audit_status (is_v2_receipt [1])) ?fs))) ?r
      | Inl _ \<Rightarrow> ?r)" for v
    by (rule receipt_verdict_decides[where payload = "''p''" and t = "''R''"])
      (simp_all add: demo_server_def demo_env_def opt_prop_def content_text_def first_element_def field_def receipt_buffer_def)
  from this[of "Inr False"] this[of "Inl ''worker died''"] show ?thesis by simp
qed

end
