(* ===== verification/Receipt_Codec.thy ===== *)
theory Receipt_Codec
  imports Js_Values
begin

text \<open>
  The binary formats of security/zk.ts and the v1 receipt that workers/logic-execution.ts
  writes.

  \<^item> \<open>encode_journal_v2\<close> / \<open>decode_journal_v2\<close>: the 144-byte execution journal.
  \<^item> \<open>encode_v1\<close>, \<open>encode_v2\<close>, \<open>encode_hybrid_v2\<close>: the three receipt layouts, \<open>decode\<close> the
    reader of all of them, with every length check in the order of the source.
  \<^item> \<open>zk_verify\<close>: the structural verifier \<open>ZkVerifier.verify\<close>.

  SHA-256 and HMAC-SHA-256 (node:crypto) are the parameters \<open>sha\<close> and \<open>hmac\<close>; all that is known
  of them is the type of their result, 32 bytes. \<open>JSON.parse(buffer.toString())\<close> is the
  parameter \<open>parse\<close>, \<open>None\<close> when it throws.

  The locale \<open>wire_format\<close> is the contract of an encoder and its decoder.
\<close>

section \<open>Errors and buffer primitives\<close>

datatype zk_error =
  Bad_Field string nat        \<comment> \<open>a digest field that is not 32 bytes\<close>
| Bad_Journal_Size nat
| Empty_Proof
| V1_Header | V1_Truncated
| V2_Too_Short | V2_Truncated | Checksum_Failed
| Hybrid_No_Proof_Len | Hybrid_Truncated_Proof | Hybrid_Truncated_Signature
| Unsupported_Version nat
| Image_Mismatch | Bad_Seal_Length | Journal_Unparsable | Hmac_Failed
| Range_Error                 \<comment> \<open>thrown by a \<open>Buffer\<close> read or write\<close>
| Length_Mismatch             \<comment> \<open>thrown by \<open>crypto.timingSafeEqual\<close>\<close>

definition write_uint :: "nat \<Rightarrow> int \<Rightarrow> zk_error + bytes" where
  "write_uint n v = (if 0 \<le> v \<and> v < 256 ^ n then Inr (be_bytes n (nat v)) else Inl Range_Error)"

definition read_uint :: "bytes \<Rightarrow> nat \<Rightarrow> nat \<Rightarrow> zk_error + nat" where
  "read_uint b off n =
     (if off + n \<le> length b then Inr (be_val (subarray b off (off + n))) else Inl Range_Error)"

definition timing_safe_equal :: "bytes \<Rightarrow> bytes \<Rightarrow> zk_error + bool" where
  "timing_safe_equal a b = (if length a = length b then Inr (a = b) else Inl Length_Mismatch)"

text \<open>The result of \<open>createHash("sha256")\<close> and \<open>createHmac("sha256", key)\<close>: 32 bytes.\<close>

typedef digest = "{b :: bytes. length b = 32}"
  by (rule exI [of _ "replicate 32 0"]) simp

lemma length_digest [simp]: "length (Rep_digest d) = 32"
  using Rep_digest [of d] by simp

lemma Rep_digest_zero [simp]: "Rep_digest (Abs_digest (replicate 32 b)) = replicate 32 b"
  by (simp add: Abs_digest_inverse)

section \<open>The journal\<close>

record zk_journal_v2 =
  guestImageId :: bytes
  logicDigest :: bytes
  datasetDigest :: bytes
  outputDigest :: bytes
  fuelConsumed :: int
  executionTimestamp :: int

definition ZK_JOURNAL_V2_SIZE :: nat where
  "ZK_JOURNAL_V2_SIZE = 144"

definition check32 :: "string \<Rightarrow> bytes \<Rightarrow> zk_error + unit" where
  "check32 name b = guard (length b = 32) (Bad_Field name (length b))"

definition encode_journal_v2 :: "zk_journal_v2 \<Rightarrow> zk_error + bytes" where
  "encode_journal_v2 flds =
     ebind (check32 ''guestImageId'' (guestImageId flds)) (\<lambda>_.
     ebind (check32 ''logicDigest'' (logicDigest flds)) (\<lambda>_.
     ebind (check32 ''datasetDigest'' (datasetDigest flds)) (\<lambda>_.
     ebind (check32 ''outputDigest'' (outputDigest flds)) (\<lambda>_.
       (let buf = replicate ZK_JOURNAL_V2_SIZE 0;
            buf = buf_copy (guestImageId flds) buf 0;
            buf = buf_copy (logicDigest flds) buf 32;
            buf = buf_copy (datasetDigest flds) buf 64;
            buf = buf_copy (outputDigest flds) buf 96
        in ebind (write_uint 8 (fuelConsumed flds)) (\<lambda>fuel.
           ebind (write_uint 8 (executionTimestamp flds)) (\<lambda>ts.
             Inr (buf_copy ts (buf_copy fuel buf 128) 136))))))))"

definition decode_journal_v2 :: "bytes \<Rightarrow> zk_error + zk_journal_v2" where
  "decode_journal_v2 buf =
     ebind (guard (length buf = ZK_JOURNAL_V2_SIZE) (Bad_Journal_Size (length buf))) (\<lambda>_.
     ebind (read_uint buf 128 8) (\<lambda>fuel.
     ebind (read_uint buf 136 8) (\<lambda>ts.
       Inr \<lparr>guestImageId = subarray buf 0 32, logicDigest = subarray buf 32 64,
            datasetDigest = subarray buf 64 96, outputDigest = subarray buf 96 128,
            fuelConsumed = int fuel, executionTimestamp = int ts\<rparr>)))"

section \<open>Receipts\<close>

definition RECEIPT_VERSION_V1 :: byte where "RECEIPT_VERSION_V1 = 1"
definition RECEIPT_VERSION_V2 :: byte where "RECEIPT_VERSION_V2 = 2"
definition HMAC_LEGACY :: byte where "HMAC_LEGACY = 0"
definition GROTH16 :: byte where "GROTH16 = 2"
definition GROTH16_PQC_HYBRID :: byte where "GROTH16_PQC_HYBRID = 3"

lemmas receipt_consts =
  RECEIPT_VERSION_V1_def RECEIPT_VERSION_V2_def HMAC_LEGACY_def GROTH16_def GROTH16_PQC_HYBRID_def

record decoded_receipt =
  dr_version :: byte
  dr_proofType :: byte
  dr_journal :: bytes
  dr_proof :: bytes
  dr_raw :: bytes
  dr_pqcSignature :: "bytes option"
  dr_pqcPublicKey :: "bytes option"

definition encode_v1 :: "bytes \<Rightarrow> bytes \<Rightarrow> zk_error + bytes" where
  "encode_v1 journal seal =
     ebind (write_uint 2 (int (length journal))) (\<lambda>journalLen.
       Inr ([RECEIPT_VERSION_V1] @ journalLen @ journal @ seal))"

definition encode_v2 :: "(bytes \<Rightarrow> digest) \<Rightarrow> byte \<Rightarrow> bytes \<Rightarrow> bytes \<Rightarrow> zk_error + bytes" where
  "encode_v2 sha proofType journal proof =
     ebind (write_uint 4 (int (length journal))) (\<lambda>journalLen.
       (let payload = ([RECEIPT_VERSION_V2, proofType] @ journalLen) @ journal @ proof
        in Inr (payload @ Rep_digest (sha payload))))"

definition encode_hybrid_v2 ::
    "(bytes \<Rightarrow> digest) \<Rightarrow> bytes \<Rightarrow> bytes \<Rightarrow> bytes \<Rightarrow> bytes \<Rightarrow> zk_error + bytes" where
  "encode_hybrid_v2 sha journal proof pqcSignature pqcPublicKey =
     ebind (write_uint 4 (int (length journal))) (\<lambda>journalLen.
     ebind (write_uint 2 (int (length proof))) (\<lambda>proofLen.
     ebind (write_uint 2 (int (length pqcSignature))) (\<lambda>sigLen.
       (let payload = ([RECEIPT_VERSION_V2, GROTH16_PQC_HYBRID] @ journalLen) @ journal @ proofLen @ proof
                        @ sigLen @ pqcSignature @ pqcPublicKey
        in Inr (payload @ Rep_digest (sha payload))))))"

definition decode_v1 :: "bytes \<Rightarrow> zk_error + decoded_receipt" where
  "decode_v1 raw =
     ebind (guard (35 \<le> length raw) V1_Header) (\<lambda>_.
     ebind (read_uint raw 1 2) (\<lambda>journalLen.
     ebind (guard (3 + journalLen + 32 \<le> length raw) V1_Truncated) (\<lambda>_.
       Inr \<lparr>dr_version = RECEIPT_VERSION_V1, dr_proofType = HMAC_LEGACY,
            dr_journal = subarray raw 3 (3 + journalLen),
            dr_proof = subarray raw (3 + journalLen) (3 + journalLen + 32),
            dr_raw = raw, dr_pqcSignature = None, dr_pqcPublicKey = None\<rparr>)))"

definition decode_hybrid :: "bytes \<Rightarrow> nat \<Rightarrow> zk_error + decoded_receipt" where
  "decode_hybrid raw journalLen =
     (let offset = 6 + journalLen in
      ebind (guard (offset + 2 + 32 \<le> length raw) Hybrid_No_Proof_Len) (\<lambda>_.
      ebind (read_uint raw offset 2) (\<lambda>proofLen.
      (let offset = offset + 2 in
       ebind (guard (offset + proofLen + 2 + 32 \<le> length raw) Hybrid_Truncated_Proof) (\<lambda>_.
       (let proof = subarray raw offset (offset + proofLen); offset = offset + proofLen in
        ebind (read_uint raw offset 2) (\<lambda>sigLen.
        (let offset = offset + 2 in
         ebind (guard (offset + sigLen + 32 \<le> length raw) Hybrid_Truncated_Signature) (\<lambda>_.
         (let pqcSignature = subarray raw offset (offset + sigLen); offset = offset + sigLen in
            Inr \<lparr>dr_version = RECEIPT_VERSION_V2, dr_proofType = GROTH16_PQC_HYBRID,
                 dr_journal = subarray raw 6 (6 + journalLen), dr_proof = proof, dr_raw = raw,
                 dr_pqcSignature = Some pqcSignature,
                 dr_pqcPublicKey = Some (subarray raw offset (length raw - 32))\<rparr>))))))))))"

definition decode_v2 :: "(bytes \<Rightarrow> digest) \<Rightarrow> bytes \<Rightarrow> zk_error + decoded_receipt" where
  "decode_v2 sha raw =
     ebind (guard (38 \<le> length raw) V2_Too_Short) (\<lambda>_.
     (let proofType = raw ! 1 in
      ebind (read_uint raw 2 4) (\<lambda>journalLen.
      ebind (guard (6 + journalLen + 32 \<le> length raw) V2_Truncated) (\<lambda>_.
      ebind (timing_safe_equal (subarray raw (length raw - 32) (length raw))
               (Rep_digest (sha (subarray raw 0 (length raw - 32))))) (\<lambda>same.
      ebind (guard same Checksum_Failed) (\<lambda>_.
        if proofType = GROTH16_PQC_HYBRID then decode_hybrid raw journalLen
        else Inr \<lparr>dr_version = RECEIPT_VERSION_V2, dr_proofType = proofType,
                  dr_journal = subarray raw 6 (6 + journalLen),
                  dr_proof = subarray raw (6 + journalLen) (length raw - 32),
                  dr_raw = raw, dr_pqcSignature = None, dr_pqcPublicKey = None\<rparr>))))))"

definition decode :: "(bytes \<Rightarrow> digest) \<Rightarrow> bytes \<Rightarrow> zk_error + decoded_receipt" where
  "decode sha raw =
     (case raw of
        [] \<Rightarrow> Inl Empty_Proof
      | version # _ \<Rightarrow>
          if version = RECEIPT_VERSION_V1 then decode_v1 raw
          else if version = RECEIPT_VERSION_V2 then decode_v2 sha raw
          else Inl (Unsupported_Version (unat version)))"

section \<open>The structural verifier\<close>

record zk_receipt =
  rc_proof :: bytes
  rc_journal :: bytes
  rc_imageId :: bytes
  rc_proofType :: "byte option"
  rc_version :: "nat option"

definition journal_names :: "(bytes \<Rightarrow> jval option) \<Rightarrow> bytes \<Rightarrow> string \<Rightarrow> bool" where
  "journal_names parse journal idHex =
     (case parse journal of None \<Rightarrow> False
      | Some data \<Rightarrow> js_prop data ''image_id'' = Some (JStr idHex))"

definition zk_verify ::
    "(bytes \<Rightarrow> bytes \<Rightarrow> digest) \<Rightarrow> (bytes \<Rightarrow> jval option) \<Rightarrow> zk_receipt \<Rightarrow> bytes \<Rightarrow> bytes option
      \<Rightarrow> zk_error + bool" where
  "zk_verify hmac parse receipt expectedImageId sessionSecret =
     ebind (guard (rc_imageId receipt = expectedImageId) Image_Mismatch) (\<lambda>_.
     ebind (guard (length (rc_proof receipt) \<noteq> 0) Empty_Proof) (\<lambda>_.
     (let proofBuf = rc_proof receipt in
      ebind (guard (\<not> (length proofBuf < 35 \<or> proofBuf ! 0 \<noteq> 1)) V1_Header) (\<lambda>_.
      ebind (read_uint proofBuf 1 2) (\<lambda>journalLen.
      (let journal = subarray proofBuf 3 (3 + journalLen);
           seal = subarray proofBuf (3 + journalLen) (length proofBuf) in
       ebind (guard (length seal = 32) Bad_Seal_Length) (\<lambda>_.
       ebind (guard (journal_names parse journal (hex_of (rc_imageId receipt))) Journal_Unparsable) (\<lambda>_.
       (case sessionSecret of
          None \<Rightarrow> Inr True
        | Some secret \<Rightarrow>
            if length secret > 0 then
              ebind (timing_safe_equal seal (Rep_digest (hmac secret journal))) (\<lambda>same.
              ebind (guard same Hmac_Failed) (\<lambda>_. Inr True))
            else Inr True)))))))))"

definition derive_image_id :: "(bytes \<Rightarrow> digest) \<Rightarrow> bytes \<Rightarrow> bytes" where
  "derive_image_id sha wasmBytes = Rep_digest (sha wasmBytes)"

section \<open>Wire formats\<close>

text \<open>
  A format: everything admissible encodes, and decoding gives back what was encoded. A
  format is canonical when the decoder accepts nothing but encodings.
\<close>

locale wire_format =
  fixes enc :: "'a \<Rightarrow> 'e + bytes" and dec :: "bytes \<Rightarrow> 'e + 'a" and ok :: "'a \<Rightarrow> bool"
  assumes enc_ok: "ok x \<Longrightarrow> \<exists>b. enc x = Inr b"
    and dec_enc: "ok x \<Longrightarrow> enc x = Inr b \<Longrightarrow> dec b = Inr x"
begin

lemma enc_inject: "ok x \<Longrightarrow> ok y \<Longrightarrow> enc x = enc y \<Longrightarrow> x = y"
  using enc_ok dec_enc by (metis sum.inject(2))

end

locale canonical_format = wire_format +
  assumes enc_dec: "dec b = Inr x \<Longrightarrow> ok x \<and> enc x = Inr b"
begin

lemma dec_iff: "dec b = Inr x \<longleftrightarrow> ok x \<and> enc x = Inr b"
  using enc_dec dec_enc by blast

lemma dec_inject: "dec b = Inr x \<Longrightarrow> dec c = Inr x \<Longrightarrow> b = c"
  using enc_dec by (metis sum.inject(2))

end

lemma write_uint_Inr: "write_uint n v = Inr b \<longleftrightarrow> 0 \<le> v \<and> v < 256 ^ n \<and> b = be_bytes n (nat v)"
  by (auto simp: write_uint_def)

lemma read_uint_Inr: "read_uint b off n = Inr v \<longleftrightarrow> off + n \<le> length b \<and> v = be_val (subarray b off (off + n))"
  by (auto simp: read_uint_def)

lemma timing_safe_equal_Inr: "timing_safe_equal a b = Inr r \<longleftrightarrow> length a = length b \<and> r = (a = b)"
  by (auto simp: timing_safe_equal_def)

lemmas codec_simps =
  write_uint_Inr read_uint_Inr timing_safe_equal_Inr subarray_skip subarray_prefix subarray_all

lemma nat_lt_256: "0 \<le> v \<Longrightarrow> v < 256 ^ n \<Longrightarrow> be_val (be_bytes n (nat v)) = nat v" for v :: int
  by (simp add: nat_less_iff)

lemma be_bytes_of_val: "length bs = n \<Longrightarrow> be_bytes n (be_val bs) = bs"
  using be_bytes_be_val by blast

subsection \<open>The journal\<close>

definition journal_ok :: "zk_journal_v2 \<Rightarrow> bool" where
  "journal_ok j \<longleftrightarrow> length (guestImageId j) = 32 \<and> length (logicDigest j) = 32 \<and>
     length (datasetDigest j) = 32 \<and> length (outputDigest j) = 32 \<and>
     0 \<le> fuelConsumed j \<and> fuelConsumed j < 2 ^ 64 \<and>
     0 \<le> executionTimestamp j \<and> executionTimestamp j < 2 ^ 64"

text \<open>Writing the fields into a zeroed buffer lays them out end to end.\<close>

lemma buf_copy_step:
  "length xs = off \<Longrightarrow> buf_copy src (xs @ drop off z) off = (xs @ src) @ drop (off + length src) z"
  by (simp add: buf_copy_def add.commute)

lemma buf_copy_layout:
  assumes "length g = 32" "length l = 32" "length d = 32" "length out = 32"
    "length f = 8" "length t = 8" "length z = 144"
  shows "buf_copy t (buf_copy f (buf_copy out (buf_copy d (buf_copy l (buf_copy g z 0) 32) 64) 96) 128) 136
           = g @ l @ d @ out @ f @ t"
  using buf_copy_step [of "[]" 0 g z] buf_copy_step [of g 32 l z] buf_copy_step [of "g @ l" 64 d z]
    buf_copy_step [of "g @ l @ d" 96 out z] buf_copy_step [of "g @ l @ d @ out" 128 f z]
    buf_copy_step [of "g @ l @ d @ out @ f" 136 t z] assms
  by simp

lemma encode_journal_v2_layout:
  "encode_journal_v2 j = Inr b \<longleftrightarrow> journal_ok j \<and>
     b = guestImageId j @ logicDigest j @ datasetDigest j @ outputDigest j
           @ be_bytes 8 (nat (fuelConsumed j)) @ be_bytes 8 (nat (executionTimestamp j))"
proof -
  have layout: "buf_copy (be_bytes 8 t) (buf_copy (be_bytes 8 f) (buf_copy (outputDigest j)
          (buf_copy (datasetDigest j) (buf_copy (logicDigest j) (buf_copy (guestImageId j)
            (replicate ZK_JOURNAL_V2_SIZE 0) 0) 32) 64) 96) 128) 136
        = guestImageId j @ logicDigest j @ datasetDigest j @ outputDigest j @ be_bytes 8 f @ be_bytes 8 t"
    if "journal_ok j" for f t
    by (rule buf_copy_layout) (use that in \<open>simp_all add: journal_ok_def ZK_JOURNAL_V2_SIZE_def del: replicate.simps\<close>)
  have "encode_journal_v2 j = Inr b \<longleftrightarrow> journal_ok j \<and>
      b = buf_copy (be_bytes 8 (nat (executionTimestamp j))) (buf_copy (be_bytes 8 (nat (fuelConsumed j)))
           (buf_copy (outputDigest j) (buf_copy (datasetDigest j) (buf_copy (logicDigest j)
             (buf_copy (guestImageId j) (replicate ZK_JOURNAL_V2_SIZE 0) 0) 32) 64) 96) 128) 136"
    unfolding encode_journal_v2_def journal_ok_def check32_def Let_def
    by (auto simp: write_uint_Inr)
  with layout show ?thesis by auto
qed

lemma decode_journal_v2_iff:
  "decode_journal_v2 b = Inr j \<longleftrightarrow> length b = 144 \<and>
     j = \<lparr>guestImageId = subarray b 0 32, logicDigest = subarray b 32 64,
          datasetDigest = subarray b 64 96, outputDigest = subarray b 96 128,
          fuelConsumed = int (be_val (subarray b 128 136)),
          executionTimestamp = int (be_val (subarray b 136 144))\<rparr>"
  by (auto simp: decode_journal_v2_def read_uint_Inr ZK_JOURNAL_V2_SIZE_def)

interpretation journal_v2: canonical_format encode_journal_v2 decode_journal_v2 journal_ok
proof
  show "\<exists>b. encode_journal_v2 j = Inr b" if "journal_ok j" for j
    using that by (simp add: encode_journal_v2_layout)
next
  fix j b assume "journal_ok j" "encode_journal_v2 j = Inr b"
  then show "decode_journal_v2 b = Inr j"
    by (auto simp: encode_journal_v2_layout decode_journal_v2_iff journal_ok_def codec_simps
        nat_less_iff)
next
  fix b j assume "decode_journal_v2 b = Inr j"
  then have len: "length b = 144"
    and j: "j = \<lparr>guestImageId = subarray b 0 32, logicDigest = subarray b 32 64,
          datasetDigest = subarray b 64 96, outputDigest = subarray b 96 128,
          fuelConsumed = int (be_val (subarray b 128 136)),
          executionTimestamp = int (be_val (subarray b 136 144))\<rparr>"
    by (simp_all add: decode_journal_v2_iff)
  have bound: "be_val (subarray b i (i + 8)) < 2 ^ 64" if "i + 8 \<le> 144" for i
    using be_val_bound [of "subarray b i (i + 8)"] that len by simp
  have "journal_ok j"
    using len bound [of 128] bound [of 136] by (simp add: j journal_ok_def)
  moreover have "b = subarray b 0 32 @ subarray b 32 64 @ subarray b 64 96 @ subarray b 96 128
                       @ subarray b 128 136 @ subarray b 136 144"
    by (simp add: subarray_glue subarray_all len)
  ultimately show "journal_ok j \<and> encode_journal_v2 j = Inr b"
    using len by (simp add: encode_journal_v2_layout j be_bytes_of_val)
qed

subsection \<open>Receipts\<close>

lemma checksum_split:
  "subarray (p @ Rep_digest d) (length (p @ Rep_digest d) - 32) (length (p @ Rep_digest d)) = Rep_digest d"
  "subarray (p @ Rep_digest d) 0 (length (p @ Rep_digest d) - 32) = p"
  by (simp_all add: subarray_skip subarray_prefix subarray_all)

lemma subarray_two: "2 \<le> length raw \<Longrightarrow> subarray raw 0 2 = [raw ! 0, raw ! 1]"
  by (cases raw rule: list.exhaust; cases "tl raw") (auto simp: subarray_def)

text \<open>What an accepted v2 buffer looks like: its payload, followed by the digest of the payload.\<close>

lemma decode_v2_frame:
  assumes "decode_v2 sha raw = Inr d" "raw ! 0 = RECEIPT_VERSION_V2"
  obtains jl where "jl = be_val (subarray raw 2 6)" "38 + jl \<le> length raw"
    "raw = ([RECEIPT_VERSION_V2, raw ! 1] @ be_bytes 4 jl) @ subarray raw 6 (6 + jl)
             @ subarray raw (6 + jl) (length raw - 32)
             @ Rep_digest (sha (subarray raw 0 (length raw - 32)))"
    "subarray raw 0 (length raw - 32) = ([RECEIPT_VERSION_V2, raw ! 1] @ be_bytes 4 jl)
             @ subarray raw 6 (6 + jl) @ subarray raw (6 + jl) (length raw - 32)"
    "if raw ! 1 = GROTH16_PQC_HYBRID then decode_hybrid raw jl = Inr d
     else d = \<lparr>dr_version = RECEIPT_VERSION_V2, dr_proofType = raw ! 1,
                  dr_journal = subarray raw 6 (6 + jl),
                  dr_proof = subarray raw (6 + jl) (length raw - 32),
                  dr_raw = raw, dr_pqcSignature = None, dr_pqcPublicKey = None\<rparr>"
proof
  let ?n = "length raw" and ?jl = "be_val (subarray raw 2 6)"
  show "?jl = be_val (subarray raw 2 6)" ..
  from assms(1) have n: "38 + ?jl \<le> ?n" "38 \<le> ?n"
    and sum: "subarray raw (?n - 32) ?n = Rep_digest (sha (subarray raw 0 (?n - 32)))"
    by (auto simp: decode_v2_def Let_def read_uint_Inr timing_safe_equal_Inr)
  show "38 + ?jl \<le> ?n" by (fact n)
  have head: "subarray raw 0 2 = [RECEIPT_VERSION_V2, raw ! 1]"
    using n assms(2) by (simp add: subarray_two)
  have jl4: "be_bytes 4 ?jl = subarray raw 2 6"
    using n by (simp add: be_bytes_of_val)
  show pay: "subarray raw 0 (?n - 32) = ([RECEIPT_VERSION_V2, raw ! 1] @ be_bytes 4 ?jl)
             @ subarray raw 6 (6 + ?jl) @ subarray raw (6 + ?jl) (?n - 32)"
    unfolding head [symmetric] jl4 using n by (simp add: subarray_glue)
  have "raw = subarray raw 0 (?n - 32) @ subarray raw (?n - 32) ?n"
    using n by (simp add: subarray_glue subarray_all)
  then show "raw = ([RECEIPT_VERSION_V2, raw ! 1] @ be_bytes 4 ?jl) @ subarray raw 6 (6 + ?jl)
             @ subarray raw (6 + ?jl) (?n - 32) @ Rep_digest (sha (subarray raw 0 (?n - 32)))"
    unfolding sum pay by simp
  show "if raw ! 1 = GROTH16_PQC_HYBRID then decode_hybrid raw ?jl = Inr d
     else d = \<lparr>dr_version = RECEIPT_VERSION_V2, dr_proofType = raw ! 1,
                  dr_journal = subarray raw 6 (6 + ?jl),
                  dr_proof = subarray raw (6 + ?jl) (length raw - 32),
                  dr_raw = raw, dr_pqcSignature = None, dr_pqcPublicKey = None\<rparr>"
    using assms(1) by (auto simp: decode_v2_def Let_def read_uint_Inr split: if_splits)
qed

lemma decode_dispatch:
  "raw \<noteq> [] \<Longrightarrow> raw ! 0 = RECEIPT_VERSION_V2 \<Longrightarrow> decode sha raw = decode_v2 sha raw"
  "raw \<noteq> [] \<Longrightarrow> raw ! 0 = RECEIPT_VERSION_V1 \<Longrightarrow> decode sha raw = decode_v1 raw"
  by (cases raw; simp add: decode_def receipt_consts)+

lemma decode_version:
  "decode sha raw = Inr d \<Longrightarrow>
     raw \<noteq> [] \<and> raw ! 0 = dr_version d \<and> dr_raw d = raw \<and>
     (dr_version d = RECEIPT_VERSION_V1 \<or> dr_version d = RECEIPT_VERSION_V2)"
  by (cases raw) (auto simp: decode_def decode_v1_def decode_v2_def decode_hybrid_def Let_def split: if_splits)

lemma decode_v1_encode:
  assumes "encode_v1 journal seal = Inr raw" "length seal = 32"
  shows "decode sha (raw @ junk) =
           Inr \<lparr>dr_version = RECEIPT_VERSION_V1, dr_proofType = HMAC_LEGACY, dr_journal = journal,
                dr_proof = seal, dr_raw = raw @ junk, dr_pqcSignature = None, dr_pqcPublicKey = None\<rparr>"
proof -
  let ?len = "be_bytes 2 (length journal)"
  have raw: "raw = RECEIPT_VERSION_V1 # ?len @ journal @ seal" and small: "length journal < 256 ^ 2"
    using assms(1) by (auto simp: encode_v1_def write_uint_Inr)
  have len: "read_uint (raw @ junk) 1 2 = Inr (length journal)"
    using small by (simp add: raw read_uint_Inr subarray_def)
  have "subarray (raw @ junk) 3 (3 + length journal) = journal"
    by (rule subarray_at [where xs = "RECEIPT_VERSION_V1 # ?len" and zs = "seal @ junk"])
       (simp_all add: raw)
  moreover have "subarray (raw @ junk) (3 + length journal) (3 + length journal + 32) = seal"
    by (rule subarray_at [where xs = "RECEIPT_VERSION_V1 # ?len @ journal" and zs = junk])
       (simp_all add: raw assms(2))
  ultimately show ?thesis
    using assms(2) len by (simp add: decode_def raw decode_v1_def receipt_consts)
qed

lemma decode_v2_encode:
  assumes "encode_v2 sha pt journal proof = Inr raw" "pt \<noteq> GROTH16_PQC_HYBRID"
  shows "decode sha raw =
           Inr \<lparr>dr_version = RECEIPT_VERSION_V2, dr_proofType = pt, dr_journal = journal,
                dr_proof = proof, dr_raw = raw, dr_pqcSignature = None, dr_pqcPublicKey = None\<rparr>"
proof -
  let ?len = "be_bytes 4 (length journal)"
  let ?pay = "RECEIPT_VERSION_V2 # pt # ?len @ journal @ proof"
  have raw: "raw = ?pay @ Rep_digest (sha ?pay)" and small: "length journal < 256 ^ 4"
    using assms(1) by (auto simp: encode_v2_def write_uint_Inr Let_def)
  have len: "read_uint raw 2 4 = Inr (length journal)"
    using small by (simp add: raw read_uint_Inr subarray_def)
  have sum: "subarray raw (length raw - 32) (length raw) = Rep_digest (sha ?pay)"
    "subarray raw 0 (length raw - 32) = ?pay"
    unfolding raw by (rule checksum_split)+
  have parts: "subarray raw 6 (6 + length journal) = journal"
    by (rule subarray_at [where xs = "RECEIPT_VERSION_V2 # pt # ?len"]) (simp_all add: raw)
  have rest: "subarray raw (6 + length journal) (length raw - 32) = proof"
    by (rule subarray_at [where xs = "RECEIPT_VERSION_V2 # pt # ?len @ journal"]) (simp_all add: raw)
  have size: "38 + length journal \<le> length raw" "raw ! 1 = pt" "raw ! 0 = RECEIPT_VERSION_V2" "raw \<noteq> []"
    by (simp_all add: raw)
  show ?thesis
    using assms(2) size
    by (simp add: decode_dispatch decode_v2_def len sum parts rest timing_safe_equal_def)
qed

lemma decode_hybrid_iff:
  "decode_hybrid raw jl = Inr d \<longleftrightarrow>
     (let o1 = 6 + jl; pl = be_val (subarray raw o1 (o1 + 2));
          o2 = o1 + 2 + pl; sl = be_val (subarray raw o2 (o2 + 2)); o3 = o2 + 2 + sl
      in o1 + 2 + 32 \<le> length raw \<and> o2 + 2 + 32 \<le> length raw \<and> o3 + 32 \<le> length raw \<and>
         d = \<lparr>dr_version = RECEIPT_VERSION_V2, dr_proofType = GROTH16_PQC_HYBRID,
              dr_journal = subarray raw 6 o1, dr_proof = subarray raw (o1 + 2) o2, dr_raw = raw,
              dr_pqcSignature = Some (subarray raw (o2 + 2) o3),
              dr_pqcPublicKey = Some (subarray raw o3 (length raw - 32))\<rparr>)"
  by (auto simp: decode_hybrid_def Let_def read_uint_Inr)

lemma decode_hybridE:
  assumes "decode_hybrid raw jl = Inr d"
  obtains o1 pl o2 sl o3 where "o1 = 6 + jl" "pl = be_val (subarray raw o1 (o1 + 2))"
    "o2 = o1 + 2 + pl" "sl = be_val (subarray raw o2 (o2 + 2))" "o3 = o2 + 2 + sl"
    "o3 + 32 \<le> length raw"
    "d = \<lparr>dr_version = RECEIPT_VERSION_V2, dr_proofType = GROTH16_PQC_HYBRID,
          dr_journal = subarray raw 6 o1, dr_proof = subarray raw (o1 + 2) o2, dr_raw = raw,
          dr_pqcSignature = Some (subarray raw (o2 + 2) o3),
          dr_pqcPublicKey = Some (subarray raw o3 (length raw - 32))\<rparr>"
  using assms unfolding decode_hybrid_iff Let_def by blast

lemma decode_hybrid_encode:
  assumes "encode_hybrid_v2 sha journal proof sig pk = Inr raw"
  shows "decode sha raw =
           Inr \<lparr>dr_version = RECEIPT_VERSION_V2, dr_proofType = GROTH16_PQC_HYBRID, dr_journal = journal,
                dr_proof = proof, dr_raw = raw, dr_pqcSignature = Some sig, dr_pqcPublicKey = Some pk\<rparr>"
proof -
  let ?j = "length journal" and ?p = "length proof" and ?s = "length sig"
  let ?hd = "RECEIPT_VERSION_V2 # GROTH16_PQC_HYBRID # be_bytes 4 ?j"
  let ?pay = "?hd @ journal @ be_bytes 2 ?p @ proof @ be_bytes 2 ?s @ sig @ pk"
  have raw: "raw = ?pay @ Rep_digest (sha ?pay)"
    and small: "?j < 256 ^ 4" "?p < 256 ^ 2" "?s < 256 ^ 2"
    using assms by (auto simp: encode_hybrid_v2_def write_uint_Inr Let_def)
  have sum: "subarray raw (length raw - 32) (length raw) = Rep_digest (sha ?pay)"
    "subarray raw 0 (length raw - 32) = ?pay"
    unfolding raw by (rule checksum_split)+
  have jl: "subarray raw 2 6 = be_bytes 4 ?j"
    by (rule subarray_at [where xs = "[RECEIPT_VERSION_V2, GROTH16_PQC_HYBRID]"]) (simp_all add: raw)
  have j: "subarray raw 6 (6 + ?j) = journal"
    by (rule subarray_at [where xs = ?hd]) (simp_all add: raw)
  have pl: "subarray raw (6 + ?j) (6 + ?j + 2) = be_bytes 2 ?p"
    by (rule subarray_at [where xs = "?hd @ journal"]) (simp_all add: raw)
  have pr: "subarray raw (6 + ?j + 2) (6 + ?j + 2 + ?p) = proof"
    by (rule subarray_at [where xs = "?hd @ journal @ be_bytes 2 ?p"]) (simp_all add: raw)
  have sl: "subarray raw (6 + ?j + 2 + ?p) (6 + ?j + 2 + ?p + 2) = be_bytes 2 ?s"
    by (rule subarray_at [where xs = "?hd @ journal @ be_bytes 2 ?p @ proof"]) (simp_all add: raw)
  have sg: "subarray raw (6 + ?j + 2 + ?p + 2) (6 + ?j + 2 + ?p + 2 + ?s) = sig"
    by (rule subarray_at [where xs = "?hd @ journal @ be_bytes 2 ?p @ proof @ be_bytes 2 ?s"])
       (simp_all add: raw)
  have kk: "subarray raw (6 + ?j + 2 + ?p + 2 + ?s) (length raw - 32) = pk"
    by (rule subarray_at [where xs = "?hd @ journal @ be_bytes 2 ?p @ proof @ be_bytes 2 ?s @ sig"])
       (simp_all add: raw)
  have size: "length raw = 6 + ?j + 2 + ?p + 2 + ?s + length pk + 32" "raw ! 1 = GROTH16_PQC_HYBRID"
    "raw ! 0 = RECEIPT_VERSION_V2" "raw \<noteq> []"
    by (simp_all add: raw)
  have "decode_hybrid raw ?j = Inr \<lparr>dr_version = RECEIPT_VERSION_V2, dr_proofType = GROTH16_PQC_HYBRID,
          dr_journal = journal, dr_proof = proof, dr_raw = raw, dr_pqcSignature = Some sig,
          dr_pqcPublicKey = Some pk\<rparr>"
    unfolding decode_hybrid_iff Let_def pl be_val_be_bytes [OF small(2)] sl be_val_be_bytes [OF small(3)]
    unfolding j pr sg kk by (simp add: size(1))
  moreover have "38 + ?j \<le> length raw" using size(1) by simp
  ultimately show ?thesis
    using size(2-) small(1)
    by (simp add: decode_dispatch decode_v2_def read_uint_def jl sum timing_safe_equal_def)
qed

text \<open>Every accepted v2 receipt is the encoding of what was read from it.\<close>

lemma write_uint_length: "length b = n \<Longrightarrow> write_uint n (int (be_val b)) = Inr b"
  using be_val_bound [of b] by (auto simp: write_uint_Inr)

lemma write_uint_len: "jl = be_val b \<Longrightarrow> length b = n \<Longrightarrow> write_uint n (int jl) = Inr (be_bytes n jl)"
  using be_val_bound [of b] by (auto simp: write_uint_Inr)

lemma decode_v2_reencode:
  assumes dec: "decode sha raw = Inr d" and v2: "dr_version d = RECEIPT_VERSION_V2"
    and plain: "dr_proofType d \<noteq> GROTH16_PQC_HYBRID"
  shows "encode_v2 sha (dr_proofType d) (dr_journal d) (dr_proof d) = Inr raw"
proof -
  from decode_version [OF dec] v2 have r0: "raw \<noteq> []" "raw ! 0 = RECEIPT_VERSION_V2" by simp_all
  from dec r0 have dec2: "decode_v2 sha raw = Inr d" by (simp add: decode_dispatch)
  from decode_v2_frame [OF dec2 r0(2)] obtain jl where
    jl: "jl = be_val (subarray raw 2 6)" "38 + jl \<le> length raw"
    and raw: "raw = ([RECEIPT_VERSION_V2, raw ! 1] @ be_bytes 4 jl) @ subarray raw 6 (6 + jl)
             @ subarray raw (6 + jl) (length raw - 32)
             @ Rep_digest (sha (subarray raw 0 (length raw - 32)))"
    and pay: "subarray raw 0 (length raw - 32) = ([RECEIPT_VERSION_V2, raw ! 1] @ be_bytes 4 jl)
             @ subarray raw 6 (6 + jl) @ subarray raw (6 + jl) (length raw - 32)"
    and d: "if raw ! 1 = GROTH16_PQC_HYBRID then decode_hybrid raw jl = Inr d
     else d = \<lparr>dr_version = RECEIPT_VERSION_V2, dr_proofType = raw ! 1,
                  dr_journal = subarray raw 6 (6 + jl),
                  dr_proof = subarray raw (6 + jl) (length raw - 32),
                  dr_raw = raw, dr_pqcSignature = None, dr_pqcPublicKey = None\<rparr>"
    by metis
  have "raw ! 1 \<noteq> GROTH16_PQC_HYBRID"
    using d plain by (auto simp: decode_hybrid_iff Let_def split: if_splits)
  with d have flds: "dr_proofType d = raw ! 1" "dr_journal d = subarray raw 6 (6 + jl)"
    "dr_proof d = subarray raw (6 + jl) (length raw - 32)" by simp_all
  have "write_uint 4 (int (length (dr_journal d))) = Inr (be_bytes 4 jl)"
    using jl(2) write_uint_len [OF jl(1), of 4] by (simp add: flds)
  then show ?thesis
    using raw unfolding encode_v2_def flds by (simp add: Let_def pay)
qed

lemma decode_hybrid_reencode:
  assumes dec: "decode sha raw = Inr d" and v2: "dr_version d = RECEIPT_VERSION_V2"
    and hyb: "dr_proofType d = GROTH16_PQC_HYBRID"
  shows "\<exists>sig pk. dr_pqcSignature d = Some sig \<and> dr_pqcPublicKey d = Some pk \<and>
           encode_hybrid_v2 sha (dr_journal d) (dr_proof d) sig pk = Inr raw"
proof -
  from decode_version [OF dec] v2 have r0: "raw \<noteq> []" "raw ! 0 = RECEIPT_VERSION_V2" by simp_all
  from dec r0 have dec2: "decode_v2 sha raw = Inr d" by (simp add: decode_dispatch)
  from decode_v2_frame [OF dec2 r0(2)] obtain jl where
    jl: "jl = be_val (subarray raw 2 6)" "38 + jl \<le> length raw"
    and raw: "raw = ([RECEIPT_VERSION_V2, raw ! 1] @ be_bytes 4 jl) @ subarray raw 6 (6 + jl)
             @ subarray raw (6 + jl) (length raw - 32)
             @ Rep_digest (sha (subarray raw 0 (length raw - 32)))"
    and pay: "subarray raw 0 (length raw - 32) = ([RECEIPT_VERSION_V2, raw ! 1] @ be_bytes 4 jl)
             @ subarray raw 6 (6 + jl) @ subarray raw (6 + jl) (length raw - 32)"
    and d: "if raw ! 1 = GROTH16_PQC_HYBRID then decode_hybrid raw jl = Inr d
     else d = \<lparr>dr_version = RECEIPT_VERSION_V2, dr_proofType = raw ! 1,
                  dr_journal = subarray raw 6 (6 + jl),
                  dr_proof = subarray raw (6 + jl) (length raw - 32),
                  dr_raw = raw, dr_pqcSignature = None, dr_pqcPublicKey = None\<rparr>"
    by metis
  have r1: "raw ! 1 = GROTH16_PQC_HYBRID" using d hyb by (auto split: if_splits)
  from d r1 have "decode_hybrid raw jl = Inr d" by simp
  then obtain o1 pl o2 sl o3 where o: "o1 = 6 + jl" "o2 = o1 + 2 + pl" "o3 = o2 + 2 + sl"
    and pl: "pl = be_val (subarray raw o1 (o1 + 2))" and sl: "sl = be_val (subarray raw o2 (o2 + 2))"
    and n: "o3 + 32 \<le> length raw"
    and deq: "d = \<lparr>dr_version = RECEIPT_VERSION_V2, dr_proofType = GROTH16_PQC_HYBRID,
          dr_journal = subarray raw 6 o1, dr_proof = subarray raw (o1 + 2) o2, dr_raw = raw,
          dr_pqcSignature = Some (subarray raw (o2 + 2) o3),
          dr_pqcPublicKey = Some (subarray raw o3 (length raw - 32))\<rparr>"
    by (rule decode_hybridE)
  have sizes: "length (subarray raw 6 o1) = jl" "length (subarray raw (o1 + 2) o2) = pl"
    "length (subarray raw (o2 + 2) o3) = sl" using o n by simp_all
  have two: "length (subarray raw o1 (o1 + 2)) = 2" "length (subarray raw o2 (o2 + 2)) = 2"
    "length (subarray raw 2 6) = 4" using o n by simp_all
  have lens: "write_uint 4 (int jl) = Inr (be_bytes 4 jl)"
    "write_uint 2 (int pl) = Inr (subarray raw o1 (o1 + 2))"
    "write_uint 2 (int sl) = Inr (subarray raw o2 (o2 + 2))"
    unfolding pl sl using two write_uint_len [OF jl(1)] by (simp_all add: write_uint_length)
  have tail: "subarray raw (6 + jl) (length raw - 32) = subarray raw o1 (o1 + 2) @ subarray raw (o1 + 2) o2
          @ subarray raw o2 (o2 + 2) @ subarray raw (o2 + 2) o3 @ subarray raw o3 (length raw - 32)"
    using o n by (simp add: subarray_glue)
  have "encode_hybrid_v2 sha (subarray raw 6 o1) (subarray raw (o1 + 2) o2) (subarray raw (o2 + 2) o3)
               (subarray raw o3 (length raw - 32)) = Inr raw"
    unfolding encode_hybrid_v2_def sizes lens ebind.simps Let_def
    using raw unfolding pay r1 o(1) [symmetric] tail [folded o(1)] by simp
  with deq show ?thesis by simp
qed

text \<open>
  The three layouts as formats. The v1 layout is not canonical: \<open>decode\<close> ignores whatever
  follows the seal.
\<close>

interpretation receipt_v1: wire_format "\<lambda>(journal, seal). encode_v1 journal seal"
    "\<lambda>b. ebind (decode sha b) (\<lambda>d. Inr (dr_journal d, dr_proof d))"
    "\<lambda>(journal, seal). length journal < 256 ^ 2 \<and> length seal = 32" for sha
proof
  fix x :: "bytes \<times> bytes" and b
  assume "case x of (journal, seal) \<Rightarrow> length journal < 256 ^ 2 \<and> length seal = 32"
    and "(case x of (journal, seal) \<Rightarrow> encode_v1 journal seal) = Inr b"
  then show "ebind (decode sha b) (\<lambda>d. Inr (dr_journal d, dr_proof d)) = Inr x"
    using decode_v1_encode [of "fst x" "snd x" b sha "[]"] by (auto split: prod.splits)
qed (auto simp: encode_v1_def write_uint_def)

interpretation receipt_v2: canonical_format "\<lambda>(pt, journal, pf). encode_v2 sha pt journal pf"
    "\<lambda>b. ebind (decode sha b) (\<lambda>d.
       if dr_version d = RECEIPT_VERSION_V2 \<and> dr_proofType d \<noteq> GROTH16_PQC_HYBRID
       then Inr (dr_proofType d, dr_journal d, dr_proof d) else Inl V2_Truncated)"
    "\<lambda>(pt, journal, pf). length journal < 256 ^ 4 \<and> pt \<noteq> GROTH16_PQC_HYBRID" for sha
proof
  fix b x
  assume "ebind (decode sha b) (\<lambda>d.
       if dr_version d = RECEIPT_VERSION_V2 \<and> dr_proofType d \<noteq> GROTH16_PQC_HYBRID
       then Inr (dr_proofType d, dr_journal d, dr_proof d) else Inl V2_Truncated) = Inr x"
  then obtain d where d: "decode sha b = Inr d" "dr_version d = RECEIPT_VERSION_V2"
    "dr_proofType d \<noteq> GROTH16_PQC_HYBRID" and x: "x = (dr_proofType d, dr_journal d, dr_proof d)"
    by (auto split: if_splits)
  from decode_v2_reencode [OF d]
  show "(case x of (pt, journal, pf) \<Rightarrow> length journal < 256 ^ 4 \<and> pt \<noteq> GROTH16_PQC_HYBRID) \<and>
        (case x of (pt, journal, pf) \<Rightarrow> encode_v2 sha pt journal pf) = Inr b"
    using d(3) by (auto simp: x encode_v2_def write_uint_Inr)
next
  fix x :: "byte \<times> bytes \<times> bytes" and b
  assume "case x of (pt, journal, pf) \<Rightarrow> length journal < 256 ^ 4 \<and> pt \<noteq> GROTH16_PQC_HYBRID"
    and "(case x of (pt, journal, pf) \<Rightarrow> encode_v2 sha pt journal pf) = Inr b"
  then show "ebind (decode sha b) (\<lambda>d.
       if dr_version d = RECEIPT_VERSION_V2 \<and> dr_proofType d \<noteq> GROTH16_PQC_HYBRID
       then Inr (dr_proofType d, dr_journal d, dr_proof d) else Inl V2_Truncated) = Inr x"
    using decode_v2_encode [of sha "fst x" "fst (snd x)" "snd (snd x)" b] by (auto split: prod.splits)
qed (auto simp: encode_v2_def write_uint_def Let_def)

section \<open>Properties\<close>

text \<open>
  The journal codec is canonical: \<open>decodeJournalV2\<close> accepts exactly the buffers that
  \<open>encodeJournalV2\<close> produces, and returns the journal they were produced from. In particular
  the two functions are inverse to each other and both are injective.
\<close>

theorem journal_v2_canonical:
  "decode_journal_v2 b = Inr j \<longleftrightarrow> journal_ok j \<and> encode_journal_v2 j = Inr b"
  by (rule journal_v2.dec_iff)

text \<open>
  C28. Receipts round-trip: what \<open>encodeV2\<close>, \<open>encodeHybridV2\<close> and the v1 writer of the worker
  produce, \<open>receiptCodec.decode\<close> reads back field by field.
\<close>

theorem receipt_roundtrip:
  "(encode_v1 journal seal = Inr raw \<longrightarrow> length seal = 32 \<longrightarrow>
      decode sha raw = Inr \<lparr>dr_version = RECEIPT_VERSION_V1, dr_proofType = HMAC_LEGACY,
        dr_journal = journal, dr_proof = seal, dr_raw = raw,
        dr_pqcSignature = None, dr_pqcPublicKey = None\<rparr>) \<and>
   (encode_v2 sha pt journal pf = Inr raw \<longrightarrow> pt \<noteq> GROTH16_PQC_HYBRID \<longrightarrow>
      decode sha raw = Inr \<lparr>dr_version = RECEIPT_VERSION_V2, dr_proofType = pt,
        dr_journal = journal, dr_proof = pf, dr_raw = raw,
        dr_pqcSignature = None, dr_pqcPublicKey = None\<rparr>) \<and>
   (encode_hybrid_v2 sha journal pf sig pk = Inr raw \<longrightarrow>
      decode sha raw = Inr \<lparr>dr_version = RECEIPT_VERSION_V2, dr_proofType = GROTH16_PQC_HYBRID,
        dr_journal = journal, dr_proof = pf, dr_raw = raw,
        dr_pqcSignature = Some sig, dr_pqcPublicKey = Some pk\<rparr>)"
  using decode_v1_encode [of journal seal raw sha "[]"] decode_v2_encode [of sha pt journal pf raw]
    decode_hybrid_encode [of sha journal pf sig pk raw]
  by simp

theorem receipt_roundtrip_witness:
  "\<exists>raw. encode_hybrid_v2 (\<lambda>_. Abs_digest (replicate 32 7)) [1, 2] [3] [4, 5] [6] = Inr raw \<and>
     decode (\<lambda>_. Abs_digest (replicate 32 7)) raw =
       Inr \<lparr>dr_version = RECEIPT_VERSION_V2, dr_proofType = GROTH16_PQC_HYBRID,
        dr_journal = [1, 2], dr_proof = [3], dr_raw = raw,
        dr_pqcSignature = Some [4, 5], dr_pqcPublicKey = Some [6]\<rparr>"
proof -
  have "\<exists>raw. encode_hybrid_v2 (\<lambda>_. Abs_digest (replicate 32 7)) [1, 2] [3] [4, 5] [6] = Inr raw"
    by (simp add: encode_hybrid_v2_def write_uint_def Let_def)
  then show ?thesis
    using receipt_roundtrip [where sha = "\<lambda>_. Abs_digest (replicate 32 7)"
        and journal = "[1, 2]" and pf = "[3]" and sig = "[4, 5]" and pk = "[6]"] by blast
qed

text \<open>
  C31. Integrity of v2 receipts: a buffer that \<open>decode\<close> accepts as version 2 is, byte for byte,
  the encoding of the fields it returned. No bit of an accepted v2 receipt is outside the
  decoded fields and their checksum.
\<close>

theorem receipt_v2_canonical:
  assumes "decode sha raw = Inr d" "dr_version d = RECEIPT_VERSION_V2"
  shows "if dr_proofType d = GROTH16_PQC_HYBRID
         then \<exists>sig pk. dr_pqcSignature d = Some sig \<and> dr_pqcPublicKey d = Some pk \<and>
                encode_hybrid_v2 sha (dr_journal d) (dr_proof d) sig pk = Inr raw
         else encode_v2 sha (dr_proofType d) (dr_journal d) (dr_proof d) = Inr raw"
  using decode_v2_reencode [OF assms] decode_hybrid_reencode [OF assms] by simp

theorem receipt_v2_canonical_witness:
  "\<exists>raw d. encode_v2 (\<lambda>_. Abs_digest (replicate 32 7)) GROTH16 [9] [8] = Inr raw \<and>
     decode (\<lambda>_. Abs_digest (replicate 32 7)) raw = Inr d \<and>
     encode_v2 (\<lambda>_. Abs_digest (replicate 32 7)) (dr_proofType d) (dr_journal d) (dr_proof d) = Inr raw"
proof -
  let ?sha = "\<lambda>_ :: bytes. Abs_digest (replicate 32 7)"
  obtain raw where raw: "encode_v2 ?sha GROTH16 [9] [8] = Inr raw"
    by (simp add: encode_v2_def write_uint_def Let_def)
  let ?d = "\<lparr>dr_version = RECEIPT_VERSION_V2, dr_proofType = GROTH16, dr_journal = [9], dr_proof = [8],
             dr_raw = raw, dr_pqcSignature = None, dr_pqcPublicKey = None\<rparr>"
  have dec: "decode ?sha raw = Inr ?d"
    by (rule decode_v2_encode [OF raw]) (simp add: receipt_consts)
  from receipt_v2_canonical [OF dec] have
    "encode_v2 ?sha (dr_proofType ?d) (dr_journal ?d) (dr_proof ?d) = Inr raw"
    by (simp add: receipt_consts)
  with raw dec show ?thesis by blast
qed

text \<open>
  The v1 layout is malleable for \<open>receiptCodec.decode\<close>: appending bytes to a v1 receipt leaves
  the decoded journal and seal unchanged, although \<open>ZkVerifier.verify\<close> rejects the longer buffer
  because its seal is not 32 bytes.
\<close>

theorem receipt_v1_trailing_bytes:
  assumes "encode_v1 journal seal = Inr raw" "length seal = 32" "junk \<noteq> []"
  shows "\<exists>d. decode sha (raw @ junk) = Inr d \<and> dr_journal d = journal \<and> dr_proof d = seal \<and>
           zk_verify hmac parse
             \<lparr>rc_proof = raw @ junk, rc_journal = journal, rc_imageId = i,
              rc_proofType = None, rc_version = None\<rparr> i secret = Inl Bad_Seal_Length"
proof -
  have raw: "raw = RECEIPT_VERSION_V1 # be_bytes 2 (length journal) @ journal @ seal"
    and small: "length journal < 256 ^ 2"
    using assms(1) by (auto simp: encode_v1_def write_uint_Inr)
  have "read_uint (raw @ junk) 1 2 = Inr (length journal)"
    using small by (simp add: raw read_uint_Inr subarray_def)
  moreover have "subarray (raw @ junk) (3 + length journal) (length (raw @ junk)) = seal @ junk"
    by (rule subarray_at [where xs = "RECEIPT_VERSION_V1 # be_bytes 2 (length journal) @ journal" and zs = "[]"])
       (simp_all add: raw)
  ultimately have "zk_verify hmac parse
             \<lparr>rc_proof = raw @ junk, rc_journal = journal, rc_imageId = i,
              rc_proofType = None, rc_version = None\<rparr> i secret = Inl Bad_Seal_Length"
    using assms(2,3) by (simp add: zk_verify_def Let_def raw receipt_consts)
  then show ?thesis using decode_v1_encode [OF assms(1,2), of sha junk] by simp
qed

theorem receipt_v1_trailing_bytes_witness:
  "\<exists>raw d. encode_v1 [1] (replicate 32 0) = Inr raw \<and>
     decode (\<lambda>_. Abs_digest (replicate 32 7)) (raw @ [255]) = Inr d \<and> dr_journal d = [1]"
proof -
  obtain raw where raw: "encode_v1 [1] (replicate 32 0) = Inr raw"
    by (simp add: encode_v1_def write_uint_def)
  from receipt_v1_trailing_bytes [OF raw, of "[255]" "\<lambda>_. Abs_digest (replicate 32 7)"
      "\<lambda>_ _. Abs_digest (replicate 32 7)" "\<lambda>_. None" "[]" None]
  have "\<exists>d. decode (\<lambda>_. Abs_digest (replicate 32 7)) (raw @ [255]) = Inr d \<and> dr_journal d = [1]"
    by auto
  with raw show ?thesis by blast
qed

text \<open>
  C25. \<open>ZkVerifier.verify\<close> with a session secret accepts a receipt exactly when its image id is the
  expected one and its proof is the v1 encoding of a journal that names this image id, sealed
  with the HMAC of that journal under the secret.
\<close>

theorem zk_verify_accepts_iff:
  assumes "secret \<noteq> []"
  shows "zk_verify hmac parse receipt expected (Some secret) = Inr True \<longleftrightarrow>
    rc_imageId receipt = expected \<and>
    (\<exists>journal. journal_names parse journal (hex_of expected) \<and>
       encode_v1 journal (Rep_digest (hmac secret journal)) = Inr (rc_proof receipt))"
    (is "?L = ?R")
proof
  assume ?L
  let ?b = "rc_proof receipt"
  let ?jl = "be_val (subarray ?b 1 3)"
  from \<open>?L\<close> assms have id: "rc_imageId receipt = expected" and b0: "35 \<le> length ?b" "?b ! 0 = 1"
    and seal: "subarray ?b (3 + ?jl) (length ?b) = Rep_digest (hmac secret (subarray ?b 3 (3 + ?jl)))"
    and nm: "journal_names parse (subarray ?b 3 (3 + ?jl)) (hex_of expected)"
    by (auto simp: zk_verify_def Let_def read_uint_Inr timing_safe_equal_Inr numeral_3_eq_3)
  have fit: "3 + ?jl + 32 = length ?b" using arg_cong [OF seal, of length] b0 by simp
  have "?b = subarray ?b 0 1 @ subarray ?b 1 3 @ subarray ?b 3 (3 + ?jl) @ subarray ?b (3 + ?jl) (length ?b)"
    using b0 fit by (simp add: subarray_glue subarray_all)
  moreover have "subarray ?b 0 1 = [RECEIPT_VERSION_V1]"
    using b0 by (cases ?b) (auto simp: subarray_def receipt_consts)
  moreover have "write_uint 2 (int (length (subarray ?b 3 (3 + ?jl)))) = Inr (subarray ?b 1 3)"
    using fit b0 by (simp add: write_uint_length)
  ultimately have "encode_v1 (subarray ?b 3 (3 + ?jl)) (subarray ?b (3 + ?jl) (length ?b)) = Inr ?b"
    unfolding encode_v1_def by simp
  then have "encode_v1 (subarray ?b 3 (3 + ?jl)) (Rep_digest (hmac secret (subarray ?b 3 (3 + ?jl)))) = Inr ?b"
    by (simp only: seal)
  with id nm show ?R by blast
next
  assume ?R
  then obtain journal where id: "rc_imageId receipt = expected"
    and nm: "journal_names parse journal (hex_of expected)"
    and enc: "encode_v1 journal (Rep_digest (hmac secret journal)) = Inr (rc_proof receipt)" by blast
  let ?seal = "Rep_digest (hmac secret journal)"
  have raw: "rc_proof receipt = RECEIPT_VERSION_V1 # be_bytes 2 (length journal) @ journal @ ?seal"
    and small: "length journal < 256 ^ 2"
    using enc by (auto simp: encode_v1_def write_uint_Inr)
  have "read_uint (rc_proof receipt) 1 2 = Inr (length journal)"
    using small by (simp add: raw read_uint_Inr subarray_def)
  moreover have "subarray (rc_proof receipt) 3 (3 + length journal) = journal"
    by (rule subarray_at [where xs = "RECEIPT_VERSION_V1 # be_bytes 2 (length journal)"]) (simp_all add: raw)
  moreover have "subarray (rc_proof receipt) (3 + length journal) (length (rc_proof receipt)) = ?seal"
    by (rule subarray_at [where xs = "RECEIPT_VERSION_V1 # be_bytes 2 (length journal) @ journal" and zs = "[]"])
       (simp_all add: raw)
  ultimately show ?L
    using assms nm by (simp add: zk_verify_def Let_def id timing_safe_equal_def)
      (auto simp: raw receipt_consts)
qed

theorem zk_verify_accepts_iff_witness:
  "\<exists>raw. zk_verify (\<lambda>_ _. Abs_digest (replicate 32 7)) (\<lambda>_. Some (JObj None [(''image_id'', JStr ''0a'')]))
     \<lparr>rc_proof = raw, rc_journal = [1], rc_imageId = [10], rc_proofType = None, rc_version = None\<rparr> [10] (Some [1]) = Inr True"
proof -
  have "\<exists>raw. encode_v1 [1] (Rep_digest (Abs_digest (replicate 32 7))) = Inr raw"
    by (simp add: encode_v1_def write_uint_def)
  moreover have "journal_names (\<lambda>_. Some (JObj None [(''image_id'', JStr ''0a'')])) [1] (hex_of [10])"
    by (simp add: journal_names_def hex_of_def hex_digit_def) code_simp
  ultimately show ?thesis
    using zk_verify_accepts_iff [of "[1]" "\<lambda>_ _. Abs_digest (replicate 32 7)"
        "\<lambda>_. Some (JObj None [(''image_id'', JStr ''0a'')])"] by fastforce
qed

end
