(* ===== verification/Access_Control.thy ===== *)
theory Access_Control
  imports Receipt_Codec
begin

text \<open>
  Who may run logic on a node: \<open>security/rbac.ts\<close> (scopes per MCP method), \<open>security/prm.ts\<close>,
  \<open>security/jwt-validator.ts\<close> and the authorization half of \<open>server/index.ts\<close>: the
  revocation list with its file, and the gate that \<open>negotiateIntent\<close> and \<open>executeLogic\<close> share.

  Parameters: \<open>jwt_verify\<close> is \<open>jose.jwtVerify\<close> with the resolved key set, \<open>url\<close> the host name and
  port of \<open>new URL\<close>, \<open>sha\<close> SHA-256. Time stamps and the outcomes of the file operations are
  arguments of the step that uses them.
\<close>

section \<open>Scopes\<close>

definition SCOPE_MAP :: "(string \<times> string list) list" where
  "SCOPE_MAP =
    [(''initialize'', []), (''notifications/initialized'', []), (''notifications/cancelled'', []),
     (''ping'', []), (''server/discover'', []), (''subscriptions/listen'', []),
     (''tools/list'', [''liop:tools:list'']), (''tools/call'', [''liop:tools:call'']),
     (''resources/list'', [''liop:resources:read'']), (''resources/read'', [''liop:resources:read'']),
     (''resources/templates/list'', [''liop:resources:read'']),
     (''prompts/list'', [''liop:schema:read'']), (''prompts/get'', [''liop:schema:read''])]"

text \<open>
  \<open>SCOPE_MAP[method]\<close> reads a property of an object literal, so the names of
  \<open>Object.prototype\<close> are found too: functions, here with their \<open>length\<close>, and the prototype
  itself, which has no \<open>length\<close>.
\<close>

datatype scope_entry = Scopes "string list" | Inherited "nat option" | No_Entry

definition scope_lookup :: "string \<Rightarrow> scope_entry" where
  "scope_lookup method =
     (case map_of SCOPE_MAP method of
        Some ss \<Rightarrow> Scopes ss
      | None \<Rightarrow> (case map_of object_prototype method of Some l \<Rightarrow> Inherited l | None \<Rightarrow> No_Entry))"

fun entry_length :: "scope_entry \<Rightarrow> nat option" where
  "entry_length (Scopes ss) = Some (length ss)"
| "entry_length (Inherited l) = l"
| "entry_length No_Entry = None"

record auth_info =
  ai_token :: string
  ai_clientId :: string
  ai_scopes :: "string list"
  ai_expiresAt :: "int option"

datatype denial = Authentication_Required string | Unknown_Method string | Missing_Scopes string "string list"

record authorization_result =
  allowed :: bool
  reason :: "denial option"

abbreviation allow :: authorization_result where
  "allow \<equiv> \<lparr>allowed = True, reason = None\<rparr>"

abbreviation deny :: "denial \<Rightarrow> authorization_result" where
  "deny r \<equiv> \<lparr>allowed = False, reason = Some r\<rparr>"

text \<open>Spreading an inherited value into the array throws a \<open>TypeError\<close> (\<open>None\<close>).\<close>

definition authorize_request ::
    "string \<Rightarrow> auth_info option \<Rightarrow> string list option \<Rightarrow> authorization_result option" where
  "authorize_request method auth additionalScopes =
     (let methodScopes = scope_lookup method in
      if entry_length methodScopes = Some 0 then Some allow
      else case auth of
        None \<Rightarrow> Some (deny (Authentication_Required method))
      | Some info \<Rightarrow>
          (case (case methodScopes of Scopes ss \<Rightarrow> Some ss | No_Entry \<Rightarrow> Some [] | Inherited l \<Rightarrow> None) of
             None \<Rightarrow> None
           | Some ms \<Rightarrow>
               (let needed = ms @ (case additionalScopes of None \<Rightarrow> [] | Some ss \<Rightarrow> ss) in
                if needed = [] then Some (deny (Unknown_Method method))
                else
                  (let missing = filter (\<lambda>s. s \<notin> set (ai_scopes info)) needed in
                   if missing \<noteq> [] then Some (deny (Missing_Scopes method missing)) else Some allow))))"

definition LIOP_SCOPES :: "string list" where
  "LIOP_SCOPES = [''liop:tools:list'', ''liop:tools:call'', ''liop:resources:read'',
                  ''liop:schema:read'', ''liop:mesh:query'']"

record protected_resource_metadata =
  prm_resource :: string
  prm_authorization_servers :: "string list"
  prm_scopes_supported :: "string list"
  prm_bearer_methods_supported :: "string list"
  prm_resource_documentation :: string

definition build_protected_resource_metadata :: "string \<Rightarrow> string \<Rightarrow> protected_resource_metadata" where
  "build_protected_resource_metadata issuer audience =
     \<lparr>prm_resource = audience, prm_authorization_servers = [issuer],
      prm_scopes_supported = LIOP_SCOPES, prm_bearer_methods_supported = [''header''],
      prm_resource_documentation = ''https://github.com/nekzus/liop''\<rparr>"

section \<open>Tokens\<close>

record jwt_validator =
  jv_issuer :: string
  jv_audience :: string

definition NEXUS_AUTHORITIES :: "string list" where
  "NEXUS_AUTHORITIES =
    [''nexus:3000'', ''liop-nexus:3000'', ''127.0.0.1:3000'', ''localhost:3000'',
     ''127.0.0.1:13000'', ''localhost:13000'', ''127.0.0.1:13001'', ''localhost:13001'',
     ''127.0.0.1:15000'', ''localhost:15000'']"

text \<open>\<open>replace(/^https?:\/\/[^/]+/, "")\<close>\<close>

definition strip_after_scheme :: "string \<Rightarrow> string \<Rightarrow> string option" where
  "strip_after_scheme scheme s =
     (if starts_with s scheme then
        (let r = drop (length scheme) s in
         if r = [] \<or> hd r = CHR ''/'' then None else Some (dropWhile (\<lambda>c. c \<noteq> CHR ''/'') r))
      else None)"

definition path_suffix :: "string \<Rightarrow> string" where
  "path_suffix s =
     (case strip_after_scheme ''https://'' s of Some p \<Rightarrow> p
      | None \<Rightarrow> (case strip_after_scheme ''http://'' s of Some p \<Rightarrow> p | None \<Rightarrow> s))"

definition push_new :: "string list \<Rightarrow> string \<Rightarrow> string list" where
  "push_new issuers alias = (if alias \<in> set issuers then issuers else issuers @ [alias])"

definition build_issuer_aliases ::
    "(string \<Rightarrow> (string \<times> string) option) \<Rightarrow> jwt_validator \<Rightarrow> string list" where
  "build_issuer_aliases url v =
     (let issuer = jv_issuer v;
          issuers = [issuer];
          cleanIssuer = (if ends_with issuer ''/'' then take (length issuer - 1) issuer else issuer) in
      case url cleanIssuer of
        None \<Rightarrow> issuers
      | Some (hostname, port) \<Rightarrow>
          (let issuerAuthority = hostname @ '':'' @ (if port = [] then ''3000'' else port) in
           if issuerAuthority \<notin> set NEXUS_AUTHORITIES then issuers
           else
             (let pathSuffix = path_suffix cleanIssuer;
                  issuers = foldl push_new issuers (map (\<lambda>a. ''http://'' @ a @ pathSuffix) NEXUS_AUTHORITIES) in
              if pathSuffix \<noteq> []
              then foldl push_new issuers (map (\<lambda>a. ''http://'' @ a) NEXUS_AUTHORITIES)
              else foldl push_new issuers (map (\<lambda>a. ''http://'' @ a @ ''/oidc'') NEXUS_AUTHORITIES))))"

record jwt_payload =
  jp_sub :: "string option"
  jp_scope :: jval
  jp_exp :: "int option"

record jwt_options =
  jo_issuer :: "string list"
  jo_audience :: string
  jo_algorithms :: "string list"
  jo_clockTolerance :: int
  jo_requiredClaims :: "string list"

type_synonym jwt_verify = "string \<Rightarrow> jwt_options \<Rightarrow> string + jwt_payload"

definition jwt_validate ::
    "jwt_verify \<Rightarrow> (string \<Rightarrow> (string \<times> string) option) \<Rightarrow> jwt_validator \<Rightarrow> string \<Rightarrow> string + auth_info" where
  "jwt_validate jwt_verify url v token =
     (let issuers = build_issuer_aliases url v in
      ebind (jwt_verify token
               \<lparr>jo_issuer = (if 1 < length issuers then issuers else [jv_issuer v]),
                jo_audience = jv_audience v, jo_algorithms = [''EdDSA'', ''ES256''],
                jo_clockTolerance = 5, jo_requiredClaims = [''sub'', ''scope'']\<rparr>) (\<lambda>payload.
        Inr \<lparr>ai_token = token,
             ai_clientId = (case jp_sub payload of None \<Rightarrow> ''unknown'' | Some s \<Rightarrow> s),
             ai_scopes = (case jp_scope payload of JStr s \<Rightarrow> split_on CHR '' '' s | _ \<Rightarrow> []),
             ai_expiresAt = jp_exp payload\<rparr>))"

section \<open>Revocation\<close>

text \<open>
  The revocation file is its modification time and what \<open>JSON.parse\<close> makes of its content
  (\<open>None\<close> for a syntax error). A step carries the outcome of its file operations.
\<close>

type_synonym disk = "(int \<times> jval option) option"

record io =
  io_now :: int       \<comment> \<open>\<open>Date.now()\<close>, the modification time of a write\<close>
  io_read :: bool     \<comment> \<open>\<open>statSync\<close> and \<open>readFileSync\<close> of the load succeed\<close>
  io_write :: bool    \<comment> \<open>\<open>mkdirSync\<close> and \<open>writeFileSync\<close> succeed\<close>
  io_stat :: bool     \<comment> \<open>\<open>statSync\<close> after the write succeeds\<close>

record grpc_session =
  gs_capability_hash :: string
  gs_kyber_sk :: bytes
  gs_agent_did :: string
  gs_tokenHash :: "string option"
  gs_createdAt :: int

record auth_server =
  as_validator :: "jwt_validator option"
  as_localTestToken :: "string option"
  as_revocationPath :: "string option"
  as_revoked :: "string list"          \<comment> \<open>the set \<open>revokedTokenHashes\<close>, in insertion order\<close>
  as_lastLoad :: int
  as_disk :: disk
  as_sessions :: "(string, grpc_session) js_map"

definition has_path :: "auth_server \<Rightarrow> bool" where
  "has_path s \<longleftrightarrow> (case as_revocationPath s of None \<Rightarrow> False | Some p \<Rightarrow> p \<noteq> [])"

fun hashes_of :: "jval list \<Rightarrow> string list \<Rightarrow> string list" where
  "hashes_of [] acc = acc"
| "hashes_of (JStr item # rest) acc = hashes_of rest (set_add (to_lower (trim item)) acc)"
| "hashes_of (_ # rest) acc = hashes_of rest acc"

definition load_revocation_list :: "io \<Rightarrow> auth_server \<Rightarrow> auth_server" where
  "load_revocation_list io s =
     (if \<not> has_path s then s
      else case as_disk s of
        Some (mtime, content) \<Rightarrow>
          if \<not> io_read io then s
          else if mtime \<le> as_lastLoad s then s
          else (case content of
                  Some (JArr i list) \<Rightarrow> s\<lparr>as_revoked := hashes_of list [], as_lastLoad := mtime\<rparr>
                | _ \<Rightarrow> s)
      | None \<Rightarrow>
          if \<not> io_write io then s
          else s\<lparr>as_disk := Some (io_now io, Some (JArr None [])), as_lastLoad := io_now io\<rparr>)"

definition revoke_token_hash :: "io \<Rightarrow> string \<Rightarrow> auth_server \<Rightarrow> auth_server" where
  "revoke_token_hash io hash s =
     (if hash = [] then s
      else
        (let normalizedHash = to_lower hash;
             s = load_revocation_list io s;
             s = s\<lparr>as_revoked := set_add normalizedHash (as_revoked s)\<rparr> in
         if has_path s then
           if \<not> io_write io then s
           else
             (let s = s\<lparr>as_disk := Some (io_now io, Some (JArr None (map JStr (as_revoked s))))\<rparr> in
              if io_stat io then s\<lparr>as_lastLoad := io_now io\<rparr> else s)
         else s))"

definition token_hash :: "(bytes \<Rightarrow> digest) \<Rightarrow> string \<Rightarrow> string" where
  "token_hash sha token = to_lower (hex_of (Rep_digest (sha (utf8 token))))"

definition revoke_token :: "(bytes \<Rightarrow> digest) \<Rightarrow> io \<Rightarrow> string \<Rightarrow> auth_server \<Rightarrow> auth_server" where
  "revoke_token sha io token s = (if token = [] then s else revoke_token_hash io (token_hash sha token) s)"

section \<open>The gate\<close>

datatype rpc_error =
  Missing_Authorization
| Token_Revoked
| Segregation_Violation
| Static_Token_Required
| Not_Authorized "denial option"
| Invalid_Jwt string

definition is_test_token :: "string \<Rightarrow> bool" where
  "is_test_token token =
     (let suffix = ''-local-test-token''; p = take (length token - length suffix) token in
      ends_with token suffix \<and> p \<noteq> [] \<and>
      list_all (\<lambda>c. is_alnum c \<or> c = CHR ''_'' \<or> c = CHR ''-'') p)"

definition jwt_gate ::
    "jwt_verify \<Rightarrow> (string \<Rightarrow> (string \<times> string) option) \<Rightarrow> jwt_validator \<Rightarrow> string \<Rightarrow> string
      \<Rightarrow> rpc_error + string option" where
  "jwt_gate jwt_verify url v token tokenHash =
     (case jwt_validate jwt_verify url v token of
        Inl err \<Rightarrow> Inl (Invalid_Jwt err)
      | Inr authInfo \<Rightarrow>
          (case authorize_request ''tools/call'' (Some authInfo) None of
             None \<Rightarrow> Inl (Invalid_Jwt ''TypeError'')
           | Some authResult \<Rightarrow>
               if \<not> allowed authResult then Inl (Not_Authorized (reason authResult))
               else Inr (Some tokenHash)))"

text \<open>
  The checks \<open>negotiateIntent\<close> and \<open>executeLogic\<close> make before anything else. \<open>Inr\<close> lets the
  call through, with the token hash the session records.
\<close>

definition auth_gate ::
    "jwt_verify \<Rightarrow> (string \<Rightarrow> (string \<times> string) option) \<Rightarrow> (bytes \<Rightarrow> digest) \<Rightarrow> io \<Rightarrow> string option
      \<Rightarrow> auth_server \<Rightarrow> auth_server \<times> (rpc_error + string option)" where
  "auth_gate jwt_verify url sha io authorization s =
     (case as_validator s of
        None \<Rightarrow> (s, Inr None)
      | Some v \<Rightarrow>
          (case authorization of
             None \<Rightarrow> (s, Inl Missing_Authorization)
           | Some authHeader \<Rightarrow>
               if authHeader = [] then (s, Inl Missing_Authorization)
               else
                 (let token = (if starts_with authHeader ''Bearer '' then drop 7 authHeader else authHeader);
                      tokenHash = token_hash sha token;
                      s = load_revocation_list io s in
                  if tokenHash \<in> set (as_revoked s) then (s, Inl Token_Revoked)
                  else case as_localTestToken s of
                    Some localTestToken \<Rightarrow>
                      if localTestToken \<noteq> [] then
                        if token = localTestToken then (s, Inr (Some tokenHash))
                        else if token \<noteq> [] \<and> is_test_token token then (s, Inl Segregation_Violation)
                        else (s, Inl Static_Token_Required)
                      else (s, jwt_gate jwt_verify url v token tokenHash)
                  | None \<Rightarrow> (s, jwt_gate jwt_verify url v token tokenHash))))"

text \<open>
  \<open>negotiateIntent\<close>: an admitted request gets a session under a fresh \<open>randomUUID\<close> with the
  Kyber key pair generated for it.
\<close>

record intent_request =
  ir_capability_hash :: string
  ir_agent_did :: string

record intent_response =
  ir_session_token :: string
  ir_kyber_public_key :: bytes

definition negotiate_intent ::
    "jwt_verify \<Rightarrow> (string \<Rightarrow> (string \<times> string) option) \<Rightarrow> (bytes \<Rightarrow> digest) \<Rightarrow> io \<Rightarrow> string option
      \<Rightarrow> intent_request \<Rightarrow> string \<Rightarrow> bytes \<times> bytes \<Rightarrow> auth_server
      \<Rightarrow> auth_server \<times> (rpc_error + intent_response)" where
  "negotiate_intent jwt_verify url sha io authorization request uuid keys s =
     (case auth_gate jwt_verify url sha io authorization s of
        (s, Inl e) \<Rightarrow> (s, Inl e)
      | (s, Inr tokenHash) \<Rightarrow>
          (s\<lparr>as_sessions := AList.update uuid
               \<lparr>gs_capability_hash = ir_capability_hash request, gs_kyber_sk = snd keys,
                gs_agent_did = ir_agent_did request, gs_tokenHash = tokenHash,
                gs_createdAt = io_now io\<rparr> (as_sessions s)\<rparr>,
           Inr \<lparr>ir_session_token = uuid, ir_kyber_public_key = fst keys\<rparr>))"

section \<open>Invariants of the revocation list\<close>

text \<open>Every event a running node processes between two requests of a client.\<close>

datatype auth_event =
  Revoke_Hash io string
| Negotiate io "string option" intent_request string "bytes \<times> bytes"
| Execute io "string option"

fun auth_step ::
    "jwt_verify \<Rightarrow> (string \<Rightarrow> (string \<times> string) option) \<Rightarrow> (bytes \<Rightarrow> digest) \<Rightarrow> auth_server \<Rightarrow> auth_event \<Rightarrow> auth_server" where
  "auth_step jwt_verify url sha s (Revoke_Hash io h) = revoke_token_hash io h s"
| "auth_step jwt_verify url sha s (Negotiate io hdr req uuid keys) =
     fst (negotiate_intent jwt_verify url sha io hdr req uuid keys s)"
| "auth_step jwt_verify url sha s (Execute io hdr) = fst (auth_gate jwt_verify url sha io hdr s)"

text \<open>
  A revoked hash stays in memory, and a file the next load would read holds it as well.
\<close>

definition disk_keeps :: "string \<Rightarrow> jval option \<Rightarrow> bool" where
  "disk_keeps h content = (case content of Some (JArr i l) \<Rightarrow> h \<in> set (hashes_of l []) | _ \<Rightarrow> True)"

definition revoked_inv :: "string \<Rightarrow> jwt_validator \<Rightarrow> auth_server \<Rightarrow> bool" where
  "revoked_inv h v s \<longleftrightarrow> as_validator s = Some v \<and> h \<in> set (as_revoked s) \<and>
     (case as_disk s of None \<Rightarrow> True
      | Some (mtime, content) \<Rightarrow> mtime \<le> as_lastLoad s \<or> disk_keeps h content)"

lemma set_hashes_of_strings: "set (hashes_of (map JStr xs) acc) = (to_lower \<circ> trim) ` set xs \<union> set acc"
  by (induction xs arbitrary: acc) auto

lemma load_revoked_inv: "revoked_inv h v s \<Longrightarrow> revoked_inv h v (load_revocation_list io s)"
  by (auto simp: revoked_inv_def load_revocation_list_def disk_keeps_def Let_def
      split: option.splits prod.splits jval.splits if_splits)

lemma gate_fst:
  "fst (auth_gate jwt_verify url sha io hdr s) = s \<or>
   fst (auth_gate jwt_verify url sha io hdr s) = load_revocation_list io s"
  by (auto simp: auth_gate_def Let_def split: option.splits)

lemma gate_revoked_inv: "revoked_inv h v s \<Longrightarrow> revoked_inv h v (fst (auth_gate jwt_verify url sha io hdr s))"
  using gate_fst load_revoked_inv by metis

lemma negotiate_revoked_inv:
  "revoked_inv h v s \<Longrightarrow> revoked_inv h v (fst (negotiate_intent jwt_verify url sha io hdr req uuid keys s))"
proof -
  assume "revoked_inv h v s"
  then have "revoked_inv h v (fst (auth_gate jwt_verify url sha io hdr s))" by (rule gate_revoked_inv)
  then show ?thesis
    unfolding negotiate_intent_def revoked_inv_def
    by (cases "auth_gate jwt_verify url sha io hdr s") (auto split: sum.splits option.splits)
qed

lemma load_frame [simp]:
  "as_validator (load_revocation_list io s) = as_validator s"
  "has_path (load_revocation_list io s) = has_path s"
  by (auto simp: load_revocation_list_def has_path_def split: option.splits jval.splits prod.splits)

lemma has_path_update [simp]:
  "has_path (s\<lparr>as_revoked := r\<rparr>) = has_path s" "has_path (s\<lparr>as_disk := d\<rparr>) = has_path s"
  "has_path (s\<lparr>as_lastLoad := t\<rparr>) = has_path s"
  by (simp_all add: has_path_def)

lemma stored_hash: "h \<in> set xs \<Longrightarrow> to_lower (trim h) = h \<Longrightarrow> h \<in> set (hashes_of (map JStr xs) [])"
  unfolding set_hashes_of_strings by (metis UnI1 comp_apply imageI)

lemma revoke_keeps:
  assumes "revoked_inv h v s" "to_lower (trim h) = h"
  shows "revoked_inv h v (revoke_token_hash io k s)"
proof -
  let ?l = "load_revocation_list io s"
  have "revoked_inv h v ?l" using assms(1) by (rule load_revoked_inv)
  moreover have "h \<in> set (hashes_of (map JStr (set_add x (as_revoked ?l))) [])"
    if "h \<in> set (as_revoked ?l)" for x
    using that assms(2) by (intro stored_hash) simp_all
  ultimately show ?thesis
    using assms(1) by (auto simp: revoke_token_hash_def Let_def revoked_inv_def disk_keeps_def split: option.splits)
qed

interpretation revocation: preserved "auth_step jwt_verify url sha" "revoked_inv (hex_of b) v"
  for jwt_verify url sha b v
proof
  fix s e assume "revoked_inv (hex_of b) v s"
  then show "revoked_inv (hex_of b) v (auth_step jwt_verify url sha s e)"
    by (cases e) (auto intro: gate_revoked_inv negotiate_revoked_inv revoke_keeps)
qed

lemma revoke_establishes:
  assumes "as_validator s = Some v" "io_write io" "h \<noteq> []" "to_lower h = h" "trim h = h"
    "has_path s \<or> as_disk s = None"
  shows "revoked_inv h v (revoke_token_hash io h s)"
proof -
  let ?l = "load_revocation_list io s"
  have "h \<in> set (hashes_of (map JStr (set_add h (as_revoked ?l))) [])"
    using assms(4,5) by (intro stored_hash) simp_all
  moreover have "has_path s \<or> as_disk ?l = None"
    using assms(6) by (auto simp: load_revocation_list_def)
  ultimately show ?thesis
    using assms(1-5) by (auto simp: revoke_token_hash_def Let_def revoked_inv_def disk_keeps_def)
qed

section \<open>Properties\<close>

lemma entry_length_public:
  "method \<notin> fst ` set object_prototype \<Longrightarrow>
     entry_length (scope_lookup method) = Some 0 \<longleftrightarrow> map_of SCOPE_MAP method = Some []"
  by (auto simp: scope_lookup_def map_of_eq_None_iff [symmetric] split: option.splits)

lemma issuer_in_aliases: "jv_issuer v \<in> set (build_issuer_aliases url v)"
proof -
  have push: "x \<in> set acc \<Longrightarrow> x \<in> set (foldl push_new acc xs)" for x acc and xs :: "string list"
    by (induction xs arbitrary: acc) (auto simp: push_new_def)
  show ?thesis by (auto simp: build_issuer_aliases_def Let_def intro!: push split: option.splits)
qed

lemma authorize_call_scope:
  "authorize_request ''tools/call'' (Some info) None = Some r \<Longrightarrow> allowed r \<Longrightarrow> ''liop:tools:call'' \<in> set (ai_scopes info)"
  by (auto simp: authorize_request_def scope_lookup_def SCOPE_MAP_def split: if_splits)

lemma jwt_gate_admits:
  assumes "jwt_gate jwt_verify url v token h = Inr x"
  shows "x = Some h \<and> (\<exists>opts payload scope. jwt_verify token opts = Inr payload \<and> jo_audience opts = jv_audience v \<and>
               jo_algorithms opts = [''EdDSA'', ''ES256''] \<and> jv_issuer v \<in> set (jo_issuer opts) \<and>
               jp_scope payload = JStr scope \<and> ''liop:tools:call'' \<in> set (split_on CHR '' '' scope))"
proof -
  from assms obtain info r where val: "jwt_validate jwt_verify url v token = Inr info"
    and az: "authorize_request ''tools/call'' (Some info) None = Some r" "allowed r" and x: "x = Some h"
    by (auto simp: jwt_gate_def split: sum.splits option.splits if_splits)
  from val obtain opts payload where "jwt_verify token opts = Inr payload" "jo_audience opts = jv_audience v"
    "jo_algorithms opts = [''EdDSA'', ''ES256'']" "jv_issuer v \<in> set (jo_issuer opts)"
    and scopes: "ai_scopes info = (case jp_scope payload of JStr s \<Rightarrow> split_on CHR '' '' s | _ \<Rightarrow> [])"
    using issuer_in_aliases [of v url] by (auto simp: jwt_validate_def Let_def)
  moreover obtain scope where "jp_scope payload = JStr scope" "''liop:tools:call'' \<in> set (split_on CHR '' '' scope)"
    using authorize_call_scope [OF az] scopes by (cases "jp_scope payload") auto
  ultimately show ?thesis using x by blast
qed

lemma load_local [simp]: "as_localTestToken (load_revocation_list io s) = as_localTestToken s"
  by (auto simp: load_revocation_list_def split: option.splits jval.splits prod.splits)

text \<open>
  C12. Authorization is least privilege: for a method name that is not inherited from
  \<open>Object.prototype\<close>, a request is allowed exactly when the method is marked public, or it is
  authenticated, at least one scope is required, and the token carries every scope the method
  and the node configuration require.
\<close>

theorem authorize_request_iff:
  assumes "method \<notin> fst ` set object_prototype"
  shows "authorize_request method auth extra = Some allow \<longleftrightarrow>
     map_of SCOPE_MAP method = Some [] \<or>
     (\<exists>info needed. auth = Some info \<and>
        needed = (case map_of SCOPE_MAP method of None \<Rightarrow> [] | Some ss \<Rightarrow> ss) @
                 (case extra of None \<Rightarrow> [] | Some ss \<Rightarrow> ss) \<and>
        needed \<noteq> [] \<and> set needed \<subseteq> set (ai_scopes info))"
proof -
  have noinh: "map_of object_prototype method = None"
    using assms by (simp add: map_of_eq_None_iff)
  then have look: "scope_lookup method = (case map_of SCOPE_MAP method of Some ss \<Rightarrow> Scopes ss | None \<Rightarrow> No_Entry)"
    by (simp add: scope_lookup_def split: option.splits)
  show ?thesis
    unfolding authorize_request_def Let_def entry_length_public [OF assms]
    by (auto simp: look filter_empty_conv split: option.splits)
qed

theorem authorize_request_iff_witness:
  "authorize_request ''tools/call'' (Some \<lparr>ai_token = ''t'', ai_clientId = ''c'',
     ai_scopes = [''liop:tools:call''], ai_expiresAt = None\<rparr>) None = Some allow"
  by (subst authorize_request_iff) (simp_all add: object_prototype_def SCOPE_MAP_def)

text \<open>
  The fail-closed rule for unknown methods has a hole: the names of the parameterless methods
  of \<open>Object.prototype\<close> are found by the property lookup, their \<open>length\<close> is 0, and the request
  is allowed without any authentication.
\<close>

theorem authorize_inherited_names:
  "map (\<lambda>method. authorize_request method None extra) [''toString'', ''toLocaleString'', ''valueOf'']
     = replicate 3 (Some allow)"
  by (simp add: authorize_request_def scope_lookup_def SCOPE_MAP_def object_prototype_def numeral_3_eq_3)

text \<open>
  C4. Revocation is permanent: once \<open>revokeToken\<close> has run (with a working file system where a
  revocation file is configured), every later request with that token is refused as revoked,
  whatever the node processes in between, and whichever of its later file operations fail.
\<close>

theorem revoked_token_rejected:
  assumes "as_validator s = Some v" "io_write io" "token \<noteq> []" "has_path s \<or> as_disk s = None"
  shows "snd (auth_gate jwt_verify url sha io' (Some (''Bearer '' @ token))
          (run (auth_step jwt_verify url sha) (revoke_token sha io token s) events)) = Inl Token_Revoked"
proof -
  let ?h = "hex_of (Rep_digest (sha (utf8 token)))"
  let ?s = "run (auth_step jwt_verify url sha) (revoke_token sha io token s) events"
  have "?h \<noteq> []"
    using length_digest [of "sha (utf8 token)"] by (cases "Rep_digest (sha (utf8 token))") (auto simp: hex_of_def)
  then have "revoked_inv ?h v (revoke_token sha io token s)"
    using assms by (simp add: revoke_token_def token_hash_def revoke_establishes)
  then have "revoked_inv ?h v ?s" by (rule revocation.run_inv)
  then have "as_validator ?s = Some v" "?h \<in> set (as_revoked (load_revocation_list io' ?s))"
    using load_revoked_inv [of ?h v ?s io'] by (simp_all add: revoked_inv_def)
  then show ?thesis by (simp add: auth_gate_def token_hash_def starts_with_def)
qed

theorem revoked_token_rejected_witness:
  "let io = \<lparr>io_now = 5, io_read = True, io_write = True, io_stat = True\<rparr>;
       s = \<lparr>as_validator = Some \<lparr>jv_issuer = ''i'', jv_audience = ''a''\<rparr>, as_localTestToken = None,
            as_revocationPath = Some ''r.json'', as_revoked = [], as_lastLoad = 0, as_disk = None, as_sessions = []\<rparr>
   in snd (auth_gate (\<lambda>_ _. Inl []) (\<lambda>_. None) (\<lambda>_. Abs_digest (replicate 32 7)) io (Some (''Bearer '' @ ''tok''))
        (run (auth_step (\<lambda>_ _. Inl []) (\<lambda>_. None) (\<lambda>_. Abs_digest (replicate 32 7)))
           (revoke_token (\<lambda>_. Abs_digest (replicate 32 7)) io ''tok'' s) [Revoke_Hash io ''ff''])) = Inl Token_Revoked"
  unfolding Let_def
  by (rule revoked_token_rejected [where v = "\<lparr>jv_issuer = ''i'', jv_audience = ''a''\<rparr>"]) simp_all

text \<open>
  C2. Nothing runs without authorization: when a node has a validator, a request passes the gate
  only with a token that is not revoked and that either equals the node's static test token or,
  on a node without one, is a JWT that \<open>jwtVerify\<close> accepts for the node's audience, with the
  EdDSA/ES256 algorithms, and that carries the scope \<open>liop:tools:call\<close>.
\<close>

theorem auth_gate_admits:
  assumes "auth_gate jwt_verify url sha io hdr s = (s', Inr th)" "as_validator s = Some v"
  shows "\<exists>header token. hdr = Some header \<and>
     token = (if starts_with header ''Bearer '' then drop 7 header else header) \<and>
     th = Some (token_hash sha token) \<and> token_hash sha token \<notin> set (as_revoked s') \<and>
     (case as_localTestToken s of
        Some (c # cs) \<Rightarrow> token = c # cs
      | _ \<Rightarrow> \<exists>opts payload scope. jwt_verify token opts = Inr payload \<and> jo_audience opts = jv_audience v \<and>
               jo_algorithms opts = [''EdDSA'', ''ES256''] \<and> jv_issuer v \<in> set (jo_issuer opts) \<and>
               jp_scope payload = JStr scope \<and> ''liop:tools:call'' \<in> set (split_on CHR '' '' scope))"
  using assms jwt_gate_admits
  by (fastforce simp: auth_gate_def Let_def split: option.splits if_splits list.splits)

theorem auth_gate_admits_witness:
  "let s = \<lparr>as_validator = Some \<lparr>jv_issuer = ''i'', jv_audience = ''a''\<rparr>, as_localTestToken = None,
            as_revocationPath = None, as_revoked = [], as_lastLoad = 0, as_disk = None, as_sessions = []\<rparr>;
       jwt = (\<lambda>t opts. Inr \<lparr>jp_sub = None, jp_scope = JStr ''liop:tools:call'', jp_exp = None\<rparr>);
       io = \<lparr>io_now = 5, io_read = True, io_write = True, io_stat = True\<rparr>
   in \<exists>th. auth_gate jwt (\<lambda>_. None) (\<lambda>_. Abs_digest (replicate 32 7)) io (Some ''Bearer tok'') s = (s, Inr th) \<and>
        th = Some (token_hash (\<lambda>_. Abs_digest (replicate 32 7)) ''tok'')"
proof -
  let ?s = "\<lparr>as_validator = Some \<lparr>jv_issuer = ''i'', jv_audience = ''a''\<rparr>, as_localTestToken = None,
            as_revocationPath = None, as_revoked = [], as_lastLoad = 0, as_disk = None, as_sessions = []\<rparr>"
  let ?jwt = "\<lambda>t opts. Inr \<lparr>jp_sub = None, jp_scope = JStr ''liop:tools:call'', jp_exp = None\<rparr>"
  let ?io = "\<lparr>io_now = 5, io_read = True, io_write = True, io_stat = True\<rparr>"
  let ?sha = "\<lambda>_ :: bytes. Abs_digest (replicate 32 7)"
  have gate: "\<exists>th. auth_gate ?jwt (\<lambda>_. None) ?sha ?io (Some ''Bearer tok'') ?s = (?s, Inr th)"
    by (simp add: auth_gate_def Let_def load_revocation_list_def has_path_def jwt_gate_def jwt_validate_def
        build_issuer_aliases_def authorize_request_def scope_lookup_def SCOPE_MAP_def)
  then obtain th where th: "auth_gate ?jwt (\<lambda>_. None) ?sha ?io (Some ''Bearer tok'') ?s = (?s, Inr th)" by blast
  from auth_gate_admits [OF th] have "th = Some (token_hash ?sha ''tok'')"
    by (simp add: starts_with_def)
  with th show ?thesis unfolding Let_def by blast
qed

lemma set_push_new: "set (foldl push_new acc xs) = set acc \<union> set xs"
  by (induction xs arbitrary: acc) (auto simp: push_new_def)

lemma alias_paths:
  assumes "a \<in> set NEXUS_AUTHORITIES" "p \<in> {[], ''/oidc''}"
  shows "path_suffix (''http://'' @ a @ p) = p \<and> \<not> ends_with (''http://'' @ a @ p) ''/''"
  using assms unfolding NEXUS_AUTHORITIES_def
  by (auto simp: path_suffix_def strip_after_scheme_def starts_with_def ends_with_def)

text \<open>
  Issuer aliases are symmetric: any two of the known Nexus addresses, with or without the
  \<open>/oidc\<close> path, accept exactly the same set of issuers, so a token issued under one alias is
  accepted by a validator configured with any other.
\<close>

theorem issuer_aliases_symmetric:
  assumes url: "\<And>a p. a \<in> set NEXUS_AUTHORITIES \<Longrightarrow> p \<in> {[], ''/oidc''} \<Longrightarrow>
      (case url (''http://'' @ a @ p) of None \<Rightarrow> False
       | Some (h, q) \<Rightarrow> h @ '':'' @ (if q = [] then ''3000'' else q) = a)"
    and "a \<in> set NEXUS_AUTHORITIES" "p \<in> {[], ''/oidc''}"
  shows "set (build_issuer_aliases url \<lparr>jv_issuer = ''http://'' @ a @ p, jv_audience = aud\<rparr>) =
           {''http://'' @ b @ q | b q. b \<in> set NEXUS_AUTHORITIES \<and> q \<in> {[], ''/oidc''}}"
proof -
  obtain h q where "url (''http://'' @ a @ p) = Some (h, q)" "h @ '':'' @ (if q = [] then ''3000'' else q) = a"
    using url [OF assms(2,3)] by (auto split: option.splits)
  then show ?thesis
    using assms(2,3) alias_paths [OF assms(2,3)]
    by (auto simp: build_issuer_aliases_def Let_def set_push_new simp del: append.simps)
qed

theorem issuer_aliases_symmetric_witness:
  "let url = (\<lambda>s. let r = takeWhile (\<lambda>c. c \<noteq> CHR ''/'') (drop 7 s) in
       Some (takeWhile (\<lambda>c. c \<noteq> CHR '':'') r, drop 1 (dropWhile (\<lambda>c. c \<noteq> CHR '':'') r)))
   in ''http://'' @ ''localhost:13000'' @ ''/oidc'' \<in>
        set (build_issuer_aliases url \<lparr>jv_issuer = ''http://'' @ ''nexus:3000'' @ [], jv_audience = ''a''\<rparr>)"
proof -
  let ?url = "\<lambda>s. let r = takeWhile (\<lambda>c. c \<noteq> CHR ''/'') (drop 7 s) in
       Some (takeWhile (\<lambda>c. c \<noteq> CHR '':'') r, drop 1 (dropWhile (\<lambda>c. c \<noteq> CHR '':'') r))"
  have "set (build_issuer_aliases ?url \<lparr>jv_issuer = ''http://'' @ ''nexus:3000'' @ [], jv_audience = ''a''\<rparr>) =
           {''http://'' @ b @ q | b q. b \<in> set NEXUS_AUTHORITIES \<and> q \<in> {[], ''/oidc''}}"
    by (rule issuer_aliases_symmetric) (auto simp: NEXUS_AUTHORITIES_def)
  moreover have "''localhost:13000'' \<in> set NEXUS_AUTHORITIES" by (simp add: NEXUS_AUTHORITIES_def)
  ultimately show ?thesis unfolding Let_def by blast
qed

end
