(* ===== verification/Session_Bridge.thy ===== *)
theory Session_Bridge
  imports Mcp_Bridge Access_Control
begin

text \<open>
  \<open>bridge/stream.ts\<close>: the HTTP bridge with its bearer-token middleware, the table of sessions, the
  limit of sessions per address and the eviction of idle sessions.

  The transport of a session is a package: it is its number, and what it does is an event: it
  initializes its session (once, under a fresh \<open>randomUUID\<close>), passes on a message, or closes. The
  route handler creates a transport and awaits it, so other requests run between the admission of
  a session and its entry in the table; \<open>sb_handshakes\<close> holds the transports in between. Events carry
  the time at which they happen.
\<close>

section \<open>State\<close>

record session_entry =
  ss_transport :: nat
  ss_lastActivity :: time_ms
  ss_clientIp :: string

record stream_bridge =
  sb_activeSessions :: "(string, session_entry) js_map"
  sb_maxSessionsPerIp :: int
  sb_sessionTimeoutMs :: int
  sb_token :: string                       \<comment> \<open>\<open>process.env.ZERO_TRUST_TOKEN\<close>\<close>
  sb_handshakes :: "(nat \<times> string) list"   \<comment> \<open>transport and \<open>clientIp\<close>\<close>
  sb_running :: bool                       \<comment> \<open>the eviction timer is set\<close>

definition DEFAULT_MAX_SESSIONS_PER_IP :: int where "DEFAULT_MAX_SESSIONS_PER_IP = 10"
definition DEFAULT_SESSION_TIMEOUT_MS :: int where "DEFAULT_SESSION_TIMEOUT_MS = 30 * 60 * 1000"
definition EVICTION_INTERVAL_MS :: int where "EVICTION_INTERVAL_MS = 60 * 1000"

definition stream_bridge_new :: "int option \<Rightarrow> int option \<Rightarrow> string option \<Rightarrow> string \<Rightarrow> stream_bridge" where
  "stream_bridge_new maxSessions timeout envToken uuid =
     \<lparr>sb_activeSessions = [],
      sb_maxSessionsPerIp = (case maxSessions of None \<Rightarrow> DEFAULT_MAX_SESSIONS_PER_IP | Some n \<Rightarrow> n),
      sb_sessionTimeoutMs = (case timeout of None \<Rightarrow> DEFAULT_SESSION_TIMEOUT_MS | Some n \<Rightarrow> n),
      sb_token = (case envToken of Some (c # cs) \<Rightarrow> c # cs | _ \<Rightarrow> uuid),
      sb_handshakes = [], sb_running = False\<rparr>"

definition count_sessions_by_ip :: "string \<Rightarrow> stream_bridge \<Rightarrow> nat" where
  "count_sessions_by_ip ip s = length (filter (\<lambda>(_, e). ss_clientIp e = ip) (sb_activeSessions s))"

definition touch :: "time_ms \<Rightarrow> string \<Rightarrow> stream_bridge \<Rightarrow> stream_bridge" where
  "touch now sid s =
     (case map_of (sb_activeSessions s) sid of
        None \<Rightarrow> s
      | Some e \<Rightarrow> s\<lparr>sb_activeSessions := AList.update sid (e\<lparr>ss_lastActivity := now\<rparr>) (sb_activeSessions s)\<rparr>)"

definition drop_session :: "string \<Rightarrow> stream_bridge \<Rightarrow> stream_bridge" where
  "drop_session sid s = s\<lparr>sb_activeSessions := AList.delete sid (sb_activeSessions s)\<rparr>"

definition evict_idle_sessions :: "time_ms \<Rightarrow> stream_bridge \<Rightarrow> stream_bridge" where
  "evict_idle_sessions now s =
     s\<lparr>sb_activeSessions := filter (\<lambda>(_, e). \<not> now - ss_lastActivity e > sb_sessionTimeoutMs s) (sb_activeSessions s)\<rparr>"

section \<open>Requests\<close>

record http_request =
  hr_method :: string
  hr_authorization :: "string option"
  hr_sessionId :: "string option"
  hr_contentType :: "string option"
  hr_forwardedFor :: "string option"
  hr_realIp :: "string option"
  hr_json :: "jval option"                 \<comment> \<open>\<open>c.req.json()\<close>, \<open>None\<close> when it rejects\<close>

datatype http_response =
  Unauthorized
| Jwt_Validation_Failed string
| Session_Not_Found
| Session_Retired
| Too_Many_Sessions
| Json jval
| No_Content
| Stateless_Only
| To_Transport nat

definition non_empty :: "string option \<Rightarrow> string option" where
  "non_empty x = (case x of Some (c # cs) \<Rightarrow> Some (c # cs) | _ \<Rightarrow> None)"

definition get_client_ip :: "http_request \<Rightarrow> string" where
  "get_client_ip r =
     (case non_empty (map_option (\<lambda>h. trim (hd (split_on CHR '','' h))) (hr_forwardedFor r)) of
        Some ip \<Rightarrow> ip
      | None \<Rightarrow> (case non_empty (hr_realIp r) of Some ip \<Rightarrow> ip | None \<Rightarrow> ''unknown''))"

definition zero_trust_gate ::
    "jwt_verify \<Rightarrow> (string \<Rightarrow> (string \<times> string) option) \<Rightarrow> jwt_validator option \<Rightarrow> string \<Rightarrow> http_request
      \<Rightarrow> http_response option" where
  "zero_trust_gate jwt_verify url validator expected r =
     (case hr_authorization r of
        None \<Rightarrow> Some Unauthorized
      | Some auth \<Rightarrow>
          if \<not> starts_with auth ''Bearer '' then Some Unauthorized
          else
            (let token = drop 7 auth in
             if expected \<noteq> [] \<and> token = expected then None
             else case validator of
               None \<Rightarrow> Some Unauthorized
             | Some v \<Rightarrow> (case jwt_validate jwt_verify url v token of
                            Inl msg \<Rightarrow> Some (Jwt_Validation_Failed msg)
                          | Inr _ \<Rightarrow> None)))"

text \<open>A direct JSON-RPC request; \<open>None\<close> when the handler falls through to the session transport. An
  exception of the dispatcher is caught there as well.\<close>

definition stateless_reply :: "(jval \<Rightarrow> unit + jval option) \<Rightarrow> http_request \<Rightarrow> http_response option" where
  "stateless_reply rpc r =
     (if hr_method r = ''POST'' \<and> str_includes (case hr_contentType r of None \<Rightarrow> [] | Some t \<Rightarrow> t) ''application/json'' then
        (case hr_json r of
           None \<Rightarrow> None
         | Some body \<Rightarrow>
             if body = JUndef \<or> body = JNull then None
             else if opt_prop body ''method'' = JStr ''server/discover'' \<or>
                     truthy (opt_prop (opt_prop body ''params'') ''_meta'') \<or> \<not> MCP_LEGACY_SUPPORT_ENABLED
             then (case rpc body of
                     Inl _ \<Rightarrow> None
                   | Inr (Some x) \<Rightarrow> Some (Json x)
                   | Inr None \<Rightarrow> Some No_Content)
             else None)
      else None)"

definition handle_mcp ::
    "(jval \<Rightarrow> unit + jval option) \<Rightarrow> time_ms \<Rightarrow> nat \<Rightarrow> http_request \<Rightarrow> stream_bridge \<Rightarrow> stream_bridge \<times> http_response" where
  "handle_mcp rpc now fresh r s =
     (case non_empty (hr_sessionId r) of
        Some sid \<Rightarrow>
          if \<not> MCP_LEGACY_SUPPORT_ENABLED then (s, Session_Retired)
          else (case map_of (sb_activeSessions s) sid of
                  None \<Rightarrow> (s, Session_Not_Found)
                | Some e \<Rightarrow> (touch now sid s, To_Transport (ss_transport e)))
      | None \<Rightarrow>
          (case stateless_reply rpc r of
             Some resp \<Rightarrow> (s, resp)
           | None \<Rightarrow>
               if \<not> MCP_LEGACY_SUPPORT_ENABLED then (s, Stateless_Only)
               else if int (count_sessions_by_ip (get_client_ip r) s) \<ge> sb_maxSessionsPerIp s then (s, Too_Many_Sessions)
               else (s\<lparr>sb_handshakes := (fresh, get_client_ip r) # sb_handshakes s\<rparr>, To_Transport fresh)))"

definition serve_request ::
    "jwt_verify \<Rightarrow> (string \<Rightarrow> (string \<times> string) option) \<Rightarrow> jwt_validator option \<Rightarrow> (jval \<Rightarrow> unit + jval option)
      \<Rightarrow> time_ms \<Rightarrow> nat \<Rightarrow> http_request \<Rightarrow> stream_bridge \<Rightarrow> stream_bridge \<times> http_response" where
  "serve_request jwt_verify url validator rpc now fresh r s =
     (case zero_trust_gate jwt_verify url validator (sb_token s) r of
        Some denied \<Rightarrow> (s, denied)
      | None \<Rightarrow> handle_mcp rpc now fresh r s)"

definition on_session_initialized :: "time_ms \<Rightarrow> nat \<Rightarrow> string \<Rightarrow> string \<Rightarrow> stream_bridge \<Rightarrow> stream_bridge" where
  "on_session_initialized now t ip sid s =
     s\<lparr>sb_activeSessions := AList.update sid \<lparr>ss_transport = t, ss_lastActivity = now, ss_clientIp = ip\<rparr> (sb_activeSessions s),
       sb_handshakes := remove1 (t, ip) (sb_handshakes s)\<rparr>"

definition start_bridge :: "stream_bridge \<Rightarrow> stream_bridge" where
  "start_bridge s = s\<lparr>sb_running := True\<rparr>"

definition stop_bridge :: "stream_bridge \<Rightarrow> stream_bridge" where
  "stop_bridge s = s\<lparr>sb_activeSessions := [], sb_running := False\<rparr>"

section \<open>Events\<close>

datatype bridge_event =
  Request time_ms nat http_request        \<comment> \<open>the number of the transport it may create\<close>
| Delete_Done string                      \<comment> \<open>the transport has answered a \<open>DELETE\<close>\<close>
| Initialized time_ms nat string string   \<comment> \<open>transport, \<open>clientIp\<close>, session id\<close>
| Abandoned nat string                    \<comment> \<open>the handshake ends without a session\<close>
| Message time_ms string
| Closed string
| Tick time_ms                            \<comment> \<open>the eviction timer fires\<close>
| Start
| Stop

text \<open>The environment of a bridge: the JWT library, the URL parser, the validator and the dispatcher.\<close>

record bridge_deps =
  bd_jwt :: jwt_verify
  bd_url :: "string \<Rightarrow> (string \<times> string) option"
  bd_validator :: "jwt_validator option"
  bd_rpc :: "jval \<Rightarrow> unit + jval option"

inductive bridge_trans :: "bridge_deps \<Rightarrow> stream_bridge \<Rightarrow> bridge_event \<Rightarrow> stream_bridge \<Rightarrow> bool" for d where
  request: "bridge_trans d s (Request now fresh r)
     (fst (serve_request (bd_jwt d) (bd_url d) (bd_validator d) (bd_rpc d) now fresh r s))"
| delete_done: "bridge_trans d s (Delete_Done sid) (drop_session sid s)"
| initialized: "(t, ip) \<in> set (sb_handshakes s) \<Longrightarrow> sid \<notin> fst ` set (sb_activeSessions s) \<Longrightarrow>
     bridge_trans d s (Initialized now t ip sid) (on_session_initialized now t ip sid s)"
| abandoned: "bridge_trans d s (Abandoned t ip) (s\<lparr>sb_handshakes := remove1 (t, ip) (sb_handshakes s)\<rparr>)"
| message: "bridge_trans d s (Message now sid) (touch now sid s)"
| closed: "bridge_trans d s (Closed sid) (drop_session sid s)"
| tick: "sb_running s \<Longrightarrow> bridge_trans d s (Tick now) (evict_idle_sessions now s)"
| start: "bridge_trans d s Start (start_bridge s)"
| stop: "bridge_trans d s Stop (stop_bridge s)"

inductive_cases bridge_trans_cases: "bridge_trans d s e s'"

inductive_simps bridge_trans_simps:
  "bridge_trans d s (Request now fresh r) s'" "bridge_trans d s (Delete_Done sid) s'"
  "bridge_trans d s (Initialized now t ip sid) s'" "bridge_trans d s (Abandoned t ip) s'"
  "bridge_trans d s (Message now sid) s'" "bridge_trans d s (Closed sid) s'" "bridge_trans d s (Tick now) s'"
  "bridge_trans d s Start s'" "bridge_trans d s Stop s'"

text \<open>Runs of the bridge in which no address has more than \<open>K\<close> handshakes open at a time.\<close>

definition open_handshakes :: "string \<Rightarrow> stream_bridge \<Rightarrow> nat" where
  "open_handshakes ip s = length (filter (\<lambda>(_, a). a = ip) (sb_handshakes s))"

inductive bridge_run :: "bridge_deps \<Rightarrow> string \<Rightarrow> nat \<Rightarrow> stream_bridge \<Rightarrow> bridge_event list \<Rightarrow> stream_bridge \<Rightarrow> bool"
  for d ip K s where
  nil: "bridge_run d ip K s [] s"
| step: "bridge_run d ip K s es s1 \<Longrightarrow> bridge_trans d s1 e s2 \<Longrightarrow> open_handshakes ip s2 \<le> K \<Longrightarrow>
     bridge_run d ip K s (es @ [e]) s2"

section \<open>The session table\<close>

lemma filter_update_same:
  "map_of xs k = Some e \<Longrightarrow> P (k, v) = P (k, e) \<Longrightarrow> length (filter P (AList.update k v xs)) = length (filter P xs)"
  by (induction xs) (auto split: if_splits)

lemma filter_update_new:
  "k \<notin> fst ` set xs \<Longrightarrow> length (filter P (AList.update k v xs)) = length (filter P xs) + (if P (k, v) then 1 else 0)"
  by (induction xs) (auto split: if_splits)

lemma filter_delete_le: "length (filter P (AList.delete k xs)) \<le> length (filter P xs)"
  by (induction xs) auto

lemma length_filter_remove1:
  "x \<in> set xs \<Longrightarrow> length (filter P xs) = length (filter P (remove1 x xs)) + (if P x then 1 else 0)"
  by (induction xs) auto

lemma length_filter_remove1_le: "length (filter P (remove1 x xs)) \<le> length (filter P xs)"
  by (induction xs) auto

lemma length_filter_twice_le: "length (filter P (filter Q xs)) \<le> length (filter P xs)"
  by (induction xs) auto

lemma count_touch [simp]: "count_sessions_by_ip ip (touch now sid s) = count_sessions_by_ip ip s"
  by (simp add: count_sessions_by_ip_def touch_def filter_update_same split: option.split)

lemma count_drop: "count_sessions_by_ip ip (drop_session sid s) \<le> count_sessions_by_ip ip s"
  by (simp add: count_sessions_by_ip_def drop_session_def filter_delete_le)

lemma count_evict: "count_sessions_by_ip ip (evict_idle_sessions now s) \<le> count_sessions_by_ip ip s"
  using length_filter_twice_le[of "\<lambda>(_, e). ss_clientIp e = ip"] by (simp add: count_sessions_by_ip_def evict_idle_sessions_def del: filter_filter)

lemma touch_simps [simp]:
  "sb_handshakes (touch now sid s) = sb_handshakes s" "sb_maxSessionsPerIp (touch now sid s) = sb_maxSessionsPerIp s"
  "sb_sessionTimeoutMs (touch now sid s) = sb_sessionTimeoutMs s" "sb_token (touch now sid s) = sb_token s"
  by (simp_all add: touch_def split: option.split)

lemmas bridge_defs = drop_session_def evict_idle_sessions_def on_session_initialized_def start_bridge_def stop_bridge_def

lemma non_empty_Some [simp]: "non_empty x = Some y \<longleftrightarrow> x = Some y \<and> y \<noteq> []"
  by (auto simp: non_empty_def split: option.splits list.splits)

lemma serve_request_state:
  "fst (serve_request jv url v rpc now fresh r s) = s \<or>
   (\<exists>sid. hr_sessionId r = Some sid \<and> fst (serve_request jv url v rpc now fresh r s) = touch now sid s) \<or>
   (int (count_sessions_by_ip (get_client_ip r) s) < sb_maxSessionsPerIp s \<and>
    fst (serve_request jv url v rpc now fresh r s) = s\<lparr>sb_handshakes := (fresh, get_client_ip r) # sb_handshakes s\<rparr>)"
  by (auto simp: serve_request_def handle_mcp_def MCP_LEGACY_SUPPORT_ENABLED_def split: option.split)

definition occupancy :: "string \<Rightarrow> stream_bridge \<Rightarrow> int" where
  "occupancy ip s = int (count_sessions_by_ip ip s) + int (open_handshakes ip s)"

definition session_inv :: "string \<Rightarrow> nat \<Rightarrow> int \<Rightarrow> stream_bridge \<Rightarrow> bool" where
  "session_inv ip K M s \<longleftrightarrow> sb_maxSessionsPerIp s = M \<and> occupancy ip s \<le> max 0 (M + int K - 1)"

lemma session_inv_step:
  assumes "session_inv ip K M s" "bridge_trans d s e s'" "open_handshakes ip s' \<le> K"
  shows "session_inv ip K M s'"
  using assms(2)
proof (cases rule: bridge_trans.cases)
  case (request now fresh r)
  then show ?thesis
    using assms(1,3) serve_request_state[of "bd_jwt d" "bd_url d" "bd_validator d" "bd_rpc d" now fresh r s]
    by (auto simp: session_inv_def occupancy_def open_handshakes_def count_sessions_by_ip_def[of _ "s\<lparr>sb_handshakes := _\<rparr>"]
        count_sessions_by_ip_def[of _ s] count_touch split: if_splits)
next
  case (initialized t a sid now)
  then show ?thesis
    using assms(1) length_filter_remove1[of "(t, a)" "sb_handshakes s" "\<lambda>(_, b). b = ip"]
      filter_update_new[of sid "sb_activeSessions s" "\<lambda>(_, e). ss_clientIp e = ip" "\<lparr>ss_transport = t, ss_lastActivity = now, ss_clientIp = a\<rparr>"]
    by (auto simp: session_inv_def occupancy_def open_handshakes_def count_sessions_by_ip_def on_session_initialized_def
        split: if_splits)
next
  case (abandoned t a)
  then show ?thesis
    using assms(1) length_filter_remove1_le[of "\<lambda>(_, b). b = ip" "(t, a)" "sb_handshakes s"]
    by (auto simp: session_inv_def occupancy_def open_handshakes_def count_sessions_by_ip_def)
next
  case (delete_done sid)
  then show ?thesis using assms(1) count_drop[of ip sid s]
    by (auto simp: session_inv_def occupancy_def open_handshakes_def drop_session_def)
next
  case (closed sid)
  then show ?thesis using assms(1) count_drop[of ip sid s]
    by (auto simp: session_inv_def occupancy_def open_handshakes_def drop_session_def)
next
  case (tick now)
  then show ?thesis using assms(1) count_evict[of ip now s]
    by (auto simp: session_inv_def occupancy_def open_handshakes_def evict_idle_sessions_def)
next
  case (message now sid)
  then show ?thesis using assms(1) by (simp add: session_inv_def occupancy_def open_handshakes_def)
qed (use assms(1) in \<open>auto simp: session_inv_def occupancy_def open_handshakes_def count_sessions_by_ip_def start_bridge_def
    stop_bridge_def\<close>)

text \<open>
  C29. With at most \<open>K\<close> handshakes of an address open at a time, the address never holds more than
  \<open>maxSessionsPerIp + K - 1\<close> sessions; without overlapping handshakes (\<open>K = 1\<close>) it never exceeds
  \<open>maxSessionsPerIp\<close>. A limit of zero or less admits no session.
\<close>

theorem session_limit:
  assumes "bridge_run d ip K (stream_bridge_new m timeout tok uuid) es s"
  shows "int (count_sessions_by_ip ip s) \<le>
     max 0 ((case m of None \<Rightarrow> DEFAULT_MAX_SESSIONS_PER_IP | Some n \<Rightarrow> n) + int K - 1)"
proof -
  let ?M = "case m of None \<Rightarrow> DEFAULT_MAX_SESSIONS_PER_IP | Some n \<Rightarrow> n"
  from assms have "session_inv ip K ?M s"
  proof induction
    case nil
    show ?case
      by (simp add: session_inv_def occupancy_def count_sessions_by_ip_def open_handshakes_def stream_bridge_new_def)
  next
    case (step es s1 e s2)
    then show ?case by (auto intro: session_inv_step)
  qed
  then show ?thesis by (auto simp: session_inv_def occupancy_def)
qed


definition session_request :: "string \<Rightarrow> string \<Rightarrow> http_request" where
  "session_request tok ip = \<lparr>hr_method = ''POST'', hr_authorization = Some (''Bearer '' @ tok), hr_sessionId = None,
     hr_contentType = None, hr_forwardedFor = None, hr_realIp = Some ip, hr_json = None\<rparr>"

definition race_deps :: bridge_deps where
  "race_deps = \<lparr>bd_jwt = (\<lambda>_ _. Inl ''no''), bd_url = (\<lambda>_. None), bd_validator = None, bd_rpc = (\<lambda>_. Inr None)\<rparr>"

theorem session_limit_witness:
  "\<exists>es s. bridge_run race_deps ''10.0.0.1'' 1 (stream_bridge_new (Some 2) None (Some ''secret'') ''u'') es s \<and>
     es \<noteq> [] \<and> int (count_sessions_by_ip ''10.0.0.1'' s) \<le> 2"
proof -
  let ?s = "stream_bridge_new (Some 2) None (Some ''secret'') ''u''"
  have run: "bridge_run race_deps ''10.0.0.1'' 1 ?s ([] @ [Start]) (start_bridge ?s)"
    by (rule bridge_run.step[OF bridge_run.nil]) (auto simp: bridge_trans_simps open_handshakes_def stream_bridge_new_def start_bridge_def)
  from session_limit[OF run] run show ?thesis by force
qed

section \<open>The limit under concurrent handshakes\<close>

lemma admitted:
  assumes "sb_token s = tok" "tok \<noteq> []" "ip \<noteq> []" "int (count_sessions_by_ip ip s) < sb_maxSessionsPerIp s"
  shows "fst (serve_request jv url v rpc now fresh (session_request tok ip) s) = s\<lparr>sb_handshakes := (fresh, ip) # sb_handshakes s\<rparr>"
proof -
  have "zero_trust_gate jv url v tok (session_request tok ip) = None"
    using assms(2) by (simp add: zero_trust_gate_def session_request_def starts_with_def)
  moreover have "get_client_ip (session_request tok ip) = ip"
    using assms(3) by (auto simp: get_client_ip_def session_request_def non_empty_def split: option.splits list.splits)
  moreover have "stateless_reply rpc (session_request tok ip) = None" "non_empty (hr_sessionId (session_request tok ip)) = None"
    by (simp_all add: stateless_reply_def session_request_def non_empty_def starts_with_def)
  ultimately show ?thesis
    using assms(1,4) by (simp add: serve_request_def handle_mcp_def MCP_LEGACY_SUPPORT_ENABLED_def)
qed

definition race_state :: "string \<Rightarrow> string \<Rightarrow> nat \<Rightarrow> nat \<Rightarrow> stream_bridge" where
  "race_state tok ip n k = (stream_bridge_new (Some 1) None (Some tok) [])
     \<lparr>sb_handshakes := replicate n (0, ip),
      sb_activeSessions := map (\<lambda>i. (replicate i CHR ''x'', \<lparr>ss_transport = 0, ss_lastActivity = 0, ss_clientIp = ip\<rparr>)) [0..<k]\<rparr>"

lemma update_fresh: "k \<notin> fst ` set xs \<Longrightarrow> AList.update k v xs = xs @ [(k, v)]"
  by (induction xs) auto

lemma race_open:
  assumes "tok \<noteq> []" "ip \<noteq> []" "n \<le> N"
  shows "\<exists>es. bridge_run race_deps ip N (stream_bridge_new (Some 1) None (Some tok) []) es (race_state tok ip n 0)"
  using assms(3)
proof (induction n)
  case 0
  have "race_state tok ip 0 0 = stream_bridge_new (Some 1) None (Some tok) []"
    by (simp add: race_state_def stream_bridge_new_def)
  then show ?case using bridge_run.nil by metis
next
  case (Suc n)
  then obtain es where "bridge_run race_deps ip N (stream_bridge_new (Some 1) None (Some tok) []) es (race_state tok ip n 0)" by auto
  moreover have "fst (serve_request (bd_jwt race_deps) (bd_url race_deps) (bd_validator race_deps) (bd_rpc race_deps) 0 0
      (session_request tok ip) (race_state tok ip n 0)) = race_state tok ip (Suc n) 0"
    using assms by (subst admitted) (auto simp: race_state_def stream_bridge_new_def count_sessions_by_ip_def split: list.split)
  then have "bridge_trans race_deps (race_state tok ip n 0) (Request 0 0 (session_request tok ip)) (race_state tok ip (Suc n) 0)"
    by (metis bridge_trans.request)
  moreover have "open_handshakes ip (race_state tok ip (Suc n) 0) \<le> N"
    using Suc.prems by (simp add: open_handshakes_def race_state_def)
  ultimately show ?case using bridge_run.step by metis
qed

lemma race_init:
  assumes "tok \<noteq> []" "ip \<noteq> []" "k \<le> N"
  shows "\<exists>es. bridge_run race_deps ip N (stream_bridge_new (Some 1) None (Some tok) []) es (race_state tok ip (N - k) k)"
  using assms(3)
proof (induction k)
  case 0
  then show ?case using race_open[OF assms(1,2)] by simp
next
  case (Suc k)
  then obtain es where "bridge_run race_deps ip N (stream_bridge_new (Some 1) None (Some tok) []) es (race_state tok ip (N - k) k)" by auto
  note run = this
  have pos: "N - k = Suc (N - Suc k)" using Suc.prems by simp
  have "on_session_initialized 0 0 ip (replicate k CHR ''x'') (race_state tok ip (N - k) k) = race_state tok ip (N - Suc k) (Suc k)"
    unfolding on_session_initialized_def pos
    by (subst update_fresh) (auto simp: race_state_def)
  moreover have "(0, ip) \<in> set (sb_handshakes (race_state tok ip (N - k) k))" using pos by (simp add: race_state_def)
  moreover have "replicate k CHR ''x'' \<notin> fst ` set (sb_activeSessions (race_state tok ip (N - k) k))"
    by (auto simp: race_state_def replicate_eq_replicate)
  ultimately have "bridge_trans race_deps (race_state tok ip (N - k) k) (Initialized 0 0 ip (replicate k CHR ''x''))
      (race_state tok ip (N - Suc k) (Suc k))"
    by (metis bridge_trans.initialized)
  moreover have "open_handshakes ip (race_state tok ip (N - Suc k) (Suc k)) \<le> N"
    by (simp add: open_handshakes_def race_state_def)
  ultimately show ?case using bridge_run.step run by metis
qed

text \<open>
  The limit is checked before the handshake and the session counts only after it: with a limit of one
  session per address, a client with the token that opens \<open>N\<close> handshakes at once ends up with \<open>N\<close>
  sessions, for every \<open>N\<close>.
\<close>

theorem session_limit_race:
  assumes "tok \<noteq> []" "ip \<noteq> []"
  shows "\<exists>es s. bridge_run race_deps ip N (stream_bridge_new (Some 1) None (Some tok) []) es s \<and> count_sessions_by_ip ip s = N"
proof -
  obtain es where "bridge_run race_deps ip N (stream_bridge_new (Some 1) None (Some tok) []) es (race_state tok ip 0 N)"
    using race_init[OF assms, of N N] by auto
  moreover have "count_sessions_by_ip ip (race_state tok ip 0 N) = N"
    by (simp add: count_sessions_by_ip_def race_state_def filter_map comp_def)
  ultimately show ?thesis by blast
qed

theorem session_limit_race_witness:
  "\<exists>es s. bridge_run race_deps ''10.0.0.1'' 50 (stream_bridge_new (Some 1) None (Some ''secret'') []) es s \<and>
     count_sessions_by_ip ''10.0.0.1'' s = 50"
  by (rule session_limit_race) simp_all


section \<open>Eviction\<close>

text \<open>The events that renew or create the session \<open>sid\<close>.\<close>

fun touches :: "string \<Rightarrow> bridge_event \<Rightarrow> bool" where
  "touches sid (Request now fresh r) = (hr_sessionId r = Some sid)"
| "touches sid (Initialized now t ip x) = (x = sid)"
| "touches sid (Message now x) = (x = sid)"
| "touches sid e = False"

definition idle_since :: "time_ms \<Rightarrow> string \<Rightarrow> stream_bridge \<Rightarrow> bool" where
  "idle_since since sid s \<longleftrightarrow> (\<forall>e. (sid, e) \<in> set (sb_activeSessions s) \<longrightarrow> ss_lastActivity e \<le> since)"

lemma set_update_other: "(k, v) \<in> set (AList.update k' v' xs) \<Longrightarrow> k \<noteq> k' \<Longrightarrow> (k, v) \<in> set xs"
  by (induction xs) (auto split: if_splits)

lemma set_delete_subset: "p \<in> set (AList.delete k xs) \<Longrightarrow> p \<in> set xs"
  by (induction xs) (auto split: if_splits)

lemma untouched_step:
  assumes "bridge_trans d s e s'" "\<not> touches sid e" "(sid, x) \<in> set (sb_activeSessions s')"
  shows "(sid, x) \<in> set (sb_activeSessions s)"
  using assms(1)
proof (cases rule: bridge_trans.cases)
  case (request now fresh r)
  then show ?thesis
    using assms(2,3) serve_request_state[of "bd_jwt d" "bd_url d" "bd_validator d" "bd_rpc d" now fresh r s]
    by (auto simp: touch_def dest: set_update_other split: option.splits)
next
  case (message now y)
  then show ?thesis using assms(2,3) by (auto simp: touch_def dest: set_update_other split: option.splits)
next
  case (initialized t ip y now)
  then show ?thesis using assms(2,3) by (auto simp: on_session_initialized_def dest: set_update_other)
next
  case (closed y)
  then show ?thesis using assms(3) by (auto simp: drop_session_def dest: set_delete_subset)
next
  case (delete_done y)
  then show ?thesis using assms(3) by (auto simp: drop_session_def dest: set_delete_subset)
qed (use assms(3) in \<open>auto simp: evict_idle_sessions_def start_bridge_def stop_bridge_def\<close>)

lemma timeout_step:
  assumes "bridge_trans d s e s'"
  shows "sb_sessionTimeoutMs s' = sb_sessionTimeoutMs s"
  using assms
proof (cases rule: bridge_trans.cases)
  case (request now fresh r)
  then show ?thesis
    using serve_request_state[of "bd_jwt d" "bd_url d" "bd_validator d" "bd_rpc d" now fresh r s] by auto
qed (auto simp: bridge_defs)

lemma untouched_run:
  assumes "bridge_run d ip K s es s'" "\<forall>e\<in>set es. \<not> touches sid e" "(sid, x) \<in> set (sb_activeSessions s')"
  shows "(sid, x) \<in> set (sb_activeSessions s) \<and>
     (\<forall>now. Tick now \<in> set es \<longrightarrow> now \<le> ss_lastActivity x + sb_sessionTimeoutMs s)"
  using assms
proof (induction arbitrary: rule: bridge_run.induct)
  case (step es s1 e s2)
  have x1: "(sid, x) \<in> set (sb_activeSessions s1)"
    using untouched_step[OF step.hyps(2)] step.prems by auto
  have "sb_sessionTimeoutMs s1 = sb_sessionTimeoutMs s"
    using step.hyps(1) by (induction rule: bridge_run.induct) (auto dest: timeout_step)
  then have "now \<le> ss_lastActivity x + sb_sessionTimeoutMs s" if "e = Tick now" for now
    using step.hyps(2) step.prems that by (auto simp: bridge_trans_simps evict_idle_sessions_def)
  then show ?case using step.IH x1 step.prems by auto
qed simp

text \<open>
  C32. While the timer fires every \<open>EVICTION_INTERVAL_MS\<close>, a session that nobody uses after \<open>since\<close> is gone from
  the table at the latest one interval after its timeout.
\<close>

theorem idle_session_evicted:
  assumes run: "bridge_run d ip K s es s'"
    and idle: "idle_since since sid s" "\<forall>e\<in>set es. \<not> touches sid e"
    and ticks: "\<forall>k. a + int k * EVICTION_INTERVAL_MS \<le> b \<longrightarrow> Tick (a + int k * EVICTION_INTERVAL_MS) \<in> set es"
    and time: "a \<le> since + sb_sessionTimeoutMs s" "since + sb_sessionTimeoutMs s + EVICTION_INTERVAL_MS \<le> b"
  shows "sid \<notin> fst ` set (sb_activeSessions s')"
proof
  let ?I = EVICTION_INTERVAL_MS and ?T = "sb_sessionTimeoutMs s"
  assume "sid \<in> fst ` set (sb_activeSessions s')"
  then obtain x where x: "(sid, x) \<in> set (sb_activeSessions s')" by auto
  have I: "0 < ?I" by (simp add: EVICTION_INTERVAL_MS_def)
  let ?k = "nat ((since + ?T - a) div ?I + 1)"
  have nn: "0 \<le> (since + ?T - a) div ?I" using time(1) I by (simp add: pos_imp_zdiv_nonneg_iff)
  have "?I * ((since + ?T - a) div ?I) \<le> since + ?T - a" "since + ?T - a < ?I * ((since + ?T - a) div ?I) + ?I"
    using I mult_div_mod_eq[of ?I "since + ?T - a"] pos_mod_sign[OF I, of "since + ?T - a"] pos_mod_bound[OF I, of "since + ?T - a"]
    by linarith+
  moreover have "int ?k * ?I = ?I * ((since + ?T - a) div ?I) + ?I" using nn by (simp add: algebra_simps)
  ultimately have "a + int ?k * ?I \<le> b" "since + ?T < a + int ?k * ?I" using time(2) by linarith+
  then have "Tick (a + int ?k * ?I) \<in> set es" using ticks by blast
  with untouched_run[OF run idle(2) x] have "(sid, x) \<in> set (sb_activeSessions s)"
    "a + int ?k * ?I \<le> ss_lastActivity x + ?T" by auto
  with idle(1) have "ss_lastActivity x \<le> since" by (auto simp: idle_since_def)
  then show False using \<open>a + int ?k * ?I \<le> ss_lastActivity x + ?T\<close> \<open>since + ?T < a + int ?k * ?I\<close> by linarith
qed


definition idle_state :: stream_bridge where
  "idle_state = (stream_bridge_new None (Some 0) (Some ''secret'') [])
     \<lparr>sb_activeSessions := [(''sid'', \<lparr>ss_transport = 0, ss_lastActivity = 0, ss_clientIp = ''ip''\<rparr>)], sb_running := True\<rparr>"

theorem idle_session_evicted_witness:
  "\<exists>s'. bridge_run race_deps ''ip'' 1 idle_state [Tick 0, Tick 60000] s' \<and> ''sid'' \<notin> fst ` set (sb_activeSessions s')"
proof -
  have "bridge_run race_deps ''ip'' 1 idle_state ([] @ [Tick 0]) (evict_idle_sessions 0 idle_state)"
    by (rule bridge_run.step[OF bridge_run.nil])
      (auto simp: bridge_trans_simps idle_state_def open_handshakes_def evict_idle_sessions_def stream_bridge_new_def)
  then have run: "bridge_run race_deps ''ip'' 1 idle_state (([] @ [Tick 0]) @ [Tick 60000])
      (evict_idle_sessions 60000 (evict_idle_sessions 0 idle_state))"
    by (rule bridge_run.step)
      (auto simp: bridge_trans_simps idle_state_def open_handshakes_def evict_idle_sessions_def stream_bridge_new_def)
  have k: "k = 0 \<or> k = 1" if "int k * 60000 \<le> 60000" for k using that by linarith
  have "''sid'' \<notin> fst ` set (sb_activeSessions (evict_idle_sessions 60000 (evict_idle_sessions 0 idle_state)))"
    by (rule idle_session_evicted[OF run, where since = 0 and a = 0 and b = 60000])
      (auto simp: idle_since_def idle_state_def stream_bridge_new_def EVICTION_INTERVAL_MS_def dest: k)
  with run show ?thesis by auto
qed

section \<open>The bearer gate\<close>

lemma starts_with_iff: "starts_with s p \<longleftrightarrow> (\<exists>r. s = p @ r)"
  unfolding starts_with_def by (metis append_eq_conv_conj append_take_drop_id)

lemma bearer_iff: "starts_with a ''Bearer '' \<longleftrightarrow> a = ''Bearer '' @ drop 7 a"
  by (auto simp: starts_with_iff)

text \<open>
  A request passes the middleware exactly when it carries the configured token, or a token the JWT
  validator of the server accepts; any other request is answered without touching a session.
\<close>

theorem bridge_gate_exact:
  "(zero_trust_gate jv url validator (sb_token s) r = None \<longleftrightarrow>
     (\<exists>token. hr_authorization r = Some (''Bearer '' @ token) \<and>
        (sb_token s \<noteq> [] \<and> token = sb_token s \<or>
         (\<exists>v info. validator = Some v \<and> jwt_validate jv url v token = Inr info)))) \<and>
   (zero_trust_gate jv url validator (sb_token s) r \<noteq> None \<longrightarrow>
     fst (serve_request jv url validator rpc now fresh r s) = s)"
proof -
  have "zero_trust_gate jv url validator (sb_token s) r = None \<longleftrightarrow>
     (\<exists>a. hr_authorization r = Some a \<and> starts_with a ''Bearer '' \<and>
        (sb_token s \<noteq> [] \<and> drop 7 a = sb_token s \<or>
         (\<exists>v info. validator = Some v \<and> jwt_validate jv url v (drop 7 a) = Inr info)))"
    by (auto simp: zero_trust_gate_def Let_def split: option.splits sum.splits if_splits)
  also have "\<dots> \<longleftrightarrow> (\<exists>token. hr_authorization r = Some (''Bearer '' @ token) \<and>
        (sb_token s \<noteq> [] \<and> token = sb_token s \<or>
         (\<exists>v info. validator = Some v \<and> jwt_validate jv url v token = Inr info)))"
    by (auto simp: starts_with_iff)
  finally show ?thesis by (auto simp: serve_request_def)
qed

theorem bridge_gate_exact_witness:
  "zero_trust_gate (\<lambda>_ _. Inl ''no'') (\<lambda>_. None) None (sb_token idle_state) (session_request ''wrong'' ''ip'') \<noteq> None \<and>
   fst (serve_request (\<lambda>_ _. Inl ''no'') (\<lambda>_. None) None (\<lambda>_. Inr None) 0 0 (session_request ''wrong'' ''ip'') idle_state) = idle_state"
  using bridge_gate_exact[of "\<lambda>_ _. Inl ''no''" "\<lambda>_. None" None idle_state "session_request ''wrong'' ''ip''" "\<lambda>_. Inr None" 0 0]
  by (simp add: session_request_def idle_state_def stream_bridge_new_def)

text \<open>
  The bridge does not ask for revocation: a revoked token that the validator still accepts is
  refused by the gate of the RPC server and admitted by the bridge of the same server.
\<close>

theorem revoked_token_passes_bridge:
  assumes "as_validator srv = Some v" "token_hash sha token \<in> set (as_revoked (load_revocation_list io srv))"
    and "jwt_validate jv url v token = Inr info" "hr_authorization r = Some (''Bearer '' @ token)"
  shows "snd (auth_gate jv url sha io (hr_authorization r) srv) = Inl Token_Revoked \<and>
     zero_trust_gate jv url (as_validator srv) expected r = None"
proof -
  have "starts_with (''Bearer '' @ token) ''Bearer ''" "drop 7 (''Bearer '' @ token) = token" by (simp_all add: starts_with_iff)
  then show ?thesis using assms by (simp add: auth_gate_def zero_trust_gate_def Let_def)
qed

definition revoked_demo :: auth_server where
  "revoked_demo = \<lparr>as_validator = Some \<lparr>jv_issuer = ''i'', jv_audience = ''a''\<rparr>, as_localTestToken = None, as_revocationPath = None,
     as_revoked = [token_hash (\<lambda>_. Abs_digest (replicate 32 0)) ''tok''], as_lastLoad = 0, as_disk = None, as_sessions = []\<rparr>"

theorem revoked_token_passes_bridge_witness:
  "snd (auth_gate (\<lambda>_ _. Inr \<lparr>jp_sub = None, jp_scope = JNull, jp_exp = None\<rparr>) (\<lambda>_. None) (\<lambda>_. Abs_digest (replicate 32 0))
      \<lparr>io_now = 0, io_read = True, io_write = True, io_stat = True\<rparr> (hr_authorization (session_request ''tok'' ''ip'')) revoked_demo)
     = Inl Token_Revoked \<and>
   zero_trust_gate (\<lambda>_ _. Inr \<lparr>jp_sub = None, jp_scope = JNull, jp_exp = None\<rparr>) (\<lambda>_. None) (as_validator revoked_demo) ''x''
     (session_request ''tok'' ''ip'') = None"
  by (rule revoked_token_passes_bridge[where v = "\<lparr>jv_issuer = ''i'', jv_audience = ''a''\<rparr>" and token = "''tok''"
        and info = "\<lparr>ai_token = ''tok'', ai_clientId = ''unknown'', ai_scopes = [], ai_expiresAt = None\<rparr>"])
    (simp_all add: revoked_demo_def load_revocation_list_def has_path_def jwt_validate_def session_request_def Let_def)

end
