(* ===== verification/Query_Budget.thy ===== *)
theory Query_Budget
  imports Js_Values
begin

text \<open>
  The query budgets of \<open>server/index.ts\<close>: how often a client may query a field through a tool,
  in memory and in the store on disk, with the lock around the store, the fall-back to memory
  when the store fails, and the reset. \<open>classifyField\<close> is from \<open>security/taint-analyzer.ts\<close>.

  The outcome of each attempt to create the lock file and of the write of the store are
  arguments. A store is its parsed JSON; an unreadable or malformed one reads as empty.
\<close>

section \<open>Field classes\<close>

datatype field_sensitivity = Forbidden | Sensitive | Public

record field_classes =
  fc_piiFields :: "string list"
  fc_sensitiveKeys :: "string list"

definition field_classes_new :: "string list \<Rightarrow> string list \<Rightarrow> field_classes" where
  "field_classes_new piiFields sensitiveKeys =
     \<lparr>fc_piiFields = map to_lower piiFields, fc_sensitiveKeys = map to_lower sensitiveKeys\<rparr>"

definition classify_field :: "field_classes \<Rightarrow> string \<Rightarrow> string list \<Rightarrow> field_sensitivity" where
  "classify_field fc fld policySensitiveKeys =
     (let lowerField = to_lower fld in
      if lowerField \<in> set (fc_piiFields fc) then Forbidden
      else if lowerField \<in> set (fc_sensitiveKeys fc) \<or> lowerField \<in> set (map to_lower policySensitiveKeys)
      then Sensitive else Public)"

record budget_policy =
  bp_sensitiveKeys :: "string list"
  bp_queryBudgetPerField :: "int option"
  bp_budgetStorePath :: "string option"

datatype sens_label = L_public | L_override | L_forbidden | L_sensitive

definition query_limit :: "field_classes \<Rightarrow> budget_policy option \<Rightarrow> string \<Rightarrow> int \<times> sens_label" where
  "query_limit fc policy fld =
     (case (case policy of None \<Rightarrow> None | Some p \<Rightarrow> bp_queryBudgetPerField p) of
        Some n \<Rightarrow> (n, L_override)
      | None \<Rightarrow>
          (case classify_field fc fld (case policy of None \<Rightarrow> [] | Some p \<Rightarrow> bp_sensitiveKeys p) of
             Forbidden \<Rightarrow> (3, L_forbidden)
           | Sensitive \<Rightarrow> (8, L_sensitive)
           | Public \<Rightarrow> (25, L_public)))"

section \<open>Stores\<close>

type_synonym tool_counts = "(string, int) js_map"
type_synonym memory_budget = "(string, (string, tool_counts) js_map) js_map"

text \<open>
  A counter of the store on disk is a property of a plain object. Reading a name that
  \<open>Object.prototype\<close> has gives something that is not a number (\<open>Text\<close>): it compares false with
  every limit, and adding 1 to it makes a string.
\<close>

datatype counter = Num int | Text

type_synonym stored_counts = "(string, counter) js_map"
type_synonym disk_budget = "(string, (string, stored_counts) js_map) js_map"

definition read_counter :: "stored_counts \<Rightarrow> string \<Rightarrow> counter" where
  "read_counter tb fld =
     (case map_of tb fld of Some c \<Rightarrow> c
      | None \<Rightarrow> if fld \<in> fst ` set object_prototype then Text else Num 0)"

fun reached :: "counter \<Rightarrow> int \<Rightarrow> bool" where
  "reached (Num n) limit = (n \<ge> limit)"
| "reached Text limit = False"

fun plus_one :: "counter \<Rightarrow> counter" where
  "plus_one (Num n) = Num (n + 1)"
| "plus_one Text = Text"

definition bump_counter :: "string \<Rightarrow> stored_counts \<Rightarrow> stored_counts" where
  "bump_counter fld tb =
     (if fld = ''__proto__'' then tb else AList.update fld (plus_one (read_counter tb fld)) tb)"

definition unsafe_name :: "string \<Rightarrow> bool" where
  "unsafe_name n \<longleftrightarrow> n = ''__proto__'' \<or> n = ''constructor'' \<or> n = ''prototype''"

record budget_server =
  bs_classes :: field_classes
  bs_configStorePath :: "string option"
  bs_memory :: memory_budget
  bs_disk :: "disk_budget option"

definition get_persistent_budget :: "disk_budget option \<Rightarrow> disk_budget" where
  "get_persistent_budget disk =
     (case disk of None \<Rightarrow> [] | Some parsed \<Rightarrow> filter (\<lambda>(k, v). \<not> unsafe_name k) parsed)"

section \<open>The lock\<close>

datatype lock_try = Created | Exists | Fails

datatype lock_error = Lock_Timeout | Lock_Io

definition max_retries :: nat where
  "max_retries = 100"

function acquire_lock :: "(nat \<Rightarrow> lock_try) \<Rightarrow> nat \<Rightarrow> lock_error + unit" where
  "acquire_lock tries attempts =
     (if attempts < max_retries then
        (case tries attempts of
           Created \<Rightarrow> Inr ()
         | Exists \<Rightarrow> acquire_lock tries (attempts + 1)
         | Fails \<Rightarrow> Inl Lock_Io)
      else Inl Lock_Timeout)"
  by pat_completeness auto
termination
  by (relation "measure (\<lambda>(_, attempts). max_retries - attempts)") auto

declare acquire_lock.simps [simp del]

record store_env =
  se_tries :: "nat \<Rightarrow> lock_try"
  se_save :: bool

text \<open>\<open>Inl\<close>: the lock or the write failed, and the exception leaves the store as it was.\<close>

definition execute_with_budget_lock ::
    "store_env \<Rightarrow> (disk_budget \<Rightarrow> 'r \<times> disk_budget option) \<Rightarrow> disk_budget option \<Rightarrow> (lock_error + 'r) \<times> disk_budget option" where
  "execute_with_budget_lock env action disk =
     (case acquire_lock (se_tries env) 0 of
        Inl e \<Rightarrow> (Inl e, disk)
      | Inr _ \<Rightarrow>
          (case action (get_persistent_budget disk) of
             (r, None) \<Rightarrow> (Inr r, disk)
           | (r, Some updatedBudget) \<Rightarrow>
               if se_save env then (Inr r, Some updatedBudget) else (Inl Lock_Io, disk)))"

section \<open>Spending\<close>

text \<open>The counters of a tool within the budget of a client, empty where nothing is stored yet.\<close>

definition tool_budget :: "string \<Rightarrow> string \<Rightarrow> (string, (string, 'c list) js_map) js_map \<Rightarrow> 'c list" where
  "tool_budget c t m =
     (case map_of m c of None \<Rightarrow> [] | Some cb \<Rightarrow> (case map_of cb t of None \<Rightarrow> [] | Some tb \<Rightarrow> tb))"

definition put_tool_budget ::
    "string \<Rightarrow> string \<Rightarrow> 'c list \<Rightarrow> (string, (string, 'c list) js_map) js_map \<Rightarrow> (string, (string, 'c list) js_map) js_map" where
  "put_tool_budget c t tb m = AList.update c (AList.update t tb (case map_of m c of None \<Rightarrow> [] | Some cb \<Rightarrow> cb)) m"

definition count_of :: "tool_counts \<Rightarrow> string \<Rightarrow> int" where
  "count_of tb f = (case map_of tb f of None \<Rightarrow> 0 | Some n \<Rightarrow> n)"

datatype budget_error = Budget_Exceeded string int sens_label | Unsafe_Name

definition apply_in_memory_budget ::
    "string \<Rightarrow> string \<Rightarrow> string list \<Rightarrow> budget_policy option \<Rightarrow> budget_server \<Rightarrow> budget_server \<times> budget_error option" where
  "apply_in_memory_budget clientId toolName extractedFields policy s =
     (let toolBudget = tool_budget clientId toolName (bs_memory s);
          store = (\<lambda>tb. s\<lparr>bs_memory := put_tool_budget clientId toolName tb (bs_memory s)\<rparr>)
      in case find (\<lambda>f. count_of toolBudget f \<ge> fst (query_limit (bs_classes s) policy f)) extractedFields of
           Some f \<Rightarrow>
             (store toolBudget,
              Some (Budget_Exceeded f (fst (query_limit (bs_classes s) policy f)) (snd (query_limit (bs_classes s) policy f))))
         | None \<Rightarrow> (store (fold (\<lambda>f tb. AList.update f (count_of tb f + 1) tb) extractedFields toolBudget), None))"

definition persistent_action ::
    "field_classes \<Rightarrow> string \<Rightarrow> string \<Rightarrow> string list \<Rightarrow> budget_policy option \<Rightarrow> disk_budget
      \<Rightarrow> budget_error option \<times> disk_budget option" where
  "persistent_action fc clientId toolName extractedFields policy budget =
     (let toolBudget = tool_budget clientId toolName budget
      in case find (\<lambda>f. reached (read_counter toolBudget f) (fst (query_limit fc policy f))) extractedFields of
           Some f \<Rightarrow> (Some (Budget_Exceeded f (fst (query_limit fc policy f)) (snd (query_limit fc policy f))), None)
         | None \<Rightarrow> (None, Some (put_tool_budget clientId toolName (fold bump_counter extractedFields toolBudget) budget)))"

definition store_path :: "budget_policy option \<Rightarrow> budget_server \<Rightarrow> string" where
  "store_path policy s =
     (case (case policy of None \<Rightarrow> None | Some p \<Rightarrow> bp_budgetStorePath p) of
        Some (c # cs) \<Rightarrow> c # cs
      | _ \<Rightarrow> (case bs_configStorePath s of None \<Rightarrow> [] | Some p \<Rightarrow> p))"

text \<open>Phase 3 of \<open>runPreflightPolicy\<close>.\<close>

definition enforce_query_budget ::
    "store_env \<Rightarrow> string \<Rightarrow> string \<Rightarrow> string list \<Rightarrow> budget_policy option \<Rightarrow> budget_server
      \<Rightarrow> budget_server \<times> budget_error option" where
  "enforce_query_budget env clientId toolName extractedFields policy s =
     (if length extractedFields > 0 then
        if unsafe_name clientId \<or> unsafe_name toolName then (s, Some Unsafe_Name)
        else if store_path policy s \<noteq> [] then
          (case execute_with_budget_lock env
                  (persistent_action (bs_classes s) clientId toolName extractedFields policy) (bs_disk s) of
             (Inr err, disk) \<Rightarrow> (s\<lparr>bs_disk := disk\<rparr>, err)
           | (Inl _, disk) \<Rightarrow> apply_in_memory_budget clientId toolName extractedFields policy (s\<lparr>bs_disk := disk\<rparr>))
        else apply_in_memory_budget clientId toolName extractedFields policy s
      else (s, None))"

definition reset_field_budget :: "store_env \<Rightarrow> string \<Rightarrow> string option \<Rightarrow> budget_server \<Rightarrow> budget_server" where
  "reset_field_budget env clientId toolName s =
     (let tool = (case toolName of None \<Rightarrow> [] | Some t \<Rightarrow> t) in
      if unsafe_name clientId \<or> (tool \<noteq> [] \<and> unsafe_name tool) then s
      else
        (let s = (if tool \<noteq> [] then
                    (case map_of (bs_memory s) clientId of
                       None \<Rightarrow> s
                     | Some clientBudget \<Rightarrow>
                         s\<lparr>bs_memory := AList.update clientId (AList.delete tool clientBudget) (bs_memory s)\<rparr>)
                  else s\<lparr>bs_memory := AList.delete clientId (bs_memory s)\<rparr>)
         in case bs_configStorePath s of
              None \<Rightarrow> s
            | Some p \<Rightarrow>
                if p = [] then s
                else
                  s\<lparr>bs_disk := snd (execute_with_budget_lock env
                      (\<lambda>budget. ((), Some
                         (if tool \<noteq> [] then
                            (case map_of budget clientId of
                               None \<Rightarrow> budget
                             | Some cb \<Rightarrow> AList.update clientId (AList.delete tool cb) budget)
                          else AList.delete clientId budget))) (bs_disk s))\<rparr>))"

section \<open>Meters\<close>

text \<open>
  A meter with a limit: a step that hits it needs room below the limit and moves the count by
  one, every other step leaves it. However the steps are interleaved, the hits are bounded.
\<close>

fun hits :: "('s \<Rightarrow> 'e \<Rightarrow> 's) \<Rightarrow> ('s \<Rightarrow> 'e \<Rightarrow> bool) \<Rightarrow> 's \<Rightarrow> 'e list \<Rightarrow> nat" where
  "hits step hit s [] = 0"
| "hits step hit s (e # es) = (if hit s e then 1 else 0) + hits step hit (step s e) es"

lemma hits_disj:
  "(\<And>s e. hit s e \<Longrightarrow> h1 s e \<or> h2 s e) \<Longrightarrow> hits step hit s es \<le> hits step h1 s es + hits step h2 s es"
proof (induction es arbitrary: s)
  case (Cons e es)
  show ?case using Cons.IH [OF Cons.prems, of "step s e"] Cons.prems [of s e] by auto
qed simp

locale metered =
  fixes inv :: "'s \<Rightarrow> bool" and ok :: "'e \<Rightarrow> bool" and step :: "'s \<Rightarrow> 'e \<Rightarrow> 's"
    and hit :: "'s \<Rightarrow> 'e \<Rightarrow> bool" and count :: "'s \<Rightarrow> int" and limit :: int
  assumes inv_step: "inv s \<Longrightarrow> ok e \<Longrightarrow> inv (step s e)"
    and on_hit: "inv s \<Longrightarrow> ok e \<Longrightarrow> hit s e \<Longrightarrow> count s < limit \<and> count (step s e) = count s + 1"
    and on_miss: "inv s \<Longrightarrow> ok e \<Longrightarrow> \<not> hit s e \<Longrightarrow> count (step s e) = count s"
begin

lemma hits_bound: "inv s \<Longrightarrow> list_all ok es \<Longrightarrow> int (hits step hit s es) \<le> max 0 (limit - count s)"
proof (induction es arbitrary: s)
  case (Cons e es)
  then have "int (hits step hit (step s e) es) \<le> max 0 (limit - count (step s e))"
    by (simp add: inv_step)
  with Cons.prems show ?case
    using on_hit [of s e] on_miss [of s e] by (cases "hit s e") auto
qed simp

end

section \<open>The counters of a field\<close>

definition mem_count :: "string \<Rightarrow> string \<Rightarrow> string \<Rightarrow> budget_server \<Rightarrow> int" where
  "mem_count c t f s = count_of (tool_budget c t (bs_memory s)) f"

definition disk_counter :: "string \<Rightarrow> string \<Rightarrow> string \<Rightarrow> budget_server \<Rightarrow> counter" where
  "disk_counter c t f s = read_counter (tool_budget c t (get_persistent_budget (bs_disk s))) f"

definition disk_count :: "string \<Rightarrow> string \<Rightarrow> string \<Rightarrow> budget_server \<Rightarrow> int" where
  "disk_count c t f s = (case disk_counter c t f s of Num n \<Rightarrow> n | Text \<Rightarrow> 0)"

type_synonym budget_query = "store_env \<times> string \<times> string \<times> string list"

definition budget_step :: "budget_policy option \<Rightarrow> budget_server \<Rightarrow> budget_query \<Rightarrow> budget_server" where
  "budget_step policy s q = (case q of (env, c, t, fs) \<Rightarrow> fst (enforce_query_budget env c t fs policy s))"

definition admitted :: "budget_policy option \<Rightarrow> string \<Rightarrow> string \<Rightarrow> string \<Rightarrow> budget_server \<Rightarrow> budget_query \<Rightarrow> bool" where
  "admitted policy c t f s q \<longleftrightarrow>
     (case q of (env, c', t', fs) \<Rightarrow>
        c' = c \<and> t' = t \<and> f \<in> set fs \<and> snd (enforce_query_budget env c' t' fs policy s) = None)"

definition uses_memory :: "budget_policy option \<Rightarrow> budget_server \<Rightarrow> budget_query \<Rightarrow> bool" where
  "uses_memory policy s q \<longleftrightarrow>
     (case q of (env, c, t, fs) \<Rightarrow>
        store_path policy s = [] \<or>
        (\<exists>e d. execute_with_budget_lock env (persistent_action (bs_classes s) c t fs policy) (bs_disk s) = (Inl e, d)))"

lemma tool_budget_put [simp]:
  "tool_budget c t (put_tool_budget c' t' tb m) = (if c = c' \<and> t = t' then tb else tool_budget c t m)"
  by (auto simp: tool_budget_def put_tool_budget_def jm.get_put split: option.splits)

lemma fold_count:
  "distinct fs \<Longrightarrow>
     count_of (fold (\<lambda>f tb. AList.update f (count_of tb f + 1) tb) fs tb) x = count_of tb x + (if x \<in> set fs then 1 else 0)"
proof (induction fs arbitrary: tb)
  case (Cons f fs)
  have "count_of (AList.update f (count_of tb f + 1) tb) x = count_of tb x + (if x = f then 1 else 0)"
    by (simp add: count_of_def jm.get_put)
  then show ?case using Cons by auto
qed simp

lemma fold_bump:
  "distinct fs \<Longrightarrow> x \<notin> fst ` set object_prototype \<Longrightarrow>
     read_counter (fold bump_counter fs tb) x = (if x \<in> set fs then plus_one (read_counter tb x) else read_counter tb x)"
proof (induction fs arbitrary: tb)
  case (Cons f fs)
  have "x \<noteq> ''__proto__''" using Cons.prems(2) by (auto simp: object_prototype_def)
  then have "read_counter (bump_counter f tb) x = (if x = f then plus_one (read_counter tb x) else read_counter tb x)"
    using Cons.prems(2) by (auto simp: bump_counter_def read_counter_def jm.get_put)
  then show ?case using Cons by auto
qed simp

lemma find_None_all: "find P xs = None \<Longrightarrow> x \<in> set xs \<Longrightarrow> \<not> P x"
  by (auto simp: find_None_iff)

lemma memory_spend:
  assumes "distinct fs"
  shows "mem_count c t f (fst (apply_in_memory_budget c' t' fs policy s)) = mem_count c t f s +
      (if c' = c \<and> t' = t \<and> f \<in> set fs \<and> snd (apply_in_memory_budget c' t' fs policy s) = None then 1 else 0)"
  by (auto simp: apply_in_memory_budget_def Let_def mem_count_def fold_count [OF assms] split: option.splits)

lemma memory_room:
  "snd (apply_in_memory_budget c t fs policy s) = None \<Longrightarrow> f \<in> set fs \<Longrightarrow>
     mem_count c t f s < fst (query_limit (bs_classes s) policy f)"
  by (auto simp: apply_in_memory_budget_def Let_def mem_count_def dest: find_None_all split: option.splits)

lemma memory_frame [simp]:
  "bs_disk (fst (apply_in_memory_budget c t fs policy s)) = bs_disk s"
  "bs_classes (fst (apply_in_memory_budget c t fs policy s)) = bs_classes s"
  "bs_configStorePath (fst (apply_in_memory_budget c t fs policy s)) = bs_configStorePath s"
  by (auto simp: apply_in_memory_budget_def Let_def split: option.splits)

lemma tool_budget_clean: "\<not> unsafe_name c \<Longrightarrow> tool_budget c t (get_persistent_budget d) = (case d of None \<Rightarrow> [] | Some b \<Rightarrow> tool_budget c t b)"
proof -
  assume "\<not> unsafe_name c"
  then have "map_of (filter (\<lambda>(k, v). \<not> unsafe_name k) b) c = map_of b c" for b :: disk_budget
    by (induction b) auto
  then show ?thesis by (simp add: tool_budget_def get_persistent_budget_def split: option.split)
qed

text \<open>What a query that reaches the store does to a counter.\<close>

lemma disk_spend:
  assumes run: "execute_with_budget_lock env (persistent_action fc c' t' fs policy) d = (Inr err, d')"
    and safe: "\<not> unsafe_name c" "\<not> unsafe_name c'" and f: "distinct fs" "f \<notin> fst ` set object_prototype"
  shows "read_counter (tool_budget c t (get_persistent_budget d')) f =
      (let old = read_counter (tool_budget c t (get_persistent_budget d)) f in
       if c' = c \<and> t' = t \<and> f \<in> set fs \<and> err = None then plus_one old else old)"
    and "c' = c \<Longrightarrow> t' = t \<Longrightarrow> f \<in> set fs \<Longrightarrow> err = None \<Longrightarrow>
      \<not> reached (read_counter (tool_budget c t (get_persistent_budget d)) f) (fst (query_limit fc policy f))"
proof -
  let ?b = "get_persistent_budget d"
  have cases: "(\<exists>e. err = Some e \<and> d' = d) \<or>
      (err = None \<and> d' = Some (put_tool_budget c' t' (fold bump_counter fs (tool_budget c' t' ?b)) ?b) \<and>
       (\<forall>f\<in>set fs. \<not> reached (read_counter (tool_budget c' t' ?b) f) (fst (query_limit fc policy f))))"
    using run by (auto simp: execute_with_budget_lock_def persistent_action_def Let_def dest: find_None_all
        split: sum.splits option.splits if_splits)
  then show "read_counter (tool_budget c t (get_persistent_budget d')) f =
      (let old = read_counter (tool_budget c t (get_persistent_budget d)) f in
       if c' = c \<and> t' = t \<and> f \<in> set fs \<and> err = None then plus_one old else old)"
    by (auto simp: tool_budget_clean [OF safe(1)] tool_budget_clean [OF safe(2)] fold_bump [OF f] Let_def)
  show "\<not> reached (read_counter (tool_budget c t (get_persistent_budget d)) f) (fst (query_limit fc policy f))"
    if "c' = c" "t' = t" "f \<in> set fs" "err = None"
    using cases that by auto
qed

text \<open>A query of the two meters: the store when it works, the memory otherwise.\<close>

lemma enforce_cases:
  assumes "fs \<noteq> []"
  shows "(unsafe_name c \<or> unsafe_name t) \<and> enforce_query_budget env c t fs policy s = (s, Some Unsafe_Name) \<or>
     \<not> unsafe_name c \<and> \<not> unsafe_name t \<and> uses_memory policy s (env, c, t, fs) \<and>
       (\<exists>d. d = bs_disk s \<and> enforce_query_budget env c t fs policy s = apply_in_memory_budget c t fs policy (s\<lparr>bs_disk := d\<rparr>)) \<or>
     \<not> unsafe_name c \<and> \<not> unsafe_name t \<and> \<not> uses_memory policy s (env, c, t, fs) \<and>
       (\<exists>err d. execute_with_budget_lock env (persistent_action (bs_classes s) c t fs policy) (bs_disk s) = (Inr err, d) \<and>
          enforce_query_budget env c t fs policy s = (s\<lparr>bs_disk := d\<rparr>, err))"
proof -
  have keep: "d = bs_disk s" if "execute_with_budget_lock env (persistent_action (bs_classes s) c t fs policy) (bs_disk s) = (Inl e, d)" for e d
    using that by (auto simp: execute_with_budget_lock_def split: sum.splits prod.splits option.splits if_splits)
  show ?thesis
    using assms keep by (auto simp: enforce_query_budget_def uses_memory_def split: prod.splits sum.splits)
qed

definition query_ok :: "budget_query \<Rightarrow> bool" where
  "query_ok q \<longleftrightarrow> (case q of (env, c, t, fs) \<Rightarrow> distinct fs)"

definition mem_hit where
  "mem_hit policy c t f s q \<longleftrightarrow> admitted policy c t f s q \<and> uses_memory policy s q"

definition disk_hit where
  "disk_hit policy c t f s q \<longleftrightarrow> admitted policy c t f s q \<and> \<not> uses_memory policy s q"

lemma enforce_empty [simp]: "enforce_query_budget env c t [] policy s = (s, None)"
  by (simp add: enforce_query_budget_def)

lemma budget_frame:
  "bs_classes (budget_step policy s q) = bs_classes s \<and> bs_configStorePath (budget_step policy s q) = bs_configStorePath s"
proof -
  obtain env c t fs where q: "q = (env, c, t, fs)" by (cases q)
  show ?thesis
    using enforce_cases [of fs c t env policy s] by (cases "fs = []") (auto simp: budget_step_def q)
qed

interpretation mem: metered "\<lambda>s. bs_classes s = fc" query_ok "budget_step policy" "mem_hit policy c t f" "mem_count c t f"
    "fst (query_limit fc policy f)" for fc policy c t f
proof
  fix s :: budget_server and q assume inv: "bs_classes s = fc" and ok: "query_ok q"
  obtain env c' t' fs where q: "q = (env, c', t', fs)" by (cases q)
  show "bs_classes (budget_step policy s q) = fc" using budget_frame inv by simp
  have upd: "mem_count c t f (s\<lparr>bs_disk := d\<rparr>) = mem_count c t f s" for d by (simp add: mem_count_def)
  show "mem_count c t f s < fst (query_limit fc policy f) \<and> mem_count c t f (budget_step policy s q) = mem_count c t f s + 1"
    if "mem_hit policy c t f s q"
  proof -
    from that have a: "c' = c" "t' = t" "f \<in> set fs" "snd (enforce_query_budget env c t fs policy s) = None"
      "uses_memory policy s (env, c, t, fs)"
      by (auto simp: mem_hit_def admitted_def q)
    then have "fs \<noteq> []" by auto
    from enforce_cases [OF this, of c t env policy s] a
    have "enforce_query_budget env c t fs policy s = apply_in_memory_budget c t fs policy s" by auto
    then show ?thesis
      using a memory_room [of c t fs policy s f] memory_spend [of fs c t f c t policy s] ok inv
      by (simp add: budget_step_def q query_ok_def)
  qed
  show "mem_count c t f (budget_step policy s q) = mem_count c t f s" if "\<not> mem_hit policy c t f s q"
  proof (cases "fs = []")
    case False
    from enforce_cases [OF this, of c' t' env policy s] that show ?thesis
      using memory_spend [of fs c t f c' t' policy s] ok
      by (auto simp: budget_step_def q query_ok_def mem_hit_def admitted_def upd split: if_splits)
  qed (simp add: budget_step_def q)
qed

interpretation disk: metered "\<lambda>s. bs_classes s = fc \<and> disk_counter c t f s \<noteq> Text \<and> \<not> unsafe_name c \<and> f \<notin> fst ` set object_prototype"
    query_ok "budget_step policy" "disk_hit policy c t f" "disk_count c t f" "fst (query_limit fc policy f)" for fc policy c t f
proof
  fix s :: budget_server and q
  assume inv: "bs_classes s = fc \<and> disk_counter c t f s \<noteq> Text \<and> \<not> unsafe_name c \<and> f \<notin> fst ` set object_prototype"
    and ok: "query_ok q"
  obtain env c' t' fs where q: "q = (env, c', t', fs)" by (cases q)
  have dist: "distinct fs" using ok by (simp add: q query_ok_def)
  have same: "disk_counter c t f s' = disk_counter c t f s" if "bs_disk s' = bs_disk s" for s' :: budget_server
    using that by (simp add: disk_counter_def)
  have step: "disk_counter c t f (budget_step policy s q) =
      (if disk_hit policy c t f s q then plus_one (disk_counter c t f s) else disk_counter c t f s)"
    and room: "disk_hit policy c t f s q \<Longrightarrow> \<not> reached (disk_counter c t f s) (fst (query_limit fc policy f))"
  proof -
    show "disk_counter c t f (budget_step policy s q) =
      (if disk_hit policy c t f s q then plus_one (disk_counter c t f s) else disk_counter c t f s)"
    proof (cases "fs = []")
      case False
      from enforce_cases [OF this, of c' t' env policy s] show ?thesis
        using disk_spend(1) [of env "bs_classes s" c' t' fs policy "bs_disk s" _ _ c f t] inv dist
        by (auto simp: budget_step_def q disk_hit_def admitted_def disk_counter_def Let_def)
    qed (simp add: budget_step_def q disk_hit_def admitted_def)
    show "\<not> reached (disk_counter c t f s) (fst (query_limit fc policy f))" if hit: "disk_hit policy c t f s q"
    proof -
      from hit have a: "c' = c" "t' = t" "f \<in> set fs" "snd (enforce_query_budget env c t fs policy s) = None"
        "\<not> uses_memory policy s (env, c, t, fs)" by (auto simp: disk_hit_def admitted_def q)
      then have "fs \<noteq> []" by auto
      from enforce_cases [OF this, of c t env policy s] a
      obtain d where "execute_with_budget_lock env (persistent_action (bs_classes s) c t fs policy) (bs_disk s) = (Inr None, d)"
        by auto
      from disk_spend(2) [OF this] a inv dist show ?thesis by (simp add: disk_counter_def)
    qed
  qed
  show "bs_classes (budget_step policy s q) = fc \<and> disk_counter c t f (budget_step policy s q) \<noteq> Text \<and>
      \<not> unsafe_name c \<and> f \<notin> fst ` set object_prototype"
    using budget_frame inv step by (cases "disk_counter c t f s") auto
  show "disk_count c t f s < fst (query_limit fc policy f) \<and>
      disk_count c t f (budget_step policy s q) = disk_count c t f s + 1" if "disk_hit policy c t f s q"
    using that inv step room by (cases "disk_counter c t f s") (auto simp: disk_count_def)
  show "disk_count c t f (budget_step policy s q) = disk_count c t f s" if "\<not> disk_hit policy c t f s q"
    using that step by (simp add: disk_count_def)
qed

lemma admitted_split: "admitted policy c t f s q \<Longrightarrow> mem_hit policy c t f s q \<or> disk_hit policy c t f s q"
  by (simp add: mem_hit_def disk_hit_def)

lemma hits_none: "(\<And>s q. \<not> hit s q) \<Longrightarrow> hits step hit s es = 0"
  by (induction es arbitrary: s) auto

section \<open>Properties\<close>

definition budget_server_new :: "field_classes \<Rightarrow> string option \<Rightarrow> budget_server" where
  "budget_server_new fc path = \<lparr>bs_classes = fc, bs_configStorePath = path, bs_memory = [], bs_disk = None\<rparr>"



text \<open>
  The store on disk does not meter fields whose name \<open>Object.prototype\<close> has: such a query is
  admitted whatever the store holds, provided its counters are numbers or absent.
\<close>

theorem inherited_field_unmetered:
  "fst (persistent_action fc client tool [''constructor''] policy []) = None \<and>
   (\<exists>b. snd (persistent_action fc client tool [''constructor''] policy []) = Some b \<and>
        fst (persistent_action fc client tool [''constructor''] policy b) = None \<and>
        snd (persistent_action fc client tool [''constructor''] policy b) = Some b)"
  by (simp add: persistent_action_def tool_budget_def put_tool_budget_def read_counter_def bump_counter_def
      object_prototype_def Let_def)

text \<open>The lock is given up after 100 attempts, so a query always ends.\<close>

lemma acquire_lock_tries:
  "acquire_lock tries n = Inr () \<Longrightarrow> \<exists>k. n \<le> k \<and> k < max_retries \<and> tries k = Created \<and> (\<forall>j\<in>{n..<k}. tries j = Exists)"
proof (induction tries n rule: acquire_lock.induct)
  case (1 tries n)
  show ?case
  proof (cases "tries n")
    case Created
    with 1(2) show ?thesis by (auto simp: acquire_lock.simps [of tries n] split: if_splits intro!: exI [of _ n])
  next
    case Exists
    with 1 obtain k where "n + 1 \<le> k" "k < max_retries" "tries k = Created" "\<forall>j\<in>{n + 1..<k}. tries j = Exists"
      by (auto simp: acquire_lock.simps [of tries n] split: if_splits)
    with Exists show ?thesis by (intro exI [of _ k]) (auto simp: le_less Suc_le_eq)
  qed (use 1(2) in \<open>auto simp: acquire_lock.simps [of tries n] split: if_splits\<close>)
qed

end
