(* ===== verification/Taint_Analyzer.thy ===== *)
theory Taint_Analyzer
  imports Query_Budget Json_Text
begin

text \<open>
  The static taint analysis of \<open>security/taint-analyzer.ts\<close>: the record-bound variables, the
  propagation of taint through assignments, the check of the return statements, the correlation
  guard, the minimum/maximum gate and the fields a query reads.

  The parser and the tree walker are packages. A parsed program is a \<open>node\<close> with the ESTree
  constructors the analysis distinguishes; every other node type is \<open>Other_Node\<close>. Operators are
  left out because the analysis never reads them. \<open>walk n\<close> lists the nodes on which
  acorn-walk's \<open>simple\<close> calls its visitors, in that order; what the results need of it is that
  a visited node is not larger than the tree (\<open>walks_within\<close>).

  The methods \<open>isExpressionTainted\<close> and \<open>doesCallbackProduceTaint\<close> call each other. Each
  member is a definition over the evaluator of smaller nodes (\<open>ev\<close>, \<open>cb\<close>), and the two are tied
  together at the end with fuel, of which twice the size of the tree is enough
  (\<open>taint_fuel_enough\<close>). The set \<open>taintedVars\<close> is threaded because \<open>isCallExprTainted\<close> can
  add to it.
\<close>

section \<open>Syntax trees\<close>

datatype lit = Str_Lit string | Other_Lit

datatype node =
  Identifier string
| Literal lit
| MemberExpression node node bool \<comment> \<open>object, property, computed\<close>
| CallExpression node "node list"
| YieldExpression "node option"
| FunctionExpression "node list" node
| ArrowFunctionExpression "node list" node
| FunctionDeclaration "node option" "node list" node
| BinaryExpression node node
| LogicalExpression node node
| UnaryExpression node
| ConditionalExpression node node node
| ObjectExpression "node list"
| Property node node bool \<comment> \<open>key, value, computed\<close>
| ArrayExpression "node option list"
| TemplateLiteral "node list"
| SpreadElement node
| BlockStatement "node list"
| VariableDeclaration "node list"
| VariableDeclarator node "node option"
| AssignmentExpression node node
| ForOfStatement node node node
| ReturnStatement "node option" "nat option" \<comment> \<open>argument, line\<close>
| Other_Node string "node list"

type_synonym names = "string list"
type_synonym walker = "node \<Rightarrow> node list"

text \<open>\<open>getPropertyName\<close>; \<open>prop_name\<close> is its use as a condition, where the empty name is false.\<close>

fun get_property_name :: "node \<Rightarrow> bool \<Rightarrow> string option" where
  "get_property_name (Identifier x) False = Some x"
| "get_property_name (Literal (Str_Lit s)) True = Some s"
| "get_property_name _ _ = None"

definition prop_name :: "node \<Rightarrow> bool \<Rightarrow> string option" where
  "prop_name p c = (case get_property_name p c of Some [] \<Rightarrow> None | n \<Rightarrow> n)"

definition taint_propagating_methods :: "string list" where
  "taint_propagating_methods =
     [''charCodeAt'', ''codePointAt'', ''charAt'', ''at'', ''indexOf'', ''lastIndexOf'', ''search'',
      ''localeCompare'', ''startsWith'', ''endsWith'', ''includes'', ''substring'', ''slice'', ''substr'',
      ''split'', ''match'', ''matchAll'', ''replace'', ''replaceAll'', ''normalize'', ''toLowerCase'',
      ''toUpperCase'', ''trim'', ''trimStart'', ''trimEnd'', ''padStart'', ''padEnd'', ''repeat'']"

definition array_callback_methods :: "string list" where
  "array_callback_methods =
     [''map'', ''forEach'', ''filter'', ''find'', ''some'', ''every'', ''flatMap'', ''findIndex'']"

definition reduce_methods :: "string list" where
  "reduce_methods = [''reduce'', ''reduceRight'']"

definition safe_globals :: "string list" where
  "safe_globals = [''Math'', ''Number'', ''parseInt'', ''parseFloat'', ''isNaN'', ''isFinite'']"

definition named_in :: "string option \<Rightarrow> string list \<Rightarrow> bool" where
  "named_in m xs = (case m of None \<Rightarrow> False | Some x \<Rightarrow> x \<in> set xs)"

text \<open>A callback is a function expression in first position: whether it is an arrow function, its
  parameters and its body.\<close>

type_synonym callback = "bool \<times> node list \<times> node"

fun callback_of :: "node list \<Rightarrow> callback option" where
  "callback_of (ArrowFunctionExpression ps b # _) = Some (True, ps, b)"
| "callback_of (FunctionExpression ps b # _) = Some (False, ps, b)"
| "callback_of _ = None"

fun add_param :: "nat \<Rightarrow> node list \<Rightarrow> names \<Rightarrow> names" where
  "add_param i ps xs =
     (if i < length ps then (case ps ! i of Identifier x \<Rightarrow> set_add x xs | _ \<Rightarrow> xs) else xs)"

section \<open>Records and their aliases\<close>

fun is_env_records_access :: "node \<Rightarrow> bool" where
  "is_env_records_access (MemberExpression obj p c) =
     (get_property_name p c = Some ''records'' \<and> obj = Identifier ''env'')"
| "is_env_records_access (Identifier x) = (x = ''records'')"
| "is_env_records_access _ = False"

fun is_env_records_chain :: "node \<Rightarrow> bool" where
  "is_env_records_chain (CallExpression callee args) =
     (case callee of
        MemberExpression obj p c \<Rightarrow>
          named_in (prop_name p c) [''slice'', ''filter'', ''toSorted''] \<and> is_env_records_chain obj
      | _ \<Rightarrow> False)"
| "is_env_records_chain n = is_env_records_access n"

fun is_records_source :: "names \<Rightarrow> node \<Rightarrow> bool" where
  "is_records_source colls (CallExpression callee args) =
     (case callee of
        MemberExpression obj p c \<Rightarrow>
          named_in (prop_name p c) [''slice'', ''filter'', ''toSorted'', ''map'', ''concat''] \<and>
          is_records_source colls obj
      | _ \<Rightarrow> False)"
| "is_records_source colls (Identifier x) = (is_env_records_access (Identifier x) \<or> x \<in> set colls)"
| "is_records_source colls n = is_env_records_access n"

fun visit_alias :: "node \<Rightarrow> names \<Rightarrow> names" where
  "visit_alias (VariableDeclarator i ini) colls =
     (case (i, ini) of
        (Identifier x, Some e) \<Rightarrow> if is_records_source colls e then set_add x colls else colls
      | _ \<Rightarrow> colls)"
| "visit_alias (AssignmentExpression lhs rhs) colls =
     (case lhs of
        Identifier x \<Rightarrow> if is_records_source colls rhs then set_add x colls else colls
      | _ \<Rightarrow> colls)"
| "visit_alias _ colls = colls"

definition identify_record_collections :: "walker \<Rightarrow> node \<Rightarrow> names" where
  "identify_record_collections walk ast = (fold visit_alias (walk ast) ^^ 3) []"

fun declared_name :: "node \<Rightarrow> string option" where
  "declared_name (VariableDeclarator i _) = (case i of Identifier x \<Rightarrow> Some x | _ \<Rightarrow> None)"
| "declared_name _ = None"

definition declared_names :: "node list \<Rightarrow> names" where
  "declared_names ds = List.map_filter declared_name ds"

fun visit_record_binding :: "names \<Rightarrow> node \<Rightarrow> names \<Rightarrow> names" where
  "visit_record_binding colls (CallExpression callee args) rb =
     (case callee of
        MemberExpression obj p c \<Rightarrow>
          (case prop_name p c of None \<Rightarrow> rb | Some m \<Rightarrow>
             if \<not> is_records_source colls obj then rb
             else (case callback_of args of None \<Rightarrow> rb | Some (_, ps, _) \<Rightarrow>
                     (let rb = (if m \<in> set array_callback_methods then add_param 0 ps rb else rb) in
                      if m \<in> set reduce_methods then add_param 1 ps rb else rb)))
      | _ \<Rightarrow> rb)"
| "visit_record_binding colls (ForOfStatement lhs rhs body) rb =
     (if is_records_source colls rhs
      then (case lhs of VariableDeclaration ds \<Rightarrow> fold set_add (declared_names ds) rb | _ \<Rightarrow> rb)
      else rb)"
| "visit_record_binding colls _ rb = rb"

fun visit_record_index :: "names \<Rightarrow> node \<Rightarrow> names \<Rightarrow> names" where
  "visit_record_index colls (VariableDeclarator i ini) rb =
     (case (i, ini) of
        (Identifier x, Some e) \<Rightarrow>
          (case e of MemberExpression obj p c \<Rightarrow> if c \<and> is_records_source colls obj then set_add x rb else rb
           | _ \<Rightarrow> rb)
      | _ \<Rightarrow> rb)"
| "visit_record_index colls _ rb = rb"

definition identify_record_bound_vars :: "walker \<Rightarrow> node \<Rightarrow> names \<times> names" where
  "identify_record_bound_vars walk ast =
     (let colls = identify_record_collections walk ast in
      (colls, fold (visit_record_index colls) (walk ast) (fold (visit_record_binding colls) (walk ast) [])))"

section \<open>Evaluation of taint\<close>

text \<open>A check reads and may extend \<open>taintedVars\<close>; \<open>or_else\<close> is \<open>||\<close>, \<open>some_tainted\<close> is \<open>some\<close>.\<close>

type_synonym check = "names \<Rightarrow> bool \<times> names"

definition yes_if :: "bool \<Rightarrow> check" where
  "yes_if b tv = (b, tv)"

definition or_else :: "check \<Rightarrow> check \<Rightarrow> check" where
  "or_else a b tv = (case a tv of (r, tv') \<Rightarrow> if r then (True, tv') else b tv')"

fun some_tainted :: "('a \<Rightarrow> check) \<Rightarrow> 'a list \<Rightarrow> check" where
  "some_tainted f [] = yes_if False"
| "some_tainted f (x # xs) = or_else (f x) (some_tainted f xs)"

type_synonym evaluator = "names \<Rightarrow> node \<Rightarrow> check" \<comment> \<open>\<open>recordBoundVars\<close>, the expression\<close>
type_synonym cb_evaluator = "names \<Rightarrow> callback \<Rightarrow> string option \<Rightarrow> check"

definition is_pii :: "field_classes \<Rightarrow> string \<Rightarrow> bool" where
  "is_pii fc x \<longleftrightarrow> to_lower x \<in> set (fc_piiFields fc)"

definition pii_name :: "field_classes \<Rightarrow> node \<Rightarrow> bool \<Rightarrow> bool" where
  "pii_name fc p c = (case prop_name p c of None \<Rightarrow> False | Some x \<Rightarrow> is_pii fc x)"

definition is_member_expr_tainted ::
    "field_classes \<Rightarrow> names \<Rightarrow> evaluator \<Rightarrow> names \<Rightarrow> node \<Rightarrow> node \<Rightarrow> bool \<Rightarrow> check" where
  "is_member_expr_tainted fc colls ev rb obj p c =
     or_else (yes_if (case obj of Identifier x \<Rightarrow> x \<in> set rb \<and> pii_name fc p c | _ \<Rightarrow> False))
    (or_else (yes_if (case obj of MemberExpression o2 p2 c2 \<Rightarrow>
                pii_name fc p c \<and> c2 \<and> is_records_source colls o2 | _ \<Rightarrow> False))
    (or_else (ev rb obj)
             (yes_if (case (obj, p) of (Identifier x, Literal (Str_Lit s)) \<Rightarrow> c \<and> x \<in> set rb \<and> is_pii fc s
                | _ \<Rightarrow> False))))"

definition add_if :: "string \<Rightarrow> bool \<times> names \<Rightarrow> names" where
  "add_if x res = (case res of (r, tv) \<Rightarrow> if r then set_add x tv else tv)"

definition mark_push :: "evaluator \<Rightarrow> names \<Rightarrow> node \<Rightarrow> string option \<Rightarrow> node list \<Rightarrow> names \<Rightarrow> names" where
  "mark_push ev rb obj m args tv =
     (case obj of
        Identifier x \<Rightarrow>
          if m = Some ''push'' then add_if x (some_tainted (ev rb) args tv) else tv
      | _ \<Rightarrow> tv)"

definition is_call_expr_tainted ::
    "names \<Rightarrow> evaluator \<Rightarrow> cb_evaluator \<Rightarrow> names \<Rightarrow> node \<Rightarrow> node list \<Rightarrow> check" where
  "is_call_expr_tainted colls ev cb rb callee args =
     (case callee of
        MemberExpression obj p c \<Rightarrow>
          (let m = get_property_name p c in
           or_else (if named_in m taint_propagating_methods then ev rb obj else yes_if False)
             (case (if is_records_source colls obj then callback_of args else None) of
                Some f \<Rightarrow> cb rb f m
              | None \<Rightarrow>
                  or_else (ev rb obj)
                 (or_else (some_tainted (ev rb) args) (\<lambda>tv. (False, mark_push ev rb obj m args tv)))))
      | Identifier f \<Rightarrow>
          (\<lambda>tv. if f \<in> set tv then (True, tv)
                else if f \<in> set safe_globals then (False, tv) else some_tainted (ev rb) args tv)
      | _ \<Rightarrow> yes_if False)"

fun property_tainted :: "evaluator \<Rightarrow> names \<Rightarrow> node \<Rightarrow> check" where
  "property_tainted ev rb (Property k v c) = or_else (if c then ev rb k else yes_if False) (ev rb v)"
| "property_tainted ev rb (SpreadElement e) = ev rb e"
| "property_tainted ev rb _ = yes_if False"

fun expression_tainted ::
    "field_classes \<Rightarrow> names \<Rightarrow> evaluator \<Rightarrow> cb_evaluator \<Rightarrow> names \<Rightarrow> node \<Rightarrow> check" where
  "expression_tainted fc colls ev cb rb (Identifier x) = (\<lambda>tv. (x \<in> set tv, tv))"
| "expression_tainted fc colls ev cb rb (MemberExpression obj p c) = is_member_expr_tainted fc colls ev rb obj p c"
| "expression_tainted fc colls ev cb rb (CallExpression callee args) = is_call_expr_tainted colls ev cb rb callee args"
| "expression_tainted fc colls ev cb rb (YieldExpression a) = (case a of None \<Rightarrow> yes_if False | Some e \<Rightarrow> ev rb e)"
| "expression_tainted fc colls ev cb rb (FunctionExpression ps b) = cb rb (False, ps, b) None"
| "expression_tainted fc colls ev cb rb (ArrowFunctionExpression ps b) = cb rb (True, ps, b) None"
| "expression_tainted fc colls ev cb rb (BinaryExpression l r) = or_else (ev rb l) (ev rb r)"
| "expression_tainted fc colls ev cb rb (LogicalExpression l r) = or_else (ev rb l) (ev rb r)"
| "expression_tainted fc colls ev cb rb (UnaryExpression e) = ev rb e"
| "expression_tainted fc colls ev cb rb (ConditionalExpression t x y) = or_else (ev rb t) (or_else (ev rb x) (ev rb y))"
| "expression_tainted fc colls ev cb rb (ObjectExpression ps) = some_tainted (property_tainted ev rb) ps"
| "expression_tainted fc colls ev cb rb (ArrayExpression es) =
     some_tainted (\<lambda>e. case e of None \<Rightarrow> yes_if False | Some e \<Rightarrow> ev rb e) es"
| "expression_tainted fc colls ev cb rb (TemplateLiteral es) = some_tainted (ev rb) es"
| "expression_tainted fc colls ev cb rb (SpreadElement e) = ev rb e"
| "expression_tainted fc colls ev cb rb _ = yes_if False"

fun visit_taint :: "evaluator \<Rightarrow> cb_evaluator \<Rightarrow> names \<Rightarrow> node \<Rightarrow> names \<Rightarrow> names" where
  "visit_taint ev cb rb (VariableDeclarator i ini) tv =
     (case (i, ini) of (Identifier x, Some e) \<Rightarrow> add_if x (ev rb e tv) | _ \<Rightarrow> tv)"
| "visit_taint ev cb rb (AssignmentExpression lhs rhs) tv =
     (case lhs of
        MemberExpression obj p c \<Rightarrow>
          if c then (case obj of Identifier x \<Rightarrow> add_if x (ev rb p tv) | _ \<Rightarrow> snd (ev rb p tv)) else tv
      | Identifier x \<Rightarrow> add_if x (ev rb rhs tv)
      | _ \<Rightarrow> tv)"
| "visit_taint ev cb rb (FunctionDeclaration i ps b) tv =
     (case i of Some (Identifier x) \<Rightarrow> add_if x (cb rb (False, ps, b) None tv) | _ \<Rightarrow> tv)"
| "visit_taint ev cb rb (CallExpression callee args) tv =
     (case callee of
        MemberExpression obj p c \<Rightarrow> mark_push ev rb obj (get_property_name p c) args tv
      | _ \<Rightarrow> tv)"
| "visit_taint ev cb rb _ tv = tv"

text \<open>The loop of \<open>propagateTaint\<close>: at most \<open>k\<close> passes, and none after a pass that adds nothing.\<close>

fun propagate_passes :: "evaluator \<Rightarrow> cb_evaluator \<Rightarrow> names \<Rightarrow> node list \<Rightarrow> nat \<Rightarrow> names \<Rightarrow> names" where
  "propagate_passes ev cb rb ns 0 tv = tv"
| "propagate_passes ev cb rb ns (Suc k) tv =
     (let tv' = fold (visit_taint ev cb rb) ns tv in
      if length tv' = length tv then tv' else propagate_passes ev cb rb ns k tv')"

definition propagate_taint :: "walker \<Rightarrow> evaluator \<Rightarrow> cb_evaluator \<Rightarrow> node \<Rightarrow> names \<Rightarrow> names \<Rightarrow> names" where
  "propagate_taint walk ev cb ast rb tv = propagate_passes ev cb rb (walk ast) 3 tv"

fun result_of :: "node \<Rightarrow> node option" where
  "result_of (ReturnStatement a l) = a"
| "result_of (YieldExpression a) = a"
| "result_of _ = None"

definition visit_result :: "evaluator \<Rightarrow> names \<Rightarrow> node \<Rightarrow> bool \<times> names \<Rightarrow> bool \<times> names" where
  "visit_result ev rb n st =
     (case result_of n of None \<Rightarrow> st
      | Some e \<Rightarrow> (case ev rb e (snd st) of (r, tv) \<Rightarrow> (fst st \<or> r, tv)))"

fun is_block :: "node \<Rightarrow> bool" where
  "is_block (BlockStatement _) = True"
| "is_block _ = False"

definition callback_tainted :: "walker \<Rightarrow> evaluator \<Rightarrow> cb_evaluator \<Rightarrow> cb_evaluator" where
  "callback_tainted walk ev cb rb f m tv =
     (case f of (arrow, ps, body) \<Rightarrow>
        (let srb = add_param (if named_in m reduce_methods then 1 else 0) ps rb in
         if arrow \<and> \<not> is_block body then (fst (ev srb body tv), tv)
         else (fst (fold (visit_result ev srb) (walk body) (False, propagate_taint walk ev cb body srb tv)), tv)))"

fun is_expression_tainted :: "walker \<Rightarrow> field_classes \<Rightarrow> names \<Rightarrow> nat \<Rightarrow> evaluator"
and does_callback_produce_taint :: "walker \<Rightarrow> field_classes \<Rightarrow> names \<Rightarrow> nat \<Rightarrow> cb_evaluator" where
  "is_expression_tainted walk fc colls 0 rb e tv = (False, tv)"
| "is_expression_tainted walk fc colls (Suc k) rb e tv =
     expression_tainted fc colls (is_expression_tainted walk fc colls k) (does_callback_produce_taint walk fc colls k)
       rb e tv"
| "does_callback_produce_taint walk fc colls 0 rb f m tv = (False, tv)"
| "does_callback_produce_taint walk fc colls (Suc k) rb f m tv =
     callback_tainted walk (is_expression_tainted walk fc colls k) (does_callback_produce_taint walk fc colls k)
       rb f m tv"

lemma evaluator_Suc:
  "is_expression_tainted walk fc colls (Suc k) =
     expression_tainted fc colls (is_expression_tainted walk fc colls k) (does_callback_produce_taint walk fc colls k)"
  "does_callback_produce_taint walk fc colls (Suc k) =
     callback_tainted walk (is_expression_tainted walk fc colls k) (does_callback_produce_taint walk fc colls k)"
  by (simp_all add: fun_eq_iff)

declare is_expression_tainted.simps [simp del] does_callback_produce_taint.simps [simp del]

section \<open>Sinks and gates\<close>

record taint_violation =
  vi_reason :: string
  vi_line :: "nat option"
  vi_operation :: "string option"

definition quoted :: "string \<Rightarrow> string" where
  "quoted s = CHR 0x27 # s @ [CHR 0x27]"

fun tainted_property :: "(node \<Rightarrow> bool) \<Rightarrow> node list \<Rightarrow> string option" where
  "tainted_property t [] = None"
| "tainted_property t (n # ns) =
     (case n of
        Property k v c \<Rightarrow>
          if t v then Some (case k of Identifier x \<Rightarrow> x | _ \<Rightarrow> ''unknown'') else tainted_property t ns
      | _ \<Rightarrow> tainted_property t ns)"

text \<open>\<open>describeTaintSource\<close>; \<open>t\<close> is the verdict of \<open>isExpressionTainted\<close> on a property value.\<close>

fun describe_taint_source :: "(node \<Rightarrow> bool) \<Rightarrow> names \<Rightarrow> node \<Rightarrow> string option" where
  "describe_taint_source t tv (Identifier x) =
     (if x \<in> set tv then Some (''variable '' @ quoted x @ '' is PII-derived'') else None)"
| "describe_taint_source t tv (ObjectExpression ps) =
     map_option (\<lambda>k. ''property '' @ quoted k @ '' contains PII-derived value'') (tainted_property t ps)"
| "describe_taint_source t tv (CallExpression callee args) =
     (case callee of
        MemberExpression obj p c \<Rightarrow> map_option (\<lambda>m. ''result of .'' @ m @ ''() on PII data'') (prop_name p c)
      | _ \<Rightarrow> None)"
| "describe_taint_source t tv _ = None"

definition pii_violation :: "nat option \<Rightarrow> string option \<Rightarrow> taint_violation" where
  "pii_violation l oper =
     \<lparr>vi_reason = ''PII side-channel detected: output contains values derived from restricted fields. ''
        @ (case oper of None \<Rightarrow> [] | Some x \<Rightarrow> ''Operation: '' @ x @ ''. '')
        @ ''Use only non-PII fields (e.g., numeric/date columns) for aggregations.'',
      vi_line = (case l of Some (Suc k) \<Rightarrow> Some k | _ \<Rightarrow> None),
      vi_operation = oper\<rparr>"

fun visit_return :: "evaluator \<Rightarrow> names \<Rightarrow> node \<Rightarrow> taint_violation option \<times> names \<Rightarrow> taint_violation option \<times> names" where
  "visit_return ev rb (ReturnStatement a l) (vi, tv) =
     (case (vi, a) of
        (None, Some e) \<Rightarrow>
          (case ev rb e tv of (r, tv) \<Rightarrow>
             if r then (Some (pii_violation l (describe_taint_source (\<lambda>v. fst (ev rb v tv)) tv e)), tv) else (None, tv))
      | _ \<Rightarrow> (vi, tv))"
| "visit_return ev rb _ st = st"

definition check_return_statements :: "walker \<Rightarrow> evaluator \<Rightarrow> node \<Rightarrow> names \<Rightarrow> names \<Rightarrow> taint_violation option" where
  "check_return_statements walk ev ast rb tv = fst (fold (visit_return ev rb) (walk ast) (None, tv))"

fun accessed_field :: "string \<Rightarrow> node \<Rightarrow> string option" where
  "accessed_field param (MemberExpression obj p c) =
     (if obj = Identifier param
      then (case prop_name p c of None \<Rightarrow> None | Some f \<Rightarrow> if f = ''length'' then None else Some f)
      else None)"
| "accessed_field param _ = None"

definition extract_fields_from_body :: "walker \<Rightarrow> node \<Rightarrow> string \<Rightarrow> string list" where
  "extract_fields_from_body walk body param = List.map_filter (accessed_field param) (walk body)"

text \<open>The fields one call aggregates: those of a reduction over \<open>env.records\<close> or a derivation of it.\<close>

fun aggregated_fields :: "walker \<Rightarrow> node \<Rightarrow> string list" where
  "aggregated_fields walk (CallExpression callee args) =
     (case callee of
        MemberExpression obj p c \<Rightarrow>
          if \<not> named_in (prop_name p c) reduce_methods \<or> \<not> is_env_records_chain obj then []
          else (case callback_of args of None \<Rightarrow> [] | Some (_, ps, body) \<Rightarrow>
                  (case (if 1 < length ps then Some (ps ! 1) else if ps \<noteq> [] then Some (ps ! 0) else None) of
                     Some (Identifier x) \<Rightarrow> extract_fields_from_body walk body x
                   | _ \<Rightarrow> []))
      | _ \<Rightarrow> [])"
| "aggregated_fields walk _ = []"

definition count_field :: "string \<Rightarrow> (string, nat) js_map \<Rightarrow> (string, nat) js_map" where
  "count_field f m = AList.update f ((case map_of m f of None \<Rightarrow> 0 | Some k \<Rightarrow> k) + 1) m"

definition correlation_violation :: "string \<Rightarrow> nat \<Rightarrow> taint_violation" where
  "correlation_violation f k =
     \<lparr>vi_reason = ''Correlation guard: '' @ show_nat k @ '' aggregations detected on field '' @ quoted f @ ''. ''
        @ ''Multiple correlated aggregations on the same field can enable differencing attacks. ''
        @ ''Use a single aggregation per numeric field, or increase dataset size above 50 records.'',
      vi_line = None, vi_operation = None\<rparr>"

definition field_agg_counts :: "walker \<Rightarrow> node \<Rightarrow> (string, nat) js_map" where
  "field_agg_counts walk ast = fold (\<lambda>n m. fold count_field (aggregated_fields walk n) m) (walk ast) []"

definition detect_correlated_aggregations :: "walker \<Rightarrow> node \<Rightarrow> taint_violation option" where
  "detect_correlated_aggregations walk ast =
     map_option (\<lambda>(f, k). correlation_violation f k) (find (\<lambda>(f, k). 2 \<le> k) (field_agg_counts walk ast))"

fun is_records_map_call :: "names \<Rightarrow> node \<Rightarrow> bool" where
  "is_records_map_call colls (CallExpression callee args) =
     (case callee of
        MemberExpression obj p c \<Rightarrow> get_property_name p c = Some ''map'' \<and> is_records_source colls obj
      | _ \<Rightarrow> False)"
| "is_records_map_call colls _ = False"

fun spreads_records_map :: "names \<Rightarrow> node \<Rightarrow> bool" where
  "spreads_records_map colls (SpreadElement e) = is_records_map_call colls e"
| "spreads_records_map colls _ = False"

definition extremum_violation :: "string \<Rightarrow> taint_violation" where
  "extremum_violation what =
     \<lparr>vi_reason = ''Min/Max gate: '' @ what @ '' on individual records blocked for small datasets (n < 50). ''
        @ ''Use avg/stddev/count for privacy-safe aggregations.'',
      vi_line = None, vi_operation = None\<rparr>"

fun visit_extremum :: "names \<Rightarrow> node \<Rightarrow> taint_violation option" where
  "visit_extremum colls (CallExpression callee args) =
     (case callee of
        MemberExpression obj p c \<Rightarrow>
          (case get_property_name p c of None \<Rightarrow> None | Some m \<Rightarrow>
             if obj = Identifier ''Math'' \<and> m \<in> {''min'', ''max''} \<and> list_ex (spreads_records_map colls) args
             then Some (extremum_violation (''Math.'' @ m @ ''()'')) else None)
      | _ \<Rightarrow> None)"
| "visit_extremum colls (MemberExpression obj p c) =
     (case obj of
        CallExpression callee args \<Rightarrow>
          (case callee of
             MemberExpression target q d \<Rightarrow>
               if c \<and> named_in (get_property_name q d) [''sort'', ''toSorted''] \<and> is_env_records_chain target
               then Some (extremum_violation ''.sort()[index]'') else None
           | _ \<Rightarrow> None)
      | _ \<Rightarrow> None)"
| "visit_extremum colls _ = None"

definition detect_min_max_extraction :: "walker \<Rightarrow> names \<Rightarrow> node \<Rightarrow> taint_violation option" where
  "detect_min_max_extraction walk colls ast =
     fold (\<lambda>n vi. case vi of Some _ \<Rightarrow> vi | None \<Rightarrow> visit_extremum colls n) (walk ast) None"

section \<open>The public operations\<close>

text \<open>\<open>String.prototype.replace\<close> with a string pattern: the first occurrence.\<close>

fun replace_first :: "string \<Rightarrow> string \<Rightarrow> string \<Rightarrow> string" where
  "replace_first p r [] = (if p = [] then r else [])"
| "replace_first p r (c # cs) =
     (if starts_with (c # cs) p then r @ drop (length p) (c # cs) else c # replace_first p r cs)"

definition with_threshold :: "int \<Rightarrow> taint_violation \<Rightarrow> taint_violation" where
  "with_threshold thr vi = vi\<lparr>vi_reason := replace_first ''50 records'' (show_int thr @ '' records'') (vi_reason vi)\<rparr>"

definition wrapped :: "string \<Rightarrow> string \<Rightarrow> string" where
  "wrapped name source = ''function '' @ name @ ''(env) {'' @ [CHR 0x0A] @ source @ [CHR 0x0A] @ ''}''"

definition taint_fuel :: "node \<Rightarrow> nat" where
  "taint_fuel ast = 2 * size ast + 2"

text \<open>The final \<open>taintedVars\<close> of a program, and the verdict on an expression of it.\<close>

definition tainted_vars :: "walker \<Rightarrow> field_classes \<Rightarrow> node \<Rightarrow> names" where
  "tainted_vars walk fc ast =
     (case identify_record_bound_vars walk ast of (colls, rb) \<Rightarrow>
        propagate_taint walk (is_expression_tainted walk fc colls (taint_fuel ast))
          (does_callback_produce_taint walk fc colls (taint_fuel ast)) ast rb [])"

definition analyze_ast :: "walker \<Rightarrow> field_classes \<Rightarrow> node \<Rightarrow> int option \<Rightarrow> int \<Rightarrow> taint_violation option" where
  "analyze_ast walk fc ast recordCount thr =
     (case identify_record_bound_vars walk ast of (colls, rb) \<Rightarrow>
        (case check_return_statements walk (is_expression_tainted walk fc colls (taint_fuel ast)) ast rb
                (tainted_vars walk fc ast) of
           Some vi \<Rightarrow> Some vi
         | None \<Rightarrow>
             if (case recordCount of None \<Rightarrow> False | Some n \<Rightarrow> 0 < n \<and> n < thr)
             then (case detect_correlated_aggregations walk ast of
                     Some vi \<Rightarrow> Some (with_threshold thr vi)
                   | None \<Rightarrow> map_option (with_threshold thr) (detect_min_max_extraction walk colls ast))
             else None))"

definition analyze :: "(string \<Rightarrow> node option) \<Rightarrow> walker \<Rightarrow> field_classes \<Rightarrow> string \<Rightarrow> int option \<Rightarrow> int \<Rightarrow> taint_violation option" where
  "analyze parse walk fc source recordCount thr =
     (case parse (wrapped ''liop_analysis_wrapper'' source) of
        None \<Rightarrow> None
      | Some ast \<Rightarrow> analyze_ast walk fc ast recordCount thr)"

fun queried_field :: "names \<Rightarrow> node \<Rightarrow> string option" where
  "queried_field rb (MemberExpression obj p c) =
     (case prop_name p c of None \<Rightarrow> None | Some f \<Rightarrow>
        if f = ''length'' then None
        else if (case obj of Identifier x \<Rightarrow> x \<in> set rb
                 | MemberExpression o2 p2 c2 \<Rightarrow> c2 \<and> is_env_records_access o2 | _ \<Rightarrow> False)
        then Some f else None)"
| "queried_field rb _ = None"

definition extract_queried_fields :: "(string \<Rightarrow> node option) \<Rightarrow> walker \<Rightarrow> string \<Rightarrow> string list" where
  "extract_queried_fields parse walk source =
     (case parse (wrapped ''w'' source) of
        None \<Rightarrow> []
      | Some ast \<Rightarrow> fold set_add (List.map_filter (queried_field (snd (identify_record_bound_vars walk ast))) (walk ast)) [])"

section \<open>Propagation rules\<close>

text \<open>
  When a node makes a variable tainted, given the verdicts \<open>e\<close> on expressions and \<open>c\<close> on
  function bodies.
\<close>

inductive flows_to :: "(node \<Rightarrow> bool) \<Rightarrow> (callback \<Rightarrow> bool) \<Rightarrow> node \<Rightarrow> string \<Rightarrow> bool" for e c where
  declared: "e ini \<Longrightarrow> flows_to e c (VariableDeclarator (Identifier x) (Some ini)) x"
| assigned: "e rhs \<Longrightarrow> flows_to e c (AssignmentExpression (Identifier x) rhs) x"
| keyed: "e p \<Longrightarrow> flows_to e c (AssignmentExpression (MemberExpression (Identifier x) p True) rhs) x"
| helper: "c (False, ps, b) \<Longrightarrow> flows_to e c (FunctionDeclaration (Some (Identifier x)) ps b) x"
| pushed: "a \<in> set args \<Longrightarrow> e a \<Longrightarrow> get_property_name p d = Some ''push'' \<Longrightarrow>
    flows_to e c (CallExpression (MemberExpression (Identifier x) p d) args) x"

inductive_simps flows_to_simps:
  "flows_to e c (VariableDeclarator i a) x" "flows_to e c (AssignmentExpression l r) x"
  "flows_to e c (FunctionDeclaration i ps b) x" "flows_to e c (CallExpression f args) x"

inductive_cases flows_to_cases: "flows_to e c n x"

lemma flows_to_mono:
  assumes "flows_to e c n x" "\<And>m. e m \<Longrightarrow> e' m" "\<And>f. c f \<Longrightarrow> c' f"
  shows "flows_to e' c' n x"
  using assms(1) by (rule flows_to_cases) (auto intro: flows_to.intros assms(2,3))

lemma set_add_if [simp]: "set (add_if x (r, tv)) = set tv \<union> (if r then {x} else {})"
  by (auto simp: add_if_def)

lemma or_else_yes_if [simp]: "or_else (yes_if r) b tv = (if r then (True, tv) else b tv)"
  by (simp add: or_else_def yes_if_def)

lemma add_if_append: "\<exists>ys. add_if x (r, tv) = tv @ ys"
  by (auto simp: add_if_def set_add_def)

text \<open>
  What the propagation relies on: evaluating an expression or a callback leaves \<open>taintedVars\<close> as it
  is, and a larger set never makes a tainted value clean.
\<close>

locale taint_evaluator =
  fixes ev :: evaluator and cb :: cb_evaluator
  assumes ev_quiet: "snd (ev rb n tv) = tv"
    and cb_quiet: "snd (cb rb f m tv) = tv"
    and ev_mono: "set tv \<subseteq> set tv' \<Longrightarrow> fst (ev rb n tv) \<Longrightarrow> fst (ev rb n tv')"
    and cb_mono: "set tv \<subseteq> set tv' \<Longrightarrow> fst (cb rb f m tv) \<Longrightarrow> fst (cb rb f m tv')"
begin

lemma ev_pair: "ev rb n tv = (fst (ev rb n tv), tv)"
  by (simp add: prod_eq_iff ev_quiet)

lemma cb_pair: "cb rb f m tv = (fst (cb rb f m tv), tv)"
  by (simp add: prod_eq_iff cb_quiet)

lemma add_if_ev [simp]: "add_if x (ev rb n tv) = (if fst (ev rb n tv) then set_add x tv else tv)"
  using ev_quiet[of rb n tv] by (cases "ev rb n tv") (simp add: add_if_def)

lemma add_if_cb [simp]: "add_if x (cb rb f m tv) = (if fst (cb rb f m tv) then set_add x tv else tv)"
  using cb_quiet[of rb f m tv] by (cases "cb rb f m tv") (simp add: add_if_def)

lemma or_else_ev: "or_else (ev rb n) b tv = (if fst (ev rb n tv) then (True, tv) else b tv)"
  by (subst or_else_def, subst ev_pair) simp

lemma some_ev: "some_tainted (ev rb) es tv = (\<exists>e\<in>set es. fst (ev rb e tv), tv)"
  by (induction es) (auto simp: or_else_ev yes_if_def)

lemma some_property: "some_tainted (property_tainted ev rb) es tv = (\<exists>e\<in>set es. fst (property_tainted ev rb e tv), tv)"
proof (induction es)
  case (Cons e es)
  have "property_tainted ev rb e tv = (fst (property_tainted ev rb e tv), tv)"
    by (cases e) (auto simp: prod_eq_iff or_else_ev ev_quiet, simp_all add: yes_if_def)
  then show ?case using Cons by (auto simp: or_else_def split: prod.splits)
qed (simp add: yes_if_def)

lemma some_element:
  "some_tainted (\<lambda>e. case e of None \<Rightarrow> yes_if False | Some e \<Rightarrow> ev rb e) es tv =
     (\<exists>e. Some e \<in> set es \<and> fst (ev rb e tv), tv)"
  by (induction es) (auto simp: or_else_ev split: option.splits, simp add: yes_if_def)

lemma mark_push_eq:
  "mark_push ev rb obj m args tv =
     (case obj of Identifier x \<Rightarrow> if m = Some ''push'' \<and> (\<exists>e\<in>set args. fst (ev rb e tv)) then set_add x tv else tv
      | _ \<Rightarrow> tv)"
  by (simp add: mark_push_def some_ev add_if_def split: node.splits)

text \<open>The marking of the receiver in \<open>isCallExprTainted\<close> is dead: a tainted argument has already
  decided the call.\<close>

lemma dead_push:
  "or_else (some_tainted (ev rb) args) (\<lambda>tv. (False, mark_push ev rb obj m args tv)) tv =
     (\<exists>e\<in>set args. fst (ev rb e tv), tv)"
  by (auto simp: or_else_def some_ev mark_push_eq split: node.splits)

lemma visit_taint_set:
  "set (visit_taint ev cb rb n tv) =
     set tv \<union> {x. flows_to (\<lambda>e. fst (ev rb e tv)) (\<lambda>f. fst (cb rb f None tv)) n x}"
proof (cases n)
  case (VariableDeclarator i ini)
  then show ?thesis
    by (cases i; cases ini) (auto simp: flows_to_simps ev_quiet split: if_splits)
next
  case (AssignmentExpression l r)
  then show ?thesis
    by (cases l) (auto simp: flows_to_simps ev_quiet split: if_splits node.splits)
next
  case (FunctionDeclaration i ps b)
  then show ?thesis
    by (auto simp: flows_to_simps split: if_splits node.splits option.splits)
next
  case (CallExpression callee args)
  then show ?thesis
    by (cases callee) (auto simp: flows_to_simps mark_push_eq split: if_splits node.splits)
qed (auto elim: flows_to_cases)

end

definition closed_under :: "evaluator \<Rightarrow> cb_evaluator \<Rightarrow> names \<Rightarrow> node list \<Rightarrow> names \<Rightarrow> bool" where
  "closed_under ev cb rb ns T \<longleftrightarrow>
     (\<forall>n\<in>set ns. \<forall>x. flows_to (\<lambda>e. fst (ev rb e T)) (\<lambda>f. fst (cb rb f None T)) n x \<longrightarrow> x \<in> set T)"

context taint_evaluator
begin

lemma visit_taint_append: "\<exists>ys. visit_taint ev cb rb n tv = tv @ ys"
proof -
  have add: "\<exists>ys. (if r then set_add x tv else tv) = tv @ ys" for r x
    by (auto simp: set_add_def)
  show ?thesis
    by (cases n) (auto simp: mark_push_eq ev_quiet intro: add split: node.splits option.splits
        simp: set_add_def)
qed

lemma pass_append: "\<exists>ys. fold (visit_taint ev cb rb) ns tv = tv @ ys"
proof (induction ns arbitrary: tv)
  case (Cons n ns)
  obtain us where "visit_taint ev cb rb n tv = tv @ us" using visit_taint_append by blast
  moreover obtain vs where "fold (visit_taint ev cb rb) ns (tv @ us) = (tv @ us) @ vs" using Cons.IH by blast
  ultimately show ?case by simp
qed simp

lemma pass_grows: "set tv \<subseteq> set (fold (visit_taint ev cb rb) ns tv)"
  using pass_append[of rb ns tv] by auto

lemma visit_taint_mono:
  assumes "set tv \<subseteq> set tv'"
  shows "set (visit_taint ev cb rb n tv) \<subseteq> set (visit_taint ev cb rb n tv')"
  using assms by (auto simp: visit_taint_set intro: flows_to_mono ev_mono cb_mono)

lemma pass_mono:
  "set tv \<subseteq> set tv' \<Longrightarrow> set (fold (visit_taint ev cb rb) ns tv) \<subseteq> set (fold (visit_taint ev cb rb) ns tv')"
  by (induction ns arbitrary: tv tv') (simp_all add: visit_taint_mono)

text \<open>Leaving the loop early loses nothing: the result is that of all the passes.\<close>

lemma propagate_passes_eq: "propagate_passes ev cb rb ns k tv = (fold (visit_taint ev cb rb) ns ^^ k) tv"
proof (induction k arbitrary: tv)
  case (Suc k)
  let ?F = "fold (visit_taint ev cb rb) ns"
  have fixed: "(?F ^^ k) tv = tv" if "?F tv = tv" for k
    using that by (induction k) simp_all
  have "?F tv = tv" if "length (?F tv) = length tv"
    using pass_append[of rb ns tv] that by auto
  then show ?case
    using Suc[of "?F tv"] fixed[of k] by (auto simp: Let_def funpow_Suc_right simp del: funpow.simps)
qed simp

lemma passes_mono:
  "set tv \<subseteq> set tv' \<Longrightarrow> set ((fold (visit_taint ev cb rb) ns ^^ k) tv) \<subseteq> set ((fold (visit_taint ev cb rb) ns ^^ k) tv')"
  by (induction k arbitrary: tv tv') (simp_all add: pass_mono)

lemma propagate_mono:
  "set tv \<subseteq> set tv' \<Longrightarrow>
     set (propagate_taint walk ev cb ast rb tv) \<subseteq> set (propagate_taint walk ev cb ast rb tv')"
  by (simp add: propagate_taint_def propagate_passes_eq passes_mono)

lemma closed_visit: "closed_under ev cb rb ns T \<Longrightarrow> n \<in> set ns \<Longrightarrow> set (visit_taint ev cb rb n T) = set T"
  by (auto simp: closed_under_def visit_taint_set)

lemma pass_below_closed:
  assumes "closed_under ev cb rb ns T" "set tv \<subseteq> set T" "set ms \<subseteq> set ns"
  shows "set (fold (visit_taint ev cb rb) ms tv) \<subseteq> set T"
  using assms(2,3)
proof (induction ms arbitrary: tv)
  case (Cons m ms)
  have "set (visit_taint ev cb rb m tv) \<subseteq> set (visit_taint ev cb rb m T)"
    using Cons.prems by (intro visit_taint_mono) simp
  also have "\<dots> = set T" using Cons.prems assms(1) by (intro closed_visit) auto
  finally show ?case using Cons by simp
qed simp

lemma propagate_below_closed:
  assumes "closed_under ev cb rb (walk ast) T" "set tv \<subseteq> set T"
  shows "set (propagate_taint walk ev cb ast rb tv) \<subseteq> set T"
proof -
  have "set ((fold (visit_taint ev cb rb) (walk ast) ^^ k) tv) \<subseteq> set T" for k
    by (induction k) (simp_all add: assms(2) pass_below_closed[OF assms(1)])
  then show ?thesis by (simp add: propagate_taint_def propagate_passes_eq)
qed

lemma fst_results:
  "fold (visit_result ev rb) ns (found, tv) =
     (found \<or> (\<exists>n\<in>set ns. \<exists>e. result_of n = Some e \<and> fst (ev rb e tv)), tv)"
proof (induction ns arbitrary: found)
  case (Cons n ns)
  have "visit_result ev rb n (found, tv) = (found \<or> (\<exists>e. result_of n = Some e \<and> fst (ev rb e tv)), tv)"
    using ev_pair[of rb _ tv] by (auto simp: visit_result_def split: option.splits prod.splits)
      (metis fst_conv snd_conv ev_quiet)+
  then show ?case using Cons by auto
qed simp

end

context taint_evaluator
begin

lemma member_eq:
  "is_member_expr_tainted fc colls ev rb obj p c tv =
     ((case obj of Identifier x \<Rightarrow> x \<in> set rb \<and> pii_name fc p c | _ \<Rightarrow> False) \<or>
      (case obj of MemberExpression o2 p2 c2 \<Rightarrow> pii_name fc p c \<and> c2 \<and> is_records_source colls o2 | _ \<Rightarrow> False) \<or>
      fst (ev rb obj tv) \<or>
      (case (obj, p) of (Identifier x, Literal (Str_Lit s)) \<Rightarrow> c \<and> x \<in> set rb \<and> is_pii fc s | _ \<Rightarrow> False), tv)"
  unfolding is_member_expr_tainted_def by (simp only: or_else_yes_if or_else_ev) (simp add: yes_if_def)

definition call_verdict :: "names \<Rightarrow> names \<Rightarrow> node \<Rightarrow> node list \<Rightarrow> names \<Rightarrow> bool" where
  "call_verdict colls rb callee args tv =
     (case callee of
        MemberExpression obj p c \<Rightarrow>
          (named_in (get_property_name p c) taint_propagating_methods \<and> fst (ev rb obj tv)) \<or>
          (case (if is_records_source colls obj then callback_of args else None) of
             Some f \<Rightarrow> fst (cb rb f (get_property_name p c) tv)
           | None \<Rightarrow> fst (ev rb obj tv) \<or> (\<exists>a\<in>set args. fst (ev rb a tv)))
      | Identifier f \<Rightarrow> f \<in> set tv \<or> (f \<notin> set safe_globals \<and> (\<exists>a\<in>set args. fst (ev rb a tv)))
      | _ \<Rightarrow> False)"

lemma call_eq: "is_call_expr_tainted colls ev cb rb callee args tv = (call_verdict colls rb callee args tv, tv)"
proof (cases callee)
  case (MemberExpression obj p c)
  let ?m = "get_property_name p c" and ?f = "if is_records_source colls obj then callback_of args else None"
  have rest: "(case ?f of Some f \<Rightarrow> cb rb f ?m
       | None \<Rightarrow> or_else (ev rb obj) (or_else (some_tainted (ev rb) args) (\<lambda>tv. (False, mark_push ev rb obj ?m args tv)))) tv
     = ((case ?f of Some f \<Rightarrow> fst (cb rb f ?m tv)
         | None \<Rightarrow> fst (ev rb obj tv) \<or> (\<exists>a\<in>set args. fst (ev rb a tv))), tv)"
    by (cases ?f) (auto simp: or_else_ev dead_push prod_eq_iff cb_quiet)
  show ?thesis
    unfolding is_call_expr_tainted_def call_verdict_def MemberExpression
    by (simp only: Let_def node.case) (auto simp: or_else_ev rest)
qed (auto simp: is_call_expr_tainted_def call_verdict_def some_ev yes_if_def)

lemma call_verdict_mono:
  assumes "set tv \<subseteq> set tv'" "call_verdict colls rb callee args tv"
  shows "call_verdict colls rb callee args tv'"
  using assms(2) ev_mono[OF assms(1)] cb_mono[OF assms(1)] assms(1)
  by (auto simp: call_verdict_def split: node.splits option.splits if_splits) blast+

lemma property_mono:
  "set tv \<subseteq> set tv' \<Longrightarrow> fst (property_tainted ev rb e tv) \<Longrightarrow> fst (property_tainted ev rb e tv')"
  by (cases e) (auto simp: or_else_ev yes_if_def dest: ev_mono split: if_splits)

lemma expression_quiet: "snd (expression_tainted fc colls ev cb rb n tv) = tv"
  by (cases n) (simp_all add: member_eq call_eq ev_quiet cb_quiet or_else_ev some_ev some_property some_element
      yes_if_def split: option.split)

lemma expression_mono:
  assumes "set tv \<subseteq> set tv'" "fst (expression_tainted fc colls ev cb rb n tv)"
  shows "fst (expression_tainted fc colls ev cb rb n tv')"
  using assms(2) ev_mono[OF assms(1)] cb_mono[OF assms(1)] call_verdict_mono[OF assms(1)] property_mono[OF assms(1)] assms(1)
  by (cases n) (auto simp: member_eq call_eq or_else_ev some_ev some_property some_element yes_if_def
      split: option.splits if_splits, blast+)

lemma callback_quiet: "snd (callback_tainted walk ev cb rb f m tv) = tv"
  by (simp add: callback_tainted_def Let_def split: prod.split)

lemma callback_mono:
  assumes "set tv \<subseteq> set tv'" "fst (callback_tainted walk ev cb rb f m tv)"
  shows "fst (callback_tainted walk ev cb rb f m tv')"
  using assms(2) ev_mono[OF assms(1)] ev_mono[OF propagate_mono[OF assms(1)]]
  by (fastforce simp: callback_tainted_def Let_def fst_results split: prod.splits if_splits)

lemma next_evaluator: "taint_evaluator (expression_tainted fc colls ev cb) (callback_tainted walk ev cb)"
  using expression_quiet expression_mono callback_quiet callback_mono
  by unfold_locales blast+

end

lemma analyzer_evaluator:
  "taint_evaluator (is_expression_tainted walk fc colls k) (does_callback_produce_taint walk fc colls k)"
proof (induction k)
  case 0
  show ?case by unfold_locales (simp_all add: is_expression_tainted.simps does_callback_produce_taint.simps)
next
  case (Suc k)
  then show ?case by (simp add: evaluator_Suc taint_evaluator.next_evaluator)
qed

interpretation te: taint_evaluator "is_expression_tainted walk fc colls k" "does_callback_produce_taint walk fc colls k"
  for walk fc colls k
  by (rule analyzer_evaluator)

section \<open>Fuel\<close>

text \<open>The tree walker visits nodes of the tree it is given, so none is larger than that tree.\<close>

definition walks_within :: "walker \<Rightarrow> bool" where
  "walks_within walk \<longleftrightarrow> (\<forall>n m. m \<in> set (walk n) \<longrightarrow> size m \<le> size n)"

definition agree_below :: "nat \<Rightarrow> (node \<Rightarrow> 'a) \<Rightarrow> (node \<Rightarrow> 'a) \<Rightarrow> bool" where
  "agree_below N e e' \<longleftrightarrow> (\<forall>m. size m < N \<longrightarrow> e m = e' m)"

lemma agree_belowD: "agree_below N e e' \<Longrightarrow> size m < N \<Longrightarrow> e m = e' m"
  by (simp add: agree_below_def)

lemma size_in_list: "x \<in> set xs \<Longrightarrow> size x < Suc (size_list size xs)"
  using size_list_estimation'[of x xs "size x" size] by simp

lemma size_in_option_list:
  assumes "Some x \<in> set xs" shows "size x < Suc (size_list (size_option size) xs)"
  using size_list_estimation'[OF assms, of "size x" "size_option size"] by simp

lemma some_tainted_cong: "(\<And>x. x \<in> set xs \<Longrightarrow> f x = g x) \<Longrightarrow> some_tainted f xs = some_tainted g xs"
  by (induction xs) auto

lemma callback_of_size:
  "callback_of args = Some (a, ps, b) \<Longrightarrow> size b < Suc (size_list size args)"
  by (cases args rule: callback_of.cases) auto

lemma some_tainted_agree:
  "agree_below N (ev rb) (ev' rb) \<Longrightarrow> Suc (size_list size args) \<le> N \<Longrightarrow> some_tainted (ev rb) args = some_tainted (ev' rb) args"
  by (rule some_tainted_cong) (auto dest!: size_in_list intro: agree_belowD)

lemma mark_push_agree:
  "agree_below N (ev rb) (ev' rb) \<Longrightarrow> Suc (size_list size args) \<le> N \<Longrightarrow>
     mark_push ev rb obj m args = mark_push ev' rb obj m args"
  by (rule ext) (auto simp: mark_push_def some_tainted_agree[of N ev rb ev' args] split: node.split)

lemma call_agree:
  assumes "agree_below (size (CallExpression callee args)) (ev rb) (ev' rb)"
    and "\<And>a ps b m. size b < size (CallExpression callee args) \<Longrightarrow> cb rb (a, ps, b) m = cb' rb (a, ps, b) m"
  shows "is_call_expr_tainted colls ev cb rb callee args = is_call_expr_tainted colls ev' cb' rb callee args"
proof -
  have args: "some_tainted (ev rb) args = some_tainted (ev' rb) args"
    "\<And>obj m. mark_push ev rb obj m args = mark_push ev' rb obj m args"
    using assms(1) by (auto intro: some_tainted_agree mark_push_agree)
  show ?thesis
  proof (cases callee)
    case (MemberExpression obj p c)
    have "ev rb obj = ev' rb obj" using assms(1) by (rule agree_belowD) (simp add: MemberExpression)
    moreover have "cb rb f m = cb' rb f m" if "callback_of args = Some f" for f m
      using that assms(2) by (cases f) (auto dest!: callback_of_size)
    ultimately show ?thesis
      by (auto simp: is_call_expr_tainted_def MemberExpression args Let_def split: option.split)
  qed (auto simp: is_call_expr_tainted_def args fun_eq_iff)
qed

lemma property_agree:
  assumes "agree_below N (ev rb) (ev' rb)" "size p \<le> N"
  shows "property_tainted ev rb p = property_tainted ev' rb p"
  using assms agree_belowD[OF assms(1)] by (cases p) auto

lemma expression_agree:
  assumes ev: "agree_below (size n) (ev rb) (ev' rb)"
    and cb: "\<And>a ps b m. size b < size n \<Longrightarrow> cb rb (a, ps, b) m = cb' rb (a, ps, b) m"
  shows "expression_tainted fc colls ev cb rb n = expression_tainted fc colls ev' cb' rb n"
proof (cases n)
  case (MemberExpression obj p c)
  then show ?thesis using agree_belowD[OF ev] by (simp add: is_member_expr_tainted_def)
next
  case (CallExpression callee args)
  then show ?thesis using ev cb call_agree[of callee args ev rb ev' cb cb'] by simp
next
  case (ObjectExpression ps)
  then show ?thesis using ev
    by (auto intro!: some_tainted_cong property_agree[of "size n"] dest!: size_in_list)
next
  case (ArrayExpression es)
  then show ?thesis using agree_belowD[OF ev]
    by (auto intro!: some_tainted_cong dest!: size_in_option_list split: option.split)
next
  case (TemplateLiteral es)
  then show ?thesis using ev by (auto intro!: some_tainted_agree)
qed (use agree_belowD[OF ev] cb in \<open>auto split: option.split\<close>)

lemma visit_taint_agree:
  assumes ev: "agree_below (size n) (ev rb) (ev' rb)"
    and cb: "\<And>a ps b m. size b < size n \<Longrightarrow> cb rb (a, ps, b) m = cb' rb (a, ps, b) m"
  shows "visit_taint ev cb rb n = visit_taint ev' cb' rb n"
proof (rule ext, cases n)
  fix tv
  {
    case (CallExpression callee args)
    then show "visit_taint ev cb rb n tv = visit_taint ev' cb' rb n tv"
      using ev mark_push_agree[of "size n" ev rb ev' args] by (auto split: node.split)
  }
qed (use agree_belowD[OF ev] cb in \<open>auto split: option.split node.split\<close>)

lemma propagate_passes_agree:
  "(\<And>n. n \<in> set ns \<Longrightarrow> visit_taint ev cb rb n = visit_taint ev' cb' rb n) \<Longrightarrow>
     propagate_passes ev cb rb ns k tv = propagate_passes ev' cb' rb ns k tv"
proof (induction k arbitrary: tv)
  case (Suc k)
  have "fold (visit_taint ev cb rb) ns tv = fold (visit_taint ev' cb' rb) ns tv"
    using Suc.prems by (intro fold_cong) auto
  with Suc show ?case by (simp add: Let_def)
qed simp

lemma visit_result_agree:
  assumes "agree_below (size n) (ev rb) (ev' rb)"
  shows "visit_result ev rb n = visit_result ev' rb n"
  using agree_belowD[OF assms] by (cases n) (auto simp: visit_result_def fun_eq_iff split: option.split)

lemma callback_agree:
  assumes walk: "walks_within walk"
    and ev: "\<And>rb. agree_below (Suc (size body)) (ev rb) (ev' rb)"
    and cb: "\<And>rb a ps b m. size b < size body \<Longrightarrow> cb rb (a, ps, b) m = cb' rb (a, ps, b) m"
  shows "callback_tainted walk ev cb rb (a, ps, body) m tv = callback_tainted walk ev' cb' rb (a, ps, body) m tv"
proof -
  have small: "agree_below (size n) (ev rb) (ev' rb)" "size n \<le> size body" if "n \<in> set (walk body)" for n rb
    using walk ev[of rb] that by (auto simp: walks_within_def agree_below_def)
      (metis le_imp_less_Suc less_imp_le_nat less_le_trans)
  have "propagate_taint walk ev cb body rb tv = propagate_taint walk ev' cb' body rb tv" for rb tv
    unfolding propagate_taint_def
    by (rule propagate_passes_agree, rule visit_taint_agree) (auto intro!: small(1) cb dest: small(2))
  moreover have "fold (visit_result ev rb) (walk body) st = fold (visit_result ev' rb) (walk body) st" for rb st
    using small by (intro fold_cong) (auto intro: visit_result_agree)
  moreover have "ev rb body = ev' rb body" for rb using ev[of rb] by (auto intro: agree_belowD)
  ultimately show ?thesis by (simp add: callback_tainted_def Let_def del: add_param.simps)
qed

lemma taint_fuel_step:
  assumes walk: "walks_within walk"
  shows "(\<forall>rb n. 2 * size n < k \<longrightarrow>
            is_expression_tainted walk fc colls (Suc k) rb n = is_expression_tainted walk fc colls k rb n) \<and>
         (\<forall>rb a ps b m. 2 * size b + 1 < k \<longrightarrow>
            does_callback_produce_taint walk fc colls (Suc k) rb (a, ps, b) m =
            does_callback_produce_taint walk fc colls k rb (a, ps, b) m)"
proof (induction k)
  case (Suc k)
  let ?E = "is_expression_tainted walk fc colls" and ?C = "does_callback_produce_taint walk fc colls"
  have E: "?E (Suc k) rb n = ?E k rb n" if "2 * size n < k" for rb n
    using Suc.IH that by blast
  have C: "?C (Suc k) rb (a, ps, b) m = ?C k rb (a, ps, b) m" if "2 * size b + 1 < k" for rb a ps b m
    using Suc.IH that by blast
  have "expression_tainted fc colls (?E (Suc k)) (?C (Suc k)) rb n = expression_tainted fc colls (?E k) (?C k) rb n"
    if "2 * size n < Suc k" for rb n
    by (rule expression_agree) (use that in \<open>auto simp: agree_below_def intro!: E C\<close>)
  moreover have "callback_tainted walk (?E (Suc k)) (?C (Suc k)) rb (a, ps, b) m tv =
      callback_tainted walk (?E k) (?C k) rb (a, ps, b) m tv"
    if "2 * size b + 1 < Suc k" for rb a ps b m tv
    by (rule callback_agree[OF walk]) (use that in \<open>auto simp: agree_below_def intro!: E C\<close>)
  ultimately show ?case
    by (simp add: evaluator_Suc[of walk fc colls "Suc k"] evaluator_Suc[of walk fc colls k] fun_eq_iff)
qed simp


lemma taint_fuel_more:
  assumes "walks_within walk" "2 * size n < k"
  shows "is_expression_tainted walk fc colls (k + j) rb n = is_expression_tainted walk fc colls k rb n"
  using assms taint_fuel_step[OF assms(1)] by (induction j) auto

lemma callback_fuel_more:
  assumes "walks_within walk" "2 * size b + 1 < k"
  shows "does_callback_produce_taint walk fc colls (k + j) rb (a, ps, b) m =
         does_callback_produce_taint walk fc colls k rb (a, ps, b) m"
  using assms taint_fuel_step[OF assms(1)] by (induction j) auto

section \<open>What the analysis decides\<close>

text \<open>The verdicts on expressions and function bodies of a program, for a set of tainted variables,
  and the sets that the propagation rules do not enlarge.\<close>

definition expr_verdict :: "walker \<Rightarrow> field_classes \<Rightarrow> node \<Rightarrow> names \<Rightarrow> node \<Rightarrow> bool" where
  "expr_verdict walk fc ast T e =
     (case identify_record_bound_vars walk ast of (colls, rb) \<Rightarrow>
        fst (is_expression_tainted walk fc colls (taint_fuel ast) rb e T))"

definition fn_verdict :: "walker \<Rightarrow> field_classes \<Rightarrow> node \<Rightarrow> names \<Rightarrow> callback \<Rightarrow> bool" where
  "fn_verdict walk fc ast T f =
     (case identify_record_bound_vars walk ast of (colls, rb) \<Rightarrow>
        fst (does_callback_produce_taint walk fc colls (taint_fuel ast) rb f None T))"

definition flow_closed :: "walker \<Rightarrow> field_classes \<Rightarrow> node \<Rightarrow> names \<Rightarrow> bool" where
  "flow_closed walk fc ast T \<longleftrightarrow>
     (\<forall>n\<in>set (walk ast). \<forall>x. flows_to (expr_verdict walk fc ast T) (fn_verdict walk fc ast T) n x \<longrightarrow> x \<in> set T)"

lemma tainted_vars_least:
  assumes "flow_closed walk fc ast T"
  shows "set (tainted_vars walk fc ast) \<subseteq> set T"
proof -
  obtain colls rb where id: "identify_record_bound_vars walk ast = (colls, rb)" by fastforce
  have "closed_under (is_expression_tainted walk fc colls (taint_fuel ast))
      (does_callback_produce_taint walk fc colls (taint_fuel ast)) rb (walk ast) T"
    using assms by (simp add: flow_closed_def closed_under_def expr_verdict_def[abs_def] fn_verdict_def[abs_def] id)
  then show ?thesis unfolding tainted_vars_def id by (simp add: te.propagate_below_closed)
qed

lemma expr_verdict_mono: "set S \<subseteq> set T \<Longrightarrow> expr_verdict walk fc ast S e \<Longrightarrow> expr_verdict walk fc ast T e"
  unfolding expr_verdict_def by (auto intro: te.ev_mono split: prod.splits)

context taint_evaluator
begin

lemma visit_return_fold:
  "(fst (fold (visit_return ev rb) ns (vi, tv)) = None) \<longleftrightarrow>
     vi = None \<and> (\<forall>e l. ReturnStatement (Some e) l \<in> set ns \<longrightarrow> \<not> fst (ev rb e tv))"
proof (induction ns arbitrary: vi)
  case (Cons n ns)
  have "snd (visit_return ev rb n (vi, tv)) = tv" for vi
    by (cases n) (auto simp: ev_quiet split: option.splits prod.splits, (metis ev_quiet snd_conv)+)
  moreover have "(fst (visit_return ev rb n (vi, tv)) = None) \<longleftrightarrow>
      vi = None \<and> (\<forall>e l. n = ReturnStatement (Some e) l \<longrightarrow> \<not> fst (ev rb e tv))" for vi
    by (cases n) (auto split: option.splits prod.splits)
  ultimately obtain w where "visit_return ev rb n (vi, tv) = (w, tv)"
    and "w = None \<longleftrightarrow> vi = None \<and> (\<forall>e l. n = ReturnStatement (Some e) l \<longrightarrow> \<not> fst (ev rb e tv))"
    by (metis prod.collapse)
  then show ?case using Cons.IH[of w] by auto
qed simp

end

lemma return_check_clean:
  "(check_return_statements walk (is_expression_tainted walk fc (fst (identify_record_bound_vars walk ast)) (taint_fuel ast))
      ast (snd (identify_record_bound_vars walk ast)) T = None) \<longleftrightarrow>
   (\<forall>e l. ReturnStatement (Some e) l \<in> set (walk ast) \<longrightarrow> \<not> expr_verdict walk fc ast T e)"
  by (simp add: check_return_statements_def te.visit_return_fold expr_verdict_def case_prod_beta)

lemma analyze_ast_plain:
  "analyze_ast walk fc ast None thr = None \<longleftrightarrow>
     (\<forall>e l. ReturnStatement (Some e) l \<in> set (walk ast) \<longrightarrow> \<not> expr_verdict walk fc ast (tainted_vars walk fc ast) e)"
  unfolding analyze_ast_def case_prod_beta return_check_clean[symmetric] by (simp split: option.split)

lemma expr_verdict_least:
  assumes "flow_closed walk fc ast (tainted_vars walk fc ast)"
  shows "expr_verdict walk fc ast (tainted_vars walk fc ast) e \<longleftrightarrow>
     (\<forall>T. flow_closed walk fc ast T \<longrightarrow> expr_verdict walk fc ast T e)"
  using assms by (blast intro: expr_verdict_mono dest: tainted_vars_least)

text \<open>A pass that adds nothing has reached a closed set; the third one need not.\<close>

definition passes :: "walker \<Rightarrow> field_classes \<Rightarrow> node \<Rightarrow> nat \<Rightarrow> names" where
  "passes walk fc ast k =
     (case identify_record_bound_vars walk ast of (colls, rb) \<Rightarrow>
        propagate_passes (is_expression_tainted walk fc colls (taint_fuel ast))
          (does_callback_produce_taint walk fc colls (taint_fuel ast)) rb (walk ast) k [])"

context taint_evaluator
begin

lemma settled_closed:
  assumes "set (fold (visit_taint ev cb rb) ns T) = set T"
  shows "closed_under ev cb rb ns T"
  using assms
proof (induction ns)
  case (Cons n ns)
  have "set T \<subseteq> set (visit_taint ev cb rb n T)" using visit_taint_append[of rb n T] by auto
  moreover have "set (visit_taint ev cb rb n T) \<subseteq> set (fold (visit_taint ev cb rb) ns (visit_taint ev cb rb n T))"
    by (rule pass_grows)
  ultimately have same: "set (visit_taint ev cb rb n T) = set T" using Cons.prems by auto
  have "set (fold (visit_taint ev cb rb) ns T) = set T"
    using pass_mono[of T "visit_taint ev cb rb n T" rb ns] pass_grows[of T rb ns] Cons.prems same by auto
  then have "closed_under ev cb rb ns T" by (rule Cons.IH)
  with same show ?case by (auto simp: closed_under_def visit_taint_set)
qed (simp add: closed_under_def)

end

lemma settled_flow_closed:
  assumes "length (passes walk fc ast 4) = length (passes walk fc ast 3)"
  shows "flow_closed walk fc ast (tainted_vars walk fc ast)"
proof -
  obtain colls rb where id: "identify_record_bound_vars walk ast = (colls, rb)" by fastforce
  let ?E = "is_expression_tainted walk fc colls (taint_fuel ast)"
    and ?C = "does_callback_produce_taint walk fc colls (taint_fuel ast)"
  let ?F = "fold (visit_taint ?E ?C rb) (walk ast)" and ?T = "tainted_vars walk fc ast"
  have T: "?T = passes walk fc ast 3" and p: "passes walk fc ast k = (?F ^^ k) []" for k
    by (simp_all add: tainted_vars_def passes_def propagate_taint_def id te.propagate_passes_eq)
  have "?F ?T = passes walk fc ast 4" unfolding T p by (simp add: eval_nat_numeral)
  moreover obtain ys where "?F ?T = ?T @ ys" using te.pass_append by blast
  ultimately have "set (?F ?T) = set ?T" using assms T by simp
  then have "closed_under ?E ?C rb (walk ast) ?T" by (rule te.settled_closed)
  then show ?thesis
    by (simp add: flow_closed_def closed_under_def expr_verdict_def[abs_def] fn_verdict_def[abs_def] id)
qed

section \<open>The gates for small data sets\<close>

lemma count_field_get: "map_of (count_field f m) g = (if g = f then Some (case map_of m f of None \<Rightarrow> 1 | Some k \<Rightarrow> k + 1) else map_of m g)"
  by (auto simp: count_field_def liop_simps split: option.split)

definition seen :: "(string, nat) js_map \<Rightarrow> string \<Rightarrow> nat" where
  "seen m f = (case map_of m f of None \<Rightarrow> 0 | Some k \<Rightarrow> k)"

lemma seen_fold_count: "seen (fold count_field fs m) f = seen m f + count_list fs f"
  by (induction fs arbitrary: m) (auto simp: seen_def count_field_get split: option.split)

lemma seen_agg: "seen (fold (\<lambda>n m. fold count_field (aggregated_fields walk n) m) ns m) f =
    seen m f + count_list (concat (map (aggregated_fields walk) ns)) f"
  by (induction ns arbitrary: m) (simp_all add: seen_fold_count)

lemma distinct_count_field: "distinct (map fst m) \<Longrightarrow> distinct (map fst (count_field f m))"
  by (simp add: count_field_def distinct_update)

lemma distinct_field_agg_counts: "distinct (map fst (field_agg_counts walk ast))"
proof -
  have "distinct (map fst m) \<Longrightarrow> distinct (map fst (fold count_field fs m))" for fs m
    by (induction fs arbitrary: m) (auto simp: distinct_count_field)
  then have "distinct (map fst m) \<Longrightarrow> distinct (map fst (fold (\<lambda>n m. fold count_field (aggregated_fields walk n) m) ns m))" for ns m
    by (induction ns arbitrary: m) auto
  then show ?thesis by (simp add: field_agg_counts_def)
qed

lemma correlation_none_iff:
  "detect_correlated_aggregations walk ast = None \<longleftrightarrow> distinct (concat (map (aggregated_fields walk) (walk ast)))"
proof -
  let ?m = "field_agg_counts walk ast" and ?fs = "concat (map (aggregated_fields walk) (walk ast))"
  have seen: "seen ?m f = count_list ?fs f" for f
    using seen_agg[of walk "walk ast" "[]" f] by (simp add: field_agg_counts_def seen_def)
  have "detect_correlated_aggregations walk ast = None \<longleftrightarrow> (\<forall>f k. (f, k) \<in> set ?m \<longrightarrow> k < 2)"
    by (auto simp: detect_correlated_aggregations_def find_None_iff not_le)
  also have "\<dots> \<longleftrightarrow> (\<forall>f. seen ?m f < 2)"
    using distinct_field_agg_counts[of walk ast]
    by (auto simp: seen_def map_of_eq_Some_iff split: option.splits)
  also have "\<dots> \<longleftrightarrow> distinct ?fs"
    unfolding seen distinct_count_atmost_1 by (auto simp: count_mset[symmetric] less_2_cases_iff)
  finally show ?thesis .
qed

lemma min_max_none_iff:
  "detect_min_max_extraction walk colls ast = None \<longleftrightarrow> (\<forall>n\<in>set (walk ast). visit_extremum colls n = None)"
proof -
  have "fold (\<lambda>n vi. case vi of Some _ \<Rightarrow> vi | None \<Rightarrow> visit_extremum colls n) ns v = None \<longleftrightarrow>
      v = None \<and> (\<forall>n\<in>set ns. visit_extremum colls n = None)" for ns v
    by (induction ns arbitrary: v) (auto split: option.splits)
  then show ?thesis by (simp add: detect_min_max_extraction_def)
qed

section \<open>Properties\<close>

text \<open>A walker for the examples: all nodes of a tree, children first.\<close>

fun children :: "node \<Rightarrow> node list" where
  "children (MemberExpression a b c) = [a, b]"
| "children (CallExpression f args) = f # args"
| "children (YieldExpression a) = (case a of None \<Rightarrow> [] | Some e \<Rightarrow> [e])"
| "children (FunctionExpression ps b) = [b]"
| "children (ArrowFunctionExpression ps b) = [b]"
| "children (FunctionDeclaration i ps b) = [b]"
| "children (BinaryExpression a b) = [a, b]"
| "children (LogicalExpression a b) = [a, b]"
| "children (UnaryExpression a) = [a]"
| "children (ConditionalExpression a b c) = [a, b, c]"
| "children (ObjectExpression ps) = ps"
| "children (Property k v c) = [v]"
| "children (ArrayExpression es) = List.map_filter id es"
| "children (TemplateLiteral es) = es"
| "children (SpreadElement e) = [e]"
| "children (BlockStatement ss) = ss"
| "children (VariableDeclaration ds) = ds"
| "children (VariableDeclarator i a) = (case a of None \<Rightarrow> [] | Some e \<Rightarrow> [e])"
| "children (AssignmentExpression a b) = [a, b]"
| "children (ForOfStatement a b c) = [a, b, c]"
| "children (ReturnStatement a l) = (case a of None \<Rightarrow> [] | Some e \<Rightarrow> [e])"
| "children (Other_Node t ns) = ns"
| "children _ = []"

lemma children_size: "m \<in> set (children n) \<Longrightarrow> size m < size n"
  by (cases n) (auto dest: size_in_list size_in_option_list simp: List.map_filter_def split: option.splits)

function subtrees :: walker where
  "subtrees n = concat (map subtrees (children n)) @ [n]"
  by auto

termination
  by (relation "measure size") (auto intro: children_size)

declare subtrees.simps [simp del]

lemma subtrees_within: "walks_within subtrees"
proof -
  have "m \<in> set (subtrees n) \<Longrightarrow> size m \<le> size n" for m n
  proof (induction n rule: subtrees.induct)
    case (1 n)
    then consider "m = n" | c where "c \<in> set (children n)" "m \<in> set (subtrees c)"
      by (auto simp: subtrees.simps[of n])
    then show ?case using 1 children_size by cases force+
  qed
  then show ?thesis by (simp add: walks_within_def)
qed

text \<open>
  C37. The taint verdicts do not depend on the fuel: any amount from \<open>taint_fuel\<close> on gives the verdict
  on every expression and on every function body inside the program, so the mutual recursion of
  \<open>isExpressionTainted\<close>, \<open>doesCallbackProduceTaint\<close> and \<open>propagateTaint\<close> returns.
\<close>

theorem taint_fuel_enough:
  assumes "walks_within walk" "taint_fuel ast \<le> k" "size n \<le> size ast" "size b < size ast"
  shows "is_expression_tainted walk fc colls k rb n = is_expression_tainted walk fc colls (taint_fuel ast) rb n \<and>
      does_callback_produce_taint walk fc colls k rb (a, ps, b) m =
      does_callback_produce_taint walk fc colls (taint_fuel ast) rb (a, ps, b) m"
proof -
  obtain j where k: "k = taint_fuel ast + j" using assms(2) le_Suc_ex by blast
  have "2 * size n < taint_fuel ast" "2 * size b + 1 < taint_fuel ast"
    using assms(3,4) by (simp_all add: taint_fuel_def)
  then show ?thesis unfolding k using assms(1) by (simp add: taint_fuel_more callback_fuel_more)
qed

theorem taint_fuel_enough_witness:
  "walks_within subtrees \<and> taint_fuel (UnaryExpression (Identifier ''x'')) \<le> 99 \<and>
   is_expression_tainted subtrees (field_classes_new [''ssn''] []) [] 99 [] (Identifier ''x'') =
   is_expression_tainted subtrees (field_classes_new [''ssn''] []) [] (taint_fuel (UnaryExpression (Identifier ''x''))) []
     (Identifier ''x'')"
  using taint_fuel_enough[OF subtrees_within, of "UnaryExpression (Identifier ''x'')" 99 "Identifier ''x''"
      "Identifier ''x''" "field_classes_new [''ssn''] []" "[]" "[]" True "[]" None]
  by (simp add: subtrees_within taint_fuel_def)

text \<open>
  C26. When the three passes have settled, the analysis is exact for its own rules: without a record
  count it accepts a program if and only if no visited return statement has an argument that is
  tainted under every set of variables closed under the propagation rules. A program that does not
  parse is accepted.
\<close>

theorem taint_analysis_exact:
  assumes "length (passes walk fc ast 4) = length (passes walk fc ast 3)"
    and "parse (wrapped ''liop_analysis_wrapper'' source) = Some ast"
  shows "analyze parse walk fc source None thr = None \<longleftrightarrow>
     \<not> (\<exists>e l. ReturnStatement (Some e) l \<in> set (walk ast) \<and>
          (\<forall>T. flow_closed walk fc ast T \<longrightarrow> expr_verdict walk fc ast T e))"
  unfolding analyze_def assms(2) option.case analyze_ast_plain
    expr_verdict_least[OF settled_flow_closed[OF assms(1)]] by blast

text \<open>
  On a data set of \<open>n\<close> records with \<open>0 < n < thr\<close> the analysis accepts exactly the programs that pass
  the return check, reduce each field of \<open>env.records\<close> at most once, and take no minimum or
  maximum of individual records.
\<close>

theorem small_dataset_gates:
  assumes "0 < n" "n < thr"
  shows "analyze_ast walk fc ast (Some n) thr = None \<longleftrightarrow>
     analyze_ast walk fc ast None thr = None \<and>
     distinct (concat (map (aggregated_fields walk) (walk ast))) \<and>
     (\<forall>m\<in>set (walk ast). visit_extremum (identify_record_collections walk ast) m = None)"
proof -
  obtain colls rb where id: "identify_record_bound_vars walk ast = (colls, rb)"
    and colls: "identify_record_collections walk ast = colls"
    by (simp add: identify_record_bound_vars_def Let_def)
  show ?thesis
    unfolding analyze_ast_def id colls correlation_none_iff[symmetric] min_max_none_iff[symmetric]
    using assms by (auto split: option.splits)
qed

definition wrapper :: "node list \<Rightarrow> node" where
  "wrapper body = Other_Node ''Program''
     [FunctionDeclaration (Some (Identifier ''liop_analysis_wrapper'')) [Identifier ''env''] (BlockStatement body)]"

definition env_records :: node where
  "env_records = MemberExpression (Identifier ''env'') (Identifier ''records'') False"

definition dot :: "node \<Rightarrow> string \<Rightarrow> node" where
  "dot e f = MemberExpression e (Identifier f) False"

definition ret :: "node \<Rightarrow> node" where
  "ret e = ReturnStatement (Some e) None"

definition first_ssn :: node where
  "first_ssn = dot (MemberExpression env_records (Literal Other_Lit) True) ''ssn''"

text \<open>\<open>return [env.records[0].ssn]\<close>, its variant with a sequence expression, \<open>map(r => r?.ssn)\<close>,
  \<open>map(({ssn}) => ssn)\<close>, and a loop that hands a value from variable to variable.\<close>

definition plain_leak :: node where
  "plain_leak = wrapper [ret (ArrayExpression [Some first_ssn])]"

definition sequence_leak :: node where
  "sequence_leak = wrapper [ret (Other_Node ''SequenceExpression'' [Literal Other_Lit, first_ssn])]"

definition optional_leak :: node where
  "optional_leak = wrapper [ret (CallExpression (dot env_records ''map'')
     [ArrowFunctionExpression [Identifier ''r''] (Other_Node ''ChainExpression'' [dot (Identifier ''r'') ''ssn''])])]"

definition pattern_leak :: node where
  "pattern_leak = wrapper [ret (CallExpression (dot env_records ''map'')
     [ArrowFunctionExpression [Other_Node ''ObjectPattern'' [Identifier ''ssn'']] (Identifier ''ssn'')])]"

definition assign :: "string \<Rightarrow> node \<Rightarrow> node" where
  "assign x e = Other_Node ''ExpressionStatement'' [AssignmentExpression (Identifier x) e]"

definition rotation_leak :: node where
  "rotation_leak = wrapper
     [ForOfStatement (VariableDeclaration [VariableDeclarator (Identifier ''r'') None]) env_records
        (BlockStatement
           [assign ''d'' (Identifier ''c''), assign ''c'' (Identifier ''b''), assign ''b'' (Identifier ''a''),
            assign ''a'' (dot (Identifier ''r'') ''ssn'')]),
      ret (Identifier ''d'')]"

text \<open>
  Five programs that output the restricted field \<open>ssn\<close> of a record. The analysis rejects the plain
  one and accepts the other four: a sequence expression and an optional chain are node types it
  treats as clean, a destructured callback parameter is not record-bound, and a value that moves
  through four variables against the order of the statements needs a fourth pass.
\<close>

theorem taint_escapes:
  "analyze_ast subtrees (field_classes_new [''ssn''] []) plain_leak None 50 \<noteq> None \<and>
   analyze_ast subtrees (field_classes_new [''ssn''] []) sequence_leak None 50 = None \<and>
   analyze_ast subtrees (field_classes_new [''ssn''] []) optional_leak None 50 = None \<and>
   analyze_ast subtrees (field_classes_new [''ssn''] []) pattern_leak None 50 = None \<and>
   analyze_ast subtrees (field_classes_new [''ssn''] []) rotation_leak None 50 = None"
  by code_simp

theorem taint_analysis_exact_witness:
  "analyze (\<lambda>_. Some plain_leak) subtrees (field_classes_new [''ssn''] []) ''...'' None 50 = None \<longleftrightarrow>
     \<not> (\<exists>e l. ReturnStatement (Some e) l \<in> set (subtrees plain_leak) \<and>
          (\<forall>T. flow_closed subtrees (field_classes_new [''ssn''] []) plain_leak T \<longrightarrow>
             expr_verdict subtrees (field_classes_new [''ssn''] []) plain_leak T e))"
proof (rule taint_analysis_exact)
  show "length (passes subtrees (field_classes_new [''ssn''] []) plain_leak 4) =
      length (passes subtrees (field_classes_new [''ssn''] []) plain_leak 3)"
    by code_simp
qed simp

definition balance_sum :: node where
  "balance_sum = CallExpression (dot env_records ''reduce'')
     [ArrowFunctionExpression [Identifier ''s'', Identifier ''r'']
        (BinaryExpression (Identifier ''s'') (dot (Identifier ''r'') ''balance'')), Literal Other_Lit]"

theorem small_dataset_gates_witness:
  "analyze_ast subtrees (field_classes_new [''ssn''] [])
     (wrapper [ret (ArrayExpression [Some balance_sum]), ret (UnaryExpression balance_sum)]) (Some 10) 50 = None \<longleftrightarrow>
   analyze_ast subtrees (field_classes_new [''ssn''] [])
     (wrapper [ret (ArrayExpression [Some balance_sum]), ret (UnaryExpression balance_sum)]) None 50 = None \<and>
   distinct (concat (map (aggregated_fields subtrees)
     (subtrees (wrapper [ret (ArrayExpression [Some balance_sum]), ret (UnaryExpression balance_sum)])))) \<and>
   (\<forall>m\<in>set (subtrees (wrapper [ret (ArrayExpression [Some balance_sum]), ret (UnaryExpression balance_sum)])).
      visit_extremum (identify_record_collections subtrees
        (wrapper [ret (ArrayExpression [Some balance_sum]), ret (UnaryExpression balance_sum)])) m = None)"
  by (rule small_dataset_gates) simp_all

end
