(* ===== verification/Sandbox.thy ===== *)
theory Sandbox
  imports Taint_Analyzer
begin

text \<open>
  \<open>sandbox/guardian.ts\<close>, \<open>security/guardian.ts\<close> and \<open>sandbox/wasi.ts\<close>: the import check of
  WebAssembly modules, the environment variables a guest sees, the fuel of a program, and the two
  execution paths of \<open>WasiSandbox\<close>.

  A compiled module is the list of its imports. The engine is a parameter: compilation, the run of a
  module (what it printed and how long it took) and the run of a script in a context. What the host
  hands to a script is a \<open>sval\<close>, which unlike \<open>jval\<close> says whose prototype an array or object
  has and whether it is frozen.
\<close>

section \<open>Import checks\<close>

record wasm_import =
  wi_module :: string
  wi_name :: string

type_synonym wasm_module = "wasm_import list"

datatype guardian_error =
  Banned_Wasi_Import string string
| Banned_Host_Module string
| Import_Limit_Exceeded

definition WASI_PREVIEW1 :: string where
  "WASI_PREVIEW1 = ''wasi_snapshot_preview1''"

definition allowed_wasi_functions :: "string list" where
  "allowed_wasi_functions =
     [''fd_write'', ''fd_read'', ''fd_close'', ''fd_seek'', ''environ_get'', ''environ_sizes_get'',
      ''args_get'', ''args_sizes_get'', ''clock_time_get'', ''random_get'', ''proc_exit'',
      ''fd_prestat_get'', ''fd_prestat_dir_name'', ''fd_fdstat_get'']"

definition import_limit :: nat where
  "import_limit = 128"

fun scan_imports :: "nat \<Rightarrow> wasm_module \<Rightarrow> guardian_error + unit" where
  "scan_imports importCount [] = Inr ()"
| "scan_imports importCount (i # is) =
     ebind (guard (wi_module i = WASI_PREVIEW1) (Banned_Host_Module (wi_module i))) (\<lambda>_.
     ebind (guard (wi_name i \<in> set allowed_wasi_functions) (Banned_Wasi_Import (wi_module i) (wi_name i))) (\<lambda>_.
     ebind (guard (\<not> Suc importCount > import_limit) Import_Limit_Exceeded) (\<lambda>_.
     scan_imports (Suc importCount) is)))"

definition guardian_analyze :: "wasm_module \<Rightarrow> guardian_error + unit" where
  "guardian_analyze m = scan_imports 0 m"

text \<open>\<open>GuardianTS.analyzeAst\<close>, the older check: it looks at the module names only.\<close>

datatype guardian_violation = Structurally_Invalid | Banned_Host_Import string string

fun first_foreign :: "wasm_module \<Rightarrow> wasm_import option" where
  "first_foreign [] = None"
| "first_foreign (i # is) =
     (if wi_module i \<noteq> WASI_PREVIEW1 \<and> wi_module i \<noteq> ''LIOP'' then Some i else first_foreign is)"

definition guardian_analyze_ast :: "(bytes \<Rightarrow> wasm_module option) \<Rightarrow> bytes \<Rightarrow> guardian_violation + wasm_module" where
  "guardian_analyze_ast compile wasmBytes =
     (case compile wasmBytes of
        None \<Rightarrow> Inl Structurally_Invalid
      | Some m \<Rightarrow>
          (case first_foreign m of
             Some i \<Rightarrow> Inl (Banned_Host_Import (wi_module i) (wi_name i))
           | None \<Rightarrow> Inr m))"

section \<open>Environment variables\<close>

definition safe_keys :: "bool \<Rightarrow> string list" where
  "safe_keys isWindows =
     (if isWindows then
        [''APPDATA'', ''HOMEDRIVE'', ''HOMEPATH'', ''LOCALAPPDATA'', ''PATH'', ''PROCESSOR_ARCHITECTURE'',
         ''SYSTEMDRIVE'', ''SYSTEMROOT'', ''TEMP'', ''USERNAME'', ''USERPROFILE'', ''PROGRAMFILES'']
      else [''HOME'', ''LOGNAME'', ''PATH'', ''SHELL'', ''TERM'', ''USER''])"

definition production_env :: "(string \<times> string) list" where
  "production_env = [(''NODE_ENV'', ''production''), (''LIOP_NODE'', ''true'')]"

definition get_default_environment :: "bool \<Rightarrow> (string \<Rightarrow> string option) \<Rightarrow> (string \<times> string) list" where
  "get_default_environment isWindows process_env =
     fold (\<lambda>key env. case process_env key of
             Some val \<Rightarrow> if \<not> starts_with val ''()'' then AList.update key val env else env
           | None \<Rightarrow> env)
       (safe_keys isWindows) production_env"

record sandbox_config =
  sx_allowEnv :: bool
  sx_allowedDirectories :: "(string \<times> string) list"

text \<open>The environment and the directories \<open>init\<close> gives to the WASI instance.\<close>

definition wasi_env ::
    "sandbox_config \<Rightarrow> bool \<Rightarrow> (string \<Rightarrow> string option) \<Rightarrow> string \<Rightarrow> (string \<times> string) list" where
  "wasi_env config isWindows process_env sandboxId =
     AList.update ''RUNTIME_ID'' sandboxId
       (if sx_allowEnv config then get_default_environment isWindows process_env else production_env)"

definition wasi_preopens :: "sandbox_config \<Rightarrow> string \<Rightarrow> (string \<times> string) list" where
  "wasi_preopens config workingDir =
     fold (\<lambda>(guest, host). AList.update guest host) (sx_allowedDirectories config) [(''/sandbox'', workingDir)]"

section \<open>Fuel\<close>

text \<open>
  The visitors of \<open>calculateAstInstructionFuel\<close>. Statement types the taint analysis has no
  constructor for are \<open>Other_Node\<close>s with their ESTree name.
\<close>

definition statement_fuel :: "string \<Rightarrow> nat" where
  "statement_fuel ty =
     (if ty = ''IfStatement'' then 5
      else if ty = ''SwitchStatement'' then 10
      else if ty \<in> {''ForStatement'', ''ForInStatement'', ''WhileStatement'', ''DoWhileStatement''} then 50
      else if ty = ''TryStatement'' then 15 else 0)"

fun node_fuel :: "node \<Rightarrow> nat" where
  "node_fuel (Identifier x) = 1"
| "node_fuel (Literal l) = 1"
| "node_fuel (BinaryExpression l r) = 2"
| "node_fuel (UnaryExpression e) = 2"
| "node_fuel (LogicalExpression l r) = 2"
| "node_fuel (VariableDeclaration ds) = 5 * (if ds = [] then 1 else length ds)"
| "node_fuel (AssignmentExpression l r) = 3"
| "node_fuel (MemberExpression ob p c) = 3"
| "node_fuel (ObjectExpression ps) = 5 + length ps * 2"
| "node_fuel (ArrayExpression es) = 5 + length es * 2"
| "node_fuel (CallExpression f args) = 10 + length args * 2"
| "node_fuel (FunctionDeclaration f ps b) = 20"
| "node_fuel (FunctionExpression ps b) = 15"
| "node_fuel (ArrowFunctionExpression ps b) = 15"
| "node_fuel (ForOfStatement l r b) = 50"
| "node_fuel (ReturnStatement a l) = 2"
| "node_fuel (Other_Node ty cs) = statement_fuel ty"
| "node_fuel _ = 0"

definition instruction_score :: "walker \<Rightarrow> node \<Rightarrow> nat" where
  "instruction_score walk ast = foldl (\<lambda>score n. score + node_fuel n) 100 (walk ast)"

text \<open>\<open>Math.ceil(score / 100) * 100\<close>\<close>

definition bucket :: "nat \<Rightarrow> nat" where
  "bucket score = (score + 99) div 100 * 100"

definition calculate_ast_instruction_fuel :: "(string \<Rightarrow> node option) \<Rightarrow> walker \<Rightarrow> string \<Rightarrow> nat" where
  "calculate_ast_instruction_fuel acorn walk code =
     (case acorn code of Some ast \<Rightarrow> bucket (instruction_score walk ast) | None \<Rightarrow> 500)"

text \<open>The fuel of a module: its wall-clock time in microseconds, in the same buckets.\<close>

definition wasm_fuel :: "real \<Rightarrow> int" where
  "wasm_fuel duration = max 100 (\<lceil>real_of_int \<lfloor>duration * 1000\<rfloor> / 100\<rceil> * 100)"

section \<open>The context of a script\<close>

datatype proto = Host_Prototype | Null_Prototype

datatype sval =
  SPrim jval
| SArr proto bool "sval list" \<comment> \<open>prototype, frozen, elements\<close>
| SObj proto bool "(string \<times> sval) list"

text \<open>\<open>JSON.parse(JSON.stringify(v))\<close>: a fresh host value, an exception for \<open>undefined\<close>.\<close>

fun host_copy :: "jval \<Rightarrow> sval" and host_fields :: "(string \<times> jval) list \<Rightarrow> (string \<times> sval) list" where
  "host_copy JUndef = SPrim JNull"
| "host_copy (JNum n) = SPrim (case n of Fin r \<Rightarrow> JNum n | _ \<Rightarrow> JNull)"
| "host_copy (JArr i xs) = SArr Host_Prototype False (map host_copy xs)"
| "host_copy (JObj i fs) = SObj Host_Prototype False (host_fields fs)"
| "host_copy v = SPrim v"
| "host_fields [] = []"
| "host_fields ((k, v) # fs) = (if v = JUndef then host_fields fs else (k, host_copy v) # host_fields fs)"

definition parse_stringified :: "jval \<Rightarrow> sval option" where
  "parse_stringified v = (if v = JUndef then None else Some (host_copy v))"

primrec to_null_prototype :: "sval \<Rightarrow> sval" where
  "to_null_prototype (SPrim v) = SPrim v"
| "to_null_prototype (SArr p fr xs) = SArr Host_Prototype False (map to_null_prototype xs)"
| "to_null_prototype (SObj p fr fs) = SObj Null_Prototype False (map (map_prod id to_null_prototype) fs)"

primrec deep_freeze :: "sval \<Rightarrow> sval" where
  "deep_freeze (SPrim v) = SPrim v"
| "deep_freeze (SArr p fr xs) = (if fr then SArr p fr xs else SArr p True (map deep_freeze xs))"
| "deep_freeze (SObj p fr fs) = (if fr then SObj p fr fs else SObj p True (map (map_prod id deep_freeze) fs))"

definition poisoned :: "string list" where
  "poisoned =
     [''require'', ''process'', ''global'', ''globalThis'', ''Buffer'', ''setTimeout'', ''setInterval'',
      ''setImmediate'', ''queueMicrotask'', ''eval'', ''Function'', ''SharedArrayBuffer'', ''Date'',
      ''performance'', ''Intl'', ''ArrayBuffer'', ''Uint8Array'', ''Int8Array'', ''Uint16Array'',
      ''Int16Array'', ''Uint32Array'', ''Int32Array'', ''Float32Array'', ''Float64Array'',
      ''BigInt64Array'', ''BigUint64Array'', ''DataView'']"

type_synonym context_globals = "(string \<times> sval) list"

text \<open>\<open>{ records, ...inputs }\<close>\<close>

definition env_object :: "jval list \<Rightarrow> (string \<times> jval) list \<Rightarrow> jval" where
  "env_object records inputs =
     JObj None (fold (\<lambda>(k, v). AList.update k v) inputs [(''records'', JArr None records)])"

fun inject_inputs :: "(string \<times> jval) list \<Rightarrow> context_globals \<Rightarrow> context_globals option" where
  "inject_inputs [] g = Some g"
| "inject_inputs ((k, v) # inputs) g =
     (case parse_stringified v of
        None \<Rightarrow> None
      | Some c \<Rightarrow> inject_inputs inputs (AList.update k (to_null_prototype c) g))"

definition freeze_global :: "string \<Rightarrow> context_globals \<Rightarrow> context_globals" where
  "freeze_global k g = (case map_of g k of None \<Rightarrow> g | Some v \<Rightarrow> AList.update k (deep_freeze v) g)"

text \<open>
  The globals of the script, all of them locked by \<open>defineProperty\<close>; \<open>None\<close> is the
  \<open>SyntaxError\<close> of an undefined input.
\<close>

definition sandbox_globals :: "jval list \<Rightarrow> (string \<times> jval) list \<Rightarrow> context_globals option" where
  "sandbox_globals records inputs =
     map_option (\<lambda>g. freeze_global ''env'' (freeze_global ''records'' g))
       (inject_inputs inputs
         (map (\<lambda>k. (k, SPrim JUndef)) poisoned @
          [(''records'', to_null_prototype (host_copy (JArr None records))),
           (''env'', to_null_prototype (host_copy (env_object records inputs)))]))"

section \<open>Execution\<close>

text \<open>\<open>processedLogic\<close>; \<open>has_return\<close> is the test of \<open>/^\s*return\s/m\<close>.\<close>

definition wrap_logic :: "(string \<Rightarrow> bool) \<Rightarrow> string \<Rightarrow> string" where
  "wrap_logic has_return logic =
     (if has_return logic \<or> \<not> str_includes logic ''function liop_main'' then
        (if \<not> str_includes logic ''function liop_main''
         then ''function liop_main(env) {'' @ [CHR 0x0A] @ logic @ [CHR 0x0A] @ ''}'' else logic)
      else logic)"

record engine =
  en_compile :: "bytes \<Rightarrow> wasm_module option"
  en_start :: "wasm_module \<Rightarrow> string + (string \<times> string \<times> real)" \<comment> \<open>stdout, stderr, duration\<close>
  en_hasReturn :: "string \<Rightarrow> bool"
  en_script :: "string \<Rightarrow> context_globals \<Rightarrow> string + jval" \<comment> \<open>the logic inside \<open>scriptCode\<close>\<close>
  en_acorn :: "string \<Rightarrow> node option"
  en_walk :: walker

datatype sandbox_error = Wasm_Compile | Wasm_Guardian guardian_error | Wasm_Runtime string | Bad_Input
| Isolate_Fault string | Fuel_Exhausted

definition fuel_limit :: nat where
  "fuel_limit = 1000000"

definition execute_wasm :: "engine \<Rightarrow> bytes \<Rightarrow> sandbox_error + (jval \<times> int)" where
  "execute_wasm en code =
     (case en_compile en code of
        None \<Rightarrow> Inl Wasm_Compile
      | Some m \<Rightarrow>
          (case guardian_analyze m of
             Inl e \<Rightarrow> Inl (Wasm_Guardian e)
           | Inr _ \<Rightarrow>
               (case en_start en m of
                  Inl e \<Rightarrow> Inl (Wasm_Runtime e)
                | Inr (stdout, stderr, duration) \<Rightarrow>
                    Inr (JStr (if stdout \<noteq> [] then stdout
                               else if stderr \<noteq> [] then ''Error: '' @ stderr else ''WASM_EXECUTION_SUCCESS''),
                         wasm_fuel duration))))"

definition execute_script ::
    "engine \<Rightarrow> string \<Rightarrow> jval list \<Rightarrow> (string \<times> jval) list \<Rightarrow> sandbox_error + (jval \<times> int)" where
  "execute_script en logic records inputs =
     (case sandbox_globals records inputs of
        None \<Rightarrow> Inl Bad_Input
      | Some g \<Rightarrow>
          (case en_script en (wrap_logic (en_hasReturn en) logic) g of
             Inl e \<Rightarrow> Inl (Isolate_Fault e)
           | Inr v \<Rightarrow>
               (let fuelUsed = calculate_ast_instruction_fuel (en_acorn en) (en_walk en) logic in
                if fuelUsed > fuel_limit then Inl Fuel_Exhausted else Inr (v, int fuelUsed))))"

datatype logic_payload = Wasm_Code bytes | Script_Code string

fun sandbox_execute ::
    "engine \<Rightarrow> logic_payload \<Rightarrow> jval list \<Rightarrow> (string \<times> jval) list \<Rightarrow> sandbox_error + (jval \<times> int)" where
  "sandbox_execute en (Wasm_Code b) records inputs = execute_wasm en b"
| "sandbox_execute en (Script_Code s) records inputs = execute_script en s records inputs"

section \<open>What a script can reach\<close>

lemma sval_field_size [termination_simp]:
  "p \<in> set fs \<Longrightarrow> size (snd p) < Suc (size_list (size_prod (\<lambda>x. 0) size) fs)"
  by (induction fs) (auto simp: less_Suc_eq_le)

fun sub_svals :: "sval \<Rightarrow> sval list" where
  "sub_svals (SPrim v) = [SPrim v]"
| "sub_svals (SArr p fr xs) = SArr p fr xs # concat (map sub_svals xs)"
| "sub_svals (SObj p fr fs) = SObj p fr fs # concat (map (\<lambda>f. sub_svals (snd f)) fs)"

fun bare_object :: "sval \<Rightarrow> bool" where
  "bare_object (SObj p fr fs) \<longleftrightarrow> p = Null_Prototype"
| "bare_object v \<longleftrightarrow> True"

fun is_frozen :: "sval \<Rightarrow> bool" where
  "is_frozen (SPrim v) \<longleftrightarrow> True"
| "is_frozen (SArr p fr xs) \<longleftrightarrow> fr"
| "is_frozen (SObj p fr fs) \<longleftrightarrow> fr"

fun fresh_node :: "sval \<Rightarrow> bool" where
  "fresh_node (SArr p fr xs) \<longleftrightarrow> p = Host_Prototype \<and> \<not> fr"
| "fresh_node (SObj p fr fs) \<longleftrightarrow> p = Null_Prototype \<and> \<not> fr"
| "fresh_node v \<longleftrightarrow> True"

lemma null_prototype_fresh: "list_all fresh_node (sub_svals (to_null_prototype v))"
  by (induction v) (auto simp: list_all_iff)

lemma freeze_fresh:
  "list_all fresh_node (sub_svals v) \<Longrightarrow>
   list_all is_frozen (sub_svals (deep_freeze v)) \<and> list_all bare_object (sub_svals (deep_freeze v))"
  by (induction v) (fastforce simp: list_all_iff)+

lemma fresh_bare: "list_all fresh_node xs \<Longrightarrow> list_all bare_object xs"
  by (induction xs) (auto elim: fresh_node.elims bare_object.elims)

lemma inject_inputs_lookup:
  "inject_inputs inputs g = Some g' \<Longrightarrow>
   map_of g' k = (case map_of (rev inputs) k of
                    Some v \<Rightarrow> Some (to_null_prototype (host_copy v)) | None \<Rightarrow> map_of g k)"
proof (induction inputs arbitrary: g)
  case (Cons i inputs)
  obtain q v where i: "i = (q, v)" by (cases i)
  from Cons.prems i have v: "v \<noteq> JUndef"
    and rest: "inject_inputs inputs (AList.update q (to_null_prototype (host_copy v)) g) = Some g'"
    by (auto simp: parse_stringified_def split: if_splits)
  show ?case using Cons.IH [OF rest] by (auto simp: i update_conv' map_add_def split: option.splits)
qed simp

lemma freeze_global_lookup:
  "map_of (freeze_global q g) k = (if k = q then map_option deep_freeze (map_of g k) else map_of g k)"
  by (auto simp: freeze_global_def update_conv' split: option.split)

definition initial_globals :: "jval list \<Rightarrow> (string \<times> jval) list \<Rightarrow> context_globals" where
  "initial_globals records inputs =
     map (\<lambda>k. (k, SPrim JUndef)) poisoned @
     [(''records'', to_null_prototype (host_copy (JArr None records))),
      (''env'', to_null_prototype (host_copy (env_object records inputs)))]"

text \<open>The value of a global before it is frozen.\<close>

definition injected :: "jval list \<Rightarrow> (string \<times> jval) list \<Rightarrow> string \<Rightarrow> sval option" where
  "injected records inputs k =
     (case map_of (rev inputs) k of
        Some v \<Rightarrow> Some (to_null_prototype (host_copy v))
      | None \<Rightarrow> map_of (initial_globals records inputs) k)"

lemma sandbox_globals_lookup:
  assumes "sandbox_globals records inputs = Some g"
  shows "map_of g k =
    (if k = ''records'' \<or> k = ''env'' then map_option deep_freeze (injected records inputs k)
     else injected records inputs k)"
proof -
  from assms obtain g0 where g0: "inject_inputs inputs (initial_globals records inputs) = Some g0"
    and g: "g = freeze_global ''env'' (freeze_global ''records'' g0)"
    unfolding sandbox_globals_def initial_globals_def by auto
  show ?thesis
    using inject_inputs_lookup [OF g0] by (auto simp: g freeze_global_lookup injected_def)
qed

lemma initial_globals_poisoned:
  "map_of (initial_globals records inputs) k =
    (if k \<in> set poisoned then Some (SPrim JUndef)
     else map_of [(''records'', to_null_prototype (host_copy (JArr None records))),
                  (''env'', to_null_prototype (host_copy (env_object records inputs)))] k)"
proof -
  have "map_of (map (\<lambda>k. (k, v)) xs) k = (if k \<in> set xs then Some v else None)" for v :: sval and xs
    by (induction xs) auto
  then show ?thesis by (simp add: initial_globals_def map_add_def)
qed

lemma own_globals_not_poisoned: "''records'' \<notin> set poisoned" "''env'' \<notin> set poisoned"
  by (simp_all add: poisoned_def)

lemma injected_fresh: "injected records inputs k = Some v \<Longrightarrow> list_all fresh_node (sub_svals v)"
  using null_prototype_fresh
  by (auto simp: injected_def initial_globals_poisoned simp del: to_null_prototype.simps host_copy.simps
      split: option.splits if_splits)

lemma map_of_rev_None: "map_of (rev xs) k = None \<longleftrightarrow> k \<notin> fst ` set xs"
  by (simp add: map_of_eq_None_iff)

section \<open>Properties\<close>

lemma scan_imports_iff:
  "scan_imports n m = Inr () \<longleftrightarrow>
   (m = [] \<or> n + length m \<le> import_limit) \<and>
   list_all (\<lambda>i. wi_module i = WASI_PREVIEW1 \<and> wi_name i \<in> set allowed_wasi_functions) m"
  by (induction m arbitrary: n) auto

lemma first_foreign_None: "first_foreign m = None \<longleftrightarrow> list_all (\<lambda>i. wi_module i = WASI_PREVIEW1 \<or> wi_module i = ''LIOP'') m"
  by (induction m) auto

text \<open>
  \<open>ASTGuardian.analyze\<close> lets a module pass exactly when it has at most 128 imports and each is one of
  the fourteen allowed functions of \<open>wasi_snapshot_preview1\<close>; \<open>GuardianTS.analyzeAst\<close> returns a
  compiled module exactly when its imports come from \<open>wasi_snapshot_preview1\<close> or \<open>LIOP\<close>.
\<close>
theorem guardians_exact:
  "(guardian_analyze m = Inr () \<longleftrightarrow>
      length m \<le> 128 \<and>
      list_all (\<lambda>i. wi_module i = WASI_PREVIEW1 \<and> wi_name i \<in> set allowed_wasi_functions) m) \<and>
   (guardian_analyze_ast compile b = Inr m \<longleftrightarrow>
      compile b = Some m \<and>
      list_all (\<lambda>i. wi_module i = WASI_PREVIEW1 \<or> wi_module i = ''LIOP'') m)"
proof
  show "guardian_analyze m = Inr () \<longleftrightarrow>
      length m \<le> 128 \<and>
      list_all (\<lambda>i. wi_module i = WASI_PREVIEW1 \<and> wi_name i \<in> set allowed_wasi_functions) m"
    by (auto simp: guardian_analyze_def scan_imports_iff import_limit_def)
  show "guardian_analyze_ast compile b = Inr m \<longleftrightarrow>
      compile b = Some m \<and> list_all (\<lambda>i. wi_module i = WASI_PREVIEW1 \<or> wi_module i = ''LIOP'') m"
    using first_foreign_None [of m] by (auto simp: guardian_analyze_ast_def split: option.splits)
qed

text \<open>
  The globals of a script, for any records and inputs: no object it can reach has a host
  prototype, \<open>records\<close> and \<open>env\<close> are frozen all the way down, and every poisoned name is
  undefined unless an input bears it.
\<close>
theorem sandbox_isolation:
  assumes "sandbox_globals records inputs = Some g"
  shows "(\<forall>v. map_of g k = Some v \<longrightarrow> list_all bare_object (sub_svals v)) \<and>
         (\<exists>v. map_of g ''records'' = Some v \<and> list_all is_frozen (sub_svals v)) \<and>
         (\<exists>v. map_of g ''env'' = Some v \<and> list_all is_frozen (sub_svals v)) \<and>
         (k \<in> set poisoned \<and> k \<notin> fst ` set inputs \<longrightarrow> map_of g k = Some (SPrim JUndef))"
proof (intro conjI allI impI)
  note lookup = sandbox_globals_lookup [OF assms]
  fix v assume "map_of g k = Some v"
  then show "list_all bare_object (sub_svals v)"
    using lookup [of k] injected_fresh [of records inputs k] freeze_fresh fresh_bare by (auto split: if_splits)
next
  have there: "\<exists>v. injected records inputs q = Some v" if "q = ''records'' \<or> q = ''env''" for q
    using that own_globals_not_poisoned
    by (auto simp: injected_def initial_globals_poisoned split: option.split)
  show "\<exists>v. map_of g ''records'' = Some v \<and> list_all is_frozen (sub_svals v)"
    "\<exists>v. map_of g ''env'' = Some v \<and> list_all is_frozen (sub_svals v)"
    using there [of "''records''"] there [of "''env''"] injected_fresh freeze_fresh
      sandbox_globals_lookup [OF assms] by auto
next
  assume k: "k \<in> set poisoned \<and> k \<notin> fst ` set inputs"
  then have "k \<noteq> ''records''" "k \<noteq> ''env''" using own_globals_not_poisoned by auto
  then show "map_of g k = Some (SPrim JUndef)"
    using k sandbox_globals_lookup [OF assms, of k] map_of_rev_None [of inputs k]
    by (simp add: injected_def initial_globals_poisoned)
qed

text \<open>
  Stripping the prototype chain leaves arrays alone: the global \<open>records\<close> is always an array with the
  host's \<open>Array.prototype\<close>, and so is every array input, which is not frozen either.
\<close>
theorem arrays_keep_host_prototype:
  assumes "sandbox_globals records inputs = Some g" "''records'' \<notin> fst ` set inputs"
    "map_of (rev inputs) k = Some (JArr i xs)" "k \<noteq> ''env''"
  shows "(\<exists>ys. map_of g ''records'' = Some (SArr Host_Prototype True ys)) \<and>
         (\<exists>ys. map_of g k = Some (SArr Host_Prototype False ys))"
proof -
  have "map_of (rev inputs) ''records'' = None" by (subst map_of_rev_None) (rule assms(2))
  then have "injected records inputs ''records'' = Some (to_null_prototype (host_copy (JArr None records)))"
    by (simp add: injected_def initial_globals_poisoned own_globals_not_poisoned
        del: to_null_prototype.simps host_copy.simps)
  moreover have "injected records inputs k = Some (to_null_prototype (host_copy (JArr i xs)))" "k \<noteq> ''records''"
    using assms(3) \<open>map_of (rev inputs) ''records'' = None\<close> unfolding injected_def by auto
  ultimately show ?thesis
    using assms(4) unfolding sandbox_globals_lookup [OF assms(1)] by simp
qed

lemma bucket_bounds: "100 dvd bucket n" "n \<le> bucket n" "bucket n < n + 100"
proof -
  have "bucket n + (n + 99) mod 100 = n + 99" by (simp add: bucket_def)
  moreover have "(n + 99) mod 100 < 100" by simp
  ultimately show "n \<le> bucket n" "bucket n < n + 100" by linarith+
  show "100 dvd bucket n" by (simp add: bucket_def)
qed

lemma score_base: "100 \<le> instruction_score walk ast"
proof -
  have "a \<le> foldl (\<lambda>score n. score + node_fuel n) a ns" for a ns
    by (induction ns arbitrary: a) (auto intro: add_leD1)
  then show ?thesis by (simp add: instruction_score_def)
qed

lemma script_fuel_bounds:
  "100 dvd calculate_ast_instruction_fuel acorn walk code \<and> 100 \<le> calculate_ast_instruction_fuel acorn walk code"
  using bucket_bounds(1) order_trans [OF score_base bucket_bounds(2)]
  by (simp add: calculate_ast_instruction_fuel_def split: option.split)

text \<open>
  Every result carries fuel in whole units of 100, at least 100. For a script it is the score of its
  syntax tree rounded up, at most a million, and independent of the data; a module ran only if the
  import check accepted it.
\<close>
theorem sandbox_result_metered:
  assumes "sandbox_execute en p records inputs = Inr (v, f)"
  shows "100 dvd f \<and> 100 \<le> f \<and>
    (case p of
       Script_Code s \<Rightarrow>
         f \<le> 1000000 \<and>
         (case en_acorn en s of
            None \<Rightarrow> f = 500
          | Some ast \<Rightarrow> int (instruction_score (en_walk en) ast) \<le> f \<and> f < int (instruction_score (en_walk en) ast) + 100)
     | Wasm_Code b \<Rightarrow> \<exists>m. en_compile en b = Some m \<and> guardian_analyze m = Inr ())"
proof (cases p)
  case (Wasm_Code b)
  with assms obtain m d where "en_compile en b = Some m" "guardian_analyze m = Inr ()" "f = wasm_fuel d"
    by (auto simp: execute_wasm_def split: option.splits sum.splits prod.splits)
  then show ?thesis by (auto simp: Wasm_Code wasm_fuel_def max_def)
next
  case (Script_Code s)
  let ?f = "calculate_ast_instruction_fuel (en_acorn en) (en_walk en) s"
  from assms Script_Code have f: "f = int ?f" "\<not> ?f > fuel_limit"
    by (auto simp: execute_script_def Let_def split: option.splits sum.splits if_splits)
  have "100 dvd f" "100 \<le> f"
    using script_fuel_bounds [of "en_acorn en" "en_walk en" s] f(1) by (auto simp: int_dvd_int_iff [symmetric])
  moreover have "case en_acorn en s of None \<Rightarrow> f = 500
      | Some ast \<Rightarrow> int (instruction_score (en_walk en) ast) \<le> f \<and> f < int (instruction_score (en_walk en) ast) + 100"
  proof (cases "en_acorn en s")
    case (Some ast)
    then show ?thesis
      using f(1) bucket_bounds(2,3) [of "instruction_score (en_walk en) ast"]
      by (simp add: calculate_ast_instruction_fuel_def)
  qed (use f(1) in \<open>simp add: calculate_ast_instruction_fuel_def\<close>)
  ultimately show ?thesis using f by (simp add: Script_Code fuel_limit_def)
qed

text \<open>A concrete engine, whose parser knows one program, to evaluate the statements on.\<close>

definition demo_engine :: engine where
  "demo_engine =
     \<lparr>en_compile = (\<lambda>b. if b = [0, 0x61, 0x73, 0x6D] then Some [] else None),
      en_start = (\<lambda>m. Inr (''out'', [], 2)),
      en_hasReturn = (\<lambda>s. True),
      en_script = (\<lambda>s g. Inr (JNum (Fin 3))),
      en_acorn = (\<lambda>s. if s = ''return records.length'' then
         Some (ReturnStatement (Some (MemberExpression (Identifier ''records'') (Identifier ''length'') False)) None)
         else None),
      en_walk = subtrees\<rparr>"

lemma demo_globals:
  "sandbox_globals [JObj None [(''age'', JNum (Fin 40))]] [(''ids'', JArr None [JNum (Fin 1)])] =
     Some (map (\<lambda>k. (k, SPrim JUndef)) poisoned @
       [(''records'', SArr Host_Prototype True [SObj Null_Prototype True [(''age'', SPrim (JNum (Fin 40)))]]),
        (''env'', SObj Null_Prototype True
           [(''records'', SArr Host_Prototype True [SObj Null_Prototype True [(''age'', SPrim (JNum (Fin 40)))]]),
            (''ids'', SArr Host_Prototype True [SPrim (JNum (Fin 1))])]),
        (''ids'', SArr Host_Prototype False [SPrim (JNum (Fin 1))])])"
  by (simp add: sandbox_globals_def poisoned_def parse_stringified_def freeze_global_def env_object_def)

theorem sandbox_isolation_witness:
  "map_of (the (sandbox_globals [JObj None [(''age'', JNum (Fin 40))]] [(''ids'', JArr None [JNum (Fin 1)])])) ''process''
     = Some (SPrim JUndef)"
  using sandbox_isolation [OF demo_globals, of "''process''"] unfolding demo_globals
  by (simp add: poisoned_def)

theorem arrays_keep_host_prototype_witness:
  "\<exists>ys. map_of (the (sandbox_globals [JObj None [(''age'', JNum (Fin 40))]] [(''ids'', JArr None [JNum (Fin 1)])]))
     ''records'' = Some (SArr Host_Prototype True ys)"
  using arrays_keep_host_prototype [OF demo_globals, of "''ids''"] unfolding demo_globals by simp

lemma demo_script:
  "sandbox_execute demo_engine (Script_Code ''return records.length'') [] [] = Inr (JNum (Fin 3), 200)"
proof -
  have "instruction_score subtrees (ReturnStatement (Some (MemberExpression (Identifier ''records'') (Identifier ''length'') False)) None) = 107"
    by (simp add: instruction_score_def subtrees.simps)
  then show ?thesis
    by (simp add: execute_script_def demo_engine_def sandbox_globals_def calculate_ast_instruction_fuel_def
        bucket_def fuel_limit_def)
qed

theorem sandbox_result_metered_witness:
  "sandbox_execute demo_engine (Script_Code ''return records.length'') [] [] = Inr (JNum (Fin 3), 200) \<and>
   (200 :: int) \<le> 1000000"
  using demo_script sandbox_result_metered [OF demo_script] by simp

end
