(* ===== verification/Crypto_Wrappers.thy ===== *)
theory Crypto_Wrappers
  imports Receipt_Codec Json_Text
begin

text \<open>
  \<open>rpc/crypto/dilithium.ts\<close>, \<open>rpc/crypto/aes.ts\<close> and \<open>rpc/crypto/kyber.ts\<close>: the checks and formats the
  wrappers add to their libraries. ML-DSA-65, AES-256-GCM, ML-KEM-768, base64 and the text of a
  number are parameters; \<open>None\<close> of a library call is an exception.
\<close>

section \<open>Signatures\<close>

record ml_dsa =
  md_keygen :: "bytes option \<Rightarrow> bytes \<times> bytes"              \<comment> \<open>public and secret key\<close>
  md_getPublicKey :: "bytes \<Rightarrow> bytes"
  md_sign :: "bytes \<Rightarrow> bytes \<Rightarrow> bytes \<Rightarrow> bytes"               \<comment> \<open>message, secret key, context\<close>
  md_verify :: "bytes \<Rightarrow> bytes \<Rightarrow> bytes \<Rightarrow> bytes \<Rightarrow> bool option" \<comment> \<open>signature, message, public key, context\<close>

definition PUBLIC_KEY_BYTES :: nat where "PUBLIC_KEY_BYTES = 1952"
definition SECRET_KEY_BYTES :: nat where "SECRET_KEY_BYTES = 4032"
definition SIGNATURE_BYTES :: nat where "SIGNATURE_BYTES = 3309"
definition DEFAULT_CONTEXT :: bytes where "DEFAULT_CONTEXT = utf8 ''LIOP-FIPS204-ML-DSA-65''"

datatype crypto_error = Bad_Length nat | Missing_Tag | Library_Error

fun normalize_message :: "bytes + string \<Rightarrow> bytes" where
  "normalize_message (Inr s) = utf8 s"
| "normalize_message (Inl b) = b"

definition or_default :: "bytes option \<Rightarrow> bytes" where
  "or_default ctx = (case ctx of None \<Rightarrow> DEFAULT_CONTEXT | Some c \<Rightarrow> c)"

definition generate_key_pair :: "ml_dsa \<Rightarrow> bytes option \<Rightarrow> crypto_error + bytes \<times> bytes" where
  "generate_key_pair d seed =
     (case seed of
        Some s \<Rightarrow> ebind (guard (length s = 32) (Bad_Length (length s))) (\<lambda>_. Inr (md_keygen d seed))
      | None \<Rightarrow> Inr (md_keygen d None))"

definition get_public_key :: "ml_dsa \<Rightarrow> bytes \<Rightarrow> crypto_error + bytes" where
  "get_public_key d sk =
     ebind (guard (length sk = SECRET_KEY_BYTES) (Bad_Length (length sk))) (\<lambda>_. Inr (md_getPublicKey d sk))"

definition import_public_key :: "bytes \<Rightarrow> crypto_error + bytes" where
  "import_public_key b = ebind (guard (length b = PUBLIC_KEY_BYTES) (Bad_Length (length b))) (\<lambda>_. Inr b)"

definition dsa_sign :: "ml_dsa \<Rightarrow> bytes + string \<Rightarrow> bytes \<Rightarrow> bytes option \<Rightarrow> crypto_error + bytes" where
  "dsa_sign d msg sk ctx =
     ebind (guard (length sk = SECRET_KEY_BYTES) (Bad_Length (length sk))) (\<lambda>_.
       Inr (md_sign d (normalize_message msg) sk (or_default ctx)))"

definition dsa_verify :: "ml_dsa \<Rightarrow> bytes \<Rightarrow> bytes + string \<Rightarrow> bytes \<Rightarrow> bytes option \<Rightarrow> bool" where
  "dsa_verify d sig msg pk ctx =
     (if length sig \<noteq> SIGNATURE_BYTES then False
      else if length pk \<noteq> PUBLIC_KEY_BYTES then False
      else (case md_verify d sig (normalize_message msg) pk (or_default ctx) of None \<Rightarrow> False | Some b \<Rightarrow> b))"

section \<open>Manifests\<close>

text \<open>\<open>canonicalizeJson\<close>; \<open>undefined\<close> prints as the empty text, which is what \<open>join\<close> makes of it.\<close>

fun canonicalize_json :: "(jsnum \<Rightarrow> string) \<Rightarrow> jval \<Rightarrow> string" where
  "canonicalize_json num JUndef = []"
| "canonicalize_json num JNull = ''null''"
| "canonicalize_json num (JBool b) = (if b then ''true'' else ''false'')"
| "canonicalize_json num (JNum n) = num n"
| "canonicalize_json num (JStr s) = json_string s"
| "canonicalize_json num (JArr i xs) = ''['' @ join '','' (map (canonicalize_json num) xs) @ '']''"
| "canonicalize_json num (JObj i fs) =
     ''{'' @ join '','' (map (\<lambda>p. json_string (fst p) @ '':'' @ canonicalize_json num (snd p))
                          (sort_key fst (filter (\<lambda>p. snd p \<noteq> JUndef) fs))) @ ''}''"

type_synonym manifest = "(string \<times> jval) list"

record codec =
  cd_num :: "jsnum \<Rightarrow> string"
  cd_toBase64 :: "bytes \<Rightarrow> string"
  cd_fromBase64 :: "string \<Rightarrow> bytes"

definition unsigned_part :: "manifest \<Rightarrow> manifest" where
  "unsigned_part m = filter (\<lambda>p. fst p \<noteq> ''pqcSignature'' \<and> fst p \<noteq> ''pqcPublicKey'') m"

definition sign_manifest :: "codec \<Rightarrow> ml_dsa \<Rightarrow> manifest \<Rightarrow> bytes \<Rightarrow> bytes \<Rightarrow> crypto_error + string \<times> string" where
  "sign_manifest c d m sk pk =
     ebind (dsa_sign d (Inr (canonicalize_json (cd_num c) (JObj None (unsigned_part m)))) sk None) (\<lambda>sig.
       Inr (cd_toBase64 c sig, cd_toBase64 c pk))"

definition verify_manifest :: "codec \<Rightarrow> ml_dsa \<Rightarrow> manifest \<Rightarrow> string \<Rightarrow> string \<Rightarrow> bool" where
  "verify_manifest c d m sig64 pk64 =
     dsa_verify d (cd_fromBase64 c sig64) (Inr (canonicalize_json (cd_num c) (JObj None (unsigned_part m)))) (cd_fromBase64 c pk64) None"

section \<open>Payload encryption\<close>

record aes_gcm =
  ag_seal :: "bytes \<Rightarrow> bytes \<Rightarrow> bytes \<Rightarrow> bytes \<times> bytes"              \<comment> \<open>key, nonce, plaintext: ciphertext and tag\<close>
  ag_open :: "bytes \<Rightarrow> bytes \<Rightarrow> bytes \<Rightarrow> bytes \<Rightarrow> bytes option"      \<comment> \<open>\<open>None\<close>: authentication fails\<close>

definition encrypt_payload :: "aes_gcm \<Rightarrow> bytes \<Rightarrow> bytes \<Rightarrow> bytes \<Rightarrow> crypto_error + bytes \<times> bytes" where
  "encrypt_payload a nonce payload sharedSecret =
     ebind (guard (length sharedSecret = 32) (Bad_Length (length sharedSecret))) (\<lambda>_.
       (case ag_seal a sharedSecret nonce payload of (encrypted, authTag) \<Rightarrow> Inr (encrypted @ authTag, nonce)))"

definition decrypt_payload :: "aes_gcm \<Rightarrow> bytes \<Rightarrow> bytes \<Rightarrow> bytes \<Rightarrow> crypto_error + bytes" where
  "decrypt_payload a ct nonce sharedSecret =
     ebind (guard (16 \<le> length ct) Missing_Tag) (\<lambda>_.
       (case ag_open a sharedSecret nonce (subarray ct 0 (length ct - 16)) (subarray ct (length ct - 16) (length ct)) of
          None \<Rightarrow> Inl Library_Error | Some p \<Rightarrow> Inr p))"

definition kyber_import_public_key :: "bytes \<Rightarrow> crypto_error + bytes" where
  "kyber_import_public_key b = ebind (guard (length b = 1184) (Bad_Length (length b))) (\<lambda>_. Inr b)"

definition encapsulate_asymmetric :: "(bytes \<Rightarrow> (bytes \<times> bytes) option) \<Rightarrow> bytes \<Rightarrow> crypto_error + bytes \<times> bytes" where
  "encapsulate_asymmetric encap pk =
     ebind (guard (length pk = 1184) (Bad_Length (length pk))) (\<lambda>_.
       (case encap pk of None \<Rightarrow> Inl Library_Error | Some r \<Rightarrow> Inr r))"

section \<open>Properties\<close>

text \<open>What the libraries promise: a signature verifies under the public key of its secret key, with
  the standard's lengths, and an opened GCM box gives the plaintext back and nothing else.\<close>

definition dsa_correct :: "ml_dsa \<Rightarrow> bool" where
  "dsa_correct d \<longleftrightarrow>
     (\<forall>m sk ctx. length sk = SECRET_KEY_BYTES \<longrightarrow> length (md_sign d m sk ctx) = SIGNATURE_BYTES \<and>
        length (md_getPublicKey d sk) = PUBLIC_KEY_BYTES \<and>
        md_verify d (md_sign d m sk ctx) m (md_getPublicKey d sk) ctx = Some True)"

definition gcm_correct :: "aes_gcm \<Rightarrow> bool" where
  "gcm_correct a \<longleftrightarrow>
     (\<forall>k n p. length (snd (ag_seal a k n p)) = 16) \<and>
     (\<forall>k n p c t. ag_open a k n c t = Some p \<longleftrightarrow> ag_seal a k n p = (c, t))"

text \<open>The text that is signed: the properties but the two of the signature, in the order of their names.\<close>

definition covered :: "manifest \<Rightarrow> manifest" where
  "covered m = sort_key fst (filter (\<lambda>p. snd p \<noteq> JUndef) (unsigned_part m))"

lemma canonical_covered:
  "covered m = covered m' \<Longrightarrow>
     canonicalize_json num (JObj i (unsigned_part m)) = canonicalize_json num (JObj j (unsigned_part m'))"
  by (simp add: covered_def)

lemma sort_by_key_unique:
  fixes xs ys :: "(string \<times> jval) list"
  assumes "mset xs = mset ys" "distinct (map fst xs)"
  shows "sort_key fst xs = sort_key fst ys"
proof (rule assoc_list_by_set)
  have keys: "map fst (sort_key fst zs) = sort (map fst zs)" for zs :: "(string \<times> jval) list"
    by (rule sym, rule properties_for_sort) simp_all
  have "mset (map fst xs) = mset (map fst ys)" using assms(1) by simp
  then show "map fst (sort_key fst xs) = map fst (sort_key fst ys)"
    unfolding keys by (metis properties_for_sort sorted_sort mset_sort)
  show "distinct (map fst (sort_key fst xs))" unfolding keys using assms(2) by simp
  show "set (sort_key fst xs) = set (sort_key fst ys)" using assms(1) by (metis mset_sort set_mset_mset)
qed

text \<open>
  A manifest that \<open>signManifest\<close> signed verifies, also when its properties arrive in another order,
  with the signature fields attached or with \<open>undefined\<close> properties added.
\<close>

theorem manifest_sign_verify:
  assumes lib: "dsa_correct d" "\<forall>b. cd_fromBase64 c (cd_toBase64 c b) = b"
    and key: "length sk = SECRET_KEY_BYTES"
    and signed: "sign_manifest c d m sk (md_getPublicKey d sk) = Inr (sig, pk)"
    and same: "distinct (map fst m)"
      "mset (filter (\<lambda>p. snd p \<noteq> JUndef) (unsigned_part m)) = mset (filter (\<lambda>p. snd p \<noteq> JUndef) (unsigned_part m'))"
  shows "verify_manifest c d m' sig pk"
proof -
  have "distinct (map fst (filter (\<lambda>p. snd p \<noteq> JUndef) (unsigned_part m)))"
    using same(1) by (simp add: unsigned_part_def distinct_map_filter)
  then have "covered m = covered m'" unfolding covered_def using same(2) by (rule sort_by_key_unique[rotated])
  then have "canonicalize_json (cd_num c) (JObj None (unsigned_part m)) = canonicalize_json (cd_num c) (JObj None (unsigned_part m'))"
    by (rule canonical_covered)
  then show ?thesis
    using lib key signed
    by (auto simp: sign_manifest_def verify_manifest_def dsa_sign_def dsa_verify_def dsa_correct_def or_default_def)
qed

definition demo_dsa :: ml_dsa where
  "demo_dsa = \<lparr>md_keygen = (\<lambda>_. (replicate 1952 0, replicate 4032 0)), md_getPublicKey = (\<lambda>_. replicate 1952 0),
     md_sign = (\<lambda>_ _ _. replicate 3309 0), md_verify = (\<lambda>_ _ _ _. Some True)\<rparr>"

lemma demo_dsa_correct: "dsa_correct demo_dsa"
  by (simp add: dsa_correct_def demo_dsa_def SIGNATURE_BYTES_def PUBLIC_KEY_BYTES_def)

definition demo_codec :: codec where
  "demo_codec = \<lparr>cd_num = (\<lambda>_. ''0''), cd_toBase64 = hex_of, cd_fromBase64 = inv hex_of\<rparr>"

theorem manifest_sign_verify_witness:
  "\<exists>sig pk. sign_manifest demo_codec demo_dsa [(''b'', JNull), (''a'', JBool True)] (replicate 4032 0) (replicate 1952 0) = Inr (sig, pk) \<and>
     verify_manifest demo_codec demo_dsa [(''a'', JBool True), (''pqcSignature'', JStr ''s''), (''b'', JNull), (''c'', JUndef)] sig pk"
proof -
  obtain sig pk where s: "sign_manifest demo_codec demo_dsa [(''b'', JNull), (''a'', JBool True)] (replicate 4032 0) (replicate 1952 0) = Inr (sig, pk)"
    by (simp add: sign_manifest_def dsa_sign_def SECRET_KEY_BYTES_def)
  have "verify_manifest demo_codec demo_dsa [(''a'', JBool True), (''pqcSignature'', JStr ''s''), (''b'', JNull), (''c'', JUndef)] sig pk"
    by (rule manifest_sign_verify[OF demo_dsa_correct, where m = "[(''b'', JNull), (''a'', JBool True)]" and sk = "replicate 4032 0"])
      (use s in \<open>simp_all add: demo_codec_def demo_dsa_def SECRET_KEY_BYTES_def unsigned_part_def inv_f_f inj_def\<close>)
  with s show ?thesis by blast
qed

text \<open>
  What \<open>encryptPayload\<close> seals under a 32-byte secret \<open>decryptPayload\<close> opens to the same payload, and any
  box it opens is the one that sealing its content would give: a changed byte is an error.
\<close>

theorem payload_sealed:
  assumes lib: "gcm_correct a" and key: "length k = 32"
  shows "(encrypt_payload a n p k = Inr (ct, n) \<longrightarrow> decrypt_payload a ct n k = Inr p) \<and>
     (decrypt_payload a ct n k = Inr p \<longrightarrow> encrypt_payload a n p k = Inr (ct, n))"
proof -
  have tag: "length (snd (ag_seal a k n p)) = 16" using lib by (simp add: gcm_correct_def)
  have split: "ag_seal a k n p = (subarray ct 0 (length ct - 16), subarray ct (length ct - 16) (length ct)) \<longleftrightarrow>
      fst (ag_seal a k n p) @ snd (ag_seal a k n p) = ct" if "16 \<le> length ct"
    using that tag by (cases "ag_seal a k n p") (auto simp: subarray_def)
  have "encrypt_payload a n p k = Inr (ct, n) \<longleftrightarrow> fst (ag_seal a k n p) @ snd (ag_seal a k n p) = ct"
    using key by (simp add: encrypt_payload_def case_prod_beta)
  moreover have "decrypt_payload a ct n k = Inr p \<longleftrightarrow>
      16 \<le> length ct \<and> ag_seal a k n p = (subarray ct 0 (length ct - 16), subarray ct (length ct - 16) (length ct))"
  proof -
    have "decrypt_payload a ct n k = Inr p \<longleftrightarrow> 16 \<le> length ct \<and>
        ag_open a k n (subarray ct 0 (length ct - 16)) (subarray ct (length ct - 16) (length ct)) = Some p"
      by (cases "16 \<le> length ct") (auto simp: decrypt_payload_def split: option.splits)
    then show ?thesis using lib by (simp add: gcm_correct_def)
  qed
  moreover have "16 \<le> length ct" if "fst (ag_seal a k n p) @ snd (ag_seal a k n p) = ct" using tag that by auto
  ultimately show ?thesis using split by blast
qed

definition demo_gcm :: aes_gcm where
  "demo_gcm = \<lparr>ag_seal = (\<lambda>k n p. (p, replicate 16 7)),
     ag_open = (\<lambda>k n c t. if t = replicate 16 7 then Some c else None)\<rparr>"

theorem payload_sealed_witness:
  "decrypt_payload demo_gcm ([1, 2, 3] @ replicate 16 7) (replicate 12 0) (replicate 32 0) = Inr [1, 2, 3]"
proof -
  have "gcm_correct demo_gcm" by (auto simp: gcm_correct_def demo_gcm_def)
  moreover have "encrypt_payload demo_gcm (replicate 12 0) [1, 2, 3] (replicate 32 0) = Inr ([1, 2, 3] @ replicate 16 7, replicate 12 0)"
    by (simp add: encrypt_payload_def demo_gcm_def)
  ultimately show ?thesis
    using payload_sealed[of demo_gcm "replicate 32 0" "replicate 12 0" "[1, 2, 3]" "[1, 2, 3] @ replicate 16 7"] by simp
qed

end
