(* ===== verification/Receipt_Verifier.thy ===== *)
theory Receipt_Verifier
  imports Crypto_Wrappers
begin

text \<open>
  \<open>crypto/logic-image-id.ts\<close>, \<open>crypto/groth16-verifier.ts\<close>, \<open>workers/zk-verifier.ts\<close> and \<open>crypto/verifier.ts\<close>:
  the image identifier of a program, the verification of execution receipts and of hardware
  attestation reports.

  The host functions are the record \<open>verifier_env\<close>: SHA-256, HMAC, UTF-8 decoding, JSON, hexadecimal
  decoding, ML-DSA, and the big-integer decoding and pairing check of the Groth16 library
  (\<open>None\<close> when they raise). A verdict is \<open>Inr\<close> of the proof type or \<open>Inl\<close> of the reason; an exception
  inside the worker is the reason \<open>Worker_Error\<close>.
\<close>

record verifier_env =
  ve_sha :: "bytes \<Rightarrow> digest"
  ve_hmac :: "bytes \<Rightarrow> bytes \<Rightarrow> digest"
  ve_text :: "bytes \<Rightarrow> string"
  ve_parse :: "string \<Rightarrow> jval option"
  ve_stringify :: "jval \<Rightarrow> string"
  ve_fromHex :: "string \<Rightarrow> bytes"
  ve_dsa :: ml_dsa
  ve_decode :: "jval \<Rightarrow> jval option"
  ve_groth :: "jval \<Rightarrow> jval \<Rightarrow> bool option"

section \<open>Image identifiers\<close>

definition newline :: "char \<Rightarrow> bool" where
  "newline c \<longleftrightarrow> c = CHR 0x0A \<or> c = CHR 0x0D"

text \<open>
  The capture of \<open>TOP_LEVEL_ENVELOPE\<close>, trimmed. The header runs to the first closing brace, the text
  after it must begin with a line break, and the end marker must follow another line break and be
  the last word; which line breaks the capture itself keeps does not matter once it is trimmed.
\<close>

definition envelope_body :: "string \<Rightarrow> string option" where
  "envelope_body s =
     (let t = dropWhile js_space s in
      if \<not> starts_with t ''@LIOP{'' then None
      else
        (let r = drop 6 t; header = takeWhile (\<lambda>c. c \<noteq> CHR ''}'') r; rest = drop (length header) r in
         if header = [] \<or> rest = [] then None
         else
           (let u = rev (dropWhile js_space (rev (tl rest))) in
            if \<not> ends_with u ''@END'' then None
            else
              (let m = take (length u - 4) u in
               if 2 \<le> length m \<and> newline (hd m) \<and> newline (last m) then Some (trim m) else None))))"

definition normalize_logic_source :: "string \<Rightarrow> string" where
  "normalize_logic_source s = (case envelope_body s of Some b \<Rightarrow> b | None \<Rightarrow> trim s)"

definition derive_logic_image_digest :: "verifier_env \<Rightarrow> bytes \<Rightarrow> bytes" where
  "derive_logic_image_digest env logic =
     (if 2 \<le> length logic \<and> logic ! 0 = 0 \<and> logic ! 1 = 0x61 then Rep_digest (ve_sha env logic)
      else Rep_digest (ve_sha env (utf8 (normalize_logic_source (ve_text env logic)))))"

section \<open>The expected output of a proxied call\<close>

fun scan_object :: "string \<Rightarrow> int \<Rightarrow> bool \<Rightarrow> bool \<Rightarrow> bool \<Rightarrow> bool \<Rightarrow> string option" where
  "scan_object [] braces dq sq bt esc = None"
| "scan_object (c # cs) braces dq sq bt esc =
     (if esc then map_option ((#) c) (scan_object cs braces dq sq bt False)
      else if c = CHR 0x5C then map_option ((#) c) (scan_object cs braces dq sq bt True)
      else if c = CHR 0x22 \<and> \<not> sq \<and> \<not> bt then map_option ((#) c) (scan_object cs braces (\<not> dq) sq bt False)
      else if c = CHR 0x27 \<and> \<not> dq \<and> \<not> bt then map_option ((#) c) (scan_object cs braces dq (\<not> sq) bt False)
      else if c = CHR 0x60 \<and> \<not> dq \<and> \<not> sq then map_option ((#) c) (scan_object cs braces dq sq (\<not> bt) False)
      else if \<not> dq \<and> \<not> sq \<and> \<not> bt then
        (if c = CHR ''{'' then map_option ((#) c) (scan_object cs (braces + 1) dq sq bt False)
         else if c = CHR ''}'' then
           (if braces - 1 = 0 then Some [c] else map_option ((#) c) (scan_object cs (braces - 1) dq sq bt False))
         else map_option ((#) c) (scan_object cs braces dq sq bt False))
      else map_option ((#) c) (scan_object cs braces dq sq bt False))"

definition try_extract_proxy_output :: "verifier_env \<Rightarrow> bytes \<Rightarrow> jval option" where
  "try_extract_proxy_output env logic =
     (let logicStr = trim (ve_text env logic) in
      if \<not> str_includes logicStr ''__liop_proxy_tool'' then None
      else (case scan_object (dropWhile (\<lambda>c. c \<noteq> CHR ''{'') logicStr) 0 False False False False of
              None \<Rightarrow> None
            | Some jsonStr \<Rightarrow>
                (case ve_parse env jsonStr of
                   None \<Rightarrow> None
                 | Some parsed \<Rightarrow> if truthy (opt_prop parsed ''__liop_proxy_tool'') then Some parsed else None)))"

definition expected_output_digest :: "verifier_env \<Rightarrow> bytes \<Rightarrow> jval \<Rightarrow> bytes" where
  "expected_output_digest env logic expectedOutput =
     (let actual = (case try_extract_proxy_output env logic of Some p \<Rightarrow> p | None \<Rightarrow> expectedOutput) in
      Rep_digest (ve_sha env (utf8 (case actual of JStr s \<Rightarrow> s | JUndef \<Rightarrow> ''undefined'' | v \<Rightarrow> ve_stringify env v))))"

section \<open>Groth16\<close>

definition deserialize :: "verifier_env \<Rightarrow> bytes \<Rightarrow> jval option" where
  "deserialize env buf = Option.bind (ve_parse env (ve_text env buf)) (ve_decode env)"

definition verify_groth16_proof :: "verifier_env \<Rightarrow> jval \<Rightarrow> jval \<Rightarrow> bool" where
  "verify_groth16_proof env vkey proofWithSignals =
     (if \<not> truthy vkey \<or> \<not> truthy (opt_prop proofWithSignals ''proof'') then False
      else (case ve_groth env vkey proofWithSignals of None \<Rightarrow> False | Some b \<Rightarrow> b))"

section \<open>The verification worker\<close>

record zk_task =
  zt_logicPayload :: "bytes option"
  zt_remoteImageIdHex :: "string option"
  zt_guestImageIdHex :: "string option"
  zt_zkReceipt :: "bytes option"
  zt_sessionSecret :: "bytes option"
  zt_vkeyRaw :: "bytes option"
  zt_expectedOutput :: jval
  zt_zkPolicy :: "string option"

datatype rejection =
  Missing_Fields | Decode_Failed zk_error | Policy_Violation | Integrity_Violation
| Journal_Mismatch | Journal_Parse_Failed | Invalid_Seal | Output_Mismatch
| Bad_Proof_Type byte | Missing_Pqc | Pqc_Forged | Journal_V2_Failed zk_error
| Guest_Mismatch | Logic_Mismatch | Groth16_Failed | Groth16_Error | Bad_Version byte | Worker_Error

definition present_bytes :: "bytes option \<Rightarrow> bytes option" where
  "present_bytes b = (case b of Some (x # xs) \<Rightarrow> Some (x # xs) | _ \<Rightarrow> None)"

definition verify_v1 :: "verifier_env \<Rightarrow> zk_task \<Rightarrow> bytes \<Rightarrow> string \<Rightarrow> decoded_receipt \<Rightarrow> rejection + string" where
  "verify_v1 env t logic remoteHex d =
     ebind (guard (zt_zkPolicy t \<noteq> Some ''required'') Policy_Violation) (\<lambda>_.
     (let localHex = hex_of (derive_logic_image_digest env logic) in
      ebind (guard (localHex = remoteHex) Integrity_Violation) (\<lambda>_.
      (case ve_parse env (ve_text env (dr_journal d)) of
         None \<Rightarrow> Inl Journal_Parse_Failed
       | Some journalData \<Rightarrow>
           ebind (case js_prop journalData ''image_id'' of
                    Some (JStr i) \<Rightarrow> guard (i = localHex) Journal_Mismatch
                  | _ \<Rightarrow> Inl Journal_Parse_Failed) (\<lambda>_.
           ebind (case present_bytes (zt_sessionSecret t) of
                    None \<Rightarrow> Inr ()
                  | Some secret \<Rightarrow>
                      (case timing_safe_equal (dr_proof d) (Rep_digest (ve_hmac env secret (dr_journal d))) of
                         Inl _ \<Rightarrow> Inl Worker_Error
                       | Inr same \<Rightarrow> guard same Invalid_Seal)) (\<lambda>_.
           ebind (if zt_expectedOutput t = JUndef then Inr ()
                  else (case js_prop journalData ''output_hash'' of
                          Some (JStr h) \<Rightarrow>
                            guard (h = hex_of (expected_output_digest env logic (zt_expectedOutput t))) Output_Mismatch
                        | _ \<Rightarrow> Inl Worker_Error)) (\<lambda>_.
             Inr ''hmac'')))))))"

definition check_pqc :: "verifier_env \<Rightarrow> decoded_receipt \<Rightarrow> rejection + unit" where
  "check_pqc env d =
     (if dr_proofType d = GROTH16_PQC_HYBRID then
        (case (dr_pqcSignature d, dr_pqcPublicKey d) of
           (Some sig, Some pk) \<Rightarrow>
             guard (dsa_verify (ve_dsa env) sig (Inl (Rep_digest (ve_sha env (dr_journal d @ dr_proof d)))) pk None) Pqc_Forged
         | _ \<Rightarrow> Inl Missing_Pqc)
      else Inr ())"

definition check_groth16 :: "verifier_env \<Rightarrow> bytes option \<Rightarrow> bytes \<Rightarrow> rejection + unit" where
  "check_groth16 env vkeyRaw proof =
     (case present_bytes vkeyRaw of
        None \<Rightarrow> Inr ()
      | Some raw \<Rightarrow>
          (case deserialize env raw of
             None \<Rightarrow> Inl Groth16_Error
           | Some vkey \<Rightarrow>
               (case deserialize env proof of
                  None \<Rightarrow> Inl Groth16_Error
                | Some pws \<Rightarrow> guard (verify_groth16_proof env vkey pws) Groth16_Failed)))"

definition verify_v2 :: "verifier_env \<Rightarrow> zk_task \<Rightarrow> bytes \<Rightarrow> decoded_receipt \<Rightarrow> rejection + string" where
  "verify_v2 env t logic d =
     ebind (guard (dr_proofType d = GROTH16 \<or> dr_proofType d = GROTH16_PQC_HYBRID) (Bad_Proof_Type (dr_proofType d))) (\<lambda>_.
     ebind (check_pqc env d) (\<lambda>_.
     (case decode_journal_v2 (dr_journal d) of
        Inl e \<Rightarrow> Inl (Journal_V2_Failed e)
      | Inr journal \<Rightarrow>
          ebind (case zt_guestImageIdHex t of
                   Some (c # cs) \<Rightarrow> guard (hex_of (guestImageId journal) = c # cs) Guest_Mismatch
                 | _ \<Rightarrow> Inr ()) (\<lambda>_.
          ebind (guard (logicDigest journal = derive_logic_image_digest env logic) Logic_Mismatch) (\<lambda>_.
          ebind (check_groth16 env (zt_vkeyRaw t) (dr_proof d)) (\<lambda>_.
          ebind (if zt_expectedOutput t = JUndef then Inr ()
                 else guard (outputDigest journal = expected_output_digest env logic (zt_expectedOutput t)) Output_Mismatch) (\<lambda>_.
            Inr (if dr_proofType d = GROTH16_PQC_HYBRID then ''groth16_pqc_hybrid'' else ''groth16'')))))))) "

definition worker_verify_receipt :: "verifier_env \<Rightarrow> zk_task \<Rightarrow> rejection + string" where
  "worker_verify_receipt env t =
     (case (zt_logicPayload t, zt_remoteImageIdHex t, zt_zkReceipt t) of
        (Some logic, Some (c # cs), Some raw) \<Rightarrow>
          (case decode (ve_sha env) raw of
             Inl e \<Rightarrow> Inl (Decode_Failed e)
           | Inr d \<Rightarrow>
               if dr_version d = RECEIPT_VERSION_V1 then verify_v1 env t logic (c # cs) d
               else if dr_version d = RECEIPT_VERSION_V2 then verify_v2 env t logic d
               else Inl (Bad_Version (dr_version d)))
      | _ \<Rightarrow> Inl Missing_Fields)"

section \<open>The verifier\<close>

record verify_zk_options =
  vz_sessionSecret :: "bytes option"
  vz_expectedOutput :: jval
  vz_guestImageIdHex :: "string option"
  vz_vkeyRaw :: "bytes option"
  vz_zkPolicy :: "string option"
  vz_circuitName :: "string option"

datatype secret_or_options = No_Options | Secret bytes | Options verify_zk_options

type_synonym vkey_registry = "(string, bytes) js_map"

definition register_vkey :: "string \<Rightarrow> bytes \<Rightarrow> vkey_registry \<Rightarrow> vkey_registry" where
  "register_vkey circuitName vkeyRaw reg = AList.update circuitName vkeyRaw reg"

definition get_registered_vkey :: "string \<Rightarrow> vkey_registry \<Rightarrow> bytes option" where
  "get_registered_vkey circuitName reg = map_of reg circuitName"

definition task_of ::
    "vkey_registry \<Rightarrow> bytes \<Rightarrow> string \<Rightarrow> bytes \<Rightarrow> secret_or_options \<Rightarrow> jval \<Rightarrow> zk_task" where
  "task_of reg logic remoteHex receipt opts expectedOutput =
     (let t = \<lparr>zt_logicPayload = Some logic, zt_remoteImageIdHex = Some remoteHex, zt_guestImageIdHex = None,
               zt_zkReceipt = Some receipt, zt_sessionSecret = None, zt_vkeyRaw = None,
               zt_expectedOutput = expectedOutput, zt_zkPolicy = None\<rparr> in
      case opts of
        No_Options \<Rightarrow> t
      | Secret s \<Rightarrow> t\<lparr>zt_sessionSecret := Some s\<rparr>
      | Options p \<Rightarrow>
          t\<lparr>zt_sessionSecret := vz_sessionSecret p,
            zt_expectedOutput := (if vz_expectedOutput p \<noteq> JUndef then vz_expectedOutput p else expectedOutput),
            zt_guestImageIdHex := vz_guestImageIdHex p, zt_zkPolicy := vz_zkPolicy p,
            zt_vkeyRaw := (case (vz_vkeyRaw p, vz_circuitName p) of
                             (Some v, _) \<Rightarrow> Some v
                           | (None, Some (c # cs)) \<Rightarrow> get_registered_vkey (c # cs) reg
                           | _ \<Rightarrow> None)\<rparr>)"

definition liop_verify_zk_receipt ::
    "verifier_env \<Rightarrow> vkey_registry \<Rightarrow> bytes \<Rightarrow> string \<Rightarrow> bytes \<Rightarrow> secret_or_options \<Rightarrow> jval \<Rightarrow> bool" where
  "liop_verify_zk_receipt env reg logic remoteHex receipt opts expectedOutput =
     (case worker_verify_receipt env (task_of reg logic remoteHex receipt opts expectedOutput) of
        Inl _ \<Rightarrow> False | Inr _ \<Rightarrow> True)"

section \<open>Hardware attestation\<close>

datatype tee_policy = Required | Preferred | Policy_None
datatype tee_platform = Amd_Sev_Snp | Aws_Nitro | Synthetic | No_Platform

record tee_options =
  to_policy :: "tee_policy option"
  to_expectedNonce :: "bytes option"
  to_expectedPublicKey :: "bytes option"
  to_expectedPcrs :: "(string \<times> string) list option"
  to_allowSynthetic :: bool

fun buffer_includes :: "bytes \<Rightarrow> bytes \<Rightarrow> bool" where
  "buffer_includes [] p = (p = [])"
| "buffer_includes (b # bs) p = (take (length p) (b # bs) = p \<or> buffer_includes bs p)"

definition expected_binding :: "verifier_env \<Rightarrow> tee_options \<Rightarrow> bytes option" where
  "expected_binding env opts =
     (case (to_expectedPublicKey opts, to_expectedNonce opts) of
        (None, None) \<Rightarrow> None
      | (pk, nonce) \<Rightarrow>
          Some (Rep_digest (ve_sha env ((case pk of None \<Rightarrow> [] | Some b \<Rightarrow> b) @ (case nonce of None \<Rightarrow> [] | Some b \<Rightarrow> b)))))"

definition is_nitro :: "bytes \<Rightarrow> bool" where
  "is_nitro report \<longleftrightarrow> (2 \<le> length report \<and> report ! 0 = 0xd2 \<and> report ! 1 = 0x84) \<or> buffer_includes report (utf8 ''pcrs'')"

definition verify_tee_attestation_detailed :: "verifier_env \<Rightarrow> bytes \<Rightarrow> tee_options \<Rightarrow> bool \<times> tee_platform" where
  "verify_tee_attestation_detailed env report opts =
     (let policy = (case to_policy opts of None \<Rightarrow> Preferred | Some p \<Rightarrow> p); binding = expected_binding env opts in
      if policy = Policy_None then (True, No_Platform)
      else if report = [] then (policy \<noteq> Required, No_Platform)
      else if take 4 report = [0x54, 0x45, 0x45, 0x53] then
        (\<not> (policy = Required \<and> \<not> to_allowSynthetic opts), Synthetic)
      else if 672 \<le> length report then
        (case binding of
           None \<Rightarrow> (True, Amd_Sev_Snp)
         | Some b \<Rightarrow> (subarray (subarray report 0x50 (0x50 + 64)) 0 (length b) = b, Amd_Sev_Snp))
      else if is_nitro report then
        (if (case to_expectedPcrs opts of None \<Rightarrow> False
             | Some pcrs \<Rightarrow> list_ex (\<lambda>(_, h). ve_fromHex env h \<noteq> [] \<and> \<not> buffer_includes report (ve_fromHex env h)) pcrs)
         then (False, Aws_Nitro)
         else (case binding of
                 None \<Rightarrow> (True, Aws_Nitro)
               | Some b \<Rightarrow> (buffer_includes report b, Aws_Nitro)))
      else (policy \<noteq> Required, No_Platform))"

definition verify_tee_attestation :: "verifier_env \<Rightarrow> bytes \<Rightarrow> tee_options \<Rightarrow> bool" where
  "verify_tee_attestation env report opts = fst (verify_tee_attestation_detailed env report opts)"

section \<open>Properties\<close>

lemma ebind_guard_Inr [simp]: "ebind (guard p e) f = Inr x \<longleftrightarrow> p \<and> f () = Inr x"
  by (cases p) auto

lemma ebind_unit_Inr: "ebind m f = Inr x \<longleftrightarrow> (m = Inr () \<and> f () = Inr x)" for m :: "'e + unit"
  by (cases m) auto

lemma present_bytes_Some [simp]: "present_bytes b = Some x \<longleftrightarrow> b = Some x \<and> x \<noteq> []"
  by (auto simp: present_bytes_def split: option.splits list.splits)

lemma present_bytes_None [simp]: "present_bytes b = None \<longleftrightarrow> b = None \<or> b = Some []"
  by (auto simp: present_bytes_def split: option.splits list.splits)

lemma check_pqc_Inr:
  "check_pqc env d = Inr () \<longleftrightarrow>
     (dr_proofType d = GROTH16_PQC_HYBRID \<longrightarrow>
       (\<exists>sig pk. dr_pqcSignature d = Some sig \<and> dr_pqcPublicKey d = Some pk \<and>
          dsa_verify (ve_dsa env) sig (Inl (Rep_digest (ve_sha env (dr_journal d @ dr_proof d)))) pk None))"
  by (auto simp: check_pqc_def split: option.splits)

lemma check_groth16_Inr:
  "check_groth16 env vk proof = Inr () \<longleftrightarrow>
     (\<forall>raw. vk = Some raw \<and> raw \<noteq> [] \<longrightarrow>
       (\<exists>vkey pws. deserialize env raw = Some vkey \<and> deserialize env proof = Some pws \<and> verify_groth16_proof env vkey pws))"
  by (cases "present_bytes vk") (auto simp: check_groth16_def split: option.splits)

lemma verify_v2_Inr:
  "verify_v2 env t logic d = Inr k \<longleftrightarrow>
     (dr_proofType d = GROTH16 \<or> dr_proofType d = GROTH16_PQC_HYBRID) \<and>
     check_pqc env d = Inr () \<and>
     (\<exists>j. decode_journal_v2 (dr_journal d) = Inr j \<and>
        (\<forall>g. zt_guestImageIdHex t = Some g \<and> g \<noteq> [] \<longrightarrow> hex_of (guestImageId j) = g) \<and>
        logicDigest j = derive_logic_image_digest env logic \<and>
        check_groth16 env (zt_vkeyRaw t) (dr_proof d) = Inr () \<and>
        (zt_expectedOutput t \<noteq> JUndef \<longrightarrow> outputDigest j = expected_output_digest env logic (zt_expectedOutput t))) \<and>
     k = (if dr_proofType d = GROTH16_PQC_HYBRID then ''groth16_pqc_hybrid'' else ''groth16'')"
proof -
  have g: "(case zt_guestImageIdHex t of Some (c # cs) \<Rightarrow> guard (hex_of (guestImageId j) = c # cs) Guest_Mismatch | _ \<Rightarrow> Inr ()) = Inr () \<longleftrightarrow>
      (\<forall>g. zt_guestImageIdHex t = Some g \<and> g \<noteq> [] \<longrightarrow> hex_of (guestImageId j) = g)" for j
    by (auto split: option.split list.split)
  have o: "(if zt_expectedOutput t = JUndef then Inr () else guard q Output_Mismatch) = Inr () \<longleftrightarrow> (zt_expectedOutput t \<noteq> JUndef \<longrightarrow> q)" for q
    by simp
  show ?thesis
    by (cases "decode_journal_v2 (dr_journal d)")
      (auto simp: verify_v2_def ebind_unit_Inr[of "check_pqc env d"] ebind_unit_Inr[of "check_groth16 env x y" for x y]
        ebind_unit_Inr[of "case zt_guestImageIdHex t of Some (c # cs) \<Rightarrow> guard (q c cs) Guest_Mismatch | _ \<Rightarrow> Inr ()" for q]
        ebind_unit_Inr[of "if zt_expectedOutput t = JUndef then Inr () else guard q Output_Mismatch" for q] g o)
qed

lemma verify_v1_Inr:
  assumes "verify_v1 env t logic remoteHex d = Inr k"
  shows "zt_zkPolicy t \<noteq> Some ''required'' \<and> remoteHex = hex_of (derive_logic_image_digest env logic) \<and>
     (\<exists>journalData. ve_parse env (ve_text env (dr_journal d)) = Some journalData \<and>
        js_prop journalData ''image_id'' = Some (JStr remoteHex) \<and>
        (zt_expectedOutput t \<noteq> JUndef \<longrightarrow>
           js_prop journalData ''output_hash'' = Some (JStr (hex_of (expected_output_digest env logic (zt_expectedOutput t)))))) \<and>
     (\<forall>s. zt_sessionSecret t = Some s \<and> s \<noteq> [] \<longrightarrow> dr_proof d = Rep_digest (ve_hmac env s (dr_journal d)))"
proof -
  obtain jd where jd: "ve_parse env (ve_text env (dr_journal d)) = Some jd"
    using assms by (auto simp: verify_v1_def Let_def split: option.splits)
  have seal: "dr_proof d = Rep_digest (ve_hmac env s (dr_journal d))"
    if "zt_sessionSecret t = Some s" "s \<noteq> []" for s
  proof -
    have "present_bytes (zt_sessionSecret t) = Some s" using that by simp
    then show ?thesis using assms jd
      by (auto simp: verify_v1_def Let_def ebind_unit_Inr timing_safe_equal_def split: if_splits option.splits jval.splits)
  qed
  have out: "js_prop jd ''output_hash'' = Some (JStr (hex_of (expected_output_digest env logic (zt_expectedOutput t))))"
    if "zt_expectedOutput t \<noteq> JUndef"
    using assms jd that
    by (auto simp: verify_v1_def Let_def ebind_unit_Inr split: option.splits jval.splits)
  have img: "js_prop jd ''image_id'' = Some (JStr (hex_of (derive_logic_image_digest env logic)))"
    "zt_zkPolicy t \<noteq> Some ''required''" "remoteHex = hex_of (derive_logic_image_digest env logic)"
    using assms jd by (auto simp: verify_v1_def Let_def ebind_unit_Inr split: option.splits jval.splits)
  show ?thesis using img jd out seal by auto
qed

text \<open>
  C8. What an accepted receipt says. A version 2 receipt has an intact checksum, a journal whose logic digest is
  that of the dispatched program and whose output digest is that of the expected output, the
  expected guest image, a valid Groth16 proof whenever a verification key is supplied, and a valid
  ML-DSA-65 signature when it is hybrid. A version 1 receipt is accepted only when the policy does not
  require a proof, and then names the image of the dispatched program and the expected output in a
  journal sealed with the session secret, when there is one.
\<close>

theorem accepted_receipt_binds:
  assumes "worker_verify_receipt env t = Inr k"
  shows "\<exists>logic raw d. zt_logicPayload t = Some logic \<and> zt_zkReceipt t = Some raw \<and> decode (ve_sha env) raw = Inr d \<and>
    (k = ''hmac'' \<and> dr_version d = RECEIPT_VERSION_V1 \<and> zt_zkPolicy t \<noteq> Some ''required'' \<and>
       zt_remoteImageIdHex t = Some (hex_of (derive_logic_image_digest env logic)) \<and>
       (\<exists>jd. ve_parse env (ve_text env (dr_journal d)) = Some jd \<and>
          js_prop jd ''image_id'' = Some (JStr (hex_of (derive_logic_image_digest env logic))) \<and>
          (zt_expectedOutput t \<noteq> JUndef \<longrightarrow>
             js_prop jd ''output_hash'' = Some (JStr (hex_of (expected_output_digest env logic (zt_expectedOutput t)))))) \<and>
       (\<forall>s. zt_sessionSecret t = Some s \<and> s \<noteq> [] \<longrightarrow> dr_proof d = Rep_digest (ve_hmac env s (dr_journal d))) \<or>
     k = (if dr_proofType d = GROTH16_PQC_HYBRID then ''groth16_pqc_hybrid'' else ''groth16'') \<and> dr_version d = RECEIPT_VERSION_V2 \<and>
       (\<exists>j. decode_journal_v2 (dr_journal d) = Inr j \<and>
          (\<forall>g. zt_guestImageIdHex t = Some g \<and> g \<noteq> [] \<longrightarrow> hex_of (guestImageId j) = g) \<and>
          logicDigest j = derive_logic_image_digest env logic \<and>
          (zt_expectedOutput t \<noteq> JUndef \<longrightarrow> outputDigest j = expected_output_digest env logic (zt_expectedOutput t))) \<and>
       (\<forall>vk. zt_vkeyRaw t = Some vk \<and> vk \<noteq> [] \<longrightarrow>
          (\<exists>vkey pws. deserialize env vk = Some vkey \<and> deserialize env (dr_proof d) = Some pws \<and> verify_groth16_proof env vkey pws)) \<and>
       (dr_proofType d = GROTH16_PQC_HYBRID \<longrightarrow>
          (\<exists>sig pk. dr_pqcSignature d = Some sig \<and> dr_pqcPublicKey d = Some pk \<and>
             dsa_verify (ve_dsa env) sig (Inl (Rep_digest (ve_sha env (dr_journal d @ dr_proof d)))) pk None)))"
proof -
  obtain logic remoteHex raw d where t: "zt_logicPayload t = Some logic" "zt_remoteImageIdHex t = Some remoteHex"
      "zt_zkReceipt t = Some raw" "decode (ve_sha env) raw = Inr d"
    and v: "dr_version d = RECEIPT_VERSION_V1 \<and> verify_v1 env t logic remoteHex d = Inr k \<or>
        dr_version d = RECEIPT_VERSION_V2 \<and> verify_v2 env t logic d = Inr k"
    using assms by (auto simp: worker_verify_receipt_def split: option.splits list.splits sum.splits if_splits)
  from v show ?thesis
  proof
    assume v1: "dr_version d = RECEIPT_VERSION_V1 \<and> verify_v1 env t logic remoteHex d = Inr k"
    then have "k = ''hmac''"
      by (auto simp: verify_v1_def Let_def ebind_unit_Inr split: option.splits)
    with v1 t verify_v1_Inr[of env t logic remoteHex d k] show ?thesis by auto
  next
    assume "dr_version d = RECEIPT_VERSION_V2 \<and> verify_v2 env t logic d = Inr k"
    then show ?thesis using t by (auto simp: verify_v2_Inr check_pqc_Inr check_groth16_Inr)
  qed
qed

lemma no_key_receipt:
  assumes "remoteHex \<noteq> []"
  shows "\<exists>journal raw. encode_v2 (ve_sha env) GROTH16 journal proof = Inr raw \<and>
     liop_verify_zk_receipt env reg logic remoteHex raw
       (Options \<lparr>vz_sessionSecret = s, vz_expectedOutput = out, vz_guestImageIdHex = None, vz_vkeyRaw = None,
                 vz_zkPolicy = Some ''required'', vz_circuitName = None\<rparr>) JUndef"
proof -
  let ?j = "\<lparr>guestImageId = replicate 32 0, logicDigest = derive_logic_image_digest env logic, datasetDigest = replicate 32 0,
             outputDigest = expected_output_digest env logic out, fuelConsumed = 0, executionTimestamp = 0\<rparr>"
  have len: "length (derive_logic_image_digest env logic) = 32" "length (expected_output_digest env logic out) = 32"
    by (simp_all add: derive_logic_image_digest_def expected_output_digest_def Let_def)
  then obtain journal where enc: "encode_journal_v2 ?j = Inr journal" and dec: "decode_journal_v2 journal = Inr ?j"
    using journal_v2.enc_ok[of ?j] journal_v2.dec_enc[of ?j] by (auto simp: journal_ok_def)
  have "length journal = 144" using dec by (simp add: decode_journal_v2_iff)
  then obtain raw where raw: "encode_v2 (ve_sha env) GROTH16 journal proof = Inr raw"
    by (simp add: encode_v2_def write_uint_def)
  let ?d = "\<lparr>dr_version = RECEIPT_VERSION_V2, dr_proofType = GROTH16, dr_journal = journal, dr_proof = proof,
             dr_raw = raw, dr_pqcSignature = None, dr_pqcPublicKey = None\<rparr>"
  have "decode (ve_sha env) raw = Inr ?d"
    using decode_v2_encode[OF raw] by (simp add: receipt_consts)
  moreover obtain c cs where "remoteHex = c # cs" using assms by (cases remoteHex) auto
  moreover have "verify_v2 env t logic ?d = Inr ''groth16''"
    if "zt_guestImageIdHex t = None" "zt_vkeyRaw t = None" "zt_expectedOutput t \<noteq> JUndef \<longrightarrow> zt_expectedOutput t = out" for t
    using that dec by (auto simp: verify_v2_Inr check_pqc_Inr check_groth16_Inr receipt_consts)
  ultimately have "liop_verify_zk_receipt env reg logic remoteHex raw
       (Options \<lparr>vz_sessionSecret = s, vz_expectedOutput = out, vz_guestImageIdHex = None, vz_vkeyRaw = None,
                 vz_zkPolicy = Some ''required'', vz_circuitName = None\<rparr>) JUndef"
    by (simp add: liop_verify_zk_receipt_def worker_verify_receipt_def task_of_def receipt_consts Let_def)
  with raw show ?thesis by blast
qed

text \<open>
  Without a verification key a version 2 receipt proves nothing: from the program and the output alone, for
  any bytes in place of the proof, one builds a receipt that passes the verifier even when the policy
  requires a zero-knowledge proof. The receipt's checksum has no key.
\<close>

theorem groth16_unchecked_without_key:
  assumes "remoteHex \<noteq> []"
  shows "\<exists>journal raw. encode_v2 (ve_sha env) GROTH16 journal proof = Inr raw \<and>
     liop_verify_zk_receipt env reg logic remoteHex raw
       (Options \<lparr>vz_sessionSecret = s, vz_expectedOutput = out, vz_guestImageIdHex = None, vz_vkeyRaw = None,
                 vz_zkPolicy = Some ''required'', vz_circuitName = None\<rparr>) JUndef"
  using assms by (rule no_key_receipt)

section \<open>Attestation\<close>

text \<open>
  Under the policy \<open>required\<close> a report is accepted exactly in three cases: a synthetic report when synthetic
  reports are allowed; any other report of at least 672 bytes whose report data begins with the
  digest of the expected key and nonce, when one is expected; a shorter document with a Nitro
  marker that contains every expected register and that digest.
\<close>

theorem tee_required_exact:
  assumes "to_policy opts = Some Required"
  shows "verify_tee_attestation env report opts \<longleftrightarrow>
     (if take 4 report = [0x54, 0x45, 0x45, 0x53] then to_allowSynthetic opts
      else if 672 \<le> length report then
        (\<forall>b. expected_binding env opts = Some b \<longrightarrow> subarray report 0x50 (0x50 + 32) = b)
      else
        is_nitro report \<and> report \<noteq> [] \<and>
        (\<forall>pcrs i h. to_expectedPcrs opts = Some pcrs \<and> (i, h) \<in> set pcrs \<and> ve_fromHex env h \<noteq> [] \<longrightarrow>
           buffer_includes report (ve_fromHex env h)) \<and>
        (\<forall>b. expected_binding env opts = Some b \<longrightarrow> buffer_includes report b))"
proof -
  have len: "length b = 32" if "expected_binding env opts = Some b" for b
    using that by (auto simp: expected_binding_def split: option.splits)
  have sub: "subarray (subarray report 0x50 (0x50 + 64)) 0 (length b) = subarray report 0x50 (0x50 + 32)"
    if "expected_binding env opts = Some b" for b
    using len[OF that] by (simp add: subarray_def)
  show ?thesis
    using assms sub
    by (auto simp: verify_tee_attestation_def verify_tee_attestation_detailed_def Let_def list_ex_iff split: option.splits)
qed

text \<open>A report of 672 bytes that anybody can write down: the expected digest at offset 80 and zeros elsewhere.\<close>

definition bare_report :: "bytes \<Rightarrow> bytes" where
  "bare_report digest = replicate 80 0 @ digest @ replicate (592 - length digest) 0"

definition demo_tee_env :: verifier_env where
  "demo_tee_env = \<lparr>ve_sha = (\<lambda>_. Abs_digest (replicate 32 1)), ve_hmac = (\<lambda>_ _. Abs_digest (replicate 32 2)), ve_text = (\<lambda>_. []),
     ve_parse = (\<lambda>_. None), ve_stringify = (\<lambda>_. []), ve_fromHex = (\<lambda>_. []), ve_dsa = demo_dsa, ve_decode = (\<lambda>_. None),
     ve_groth = (\<lambda>_ _. None)\<rparr>"

definition strict_tee :: "bytes \<Rightarrow> tee_options" where
  "strict_tee pk = \<lparr>to_policy = Some Required, to_expectedNonce = None, to_expectedPublicKey = Some pk, to_expectedPcrs = None,
     to_allowSynthetic = False\<rparr>"

theorem tee_required_exact_witness:
  "verify_tee_attestation demo_tee_env (bare_report (replicate 32 1)) (strict_tee [5]) \<and>
   \<not> verify_tee_attestation demo_tee_env (bare_report (replicate 32 2)) (strict_tee [5])"
proof -
  have head: "take 4 (bare_report b) \<noteq> [0x54, 0x45, 0x45, 0x53]" for b
  proof
    assume "take 4 (bare_report b) = [0x54, 0x45, 0x45, 0x53]"
    then have "take 4 (bare_report b) ! 0 = 0x54" by simp
    then show False by (simp add: bare_report_def nth_append)
  qed
  have data: "subarray (bare_report b) 0x50 (0x50 + 32) = b" "672 \<le> length (bare_report b)" if "length b = 32" for b
    using that by (simp_all add: bare_report_def subarray_def)
  have bind: "expected_binding demo_tee_env (strict_tee [5]) = Some (replicate 32 1)"
    by (simp add: expected_binding_def demo_tee_env_def strict_tee_def)
  have "verify_tee_attestation demo_tee_env (bare_report b) (strict_tee [5]) \<longleftrightarrow> b = replicate 32 1" if "length b = 32" for b
    using tee_required_exact[of "strict_tee [5]" demo_tee_env "bare_report b"] head[of b] data[OF that] bind
    by (simp add: strict_tee_def)
  moreover have "replicate 32 (2 :: byte) \<noteq> replicate 32 1" by (simp add: replicate_eq_replicate)
  ultimately show ?thesis by simp
qed

theorem groth16_unchecked_without_key_witness:
  "\<exists>journal raw. encode_v2 (ve_sha demo_tee_env) GROTH16 journal [9, 9, 9] = Inr raw \<and>
     liop_verify_zk_receipt demo_tee_env [] [1, 2] ''00'' raw
       (Options \<lparr>vz_sessionSecret = None, vz_expectedOutput = JStr ''out'', vz_guestImageIdHex = None, vz_vkeyRaw = None,
                 vz_zkPolicy = Some ''required'', vz_circuitName = None\<rparr>) JUndef"
  by (rule groth16_unchecked_without_key) simp

theorem accepted_receipt_binds_witness:
  "\<exists>t k. worker_verify_receipt demo_tee_env t = Inr k \<and> (\<exists>logic. zt_logicPayload t = Some logic)"
proof -
  obtain raw where "liop_verify_zk_receipt demo_tee_env [] [1, 2] ''00'' raw
      (Options \<lparr>vz_sessionSecret = None, vz_expectedOutput = JStr ''out'', vz_guestImageIdHex = None, vz_vkeyRaw = None,
                vz_zkPolicy = Some ''required'', vz_circuitName = None\<rparr>) JUndef"
    using no_key_receipt[of "''00''" demo_tee_env "[9, 9, 9]" "[]" "[1, 2]" None "JStr ''out''"] by auto
  then obtain t k where "worker_verify_receipt demo_tee_env t = Inr k"
    by (auto simp: liop_verify_zk_receipt_def split: sum.splits)
  with accepted_receipt_binds[OF this] show ?thesis by blast
qed

section \<open>Envelopes\<close>

lemma ends_with_append [simp]: "ends_with (x @ y) y"
  by (simp add: ends_with_def)

lemma trim_all_space: "\<forall>x\<in>set s. js_space x \<Longrightarrow> trim s = []"
  by (simp add: trim_def dropWhile_eq_Nil_conv[THEN iffD2])

lemma trim_newlines: "newline a \<Longrightarrow> newline b \<Longrightarrow> trim (a # s @ [b]) = trim s"
proof -
  assume "newline a" "newline b"
  then have sp: "js_space a" "js_space b" by (auto simp: newline_def js_space_def)
  show ?thesis
  proof (cases "dropWhile js_space s = []")
    case True
    then have "\<forall>x\<in>set s. js_space x" by (simp add: dropWhile_eq_Nil_conv)
    then show ?thesis using sp by (simp add: trim_all_space)
  next
    case False
    then obtain x where "x \<in> set s" "\<not> js_space x" by (auto simp: dropWhile_eq_Nil_conv)
    then have "dropWhile js_space (a # s @ [b]) = dropWhile js_space s @ [b]" using sp by (simp add: dropWhile_append1)
    then show ?thesis using sp by (simp add: trim_def)
  qed
qed

text \<open>
  The image identifier does not depend on the envelope: a program inside a top-level envelope, with any
  header and white space around it, has the digest of the program alone.
\<close>

theorem image_id_ignores_envelope:
  assumes "header \<noteq> []" "CHR ''}'' \<notin> set header" "list_all js_space pre" "list_all js_space post" "newline n1" "newline n2"
    and "envelope_body body = None"
  shows "normalize_logic_source (pre @ ''@LIOP{'' @ header @ ''}'' @ [n1] @ body @ [n2] @ ''@END'' @ post) = normalize_logic_source body"
proof -
  let ?rest = "''}'' @ [n1] @ body @ [n2] @ ''@END'' @ post" and ?u = "[n1] @ body @ [n2] @ ''@END''"
  have ink: "\<not> js_space CHR ''@''" "\<not> js_space CHR ''D''" by (simp_all add: js_space_def)
  have pre: "dropWhile js_space (pre @ ''@LIOP{'' @ header @ ?rest) = ''@LIOP{'' @ header @ ?rest"
    using assms(3) ink by (simp add: dropWhile_append2 list_all_iff)
  have hd: "takeWhile (\<lambda>c. c \<noteq> CHR ''}'') (header @ ?rest) = header"
    using assms(2) by (subst takeWhile_append2) auto
  have post: "rev (dropWhile js_space (rev (tl ?rest))) = ?u"
    using assms(4) ink dropWhile_append2[of "rev post" js_space "rev ?u"] by (simp add: list_all_iff)
  have m: "take (length ?u - 4) ?u = n1 # body @ [n2]" by simp
  have "envelope_body (pre @ ''@LIOP{'' @ header @ ?rest) = Some (trim body)"
    unfolding envelope_body_def pre
    using assms(1,5,6) hd post m trim_newlines[OF assms(5,6), of body]
    by (simp add: Let_def starts_with_def ends_with_def)
  then show ?thesis using assms(7) by (simp add: normalize_logic_source_def)
qed

theorem image_id_ignores_envelope_witness:
  "normalize_logic_source ('' '' @ ''@LIOP{'' @ ''v1'' @ ''}'' @ [CHR 0x0A] @ ''return 1'' @ [CHR 0x0A] @ ''@END'' @ '' '') =
   normalize_logic_source ''return 1''"
  by (rule image_id_ignores_envelope) (simp_all add: newline_def js_space_def envelope_body_def starts_with_def)

end
