(* ===== verification/Privacy_Engine.thy ===== *)
theory Privacy_Engine
  imports Json_Text Receipt_Codec
begin

text \<open>
  \<open>security/dp-engine.ts\<close> (Laplace noise on the numbers of a result) and
  \<open>server/output-sanitizer.ts\<close> (rounding and clamping).

  Numbers are exact reals: the logarithm is the real one and the floating-point rounding of the
  intermediate results is not modelled. SHA-256 is a parameter; \<open>crypto.randomBytes(4)\<close> is a
  stream \<open>rnd\<close> of 32-bit values, read one per draw. The rejection loop of \<open>laplaceSample\<close> is a
  \<open>partial_function\<close>: an endless run is \<open>None\<close>, and that enough randomness ends it is proved.
  A field named \<open>__proto__\<close> does not survive \<open>result[key] = ...\<close>, which would set the prototype.
\<close>

section \<open>Values up to their numbers\<close>

definition own_fields :: "(string \<times> jval) list \<Rightarrow> (string \<times> jval) list" where
  "own_fields fs = filter (\<lambda>p. fst p \<noteq> ''__proto__'') fs"

lemma own_fields_size [termination_simp]:
  "p \<in> set (own_fields fs) \<Longrightarrow> size (snd p) < Suc (size_list (size_prod (\<lambda>x. 0) size) fs)"
  using size_snd_field [of p fs] by (simp add: own_fields_def)

text \<open>Every number of a value satisfies \<open>P\<close>.\<close>

fun jall :: "(jsnum \<Rightarrow> bool) \<Rightarrow> jval \<Rightarrow> bool" where
  "jall P (JNum n) = P n"
| "jall P (JArr i xs) = list_all (jall P) xs"
| "jall P (JObj i fs) = list_all (\<lambda>p. jall P (snd p)) fs"
| "jall P v = True"

text \<open>Two values of the same shape whose numbers are related by \<open>R\<close>; everything else is equal.\<close>

fun jrel :: "(jsnum \<Rightarrow> jsnum \<Rightarrow> bool) \<Rightarrow> jval \<Rightarrow> jval \<Rightarrow> bool" where
  "jrel R (JNum a) w = (case w of JNum b \<Rightarrow> R a b | _ \<Rightarrow> False)"
| "jrel R (JArr i xs) w = (case w of JArr j ys \<Rightarrow> list_all2 (\<lambda>x y. jrel R x y) xs ys | _ \<Rightarrow> False)"
| "jrel R (JObj i fs) w =
     (case w of JObj j gs \<Rightarrow> list_all2 (\<lambda>p q. fst p = fst q \<and> jrel R (snd p) (snd q)) (own_fields fs) gs | _ \<Rightarrow> False)"
| "jrel R v w = (v = w)"

section \<open>Differential privacy\<close>

record dp_config =
  dp_epsilon :: real
  dp_sensitivity :: real
  dp_smallDatasetThreshold :: int
  dp_seed :: "string option"

definition DEFAULT_DP_CONFIG :: dp_config where
  "DEFAULT_DP_CONFIG = \<lparr>dp_epsilon = 1, dp_sensitivity = 1, dp_smallDatasetThreshold = 50, dp_seed = None\<rparr>"

text \<open>A caller's \<open>Partial<DpConfig>\<close> and \<open>{ ...DEFAULT_DP_CONFIG, ...config }\<close>.\<close>

record partial_dp_config =
  pd_epsilon :: "real option"
  pd_sensitivity :: "real option"
  pd_smallDatasetThreshold :: "int option"
  pd_seed :: "string option"

definition given :: "'a option \<Rightarrow> 'a \<Rightarrow> 'a" where
  "given a b = (case a of None \<Rightarrow> b | Some x \<Rightarrow> x)"

definition merge_dp_config :: "partial_dp_config \<Rightarrow> dp_config" where
  "merge_dp_config config =
     \<lparr>dp_epsilon = given (pd_epsilon config) (dp_epsilon DEFAULT_DP_CONFIG),
      dp_sensitivity = given (pd_sensitivity config) (dp_sensitivity DEFAULT_DP_CONFIG),
      dp_smallDatasetThreshold = given (pd_smallDatasetThreshold config) (dp_smallDatasetThreshold DEFAULT_DP_CONFIG),
      dp_seed = pd_seed config\<rparr>"

definition EPSILON_FLOOR :: real where
  "EPSILON_FLOOR = 1"

definition EPSILON_FLOOR_THRESHOLD :: int where
  "EPSILON_FLOOR_THRESHOLD = 10"

text \<open>One draw: \<open>Some seed\<close> hashes the seed and the counter, \<open>None\<close> reads the random stream.\<close>

definition draw :: "(bytes \<Rightarrow> digest) \<Rightarrow> (nat \<Rightarrow> 32 word) \<Rightarrow> string option \<Rightarrow> nat \<Rightarrow> real" where
  "draw sha rnd seed counter =
     (case seed of
        Some s \<Rightarrow> real (be_val (subarray (Rep_digest (sha (utf8 (s @ '':'' @ show_nat counter)))) 0 4)) / 2 ^ 32 - 1 / 2
      | None \<Rightarrow> real_of_int (sint (rnd counter)) / 2 ^ 32)"

partial_function (option) uniform :: "(nat \<Rightarrow> real) \<Rightarrow> nat \<Rightarrow> (real \<times> nat) option" where
  "uniform d counter =
     (let u = d counter in
      if u = 0 \<or> u = - (1 / 2) then uniform d (counter + 1) else Some (u, counter + 1))"

definition laplace_sample :: "(nat \<Rightarrow> real) \<Rightarrow> real \<Rightarrow> nat \<Rightarrow> (real \<times> nat) option" where
  "laplace_sample d scale counter =
     (case uniform d counter of
        None \<Rightarrow> None
      | Some (u, counter) \<Rightarrow> Some (- scale * sgn u * ln (1 - 2 * \<bar>u\<bar>), counter))"

text \<open>\<open>Math.round\<close>: ties go up.\<close>

definition math_round :: "real \<Rightarrow> real" where
  "math_round x = of_int \<lfloor>x + 1 / 2\<rfloor>"

definition add_laplace_noise :: "(nat \<Rightarrow> real) \<Rightarrow> real \<Rightarrow> dp_config \<Rightarrow> nat \<Rightarrow> (real \<times> nat) option" where
  "add_laplace_noise d value merged counter =
     (let scale = dp_sensitivity merged / dp_epsilon merged in
      case laplace_sample d scale counter of
        None \<Rightarrow> None
      | Some (noise, counter) \<Rightarrow>
          (let noisyValue = value + noise in Some (math_round (noisyValue * 10000) / 10000, counter)))"

definition any_of :: "string list \<Rightarrow> string \<Rightarrow> bool" where
  "any_of ws s = list_ex (str_includes s) ws"

text \<open>\<open>/total.*(count|items|...)/\<close>, where \<open>.\<close> does not match a line terminator.\<close>

fun dot_star_then :: "string list \<Rightarrow> string \<Rightarrow> bool" where
  "dot_star_then ws [] = list_ex (starts_with []) ws"
| "dot_star_then ws (c # cs) =
     (list_ex (starts_with (c # cs)) ws \<or> (c \<noteq> CHR 0x0A \<and> c \<noteq> CHR 0x0D \<and> dot_star_then ws cs))"

fun total_then :: "string list \<Rightarrow> string \<Rightarrow> bool" where
  "total_then ws [] = False"
| "total_then ws (c # cs) =
     ((starts_with (c # cs) ''total'' \<and> dot_star_then ws (drop 5 (c # cs))) \<or> total_then ws cs)"

definition is_count_key :: "string \<Rightarrow> bool" where
  "is_count_key lk \<longleftrightarrow>
     any_of [''count'', ''length'', ''size'', ''num'', ''gainer'', ''loser'', ''positive'', ''negative'', ''nan_'',
             ''null_'', ''empty_'', ''finite_'', ''non_finite_'', ''instruments'', ''tickers'', ''users'', ''records''] lk \<or>
     (lk = ''total'' \<or> lk = ''n'' \<or> lk = ''total_records'' \<or> starts_with lk ''total_'' \<or> starts_with lk ''num_'' \<or>
      total_then [''count'', ''items'', ''entries'', ''rows'', ''records'', ''tickers''] lk)"

definition is_average_key :: "string \<Rightarrow> bool" where
  "is_average_key lk \<longleftrightarrow>
     any_of [''avg'', ''mean'', ''average'', ''var'', ''variance'', ''std'', ''stddev'', ''ratio'', ''bps'', ''drift'',
             ''pct'', ''percent'', ''imbalance''] lk"

definition derive_field_sensitivity :: "string option \<Rightarrow> real \<Rightarrow> int \<Rightarrow> real" where
  "derive_field_sensitivity key globalSensitivity recordCount =
     (case key of
        None \<Rightarrow> globalSensitivity
      | Some k \<Rightarrow>
          if k = [] then globalSensitivity
          else
            (let lk = to_lower k in
             if is_count_key lk then 1
             else if is_average_key lk \<and> recordCount > 0 then globalSensitivity / of_int recordCount
             else globalSensitivity))"

definition noise_number ::
    "(nat \<Rightarrow> real) \<Rightarrow> dp_config \<Rightarrow> int \<Rightarrow> string option \<Rightarrow> real \<Rightarrow> nat \<Rightarrow> (real \<times> nat) option" where
  "noise_number d config recordCount currentKey node counter =
     (let fieldSensitivity = derive_field_sensitivity currentKey (dp_sensitivity config) recordCount in
      case add_laplace_noise d node (config\<lparr>dp_sensitivity := fieldSensitivity\<rparr>) counter of
        None \<Rightarrow> None
      | Some (noisyValue, counter) \<Rightarrow>
          (let isCountKey = (currentKey \<noteq> None \<and>
                 derive_field_sensitivity currentKey (dp_sensitivity config) recordCount = 1);
               noisyValue = (if node \<in> \<int> \<or> isCountKey then math_round noisyValue else noisyValue);
               noisyValue = (if node \<ge> 0 then max 0 noisyValue else noisyValue)
           in Some (noisyValue, counter)))"

fun walk_and_noise ::
    "(nat \<Rightarrow> real) \<Rightarrow> dp_config \<Rightarrow> int \<Rightarrow> string option \<Rightarrow> jval \<Rightarrow> nat \<Rightarrow> (jval \<times> nat) option"
  and noise_items ::
    "(nat \<Rightarrow> real) \<Rightarrow> dp_config \<Rightarrow> int \<Rightarrow> string option \<Rightarrow> jval list \<Rightarrow> nat \<Rightarrow> (jval list \<times> nat) option"
  and noise_fields ::
    "(nat \<Rightarrow> real) \<Rightarrow> dp_config \<Rightarrow> int \<Rightarrow> (string \<times> jval) list \<Rightarrow> nat \<Rightarrow> ((string \<times> jval) list \<times> nat) option" where
  "walk_and_noise d config n currentKey (JNum (Fin x)) c =
     (case noise_number d config n currentKey x c of None \<Rightarrow> None | Some (y, c) \<Rightarrow> Some (JNum (Fin y), c))"
| "walk_and_noise d config n currentKey (JArr i xs) c =
     (case noise_items d config n currentKey xs c of None \<Rightarrow> None | Some (ys, c) \<Rightarrow> Some (JArr None ys, c))"
| "walk_and_noise d config n currentKey (JObj i fs) c =
     (case noise_fields d config n fs c of None \<Rightarrow> None | Some (gs, c) \<Rightarrow> Some (JObj None gs, c))"
| "walk_and_noise d config n currentKey v c = Some (v, c)"
| "noise_items d config n currentKey [] c = Some ([], c)"
| "noise_items d config n currentKey (x # xs) c =
     (case walk_and_noise d config n currentKey x c of None \<Rightarrow> None
      | Some (y, c) \<Rightarrow> (case noise_items d config n currentKey xs c of None \<Rightarrow> None
                       | Some (ys, c) \<Rightarrow> Some (y # ys, c)))"
| "noise_fields d config n [] c = Some ([], c)"
| "noise_fields d config n ((key, value) # fs) c =
     (case walk_and_noise d config n (Some key) value c of None \<Rightarrow> None
      | Some (y, c) \<Rightarrow> (case noise_fields d config n fs c of None \<Rightarrow> None
                       | Some (gs, c) \<Rightarrow> Some ((if key = ''__proto__'' then gs else (key, y) # gs), c)))"

definition active_seed :: "dp_config \<Rightarrow> string option" where
  "active_seed merged = (case dp_seed merged of Some s \<Rightarrow> if s = [] then None else Some s | None \<Rightarrow> None)"

definition apply_dp_to_output ::
    "(bytes \<Rightarrow> digest) \<Rightarrow> (nat \<Rightarrow> 32 word) \<Rightarrow> jval \<Rightarrow> partial_dp_config \<Rightarrow> int \<Rightarrow> jval option" where
  "apply_dp_to_output sha rnd output config recordCount =
     (let merged = merge_dp_config config in
      if recordCount \<ge> dp_smallDatasetThreshold merged then Some output
      else
        (let merged = (if recordCount < EPSILON_FLOOR_THRESHOLD \<and> dp_epsilon merged < EPSILON_FLOOR
                       then merged\<lparr>dp_epsilon := EPSILON_FLOOR\<rparr> else merged);
             prngState = active_seed merged
         in map_option fst (walk_and_noise (draw sha rnd prngState) merged recordCount None output 0)))"

section \<open>The sanitizer\<close>

record sanitizer_config =
  sc_maxDecimalPlaces :: nat
  sc_clampNonNegative :: bool

definition DEFAULT_CONFIG :: sanitizer_config where
  "DEFAULT_CONFIG = \<lparr>sc_maxDecimalPlaces = 4, sc_clampNonNegative = True\<rparr>"

definition sanitize_number :: "sanitizer_config \<Rightarrow> real \<Rightarrow> real" where
  "sanitize_number merged node =
     (let value = (if sc_clampNonNegative merged \<and> node < 0 then 0 else node);
          factor = 10 ^ sc_maxDecimalPlaces merged
      in math_round (value * factor) / factor)"

fun sanitize_walk :: "sanitizer_config \<Rightarrow> nat set \<Rightarrow> jval \<Rightarrow> jval \<times> nat set"
  and sanitize_items :: "sanitizer_config \<Rightarrow> nat set \<Rightarrow> jval list \<Rightarrow> jval list \<times> nat set"
  and sanitize_fields :: "sanitizer_config \<Rightarrow> nat set \<Rightarrow> (string \<times> jval) list \<Rightarrow> (string \<times> jval) list \<times> nat set" where
  "sanitize_walk merged seen (JNum (Fin x)) = (JNum (Fin (sanitize_number merged x)), seen)"
| "sanitize_walk merged seen (JArr i xs) =
     (if visited i seen then (JArr i xs, seen)
      else (let (ys, seen) = sanitize_items merged (visit i seen) xs in (JArr None ys, seen)))"
| "sanitize_walk merged seen (JObj i fs) =
     (if visited i seen then (JObj i fs, seen)
      else (let (gs, seen) = sanitize_fields merged (visit i seen) fs in (JObj None gs, seen)))"
| "sanitize_walk merged seen v = (v, seen)"
| "sanitize_items merged seen [] = ([], seen)"
| "sanitize_items merged seen (x # xs) =
     (let (y, seen) = sanitize_walk merged seen x; (ys, seen) = sanitize_items merged seen xs in (y # ys, seen))"
| "sanitize_fields merged seen [] = ([], seen)"
| "sanitize_fields merged seen ((key, val) # fs) =
     (let (y, seen) = sanitize_walk merged seen val; (gs, seen) = sanitize_fields merged seen fs
      in ((if key = ''__proto__'' then gs else (key, y) # gs), seen))"

definition sanitize_output :: "sanitizer_config \<Rightarrow> jval \<Rightarrow> jval" where
  "sanitize_output merged output = fst (sanitize_walk merged {} output)"

section \<open>Sampling\<close>

text \<open>A stream of draws that never runs out of usable values.\<close>

definition fair :: "(nat \<Rightarrow> real) \<Rightarrow> bool" where
  "fair d \<longleftrightarrow> (\<forall>c. \<exists>k\<ge>c. d k \<noteq> 0 \<and> d k \<noteq> - (1 / 2))"

lemma uniform_total: "fair d \<Longrightarrow> \<exists>u c'. uniform d c = Some (u, c')"
proof -
  assume "fair d"
  then obtain k where k: "c \<le> k" "d k \<noteq> 0" "d k \<noteq> - (1 / 2)" by (auto simp: fair_def)
  then show ?thesis
  proof (induction "k - c" arbitrary: c)
    case 0
    then show ?case by (subst uniform.simps) simp
  next
    case (Suc n)
    then show ?case by (subst uniform.simps) (simp add: Let_def)
  qed
qed

lemma uniform_result: "uniform d c = Some r \<Longrightarrow> \<exists>k. fst r = d k \<and> d k \<noteq> 0 \<and> d k \<noteq> - (1 / 2)"
  by (rule uniform.raw_induct [where P = "\<lambda>d c r. \<exists>k. fst r = d k \<and> d k \<noteq> 0 \<and> d k \<noteq> - (1 / 2)"])
     (auto simp: Let_def split: if_splits)

text \<open>Both sources give multiples of \<open>2\<^sup>-\<^sup>3\<^sup>2\<close> in \<open>[-1/2, 1/2)\<close>.\<close>

lemma draw_grid: "\<exists>k. draw sha rnd seed c = real_of_int k / 2 ^ 32 \<and> - (2 ^ 31) \<le> k \<and> k < 2 ^ 31"
proof (cases seed)
  case None
  have "- (2 ^ 31) \<le> sint (rnd c)" "sint (rnd c) < 2 ^ 31"
    using sint_ge [of "rnd c"] sint_lt [of "rnd c"] by simp_all
  with None show ?thesis unfolding draw_def by (intro exI [of _ "sint (rnd c)"]) simp
next
  case (Some s)
  let ?b = "be_val (subarray (Rep_digest (sha (utf8 (s @ '':'' @ show_nat c)))) 0 4)"
  have "?b < 256 ^ 4"
    using be_val_bound [of "subarray (Rep_digest (sha (utf8 (s @ '':'' @ show_nat c)))) 0 4"] by simp
  then have "draw sha rnd seed c = real_of_int (int ?b - 2 ^ 31) / 2 ^ 32" "int ?b - 2 ^ 31 < 2 ^ 31"
    by (simp_all add: draw_def Some field_simps)
  then show ?thesis by (intro exI [of _ "int ?b - 2 ^ 31"]) simp
qed

lemma log_bound:
  assumes "\<bar>k\<bar> < (2 :: int) ^ 31" and u: "u = real_of_int k / 2 ^ 32"
  shows "- (31 * ln 2) \<le> ln (1 - 2 * \<bar>u\<bar>) \<and> ln (1 - 2 * \<bar>u\<bar>) \<le> 0"
proof -
  have "2 * \<bar>u\<bar> = real_of_int \<bar>k\<bar> / 2 ^ 31" unfolding u by (simp add: abs_divide)
  moreover have "real_of_int \<bar>k\<bar> \<le> real_of_int (2 ^ 31 - 1)"
    using assms(1) by (simp only: of_int_le_iff)
  ultimately have low: "1 / 2 ^ 31 \<le> 1 - 2 * \<bar>u\<bar>" by (simp add: field_simps)
  have "ln ((2 :: real) ^ 31) = real 31 * ln 2" by (rule ln_realpow)
  then have "ln (1 / 2 ^ 31 :: real) = - (31 * ln 2)"
    by (metis inverse_eq_divide ln_inverse of_nat_numeral zero_less_numeral zero_less_power)
  moreover have "ln (1 / 2 ^ 31 :: real) \<le> ln (1 - 2 * \<bar>u\<bar>)"
    using low by (subst ln_le_cancel_iff) auto
  moreover have "0 < 1 - 2 * \<bar>u\<bar>" using low by (rule less_le_trans [rotated]) simp
  ultimately show ?thesis using ln_le_zero_iff [of "1 - 2 * \<bar>u\<bar>"] by simp
qed

lemma laplace_bound:
  assumes "laplace_sample (draw sha rnd seed) scale c = Some (x, c')" "0 \<le> scale"
  shows "\<bar>x\<bar> \<le> scale * (31 * ln 2)"
proof -
  from assms(1) obtain u where "uniform (draw sha rnd seed) c = Some (u, c')"
    and x: "x = - scale * sgn u * ln (1 - 2 * \<bar>u\<bar>)"
    by (auto simp: laplace_sample_def split: option.splits)
  from uniform_result [OF this(1)] obtain n where "u = draw sha rnd seed n" and u: "u \<noteq> 0" "u \<noteq> - (1 / 2)" by auto
  with draw_grid [of sha rnd seed n] obtain k where k: "u = real_of_int k / 2 ^ 32" "- (2 ^ 31) \<le> k" "k < 2 ^ 31" by auto
  then have "\<bar>k\<bar> < 2 ^ 31" using u by (cases "k = - (2 ^ 31)") auto
  from log_bound [OF this k(1)] have "\<bar>ln (1 - 2 * \<bar>u\<bar>)\<bar> \<le> 31 * ln 2" by simp
  moreover have "\<bar>x\<bar> = scale * \<bar>ln (1 - 2 * \<bar>u\<bar>)\<bar>"
    using assms(2) u(1) by (simp add: x abs_mult abs_sgn_eq)
  ultimately show ?thesis using assms(2) by (simp add: mult_left_mono)
qed

lemma laplace_total: "fair d \<Longrightarrow> \<exists>x c'. laplace_sample d scale c = Some (x, c')"
  using uniform_total [of d c] by (auto simp: laplace_sample_def)

section \<open>What the noise preserves\<close>

definition noised :: "jsnum \<Rightarrow> jsnum \<Rightarrow> bool" where
  "noised a b \<longleftrightarrow>
     (case a of
        Fin x \<Rightarrow> (case b of Fin y \<Rightarrow> (0 \<le> x \<longrightarrow> 0 \<le> y) \<and> (x \<in> \<int> \<longrightarrow> y \<in> \<int>) \<and> y * 10000 \<in> \<int> | _ \<Rightarrow> False)
      | _ \<Rightarrow> b = a)"

lemma math_round_Ints [simp, intro]: "math_round x \<in> \<int>"
  by (simp add: math_round_def)

lemma max_Ints: "y \<in> \<int> \<Longrightarrow> max 0 y \<in> \<int>" for y :: real
  by (simp add: max_def)

lemma grid_round: "math_round x * 10000 \<in> \<int>" "max 0 (math_round x) * 10000 \<in> \<int>"
  by (auto intro!: Ints_mult max_Ints)

lemma grid_max: "y * 10000 \<in> \<int> \<Longrightarrow> max 0 y * 10000 \<in> \<int>" for y :: real
  by (simp add: max_def)

lemma noise_number_noised:
  assumes "noise_number d config n key x c = Some (y, c')"
  shows "noised (Fin x) (Fin y)"
proof -
  from assms obtain z where "add_laplace_noise d x (config\<lparr>dp_sensitivity :=
       derive_field_sensitivity key (dp_sensitivity config) n\<rparr>) c = Some (z, c')"
    and y: "y = (let r = (if x \<in> \<int> \<or> key \<noteq> None \<and> derive_field_sensitivity key (dp_sensitivity config) n = 1
                         then math_round z else z) in if x \<ge> 0 then max 0 r else r)"
    by (auto simp: noise_number_def Let_def split: option.splits)
  then have "z * 10000 \<in> \<int>"
    by (auto simp: add_laplace_noise_def Let_def split: option.splits)
  then show ?thesis
    by (auto simp: noised_def y Let_def max_Ints grid_round grid_max)
qed

lemma noise_shape:
  "walk_and_noise d config n key v c = Some (w, c') \<Longrightarrow> jrel noised v w"
  "noise_items d config n key xs c = Some (ys, c') \<Longrightarrow> list_all2 (jrel noised) xs ys"
  "noise_fields d config n fs c = Some (gs, c') \<Longrightarrow>
     list_all2 (\<lambda>p q. fst p = fst q \<and> jrel noised (snd p) (snd q)) (own_fields fs) gs"
proof (induction d config n key v c and d config n key xs c and d config n fs c arbitrary: w c' and ys c' and gs c'
    rule: walk_and_noise_noise_items_noise_fields.induct)
  case (1 d config n currentKey x c)
  then show ?case by (auto dest: noise_number_noised split: option.splits)
qed (auto simp: noised_def own_fields_def split: option.splits)

lemma noise_number_total: "fair d \<Longrightarrow> \<exists>y c'. noise_number d config n key x c = Some (y, c')"
  using laplace_total [of d "derive_field_sensitivity key (dp_sensitivity config) n / dp_epsilon config" c]
  by (auto simp: noise_number_def add_laplace_noise_def Let_def)

lemma noise_total:
  "fair d \<Longrightarrow> \<exists>w c'. walk_and_noise d config n key v c = Some (w, c')"
  "fair d \<Longrightarrow> \<exists>ys c'. noise_items d config n key xs c = Some (ys, c')"
  "fair d \<Longrightarrow> \<exists>gs c'. noise_fields d config n fs c = Some (gs, c')"
proof (induction d config n key v c and d config n key xs c and d config n fs c
    rule: walk_and_noise_noise_items_noise_fields.induct)
  case (1 d config n currentKey x c)
  then show ?case using noise_number_total [of d config n currentKey x c] by auto
next
  case (6 d config n currentKey x xs c)
  then obtain y c' where "walk_and_noise d config n currentKey x c = Some (y, c')" by blast
  with 6 show ?case by fastforce
next
  case (8 d config n key val fs c)
  then obtain y c' where "walk_and_noise d config n (Some key) val c = Some (y, c')" by blast
  with 8 show ?case by fastforce
qed (auto split: option.splits)

section \<open>The sanitizer\<close>

definition clean :: "sanitizer_config \<Rightarrow> jsnum \<Rightarrow> bool" where
  "clean merged n \<longleftrightarrow>
     (case n of Fin x \<Rightarrow> x * 10 ^ sc_maxDecimalPlaces merged \<in> \<int> \<and> (sc_clampNonNegative merged \<longrightarrow> 0 \<le> x) | _ \<Rightarrow> True)"

definition sanitized :: "sanitizer_config \<Rightarrow> jsnum \<Rightarrow> jsnum \<Rightarrow> bool" where
  "sanitized merged a b \<longleftrightarrow>
     clean merged b \<and> (case a of Fin x \<Rightarrow> b = Fin (sanitize_number merged x) | _ \<Rightarrow> b = a)"

lemma math_round_nonneg: "0 \<le> x \<Longrightarrow> 0 \<le> math_round x"
  by (simp add: math_round_def)

lemma sanitize_number_clean: "clean merged (Fin (sanitize_number merged x))"
  by (auto simp: clean_def sanitize_number_def Let_def math_round_nonneg)

lemma sanitize_shape:
  "distinct (ids v) \<Longrightarrow> set (ids v) \<inter> seen = {} \<Longrightarrow>
     jrel (sanitized merged) v (fst (sanitize_walk merged seen v)) \<and>
     jall (clean merged) (fst (sanitize_walk merged seen v)) \<and>
     snd (sanitize_walk merged seen v) = seen \<union> set (ids v)"
  "distinct (concat (map ids xs)) \<Longrightarrow> set (concat (map ids xs)) \<inter> seen = {} \<Longrightarrow>
     list_all2 (jrel (sanitized merged)) xs (fst (sanitize_items merged seen xs)) \<and>
     list_all (jall (clean merged)) (fst (sanitize_items merged seen xs)) \<and>
     snd (sanitize_items merged seen xs) = seen \<union> set (concat (map ids xs))"
  "distinct (concat (map (\<lambda>p. ids (snd p)) fs)) \<Longrightarrow> set (concat (map (\<lambda>p. ids (snd p)) fs)) \<inter> seen = {} \<Longrightarrow>
     list_all2 (\<lambda>p q. fst p = fst q \<and> jrel (sanitized merged) (snd p) (snd q)) (own_fields fs)
       (fst (sanitize_fields merged seen fs)) \<and>
     list_all (\<lambda>p. jall (clean merged) (snd p)) (fst (sanitize_fields merged seen fs)) \<and>
     snd (sanitize_fields merged seen fs) = seen \<union> set (concat (map (\<lambda>p. ids (snd p)) fs))"
proof (induction merged seen v and merged seen xs and merged seen fs
    rule: sanitize_walk_sanitize_items_sanitize_fields.induct)
  case (1 merged seen x)
  then show ?case by (simp add: sanitized_def sanitize_number_clean)
next
  case (2 merged seen i xs)
  then show ?case by (cases i) (auto simp: visited_def visit_def split: prod.splits)
next
  case (3 merged seen i fs)
  then show ?case by (cases i) (auto simp: visited_def visit_def split: prod.splits)
next
  case (6 merged seen x xs)
  obtain y s1 where y: "sanitize_walk merged seen x = (y, s1)" by fastforce
  obtain ys s2 where ys: "sanitize_items merged s1 xs = (ys, s2)" by fastforce
  have one: "jrel (sanitized merged) x y" "jall (clean merged) y" "s1 = seen \<union> set (ids x)"
    using 6(1,3,4) y by auto
  then have "set (concat (map ids xs)) \<inter> s1 = {}" using 6(3,4) by auto
  with 6(2) [OF y [symmetric] refl] 6(3) ys one show ?case by (simp add: y Un_assoc)
next
  case (8 merged seen key val fs)
  obtain y s1 where y: "sanitize_walk merged seen val = (y, s1)" by fastforce
  obtain gs s2 where gs: "sanitize_fields merged s1 fs = (gs, s2)" by fastforce
  have one: "jrel (sanitized merged) val y" "jall (clean merged) y" "s1 = seen \<union> set (ids val)"
    using 8(1,3,4) y by auto
  then have "set (concat (map (\<lambda>p. ids (snd p)) fs)) \<inter> s1 = {}" using 8(3,4) by auto
  with 8(2) [OF y [symmetric] refl] 8(3) gs one show ?case by (simp add: y Un_assoc own_fields_def)
qed (auto simp: sanitized_def clean_def own_fields_def)

section \<open>Properties\<close>

text \<open>
  Noise keeps the structure of a result: for a small dataset, \<open>applyDpToOutput\<close> returns, as
  soon as the random source keeps offering usable draws, a value of the same shape in which
  every string, boolean and null is unchanged, every finite number is replaced by a number
  with at most four decimals, integers stay integers and non-negative numbers stay
  non-negative.
\<close>

theorem dp_output_shape:
  assumes "recordCount < dp_smallDatasetThreshold (merge_dp_config config)"
    and "fair (draw sha rnd (active_seed (merge_dp_config config)))"
  shows "\<exists>v. apply_dp_to_output sha rnd output config recordCount = Some v \<and> jrel noised output v"
proof -
  let ?m = "merge_dp_config config"
  let ?m' = "if recordCount < EPSILON_FLOOR_THRESHOLD \<and> dp_epsilon ?m < EPSILON_FLOOR
             then ?m\<lparr>dp_epsilon := EPSILON_FLOOR\<rparr> else ?m"
  have seed: "active_seed ?m' = active_seed ?m" by (simp add: active_seed_def)
  obtain w c where w: "walk_and_noise (draw sha rnd (active_seed ?m)) ?m' recordCount None output 0 = Some (w, c)"
    using noise_total(1) [OF assms(2)] by blast
  moreover from this have "jrel noised output w" by (rule noise_shape)
  ultimately show ?thesis
    using assms(1) by (simp add: apply_dp_to_output_def Let_def seed del: split_paired_Ex)
qed

theorem dp_output_shape_witness:
  "\<exists>v. apply_dp_to_output (\<lambda>_. Abs_digest (replicate 32 7)) (\<lambda>_. 1)
     (JObj None [(''count'', JNum (Fin 3)), (''label'', JStr ''a'')])
     \<lparr>pd_epsilon = None, pd_sensitivity = None, pd_smallDatasetThreshold = None, pd_seed = None\<rparr> 5 = Some v \<and>
     jrel noised (JObj None [(''count'', JNum (Fin 3)), (''label'', JStr ''a'')]) v"
  by (rule dp_output_shape)
     (simp_all add: merge_dp_config_def given_def DEFAULT_DP_CONFIG_def active_seed_def fair_def draw_def,
      auto intro!: exI)

text \<open>
  The noise has bounded support: with 32 random bits per draw a sample never exceeds
  \<open>31 ln 2\<close> times its scale, with a seed as well as with system randomness.
\<close>

theorem laplace_noise_bounded:
  assumes "laplace_sample (draw sha rnd seed) scale counter = Some (noise, counter')" "0 \<le> scale"
  shows "\<bar>noise\<bar> \<le> scale * (31 * ln 2)"
  using assms by (rule laplace_bound)

theorem laplace_noise_bounded_witness:
  "\<exists>noise c. laplace_sample (draw (\<lambda>_. Abs_digest (replicate 32 7)) (\<lambda>_. 1) None) 2 0 = Some (noise, c) \<and>
     \<bar>noise\<bar> \<le> 2 * (31 * ln 2)"
proof -
  have "fair (draw (\<lambda>_. Abs_digest (replicate 32 7)) (\<lambda>_. 1) None)" by (auto simp: fair_def draw_def)
  then obtain noise c where
    "laplace_sample (draw (\<lambda>_. Abs_digest (replicate 32 7)) (\<lambda>_. 1) None) 2 0 = Some (noise, c)"
    using laplace_total by blast
  with laplace_noise_bounded [OF this] show ?thesis by auto
qed

text \<open>
  With the default sensitivity of 1 the engine takes every keyed number for a count: a result
  field that is neither a count nor an average is rounded to an integer even when the computed
  value is not one.
\<close>

theorem dp_default_rounds_floats:
  assumes "noise_number d DEFAULT_DP_CONFIG recordCount (Some ''price'') x counter = Some (y, counter')"
  shows "y \<in> \<int>"
  using assms
  by (auto simp: noise_number_def derive_field_sensitivity_def DEFAULT_DP_CONFIG_def is_count_key_def is_average_key_def
      any_of_def to_lower_def to_lower_char_def starts_with_def Let_def max_Ints split: option.splits)

theorem dp_default_rounds_floats_witness:
  "\<exists>y c. noise_number (\<lambda>_. 1 / 4) DEFAULT_DP_CONFIG 20 (Some ''price'') (5 / 2) 0 = Some (y, c) \<and> y \<in> \<int>"
proof -
  have "fair (\<lambda>_. 1 / 4)" by (auto simp: fair_def)
  from noise_number_total [OF this] obtain y c where
    "noise_number (\<lambda>_. 1 / 4) DEFAULT_DP_CONFIG 20 (Some ''price'') (5 / 2) 0 = Some (y, c)" by blast
  with dp_default_rounds_floats [OF this] show ?thesis by blast
qed

text \<open>
  The sanitizer is effective: on a value in which no array or object is reached twice, every
  finite number of the result is rounded to the configured decimals and, when clamping is on,
  non-negative; the shape, the keys and everything that is not a number are unchanged.
\<close>

theorem sanitize_output_clean:
  assumes "distinct (ids output)"
  shows "jall (clean merged) (sanitize_output merged output) \<and>
         jrel (sanitized merged) output (sanitize_output merged output)"
  using sanitize_shape(1) [of "output" "{}" merged] assms by (simp add: sanitize_output_def)

theorem sanitize_output_clean_witness:
  "jall (clean DEFAULT_CONFIG) (sanitize_output DEFAULT_CONFIG
     (JArr (Some 1) [JNum (Fin (- 5)), JObj (Some 2) [(''a'', JNum (Fin (1 / 3)))]]))"
  by (rule sanitize_output_clean [THEN conjunct1]) simp

text \<open>
  The protection against cycles leaks: an object that is reached a second time, without any
  cycle, is returned as it is, with its negative and unrounded numbers.
\<close>

theorem sanitize_shared_object_raw:
  "sanitize_output DEFAULT_CONFIG
     (JArr None [JObj (Some 1) [(''x'', JNum (Fin x))], JObj (Some 1) [(''x'', JNum (Fin x))]]) =
   JArr None [JObj None [(''x'', JNum (Fin (sanitize_number DEFAULT_CONFIG x)))], JObj (Some 1) [(''x'', JNum (Fin x))]]"
  by (simp add: sanitize_output_def visited_def visit_def)

end
