(* ===== verification/Logic_Worker.thy ===== *)
theory Logic_Worker
  imports Sandbox Receipt_Verifier Privacy_Engine
begin

text \<open>
  \<open>workers/logic-execution.ts\<close>: one run of \<open>processLogicExecution\<close>, from the encrypted request to the
  output and its receipt.

  The host is the record \<open>worker_host\<close>: the clock (read up to three times), ML-KEM, AES, the engine of
  the sandbox, the functions of \<open>verifier_env\<close>, the random source, base64, the conversion
  \<open>Number\<close> and the optional native prover. The file system behind the sandbox is not modelled. The result is
  \<open>None\<close> when the rejection sampling of the noise never ends, \<open>Some (Inl e)\<close> for an exception.
\<close>

section \<open>Data\<close>

record worker_data =
  wd_isWarmup :: bool
  wd_ciphertext :: bytes
  wd_secretKey :: bytes
  wd_wasmBinary :: bytes
  wd_inputs :: "(string \<times> bytes) list"
  wd_records :: "jval list"
  wd_sessionTimestamp :: "time_ms option"
  wd_isEncrypted :: "bool option"
  wd_aesNonce :: "bytes option"
  wd_proofMode :: "int option"
  wd_guestImageId :: "string option"
  wd_pqcSigningKey :: "bytes option"
  wd_dpConfig :: "partial_dp_config option"

record worker_host =
  wh_clock :: "nat \<Rightarrow> time_ms"
  wh_decap :: "bytes \<Rightarrow> bytes \<Rightarrow> bytes option"
  wh_aes :: aes_gcm
  wh_engine :: engine
  wh_env :: verifier_env
  wh_rnd :: "nat \<Rightarrow> 32 word"
  wh_codec :: codec
  wh_number :: "jval \<Rightarrow> jsnum"
  wh_prover :: "(string \<Rightarrow> string \<Rightarrow> bytes option) option"

datatype worker_error =
  Session_Expired | Session_In_Future | Decap_Failed | Payload_Forged | Input_Forged string | Input_Not_Json string
| Compile_Failed | Guardian_Rejected guardian_error | Sandbox_Failed sandbox_error
| Encoding_Failed zk_error | Prover_Failed | Prover_Unavailable | Signing_Failed crypto_error

record worker_result =
  wr_image_id :: string
  wr_output :: jval
  wr_fuel :: int
  wr_zk_receipt :: "string option"
  wr_proof_type :: "byte option"
  wr_guest_image_id :: "string option"

definition MAX_SESSION_KEY_LIFETIME_MS :: time_ms where
  "MAX_SESSION_KEY_LIFETIME_MS = 3600 * 1000"

definition PROOF_MODE_LEGACY_HMAC :: int where "PROOF_MODE_LEGACY_HMAC = 0"
definition PROOF_MODE_ZK_OPTIMISTIC :: int where "PROOF_MODE_ZK_OPTIMISTIC = 1"
definition PROOF_MODE_ZK_BLOCKING :: int where "PROOF_MODE_ZK_BLOCKING = 2"

section \<open>Opening the request\<close>

definition check_session :: "worker_host \<Rightarrow> time_ms option \<Rightarrow> worker_error + unit" where
  "check_session h sessionTimestamp =
     (case sessionTimestamp of
        None \<Rightarrow> Inr ()
      | Some ts \<Rightarrow>
          ebind (guard (\<not> wh_clock h 0 - ts > MAX_SESSION_KEY_LIFETIME_MS) Session_Expired) (\<lambda>_.
          guard (\<not> ts > wh_clock h 1 + 60000) Session_In_Future))"

text \<open>\<open>subarray(0, -16)\<close> and \<open>subarray(-16)\<close> clamp on short buffers, as subtraction does here.\<close>

definition open_box :: "aes_gcm \<Rightarrow> bytes \<Rightarrow> bytes \<Rightarrow> bytes \<Rightarrow> bytes option" where
  "open_box a key nonce buf =
     ag_open a key nonce (take (length buf - 16) buf) (drop (length buf - 16) buf)"

text \<open>
  \<open>decryptedInputs\<close>: its own properties and, because assigning \<open>__proto__\<close> sets it, its
  prototype when that is a parsed object.
\<close>

type_synonym worker_inputs = "(string \<times> jval) list \<times> jval"

definition add_input :: "string \<Rightarrow> jval \<Rightarrow> worker_inputs \<Rightarrow> worker_inputs" where
  "add_input key v ins =
     (case ins of (own, p) \<Rightarrow>
        if key = ''__proto__'' then (own, if is_object v \<or> v = JNull then v else p)
        else (AList.update key v own, p))"

fun decrypt_inputs ::
    "worker_host \<Rightarrow> bytes \<Rightarrow> (string \<times> bytes) list \<Rightarrow> worker_inputs \<Rightarrow> worker_error + worker_inputs" where
  "decrypt_inputs h key [] ins = Inr ins"
| "decrypt_inputs h key ((k, buf) # rest) ins =
     (let inputNonce = take 12 buf; valTag = drop (length buf - 16) buf; valData = drop 12 (take (length buf - 16) buf) in
      case ag_open (wh_aes h) key inputNonce valData valTag of
        None \<Rightarrow> Inl (Input_Forged k)
      | Some plain \<Rightarrow>
          (case ve_parse (wh_env h) (ve_text (wh_env h) plain) of
             None \<Rightarrow> Inl (Input_Not_Json k)
           | Some v \<Rightarrow> decrypt_inputs h key rest (add_input k v ins)))"

text \<open>The program in the clear, the inputs and the session secret.\<close>

definition open_request :: "worker_host \<Rightarrow> worker_data \<Rightarrow> worker_error + (bytes \<times> worker_inputs \<times> bytes)" where
  "open_request h d =
     (if wd_isEncrypted d \<noteq> Some False then
        (case wh_decap h (wd_ciphertext d) (wd_secretKey d) of
           None \<Rightarrow> Inl Decap_Failed
         | Some aesKey \<Rightarrow>
             (case open_box (wh_aes h) aesKey
                     (case wd_aesNonce d of Some n \<Rightarrow> n | None \<Rightarrow> replicate 12 0) (wd_wasmBinary d) of
                None \<Rightarrow> Inl Payload_Forged
              | Some decrypted \<Rightarrow>
                  ebind (decrypt_inputs h aesKey (wd_inputs d) ([], JUndef)) (\<lambda>ins. Inr (decrypted, ins, aesKey))))
      else Inr (wd_wasmBinary d, ([], JUndef), replicate 32 0))"

definition wasm_magic :: "bytes \<Rightarrow> bool" where
  "wasm_magic b \<longleftrightarrow> take 4 b = [0x00, 0x61, 0x73, 0x6D]"

definition classify_payload :: "worker_host \<Rightarrow> bytes \<Rightarrow> worker_error + logic_payload" where
  "classify_payload h b =
     (if wasm_magic b then
        (case en_compile (wh_engine h) b of
           None \<Rightarrow> Inl Compile_Failed
         | Some m \<Rightarrow> (case guardian_analyze m of Inl e \<Rightarrow> Inl (Guardian_Rejected e) | Inr _ \<Rightarrow> Inr (Wasm_Code b)))
      else Inr (Script_Code (normalize_logic_source (ve_text (wh_env h) b))))"

fun logic_bytes :: "logic_payload \<Rightarrow> bytes" where
  "logic_bytes (Wasm_Code b) = b"
| "logic_bytes (Script_Code s) = utf8 s"

section \<open>The receipt\<close>

definition output_text :: "verifier_env \<Rightarrow> jval \<Rightarrow> string" where
  "output_text env out = (case out of JStr s \<Rightarrow> s | JUndef \<Rightarrow> ''undefined'' | v \<Rightarrow> ve_stringify env v)"

definition output_digest :: "verifier_env \<Rightarrow> jval \<Rightarrow> bytes" where
  "output_digest env out = Rep_digest (ve_sha env (utf8 (output_text env out)))"

definition dataset_digest :: "verifier_env \<Rightarrow> jval list \<Rightarrow> bytes" where
  "dataset_digest env records = Rep_digest (ve_sha env (utf8 (ve_stringify env (JArr None records))))"

definition placeholder_proof :: bytes where
  "placeholder_proof = replicate 128 0x42"

text \<open>\<open>a ?? b\<close>, and \<open>Number(r.amount ?? r.value ?? 1)\<close>; reading a property of \<open>null\<close> throws.\<close>

definition nullish :: "jval \<Rightarrow> jval \<Rightarrow> jval" where
  "nullish a b = (if a = JUndef \<or> a = JNull then b else a)"

definition record_amount :: "worker_host \<Rightarrow> jval \<Rightarrow> jval option" where
  "record_amount h r =
     (case js_prop r ''amount'' of
        None \<Rightarrow> None
      | Some a \<Rightarrow> Some (JNum (wh_number h (nullish a (nullish (opt_prop r ''value'') (JNum (Fin 1)))))))"

fun record_amounts :: "worker_host \<Rightarrow> jval list \<Rightarrow> jval list option" where
  "record_amounts h [] = Some []"
| "record_amounts h (r # rs) =
     (case record_amount h r of
        None \<Rightarrow> None
      | Some a \<Rightarrow> map_option ((#) a) (record_amounts h rs))"

definition circuit_name :: "worker_inputs \<Rightarrow> string" where
  "circuit_name ins =
     (case (case map_of (fst ins) ''operation'' of Some v \<Rightarrow> v | None \<Rightarrow> opt_prop (snd ins) ''operation'') of
        JStr s \<Rightarrow> s | _ \<Rightarrow> ''sum'')"

definition make_proof :: "worker_host \<Rightarrow> int \<Rightarrow> jval list \<Rightarrow> worker_inputs \<Rightarrow> jval \<Rightarrow> worker_error + bytes" where
  "make_proof h mode records ins out =
     (case wh_prover h of
        Some prove_analytical_query \<Rightarrow>
          (case Option.bind (record_amounts h records) (\<lambda>amounts.
                  prove_analytical_query (circuit_name ins)
                    (ve_stringify (wh_env h) (JObj None
                      [(''records'', JArr None amounts),
                       (''expected_sum'', case out of JNum n \<Rightarrow> JNum n | _ \<Rightarrow> JUndef)]))) of
             Some p \<Rightarrow> Inr p
           | None \<Rightarrow> if mode = PROOF_MODE_ZK_BLOCKING then Inl Prover_Failed else Inr placeholder_proof)
      | None \<Rightarrow> if mode = PROOF_MODE_ZK_BLOCKING then Inl Prover_Unavailable else Inr placeholder_proof)"

definition lift_error :: "('e \<Rightarrow> worker_error) \<Rightarrow> 'e + 'a \<Rightarrow> worker_error + 'a" where
  "lift_error f m = (case m of Inl e \<Rightarrow> Inl (f e) | Inr x \<Rightarrow> Inr x)"

definition seal_receipt :: "worker_host \<Rightarrow> bytes option \<Rightarrow> bytes \<Rightarrow> bytes \<Rightarrow> worker_error + (bytes \<times> byte)" where
  "seal_receipt h pqcSigningKey journal proof =
     (let env = wh_env h in
      case present_bytes pqcSigningKey of
        Some sk \<Rightarrow>
          ebind (lift_error Signing_Failed (dsa_sign (ve_dsa env) (Inl (Rep_digest (ve_sha env (journal @ proof)))) sk None)) (\<lambda>sig.
          ebind (lift_error Signing_Failed (get_public_key (ve_dsa env) sk)) (\<lambda>pk.
          ebind (lift_error Encoding_Failed (encode_hybrid_v2 (ve_sha env) journal proof sig pk)) (\<lambda>raw.
            Inr (raw, GROTH16_PQC_HYBRID))))
      | None \<Rightarrow>
          ebind (lift_error Encoding_Failed (encode_v2 (ve_sha env) GROTH16 journal proof)) (\<lambda>raw. Inr (raw, GROTH16)))"

definition guest_image :: "verifier_env \<Rightarrow> string option \<Rightarrow> bytes" where
  "guest_image env guestId =
     (case guestId of
        Some (c # cs) \<Rightarrow> ve_fromHex env (c # cs)
      | _ \<Rightarrow> Rep_digest (ve_sha env (utf8 ''liop-default-guest-v2'')))"

definition journal_v1 :: "string \<Rightarrow> string \<Rightarrow> string \<Rightarrow> int \<Rightarrow> time_ms \<Rightarrow> (string \<times> json_atom) list" where
  "journal_v1 imageId datasetHash outputHash fuel ts =
     [(''image_id'', AStr imageId), (''dataset_hash'', AStr datasetHash), (''output_hash'', AStr outputHash),
      (''fuel'', AInt fuel), (''ts'', AInt ts)]"

text \<open>Step 5: the proof of execution of an output that is already noisy and sanitized.\<close>

definition commit_v2 ::
    "worker_host \<Rightarrow> worker_data \<Rightarrow> int \<Rightarrow> worker_inputs \<Rightarrow> bytes \<Rightarrow> jval \<Rightarrow> int \<Rightarrow> worker_error + worker_result" where
  "commit_v2 h d mode ins img out fuel =
     (let env = wh_env h; guest = guest_image env (wd_guestImageId d) in
      ebind (lift_error Encoding_Failed (encode_journal_v2
        \<lparr>guestImageId = guest, logicDigest = img, datasetDigest = dataset_digest env (wd_records d),
         outputDigest = output_digest env out, fuelConsumed = fuel, executionTimestamp = wh_clock h 2\<rparr>)) (\<lambda>journal.
      ebind (make_proof h mode (wd_records d) ins out) (\<lambda>proof.
      ebind (seal_receipt h (wd_pqcSigningKey d) journal proof) (\<lambda>(raw, ty).
        Inr \<lparr>wr_image_id = hex_of img, wr_output = out, wr_fuel = fuel,
             wr_zk_receipt = Some (cd_toBase64 (wh_codec h) raw), wr_proof_type = Some ty,
             wr_guest_image_id = Some (hex_of guest)\<rparr>))))"

definition commit_v1 ::
    "worker_host \<Rightarrow> worker_data \<Rightarrow> bytes \<Rightarrow> bytes \<Rightarrow> jval \<Rightarrow> int \<Rightarrow> worker_error + worker_result" where
  "commit_v1 h d secret img out fuel =
     (let env = wh_env h;
          journal = utf8 (json_object (journal_v1 (hex_of img) (hex_of (dataset_digest env (wd_records d)))
                                         (hex_of (output_digest env out)) fuel (wh_clock h 2)));
          seal = Rep_digest (ve_hmac env secret journal) in
      ebind (lift_error Encoding_Failed (encode_v1 journal seal)) (\<lambda>raw.
        Inr \<lparr>wr_image_id = hex_of img, wr_output = out, wr_fuel = fuel,
             wr_zk_receipt = Some (cd_toBase64 (wh_codec h) raw), wr_proof_type = Some HMAC_LEGACY,
             wr_guest_image_id = None\<rparr>))"

definition commit_output ::
    "worker_host \<Rightarrow> worker_data \<Rightarrow> worker_inputs \<Rightarrow> bytes \<Rightarrow> bytes \<Rightarrow> jval \<Rightarrow> int \<Rightarrow> worker_error + worker_result" where
  "commit_output h d ins secret img out fuel =
     (case wd_proofMode d of
        Some mode \<Rightarrow>
          if mode = PROOF_MODE_ZK_OPTIMISTIC \<or> mode = PROOF_MODE_ZK_BLOCKING then commit_v2 h d mode ins img out fuel
          else commit_v1 h d secret img out fuel
      | None \<Rightarrow> commit_v1 h d secret img out fuel)"

section \<open>The whole run\<close>

definition noisy_output :: "worker_host \<Rightarrow> worker_data \<Rightarrow> bytes \<Rightarrow> jval \<Rightarrow> jval option" where
  "noisy_output h d img out =
     (case wd_dpConfig d of
        None \<Rightarrow> Some out
      | Some cfg \<Rightarrow>
          apply_dp_to_output (ve_sha (wh_env h)) (wh_rnd h) out
            (cfg\<lparr>pd_seed := Some (hex_of (dataset_digest (wh_env h) (wd_records d)) @ '':'' @ hex_of img)\<rparr>)
            (int (length (wd_records d))))"

definition execute_request ::
    "worker_host \<Rightarrow> worker_data \<Rightarrow> bytes \<Rightarrow> worker_inputs \<Rightarrow> bytes \<Rightarrow> (worker_error + worker_result) option" where
  "execute_request h d code ins secret =
     (case classify_payload h code of
        Inl e \<Rightarrow> Some (Inl e)
      | Inr payload \<Rightarrow>
          (case sandbox_execute (wh_engine h) payload (wd_records d) (fst ins) of
             Inl e \<Rightarrow> Some (Inl (Sandbox_Failed e))
           | Inr (out, fuel) \<Rightarrow>
               (let img = derive_logic_image_digest (wh_env h) (logic_bytes payload) in
                map_option (\<lambda>noisy. commit_output h d ins secret img (sanitize_output DEFAULT_CONFIG noisy) fuel)
                  (noisy_output h d img out))))"

definition process_logic_execution :: "worker_host \<Rightarrow> worker_data \<Rightarrow> (worker_error + worker_result) option" where
  "process_logic_execution h d =
     (if wd_isWarmup d then
        Some (Inr \<lparr>wr_image_id = [], wr_output = JStr ''warm'', wr_fuel = 0, wr_zk_receipt = None,
                   wr_proof_type = None, wr_guest_image_id = None\<rparr>)
      else
        (case check_session h (wd_sessionTimestamp d) of
           Inl e \<Rightarrow> Some (Inl e)
         | Inr _ \<Rightarrow>
             (case open_request h d of
                Inl e \<Rightarrow> Some (Inl e)
              | Inr (code, ins, secret) \<Rightarrow> execute_request h d code ins secret)))"

section \<open>Properties\<close>

lemma trim_trim [simp]: "trim (trim s) = trim s"
proof -
  have 1: "dropWhile P (rev (dropWhile P (rev (dropWhile P xs)))) = rev (dropWhile P (rev (dropWhile P xs)))"
    for P :: "char \<Rightarrow> bool" and xs
  proof (cases "dropWhile P xs")
    case (Cons y ys)
    then have "\<not> P y" by (metis dropWhile_eq_Cons_conv)
    then have "dropWhile P (rev (y # ys)) = dropWhile P (rev ys) @ [y]"
      by (simp add: dropWhile_append3 dropWhile_append1 dropWhile_append)
    then show ?thesis using Cons \<open>\<not> P y\<close> by simp
  next
    case Nil
    show ?thesis unfolding Nil by simp
  qed
  show ?thesis unfolding trim_def by (simp add: 1)
qed

lemma normalize_trimmed: "trim (normalize_logic_source s) = normalize_logic_source s"
  by (auto simp: normalize_logic_source_def envelope_body_def Let_def split: option.splits if_splits)

definition wasm_like :: "bytes \<Rightarrow> bool" where
  "wasm_like b \<longleftrightarrow> 2 \<le> length b \<and> b ! 0 = 0 \<and> b ! 1 = 0x61"

lemma derive_image:
  "derive_logic_image_digest env b =
     Rep_digest (ve_sha env (if wasm_like b then b else utf8 (normalize_logic_source (ve_text env b))))"
  by (simp add: derive_logic_image_digest_def wasm_like_def)

text \<open>
  A program the worker and the verifier name alike: a module, or a text inside at most one envelope
  that does not begin like a module.
\<close>

definition plain_program :: "verifier_env \<Rightarrow> bytes \<Rightarrow> bool" where
  "plain_program env b \<longleftrightarrow>
     wasm_magic b \<or>
     (let n = normalize_logic_source (ve_text env b) in
      \<not> wasm_like b \<and> \<not> wasm_like (utf8 n) \<and> envelope_body n = None)"

lemma image_agrees:
  assumes "plain_program (wh_env h) b" "classify_payload h b = Inr payload" "\<forall>s. ve_text (wh_env h) (utf8 s) = s"
  shows "derive_logic_image_digest (wh_env h) (logic_bytes payload) = derive_logic_image_digest (wh_env h) b"
proof (cases "wasm_magic b")
  case True
  then have "payload = Wasm_Code b" using assms(2) by (auto simp: classify_payload_def split: option.splits sum.splits)
  then show ?thesis by simp
next
  case False
  let ?n = "normalize_logic_source (ve_text (wh_env h) b)"
  have p: "payload = Script_Code ?n" using False assms(2) by (simp add: classify_payload_def)
  have "normalize_logic_source ?n = ?n"
    using assms(1) False normalize_trimmed by (simp add: plain_program_def Let_def) (simp add: normalize_logic_source_def)
  then show ?thesis
    using assms(1,3) False p by (simp add: plain_program_def derive_image Let_def)
qed

lemma commitment_expected:
  "try_extract_proxy_output env logic = None \<Longrightarrow> expected_output_digest env logic out = output_digest env out"
  by (simp add: expected_output_digest_def output_digest_def output_text_def)

lemma output_digest_text: "output_digest env (JStr (output_text env v)) = output_digest env v"
  by (simp add: output_digest_def output_text_def)

fun atom_value :: "json_atom \<Rightarrow> jval" where
  "atom_value (AStr s) = JStr s"
| "atom_value (AInt i) = JNum (Fin (of_int i))"

text \<open>What is documented of the libraries: text and base64 survive a round trip, \<open>JSON.parse\<close> reads the text of
  a flat object, and a signature verifies.\<close>

definition host_faithful :: "worker_host \<Rightarrow> bool" where
  "host_faithful h \<longleftrightarrow>
     dsa_correct (ve_dsa (wh_env h)) \<and>
     (\<forall>b. cd_fromBase64 (wh_codec h) (cd_toBase64 (wh_codec h) b) = b) \<and>
     (\<forall>s. ve_text (wh_env h) (utf8 s) = s) \<and>
     (\<forall>fs. ve_parse (wh_env h) (json_object fs) = Some (JObj None (map (map_prod id atom_value) fs)))"

definition verdict_of :: "worker_result \<Rightarrow> string" where
  "verdict_of r =
     (if wr_proof_type r = Some GROTH16_PQC_HYBRID then ''groth16_pqc_hybrid''
      else if wr_proof_type r = Some GROTH16 then ''groth16'' else ''hmac'')"

text \<open>
  The questions a client that sent \<open>logic\<close> and shares \<open>secret\<close> may ask the verifier about a result: with or without
  the secret, the guest image and the output, the latter as a value or as the text that travels.
\<close>

definition honest_task :: "worker_host \<Rightarrow> bytes \<Rightarrow> bytes \<Rightarrow> worker_result \<Rightarrow> zk_task \<Rightarrow> bool" where
  "honest_task h logic secret r t \<longleftrightarrow>
     zt_logicPayload t = Some logic \<and> zt_remoteImageIdHex t = Some (wr_image_id r) \<and>
     zt_zkReceipt t = map_option (cd_fromBase64 (wh_codec h)) (wr_zk_receipt r) \<and>
     (zt_sessionSecret t = None \<or> zt_sessionSecret t = Some secret) \<and> zt_vkeyRaw t = None \<and>
     zt_expectedOutput t \<in> {JUndef, wr_output r, JStr (output_text (wh_env h) (wr_output r))} \<and>
     (if verdict_of r = ''hmac'' then zt_zkPolicy t \<noteq> Some ''required''
      else zt_guestImageIdHex t = None \<or> zt_guestImageIdHex t = wr_guest_image_id r)"

lemma lift_error_Inr [simp]: "lift_error f m = Inr x \<longleftrightarrow> m = Inr x"
  by (auto simp: lift_error_def split: sum.splits)

lemma hex_of_digest_nonempty: "length b = 32 \<Longrightarrow> hex_of b \<noteq> []"
  by (cases b) (auto simp: hex_of_def)

lemma length_image [simp]: "length (derive_logic_image_digest env b) = 32"
  by (simp add: derive_logic_image_digest_def)

lemma verify_v1_accepts:
  assumes "zt_zkPolicy t \<noteq> Some ''required''" "remoteHex = hex_of (derive_logic_image_digest env logic)"
    and "ve_parse env (ve_text env (dr_journal dr)) = Some jd" "js_prop jd ''image_id'' = Some (JStr remoteHex)"
    and "\<And>s. zt_sessionSecret t = Some s \<Longrightarrow> dr_proof dr = Rep_digest (ve_hmac env s (dr_journal dr))"
    and "zt_expectedOutput t \<noteq> JUndef \<Longrightarrow>
      js_prop jd ''output_hash'' = Some (JStr (hex_of (expected_output_digest env logic (zt_expectedOutput t))))"
  shows "verify_v1 env t logic remoteHex dr = Inr ''hmac''"
proof -
  have "(case present_bytes (zt_sessionSecret t) of None \<Rightarrow> Inr ()
      | Some s \<Rightarrow> (case timing_safe_equal (dr_proof dr) (Rep_digest (ve_hmac env s (dr_journal dr))) of
          Inl _ \<Rightarrow> Inl Worker_Error | Inr same \<Rightarrow> guard same Invalid_Seal)) = Inr ()"
    using assms(5) by (auto simp: timing_safe_equal_def split: option.split)
  then show ?thesis using assms(1-4,6) by (simp add: verify_v1_def Let_def)
qed

lemma encode_journal_ok: "encode_journal_v2 j = Inr b \<Longrightarrow> journal_ok j"
  using encode_journal_v2_layout by blast

lemma commit_v1_verifies:
  assumes faithful: "host_faithful h" and out: "try_extract_proxy_output (wh_env h) logic = None"
    and img: "img = derive_logic_image_digest (wh_env h) logic"
    and commit: "commit_v1 h d secret img v fuel = Inr r" and task: "honest_task h logic secret r t"
  shows "worker_verify_receipt (wh_env h) t = Inr (verdict_of r)"
proof -
  let ?env = "wh_env h"
  let ?fs = "journal_v1 (hex_of img) (hex_of (dataset_digest ?env (wd_records d))) (hex_of (output_digest ?env v)) fuel (wh_clock h 2)"
  let ?journal = "utf8 (json_object ?fs)"
  let ?seal = "Rep_digest (ve_hmac ?env secret ?journal)"
  obtain raw where raw: "encode_v1 ?journal ?seal = Inr raw"
    and r: "r = \<lparr>wr_image_id = hex_of img, wr_output = v, wr_fuel = fuel,
             wr_zk_receipt = Some (cd_toBase64 (wh_codec h) raw), wr_proof_type = Some HMAC_LEGACY,
             wr_guest_image_id = None\<rparr>"
    using commit by (auto simp: commit_v1_def Let_def)
  let ?d = "\<lparr>dr_version = RECEIPT_VERSION_V1, dr_proofType = HMAC_LEGACY, dr_journal = ?journal, dr_proof = ?seal,
             dr_raw = raw, dr_pqcSignature = None, dr_pqcPublicKey = None\<rparr>"
  have dec: "decode (ve_sha ?env) raw = Inr ?d"
    using decode_v1_encode [OF raw, of _ "[]"] by simp
  obtain jd where parsed: "ve_parse ?env (ve_text ?env ?journal) = Some jd"
    and props: "js_prop jd ''image_id'' = Some (JStr (hex_of img))"
      "js_prop jd ''output_hash'' = Some (JStr (hex_of (output_digest ?env v)))"
    using faithful by (simp add: host_faithful_def journal_v1_def)
  obtain c cs where hex: "hex_of img = c # cs"
    using hex_of_digest_nonempty [of img] img by (cases "hex_of img") auto
  have kind: "verdict_of r = ''hmac''" by (simp add: verdict_of_def r receipt_consts)
  have "zt_expectedOutput t \<noteq> JUndef \<Longrightarrow> expected_output_digest ?env logic (zt_expectedOutput t) = output_digest ?env v"
    using task commitment_expected [OF out] output_digest_text by (auto simp: honest_task_def r)
  then have "verify_v1 ?env t logic (hex_of img) ?d = Inr ''hmac''"
    by (intro verify_v1_accepts [where jd = jd])
      (use task kind img parsed props in \<open>auto simp: honest_task_def r\<close>)
  then show ?thesis
    using dec hex faithful kind task by (simp add: worker_verify_receipt_def honest_task_def r host_faithful_def)
qed

lemma seal_receipt_decodes:
  assumes "dsa_correct (ve_dsa (wh_env h))" "seal_receipt h key journal pf = Inr (raw, ty)"
  shows "\<exists>sig pk. decode (ve_sha (wh_env h)) raw =
      Inr \<lparr>dr_version = RECEIPT_VERSION_V2, dr_proofType = ty, dr_journal = journal, dr_proof = pf, dr_raw = raw,
           dr_pqcSignature = sig, dr_pqcPublicKey = pk\<rparr> \<and>
    (ty = GROTH16 \<or> ty = GROTH16_PQC_HYBRID) \<and>
    check_pqc (wh_env h) \<lparr>dr_version = RECEIPT_VERSION_V2, dr_proofType = ty, dr_journal = journal, dr_proof = pf,
           dr_raw = raw, dr_pqcSignature = sig, dr_pqcPublicKey = pk\<rparr> = Inr ()"
proof (cases "present_bytes key")
  case None
  then have "encode_v2 (ve_sha (wh_env h)) GROTH16 journal pf = Inr raw" "ty = GROTH16"
    using assms(2) unfolding seal_receipt_def None by auto
  then show ?thesis using decode_v2_encode [of _ GROTH16] by (simp add: check_pqc_Inr receipt_consts)
next
  case (Some sk)
  then obtain sig pk where s: "dsa_sign (ve_dsa (wh_env h)) (Inl (Rep_digest (ve_sha (wh_env h) (journal @ pf)))) sk None = Inr sig"
      "get_public_key (ve_dsa (wh_env h)) sk = Inr pk"
      "encode_hybrid_v2 (ve_sha (wh_env h)) journal pf sig pk = Inr raw" "ty = GROTH16_PQC_HYBRID"
    using assms(2) unfolding seal_receipt_def Some by (auto simp: Let_def)
  have "dsa_verify (ve_dsa (wh_env h)) sig (Inl (Rep_digest (ve_sha (wh_env h) (journal @ pf)))) pk None"
    using s(1,2) assms(1) by (auto simp: dsa_sign_def get_public_key_def dsa_verify_def dsa_correct_def)
  then show ?thesis using decode_hybrid_encode [OF s(3)] s(4) by (auto simp: check_pqc_Inr)
qed

lemma commit_v2_verifies:
  assumes faithful: "host_faithful h" and out: "try_extract_proxy_output (wh_env h) logic = None"
    and img: "img = derive_logic_image_digest (wh_env h) logic"
    and commit: "commit_v2 h d mode ins img v fuel = Inr r" and task: "honest_task h logic secret r t"
  shows "worker_verify_receipt (wh_env h) t = Inr (verdict_of r)"
proof -
  let ?env = "wh_env h" and ?guest = "guest_image (wh_env h) (wd_guestImageId d)"
  let ?j = "\<lparr>guestImageId = ?guest, logicDigest = img, datasetDigest = dataset_digest ?env (wd_records d),
         outputDigest = output_digest ?env v, fuelConsumed = fuel, executionTimestamp = wh_clock h 2\<rparr>"
  obtain journal pf raw ty where enc: "encode_journal_v2 ?j = Inr journal"
    and seal: "seal_receipt h (wd_pqcSigningKey d) journal pf = Inr (raw, ty)"
    and r: "r = \<lparr>wr_image_id = hex_of img, wr_output = v, wr_fuel = fuel,
             wr_zk_receipt = Some (cd_toBase64 (wh_codec h) raw), wr_proof_type = Some ty,
             wr_guest_image_id = Some (hex_of ?guest)\<rparr>"
    using commit by (auto simp: commit_v2_def Let_def)
  have dec: "decode_journal_v2 journal = Inr ?j"
    using journal_v2.dec_enc enc encode_journal_ok by blast
  obtain sig pk where d: "decode (ve_sha ?env) raw =
      Inr \<lparr>dr_version = RECEIPT_VERSION_V2, dr_proofType = ty, dr_journal = journal, dr_proof = pf, dr_raw = raw,
           dr_pqcSignature = sig, dr_pqcPublicKey = pk\<rparr>"
    "ty = GROTH16 \<or> ty = GROTH16_PQC_HYBRID"
    "check_pqc ?env \<lparr>dr_version = RECEIPT_VERSION_V2, dr_proofType = ty, dr_journal = journal, dr_proof = pf,
           dr_raw = raw, dr_pqcSignature = sig, dr_pqcPublicKey = pk\<rparr> = Inr ()"
    using seal_receipt_decodes [OF _ seal] faithful by (auto simp: host_faithful_def)
  have kind: "verdict_of r = (if ty = GROTH16_PQC_HYBRID then ''groth16_pqc_hybrid'' else ''groth16'')"
    using d(2) by (auto simp: verdict_of_def r receipt_consts)
  have "zt_expectedOutput t \<noteq> JUndef \<Longrightarrow> expected_output_digest ?env logic (zt_expectedOutput t) = output_digest ?env v"
    using task commitment_expected [OF out] output_digest_text by (auto simp: honest_task_def r)
  moreover have "zt_guestImageIdHex t = None \<or> zt_guestImageIdHex t = Some (hex_of ?guest)"
    using task kind by (auto simp: honest_task_def r split: if_splits)
  ultimately have "verify_v2 ?env t logic \<lparr>dr_version = RECEIPT_VERSION_V2, dr_proofType = ty, dr_journal = journal, dr_proof = pf,
      dr_raw = raw, dr_pqcSignature = sig, dr_pqcPublicKey = pk\<rparr> = Inr (verdict_of r)"
    unfolding verify_v2_Inr
    using d(2,3) dec img task kind by (auto simp: honest_task_def r check_groth16_Inr)
  moreover obtain c cs where "hex_of img = c # cs"
    using hex_of_digest_nonempty [of img] img by (cases "hex_of img") auto
  ultimately show ?thesis
    using d(1) faithful task by (simp add: worker_verify_receipt_def honest_task_def r host_faithful_def receipt_consts)
qed

lemma process_cases:
  assumes "process_logic_execution h d = Some (Inr r)" "\<not> wd_isWarmup d"
  obtains code ins secret payload v fuel noisy where
    "check_session h (wd_sessionTimestamp d) = Inr ()"
    "open_request h d = Inr (code, ins, secret)" "classify_payload h code = Inr payload"
    "sandbox_execute (wh_engine h) payload (wd_records d) (fst ins) = Inr (v, fuel)"
    "noisy_output h d (derive_logic_image_digest (wh_env h) (logic_bytes payload)) v = Some noisy"
    "commit_output h d ins secret (derive_logic_image_digest (wh_env h) (logic_bytes payload))
       (sanitize_output DEFAULT_CONFIG noisy) fuel = Inr r"
  using assms
  by (auto simp: process_logic_execution_def execute_request_def Let_def split: sum.splits prod.splits)

lemma worker_receipt_accepted:
  assumes "process_logic_execution h d = Some (Inr r)" "\<not> wd_isWarmup d" "host_faithful h"
    and "open_request h d = Inr (logic, ins, secret)"
    and "plain_program (wh_env h) logic" "try_extract_proxy_output (wh_env h) logic = None"
    and "honest_task h logic secret r t"
  shows "worker_verify_receipt (wh_env h) t = Inr (verdict_of r)"
proof -
  from assms(1,2) obtain payload v fuel where p: "classify_payload h logic = Inr payload"
    and c: "commit_output h d ins secret (derive_logic_image_digest (wh_env h) (logic_bytes payload)) v fuel = Inr r"
    using assms(4) by (elim process_cases) auto
  have img: "derive_logic_image_digest (wh_env h) (logic_bytes payload) = derive_logic_image_digest (wh_env h) logic"
    using image_agrees [OF assms(5) p] assms(3) by (simp add: host_faithful_def)
  from c consider mode where "commit_v2 h d mode ins (derive_logic_image_digest (wh_env h) (logic_bytes payload)) v fuel = Inr r"
    | "commit_v1 h d secret (derive_logic_image_digest (wh_env h) (logic_bytes payload)) v fuel = Inr r"
    by (auto simp: commit_output_def split: option.splits if_splits)
  then show ?thesis
    using commit_v2_verifies [OF assms(3,6) img _ assms(7)] commit_v1_verifies [OF assms(3,6) img _ assms(7)] by cases simp_all
qed


lemma blocking_proof:
  assumes "make_proof h PROOF_MODE_ZK_BLOCKING records ins v = Inr pf"
  shows "\<exists>prove circuit inputsJson. wh_prover h = Some prove \<and> prove circuit inputsJson = Some pf"
proof (cases "wh_prover h")
  case (Some prove)
  then obtain f where "Option.bind (record_amounts h records) (\<lambda>a. prove (circuit_name ins) (f a)) = Some pf"
    using assms by (auto simp: make_proof_def split: option.split_asm)
  then show ?thesis using Some by (auto simp: Option.bind_eq_Some_conv)
qed (use assms in \<open>simp add: make_proof_def\<close>)

text \<open>
  What a returned result says of the run: the session was at most an hour old and not more than a
  minute ahead, and in the blocking mode the proof in the receipt came from the native prover.
\<close>
theorem worker_result_conditions:
  assumes "process_logic_execution h d = Some (Inr r)" "\<not> wd_isWarmup d" "host_faithful h"
  shows "(\<forall>ts. wd_sessionTimestamp d = Some ts \<longrightarrow>
            wh_clock h 0 \<le> ts + MAX_SESSION_KEY_LIFETIME_MS \<and> ts \<le> wh_clock h 1 + 60000) \<and>
         (wd_proofMode d = Some PROOF_MODE_ZK_BLOCKING \<longrightarrow>
            (\<exists>prove circuit inputsJson pf receipt dr. wh_prover h = Some prove \<and> prove circuit inputsJson = Some pf \<and>
               wr_zk_receipt r = Some receipt \<and>
               decode (ve_sha (wh_env h)) (cd_fromBase64 (wh_codec h) receipt) = Inr dr \<and> dr_proof dr = pf))"
proof (intro conjI allI impI)
  fix ts assume ts: "wd_sessionTimestamp d = Some ts"
  have "check_session h (wd_sessionTimestamp d) = Inr ()" using assms(1,2) by (elim process_cases)
  then show "wh_clock h 0 \<le> ts + MAX_SESSION_KEY_LIFETIME_MS" "ts \<le> wh_clock h 1 + 60000"
    by (simp_all add: check_session_def ts)
next
  assume mode: "wd_proofMode d = Some PROOF_MODE_ZK_BLOCKING"
  from assms(1,2) mode obtain ins img v fuel where "commit_v2 h d PROOF_MODE_ZK_BLOCKING ins img v fuel = Inr r"
    by (elim process_cases) (auto simp: commit_output_def)
  then obtain journal pf raw ty where pf: "make_proof h PROOF_MODE_ZK_BLOCKING (wd_records d) ins v = Inr pf"
    and seal: "seal_receipt h (wd_pqcSigningKey d) journal pf = Inr (raw, ty)"
    and receipt: "wr_zk_receipt r = Some (cd_toBase64 (wh_codec h) raw)"
    by (auto simp: commit_v2_def Let_def)
  obtain prove circuit inputsJson where "wh_prover h = Some prove" "prove circuit inputsJson = Some pf"
    using blocking_proof [OF pf] by blast
  moreover obtain dr where "decode (ve_sha (wh_env h)) raw = Inr dr" "dr_proof dr = pf"
    using seal_receipt_decodes [OF _ seal] assms(3) by (auto simp: host_faithful_def)
  ultimately show "\<exists>prove circuit inputsJson pf receipt dr. wh_prover h = Some prove \<and> prove circuit inputsJson = Some pf \<and>
      wr_zk_receipt r = Some receipt \<and>
      decode (ve_sha (wh_env h)) (cd_fromBase64 (wh_codec h) receipt) = Inr dr \<and> dr_proof dr = pf"
    using receipt assms(3) by (auto simp: host_faithful_def)
qed

lemma optimistic_placeholder:
  assumes "process_logic_execution h d = Some (Inr r)" "\<not> wd_isWarmup d" "host_faithful h"
    and "wd_proofMode d = Some PROOF_MODE_ZK_OPTIMISTIC" "wh_prover h = None"
  shows "verdict_of r \<noteq> ''hmac'' \<and>
     (\<exists>receipt dr. wr_zk_receipt r = Some receipt \<and>
        decode (ve_sha (wh_env h)) (cd_fromBase64 (wh_codec h) receipt) = Inr dr \<and> dr_proof dr = replicate 128 0x42)"
proof -
  from assms(1,2,4) obtain ins img v fuel where "commit_v2 h d PROOF_MODE_ZK_OPTIMISTIC ins img v fuel = Inr r"
    by (elim process_cases) (auto simp: commit_output_def)
  then obtain journal pf raw ty where pf: "make_proof h PROOF_MODE_ZK_OPTIMISTIC (wd_records d) ins v = Inr pf"
    and seal: "seal_receipt h (wd_pqcSigningKey d) journal pf = Inr (raw, ty)"
    and receipt: "wr_zk_receipt r = Some (cd_toBase64 (wh_codec h) raw)" "wr_proof_type r = Some ty"
    by (auto simp: commit_v2_def Let_def)
  have "pf = replicate 128 0x42"
    using pf assms(5)
    by (simp add: make_proof_def PROOF_MODE_ZK_OPTIMISTIC_def PROOF_MODE_ZK_BLOCKING_def placeholder_proof_def)
  moreover obtain dr where "decode (ve_sha (wh_env h)) raw = Inr dr" "dr_proof dr = pf" "ty = GROTH16 \<or> ty = GROTH16_PQC_HYBRID"
    using seal_receipt_decodes [OF _ seal] assms(3) by (auto simp: host_faithful_def)
  ultimately show ?thesis using receipt assms(3) by (auto simp: host_faithful_def verdict_of_def)
qed

text \<open>
  In the optimistic mode on a host without the native prover, every receipt is of a Groth16 type and carries
  128 bytes \<open>0x42\<close> as its proof.
\<close>
theorem optimistic_proof_is_placeholder:
  assumes "process_logic_execution h d = Some (Inr r)" "\<not> wd_isWarmup d" "host_faithful h"
    and "wd_proofMode d = Some PROOF_MODE_ZK_OPTIMISTIC" "wh_prover h = None"
  shows "verdict_of r \<noteq> ''hmac'' \<and>
     (\<exists>receipt dr. wr_zk_receipt r = Some receipt \<and>
        decode (ve_sha (wh_env h)) (cd_fromBase64 (wh_codec h) receipt) = Inr dr \<and> dr_proof dr = replicate 128 0x42)"
  using assms by (rule optimistic_placeholder)

section \<open>A concrete host\<close>

text \<open>
  A host on which the statements apply: the identity for text, hexadecimal for base64, a parser that
  inverts the printer of flat objects, and the engine of the sandbox theory.
\<close>

definition demo_parse :: "string \<Rightarrow> jval option" where
  "demo_parse s =
     (if \<exists>fs. s = json_object fs
      then Some (JObj None (map (map_prod id atom_value) (SOME fs. s = json_object fs)))
      else if s = ''3'' then Some (JNum (Fin 3)) else None)"

definition demo_env :: verifier_env where
  "demo_env = \<lparr>ve_sha = (\<lambda>_. Abs_digest (replicate 32 1)), ve_hmac = (\<lambda>_ _. Abs_digest (replicate 32 2)),
     ve_text = (\<lambda>b. SOME s. utf8 s = b), ve_parse = demo_parse, ve_stringify = (\<lambda>_. ''3''), ve_fromHex = inv hex_of,
     ve_dsa = demo_dsa, ve_decode = (\<lambda>_. None), ve_groth = (\<lambda>_ _. None)\<rparr>"

definition demo_host :: worker_host where
  "demo_host = \<lparr>wh_clock = (\<lambda>_. 1000), wh_decap = (\<lambda>_ _. Some (replicate 32 0)), wh_aes = demo_gcm, wh_engine = demo_engine,
     wh_env = demo_env, wh_rnd = (\<lambda>_. 1), wh_codec = demo_codec, wh_number = (\<lambda>_. Fin 1), wh_prover = None\<rparr>"

definition demo_data :: worker_data where
  "demo_data = \<lparr>wd_isWarmup = False, wd_ciphertext = [], wd_secretKey = [], wd_wasmBinary = utf8 ''return records.length'',
     wd_inputs = [], wd_records = [], wd_sessionTimestamp = Some 500, wd_isEncrypted = Some False, wd_aesNonce = None,
     wd_proofMode = Some PROOF_MODE_ZK_OPTIMISTIC, wd_guestImageId = None, wd_pqcSigningKey = None, wd_dpConfig = None\<rparr>"

lemma json_object_inj: "json_object fs = json_object gs \<Longrightarrow> fs = gs"
proof -
  assume eq: "json_object fs = json_object gs"
  have ne: "json_object (f # fs) \<noteq> json_object []" for f fs
  proof -
    have "json_field f \<noteq> []" by (simp add: json_field_def json_string_def)
    then have "join '','' (map json_field (f # fs)) \<noteq> []" by (cases fs) auto
    then show ?thesis by (auto simp: json_object_def)
  qed
  show "fs = gs"
    using eq ne json_object_inject [of fs gs] by (cases fs; cases gs) metis+
qed

lemma demo_parse_object: "demo_parse (json_object fs) = Some (JObj None (map (map_prod id atom_value) fs))"
proof -
  have "(SOME gs. json_object fs = json_object gs) = fs" by (rule some_equality) (auto dest: json_object_inj)
  moreover have "\<exists>gs. json_object fs = json_object gs" by blast
  ultimately show ?thesis by (simp only: demo_parse_def) simp
qed

lemma demo_host_faithful: "host_faithful demo_host"
  by (simp add: host_faithful_def demo_host_def demo_env_def demo_dsa_correct demo_codec_def inv_f_f inj_def demo_parse_object)

lemma demo_program:
  "plain_program demo_env (utf8 ''return records.length'')"
  "try_extract_proxy_output demo_env (utf8 ''return records.length'') = None"
  "classify_payload demo_host (utf8 ''return records.length'') = Inr (Script_Code ''return records.length'')"
proof -
  have norm: "normalize_logic_source ''return records.length'' = ''return records.length''"
    "envelope_body ''return records.length'' = None"
    by (simp_all add: normalize_logic_source_def envelope_body_def trim_def js_space_def starts_with_def)
  have bytes: "\<not> wasm_magic (utf8 ''return records.length'')" "\<not> wasm_like (utf8 ''return records.length'')"
    by (simp_all add: wasm_magic_def wasm_like_def utf8_def utf8_char_def)
  have decoded: "ve_text demo_env (utf8 s) = s" for s by (simp add: demo_env_def)
  show "plain_program demo_env (utf8 ''return records.length'')"
    using norm bytes by (simp add: plain_program_def decoded)
  show "try_extract_proxy_output demo_env (utf8 ''return records.length'') = None"
    by (simp add: try_extract_proxy_output_def decoded trim_def js_space_def starts_with_def)
  show "classify_payload demo_host (utf8 ''return records.length'') = Inr (Script_Code ''return records.length'')"
    using bytes norm by (simp add: classify_payload_def demo_host_def decoded)
qed

lemma demo_commit:
  assumes "wd_records d = []" "wd_guestImageId d = None" "wd_pqcSigningKey d = None"
  shows "\<exists>r. commit_v2 demo_host d PROOF_MODE_ZK_OPTIMISTIC ([], JUndef)
      (derive_logic_image_digest demo_env (utf8 ''return records.length'')) v 200 = Inr r \<and> wr_output r = v"
proof -
  let ?j = "\<lparr>guestImageId = guest_image demo_env None, logicDigest = derive_logic_image_digest demo_env (utf8 ''return records.length''),
      datasetDigest = dataset_digest demo_env [], outputDigest = output_digest demo_env v,
      fuelConsumed = 200, executionTimestamp = 1000\<rparr>"
  obtain journal where j: "encode_journal_v2 ?j = Inr journal"
    using journal_v2.enc_ok [of ?j] by (auto simp: journal_ok_def guest_image_def dataset_digest_def output_digest_def)
  have "length journal = 144"
    using j journal_v2.dec_enc [OF encode_journal_ok [OF j] j] by (simp add: decode_journal_v2_iff)
  then obtain raw where "encode_v2 (ve_sha demo_env) GROTH16 journal placeholder_proof = Inr raw"
    by (simp add: encode_v2_def write_uint_def)
  then show ?thesis
    using j assms by (simp add: commit_v2_def demo_host_def make_proof_def seal_receipt_def present_bytes_def
        PROOF_MODE_ZK_OPTIMISTIC_def PROOF_MODE_ZK_BLOCKING_def lift_error_def)
qed

text \<open>Every optimistic run of this program on no records, however its request arrived.\<close>

lemma demo_runs:
  assumes "\<not> wd_isWarmup d" "check_session demo_host (wd_sessionTimestamp d) = Inr ()"
    and "open_request demo_host d = Inr (utf8 ''return records.length'', ([], JUndef), secret)"
    and "wd_records d = []" "wd_proofMode d = Some PROOF_MODE_ZK_OPTIMISTIC" "wd_guestImageId d = None"
    and "wd_pqcSigningKey d = None" "\<And>img. noisy_output demo_host d img (JNum (Fin 3)) = Some (JNum (Fin 3))"
  shows "\<exists>r. process_logic_execution demo_host d = Some (Inr r) \<and> wr_output r = sanitize_output DEFAULT_CONFIG (JNum (Fin 3))"
proof -
  have run: "sandbox_execute demo_engine (Script_Code ''return records.length'') [] [] = Inr (JNum (Fin 3), 200)"
    by (rule demo_script)
  have host: "wh_engine demo_host = demo_engine" "wh_env demo_host = demo_env" by (simp_all add: demo_host_def)
  have "process_logic_execution demo_host d =
      execute_request demo_host d (utf8 ''return records.length'') ([], JUndef) secret"
    using assms(1-3) by (simp add: process_logic_execution_def)
  also have "\<dots> = Some (commit_v2 demo_host d PROOF_MODE_ZK_OPTIMISTIC ([], JUndef)
      (derive_logic_image_digest demo_env (utf8 ''return records.length''))
      (sanitize_output DEFAULT_CONFIG (JNum (Fin 3))) 200)"
    using run host assms(4,5,8) by (simp add: execute_request_def demo_program commit_output_def)
  finally show ?thesis using demo_commit [OF assms(4,6,7)] by auto
qed

lemma demo_run:
  "\<exists>r. process_logic_execution demo_host demo_data = Some (Inr r)"
  "open_request demo_host demo_data = Inr (utf8 ''return records.length'', ([], JUndef), replicate 32 0)"
proof -
  show open_it: "open_request demo_host demo_data = Inr (utf8 ''return records.length'', ([], JUndef), replicate 32 0)"
    by (simp add: open_request_def demo_data_def)
  have live: "check_session demo_host (wd_sessionTimestamp demo_data) = Inr ()" "\<not> wd_isWarmup demo_data"
    by (simp_all add: check_session_def demo_data_def demo_host_def MAX_SESSION_KEY_LIFETIME_MS_def)
  show "\<exists>r. process_logic_execution demo_host demo_data = Some (Inr r)"
    using demo_runs [OF live(2,1) open_it] by (auto simp: demo_data_def noisy_output_def)
qed


theorem worker_result_conditions_witness:
  "\<exists>r. process_logic_execution demo_host demo_data = Some (Inr r) \<and> (1000 :: int) \<le> 500 + MAX_SESSION_KEY_LIFETIME_MS"
proof -
  obtain r where r: "process_logic_execution demo_host demo_data = Some (Inr r)" using demo_run(1) by blast
  have d: "\<not> wd_isWarmup demo_data" "wd_sessionTimestamp demo_data = Some 500" "wh_clock demo_host 0 = 1000"
    by (simp_all add: demo_host_def demo_data_def)
  show ?thesis using worker_result_conditions [OF r d(1) demo_host_faithful] d(2,3) r by auto
qed

theorem optimistic_proof_is_placeholder_witness:
  "\<exists>r receipt dr. process_logic_execution demo_host demo_data = Some (Inr r) \<and> wr_zk_receipt r = Some receipt \<and>
     decode (ve_sha demo_env) (cd_fromBase64 demo_codec receipt) = Inr dr \<and> dr_proof dr = replicate 128 0x42"
proof -
  obtain r where r: "process_logic_execution demo_host demo_data = Some (Inr r)" using demo_run(1) by blast
  have d: "\<not> wd_isWarmup demo_data" "wd_proofMode demo_data = Some PROOF_MODE_ZK_OPTIMISTIC" "wh_prover demo_host = None"
    "wh_env demo_host = demo_env" "wh_codec demo_host = demo_codec"
    by (simp_all add: demo_host_def demo_data_def)
  show ?thesis using optimistic_proof_is_placeholder [OF r d(1) demo_host_faithful d(2,3)] r d(4,5) by auto
qed

end
