(* ===== verification/Pii_Scanner.thy ===== *)
theory Pii_Scanner
  imports Json_Text
begin

text \<open>
  \<open>server/pii.ts\<close> and \<open>server/ner-scanner.ts\<close>: the egress scanner. Modelled are the algorithmic
  validators (Luhn, ISO 7064, IPv4, phone, SSN), the rules and presets, the fuzzy key matching and
  the recursive scan, which also descends into JSON text found inside strings.

  Parameters: \<open>rx_matches\<close> of a regular expression lists its successive matches in a text,
  \<open>parse\<close> is \<open>JSON.parse\<close>, \<open>people\<close>/\<open>places\<close>/\<open>orgs\<close> are the entities the \<open>compromise\<close> library finds.
  The depth of JSON inside strings is bounded by fuel; more fuel than the value has text is
  always enough.
\<close>

section \<open>Validators\<close>

definition digit_val :: "char \<Rightarrow> nat" where
  "digit_val c = of_char c - 48"

definition only_digits :: "string \<Rightarrow> string" where
  "only_digits s = filter is_digit s"

definition luhn_digit :: "bool \<Rightarrow> nat \<Rightarrow> nat" where
  "luhn_digit isEven digit =
     (if isEven then (let digit = digit * 2 in if digit > 9 then digit - 9 else digit) else digit)"

fun luhn_sum :: "bool \<Rightarrow> string \<Rightarrow> nat" where
  "luhn_sum isEven [] = 0"
| "luhn_sum isEven (c # cs) = luhn_digit isEven (digit_val c) + luhn_sum (\<not> isEven) cs"

definition is_luhn_valid :: "string \<Rightarrow> bool" where
  "is_luhn_valid cardNumber =
     (let digits = only_digits cardNumber in
      if length digits < 13 \<or> length digits > 19 then False
      else luhn_sum False (rev digits) mod 10 = 0)"

text \<open>\<open>toUpperCase\<close>; the letters whose upper case lies above 255 never pass the format check.\<close>

definition to_upper_char :: "char \<Rightarrow> string" where
  "to_upper_char c =
     (let n = (of_char c :: nat) in
      if n = 223 then ''SS''
      else if (97 \<le> n \<and> n \<le> 122) \<or> (224 \<le> n \<and> n \<le> 254 \<and> n \<noteq> 247) then [char_of (n - 32)] else [c])"

definition to_upper :: "string \<Rightarrow> string" where
  "to_upper s = concat (map to_upper_char s)"

definition iban_format :: "string \<Rightarrow> bool" where
  "iban_format s \<longleftrightarrow> 5 \<le> length s \<and> length s \<le> 34 \<and> list_all is_upper (take 2 s) \<and>
     list_all is_digit (take 2 (drop 2 s)) \<and> list_all (\<lambda>c. is_upper c \<or> is_digit c) (drop 4 s)"

definition iban_char :: "char \<Rightarrow> string" where
  "iban_char c = (if is_upper c then show_nat (of_char c - 55) else [c])"

definition is_iban_valid :: "string \<Rightarrow> bool" where
  "is_iban_valid iban =
     (let sanitized = to_upper (filter (\<lambda>c. \<not> js_space c) iban) in
      if \<not> iban_format sanitized then False
      else
        (let rearranged = drop 4 sanitized @ take 4 sanitized in
         if \<not> list_all (\<lambda>c. is_upper c \<or> is_digit c) rearranged then False
         else dec_val (concat (map iban_char rearranged)) mod 97 = 1))"

definition email_validator :: "string \<Rightarrow> bool" where
  "email_validator m \<longleftrightarrow> \<not> ends_with m ''@example.com'' \<and> \<not> ends_with m ''@test.com''"

definition ip_validator :: "string \<Rightarrow> bool" where
  "ip_validator m =
     (if m \<in> set [''127.0.0.1'', ''0.0.0.0'', ''255.255.255.255''] then False
      else list_all (\<lambda>p. list_all is_digit p \<and> dec_val p \<le> 255) (split_on CHR ''.'' m))"

text \<open>\<open>/^(\d)\1+$/\<close>\<close>

definition one_repeated :: "string \<Rightarrow> bool" where
  "one_repeated s = (case s of c # d # cs \<Rightarrow> is_digit c \<and> list_all (\<lambda>x. x = c) (d # cs) | _ \<Rightarrow> False)"

definition phone_validator :: "string \<Rightarrow> bool" where
  "phone_validator m =
     (let digits = only_digits m in
      if length digits < 7 \<or> length digits > 15 then False
      else if one_repeated digits then False
      else if digits = ''1234567890'' then False
      else True)"

definition ssn_validator :: "string \<Rightarrow> bool" where
  "ssn_validator m =
     (let digits = only_digits m in
      if length digits \<noteq> 9 then False
      else
        (let area = dec_val (take 3 digits) in
         if area = 0 \<or> area = 666 \<or> area \<ge> 900 then False
         else
           (let group = dec_val (take 2 (drop 3 digits)) in
            if group = 0 then False
            else
              (let serial = dec_val (take 4 (drop 5 digits)) in
               if serial = 0 then False
               else if one_repeated digits \<or> digits = ''123456789'' then False
               else True))))"

section \<open>Rules\<close>

record regex =
  rx_source :: string
  rx_global :: bool
  rx_matches :: "string \<Rightarrow> string list"

datatype pii_pattern = PStr string | PRegex regex

record pii_rule_definition =
  rd_name :: string
  rd_pattern :: pii_pattern
  rd_validator :: "(string \<Rightarrow> bool) option"

datatype pii_rule = RStr string | RRegex regex | RDef pii_rule_definition

text \<open>The built-in rules; \<open>rx name\<close> is the regular expression the source gives under that name.\<close>

definition PII_PATTERNS :: "(string \<Rightarrow> regex) \<Rightarrow> (string \<times> pii_rule_definition) list" where
  "PII_PATTERNS rx = map (\<lambda>(n, v). (n, \<lparr>rd_name = n, rd_pattern = PRegex (rx n), rd_validator = v\<rparr>))
     [(''EMAIL'', Some email_validator), (''CREDIT_CARD'', Some is_luhn_valid), (''IP_ADDRESS'', Some ip_validator),
      (''PHONE'', Some phone_validator), (''SSN'', Some ssn_validator), (''IBAN'', Some is_iban_valid),
      (''PASSPORT_MRZ'', None)]"

definition preset :: "(string \<Rightarrow> regex) \<Rightarrow> string list \<Rightarrow> pii_rule list" where
  "preset rx names = map (\<lambda>n. RDef (the (map_of (PII_PATTERNS rx) n))) names"

definition GLOBAL_STRICT :: "(string \<Rightarrow> regex) \<Rightarrow> pii_rule list" where
  "GLOBAL_STRICT rx = preset rx [''EMAIL'', ''CREDIT_CARD'', ''IP_ADDRESS'', ''PHONE'', ''PASSPORT_MRZ'', ''IBAN'']"

definition US_COMPLIANT :: "(string \<Rightarrow> regex) \<Rightarrow> pii_rule list" where
  "US_COMPLIANT rx = preset rx [''EMAIL'', ''CREDIT_CARD'', ''IP_ADDRESS'', ''PHONE'', ''SSN'', ''PASSPORT_MRZ'']"

definition EU_GDPR :: "(string \<Rightarrow> regex) \<Rightarrow> pii_rule list" where
  "EU_GDPR rx = preset rx [''EMAIL'', ''CREDIT_CARD'', ''IP_ADDRESS'', ''PHONE'', ''IBAN'', ''PASSPORT_MRZ'']"

definition validates :: "(string \<Rightarrow> bool) option \<Rightarrow> string \<Rightarrow> bool" where
  "validates v m = (case v of None \<Rightarrow> True | Some f \<Rightarrow> f m)"

definition check_rule :: "string \<Rightarrow> pii_rule \<Rightarrow> string option" where
  "check_rule text rule =
     (case rule of
        RStr r \<Rightarrow> if str_includes (to_lower text) (to_lower r) then Some r else None
      | RRegex r \<Rightarrow> if rx_matches r text \<noteq> [] then Some (rx_source r) else None
      | RDef def \<Rightarrow>
          (case rd_pattern def of
             PStr p \<Rightarrow>
               if str_includes (to_lower text) (to_lower p) \<and> validates (rd_validator def) p
               then Some (rd_name def) else None
           | PRegex r \<Rightarrow>
               (let ms = (if rx_global r then rx_matches r text else take 1 (rx_matches r text)) in
                if list_ex (validates (rd_validator def)) ms then Some (rd_name def) else None)))"

fun check_string :: "pii_rule list \<Rightarrow> string \<Rightarrow> string option" where
  "check_string [] text = None"
| "check_string (rule # rules) text =
     (case check_rule text rule of Some v \<Rightarrow> Some v | None \<Rightarrow> check_string rules text)"

section \<open>Keys\<close>

definition KEY_SAFELIST :: "string list" where
  "KEY_SAFELIST =
    [''grid'', ''video'', ''android'', ''identity'', ''provide'', ''override'', ''validate'', ''hidden'', ''widget'',
     ''guidelines'', ''beside'', ''guideline'', ''outside'', ''inside'', ''collide'', ''decide'', ''divide'', ''aside'',
     ''ride'', ''side'', ''wide'', ''hide'', ''tide'', ''pride'', ''bride'', ''slide'', ''guide'', ''stride'', ''oxide'',
     ''dioxide'', ''suicide'', ''homicide'', ''pesticide'', ''valid'', ''invalid'', ''void'', ''avoid'',
     ''diagnosis'', ''medication'', ''namespace'', ''namesake'', ''rename'', ''filename'', ''hostname'', ''typename'',
     ''unnamed'', ''renamed'',
     ''phonetic'', ''phoneme'', ''microphone'', ''headphone'', ''telephone'', ''saxophone'', ''smartphone'',
     ''streetview'', ''addressable'', ''addressing'',
     ''cityscape'', ''electricity'', ''capacity'', ''velocity'', ''opacity'',
     ''timestamp'', ''timezone'',
     ''image_id'', ''computation_result'', ''zk_receipt'', ''testid'', ''toolid'', ''sessionid'', ''peerid'', ''nodeid'',
     ''requestid'', ''correlationid'', ''traceid'', ''spanid'']"

text \<open>
  The regular expression built for a short token, for tokens of letters and digits:
  \<open>(?:^|[_-])ci(?:$|[_-])|camel(?:$|[A-Z_-])|^ci$\<close>, where \<open>ci\<close> ignores case and \<open>camel\<close> is a
  lower-case letter followed by the token with its first letter in upper case.
\<close>

definition sep_char :: "char \<Rightarrow> bool" where
  "sep_char c \<longleftrightarrow> c = CHR ''_'' \<or> c = CHR ''-''"

definition boundary_at :: "string \<Rightarrow> string \<Rightarrow> nat \<Rightarrow> bool" where
  "boundary_at token key i =
     (let rest = drop i key; after = drop (i + length token) key in
      (i = 0 \<or> sep_char (key ! (i - 1))) \<and> i + length token \<le> length key \<and>
      to_lower (take (length token) rest) = to_lower token \<and>
      (after = [] \<or> sep_char (hd after)))"

definition camel_at :: "string \<Rightarrow> string \<Rightarrow> nat \<Rightarrow> bool" where
  "camel_at token key i =
     (let camel = to_upper (take 1 token) @ drop 1 token; after = drop (i + 1 + length camel) key in
      i < length key \<and> is_lower (key ! i) \<and> take (length camel) (drop (i + 1) key) = camel \<and>
      (after = [] \<or> is_upper (hd after) \<or> sep_char (hd after)))"

definition boundary_test :: "string \<Rightarrow> string \<Rightarrow> bool" where
  "boundary_test token key =
     (list_ex (boundary_at token key) [0..<Suc (length key)] \<or> list_ex (camel_at token key) [0..<length key] \<or>
      to_lower key = to_lower token)"

datatype violation =
  Forbidden_Key string
| Fuzzy_Boundary string string
| Fuzzy_Token string string
| Pattern_Match string
| Person_Entity string

section \<open>Named entities\<close>

datatype entity_type = Person | Place | Organization

record nlp =
  people :: "string \<Rightarrow> string list"
  places :: "string \<Rightarrow> string list"
  orgs :: "string \<Rightarrow> string list"

definition MIN_TEXT_LENGTH :: nat where
  "MIN_TEXT_LENGTH = 4"

definition non_text :: "string \<Rightarrow> bool" where
  "non_text s \<longleftrightarrow> s \<noteq> [] \<and>
     list_all (\<lambda>c. is_digit c \<or> js_space c \<or>
       c \<in> set ''.,:;!?()[]{}<>@#$%^&*+=|/`~_-'' \<or> c = CHR 0x5C \<or> c = CHR 0x22 \<or> c = CHR 0x27) s"

definition entities_of :: "entity_type \<Rightarrow> string list \<Rightarrow> (entity_type \<times> string) list" where
  "entities_of ty found = map (Pair ty) (filter (\<lambda>t. length t \<ge> MIN_TEXT_LENGTH) (map trim found))"

definition ner_scan :: "nlp \<Rightarrow> string \<Rightarrow> (entity_type \<times> string) list" where
  "ner_scan nlp text =
     (if length text < MIN_TEXT_LENGTH \<or> non_text text then []
      else entities_of Person (people nlp text) @ entities_of Place (places nlp text)
           @ entities_of Organization (orgs nlp text))"

fun ner_scan_deep :: "nlp \<Rightarrow> nat set \<Rightarrow> jval \<Rightarrow> (entity_type \<times> string) list \<times> nat set"
  and ner_scan_values :: "nlp \<Rightarrow> nat set \<Rightarrow> jval list \<Rightarrow> (entity_type \<times> string) list
    \<Rightarrow> (entity_type \<times> string) list \<times> nat set"
  and ner_scan_fields :: "nlp \<Rightarrow> nat set \<Rightarrow> (string \<times> jval) list \<Rightarrow> (entity_type \<times> string) list
    \<Rightarrow> (entity_type \<times> string) list \<times> nat set" where
  "ner_scan_deep nlp seen (JStr s) = (ner_scan nlp s, seen)"
| "ner_scan_deep nlp seen (JArr i xs) =
     (if visited i seen then ([], seen) else ner_scan_values nlp (visit i seen) xs [])"
| "ner_scan_deep nlp seen (JObj i fs) =
     (if visited i seen then ([], seen) else ner_scan_fields nlp (visit i seen) fs [])"
| "ner_scan_deep nlp seen v = ([], seen)"
| "ner_scan_values nlp seen [] allEntities = (allEntities, seen)"
| "ner_scan_values nlp seen (x # xs) allEntities =
     (let (entities, seen) = ner_scan_deep nlp seen x; allEntities = allEntities @ entities in
      if list_ex (\<lambda>e. fst e = Person) entities then (allEntities, seen)
      else ner_scan_values nlp seen xs allEntities)"
| "ner_scan_fields nlp seen [] allEntities = (allEntities, seen)"
| "ner_scan_fields nlp seen ((k, x) # fs) allEntities =
     (let (entities, seen) = ner_scan_deep nlp seen x; allEntities = allEntities @ entities in
      if list_ex (\<lambda>e. fst e = Person) entities then (allEntities, seen)
      else ner_scan_fields nlp seen fs allEntities)"

section \<open>The scanner\<close>

record pii_scanner =
  ps_patterns :: "pii_rule list"
  ps_forbiddenKeysSet :: "string list"
  ps_nerScanner :: "nlp option"
  ps_shortTokens :: "string list"
  ps_longForbiddenTokens :: "string list"

definition pii_scanner_new :: "pii_rule list \<Rightarrow> string list \<Rightarrow> nlp option \<Rightarrow> pii_scanner" where
  "pii_scanner_new patterns forbiddenKeys nerScanner =
     (let forbidden = fold set_add (map to_lower forbiddenKeys) [] in
      \<lparr>ps_patterns = patterns, ps_forbiddenKeysSet = forbidden, ps_nerScanner = nerScanner,
       ps_shortTokens = filter (\<lambda>t. length t < 4) forbidden,
       ps_longForbiddenTokens = filter (\<lambda>t. \<not> length t < 4) forbidden\<rparr>)"

definition check_key_fuzzy :: "pii_scanner \<Rightarrow> string \<Rightarrow> violation option" where
  "check_key_fuzzy s key =
     (let normalized = to_lower key in
      if normalized \<in> set KEY_SAFELIST then None
      else case find (\<lambda>token. boundary_test token key) (ps_shortTokens s) of
        Some token \<Rightarrow> Some (Fuzzy_Boundary key token)
      | None \<Rightarrow>
          (case find (\<lambda>token. str_includes normalized token) (ps_longForbiddenTokens s) of
             Some token \<Rightarrow> Some (Fuzzy_Token key token)
           | None \<Rightarrow> None))"

definition check_key :: "pii_scanner \<Rightarrow> string \<Rightarrow> violation option" where
  "check_key s key =
     (if to_lower key \<in> set (ps_forbiddenKeysSet s) then Some (Forbidden_Key key) else check_key_fuzzy s key)"

definition looks_json :: "string \<Rightarrow> bool" where
  "looks_json t \<longleftrightarrow> (starts_with t ''{'' \<and> ends_with t ''}'') \<or> (starts_with t ''['' \<and> ends_with t '']'')"

text \<open>The checks on the text itself, after any JSON inside it has been scanned.\<close>

definition check_text :: "pii_scanner \<Rightarrow> string \<Rightarrow> violation option" where
  "check_text s text =
     (case check_string (ps_patterns s) text of
        Some v \<Rightarrow> Some (Pattern_Match v)
      | None \<Rightarrow>
          (case ps_nerScanner s of
             None \<Rightarrow> None
           | Some nlp \<Rightarrow>
               map_option (\<lambda>e. Person_Entity (snd e)) (find (\<lambda>e. fst e = Person) (ner_scan nlp text))))"

text \<open>\<open>None\<close>: out of fuel. Otherwise the violation found, if any, and the objects seen.\<close>

fun scan :: "(string \<Rightarrow> jval option) \<Rightarrow> pii_scanner \<Rightarrow> nat \<Rightarrow> nat set \<Rightarrow> jval \<Rightarrow> (violation option \<times> nat set) option"
  and scan_items :: "(string \<Rightarrow> jval option) \<Rightarrow> pii_scanner \<Rightarrow> nat \<Rightarrow> nat set \<Rightarrow> jval list
    \<Rightarrow> (violation option \<times> nat set) option"
  and scan_fields :: "(string \<Rightarrow> jval option) \<Rightarrow> pii_scanner \<Rightarrow> nat \<Rightarrow> nat set \<Rightarrow> (string \<times> jval) list
    \<Rightarrow> (violation option \<times> nat set) option" where
  "scan parse s fuel seen (JStr input) =
     (let trimmed = trim input in
      case (if looks_json trimmed then parse trimmed else None) of
        None \<Rightarrow> Some (check_text s input, seen)
      | Some parsed \<Rightarrow>
          (case fuel of
             0 \<Rightarrow> None
           | Suc fuel' \<Rightarrow>
               (case scan parse s fuel' seen parsed of
                  None \<Rightarrow> None
                | Some (Some v, seen) \<Rightarrow> Some (Some v, seen)
                | Some (None, seen) \<Rightarrow> Some (check_text s input, seen))))"
| "scan parse s fuel seen (JArr i xs) =
     (if visited i seen then Some (None, seen) else scan_items parse s fuel (visit i seen) xs)"
| "scan parse s fuel seen (JObj i fs) =
     (if visited i seen then Some (None, seen) else scan_fields parse s fuel (visit i seen) fs)"
| "scan parse s fuel seen v = Some (None, seen)"
| "scan_items parse s fuel seen [] = Some (None, seen)"
| "scan_items parse s fuel seen (x # xs) =
     (case scan parse s fuel seen x of
        Some (None, seen) \<Rightarrow> scan_items parse s fuel seen xs
      | r \<Rightarrow> r)"
| "scan_fields parse s fuel seen [] = Some (None, seen)"
| "scan_fields parse s fuel seen ((key, value) # fs) =
     (case check_key s key of
        Some v \<Rightarrow> Some (Some v, seen)
      | None \<Rightarrow>
          (case scan parse s fuel seen value of
             Some (None, seen) \<Rightarrow> scan_fields parse s fuel seen fs
           | r \<Rightarrow> r))"

section \<open>What a value exposes\<close>

text \<open>The parts of a value: items, fields, and the values of JSON text inside its strings.\<close>

inductive part :: "(string \<Rightarrow> jval option) \<Rightarrow> jval \<Rightarrow> jval \<Rightarrow> bool" for parse where
  here: "part parse v v"
| item: "x \<in> set xs \<Longrightarrow> part parse x w \<Longrightarrow> part parse (JArr i xs) w"
| member: "(k, x) \<in> set fs \<Longrightarrow> part parse x w \<Longrightarrow> part parse (JObj i fs) w"
| json: "looks_json (trim t) \<Longrightarrow> parse (trim t) = Some p \<Longrightarrow> part parse p w \<Longrightarrow> part parse (JStr t) w"

inductive_simps part_simps:
  "part parse JUndef w" "part parse JNull w" "part parse (JBool b) w" "part parse (JNum n) w"
  "part parse (JStr t) w" "part parse (JArr i xs) w" "part parse (JObj i fs) w"

fun flagged :: "pii_scanner \<Rightarrow> jval \<Rightarrow> bool" where
  "flagged s (JStr t) = (check_text s t \<noteq> None)"
| "flagged s (JObj i fs) = list_ex (\<lambda>p. check_key s (fst p) \<noteq> None) fs"
| "flagged s v = False"

definition leaks :: "(string \<Rightarrow> jval option) \<Rightarrow> pii_scanner \<Rightarrow> jval \<Rightarrow> bool" where
  "leaks parse s v \<longleftrightarrow> (\<exists>w. part parse v w \<and> flagged s w)"

lemma leaks_atom [simp]:
  "\<not> leaks parse s JUndef" "\<not> leaks parse s JNull" "\<not> leaks parse s (JBool b)" "\<not> leaks parse s (JNum n)"
  by (simp_all add: leaks_def part_simps)

lemma leaks_arr [simp]: "leaks parse s (JArr i xs) \<longleftrightarrow> (\<exists>x\<in>set xs. leaks parse s x)"
  unfolding leaks_def part_simps by auto

lemma leaks_obj [simp]:
  "leaks parse s (JObj i fs) \<longleftrightarrow> (\<exists>p\<in>set fs. check_key s (fst p) \<noteq> None \<or> leaks parse s (snd p))"
proof -
  have "leaks parse s (JObj i fs) \<longleftrightarrow> flagged s (JObj i fs) \<or> (\<exists>w k x. (k, x) \<in> set fs \<and> part parse x w \<and> flagged s w)"
    unfolding leaks_def part_simps by blast
  also have "\<dots> \<longleftrightarrow> (\<exists>p\<in>set fs. check_key s (fst p) \<noteq> None \<or> leaks parse s (snd p))"
    unfolding leaks_def flagged.simps list_ex_iff by (metis fst_conv snd_conv prod.collapse)
  finally show ?thesis .
qed

lemma leaks_str [simp]:
  "leaks parse s (JStr t) \<longleftrightarrow> check_text s t \<noteq> None \<or>
     (looks_json (trim t) \<and> (\<exists>p. parse (trim t) = Some p \<and> leaks parse s p))"
proof -
  have "leaks parse s (JStr t) \<longleftrightarrow> flagged s (JStr t) \<or>
     (\<exists>w p. looks_json (trim t) \<and> parse (trim t) = Some p \<and> part parse p w \<and> flagged s w)"
    unfolding leaks_def part_simps by blast
  then show ?thesis unfolding leaks_def flagged.simps by blast
qed

text \<open>The amount of text in a value, with its separators: more fuel than this is never needed.\<close>

fun weight :: "jval \<Rightarrow> nat" where
  "weight (JStr t) = length t"
| "weight (JArr i xs) = sum_list (map (\<lambda>x. Suc (weight x)) xs)"
| "weight (JObj i fs) = sum_list (map (\<lambda>p. Suc (weight (snd p))) fs)"
| "weight v = 0"

text \<open>Two facts about \<open>JSON.parse\<close>: its results are fresh and hold less text than the source.\<close>

definition json_parser :: "(string \<Rightarrow> jval option) \<Rightarrow> bool" where
  "json_parser parse \<longleftrightarrow> (\<forall>t p. parse t = Some p \<longrightarrow> weight p < length t \<and> ids p = [])"

lemma length_trim: "length (trim t) \<le> length t"
  unfolding trim_def by (metis length_dropWhile_le length_rev order_trans)

definition scan_ok :: "bool \<Rightarrow> nat set \<Rightarrow> nat list \<Rightarrow> (violation option \<times> nat set) option \<Rightarrow> bool" where
  "scan_ok lk seen is r \<longleftrightarrow>
     (case r of None \<Rightarrow> False | Some (v, seen') \<Rightarrow> seen' \<subseteq> seen \<union> set is \<and> (v \<noteq> None) = lk)"

lemma scan_correct:
  "json_parser parse \<Longrightarrow> distinct (ids v) \<Longrightarrow> set (ids v) \<inter> seen = {} \<Longrightarrow> weight v \<le> fuel \<Longrightarrow>
     scan_ok (leaks parse s v) seen (ids v) (scan parse s fuel seen v)"
  "json_parser parse \<Longrightarrow> distinct (concat (map ids xs)) \<Longrightarrow> set (concat (map ids xs)) \<inter> seen = {} \<Longrightarrow>
     sum_list (map (\<lambda>x. Suc (weight x)) xs) \<le> fuel \<Longrightarrow>
     scan_ok (\<exists>x\<in>set xs. leaks parse s x) seen (concat (map ids xs)) (scan_items parse s fuel seen xs)"
  "json_parser parse \<Longrightarrow> distinct (concat (map (\<lambda>p. ids (snd p)) fs)) \<Longrightarrow>
     set (concat (map (\<lambda>p. ids (snd p)) fs)) \<inter> seen = {} \<Longrightarrow>
     sum_list (map (\<lambda>p. Suc (weight (snd p))) fs) \<le> fuel \<Longrightarrow>
     scan_ok (\<exists>p\<in>set fs. check_key s (fst p) \<noteq> None \<or> leaks parse s (snd p)) seen
       (concat (map (\<lambda>p. ids (snd p)) fs)) (scan_fields parse s fuel seen fs)"
proof (induction parse s fuel seen v and parse s fuel seen xs and parse s fuel seen fs
    rule: scan_scan_items_scan_fields.induct)
  case (1 parse s fuel seen t)
  show ?case
  proof (cases "looks_json (trim t) \<and> parse (trim t) \<noteq> None")
    case True
    then obtain p where p: "looks_json (trim t)" "parse (trim t) = Some p" by auto
    with \<open>json_parser parse\<close> have w: "weight p < length (trim t)" "ids p = []" by (auto simp: json_parser_def)
    with 1(5) length_trim [of t] obtain f where f: "fuel = Suc f" "weight p \<le> f"
      by (cases fuel) auto
    have "scan_ok (leaks parse s p) seen [] (scan parse s f seen p)"
      using 1(1) [OF refl, of p f] 1(2) p f w by simp
    then show ?thesis
      using p f by (auto simp: scan_ok_def Let_def split: option.splits)
  next
    case False
    then show ?thesis by (auto simp: scan_ok_def Let_def split: option.splits)
  qed
next
  case (2 parse s fuel seen i xs)
  then show ?case by (cases i) (auto simp: visited_def visit_def scan_ok_def split: option.splits)
next
  case (3 parse s fuel seen i fs)
  then show ?case by (cases i) (auto simp: visited_def visit_def scan_ok_def split: option.splits)
next
  case (6 parse s fuel seen x xs)
  have "scan_ok (leaks parse s x) seen (ids x) (scan parse s fuel seen x)"
    using 6(1) [OF 6(3)] 6(4-6) by (auto simp: Int_Un_distrib2)
  then obtain v s1 where v: "scan parse s fuel seen x = Some (v, s1)" "s1 \<subseteq> seen \<union> set (ids x)"
    "(v \<noteq> None) = leaks parse s x"
    by (auto simp: scan_ok_def split: option.splits)
  show ?case
  proof (cases v)
    case None
    have "set (concat (map ids xs)) \<inter> s1 = {}" using v(2) 6(4,5) by auto
    with 6(2) [OF v(1) refl None 6(3)] 6(4,6) have
      "scan_ok (\<exists>x\<in>set xs. leaks parse s x) s1 (concat (map ids xs)) (scan_items parse s fuel s1 xs)" by simp
    with v None show ?thesis by (auto simp: scan_ok_def split: option.splits)
  qed (use v in \<open>auto simp: scan_ok_def\<close>)
next
  case (8 parse s fuel seen key val fs)
  show ?case
  proof (cases "check_key s key")
    case None
    have "scan_ok (leaks parse s val) seen (ids val) (scan parse s fuel seen val)"
      using 8(1) [OF None 8(3)] 8(4-6) by (auto simp: Int_Un_distrib2)
    then obtain v s1 where v: "scan parse s fuel seen val = Some (v, s1)" "s1 \<subseteq> seen \<union> set (ids val)"
      "(v \<noteq> None) = leaks parse s val"
      by (auto simp: scan_ok_def split: option.splits)
    show ?thesis
    proof (cases v)
      case vn: None
      have "set (concat (map (\<lambda>p. ids (snd p)) fs)) \<inter> s1 = {}" using v(2) 8(4,5) by auto
      with 8(2) [OF None v(1) refl vn 8(3)] 8(4,6) have
        "scan_ok (\<exists>p\<in>set fs. check_key s (fst p) \<noteq> None \<or> leaks parse s (snd p)) s1
           (concat (map (\<lambda>p. ids (snd p)) fs)) (scan_fields parse s fuel s1 fs)" by simp
      with v vn None show ?thesis by (auto simp: scan_ok_def split: option.splits)
    qed (use v None in \<open>auto simp: scan_ok_def\<close>)
  qed (auto simp: scan_ok_def)
qed (auto simp: scan_ok_def)

section \<open>Check digits\<close>

lemma digit_val_code: "is_digit c \<Longrightarrow> of_char c = 48 + digit_val c \<and> digit_val c < 10"
  unfolding is_digit_def digit_val_def Let_def by linarith

lemma digit_val_bound: "is_digit c \<Longrightarrow> digit_val c < 10"
  using digit_val_code by blast

lemma digit_val_inject: "is_digit c \<Longrightarrow> is_digit d \<Longrightarrow> digit_val c = digit_val d \<Longrightarrow> c = d"
proof -
  assume "is_digit c" "is_digit d" "digit_val c = digit_val d"
  then have "(of_char c :: nat) = of_char d" using digit_val_code [of c] digit_val_code [of d] by linarith
  then show "c = d" by simp
qed

lemma luhn_digit_bound: "d < 10 \<Longrightarrow> luhn_digit e d < 10"
  by (auto simp: luhn_digit_def Let_def)

text \<open>Doubling and casting out nines permutes the ten digits.\<close>

lemma luhn_digit_inject: "c < 10 \<Longrightarrow> d < 10 \<Longrightarrow> luhn_digit e c = luhn_digit e d \<Longrightarrow> c = d"
  unfolding luhn_digit_def Let_def by (cases e; simp split: if_splits; presburger?)

lemma luhn_sum_append:
  "luhn_sum e (xs @ ys) = luhn_sum e xs + luhn_sum (if even (length xs) then e else \<not> e) ys"
  by (induction xs arbitrary: e) auto

lemma dec_val_append: "dec_val (xs @ ys) = dec_val xs * 10 ^ length ys + dec_val ys"
  by (induction ys rule: rev_induct) (simp_all add: dec_val_def algebra_simps flip: append_assoc)

lemma mod_diff_zero: "(a + b) mod m = (a + c) mod m \<Longrightarrow> (int b - int c) mod int m = 0" for a b c m :: nat
proof -
  assume "(a + b) mod m = (a + c) mod m"
  then have "int (a + b) mod int m = int (a + c) mod int m" by (simp only: zmod_int [symmetric])
  then have "int m dvd int (a + b) - int (a + c)" by (simp add: mod_eq_dvd_iff)
  then show ?thesis by (simp add: dvd_eq_mod_eq_0)
qed

lemma iban_number_digit:
  assumes "is_digit c" "is_digit d" "c \<noteq> d"
    "dec_val (concat (map iban_char (xs @ c # ys))) mod 97 = 1"
  shows "dec_val (concat (map iban_char (xs @ d # ys))) mod 97 \<noteq> 1"
proof
  assume eq: "dec_val (concat (map iban_char (xs @ d # ys))) mod 97 = 1"
  let ?k = "length (concat (map iban_char ys))"
  have plain: "iban_char x = [x]" if "is_digit x" for x
    using that by (simp add: iban_char_def is_digit_def is_upper_def Let_def)
  have val: "dec_val (concat (map iban_char (xs @ x # ys))) =
      (dec_val (concat (map iban_char xs)) * 10 ^ (?k + 1) + dec_val (concat (map iban_char ys))) + digit_val x * 10 ^ ?k"
    if "is_digit x" for x
    using plain [OF that] dec_val_append [of "concat (map iban_char xs)" "x # concat (map iban_char ys)"]
      dec_val_append [of "[x]" "concat (map iban_char ys)"]
    by (simp add: dec_val_def digit_val_def)
  have "(int (digit_val c * 10 ^ ?k) - int (digit_val d * 10 ^ ?k)) mod int 97 = 0"
    using eq assms(4) unfolding val [OF assms(1)] val [OF assms(2)]
    by (intro mod_diff_zero [where a = "dec_val (concat (map iban_char xs)) * 10 ^ (?k + 1) + dec_val (concat (map iban_char ys))"]) simp
  then have "(97 :: int) dvd (int (digit_val c) - int (digit_val d)) * 10 ^ ?k"
    by (simp add: mod_eq_0_iff_dvd left_diff_distrib)
  moreover have "coprime (97 :: int) (10 ^ ?k)"
    by (intro coprime_power_right_iff [THEN iffD2] disjI1) code_simp
  ultimately have "(97 :: int) dvd int (digit_val c) - int (digit_val d)"
    by (simp add: coprime_dvd_mult_left_iff)
  moreover have "\<bar>int (digit_val c) - int (digit_val d)\<bar> < 97"
    using digit_val_bound [OF assms(1)] digit_val_bound [OF assms(2)] by linarith
  ultimately have "digit_val c = digit_val d"
    using dvd_imp_le_int [of "int (digit_val c) - int (digit_val d)" 97] by auto
  then show False using digit_val_inject assms(1-3) by blast
qed

lemma rearrange_update:
  "\<exists>us vs. \<forall>x. drop 4 (xs @ x # ys) @ take 4 (xs @ x # ys) = us @ x # vs"
proof (cases "length xs < 4")
  case True
  then show ?thesis
    by (intro exI [of _ "drop (4 - Suc (length xs)) ys @ xs"] exI [of _ "take (4 - Suc (length xs)) ys"])
       (simp add: Suc_diff_Suc take_Cons' drop_Cons')
next
  case False
  then show ?thesis
    by (intro exI [of _ "drop 4 xs"] exI [of _ "ys @ take 4 xs"]) simp
qed

lemma small_mod_10: "(int x - int y) mod int 10 = 0 \<Longrightarrow> x < 10 \<Longrightarrow> y < 10 \<Longrightarrow> x = y"
  by presburger

section \<open>Properties\<close>

text \<open>
  C15. The egress scan is exact: for any value whose objects are reached once, with fuel for the
  text it contains, the scan ends, and it reports a violation exactly when the value has a
  forbidden or fuzzily matching key, or a string that a rule or the name detector flags,
  anywhere inside it, including inside JSON that is itself encoded in strings to any depth.
\<close>

theorem pii_scan_exact:
  assumes "json_parser parse" "distinct (ids input)" "weight input \<le> fuel"
  shows "\<exists>violation seen. scan parse s fuel {} input = Some (violation, seen) \<and>
           (violation \<noteq> None \<longleftrightarrow> leaks parse s input)"
  using scan_correct(1) [OF assms(1,2) _ assms(3), of "{}" s]
  by (auto simp: scan_ok_def split: option.splits)

theorem pii_scan_exact_witness:
  "let parse = (\<lambda>t. if t = ''[x]'' then Some (JArr None [JStr ''x'']) else None);
       s = pii_scanner_new [RStr ''x''] [''email''] None;
       v = JObj (Some 1) [(''note'', JStr '' [x]'')]
   in \<exists>violation seen. scan parse s 9 {} v = Some (violation, seen) \<and> (violation \<noteq> None \<longleftrightarrow> leaks parse s v)"
  unfolding Let_def by (rule pii_scan_exact) (auto simp: json_parser_def)

text \<open>
  The card validator detects every single-digit error: changing one digit of a number that
  passes the Luhn check yields a number that does not.
\<close>

theorem luhn_detects_single_error:
  assumes "is_luhn_valid (a @ c # b)" "is_digit c" "is_digit d" "c \<noteq> d"
  shows "\<not> is_luhn_valid (a @ d # b)"
proof
  assume bad: "is_luhn_valid (a @ d # b)"
  let ?e = "if even (length (only_digits b)) then False else True"
  have sum: "luhn_sum False (rev (only_digits (a @ x # b))) =
      luhn_sum False (rev (only_digits b)) + luhn_sum (\<not> ?e) (rev (only_digits a)) + luhn_digit ?e (digit_val x)"
    if "is_digit x" for x
    using that by (simp add: only_digits_def luhn_sum_append)
  have "(int (luhn_digit ?e (digit_val c)) - int (luhn_digit ?e (digit_val d))) mod int 10 = 0"
    using assms(1) bad sum [OF assms(2)] sum [OF assms(3)]
    by (intro mod_diff_zero [where a = "luhn_sum False (rev (only_digits b)) + luhn_sum (\<not> ?e) (rev (only_digits a))"])
       (simp add: is_luhn_valid_def Let_def split: if_splits)
  moreover have "luhn_digit ?e (digit_val c) < 10" "luhn_digit ?e (digit_val d) < 10"
    using assms(2,3) by (simp_all add: digit_val_bound luhn_digit_bound)
  ultimately have "luhn_digit ?e (digit_val c) = luhn_digit ?e (digit_val d)" by (rule small_mod_10)
  then show False
    using luhn_digit_inject digit_val_bound digit_val_inject assms(2-4) by blast
qed

theorem luhn_detects_single_error_witness:
  "is_luhn_valid (''411111111111111'' @ CHR ''1'' # []) \<and> \<not> is_luhn_valid (''411111111111111'' @ CHR ''2'' # [])"
proof -
  have v: "is_luhn_valid (''411111111111111'' @ CHR ''1'' # [])" by code_simp
  then show ?thesis using luhn_detects_single_error [OF v, of "CHR ''2''"] by (simp add: is_digit_def)
qed

text \<open>
  The IBAN validator detects every single-digit error: no two account numbers that differ in
  one digit both pass the ISO 7064 check.
\<close>

theorem iban_detects_single_error:
  assumes "is_iban_valid (a @ c # b)" "is_digit c" "is_digit d" "c \<noteq> d"
  shows "\<not> is_iban_valid (a @ d # b)"
proof
  assume bad: "is_iban_valid (a @ d # b)"
  let ?san = "\<lambda>t. to_upper (filter (\<lambda>c. \<not> js_space c) t)"
  have dig: "?san (a @ x # b) = ?san a @ x # ?san b" if "is_digit x" for x
    using that by (simp add: to_upper_def to_upper_char_def is_digit_def js_space_def Let_def)
  obtain us vs where "\<And>x. drop 4 (?san a @ x # ?san b) @ take 4 (?san a @ x # ?san b) = us @ x # vs"
    using rearrange_update [of "?san a" "?san b"] by blast
  then have "dec_val (concat (map iban_char (us @ c # vs))) mod 97 = 1"
    "dec_val (concat (map iban_char (us @ d # vs))) mod 97 = 1"
    using assms(1) bad dig [OF assms(2)] dig [OF assms(3)]
    by (auto simp: is_iban_valid_def Let_def simp del: concat_append map_append split: if_splits)
  then show False using iban_number_digit [OF assms(2-4)] by blast
qed

theorem iban_detects_single_error_witness:
  "is_iban_valid (''AA 48'' @ CHR ''1'' # []) \<and> \<not> is_iban_valid (''AA 48'' @ CHR ''7'' # [])"
proof -
  have ten: "show_nat 10 = ''10''"
    by (subst show_nat.simps, subst show_nat.simps) (simp add: digit_char_def, code_simp)
  have "to_upper (filter (\<lambda>c. \<not> js_space c) (''AA 48'' @ CHR ''1'' # [])) = ''AA481''" by code_simp
  then have v: "is_iban_valid (''AA 48'' @ CHR ''1'' # [])"
    unfolding is_iban_valid_def Let_def
    by (simp add: iban_format_def is_upper_def is_digit_def iban_char_def ten dec_val_def)
  then show ?thesis using iban_detects_single_error [OF v, of "CHR ''7''"] by (simp add: is_digit_def)
qed

end
