(* ===== verification/Egress_Policy.thy ===== *)
theory Egress_Policy
  imports Pii_Scanner Query_Budget
begin

text \<open>
  The policies of \<open>server/index.ts\<close> around an execution: \<open>runPreflightPolicy\<close> before it (pattern
  screen, taint analysis, query budget) and \<open>validateOutputPolicy\<close> after it (output schema,
  aggregation-first).

  Parameters: \<open>parse\<close> is \<open>JSON.parse\<close>, a Zod schema is the predicate of the values it accepts, a
  custom deny pattern is the predicate of the texts it matches, and the taint analyser enters as
  its result on the logic. JSON inside strings is decoded with fuel; \<open>weight\<close> is always enough.
\<close>

section \<open>Policies\<close>

record aggregation_policy =
  ag_maxOutputRows :: "int option"
  ag_allowPrimitiveArrays :: "bool option"
  ag_minMaxBlockThreshold :: "int option"

datatype aggregation_setting = Flag bool | Settings aggregation_policy

fun enabled :: "aggregation_setting option \<Rightarrow> bool" where
  "enabled None = False"
| "enabled (Some (Flag b)) = b"
| "enabled (Some (Settings p)) = True"

record execution_policy =
  ep_enforceAggregationFirst :: "aggregation_setting option"
  ep_preflightDenyPatterns :: "(string \<Rightarrow> bool) list"
  ep_outputSchema :: "(jval \<Rightarrow> bool) option"
  ep_budget :: budget_policy

section \<open>Output\<close>

definition parse_unknown_json :: "(string \<Rightarrow> jval option) \<Rightarrow> jval \<Rightarrow> jval" where
  "parse_unknown_json parse v =
     (case v of
        JStr input \<Rightarrow>
          (let trimmed = trim input in
           if looks_json trimmed then (case parse trimmed of Some p \<Rightarrow> p | None \<Rightarrow> v) else v)
      | _ \<Rightarrow> v)"

definition text_of :: "jval \<Rightarrow> string list" where
  "text_of p = (case p of JObj i fs \<Rightarrow> (case map_of fs ''text'' of Some (JStr t) \<Rightarrow> [t] | _ \<Rightarrow> []) | _ \<Rightarrow> [])"

definition field_of :: "jval \<Rightarrow> string \<Rightarrow> jval" where
  "field_of v k = (case js_prop v k of None \<Rightarrow> JUndef | Some x \<Rightarrow> x)"

text \<open>The MCP and LIOP envelopes around a result, unwrapped; \<open>None\<close> is out of fuel.\<close>

fun unwrap_for_aggregation_policy_scan :: "(string \<Rightarrow> jval option) \<Rightarrow> nat \<Rightarrow> jval \<Rightarrow> jval option" where
  "unwrap_for_aggregation_policy_scan parse fuel input =
     (case input of
        JStr s \<Rightarrow>
          (let trimmed = trim s in
           if looks_json trimmed then
             (case parse trimmed of
                None \<Rightarrow> Some input
              | Some p \<Rightarrow> (case fuel of 0 \<Rightarrow> None | Suc f \<Rightarrow> unwrap_for_aggregation_policy_scan parse f p))
           else Some input)
      | _ \<Rightarrow>
          if \<not> is_object input then Some input
          else if field_of input ''computation_result'' \<noteq> JUndef then
            (case fuel of 0 \<Rightarrow> None
             | Suc f \<Rightarrow> unwrap_for_aggregation_policy_scan parse f (field_of input ''computation_result''))
          else
            (case field_of input ''content'' of
               JArr j content \<Rightarrow>
                 (let texts = concat (map text_of content) in
                  if texts = [] then Some input
                  else (case fuel of 0 \<Rightarrow> None
                        | Suc f \<Rightarrow> unwrap_for_aggregation_policy_scan parse f (JStr (join [CHR 0x0A] texts))))
             | _ \<Rightarrow> Some input))"

declare unwrap_for_aggregation_policy_scan.simps [simp del]

definition max_rows :: "aggregation_setting \<Rightarrow> int" where
  "max_rows policyObj =
     (case policyObj of Settings p \<Rightarrow> (case ag_maxOutputRows p of Some n \<Rightarrow> n | None \<Rightarrow> 10) | Flag b \<Rightarrow> 10)"

definition allow_primitives :: "aggregation_setting \<Rightarrow> bool" where
  "allow_primitives policyObj =
     (case policyObj of Settings p \<Rightarrow> (case ag_allowPrimitiveArrays p of Some b \<Rightarrow> b | None \<Rightarrow> True) | Flag b \<Rightarrow> True)"

definition small_dataset :: "int \<Rightarrow> bool" where
  "small_dataset recordsCount \<longleftrightarrow> recordsCount > 0 \<and> recordsCount < 10"

text \<open>
  \<open>violatesAggregationFirstPolicy\<close> for a policy that is switched on. The order of the tests does
  not matter for the answer, as each only reads the value; \<open>None\<close> is out of fuel.
\<close>

fun violates_aggregation ::
    "(string \<Rightarrow> jval option) \<Rightarrow> aggregation_setting \<Rightarrow> int \<Rightarrow> nat \<Rightarrow> jval \<Rightarrow> bool option"
  and violates_items :: "(string \<Rightarrow> jval option) \<Rightarrow> aggregation_setting \<Rightarrow> int \<Rightarrow> nat \<Rightarrow> jval list \<Rightarrow> bool option"
  and violates_fields ::
    "(string \<Rightarrow> jval option) \<Rightarrow> aggregation_setting \<Rightarrow> int \<Rightarrow> nat \<Rightarrow> (string \<times> jval) list \<Rightarrow> bool option" where
  "violates_aggregation parse pol n fuel (JStr input) =
     (let trimmed = trim input in
      if looks_json trimmed then
        (case parse trimmed of
           None \<Rightarrow> Some False
         | Some p \<Rightarrow> (case fuel of 0 \<Rightarrow> None | Suc f \<Rightarrow> violates_aggregation parse pol n f p))
      else Some False)"
| "violates_aggregation parse pol n fuel (JArr i xs) =
     (if xs \<noteq> [] \<and> list_all is_object xs then
        if int (length xs) > max_rows pol then Some True else violates_items parse pol n fuel xs
      else if xs \<noteq> [] \<and> list_all (\<lambda>x. \<not> is_object x) xs then
        if \<not> allow_primitives pol then Some True else Some False
      else violates_items parse pol n fuel xs)"
| "violates_aggregation parse pol n fuel (JObj i fs) =
     (if small_dataset n \<and> (length fs > 3 \<or> list_ex (\<lambda>p. is_object (snd p)) fs) then Some True
      else if int (length fs) > max_rows pol then Some True
      else violates_fields parse pol n fuel fs)"
| "violates_aggregation parse pol n fuel v = Some False"
| "violates_items parse pol n fuel [] = Some False"
| "violates_items parse pol n fuel (x # xs) =
     (case violates_aggregation parse pol n fuel x of
        Some False \<Rightarrow> violates_items parse pol n fuel xs
      | r \<Rightarrow> r)"
| "violates_fields parse pol n fuel [] = Some False"
| "violates_fields parse pol n fuel ((k, x) # fs) =
     (case violates_aggregation parse pol n fuel x of
        Some False \<Rightarrow> violates_fields parse pol n fuel fs
      | r \<Rightarrow> r)"

definition violates_aggregation_first_policy ::
    "(string \<Rightarrow> jval option) \<Rightarrow> jval \<Rightarrow> aggregation_setting option \<Rightarrow> int \<Rightarrow> bool option" where
  "violates_aggregation_first_policy parse input policyObj recordsCount =
     (case policyObj of
        None \<Rightarrow> Some False
      | Some pol \<Rightarrow> if \<not> enabled policyObj then Some False
                    else violates_aggregation parse pol recordsCount (weight input) input)"

datatype output_error = Schema_Violation string | Aggregation_Violation

definition validate_output_policy ::
    "(string \<Rightarrow> jval option) \<Rightarrow> int \<Rightarrow> string \<Rightarrow> jval \<Rightarrow> execution_policy option \<Rightarrow> output_error option option" where
  "validate_output_policy parse recordsCount toolName result policy =
     (case policy of
        None \<Rightarrow> Some None
      | Some p \<Rightarrow>
          (let parsed = parse_unknown_json parse result in
           if is_object parsed \<and> field_of parsed ''isError'' = JBool True then Some None
           else if (case ep_outputSchema p of None \<Rightarrow> False | Some schema \<Rightarrow> \<not> schema parsed)
           then Some (Some (Schema_Violation toolName))
           else if enabled (ep_enforceAggregationFirst p) then
             (case unwrap_for_aggregation_policy_scan parse (weight parsed) parsed of
                None \<Rightarrow> None
              | Some inner \<Rightarrow>
                  (case violates_aggregation_first_policy parse inner (ep_enforceAggregationFirst p) recordsCount of
                     None \<Rightarrow> None
                   | Some bad \<Rightarrow> Some (if bad then Some Aggregation_Violation else None)))
           else Some None))"

section \<open>Preflight\<close>

text \<open>Reading the two built-in patterns from the left; case is ignored throughout.\<close>

definition skip_space :: "string \<Rightarrow> string" where
  "skip_space s = dropWhile js_space s"

definition after :: "string \<Rightarrow> string \<Rightarrow> string option" where
  "after lit s = (if starts_with (to_lower s) lit then Some (drop (length lit) s) else None)"

definition word_char :: "char \<Rightarrow> bool" where
  "word_char c \<longleftrightarrow> is_alnum c \<or> c = CHR ''_''"

text \<open>\<open>\s*\.\s*(?:w1|w2|...)\b\<close>\<close>

definition safe_chain :: "string list \<Rightarrow> string \<Rightarrow> bool" where
  "safe_chain ws s =
     (case after ''.'' (skip_space s) of
        None \<Rightarrow> False
      | Some r \<Rightarrow> list_ex (\<lambda>w. case after w (skip_space r) of
                              None \<Rightarrow> False | Some t \<Rightarrow> t = [] \<or> \<not> word_char (hd t)) ws)"

definition suffixes_of :: "string \<Rightarrow> string list" where
  "suffixes_of s = map (\<lambda>i. drop i s) [0..<Suc (length s)]"

definition returns_records :: "string \<Rightarrow> bool" where
  "returns_records s =
     list_ex (\<lambda>t. case after ''return'' t of
        None \<Rightarrow> False
      | Some r \<Rightarrow> skip_space r \<noteq> r \<and>
          (case after ''env.records'' (skip_space r) of
             None \<Rightarrow> False
           | Some q \<Rightarrow> \<not> safe_chain [''reduce'', ''length'', ''filter'', ''every'', ''some'', ''find''] q)) (suffixes_of s)"

definition labels_records :: "string \<Rightarrow> bool" where
  "labels_records t =
     list_ex (\<lambda>w. case after w t of
        None \<Rightarrow> False
      | Some r \<Rightarrow>
          (case after '':'' (skip_space r) of
             None \<Rightarrow> False
           | Some q \<Rightarrow>
               (case after ''env.records'' (skip_space q) of
                  None \<Rightarrow> False
                | Some z \<Rightarrow> \<not> safe_chain [''reduce'', ''length'', ''filter''] z)))
       [''accounts'', ''patients'', ''rows'', ''records'']"

definition returns_labelled_records :: "string \<Rightarrow> bool" where
  "returns_labelled_records s =
     list_ex (\<lambda>t. case after ''return'' t of
        None \<Rightarrow> False
      | Some r \<Rightarrow>
          (case after ''{'' (skip_space r) of
             None \<Rightarrow> False
           | Some body \<Rightarrow>
               list_ex (\<lambda>i. (i = 0 \<or> \<not> word_char (body ! (i - 1))) \<and> labels_records (drop i body))
                 [0..<Suc (length body)])) (suffixes_of s)"

lemma length_dropWhile_Suc [termination_simp]: "length (dropWhile P xs) < Suc (length xs)"
  by (simp add: le_imp_less_Suc length_dropWhile_le)

text \<open>\<open>replace(/\s+/g, " ")\<close>\<close>

fun collapse_space :: "string \<Rightarrow> string" where
  "collapse_space [] = []"
| "collapse_space (c # cs) =
     (if js_space c then CHR '' '' # collapse_space (dropWhile js_space cs) else c # collapse_space cs)"

datatype 'v preflight_error =
  Row_Export
| Deny_Pattern
| Taint_Violation 'v
| Budget budget_error

record 'v taint_result =
  tv_violation :: "'v option"
  tv_queriedFields :: "string list"

definition min_max_threshold :: "execution_policy option \<Rightarrow> int" where
  "min_max_threshold policy =
     (case policy of
        Some p \<Rightarrow> (case ep_enforceAggregationFirst p of
                     Some (Settings a) \<Rightarrow> (case ag_minMaxBlockThreshold a of Some n \<Rightarrow> n | None \<Rightarrow> 50)
                   | _ \<Rightarrow> 50)
      | None \<Rightarrow> 50)"

definition run_preflight_policy ::
    "(string \<Rightarrow> int \<Rightarrow> 'v taint_result) \<Rightarrow> store_env \<Rightarrow> string \<Rightarrow> string \<Rightarrow> execution_policy option \<Rightarrow> string
      \<Rightarrow> budget_server \<Rightarrow> budget_server \<times> 'v preflight_error option" where
  "run_preflight_policy taint env toolName logic policy clientId s =
     (let compact = collapse_space logic in
      if (case policy of None \<Rightarrow> False
          | Some p \<Rightarrow> enabled (ep_enforceAggregationFirst p) \<and> (returns_records compact \<or> returns_labelled_records compact))
      then (s, Some Row_Export)
      else if (case policy of None \<Rightarrow> False | Some p \<Rightarrow> list_ex (\<lambda>d. d compact) (ep_preflightDenyPatterns p))
      then (s, Some Deny_Pattern)
      else
        (let r = taint logic (min_max_threshold policy) in
         case tv_violation r of
           Some v \<Rightarrow> (s, Some (Taint_Violation v))
         | None \<Rightarrow>
             (case enforce_query_budget env clientId toolName (tv_queriedFields r) (map_option ep_budget policy) s of
                (s, e) \<Rightarrow> (s, map_option Budget e))))"

section \<open>What the aggregation policy sees\<close>

text \<open>
  The parts of a value the policy inspects. It does not look into arrays that hold primitive
  values only, not even when these are JSON text.
\<close>

definition primitive_array :: "jval list \<Rightarrow> bool" where
  "primitive_array xs \<longleftrightarrow> xs \<noteq> [] \<and> list_all (\<lambda>x. \<not> is_object x) xs"

inductive inspected :: "(string \<Rightarrow> jval option) \<Rightarrow> jval \<Rightarrow> jval \<Rightarrow> bool" for parse where
  self: "inspected parse v v"
| element: "x \<in> set xs \<Longrightarrow> \<not> primitive_array xs \<Longrightarrow> inspected parse x w \<Longrightarrow> inspected parse (JArr i xs) w"
| value_of: "(k, x) \<in> set fs \<Longrightarrow> inspected parse x w \<Longrightarrow> inspected parse (JObj i fs) w"
| decoded: "looks_json (trim t) \<Longrightarrow> parse (trim t) = Some p \<Longrightarrow> inspected parse p w \<Longrightarrow> inspected parse (JStr t) w"

inductive_simps inspected_simps:
  "inspected parse JUndef w" "inspected parse JNull w" "inspected parse (JBool b) w" "inspected parse (JNum n) w"
  "inspected parse (JStr t) w" "inspected parse (JArr i xs) w" "inspected parse (JObj i fs) w"

fun offends :: "aggregation_setting \<Rightarrow> int \<Rightarrow> jval \<Rightarrow> bool" where
  "offends pol n (JArr i xs) =
     (if primitive_array xs then \<not> allow_primitives pol
      else list_all is_object xs \<and> int (length xs) > max_rows pol \<and> xs \<noteq> [])"
| "offends pol n (JObj i fs) =
     (small_dataset n \<and> (length fs > 3 \<or> list_ex (\<lambda>p. is_object (snd p)) fs) \<or> int (length fs) > max_rows pol)"
| "offends pol n v = False"

definition exports :: "(string \<Rightarrow> jval option) \<Rightarrow> aggregation_setting \<Rightarrow> int \<Rightarrow> jval \<Rightarrow> bool" where
  "exports parse pol n v \<longleftrightarrow> (\<exists>w. inspected parse v w \<and> offends pol n w)"

lemma exports_atom [simp]:
  "\<not> exports parse pol n JUndef" "\<not> exports parse pol n JNull" "\<not> exports parse pol n (JBool b)"
  "\<not> exports parse pol n (JNum x)"
  by (simp_all add: exports_def inspected_simps)

lemma exports_arr:
  "exports parse pol n (JArr i xs) \<longleftrightarrow>
     offends pol n (JArr i xs) \<or> (\<not> primitive_array xs \<and> (\<exists>x\<in>set xs. exports parse pol n x))"
  unfolding exports_def inspected_simps by blast

lemma exports_obj:
  "exports parse pol n (JObj i fs) \<longleftrightarrow> offends pol n (JObj i fs) \<or> (\<exists>p\<in>set fs. exports parse pol n (snd p))"
proof -
  have "exports parse pol n (JObj i fs) \<longleftrightarrow>
      offends pol n (JObj i fs) \<or> (\<exists>w k x. (k, x) \<in> set fs \<and> inspected parse x w \<and> offends pol n w)"
    unfolding exports_def inspected_simps by blast
  then show ?thesis unfolding exports_def by (metis snd_conv prod.collapse)
qed

lemma exports_str:
  "exports parse pol n (JStr t) \<longleftrightarrow> looks_json (trim t) \<and> (\<exists>p. parse (trim t) = Some p \<and> exports parse pol n p)"
  unfolding exports_def inspected_simps by auto

lemmas exports_simps = exports_arr exports_obj exports_str

lemma violates_correct:
  "json_parser parse \<Longrightarrow> weight v \<le> fuel \<Longrightarrow>
     violates_aggregation parse pol n fuel v = Some (exports parse pol n v)"
  "json_parser parse \<Longrightarrow> sum_list (map (\<lambda>x. Suc (weight x)) xs) \<le> fuel \<Longrightarrow>
     violates_items parse pol n fuel xs = Some (\<exists>x\<in>set xs. exports parse pol n x)"
  "json_parser parse \<Longrightarrow> sum_list (map (\<lambda>p. Suc (weight (snd p))) fs) \<le> fuel \<Longrightarrow>
     violates_fields parse pol n fuel fs = Some (\<exists>p\<in>set fs. exports parse pol n (snd p))"
proof (induction parse pol n fuel v and parse pol n fuel xs and parse pol n fuel fs
    rule: violates_aggregation_violates_items_violates_fields.induct)
  case (1 parse pol n fuel t)
  show ?case
  proof (cases "looks_json (trim t) \<and> parse (trim t) \<noteq> None")
    case True
    then obtain p where p: "looks_json (trim t)" "parse (trim t) = Some p" by auto
    with \<open>json_parser parse\<close> have "weight p < length (trim t)" by (auto simp: json_parser_def)
    with 1(3) length_trim [of t] obtain f where f: "fuel = Suc f" "weight p \<le> f"
      by (cases fuel) auto
    show ?thesis using 1(1) [OF refl p f(1) 1(2) f(2)] p f(1) by (simp add: exports_str)
  next
    case False
    then show ?thesis by (auto simp: exports_str Let_def split: option.splits)
  qed
next
  case (2 parse pol n fuel i xs)
  then show ?case
    by (cases "primitive_array xs") (auto simp: exports_arr primitive_array_def list_all_iff)
next
  case (3 parse pol n fuel i fs)
  then show ?case by (auto simp: exports_obj)
next
  case (6 parse pol n fuel x xs)
  then show ?case by (cases "exports parse pol n x") auto
next
  case (8 parse pol n fuel k x fs)
  then show ?case by (cases "exports parse pol n x") auto
qed auto

lemma weight_item: "x \<in> set xs \<Longrightarrow> Suc (weight x) \<le> sum_list (map (\<lambda>x. Suc (weight x)) xs)"
  by (induction xs) auto

lemma weight_field: "map_of fs k = Some x \<Longrightarrow> Suc (weight x) \<le> sum_list (map (\<lambda>p. Suc (weight (snd p))) fs)"
  by (induction fs) (auto split: if_splits)

lemma weight_field_of: "field_of v k \<noteq> JUndef \<Longrightarrow> weight (field_of v k) < weight v"
  by (cases v) (auto simp: field_of_def Suc_le_eq dest: weight_field split: option.splits)

lemma weight_texts: "length (join [CHR 0x0A] (concat (map text_of content))) \<le> sum_list (map (\<lambda>x. Suc (weight x)) content)"
proof -
  have join_len: "length (join [c] ws) \<le> sum_list (map (\<lambda>w. Suc (length w)) ws)" for c and ws :: "string list"
    by (induction "[c]" ws rule: join.induct) auto
  have "sum_list (map (\<lambda>w. Suc (length w)) (text_of p)) \<le> Suc (weight p)" for p
    by (auto simp: text_of_def dest: weight_field split: jval.splits option.splits)
  then have "sum_list (map (\<lambda>w. Suc (length w)) (concat (map text_of content))) \<le> sum_list (map (\<lambda>x. Suc (weight x)) content)"
  proof (induction content)
    case (Cons p ps)
    have "sum_list (map (\<lambda>w. Suc (length w)) (text_of p)) \<le> Suc (weight p)" by (rule Cons.prems)
    with Cons.IH [OF Cons.prems] show ?case by simp
  qed simp
  with join_len [of "CHR 0x0A" "concat (map text_of content)"] show ?thesis by (rule order_trans)
qed

lemma unwrap_total:
  "json_parser parse \<Longrightarrow> weight v \<le> fuel \<Longrightarrow> \<exists>w. unwrap_for_aggregation_policy_scan parse fuel v = Some w"
proof (induction fuel arbitrary: v rule: less_induct)
  case (less fuel)
  have step: "\<exists>w. (case fuel of 0 \<Rightarrow> None | Suc f \<Rightarrow> unwrap_for_aggregation_policy_scan parse f u) = Some w"
    if "weight u < weight v" for u
    using that less by (cases fuel) auto
  have str: "weight p < weight v" if "v = JStr t" "parse (trim t) = Some p" for t p
    using that less.prems(1) length_trim [of t] by (auto simp: json_parser_def dest: less_le_trans)
  have con: "weight (JStr (join [CHR 0x0A] (concat (map text_of content)))) < weight v"
    if "field_of v ''content'' = JArr j content" for j content
    using weight_texts [of content] weight_field_of [of v "''content''"] that by simp
  show ?case
  proof (cases "\<exists>t. v = JStr t")
    case True
    then obtain t where v: "v = JStr t" by blast
    show ?thesis
      using step [OF str [OF v]]
      by (subst unwrap_for_aggregation_policy_scan.simps)
         (cases "looks_json (trim t) \<and> parse (trim t) \<noteq> None", auto simp: v Let_def split: option.splits)
  next
    case False
    have "unwrap_for_aggregation_policy_scan parse fuel v =
        (if \<not> is_object v then Some v
         else if field_of v ''computation_result'' \<noteq> JUndef then
           (case fuel of 0 \<Rightarrow> None
            | Suc f \<Rightarrow> unwrap_for_aggregation_policy_scan parse f (field_of v ''computation_result''))
         else (case field_of v ''content'' of
               JArr j content \<Rightarrow>
                 (let texts = concat (map text_of content) in
                  if texts = [] then Some v
                  else (case fuel of 0 \<Rightarrow> None
                        | Suc f \<Rightarrow> unwrap_for_aggregation_policy_scan parse f (JStr (join [CHR 0x0A] texts))))
             | _ \<Rightarrow> Some v))"
      using False by (subst unwrap_for_aggregation_policy_scan.simps) (cases v; simp)
    then show ?thesis
      using step [OF weight_field_of] step [OF con]
      by (cases "field_of v ''content''") (auto simp: Let_def)
  qed
qed

lemma aggregation_decided:
  assumes "json_parser parse" "enabled (Some pol)"
  shows "violates_aggregation_first_policy parse v (Some pol) recordsCount = Some (exports parse pol recordsCount v)"
  unfolding violates_aggregation_first_policy_def option.case
  using assms violates_correct(1) [of parse v "weight v" pol recordsCount] by (simp del: violates_aggregation.simps)

section \<open>Properties\<close>

text \<open>
  C22. The aggregation-first policy decides exactly what it inspects: with the policy on, a value is
  rejected exactly when an inspected part is a table of objects longer than the row limit, a
  list of primitives where these are forbidden, a dictionary with more keys than the row
  limit, or, for a dataset of fewer than ten records, an object with more than three keys or
  with nested values. The decision is always reached.
\<close>

theorem aggregation_policy_exact:
  assumes "json_parser parse" "enabled (Some pol)"
  shows "violates_aggregation_first_policy parse v (Some pol) recordsCount = Some (exports parse pol recordsCount v)"
  using assms by (rule aggregation_decided)

theorem aggregation_policy_exact_witness:
  "violates_aggregation_first_policy (\<lambda>_. None) (JArr None (replicate 11 (JObj None []))) (Some (Flag True)) 100
     = Some True"
proof -
  let ?v = "JArr None (replicate 11 (JObj None []))"
  have "violates_aggregation_first_policy (\<lambda>_. None) ?v (Some (Flag True)) 100 = Some (exports (\<lambda>_. None) (Flag True) 100 ?v)"
    by (rule aggregation_policy_exact) (simp_all add: json_parser_def)
  moreover have "exports (\<lambda>_. None) (Flag True) 100 ?v"
    by (simp add: exports_arr primitive_array_def list_all_iff max_rows_def)
  ultimately show ?thesis by simp
qed



text \<open>
  The row limit can be evaded: any number of rows with at most ten primitive fields passes the
  policy when one primitive value is put in front of them, because the limit applies to arrays
  of objects only; and any list of strings passes, even when each string is a row in JSON.
\<close>

theorem row_limit_evaded:
  assumes "list_all (\<lambda>r. \<exists>fs. r = JObj None fs \<and> length fs \<le> 10 \<and> list_all (\<lambda>p. \<exists>b. snd p = JBool b) fs) rows"
    and "json_parser parse" "recordsCount \<ge> 10"
  shows "violates_aggregation_first_policy parse (JArr None (JNull # rows)) (Some (Flag True)) recordsCount = Some False \<and>
     violates_aggregation_first_policy parse (JArr None (map JStr (t # texts))) (Some (Flag True)) recordsCount = Some False"
proof -
  have row: "\<not> exports parse (Flag True) recordsCount r" if "r \<in> set rows" for r
    using that assms(1,3)
    by (fastforce simp: list_all_iff exports_obj small_dataset_def max_rows_def)
  have "\<not> exports parse (Flag True) recordsCount (JArr None (JNull # rows))"
    using row by (auto simp: exports_arr primitive_array_def allow_primitives_def)
  moreover have "\<not> exports parse (Flag True) recordsCount (JArr None (map JStr (t # texts)))"
    by (auto simp: exports_arr primitive_array_def allow_primitives_def list_all_iff)
  ultimately show ?thesis
    using aggregation_decided [OF assms(2), of "Flag True" _ recordsCount] by simp
qed

theorem row_limit_evaded_witness:
  "violates_aggregation_first_policy (\<lambda>_. None)
     (JArr None (JNull # replicate 1000 (JObj None [(''active'', JBool True)]))) (Some (Flag True)) 1000 = Some False"
  by (rule row_limit_evaded [THEN conjunct1]) (auto simp: list_all_iff json_parser_def)

text \<open>
  A rejected request costs nothing: whenever the preflight rejects, for whatever reason, every
  counter of every client, tool and field is what it was, in memory and on disk.
\<close>

theorem rejected_request_costs_nothing:
  assumes "run_preflight_policy taint env tool logic policy client s = (s', Some e)"
  shows "mem_count c t f s' = mem_count c t f s \<and> bs_disk s' = bs_disk s"
proof -
  have mem: "mem_count c t f (fst (apply_in_memory_budget client tool fs p u)) = mem_count c t f u"
    if "snd (apply_in_memory_budget client tool fs p u) = Some x" for fs p u x
    using that by (auto simp: apply_in_memory_budget_def Let_def mem_count_def split: option.splits)
  have disk: "d = bs_disk s" if "execute_with_budget_lock env (persistent_action fc client tool fs p) (bs_disk s) = (Inr (Some x), d)" for fc fs p x d
    using that by (auto simp: execute_with_budget_lock_def persistent_action_def Let_def split: sum.splits option.splits if_splits)
  have "mem_count c t f s' = mem_count c t f s \<and> bs_disk s' = bs_disk s"
    if "enforce_query_budget env client tool fs p s = (s', Some x)" for fs p x
  proof (cases "fs = []")
    case False
    have upd: "mem_count c t f (s\<lparr>bs_disk := d\<rparr>) = mem_count c t f s" for d by (simp add: mem_count_def)
    have "s' = fst (enforce_query_budget env client tool fs p s)" "snd (enforce_query_budget env client tool fs p s) = Some x"
      using that by simp_all
    with enforce_cases [OF False, of client tool env p s] show ?thesis
      using mem [of fs p s x] disk [of "bs_classes s" fs p x] upd by auto
  qed (use that in simp)
  with assms show ?thesis
    by (auto simp: run_preflight_policy_def Let_def split: if_splits option.splits prod.splits)
qed

theorem rejected_request_costs_nothing_witness:
  "let s = budget_server_new (field_classes_new [] []) None;
       r = run_preflight_policy (\<lambda>_ _. \<lparr>tv_violation = Some (), tv_queriedFields = []\<rparr>)
             \<lparr>se_tries = \<lambda>_. Created, se_save = True\<rparr> ''tool'' ''return 1'' None ''did:a'' s
   in mem_count ''did:a'' ''tool'' ''age'' (fst r) = mem_count ''did:a'' ''tool'' ''age'' s \<and> bs_disk (fst r) = bs_disk s"
  unfolding Let_def
  by (rule rejected_request_costs_nothing [where e = "Taint_Violation ()" and taint = "\<lambda>_ _. \<lparr>tv_violation = Some (), tv_queriedFields = []\<rparr>"
        and env = "\<lparr>se_tries = \<lambda>_. Created, se_save = True\<rparr>" and tool = "''tool''" and logic = "''return 1''" and policy = None
        and client = "''did:a''"])
     (simp add: run_preflight_policy_def)

end
