(* ===== verification/Rate_Limits.thy ===== *)
theory Rate_Limits
  imports Liop_Prelude
begin

text \<open>
  The two families of rate limiters of the SDK.

  \<^item> \<open>InMemoryRateLimiter\<close> (gateway/rate-limiter.ts): one counter per key that restarts when
    its window ends. Definitions \<open>limiter_new\<close>, \<open>limiter_check\<close>, \<open>limiter_reset\<close>,
    \<open>limiter_cleanup\<close>, \<open>limiter_close\<close>.
  \<^item> The tool-call limiters of \<open>LiopServer\<close> (server/index.ts): lists of admission times that
    are filtered on every call, one list per tool and one for all tools. Definitions
    \<open>check_tool_call_rate_limit\<close> and \<open>check_global_rate_limit\<close>.

  The locale \<open>sliding_limiter\<close> states what a limiter over admission times promises; both
  server limiters are interpretations of it.
\<close>

section \<open>The gateway limiter\<close>

record window_record =
  wr_count :: int
  wr_resetTime :: time_ms

record rate_limiter =
  windowMs :: int
  maxRequests :: int
  records :: "(string, window_record) js_map"
  cleanupTimer :: bool

record rate_limit_status =
  allowed :: bool
  remaining :: int
  limit :: int
  resetMs :: int

definition limiter_new :: "int option \<Rightarrow> int option \<Rightarrow> rate_limiter" where
  "limiter_new optWindow optMax =
     \<lparr>windowMs = (case optWindow of None \<Rightarrow> 60000 | Some w \<Rightarrow> w),
      maxRequests = (case optMax of None \<Rightarrow> 120 | Some m \<Rightarrow> m),
      records = [], cleanupTimer = True\<rparr>"

definition limiter_check :: "rate_limiter \<Rightarrow> string \<Rightarrow> time_ms \<Rightarrow> rate_limit_status \<times> rate_limiter" where
  "limiter_check l key now =
     (let fresh =
        (\<lparr>allowed = True, remaining = maxRequests l - 1, limit = maxRequests l, resetMs = windowMs l\<rparr>,
         l\<lparr>records := AList.update key \<lparr>wr_count = 1, wr_resetTime = now + windowMs l\<rparr> (records l)\<rparr>)
      in case map_of (records l) key of
           None \<Rightarrow> fresh
         | Some r \<Rightarrow>
             if now \<ge> wr_resetTime r then fresh
             else if wr_count r \<ge> maxRequests l then
               (\<lparr>allowed = False, remaining = 0, limit = maxRequests l,
                 resetMs = max 0 (wr_resetTime r - now)\<rparr>, l)
             else
               (let r' = r\<lparr>wr_count := wr_count r + 1\<rparr>
                in (\<lparr>allowed = True, remaining = maxRequests l - wr_count r', limit = maxRequests l,
                     resetMs = max 0 (wr_resetTime r' - now)\<rparr>,
                    l\<lparr>records := AList.update key r' (records l)\<rparr>)))"

definition limiter_reset :: "rate_limiter \<Rightarrow> string \<Rightarrow> rate_limiter" where
  "limiter_reset l key = l\<lparr>records := AList.delete key (records l)\<rparr>"

definition limiter_cleanup :: "rate_limiter \<Rightarrow> time_ms \<Rightarrow> rate_limiter" where
  "limiter_cleanup l now =
     l\<lparr>records := fold (\<lambda>(key, r) m. if now \<ge> wr_resetTime r then AList.delete key m else m)
                        (records l) (records l)\<rparr>"

definition limiter_close :: "rate_limiter \<Rightarrow> rate_limiter" where
  "limiter_close l = l\<lparr>cleanupTimer := False, records := []\<rparr>"

text \<open>
  What happens to a limiter while it serves traffic: requests of any key and the periodic
  clean-up, each at its time. \<open>limiter_step\<close> runs one event; \<open>admitted\<close> counts the requests
  of one key that were let through.
\<close>

datatype limiter_event = Check string time_ms | Cleanup time_ms

fun event_time :: "limiter_event \<Rightarrow> time_ms" where
  "event_time (Check _ t) = t"
| "event_time (Cleanup t) = t"

fun limiter_step :: "rate_limiter \<Rightarrow> limiter_event \<Rightarrow> rate_limiter" where
  "limiter_step l (Check k t) = snd (limiter_check l k t)"
| "limiter_step l (Cleanup t) = limiter_cleanup l t"

fun admitted :: "string \<Rightarrow> rate_limiter \<Rightarrow> limiter_event list \<Rightarrow> int" where
  "admitted k l [] = 0"
| "admitted k l (e # es) =
     (case e of Check k' t \<Rightarrow> if k' = k \<and> allowed (fst (limiter_check l k' t)) then 1 else 0
      | Cleanup _ \<Rightarrow> 0) + admitted k (limiter_step l e) es"

subsection \<open>One step\<close>

abbreviation bucket :: "rate_limiter \<Rightarrow> string \<Rightarrow> window_record option" where
  "bucket l k \<equiv> map_of (records l) k"

lemma limiter_check_config [simp]:
  "maxRequests (snd (limiter_check l k t)) = maxRequests l"
  "windowMs (snd (limiter_check l k t)) = windowMs l"
  by (auto simp: limiter_check_def Let_def split: option.splits)

lemma limiter_step_config [simp]:
  "maxRequests (limiter_step l e) = maxRequests l" "windowMs (limiter_step l e) = windowMs l"
  by (cases e; simp add: limiter_cleanup_def)+

lemma limiter_run_config [simp]:
  "maxRequests (run limiter_step l es) = maxRequests l"
  "windowMs (run limiter_step l es) = windowMs l"
  by (induction es arbitrary: l) simp_all

lemma bucket_check_other: "k' \<noteq> k \<Longrightarrow> bucket (snd (limiter_check l k t)) k' = bucket l k'"
  by (auto simp: limiter_check_def Let_def liop_simps split: option.splits)

lemma fold_cleanup:
  "map_of (fold (\<lambda>(key, r) m. if now \<ge> wr_resetTime r then AList.delete key m else m) xs m) k =
     (if \<exists>r. (k, r) \<in> set xs \<and> now \<ge> wr_resetTime r then None else map_of m k)"
  by (induction xs arbitrary: m) (auto simp: liop_simps)

lemma bucket_cleanup_live:
  assumes "distinct (map fst (records l))"
  shows "bucket (limiter_cleanup l now) k =
           (case bucket l k of None \<Rightarrow> None
            | Some r \<Rightarrow> if now \<ge> wr_resetTime r then None else Some r)"
  unfolding limiter_cleanup_def using map_of_eq_Some_iff [OF assms]
  by (auto simp: fold_cleanup split: option.splits) (metis option.inject)

lemma distinct_fold_delete:
  "distinct (map fst m) \<Longrightarrow>
   distinct (map fst (fold (\<lambda>(key, r) m. if now \<ge> wr_resetTime r then AList.delete key m else m) xs m))"
  by (induction xs arbitrary: m) (auto simp: distinct_delete)

text \<open>The invariant of a serving limiter: one bucket per key, and no bucket over its quota.\<close>

definition limiter_inv :: "rate_limiter \<Rightarrow> bool" where
  "limiter_inv l \<longleftrightarrow> distinct (map fst (records l)) \<and>
     (\<forall>k r. bucket l k = Some r \<longrightarrow> 1 \<le> wr_count r \<and> wr_count r \<le> max 1 (maxRequests l))"

lemma limiter_inv_new: "limiter_inv (limiter_new w m)"
  by (simp add: limiter_inv_def limiter_new_def)

lemma limiter_inv_check: "limiter_inv l \<Longrightarrow> limiter_inv (snd (limiter_check l k t))"
  unfolding limiter_inv_def limiter_check_def Let_def
  by (auto simp: liop_simps distinct_update split: option.splits if_splits) force

lemma limiter_inv_cleanup: "limiter_inv l \<Longrightarrow> limiter_inv (limiter_cleanup l t)"
  unfolding limiter_inv_def
  using bucket_cleanup_live [of l t]
  by (auto simp: limiter_cleanup_def distinct_fold_delete split: option.splits if_splits)

interpretation limiter: preserved limiter_step limiter_inv
proof
  fix l e assume "limiter_inv l"
  then show "limiter_inv (limiter_step l e)"
    by (cases e) (auto intro: limiter_inv_check limiter_inv_cleanup)
qed

subsection \<open>Bounds on what a key gets through\<close>

text \<open>While a bucket lives, a key gets at most what is left in it.\<close>

lemma admitted_live:
  assumes "limiter_inv l" "bucket l k = Some r" "\<forall>e\<in>set es. event_time e < wr_resetTime r"
  shows "admitted k l es \<le> max 0 (maxRequests l - wr_count r)"
  using assms
proof (induction es arbitrary: l r)
  case (Cons e es)
  show ?case
  proof (cases "\<exists>t. e = Check k t \<and> wr_count r < maxRequests l")
    case True
    then obtain t where e: "e = Check k t" and lt: "wr_count r < maxRequests l" by blast
    define r' where "r' = r\<lparr>wr_count := wr_count r + 1\<rparr>"
    have b: "bucket (limiter_step l e) k = Some r'"
      using Cons.prems e lt by (simp add: limiter_check_def Let_def liop_simps r'_def)
    have "admitted k (limiter_step l e) es
            \<le> max 0 (maxRequests (limiter_step l e) - wr_count r')"
      by (rule Cons.IH [OF limiter.step_inv [OF Cons.prems(1)] b])
         (use Cons.prems(3) in \<open>simp add: r'_def\<close>)
    with e lt show ?thesis by (auto simp: r'_def split: if_splits)
  next
    case False
    have "bucket (limiter_step l e) k = Some r"
    proof (cases e)
      case (Check k' t)
      then show ?thesis
        using Cons.prems False bucket_check_other [of k k' l t]
        by (cases "k' = k") (auto simp: limiter_check_def Let_def)
    next
      case (Cleanup t)
      then show ?thesis
        using Cons.prems bucket_cleanup_live [of l t k] by (simp add: limiter_inv_def)
    qed
    then have "admitted k (limiter_step l e) es
                 \<le> max 0 (maxRequests (limiter_step l e) - wr_count r)"
      using Cons.IH [OF limiter.step_inv [OF Cons.prems(1)]] Cons.prems(3) by simp
    moreover have "admitted k l (e # es) = admitted k (limiter_step l e) es"
      using Cons.prems False by (cases e) (auto simp: limiter_check_def Let_def)
    ultimately show ?thesis by simp
  qed
qed simp

text \<open>With no live bucket, one window's quota bounds a span that is shorter than a window.\<close>

lemma admitted_fresh:
  assumes "limiter_inv l" "1 \<le> maxRequests l"
    and "\<And>r. bucket l k = Some r \<Longrightarrow> wr_resetTime r \<le> lo"
    and "\<forall>e\<in>set es. lo \<le> event_time e \<and> event_time e < lo + windowMs l"
  shows "admitted k l es \<le> maxRequests l"
  using assms
proof (induction es arbitrary: l)
  case (Cons e es)
  show ?case
  proof (cases "\<exists>t. e = Check k t")
    case True
    then obtain t where e: "e = Check k t" by blast
    let ?r = "\<lparr>wr_count = 1, wr_resetTime = t + windowMs l\<rparr>"
    have b: "bucket (limiter_step l e) k = Some ?r"
    proof (cases "bucket l k")
      case (Some r)
      with Cons.prems(3) Cons.prems(4) e have "wr_resetTime r \<le> t" by fastforce
      with Some e show ?thesis by (simp add: limiter_check_def Let_def liop_simps)
    qed (simp add: e limiter_check_def Let_def liop_simps)
    have "admitted k (limiter_step l e) es \<le> max 0 (maxRequests (limiter_step l e) - wr_count ?r)"
      by (rule admitted_live [OF limiter.step_inv [OF Cons.prems(1)] b])
         (use Cons.prems(4) e in fastforce)
    with Cons.prems(2) e show ?thesis by auto
  next
    case False
    have "bucket (limiter_step l e) k = Some r \<Longrightarrow> wr_resetTime r \<le> lo" for r
      using Cons.prems(1,3) False bucket_check_other bucket_cleanup_live
      by (cases e) (auto simp: limiter_inv_def split: option.splits if_splits)
    moreover have "admitted k l (e # es) = admitted k (limiter_step l e) es"
      using False by (cases e) auto
    ultimately show ?thesis
      using Cons.IH [OF limiter.step_inv [OF Cons.prems(1)]] Cons.prems(2,4) by simp
  qed
qed simp

lemma admitted_append:
  "admitted k l (es @ fs) = admitted k l es + admitted k (run limiter_step l es) fs"
  by (induction es arbitrary: l) auto

lemma sorted_split_at:
  fixes f :: "'a \<Rightarrow> int"
  assumes "sorted (map f es)"
  shows "es = takeWhile (\<lambda>e. f e < c) es @ dropWhile (\<lambda>e. f e < c) es"
    and "\<forall>e\<in>set (dropWhile (\<lambda>e. f e < c) es). c \<le> f e"
proof -
  show "\<forall>e\<in>set (dropWhile (\<lambda>e. f e < c) es). c \<le> f e"
    using assms by (induction es) (auto simp: not_less intro: order_trans)
qed simp

lemma bucket_run_live:
  assumes "limiter_inv l" "bucket l k = Some r" "\<forall>e\<in>set es. event_time e < wr_resetTime r"
  shows "\<exists>r'. bucket (run limiter_step l es) k = Some r' \<and> wr_resetTime r' = wr_resetTime r"
  using assms
proof (induction es arbitrary: l r)
  case (Cons e es)
  have "\<exists>r'. bucket (limiter_step l e) k = Some r' \<and> wr_resetTime r' = wr_resetTime r"
  proof (cases e)
    case (Check k' t)
    then show ?thesis
      using Cons.prems bucket_check_other [of k k' l t]
      by (cases "k' = k") (auto simp: limiter_check_def Let_def liop_simps)
  next
    case (Cleanup t)
    then show ?thesis
      using Cons.prems bucket_cleanup_live [of l t k] by (simp add: limiter_inv_def)
  qed
  with Cons.IH [OF limiter.step_inv [OF Cons.prems(1)]] Cons.prems(3) show ?case by fastforce
qed simp

text \<open>
  The bound of a fixed window: a span shorter than a window can straddle one boundary, so a
  key gets what is left of the old bucket and one new quota.
\<close>

lemma admitted_span:
  assumes inv: "limiter_inv l" and cap: "1 \<le> maxRequests l"
    and sorted: "sorted (map event_time es)"
    and span: "\<forall>e\<in>set es. lo \<le> event_time e \<and> event_time e < lo + windowMs l"
  shows "admitted k l es \<le> 2 * maxRequests l - 1"
proof (cases "bucket l k")
  case None
  then show ?thesis using admitted_fresh [OF inv cap _ span, of k] cap by simp
next
  case (Some r)
  let ?old = "takeWhile (\<lambda>e. event_time e < wr_resetTime r) es"
  let ?new = "dropWhile (\<lambda>e. event_time e < wr_resetTime r) es"
  let ?l = "run limiter_step l ?old"
  have cfg: "maxRequests ?l = maxRequests l" "windowMs ?l = windowMs l" by simp_all
  have "\<forall>e\<in>set ?old. event_time e < wr_resetTime r" by (auto dest: set_takeWhileD)
  moreover have quota: "1 \<le> wr_count r" "wr_count r \<le> maxRequests l"
    using inv Some cap by (auto simp: limiter_inv_def max_def)
  ultimately
  have old: "admitted k l ?old \<le> maxRequests l - 1"
    and b: "\<exists>r'. bucket ?l k = Some r' \<and> wr_resetTime r' = wr_resetTime r"
    using admitted_live [OF inv Some, of ?old] bucket_run_live [OF inv Some, of ?old] by auto
  have new: "\<forall>e\<in>set ?new. max lo (wr_resetTime r) \<le> event_time e \<and>
          event_time e < max lo (wr_resetTime r) + windowMs ?l"
    using sorted_split_at(2) [OF sorted, of "wr_resetTime r"] span set_dropWhileD [of _ _ es]
    unfolding cfg by fastforce
  have "admitted k ?l ?new \<le> maxRequests ?l"
    by (rule admitted_fresh [OF limiter.run_inv [OF inv] _ _ new]) (use b cap in auto)
  with old show ?thesis using admitted_append [of k l ?old ?new] by simp
qed

section \<open>Sliding windows over admission times\<close>

text \<open>
  The contract of a limiter that stores the times of the calls it admitted. An event may
  belong to another client of the same state (\<open>mine e\<close> is false); such an event leaves the
  view alone.
\<close>

locale sliding_limiter =
  fixes step :: "'s \<Rightarrow> 'e \<Rightarrow> 's" and accepts :: "'s \<Rightarrow> 'e \<Rightarrow> bool"
    and view :: "'s \<Rightarrow> int list" and mine :: "'e \<Rightarrow> bool" and at :: "'e \<Rightarrow> int"
    and span :: int and cap :: int
  assumes accepts_room:
      "mine e \<Longrightarrow> accepts s e \<Longrightarrow> int (length (filter (\<lambda>t. at e - t < span) (view s))) < cap"
    and view_accepted:
      "mine e \<Longrightarrow> accepts s e \<Longrightarrow> view (step s e) = filter (\<lambda>t. at e - t < span) (view s) @ [at e]"
    and view_rejected:
      "mine e \<Longrightarrow> \<not> accepts s e \<Longrightarrow>
         filter (\<lambda>t. at e - t < span) (view (step s e)) = filter (\<lambda>t. at e - t < span) (view s)"
    and view_other: "\<not> mine e \<Longrightarrow> view (step s e) = view s"
begin

text \<open>The times at which my calls were admitted during a run.\<close>

fun accepted_times :: "'s \<Rightarrow> 'e list \<Rightarrow> int list" where
  "accepted_times s [] = []"
| "accepted_times s (e # es) =
     (if mine e \<and> accepts s e then [at e] else []) @ accepted_times (step s e) es"

text \<open>
  The view knows every admission that can still matter: seen from any later moment, the
  recent part of the view is the recent part of the whole log.
\<close>

definition tracks :: "int list \<Rightarrow> int \<Rightarrow> 's \<Rightarrow> bool" where
  "tracks log now s \<longleftrightarrow> (\<forall>T\<ge>now. filter (\<lambda>t. T - t < span) log = filter (\<lambda>t. T - t < span) (view s))"

definition bounded :: "int list \<Rightarrow> bool" where
  "bounded log \<longleftrightarrow> (\<forall>T. int (length (filter (\<lambda>t. T - span < t \<and> t \<le> T) log)) \<le> max 0 cap)"

lemma filter_later:
  "T \<ge> now \<Longrightarrow> filter (\<lambda>t. T - t < span) (filter (\<lambda>t. now - t < span) xs) = filter (\<lambda>t. T - t < span) xs"
  by (induction xs) auto

lemma tracks_step:
  assumes tr: "tracks log now s" and le: "now \<le> at e"
  shows "tracks (log @ (if mine e \<and> accepts s e then [at e] else [])) (at e) (step s e)"
proof (cases "mine e \<and> accepts s e")
  case True
  then show ?thesis using tr le by (auto simp: tracks_def view_accepted filter_later simp del: filter_filter)
next
  case False
  have "filter (\<lambda>t. T - t < span) (view (step s e)) = filter (\<lambda>t. T - t < span) (view s)"
    if T: "T \<ge> at e" for T
  proof (cases "mine e")
    case True
    with False view_rejected [of e s]
    have "filter (\<lambda>t. at e - t < span) (view (step s e)) = filter (\<lambda>t. at e - t < span) (view s)"
      by blast
    then show ?thesis using T by (metis filter_later)
  qed (simp add: view_other)
  with False tr le show ?thesis by (auto simp: tracks_def)
qed

lemma bounded_step:
  assumes tr: "tracks log now s" and le: "now \<le> at e" and past: "\<forall>t\<in>set log. t \<le> now"
    and bd: "bounded log" and acc: "mine e" "accepts s e"
  shows "bounded (log @ [at e])"
proof -
  have now_bd: "int (length (filter (\<lambda>t. at e - t < span) log)) < cap"
    using tr le acc accepts_room [of e s] by (auto simp: tracks_def)
  have "int (length (filter (\<lambda>t. T - span < t \<and> t \<le> T) (log @ [at e]))) \<le> max 0 cap" for T
  proof (cases "T - span < at e \<and> at e \<le> T")
    case True
    have "length (filter (\<lambda>t. T - span < t \<and> t \<le> T) log) \<le> length (filter (\<lambda>t. at e - t < span) log)"
      using True by (induction log) auto
    with now_bd True show ?thesis by auto
  next
    case False
    then show ?thesis using bd by (auto simp: bounded_def)
  qed
  then show ?thesis by (simp add: bounded_def)
qed

lemma run_bounded:
  assumes "tracks log now s" "bounded log" "\<forall>t\<in>set log. t \<le> now"
    and "sorted (map at es)" "\<forall>e\<in>set es. now \<le> at e"
  shows "bounded (log @ accepted_times s es)"
  using assms
proof (induction es arbitrary: log now s)
  case (Cons e es)
  let ?new = "if mine e \<and> accepts s e then [at e] else []"
  have "bounded (log @ ?new)"
    using bounded_step [OF Cons.prems(1) _ Cons.prems(3,2)] Cons.prems(2,5) by auto
  moreover have "tracks (log @ ?new) (at e) (step s e)"
    by (rule tracks_step [OF Cons.prems(1)]) (use Cons.prems(5) in simp)
  moreover have "\<forall>t\<in>set (log @ ?new). t \<le> at e"
    using Cons.prems(3,5) by fastforce
  ultimately have "bounded ((log @ ?new) @ accepted_times (step s e) es)"
    using Cons.IH [of "log @ ?new" "at e" "step s e"] Cons.prems(4) by simp
  then show ?case by simp
qed simp

text \<open>From an empty view, no window of length \<open>span\<close> ever holds more than \<open>cap\<close> admissions.\<close>

lemma sliding_window_bound:
  assumes "view s = []" "sorted (map at es)"
  shows "int (length (filter (\<lambda>t. T - span < t \<and> t \<le> T) (accepted_times s es))) \<le> max 0 cap"
proof (cases es)
  case (Cons e es')
  have "bounded ([] @ accepted_times s es)"
    by (rule run_bounded [where now = "at e"])
       (use assms Cons in \<open>auto simp: tracks_def bounded_def\<close>)
  then show ?thesis by (simp add: bounded_def)
qed simp

end

section \<open>The tool-call limiters of the server\<close>

text \<open>The read-only limits that the constructor of \<open>LiopServer\<close> computes.\<close>

record call_limits =
  toolCallWindowMs :: int
  toolCallMaxPerWindow :: int
  globalCallMaxPerWindow :: int

record call_windows =
  toolCallWindows :: "(string, time_ms list) js_map"
  globalCallWindow :: "time_ms list"

text \<open>
  The two error results. The last component is the number of seconds of the retry hint;
  \<open>None\<close> is \<open>NaN\<close>, which \<open>active[0] + ...\<close> yields when the list is empty.
\<close>

datatype rate_limited =
  Tool_Limited string int int "int option"
| Global_Limited int int "int option"

definition retry_after :: "time_ms list \<Rightarrow> int \<Rightarrow> time_ms \<Rightarrow> int option" where
  "retry_after active w now =
     (case active of [] \<Rightarrow> None | t # _ \<Rightarrow> Some (ceil_div (t + w - now) 1000))"

definition check_tool_call_rate_limit ::
    "call_limits \<Rightarrow> call_windows \<Rightarrow> string \<Rightarrow> time_ms \<Rightarrow> rate_limited option \<times> call_windows" where
  "check_tool_call_rate_limit cfg st toolName now =
     (let window = (case map_of (toolCallWindows st) toolName of None \<Rightarrow> [] | Some w \<Rightarrow> w);
          active = filter (\<lambda>t. now - t < toolCallWindowMs cfg) window
      in if int (length active) \<ge> toolCallMaxPerWindow cfg then
           (Some (Tool_Limited toolName (toolCallMaxPerWindow cfg) (toolCallWindowMs cfg)
                    (retry_after active (toolCallWindowMs cfg) now)), st)
         else (None, st\<lparr>toolCallWindows := AList.update toolName (active @ [now]) (toolCallWindows st)\<rparr>))"

definition check_global_rate_limit ::
    "call_limits \<Rightarrow> call_windows \<Rightarrow> time_ms \<Rightarrow> rate_limited option \<times> call_windows" where
  "check_global_rate_limit cfg st now =
     (let active = filter (\<lambda>t. now - t < toolCallWindowMs cfg) (globalCallWindow st)
      in if int (length active) \<ge> globalCallMaxPerWindow cfg then
           (Some (Global_Limited (globalCallMaxPerWindow cfg) (toolCallWindowMs cfg)
                    (retry_after active (toolCallWindowMs cfg) now)), st\<lparr>globalCallWindow := active\<rparr>)
         else (None, st\<lparr>globalCallWindow := active @ [now]\<rparr>))"

text \<open>The admission test at the head of \<open>callTool\<close>: the global limiter first, then the tool's.\<close>

definition admit_call ::
    "call_limits \<Rightarrow> call_windows \<Rightarrow> string \<Rightarrow> time_ms \<Rightarrow> rate_limited option \<times> call_windows" where
  "admit_call cfg st toolName now =
     (case check_global_rate_limit cfg st now of
        (Some err, st') \<Rightarrow> (Some err, st')
      | (None, st') \<Rightarrow> check_tool_call_rate_limit cfg st' toolName now)"

fun call_step :: "call_limits \<Rightarrow> call_windows \<Rightarrow> string \<times> time_ms \<Rightarrow> call_windows" where
  "call_step cfg st (tool, t) = snd (admit_call cfg st tool t)"

text \<open>The calls of a run that reach the tool.\<close>

fun served_calls :: "call_limits \<Rightarrow> call_windows \<Rightarrow> (string \<times> time_ms) list \<Rightarrow> (string \<times> time_ms) list" where
  "served_calls cfg st [] = []"
| "served_calls cfg st (e # es) =
     (if fst (admit_call cfg st (fst e) (snd e)) = None then [e] else [])
       @ served_calls cfg (call_step cfg st e) es"

abbreviation tool_window :: "string \<Rightarrow> call_windows \<Rightarrow> time_ms list" where
  "tool_window k st \<equiv> (case map_of (toolCallWindows st) k of None \<Rightarrow> [] | Some w \<Rightarrow> w)"

lemmas admit_defs =
  admit_call_def check_global_rate_limit_def check_tool_call_rate_limit_def Let_def

interpretation tool_lim: sliding_limiter "call_step cfg"
    "\<lambda>st e. fst (admit_call cfg st (fst e) (snd e)) = None" "tool_window k"
    "\<lambda>e. fst e = k" snd "toolCallWindowMs cfg" "toolCallMaxPerWindow cfg" for cfg k
  by unfold_locales (auto simp: admit_defs liop_simps split: if_splits option.splits)

interpretation global_lim: sliding_limiter "call_step cfg"
    "\<lambda>st e. fst (check_global_rate_limit cfg st (snd e)) = None" globalCallWindow
    "\<lambda>e. True" snd "toolCallWindowMs cfg" "globalCallMaxPerWindow cfg" for cfg
  by unfold_locales (auto simp: admit_defs split: if_splits option.splits)

lemma served_calls_tool:
  "map snd (filter (\<lambda>e. fst e = k) (served_calls cfg st es)) = tool_lim.accepted_times cfg k st es"
  by (induction es arbitrary: st) auto

lemma served_calls_global:
  "length (filter P (map snd (served_calls cfg st es)))
     \<le> length (filter P (global_lim.accepted_times cfg st es))"
proof (induction es arbitrary: st)
  case (Cons e es)
  have "fst (admit_call cfg st (fst e) (snd e)) = None \<Longrightarrow>
          fst (check_global_rate_limit cfg st (snd e)) = None"
    by (auto simp: admit_call_def split: prod.splits option.splits)
  with Cons.IH [of "call_step cfg st e"] show ?case by auto
qed simp

definition no_calls :: call_windows where
  "no_calls = \<lparr>toolCallWindows = [], globalCallWindow = []\<rparr>"

section \<open>Properties\<close>

text \<open>
  \<open>InMemoryRateLimiter\<close>: after any history of requests and clean-ups since the limiter was
  created, a key is admitted at most \<open>2 * maxRequests - 1\<close> times during any span shorter than
  one window, whatever the other keys do and whenever the clean-up timer fires.
\<close>

theorem limiter_span_bound:
  assumes "1 \<le> m"
    and "sorted (map event_time es)"
    and "\<forall>e\<in>set es. lo \<le> event_time e \<and> event_time e < lo + w"
  shows "admitted k (run limiter_step (limiter_new (Some w) (Some m)) history) es \<le> 2 * m - 1"
proof -
  let ?l0 = "limiter_new (Some w) (Some m)"
  have "admitted k (run limiter_step ?l0 history) es \<le> 2 * maxRequests (run limiter_step ?l0 history) - 1"
    by (rule admitted_span [OF limiter.run_inv [OF limiter_inv_new], where lo = lo])
       (use assms in \<open>simp_all add: limiter_new_def\<close>)
  then show ?thesis by (simp add: limiter_new_def)
qed

theorem limiter_span_bound_witness:
  "admitted ''ip'' (run limiter_step (limiter_new (Some 100) (Some 2)) [Check ''ip'' 0])
     [Check ''ip'' 99, Check ''ip'' 99, Check ''ip'' 100, Cleanup 100, Check ''ip'' 100] \<le> 2 * 2 - 1"
  by (rule limiter_span_bound [where lo = 99]) simp_all

text \<open>
  The bound of the fixed window is reached: with a window of 100 ms and a quota of 2, three
  requests of one key pass within two milliseconds. The limiter restarts its counter at the
  window boundary; it does not slide.
\<close>

theorem limiter_burst_at_boundary:
  "admitted ''ip'' (run limiter_step (limiter_new (Some 100) (Some 2)) [Check ''ip'' 0])
     [Check ''ip'' 99, Check ''ip'' 99, Check ''ip'' 100, Check ''ip'' 100, Check ''ip'' 100] = 3"
  by (simp add: limiter_new_def limiter_check_def Let_def)

text \<open>
  C14. The tool-call limiter of the server slides: over any sequence of calls in time order, no
  window of \<open>toolCallWindowMs\<close> milliseconds holds more than \<open>toolCallMaxPerWindow\<close> served calls
  of one tool, and none holds more than \<open>globalCallMaxPerWindow\<close> served calls of all tools.
\<close>

theorem served_calls_sliding_bound:
  assumes "sorted (map snd es)"
  shows "int (length (filter (\<lambda>t. T - toolCallWindowMs cfg < t \<and> t \<le> T)
                (map snd (filter (\<lambda>e. fst e = k) (served_calls cfg no_calls es)))))
           \<le> max 0 (toolCallMaxPerWindow cfg) \<and>
         int (length (filter (\<lambda>t. T - toolCallWindowMs cfg < t \<and> t \<le> T)
                (map snd (served_calls cfg no_calls es))))
           \<le> max 0 (globalCallMaxPerWindow cfg)"
  using tool_lim.sliding_window_bound [where s = no_calls, OF _ assms, of k T cfg]
    global_lim.sliding_window_bound [where s = no_calls, OF _ assms, of T cfg]
    served_calls_global [of "\<lambda>t. T - toolCallWindowMs cfg < t \<and> t \<le> T" cfg no_calls es]
  unfolding served_calls_tool [symmetric] by (simp add: no_calls_def)

theorem served_calls_sliding_bound_witness:
  "length (filter (\<lambda>t. 4 - 60000 < t \<and> t \<le> 4) (map snd (served_calls
      \<lparr>toolCallWindowMs = 60000, toolCallMaxPerWindow = 2, globalCallMaxPerWindow = 3\<rparr> no_calls
      [(''a'', 0), (''a'', 1), (''a'', 2), (''b'', 3), (''b'', 4)]))) \<le> 3"
  using served_calls_sliding_bound
    [of "[(''a'', 0), (''a'', 1), (''a'', 2), (''b'', 3), (''b'', 4)]" 4
        "\<lparr>toolCallWindowMs = 60000, toolCallMaxPerWindow = 2, globalCallMaxPerWindow = 3\<rparr>" "''a''"]
  by (simp del: served_calls.simps)

end
