(* ===== verification/Audit_Chain.thy ===== *)
theory Audit_Chain
  imports Json_Text Receipt_Codec
begin

text \<open>
  \<open>security/audit-logger.ts\<close>: the hash-chained audit log, its JSONL file and the interceptor.
  The entry hash is SHA-256 (a parameter) over the canonical JSON text of the entry, which is
  computed exactly. \<open>JSON.parse\<close> of a log line is a parameter of \<open>loadFromFile\<close>; random ids
  and time stamps are arguments.
\<close>

section \<open>Model\<close>

datatype audit_status = SUCCESS | BLOCKED_EGRESS | ERROR | POLICY_VIOLATION | TAINT_ANALYSIS_VIOLATION

fun status_text :: "audit_status \<Rightarrow> string" where
  "status_text SUCCESS = ''SUCCESS''"
| "status_text BLOCKED_EGRESS = ''BLOCKED_EGRESS''"
| "status_text ERROR = ''ERROR''"
| "status_text POLICY_VIOLATION = ''POLICY_VIOLATION''"
| "status_text TAINT_ANALYSIS_VIOLATION = ''TAINT_ANALYSIS_VIOLATION''"

record audit_entry =
  ae_id :: string
  ae_timestamp :: string
  ae_traceId :: string
  ae_agentDid :: string
  ae_peerId :: string
  ae_toolName :: string
  ae_datasetHash :: string
  ae_fuelConsumed :: int
  ae_outputHash :: string
  ae_zkReceiptSig :: string
  ae_status :: audit_status
  ae_prevEntryHash :: string
  ae_entryHash :: string

record audit_params =
  ap_timestamp :: "string option"
  ap_traceId :: "string option"
  ap_agentDid :: string
  ap_peerId :: string
  ap_toolName :: string
  ap_datasetHash :: "string option"
  ap_fuelConsumed :: int
  ap_outputHash :: "string option"
  ap_zkReceiptSig :: "string option"
  ap_status :: audit_status

definition GENESIS_HASH :: string where
  "GENESIS_HASH = replicate 64 CHR ''0''"

text \<open>The fields of an entry in declaration order, without \<open>entryHash\<close>.\<close>

definition body_fields :: "audit_entry \<Rightarrow> (string \<times> json_atom) list" where
  "body_fields e =
    [(''id'', AStr (ae_id e)), (''timestamp'', AStr (ae_timestamp e)), (''traceId'', AStr (ae_traceId e)),
     (''agentDid'', AStr (ae_agentDid e)), (''peerId'', AStr (ae_peerId e)), (''toolName'', AStr (ae_toolName e)),
     (''datasetHash'', AStr (ae_datasetHash e)), (''fuelConsumed'', AInt (ae_fuelConsumed e)),
     (''outputHash'', AStr (ae_outputHash e)), (''zkReceiptSig'', AStr (ae_zkReceiptSig e)),
     (''status'', AStr (status_text (ae_status e))), (''prevEntryHash'', AStr (ae_prevEntryHash e))]"

definition entry_json :: "audit_entry \<Rightarrow> string" where
  "entry_json e = json_object (body_fields e @ [(''entryHash'', AStr (ae_entryHash e))])"

definition sha_hex :: "(bytes \<Rightarrow> digest) \<Rightarrow> string \<Rightarrow> string" where
  "sha_hex sha s = hex_of (Rep_digest (sha (utf8 s)))"

definition compute_entry_hash :: "(bytes \<Rightarrow> digest) \<Rightarrow> audit_entry \<Rightarrow> string" where
  "compute_entry_hash sha e = sha_hex sha (canonicalize (body_fields e))"

record audit_logger =
  al_entries :: "audit_entry list"
  al_lastEntryHash :: string
  al_filePath :: "string option"
  al_file :: "string option"                \<comment> \<open>content of the file at \<open>filePath\<close>\<close>
  al_interceptor :: bool
  al_intercepted :: "audit_entry list"      \<comment> \<open>the clones handed to the interceptor\<close>

definition set_interceptor :: "bool \<Rightarrow> audit_logger \<Rightarrow> audit_logger" where
  "set_interceptor on l = l\<lparr>al_interceptor := on\<rparr>"

text \<open>\<open>a || b\<close> on optional strings.\<close>

definition or_else :: "string option \<Rightarrow> string \<Rightarrow> string" where
  "or_else a b = (case a of None \<Rightarrow> b | Some s \<Rightarrow> if s = [] then b else s)"

definition uses_file :: "audit_logger \<Rightarrow> bool" where
  "uses_file l \<longleftrightarrow> (case al_filePath l of None \<Rightarrow> False | Some p \<Rightarrow> p \<noteq> [])"

record audit_fresh =
  af_uuid :: string
  af_now :: string
  af_random :: string

definition record_execution ::
    "(bytes \<Rightarrow> digest) \<Rightarrow> audit_fresh \<Rightarrow> audit_params \<Rightarrow> audit_logger \<Rightarrow> audit_logger \<times> audit_entry" where
  "record_execution sha fr params l =
     (let partialEntry =
            \<lparr>ae_id = af_uuid fr,
             ae_timestamp = or_else (ap_timestamp params) (af_now fr),
             ae_traceId = or_else (ap_traceId params) (af_random fr),
             ae_agentDid = ap_agentDid params, ae_peerId = ap_peerId params, ae_toolName = ap_toolName params,
             ae_datasetHash = or_else (ap_datasetHash params) (sha_hex sha []),
             ae_fuelConsumed = ap_fuelConsumed params,
             ae_outputHash = or_else (ap_outputHash params) (sha_hex sha []),
             ae_zkReceiptSig = or_else (ap_zkReceiptSig params) [],
             ae_status = ap_status params, ae_prevEntryHash = al_lastEntryHash l, ae_entryHash = []\<rparr>;
          entryHash = compute_entry_hash sha partialEntry;
          fullEntry = partialEntry\<lparr>ae_entryHash := entryHash\<rparr>;
          l = l\<lparr>al_entries := al_entries l @ [fullEntry], al_lastEntryHash := entryHash\<rparr>;
          l = (if uses_file l
               then l\<lparr>al_file := Some (case al_file l of None \<Rightarrow> entry_json fullEntry @ [CHR 0x0A]
                                     | Some c \<Rightarrow> c @ entry_json fullEntry @ [CHR 0x0A])\<rparr>
               else l);
          l = (if al_interceptor l then l\<lparr>al_intercepted := al_intercepted l @ [fullEntry]\<rparr> else l)
      in (l, fullEntry))"

definition get_entries :: "audit_logger \<Rightarrow> audit_entry list" where
  "get_entries l = al_entries l"

definition get_entry_count :: "audit_logger \<Rightarrow> nat" where
  "get_entry_count l = length (al_entries l)"

datatype broken_reason = Broken_Link string string | Tampered string string

record integrity =
  in_valid :: bool
  in_totalEntries :: nat
  in_brokenIndex :: "nat option"
  in_reason :: "broken_reason option"

fun verify_from ::
    "(bytes \<Rightarrow> digest) \<Rightarrow> nat \<Rightarrow> nat \<Rightarrow> string \<Rightarrow> audit_entry list \<Rightarrow> integrity" where
  "verify_from sha totalEntries i expectedPrevHash [] =
     \<lparr>in_valid = True, in_totalEntries = totalEntries, in_brokenIndex = None, in_reason = None\<rparr>"
| "verify_from sha totalEntries i expectedPrevHash (entry # rest) =
     (if ae_prevEntryHash entry \<noteq> expectedPrevHash then
        \<lparr>in_valid = False, in_totalEntries = totalEntries, in_brokenIndex = Some i,
         in_reason = Some (Broken_Link expectedPrevHash (ae_prevEntryHash entry))\<rparr>
      else
        (let recalculated = compute_entry_hash sha entry in
         if recalculated \<noteq> ae_entryHash entry then
           \<lparr>in_valid = False, in_totalEntries = totalEntries, in_brokenIndex = Some i,
            in_reason = Some (Tampered recalculated (ae_entryHash entry))\<rparr>
         else verify_from sha totalEntries (i + 1) (ae_entryHash entry) rest))"

definition verify_integrity :: "(bytes \<Rightarrow> digest) \<Rightarrow> audit_logger \<Rightarrow> integrity" where
  "verify_integrity sha l = verify_from sha (length (al_entries l)) 0 GENESIS_HASH (al_entries l)"

definition export_jsonl :: "audit_logger \<Rightarrow> string" where
  "export_jsonl l = join [CHR 0x0A] (map entry_json (al_entries l))"

text \<open>\<open>parse\<close> is \<open>JSON.parse(line) as AuditEntry\<close>; a syntax error ends the load (\<open>None\<close>).\<close>

fun load_lines :: "(string \<Rightarrow> audit_entry option) \<Rightarrow> string list \<Rightarrow> audit_logger \<Rightarrow> audit_logger option" where
  "load_lines parse [] l = Some l"
| "load_lines parse (line # lines) l =
     (case parse line of
        None \<Rightarrow> None
      | Some entry \<Rightarrow>
          load_lines parse lines (l\<lparr>al_entries := al_entries l @ [entry], al_lastEntryHash := ae_entryHash entry\<rparr>))"

definition load_from_file :: "(string \<Rightarrow> audit_entry option) \<Rightarrow> string \<Rightarrow> audit_logger \<Rightarrow> audit_logger option" where
  "load_from_file parse content l =
     load_lines parse (filter (\<lambda>ln. length (trim ln) > 0) (split_on (CHR 0x0A) content)) l"

definition audit_logger_new ::
    "(string \<Rightarrow> audit_entry option) \<Rightarrow> string option \<Rightarrow> string option \<Rightarrow> audit_logger option" where
  "audit_logger_new parse filePath disk =
     (let l = \<lparr>al_entries = [], al_lastEntryHash = GENESIS_HASH, al_filePath = filePath, al_file = disk,
               al_interceptor = False, al_intercepted = []\<rparr>
      in if uses_file l then (case disk of None \<Rightarrow> Some l | Some content \<Rightarrow> load_from_file parse content l)
         else Some l)"

section \<open>Hash chains\<close>

text \<open>
  A chain of records each naming the seal of its predecessor. The contract is that a seal
  determines the record it seals, unless a collision of the hash function is at hand.
\<close>

fun linked :: "('e \<Rightarrow> 'h) \<Rightarrow> ('e \<Rightarrow> 'h) \<Rightarrow> ('e \<Rightarrow> 'h) \<Rightarrow> 'h \<Rightarrow> 'e list \<Rightarrow> bool" where
  "linked prev seal digest h [] = True"
| "linked prev seal digest h (e # es) = (prev e = h \<and> digest e = seal e \<and> linked prev seal digest (seal e) es)"

definition last_seal :: "('e \<Rightarrow> 'h) \<Rightarrow> 'h \<Rightarrow> 'e list \<Rightarrow> 'h" where
  "last_seal seal h es = (if es = [] then h else seal (last es))"

lemma last_seal_simps [simp]:
  "last_seal seal h [] = h" "last_seal seal h (e # es) = last_seal seal (seal e) es"
  "last_seal seal h (es @ [e]) = seal e"
  by (simp_all add: last_seal_def)

lemma linked_append [simp]:
  "linked prev seal digest h (es @ fs) \<longleftrightarrow>
     linked prev seal digest h es \<and> linked prev seal digest (last_seal seal h es) fs"
  by (induction es arbitrary: h) auto

locale hash_chain =
  fixes prev seal digest :: "'e \<Rightarrow> 'h" and collision :: bool
  assumes sealed_inject:
    "digest e = seal e \<Longrightarrow> digest f = seal f \<Longrightarrow> seal e = seal f \<Longrightarrow> e = f \<or> collision"
begin

lemma chain_unique:
  "linked prev seal digest h es \<Longrightarrow> linked prev seal digest h fs \<Longrightarrow> length es = length fs \<Longrightarrow>
     last_seal seal h es = last_seal seal h fs \<Longrightarrow> es = fs \<or> collision"
proof (induction es arbitrary: fs rule: rev_induct)
  case (snoc e es)
  then obtain f gs where fs: "fs = gs @ [f]" by (cases fs rule: rev_cases) auto
  with snoc.prems have "e = f \<or> collision" using sealed_inject by auto
  then show ?case
    using snoc.IH [of gs] snoc.prems by (auto simp: fs)
qed auto

end

section \<open>The log as a hash chain\<close>

definition sha_collision :: "(bytes \<Rightarrow> digest) \<Rightarrow> bool" where
  "sha_collision sha \<longleftrightarrow> (\<exists>x y. x \<noteq> y \<and> sha x = sha y)"

lemma sha_hex_inject: "sha_hex sha s = sha_hex sha t \<Longrightarrow> s = t \<or> sha_collision sha"
  unfolding sha_hex_def sha_collision_def by (metis Rep_digest_inject hex_of_inject utf8_inject)

lemma status_text_inject [simp]: "status_text a = status_text b \<longleftrightarrow> a = b"
  by (cases a; cases b) simp_all

lemma body_fields_inject: "canonicalize (body_fields e) = canonicalize (body_fields f) \<Longrightarrow> body_fields e = body_fields f"
  by (rule canonicalize_inject) (simp_all add: body_fields_def)

interpretation audit: hash_chain ae_prevEntryHash ae_entryHash "compute_entry_hash sha" "sha_collision sha" for sha
proof
  fix e f :: audit_entry
  assume "compute_entry_hash sha e = ae_entryHash e" "compute_entry_hash sha f = ae_entryHash f"
    and seal: "ae_entryHash e = ae_entryHash f"
  then have "sha_hex sha (canonicalize (body_fields e)) = sha_hex sha (canonicalize (body_fields f))"
    by (simp add: compute_entry_hash_def)
  from sha_hex_inject [OF this] show "e = f \<or> sha_collision sha"
    using body_fields_inject [of e f] seal by (auto simp: body_fields_def)
qed

abbreviation entry_chain :: "(bytes \<Rightarrow> digest) \<Rightarrow> audit_entry list \<Rightarrow> bool" where
  "entry_chain sha \<equiv> linked ae_prevEntryHash ae_entryHash (compute_entry_hash sha) GENESIS_HASH"

lemma verify_from_valid:
  "in_valid (verify_from sha n i h es) \<longleftrightarrow> linked ae_prevEntryHash ae_entryHash (compute_entry_hash sha) h es"
  by (induction es arbitrary: i h) (auto simp: Let_def)

lemma verify_from_broken:
  "in_brokenIndex (verify_from sha n i h es) = Some k \<Longrightarrow>
     i \<le> k \<and> k < i + length es \<and>
     linked ae_prevEntryHash ae_entryHash (compute_entry_hash sha) h (take (k - i) es) \<and>
     \<not> linked ae_prevEntryHash ae_entryHash (compute_entry_hash sha) h (take (Suc (k - i)) es)"
proof (induction es arbitrary: i h)
  case (Cons e es)
  show ?case
  proof (cases "ae_prevEntryHash e = h \<and> compute_entry_hash sha e = ae_entryHash e")
    case True
    with Cons.prems have "in_brokenIndex (verify_from sha n (i + 1) (ae_entryHash e) es) = Some k" by simp
    from Cons.IH [OF this] obtain j where "k = Suc (i + j)"
      and "j < length es" "linked ae_prevEntryHash ae_entryHash (compute_entry_hash sha) (ae_entryHash e) (take j es)"
        "\<not> linked ae_prevEntryHash ae_entryHash (compute_entry_hash sha) (ae_entryHash e) (take (Suc j) es)"
      by (auto simp: le_iff_add)
    with True show ?thesis by (simp add: Suc_diff_le)
  next
    case False
    with Cons.prems have "k = i" by (auto simp: Let_def split: if_splits)
    with False show ?thesis by auto
  qed
qed simp

definition log_inv :: "(bytes \<Rightarrow> digest) \<Rightarrow> audit_logger \<Rightarrow> bool" where
  "log_inv sha l \<longleftrightarrow> entry_chain sha (al_entries l) \<and>
     al_lastEntryHash l = last_seal ae_entryHash GENESIS_HASH (al_entries l)"

datatype audit_event = Record audit_fresh audit_params | Intercept bool

fun audit_step :: "(bytes \<Rightarrow> digest) \<Rightarrow> audit_logger \<Rightarrow> audit_event \<Rightarrow> audit_logger" where
  "audit_step sha l (Record fr params) = fst (record_execution sha fr params l)"
| "audit_step sha l (Intercept on) = set_interceptor on l"

lemma record_execution_log:
  "\<exists>e. record_execution sha fr params l = (fst (record_execution sha fr params l), e) \<and>
     al_entries (fst (record_execution sha fr params l)) = al_entries l @ [e] \<and>
     al_lastEntryHash (fst (record_execution sha fr params l)) = ae_entryHash e \<and>
     ae_prevEntryHash e = al_lastEntryHash l \<and> compute_entry_hash sha e = ae_entryHash e"
  unfolding record_execution_def Let_def by (auto simp: compute_entry_hash_def body_fields_def)

interpretation audit_log: preserved "audit_step sha" "log_inv sha" for sha
proof
  fix l e assume inv: "log_inv sha l"
  show "log_inv sha (audit_step sha l e)"
  proof (cases e)
    case (Record fr params)
    then show ?thesis using inv record_execution_log [of sha fr params l] by (auto simp: log_inv_def)
  qed (use inv in \<open>auto simp: log_inv_def set_interceptor_def\<close>)
qed

subsection \<open>The file\<close>

definition log_text :: "audit_entry list \<Rightarrow> string" where
  "log_text es = concat (map (\<lambda>e. entry_json e @ [CHR 0x0A]) es)"

definition file_inv :: "string \<Rightarrow> audit_logger \<Rightarrow> bool" where
  "file_inv path l \<longleftrightarrow> al_filePath l = Some path \<and>
     al_file l = (if al_entries l = [] then None else Some (log_text (al_entries l)))"

lemma record_execution_file:
  "file_inv path l \<Longrightarrow> path \<noteq> [] \<Longrightarrow> file_inv path (fst (record_execution sha fr params l))"
  by (auto simp: file_inv_def record_execution_def Let_def uses_file_def log_text_def)

interpretation audit_file: preserved "audit_step sha" "file_inv (c # cs)" for sha c cs
proof
  fix l e assume "file_inv (c # cs) l"
  then show "file_inv (c # cs) (audit_step sha l e)"
    using record_execution_file [of "c # cs" l] by (cases e) (simp_all add: set_interceptor_def file_inv_def)
qed

lemma split_on_line: "c \<notin> set w \<Longrightarrow> split_on c (w @ c # r) = w # split_on c r"
  by (induction w) auto

lemma split_log_text: "split_on (CHR 0x0A) (log_text es) = map entry_json es @ [[]]"
proof (induction es)
  case (Cons e es)
  have "log_text (e # es) = entry_json e @ CHR 0x0A # log_text es" by (simp add: log_text_def)
  then show ?case
    using Cons split_on_line [of "CHR 0x0A" "entry_json e"] by (simp add: entry_json_def json_object_one_line)
qed (simp add: log_text_def)

lemma trim_nonempty: "c \<in> set s \<Longrightarrow> \<not> js_space c \<Longrightarrow> trim s \<noteq> []"
proof -
  assume "c \<in> set s" "\<not> js_space c"
  then have "c \<in> set (dropWhile js_space s)"
    by (metis dropWhile_eq_Nil_conv set_takeWhileD takeWhile_dropWhile_id Un_iff set_append)
  then show ?thesis using \<open>\<not> js_space c\<close> by (auto simp: trim_def)
qed

lemma entry_json_kept: "0 < length (trim (entry_json e))"
  using trim_nonempty [of "CHR ''{''" "entry_json e"] by (simp add: entry_json_def json_object_def js_space_def)

lemma load_lines_entries:
  "(\<And>e. e \<in> set es \<Longrightarrow> parse (entry_json e) = Some e) \<Longrightarrow>
     \<exists>l'. load_lines parse (map entry_json es) l = Some l' \<and> al_entries l' = al_entries l @ es \<and>
       al_lastEntryHash l' = last_seal ae_entryHash (al_lastEntryHash l) es"
proof (induction es arbitrary: l)
  case (Cons e es)
  then show ?case
    using Cons.IH [of "l\<lparr>al_entries := al_entries l @ [e], al_lastEntryHash := ae_entryHash e\<rparr>"] by simp
qed simp

lemma load_log_text:
  assumes "\<And>e. e \<in> set es \<Longrightarrow> parse (entry_json e) = Some e"
  shows "\<exists>l'. load_from_file parse (log_text es) l = Some l' \<and> al_entries l' = al_entries l @ es \<and>
           al_lastEntryHash l' = last_seal ae_entryHash (al_lastEntryHash l) es"
proof -
  have "filter (\<lambda>ln. 0 < length (trim ln)) (map entry_json es) = map entry_json es"
    using entry_json_kept by (auto simp: filter_id_conv)
  then show ?thesis
    using load_lines_entries [OF assms, of es l] by (simp add: load_from_file_def split_log_text trim_def)
qed

lemma load_lines_last:
  "load_lines parse lines l = Some l' \<Longrightarrow>
     al_lastEntryHash l = last_seal ae_entryHash GENESIS_HASH (al_entries l) \<Longrightarrow>
     al_lastEntryHash l' = last_seal ae_entryHash GENESIS_HASH (al_entries l')"
  by (induction lines arbitrary: l) (auto split: option.splits)

lemma logger_new_last:
  "audit_logger_new parse fp disk = Some l \<Longrightarrow>
     al_lastEntryHash l = last_seal ae_entryHash GENESIS_HASH (al_entries l)"
  by (auto simp: audit_logger_new_def load_from_file_def Let_def split: if_splits option.splits
      intro: load_lines_last)

text \<open>A logger and an execution, for the examples below.\<close>

definition sample_logger :: audit_logger where
  "sample_logger = \<lparr>al_entries = [], al_lastEntryHash = GENESIS_HASH, al_filePath = Some ''audit.jsonl'',
     al_file = None, al_interceptor = False, al_intercepted = []\<rparr>"

definition sample_record :: audit_event where
  "sample_record = Record \<lparr>af_uuid = ''u'', af_now = ''t'', af_random = ''r''\<rparr>
     \<lparr>ap_timestamp = None, ap_traceId = None, ap_agentDid = ''d'', ap_peerId = ''p'', ap_toolName = ''x'',
      ap_datasetHash = None, ap_fuelConsumed = 3, ap_outputHash = None, ap_zkReceiptSig = None,
      ap_status = SUCCESS\<rparr>"

section \<open>Properties\<close>

text \<open>
  \<open>verifyIntegrity\<close> is exact: it reports a valid log exactly when the entries form a hash
  chain from the genesis hash, and otherwise the index of the first entry that breaks it.
\<close>

theorem verify_integrity_exact:
  "in_valid (verify_integrity sha l) = entry_chain sha (al_entries l) \<and>
   (case in_brokenIndex (verify_integrity sha l) of
      None \<Rightarrow> in_valid (verify_integrity sha l)
    | Some k \<Rightarrow> k < length (al_entries l) \<and> entry_chain sha (take k (al_entries l)) \<and>
                \<not> entry_chain sha (take (Suc k) (al_entries l)))"
proof -
  have "in_valid (verify_from sha n i h es) = (in_brokenIndex (verify_from sha n i h es) = None)" for n i h es
    by (induction es arbitrary: i h) (auto simp: Let_def)
  then show ?thesis
    using verify_from_broken [of sha "length (al_entries l)" 0 GENESIS_HASH "al_entries l"]
    by (auto simp: verify_integrity_def verify_from_valid split: option.split)
qed

text \<open>
  C38. A log never invalidates itself: a logger that verifies when it is created, with or without
  an existing file, still verifies after any sequence of recorded executions and changes of the
  interceptor.
\<close>

theorem audit_log_stays_valid:
  assumes "audit_logger_new parse filePath disk = Some l" "in_valid (verify_integrity sha l)"
  shows "in_valid (verify_integrity sha (run (audit_step sha) l events))"
proof -
  have "log_inv sha l"
    using assms logger_new_last by (simp add: log_inv_def verify_integrity_def verify_from_valid)
  then have "log_inv sha (run (audit_step sha) l events)" by (rule audit_log.run_inv)
  then show ?thesis by (simp add: log_inv_def verify_integrity_def verify_from_valid)
qed

theorem audit_log_stays_valid_witness:
  "in_valid (verify_integrity (\<lambda>_. Abs_digest (replicate 32 7))
     (run (audit_step (\<lambda>_. Abs_digest (replicate 32 7))) sample_logger [sample_record]))"
  by (rule audit_log_stays_valid [of "\<lambda>_. None" "Some ''audit.jsonl''" None])
     (simp_all add: audit_logger_new_def uses_file_def verify_integrity_def sample_logger_def)



text \<open>
  C4. The log file is complete: what a logger with a file path has recorded, a new logger on the
  same file reads back, with the same entries and the same last hash, provided \<open>JSON.parse\<close>
  reads back the text \<open>JSON.stringify\<close> writes for an entry.
\<close>

theorem audit_file_roundtrip:
  assumes parse: "\<And>e. e \<in> set (al_entries (run (audit_step sha) l events)) \<Longrightarrow> parse (entry_json e) = Some e"
    and path: "path \<noteq> []" and new: "audit_logger_new parse (Some path) None = Some l"
  shows "\<exists>l'. audit_logger_new parse (Some path) (al_file (run (audit_step sha) l events)) = Some l' \<and>
     al_entries l' = al_entries (run (audit_step sha) l events) \<and>
     al_lastEntryHash l' = al_lastEntryHash (run (audit_step sha) l events)"
proof -
  let ?r = "run (audit_step sha) l events"
  obtain c cs where p: "path = c # cs" using path by (cases path) auto
  have "file_inv path l" "log_inv sha l"
    using new path by (auto simp: audit_logger_new_def uses_file_def file_inv_def log_inv_def)
  then have disk: "al_file ?r = (if al_entries ?r = [] then None else Some (log_text (al_entries ?r)))"
    and last: "al_lastEntryHash ?r = last_seal ae_entryHash GENESIS_HASH (al_entries ?r)"
    using audit_file.run_inv [of c cs l sha events] audit_log.run_inv [of sha l events]
    by (simp_all add: p file_inv_def log_inv_def)
  let ?l0 = "\<lparr>al_entries = [], al_lastEntryHash = GENESIS_HASH, al_filePath = Some path,
      al_file = al_file ?r, al_interceptor = False, al_intercepted = []\<rparr>"
  show ?thesis
  proof (cases "al_entries ?r = []")
    case True
    then show ?thesis using disk last by (simp add: audit_logger_new_def Let_def)
  next
    case False
    then show ?thesis
      using disk last path load_log_text [of "al_entries ?r" parse ?l0, OF parse]
      by (simp add: audit_logger_new_def uses_file_def)
  qed
qed

theorem audit_file_roundtrip_witness:
  "let sha = (\<lambda>_. Abs_digest (replicate 32 7));
       r = run (audit_step sha) sample_logger [sample_record];
       parse = (\<lambda>s. if s = entry_json (hd (al_entries r)) then Some (hd (al_entries r)) else None)
   in \<exists>l'. audit_logger_new parse (Some ''audit.jsonl'') (al_file r) = Some l' \<and> al_entries l' = al_entries r"
proof -
  let ?sha = "\<lambda>_ :: bytes. Abs_digest (replicate 32 7)"
  let ?r = "run (audit_step ?sha) sample_logger [sample_record]"
  let ?parse = "\<lambda>s. if s = entry_json (hd (al_entries ?r)) then Some (hd (al_entries ?r)) else None"
  obtain e where one: "al_entries ?r = [e]"
    using record_execution_log [of ?sha _ _ sample_logger] by (auto simp: sample_record_def sample_logger_def)
  have "\<exists>l'. audit_logger_new ?parse (Some ''audit.jsonl'') (al_file ?r) = Some l' \<and>
     al_entries l' = al_entries ?r \<and> al_lastEntryHash l' = al_lastEntryHash ?r"
    by (rule audit_file_roundtrip) (use one in \<open>auto simp: audit_logger_new_def sample_logger_def Let_def\<close>)
  then show ?thesis unfolding Let_def by blast
qed

end
