(* ===== verification/Logic_Server.thy ===== *)
theory Logic_Server
  imports Logic_Worker Egress_Policy Rate_Limits Access_Control Audit_Chain
begin

text \<open>
  The request paths of \<open>server/index.ts\<close>: \<open>callTool\<close> with the middleware of Logic-on-Origin tools,
  \<open>executeInWorkerPool\<close>, and the gRPC handler \<open>executeLogic\<close>. They compose the rate limits, the token gate,
  the preflight and egress policies, the PII scanner, the execution worker and the audit log of the
  other theories.

  \<open>node_env\<close> is what surrounds the server: the worker's host, faults of the thread pool, the parser
  and walker of the taint analysis, the budget store, the token library, the wording of refusals and
  \<open>String\<close>. A schema is a function that returns the parsed arguments or \<open>None\<close>; a registered handler
  returns a result or the message of its exception. One reading of the clock serves a request.
  Log output, metrics and telemetry are left out. The result is \<open>None\<close> when the worker never
  returns.
\<close>

section \<open>State\<close>

record tool_policy =
  tp_base :: execution_policy
  tp_dpEpsilon :: "real option"
  tp_dpSensitivity :: "real option"
  tp_dpSmallDatasetThreshold :: "int option"
  tp_zkMode :: "string option"
  tp_guestImageId :: "string option"
  tp_pqcSign :: bool

record tool_entry =
  te_logicTool :: bool \<comment> \<open>the shape has a string \<open>payload\<close>: the middleware is installed\<close>
  te_schema :: "jval \<Rightarrow> jval option"
  te_handler :: "jval \<Rightarrow> string + jval"
  te_policy :: "tool_policy option"

record liop_node =
  ln_tools :: "(string, tool_entry) js_map"
  ln_records :: "jval list"
  ln_limits :: call_limits
  ln_windows :: call_windows
  ln_budget :: budget_server
  ln_audit :: audit_logger
  ln_auth :: auth_server
  ln_stats :: "(int \<times> time_ms) option"          \<comment> \<open>\<open>connectionStats\<close>: failures, lastAttempt\<close>
  ln_cache :: "(string, time_ms) js_map"          \<comment> \<open>\<open>logicCache\<close>\<close>
  ln_guestImageId :: "string option"
  ln_signingKey :: "bytes option"

datatype pool_error = Pool_Fault string | Worker_Raised worker_error

datatype pool_result =
  Proof_Unavailable
| Policy_Blocked output_error
| Egress_Blocked "violation option"
| Pool_Failed pool_error
| Delivered jval worker_result

datatype call_outcome =
  Tool_Not_Found string
| Limited rate_limited
| Invalid_Arguments
| Preflight_Refused "taint_violation preflight_error"
| Pool_Answer pool_result
| Handler_Answer jval
| Handler_Threw string
| Throttled
| Malformed_Payload

record node_env =
  ne_host :: worker_host
  ne_fault :: "worker_data \<Rightarrow> string option"
  ne_acorn :: "string \<Rightarrow> node option"
  ne_walk :: walker
  ne_store :: store_env
  ne_scanner :: pii_scanner
  ne_jwt :: jwt_verify
  ne_url :: "string \<Rightarrow> (string \<times> string) option"
  ne_text :: "call_outcome \<Rightarrow> string"       \<comment> \<open>the text of a refusal, details included\<close>
  ne_detail :: "pool_error \<Rightarrow> string"       \<comment> \<open>\<open>e.message\<close>\<close>
  ne_string :: "jval \<Rightarrow> string"
  ne_dev :: bool                            \<comment> \<open>\<open>NODE_ENV\<close> is development or test\<close>
  ne_verbose :: bool                        \<comment> \<open>\<open>LIOP_SEC_VERBOSE\<close> is 1\<close>

abbreviation ne_parse :: "node_env \<Rightarrow> string \<Rightarrow> jval option" where
  "ne_parse env \<equiv> ve_parse (wh_env (ne_host env))"

abbreviation ne_stringify :: "node_env \<Rightarrow> jval \<Rightarrow> string" where
  "ne_stringify env \<equiv> ve_stringify (wh_env (ne_host env))"

abbreviation ne_sha :: "node_env \<Rightarrow> bytes \<Rightarrow> digest" where
  "ne_sha env \<equiv> ve_sha (wh_env (ne_host env))"

definition policy_of :: "string \<Rightarrow> liop_node \<Rightarrow> tool_policy option" where
  "policy_of name s = Option.bind (map_of (ln_tools s) name) te_policy"

definition records_count :: "liop_node \<Rightarrow> int" where
  "records_count s = int (length (ln_records s))"

section \<open>The envelope\<close>

text \<open>
  \<open>LIOP_COMPACT_REGEX\<close> at one position: a header up to the first closing brace with a nonempty
  target, line breaks, then the shortest text that is followed by line breaks and the end marker.
\<close>

fun until_end :: "string \<Rightarrow> string option" where
  "until_end [] = None"
| "until_end (c # cs) =
     (if newline c \<and> starts_with (dropWhile newline (c # cs)) ''@END'' then Some []
      else map_option ((#) c) (until_end cs))"

definition compact_at :: "string \<Rightarrow> string option" where
  "compact_at s =
     (if \<not> starts_with s ''@LIOP{'' then None
      else
        (let r = drop 6 s; header = takeWhile (\<lambda>c. c \<noteq> CHR ''}'') r; rest = drop (length header) r in
         if takeWhile (\<lambda>c. c \<noteq> CHR '','') header = [] \<or> length rest < 2 \<or> \<not> newline (rest ! 1) then None
         else until_end (dropWhile newline (tl rest))))"

definition extract_logic :: "string \<Rightarrow> string option" where
  "extract_logic payload =
     (case List.map_filter compact_at (suffixes_of (trim payload)) of
        [] \<Rightarrow> None
      | logic # _ \<Rightarrow> if logic = [] then None else Some (trim logic))"

section \<open>Preflight and the worker pool\<close>

definition taint_check :: "node_env \<Rightarrow> liop_node \<Rightarrow> string \<Rightarrow> int \<Rightarrow> taint_violation taint_result" where
  "taint_check env s logic thr =
     \<lparr>tv_violation = analyze (ne_acorn env) (ne_walk env) (bs_classes (ln_budget s)) logic (Some (records_count s)) thr,
      tv_queriedFields = extract_queried_fields (ne_acorn env) (ne_walk env) logic\<rparr>"

definition preflight ::
    "node_env \<Rightarrow> string \<Rightarrow> string \<Rightarrow> tool_policy option \<Rightarrow> string \<Rightarrow> liop_node
      \<Rightarrow> liop_node \<times> taint_violation preflight_error option" where
  "preflight env toolName logic policy clientId s =
     (case run_preflight_policy (taint_check env s) (ne_store env) toolName logic (map_option tp_base policy) clientId (ln_budget s) of
        (b, e) \<Rightarrow> (s\<lparr>ln_budget := b\<rparr>, e))"

definition dp_config_of :: "tool_policy option \<Rightarrow> partial_dp_config option" where
  "dp_config_of policy =
     map_option (\<lambda>p. \<lparr>pd_epsilon = Some (given (tp_dpEpsilon p) 1), pd_sensitivity = Some (given (tp_dpSensitivity p) 1),
       pd_smallDatasetThreshold = Some (given (tp_dpSmallDatasetThreshold p) 50), pd_seed = None\<rparr>) policy"

definition policy_proof_mode :: "tool_policy option \<Rightarrow> int" where
  "policy_proof_mode policy =
     (case Option.bind policy tp_zkMode of
        Some m \<Rightarrow> if m = ''required'' then PROOF_MODE_ZK_BLOCKING
                  else if m = ''optimistic'' then PROOF_MODE_ZK_OPTIMISTIC else PROOF_MODE_LEGACY_HMAC
      | None \<Rightarrow> PROOF_MODE_LEGACY_HMAC)"

definition guest_of :: "tool_policy option \<Rightarrow> liop_node \<Rightarrow> string option" where
  "guest_of policy s =
     (case Option.bind policy tp_guestImageId of Some g \<Rightarrow> Some g | None \<Rightarrow> ln_guestImageId s)"

definition signing_key :: "tool_policy option \<Rightarrow> liop_node \<Rightarrow> bytes option" where
  "signing_key policy s =
     (case policy of Some p \<Rightarrow> if tp_pqcSign p then ln_signingKey s else None | None \<Rightarrow> None)"

definition run_pool :: "node_env \<Rightarrow> worker_data \<Rightarrow> (pool_error + worker_result) option" where
  "run_pool env d =
     (case ne_fault env d of
        Some msg \<Rightarrow> Some (Inl (Pool_Fault msg))
      | None \<Rightarrow> map_option (\<lambda>r. case r of Inl e \<Rightarrow> Inl (Worker_Raised e) | Inr w \<Rightarrow> Inr w)
                  (process_logic_execution (ne_host env) d))"

definition groth_type :: "worker_result \<Rightarrow> bool" where
  "groth_type w \<longleftrightarrow> wr_proof_type w = Some GROTH16 \<or> wr_proof_type w = Some GROTH16_PQC_HYBRID"

definition local_task :: "liop_node \<Rightarrow> string \<Rightarrow> tool_policy option \<Rightarrow> worker_data" where
  "local_task s rawPayload policy =
     \<lparr>wd_isWarmup = False, wd_ciphertext = [], wd_secretKey = [], wd_wasmBinary = utf8 rawPayload, wd_inputs = [],
      wd_records = ln_records s, wd_sessionTimestamp = None, wd_isEncrypted = Some False, wd_aesNonce = None,
      wd_proofMode = Some (policy_proof_mode policy), wd_guestImageId = guest_of policy s,
      wd_pqcSigningKey = signing_key policy s, wd_dpConfig = dp_config_of policy\<rparr>"

text \<open>The PII scanner and the aggregation policy on a value: \<open>Some v\<close> when the value must not leave.\<close>

definition egress_check :: "node_env \<Rightarrow> liop_node \<Rightarrow> tool_policy option \<Rightarrow> jval \<Rightarrow> jval \<Rightarrow> violation option option option" where
  "egress_check env s policy scanned aggregated =
     (case scan (ne_parse env) (ne_scanner env) (weight scanned) {} scanned of
        None \<Rightarrow> None
      | Some (viol, _) \<Rightarrow>
          (case violates_aggregation_first_policy (ne_parse env) aggregated
                  (Option.bind policy (\<lambda>p. ep_enforceAggregationFirst (tp_base p))) (records_count s) of
             None \<Rightarrow> None
           | Some bad \<Rightarrow> Some (if viol \<noteq> None \<or> bad then Some viol else None)))"

definition execute_in_worker_pool :: "node_env \<Rightarrow> string \<Rightarrow> string \<Rightarrow> liop_node \<Rightarrow> pool_result option" where
  "execute_in_worker_pool env rawPayload toolName s =
     (let policy = policy_of toolName s in
      case run_pool env (local_task s rawPayload policy) of
        None \<Rightarrow> None
      | Some (Inl e) \<Rightarrow> Some (Pool_Failed e)
      | Some (Inr w) \<Rightarrow>
          if policy_proof_mode policy = PROOF_MODE_ZK_BLOCKING \<and> \<not> groth_type w then Some Proof_Unavailable
          else
            (let out = sanitize_output DEFAULT_CONFIG (wr_output w) in
             case validate_output_policy (ne_parse env) (records_count s) toolName out (map_option tp_base policy) of
               None \<Rightarrow> None
             | Some (Some e) \<Rightarrow> Some (Policy_Blocked e)
             | Some None \<Rightarrow>
                 (case egress_check env s policy out out of
                    None \<Rightarrow> None
                  | Some (Some v) \<Rightarrow> Some (Egress_Blocked v)
                  | Some None \<Rightarrow> Some (Delivered out w))))"

section \<open>Calling a tool\<close>

definition CACHE_TTL_MS :: time_ms where "CACHE_TTL_MS = 24 * 60 * 60 * 1000"
definition THROTTLE_THRESHOLD :: int where "THROTTLE_THRESHOLD = 5"
definition THROTTLE_COOLDOWN_MS :: time_ms where "THROTTLE_COOLDOWN_MS = 60 * 1000"

definition stats_of :: "liop_node \<Rightarrow> int \<times> time_ms" where
  "stats_of s = (case ln_stats s of Some st \<Rightarrow> st | None \<Rightarrow> (0, 0))"

definition note_failure :: "time_ms \<Rightarrow> liop_node \<Rightarrow> liop_node" where
  "note_failure now s = s\<lparr>ln_stats := Some (fst (stats_of s) + 1, now)\<rparr>"

fun is_refusal :: "pool_result \<Rightarrow> bool" where
  "is_refusal (Delivered v w) = False"
| "is_refusal _ = True"

definition payload_value :: "jval \<Rightarrow> string" where
  "payload_value args =
     (case nullish (opt_prop args ''payload'') (nullish (opt_prop args ''envelope'') (opt_prop args ''code'')) of
        JStr p \<Rightarrow> p | _ \<Rightarrow> [])"

definition checked_run ::
    "node_env \<Rightarrow> string \<Rightarrow> string \<Rightarrow> tool_policy option \<Rightarrow> string \<Rightarrow> liop_node \<Rightarrow> (liop_node \<times> call_outcome) option" where
  "checked_run env name logic policy clientId s =
     (case preflight env name logic policy clientId s of
        (s, Some e) \<Rightarrow> Some (s, Preflight_Refused e)
      | (s, None) \<Rightarrow> map_option (\<lambda>r. (s, Pool_Answer r)) (execute_in_worker_pool env logic name s))"

definition middleware_run ::
    "node_env \<Rightarrow> time_ms \<Rightarrow> string \<Rightarrow> tool_policy option \<Rightarrow> string \<Rightarrow> string \<Rightarrow> liop_node
      \<Rightarrow> (liop_node \<times> call_outcome) option" where
  "middleware_run env now name policy payloadHash logic s =
     (case checked_run env name logic policy ''mcp-client'' s of
        None \<Rightarrow> None
      | Some (s, r) \<Rightarrow>
          (case r of
             Pool_Answer (Delivered v w) \<Rightarrow>
               Some (s\<lparr>ln_stats := Some (0, now), ln_cache := AList.update payloadHash now (ln_cache s)\<rparr>, r)
           | _ \<Rightarrow> Some (note_failure now s, r)))"

text \<open>The handler \<open>tool\<close> installs for Logic-on-Origin tools.\<close>

definition logic_middleware ::
    "node_env \<Rightarrow> time_ms \<Rightarrow> string \<Rightarrow> tool_policy option \<Rightarrow> jval \<Rightarrow> liop_node \<Rightarrow> (liop_node \<times> call_outcome) option" where
  "logic_middleware env now name policy args s =
     (if fst (stats_of s) \<ge> THROTTLE_THRESHOLD \<and> now - snd (stats_of s) < THROTTLE_COOLDOWN_MS then Some (s, Throttled)
      else
        (let payloadValue = payload_value args;
             bypassCache = (opt_prop args ''__liop_bypass_ast_cache'' = JBool True);
             payloadHash = hex_of (Rep_digest (ne_sha env (utf8 payloadValue))) in
         case extract_logic payloadValue of
           Some (c # cs) \<Rightarrow>
             if (case map_of (ln_cache s) payloadHash of
                   Some ts \<Rightarrow> \<not> bypassCache \<and> now - ts < CACHE_TTL_MS | None \<Rightarrow> False)
             then checked_run env name (c # cs) policy ''mcp-client'' s
             else middleware_run env now name policy payloadHash (c # cs) s
         | _ \<Rightarrow> Some (note_failure now s, Malformed_Payload)))"

definition clear_ast_cache :: "liop_node \<Rightarrow> liop_node" where
  "clear_ast_cache s = s\<lparr>ln_cache := []\<rparr>"

definition with_bypass_flag :: "jval \<Rightarrow> jval \<Rightarrow> jval" where
  "with_bypass_flag args parsed =
     (if opt_prop args ''__liop_bypass_ast_cache'' = JBool True
      then (case parsed of JObj i fs \<Rightarrow> JObj i (AList.update ''__liop_bypass_ast_cache'' (JBool True) fs) | v \<Rightarrow> v)
      else parsed)"

definition call_handler ::
    "node_env \<Rightarrow> time_ms \<Rightarrow> string \<Rightarrow> tool_entry \<Rightarrow> jval \<Rightarrow> liop_node \<Rightarrow> (liop_node \<times> call_outcome) option" where
  "call_handler env now name entry parsedArgs s =
     (if te_logicTool entry then logic_middleware env now name (te_policy entry) parsedArgs s
      else Some (s, case te_handler entry parsedArgs of Inl m \<Rightarrow> Handler_Threw m | Inr v \<Rightarrow> Handler_Answer v))"

definition call_tool ::
    "node_env \<Rightarrow> time_ms \<Rightarrow> string \<Rightarrow> jval \<Rightarrow> string \<Rightarrow> liop_node \<Rightarrow> (liop_node \<times> call_outcome) option" where
  "call_tool env now name args clientId s =
     (case map_of (ln_tools s) name of
        None \<Rightarrow> Some (s, Tool_Not_Found name)
      | Some entry \<Rightarrow>
          (case admit_call (ln_limits s) (ln_windows s) name now of
             (Some l, w) \<Rightarrow> Some (s\<lparr>ln_windows := w\<rparr>, Limited l)
           | (None, w) \<Rightarrow>
               (let s = s\<lparr>ln_windows := w\<rparr> in
                case te_schema entry (if truthy args then args else JObj None []) of
                  None \<Rightarrow> Some (s, Invalid_Arguments)
                | Some parsed \<Rightarrow>
                    (let parsedArgs = with_bypass_flag args parsed in
                     case opt_prop parsedArgs ''payload'' of
                       JStr payload \<Rightarrow>
                         (case extract_logic payload of
                            Some (c # cs) \<Rightarrow> checked_run env name (c # cs) (te_policy entry) clientId s
                          | _ \<Rightarrow> call_handler env now name entry parsedArgs s)
                     | _ \<Rightarrow> call_handler env now name entry parsedArgs s))))"

subsection \<open>The result a caller sees\<close>

definition EGRESS_TEXT :: string where
  "EGRESS_TEXT = ''[LIOP] Egress Security Violation. Output blocked due to policy enforcement.''"

definition is_oom :: "string \<Rightarrow> bool" where
  "is_oom detail \<longleftrightarrow> list_ex (str_includes detail)
     [''worker_thread_exited'', ''ERR_WORKER_OUT_OF_MEMORY'', ''terminated'', ''heap limit'']"

text \<open>In production a blocked output is refused with a fixed text.\<close>

definition public_text :: "node_env \<Rightarrow> call_outcome \<Rightarrow> string" where
  "public_text env r =
     (let isDev = ne_dev env \<or> ne_verbose env;
          blocked = EGRESS_TEXT @ '' Ensure your logic uses strictly aggregated, non-PII patterns.'' in
      case r of
        Pool_Answer (Policy_Blocked e) \<Rightarrow> if isDev then ne_text env r else blocked
      | Pool_Answer (Egress_Blocked v) \<Rightarrow> if isDev then ne_text env r else blocked
      | Pool_Answer (Pool_Failed e) \<Rightarrow>
          if is_oom (ne_detail env e)
          then ''[LIOP] Execution terminated: memory limit exceeded (64MB heap). Reduce data processing volume.''
          else if isDev then ''WorkerPoolError: '' @ ne_detail env e
          else ''[LIOP] Execution Failed. The injected logic violated runtime constraints or encountered a fatal error.''
      | _ \<Rightarrow> ne_text env r)"

definition text_result :: "string \<Rightarrow> (string \<times> jval) list \<Rightarrow> jval" where
  "text_result t extra =
     JObj None ((''content'', JArr None [JObj None [(''type'', JStr ''text''), (''text'', JStr t)]]) # extra)"

definition opt_str :: "string option \<Rightarrow> jval" where
  "opt_str v = (case v of None \<Rightarrow> JUndef | Some t \<Rightarrow> JStr t)"

definition delivered_object :: "jval \<Rightarrow> worker_result \<Rightarrow> jval" where
  "delivered_object out w =
     JObj None [(''computation_result'', out), (''image_id'', JStr (wr_image_id w)), (''zk_receipt'', opt_str (wr_zk_receipt w)),
       (''proof_type'', JStr (if wr_proof_type w = Some GROTH16_PQC_HYBRID then ''GROTH16_PQC_HYBRID''
                               else if wr_proof_type w = Some GROTH16 then ''GROTH16'' else ''HMAC_LEGACY'')),
       (''guest_image_id'', opt_str (wr_guest_image_id w)), (''status'', JStr ''Worker Pool Execution Success'')]"

fun outcome_value :: "node_env \<Rightarrow> call_outcome \<Rightarrow> jval" where
  "outcome_value env (Handler_Answer v) = v"
| "outcome_value env (Pool_Answer r) =
     (case r of
        Delivered out w \<Rightarrow> text_result (ne_stringify env (delivered_object out w)) []
      | _ \<Rightarrow> text_result (public_text env (Pool_Answer r)) [(''isError'', JBool True)])"
| "outcome_value env r = text_result (public_text env r) [(''isError'', JBool True)]"

section \<open>Executing logic over gRPC\<close>

record logic_request =
  lr_session_token :: string
  lr_wasm_binary :: bytes
  lr_inputs :: "(string \<times> bytes) list"
  lr_pqc_ciphertext :: bytes
  lr_aes_nonce :: "bytes option"
  lr_requested_proof_mode :: "int option"

record logic_response =
  lp_semantic_evidence :: string
  lp_cryptographic_proof :: bytes
  lp_zk_receipt :: bytes
  lp_is_error :: bool
  lp_proof_type :: "byte option"
  lp_guest_image_id :: string

datatype exec_outcome =
  Gate_Refused rpc_error
| Invalid_Session
| Session_Secret_Expired
| Session_Token_Revoked
| Preflight_Decryption_Failed
| Response logic_response

definition error_response :: "string \<Rightarrow> byte option \<Rightarrow> exec_outcome" where
  "error_response msg ty =
     Response \<lparr>lp_semantic_evidence = msg, lp_cryptographic_proof = [], lp_zk_receipt = [], lp_is_error = True,
               lp_proof_type = ty, lp_guest_image_id = []\<rparr>"

definition requested_mode :: "int option \<Rightarrow> tool_policy option \<Rightarrow> int" where
  "requested_mode requested policy =
     (case requested of
        Some m \<Rightarrow> if m = PROOF_MODE_LEGACY_HMAC then policy_proof_mode policy else m
      | None \<Rightarrow> policy_proof_mode policy)"

definition remote_task :: "liop_node \<Rightarrow> logic_request \<Rightarrow> grpc_session \<Rightarrow> tool_policy option \<Rightarrow> worker_data" where
  "remote_task s req ses policy =
     \<lparr>wd_isWarmup = False, wd_ciphertext = lr_pqc_ciphertext req, wd_secretKey = gs_kyber_sk ses,
      wd_wasmBinary = lr_wasm_binary req, wd_inputs = lr_inputs req, wd_records = ln_records s,
      wd_sessionTimestamp = Some (gs_createdAt ses), wd_isEncrypted = Some True, wd_aesNonce = lr_aes_nonce req,
      wd_proofMode = Some (requested_mode (lr_requested_proof_mode req) policy), wd_guestImageId = guest_of policy s,
      wd_pqcSigningKey = signing_key policy s, wd_dpConfig = dp_config_of policy\<rparr>"

text \<open>The plaintext of the request, as the preflight decrypts it.\<close>

definition preflight_plaintext :: "node_env \<Rightarrow> logic_request \<Rightarrow> grpc_session \<Rightarrow> string option" where
  "preflight_plaintext env req ses =
     (let h = ne_host env in
      case wh_decap h (lr_pqc_ciphertext req) (gs_kyber_sk ses) of
        None \<Rightarrow> None
      | Some aesKey \<Rightarrow>
          map_option (ve_text (wh_env h))
            (open_box (wh_aes h) aesKey (case lr_aes_nonce req of Some n \<Rightarrow> n | None \<Rightarrow> replicate 12 0) (lr_wasm_binary req)))"

definition or_name :: "string \<Rightarrow> string \<Rightarrow> string" where
  "or_name a b = (if a = [] then b else a)"

text \<open>\<open>String(v)\<close>; only a string needs no library.\<close>

definition string_of :: "node_env \<Rightarrow> jval \<Rightarrow> string" where
  "string_of env v = (case v of JStr t \<Rightarrow> t | _ \<Rightarrow> ne_string env v)"

text \<open>\<open>content[0].text || "Unknown error"\<close>; \<open>None\<close> is the \<open>TypeError\<close>.\<close>

definition first_text :: "jval \<Rightarrow> jval option" where
  "first_text result =
     (case opt_prop result ''content'' of
        JArr i (c # cs) \<Rightarrow> js_prop c ''text''
      | _ \<Rightarrow> None)"

datatype proxy_result = Plain string jval | Proxy_Failed string

definition proxy_answer :: "node_env \<Rightarrow> jval \<Rightarrow> jval \<Rightarrow> proxy_result option" where
  "proxy_answer env out result =
     (case js_prop result ''isError'' of
        None \<Rightarrow> Some (Plain (string_of env out) out)
      | Some e \<Rightarrow>
          if truthy e then
            Some (case first_text result of
                    None \<Rightarrow> Plain (string_of env out) out
                  | Some x \<Rightarrow> Proxy_Failed (if truthy x then string_of env x else ''Unknown error''))
          else
            (let sanitized = sanitize_output DEFAULT_CONFIG result in
             map_option (Plain (ne_stringify env sanitized))
               (unwrap_for_aggregation_policy_scan (ne_parse env) (weight sanitized) sanitized)))"

text \<open>An unknown tool throws, which the caller catches; every other outcome is an answer.\<close>

definition proxied :: "node_env \<Rightarrow> jval \<Rightarrow> liop_node \<times> call_outcome \<Rightarrow> (liop_node \<times> proxy_result) option" where
  "proxied env out call =
     (case call of (s, r) \<Rightarrow>
        (case r of
           Tool_Not_Found n \<Rightarrow> Some (s, Plain (string_of env out) out)
         | _ \<Rightarrow> map_option (Pair s) (proxy_answer env out (outcome_value env r))))"

text \<open>The protocol transformer: the evidence text and the value the egress checks look at.\<close>

definition transform_output ::
    "node_env \<Rightarrow> time_ms \<Rightarrow> string \<Rightarrow> jval \<Rightarrow> liop_node \<Rightarrow> (liop_node \<times> proxy_result) option" where
  "transform_output env now agent out s =
     (let raw = Some (s, Plain (string_of env out) out) in
      case (case out of JStr t \<Rightarrow> Some t | JUndef \<Rightarrow> None | v \<Rightarrow> Some (ne_stringify env v)) of
        None \<Rightarrow> raw
      | Some evidence \<Rightarrow>
          (case Option.bind (ne_parse env evidence) (\<lambda>decoded. map_option (Pair decoded) (js_prop decoded ''__liop_proxy_tool'')) of
             None \<Rightarrow> raw
           | Some (decoded, tool) \<Rightarrow>
               if \<not> truthy tool then Some (s, Plain evidence out)
               else
                 (case tool of
                    JStr name \<Rightarrow>
                      (let args = opt_prop decoded ''__liop_proxy_args'' in
                       Option.bind
                         (call_tool env now name (if truthy args then args else JObj None []) (or_name agent ''unknown-client'') s)
                         (proxied env out))
                  | _ \<Rightarrow> raw)))"

definition audit_run ::
    "node_env \<Rightarrow> audit_fresh \<Rightarrow> grpc_session \<Rightarrow> int \<Rightarrow> string \<Rightarrow> string \<Rightarrow> audit_status \<Rightarrow> liop_node \<Rightarrow> liop_node" where
  "audit_run env fr ses fuel evidence receipt status s =
     s\<lparr>ln_audit := fst (record_execution (ne_sha env) fr
         \<lparr>ap_timestamp = None, ap_traceId = None, ap_agentDid = or_name (gs_agent_did ses) ''unknown'',
          ap_peerId = (case gs_tokenHash ses of Some t \<Rightarrow> or_name t ''unknown'' | None \<Rightarrow> ''unknown''),
          ap_toolName = or_name (gs_capability_hash ses) ''unknown'',
          ap_datasetHash = Some (hex_of (dataset_digest (wh_env (ne_host env)) (ln_records s))), ap_fuelConsumed = fuel,
          ap_outputHash = Some (hex_of (Rep_digest (ne_sha env (utf8 evidence)))), ap_zkReceiptSig = Some receipt,
          ap_status = status\<rparr> (ln_audit s))\<rparr>"

definition run_failed :: "node_env \<Rightarrow> pool_error \<Rightarrow> string" where
  "run_failed env e =
     (if ne_dev env then ''Execution Error: '' @ ne_detail env e
      else ''[LIOP] Execution Failed. The injected logic violated runtime constraints or encountered a fatal error.'')"

definition success_response :: "node_env \<Rightarrow> worker_result \<Rightarrow> tool_policy option \<Rightarrow> liop_node \<Rightarrow> string \<Rightarrow> logic_response" where
  "success_response env w policy s evidence =
     \<lparr>lp_semantic_evidence = evidence, lp_cryptographic_proof = ve_fromHex (wh_env (ne_host env)) (wr_image_id w),
      lp_zk_receipt = (case wr_zk_receipt w of None \<Rightarrow> [] | Some r \<Rightarrow> if r = [] then [] else cd_fromBase64 (wh_codec (ne_host env)) r),
      lp_is_error = False,
      lp_proof_type = Some (if wr_proof_type w = Some GROTH16_PQC_HYBRID then GROTH16_PQC_HYBRID
                            else if wr_proof_type w = Some GROTH16 then GROTH16 else HMAC_LEGACY),
      lp_guest_image_id =
        or_name (case wr_guest_image_id w of Some g \<Rightarrow> g | None \<Rightarrow> [])
          (or_name (case Option.bind policy tp_guestImageId of Some g \<Rightarrow> g | None \<Rightarrow> [])
            (case ln_guestImageId s of Some g \<Rightarrow> g | None \<Rightarrow> []))\<rparr>"

text \<open>The last checks and the audit entry of a run whose output passed the output policy.\<close>

definition finish_run ::
    "node_env \<Rightarrow> audit_fresh \<Rightarrow> grpc_session \<Rightarrow> tool_policy option \<Rightarrow> worker_result \<Rightarrow> string \<Rightarrow> jval \<Rightarrow> liop_node
      \<Rightarrow> (liop_node \<times> exec_outcome) option" where
  "finish_run env fr ses policy w evidence v s =
     (case unwrap_for_aggregation_policy_scan (ne_parse env) (weight v) v of
        None \<Rightarrow> None
      | Some inner \<Rightarrow>
          (case egress_check env s policy v inner of
             None \<Rightarrow> None
           | Some blocked \<Rightarrow>
               (let text = (if blocked \<noteq> None then EGRESS_TEXT else evidence);
                    resp = (success_response env w policy s text)\<lparr>lp_is_error := (blocked \<noteq> None)\<rparr> in
                Some (audit_run env fr ses (wr_fuel w) text (case wr_zk_receipt w of Some r \<Rightarrow> r | None \<Rightarrow> [])
                        (if blocked \<noteq> None then BLOCKED_EGRESS else SUCCESS) s,
                      Response resp))))"

definition deliver_run ::
    "node_env \<Rightarrow> time_ms \<Rightarrow> audit_fresh \<Rightarrow> grpc_session \<Rightarrow> tool_policy option \<Rightarrow> int \<Rightarrow> worker_result \<Rightarrow> liop_node
      \<Rightarrow> (liop_node \<times> exec_outcome) option" where
  "deliver_run env now fr ses policy mode w s =
     (if mode = PROOF_MODE_ZK_BLOCKING \<and> \<not> groth_type w then
        Some (s, error_response (ne_text env (Pool_Answer Proof_Unavailable)) (Some HMAC_LEGACY))
      else
        (case transform_output env now (gs_agent_did ses) (sanitize_output DEFAULT_CONFIG (wr_output w)) s of
           None \<Rightarrow> None
         | Some (s, Proxy_Failed msg) \<Rightarrow> Some (s, error_response msg None)
         | Some (s, Plain evidence v) \<Rightarrow>
             (case validate_output_policy (ne_parse env) (records_count s) (or_name (gs_capability_hash ses) ''unknown_tool'')
                     v (map_option tp_base policy) of
                None \<Rightarrow> None
              | Some (Some e) \<Rightarrow>
                  Some (s, error_response (if ne_dev env \<or> ne_verbose env then ne_text env (Pool_Answer (Policy_Blocked e))
                                           else EGRESS_TEXT) None)
              | Some None \<Rightarrow> finish_run env fr ses policy w evidence v s)))"

definition run_logic ::
    "node_env \<Rightarrow> time_ms \<Rightarrow> audit_fresh \<Rightarrow> logic_request \<Rightarrow> grpc_session \<Rightarrow> liop_node \<Rightarrow> (liop_node \<times> exec_outcome) option" where
  "run_logic env now fr req ses s =
     (let toolName = gs_capability_hash ses; policy = (if toolName = [] then None else policy_of toolName s) in
      case preflight_plaintext env req ses of
        None \<Rightarrow> Some (s, Preflight_Decryption_Failed)
      | Some payload \<Rightarrow>
          (let logic = (case extract_logic payload of Some (c # cs) \<Rightarrow> c # cs | _ \<Rightarrow> trim payload) in
           case preflight env (or_name toolName ''unknown_tool'') logic policy
                  (or_name (gs_agent_did ses) (lr_session_token req)) s of
             (s, Some e) \<Rightarrow> Some (s, error_response (ne_text env (Preflight_Refused e)) None)
           | (s, None) \<Rightarrow>
               (case run_pool env (remote_task s req ses policy) of
                  None \<Rightarrow> None
                | Some (Inl e) \<Rightarrow>
                    Some (audit_run env fr ses 0 (run_failed env e) [] ERROR s, error_response (run_failed env e) None)
                | Some (Inr w) \<Rightarrow>
                    deliver_run env now fr ses policy (requested_mode (lr_requested_proof_mode req) policy) w s)))"

definition proceed ::
    "node_env \<Rightarrow> io \<Rightarrow> audit_fresh \<Rightarrow> logic_request \<Rightarrow> liop_node \<Rightarrow> (liop_node \<times> exec_outcome) option" where
  "proceed env io fr req s =
     (case map_of (as_sessions (ln_auth s)) (lr_session_token req) of
        None \<Rightarrow> Some (s, Invalid_Session)
      | Some ses \<Rightarrow>
          if gs_createdAt ses \<noteq> 0 \<and> io_now io - gs_createdAt ses > MAX_SESSION_KEY_LIFETIME_MS then
            Some (s\<lparr>ln_auth := (ln_auth s)\<lparr>as_sessions := AList.delete (lr_session_token req) (as_sessions (ln_auth s))\<rparr>\<rparr>,
                  Session_Secret_Expired)
          else
            (case gs_tokenHash ses of
               Some (c # cs) \<Rightarrow>
                 (let s = s\<lparr>ln_auth := load_revocation_list io (ln_auth s)\<rparr> in
                  if (c # cs) \<in> set (as_revoked (ln_auth s)) then Some (s, Session_Token_Revoked)
                  else run_logic env (io_now io) fr req ses s)
             | _ \<Rightarrow> run_logic env (io_now io) fr req ses s))"

definition execute_logic ::
    "node_env \<Rightarrow> io \<Rightarrow> audit_fresh \<Rightarrow> string option \<Rightarrow> logic_request \<Rightarrow> liop_node \<Rightarrow> (liop_node \<times> exec_outcome) option" where
  "execute_logic env io fr authorization req s =
     (case auth_gate (ne_jwt env) (ne_url env) (ne_sha env) io authorization (ln_auth s) of
        (a, Inl e) \<Rightarrow> Some (s\<lparr>ln_auth := a\<rparr>, Gate_Refused e)
      | (a, Inr _) \<Rightarrow> proceed env io fr req (s\<lparr>ln_auth := a\<rparr>))"

end
