(* ===== verification/Server_Properties.thy ===== *)
theory Server_Properties
  imports Logic_Server
begin

text \<open>
  What the request paths of the server guarantee end to end: nothing leaves unscreened, neither through
  \<open>callTool\<close> nor over gRPC; released evidence is what the receipt commits to; which requests
  reach the audit log; and where the composition falls short of its parts.
\<close>

section \<open>Egress\<close>

text \<open>A value both scanners and the tool's output policy let pass.\<close>

definition screened :: "node_env \<Rightarrow> liop_node \<Rightarrow> string \<Rightarrow> tool_policy option \<Rightarrow> jval \<Rightarrow> jval \<Rightarrow> bool" where
  "screened env s name policy v aggregated \<longleftrightarrow>
     (distinct (ids v) \<longrightarrow> \<not> leaks (ne_parse env) (ne_scanner env) v) \<and>
     (case policy of
        None \<Rightarrow> True
      | Some p \<Rightarrow>
          validate_output_policy (ne_parse env) (records_count s) name v (Some (tp_base p)) = Some None \<and>
          (case ep_enforceAggregationFirst (tp_base p) of
             None \<Rightarrow> True
           | Some pol \<Rightarrow> enabled (Some pol) \<longrightarrow> \<not> exports (ne_parse env) pol (records_count s) aggregated))"

lemma egress_check_clean:
  assumes "json_parser (ne_parse env)" "egress_check env s policy v aggregated = Some None"
    "validate_output_policy (ne_parse env) (records_count s) name v (map_option tp_base policy) = Some None"
  shows "screened env s name policy v aggregated"
proof -
  obtain seen where sc: "scan (ne_parse env) (ne_scanner env) (weight v) {} v = Some (None, seen)"
    and ag: "violates_aggregation_first_policy (ne_parse env) aggregated
        (Option.bind policy (\<lambda>p. ep_enforceAggregationFirst (tp_base p))) (records_count s) = Some False"
    using assms(2) by (auto simp: egress_check_def split: option.splits prod.splits if_splits)
  have "\<not> leaks (ne_parse env) (ne_scanner env) v" if "distinct (ids v)"
    using scan_correct(1) [OF assms(1) that _ order_refl, of "{}" "ne_scanner env"] sc by (simp add: scan_ok_def)
  moreover have "\<not> exports (ne_parse env) pol (records_count s) aggregated"
    if "policy = Some p" "ep_enforceAggregationFirst (tp_base p) = Some pol" "enabled (Some pol)" for p pol
    using ag aggregation_decided [OF assms(1) that(3), of aggregated "records_count s"] that(1,2) by simp
  ultimately show ?thesis using assms(3) by (auto simp: screened_def split: option.split)
qed

lemma pool_delivers:
  assumes "json_parser (ne_parse env)" "execute_in_worker_pool env logic name s = Some (Delivered out w)"
  shows "run_pool env (local_task s logic (policy_of name s)) = Some (Inr w) \<and>
     out = sanitize_output DEFAULT_CONFIG (wr_output w) \<and> screened env s name (policy_of name s) out out \<and>
     (policy_proof_mode (policy_of name s) = PROOF_MODE_ZK_BLOCKING \<longrightarrow> groth_type w)"
  using assms egress_check_clean [OF assms(1)]
  by (auto simp: execute_in_worker_pool_def Let_def split: option.splits sum.splits if_splits)

lemma preflight_frame:
  "preflight env name logic policy c s = (s', e) \<Longrightarrow> \<exists>b. s' = s\<lparr>ln_budget := b\<rparr>"
  by (auto simp: preflight_def split: prod.splits)

lemma policy_of_budget [simp]: "policy_of name (s\<lparr>ln_budget := b\<rparr>) = policy_of name s"
  "records_count (s\<lparr>ln_budget := b\<rparr>) = records_count s" "policy_of name (s\<lparr>ln_windows := w\<rparr>) = policy_of name s"
  "records_count (s\<lparr>ln_windows := w\<rparr>) = records_count s" "policy_of name (s\<lparr>ln_auth := a\<rparr>) = policy_of name s"
  "records_count (s\<lparr>ln_auth := a\<rparr>) = records_count s"
  by (simp_all add: policy_of_def records_count_def)

lemma checked_run_delivers:
  assumes "json_parser (ne_parse env)" "checked_run env name logic policy c s = Some (s', Pool_Answer (Delivered out w))"
  shows "preflight env name logic policy c s = (s', None) \<and>
    run_pool env (local_task s' logic (policy_of name s')) = Some (Inr w) \<and>
    out = sanitize_output DEFAULT_CONFIG (wr_output w) \<and> screened env s' name (policy_of name s') out out"
  using assms pool_delivers [OF assms(1)] by (auto simp: checked_run_def split: prod.splits option.splits)

lemma middleware_delivers:
  assumes "json_parser (ne_parse env)" "logic_middleware env now name policy args s = Some (s', Pool_Answer (Delivered out w))"
  shows "\<exists>logic u. checked_run env name logic policy ''mcp-client'' s = Some (u, Pool_Answer (Delivered out w)) \<and>
     ln_budget s' = ln_budget u \<and> ln_tools s' = ln_tools u \<and> ln_records s' = ln_records u"
  using assms(2)
  by (auto simp: logic_middleware_def middleware_run_def Let_def
      split: if_splits option.splits list.splits prod.splits call_outcome.splits pool_result.splits) blast+

lemma screened_cong: "ln_records s = ln_records u \<Longrightarrow> screened env s = screened env u"
proof -
  assume "ln_records s = ln_records u"
  then have "records_count s = records_count u" by (simp add: records_count_def)
  then show ?thesis by (intro ext) (simp only: screened_def)
qed

lemma local_task_frame [simp]:
  "local_task (s\<lparr>ln_budget := b\<rparr>) logic p = local_task s logic p"
  "local_task (s\<lparr>ln_windows := w\<rparr>) logic p = local_task s logic p"
  by (simp_all add: local_task_def guest_of_def signing_key_def split: option.split)

lemma screened_frame [simp]:
  "screened env (s\<lparr>ln_budget := b\<rparr>) = screened env s" "screened env (s\<lparr>ln_windows := w\<rparr>) = screened env s"
  by (auto intro: screened_cong)

lemma checked_run_delivers_at:
  assumes "json_parser (ne_parse env)" "checked_run env name logic policy c (s\<lparr>ln_windows := win\<rparr>) = Some (s', Pool_Answer (Delivered out w))"
  shows "(\<exists>u. preflight env name logic policy c (s\<lparr>ln_windows := win\<rparr>) = (u, None)) \<and>
    run_pool env (local_task s logic (policy_of name s)) = Some (Inr w) \<and>
    out = sanitize_output DEFAULT_CONFIG (wr_output w) \<and> screened env s name (policy_of name s) out out"
  using checked_run_delivers [OF assms] preflight_frame [of env name logic policy c "s\<lparr>ln_windows := win\<rparr>" s' None] by auto

lemma call_tool_cases:
  assumes "call_tool env now name args c s = Some (s', Pool_Answer r)"
  obtains entry win parsed where "map_of (ln_tools s) name = Some entry"
    "admit_call (ln_limits s) (ln_windows s) name now = (None, win)"
    "te_schema entry (if truthy args then args else JObj None []) = Some parsed"
    "(\<exists>payload logic. opt_prop (with_bypass_flag args parsed) ''payload'' = JStr payload \<and> extract_logic payload = Some logic \<and>
        logic \<noteq> [] \<and> checked_run env name logic (te_policy entry) c (s\<lparr>ln_windows := win\<rparr>) = Some (s', Pool_Answer r)) \<or>
     logic_middleware env now name (te_policy entry) (with_bypass_flag args parsed) (s\<lparr>ln_windows := win\<rparr>) = Some (s', Pool_Answer r)"
proof -
  from assms obtain entry win parsed where a: "map_of (ln_tools s) name = Some entry"
    "admit_call (ln_limits s) (ln_windows s) name now = (None, win)"
    "te_schema entry (if truthy args then args else JObj None []) = Some parsed"
    by (auto simp: call_tool_def Let_def split: option.splits prod.splits)
  have handler: "logic_middleware env now name (te_policy entry) q u = Some (s', Pool_Answer r)"
    if "call_handler env now name entry q u = Some (s', Pool_Answer r)" for q u
    using that by (auto simp: call_handler_def split: if_splits sum.splits)
  show ?thesis
    by (rule that [OF a])
      (use assms a handler in \<open>auto simp: call_tool_def Let_def split: jval.splits option.splits list.splits\<close>)
qed


section \<open>gRPC\<close>

lemma auth_gate_sessions: "auth_gate jwt url sha io hdr a = (a', r) \<Longrightarrow> as_sessions a' = as_sessions a"
proof -
  assume "auth_gate jwt url sha io hdr a = (a', r)"
  then have "a' = a \<or> a' = load_revocation_list io a" using gate_fst [of jwt url sha io hdr a] by auto
  moreover have "as_sessions (load_revocation_list io a) = as_sessions a"
    by (auto simp: load_revocation_list_def split: option.splits jval.splits)
  ultimately show ?thesis by auto
qed

text \<open>What the handlers below never touch.\<close>

definition same_node :: "liop_node \<Rightarrow> liop_node \<Rightarrow> bool" where
  "same_node s u \<longleftrightarrow> ln_tools u = ln_tools s \<and> ln_records u = ln_records s \<and> ln_guestImageId u = ln_guestImageId s \<and>
     ln_signingKey u = ln_signingKey s \<and> ln_limits u = ln_limits s"

lemma same_node_trans: "same_node s u \<Longrightarrow> same_node u v \<Longrightarrow> same_node s v"
  by (simp add: same_node_def)

lemma same_node_updates [simp]:
  "same_node s s" "same_node s (s\<lparr>ln_budget := b\<rparr>)" "same_node s (s\<lparr>ln_windows := w\<rparr>)" "same_node s (s\<lparr>ln_auth := a\<rparr>)"
  "same_node s (s\<lparr>ln_audit := l\<rparr>)" "same_node s (s\<lparr>ln_stats := st, ln_cache := ca\<rparr>)" "same_node s (s\<lparr>ln_stats := st\<rparr>)"
  by (simp_all add: same_node_def)

lemma same_node_policy: "same_node s u \<Longrightarrow> policy_of name u = policy_of name s \<and> records_count u = records_count s"
  by (simp add: same_node_def policy_of_def records_count_def)

lemma checked_run_frame:
  "checked_run env name logic policy c s = Some (s', r) \<Longrightarrow>
   same_node s s' \<and> ln_audit s' = ln_audit s \<and> ln_auth s' = ln_auth s \<and> ln_stats s' = ln_stats s \<and> ln_cache s' = ln_cache s"
  using preflight_frame [of env name logic policy c s]
  by (auto simp: checked_run_def split: prod.splits option.splits)

lemma middleware_frame:
  "logic_middleware env now name policy args s = Some (s', r) \<Longrightarrow>
   same_node s s' \<and> ln_audit s' = ln_audit s \<and> ln_auth s' = ln_auth s"
proof -
  have run: "same_node s s' \<and> ln_audit s' = ln_audit s \<and> ln_auth s' = ln_auth s"
    if "middleware_run env now name policy hash logic s = Some (s', r)" for hash logic
  proof -
    from that obtain u q where "checked_run env name logic policy ''mcp-client'' s = Some (u, q)"
      "s' = u\<lparr>ln_stats := Some (0, now), ln_cache := AList.update hash now (ln_cache u)\<rparr> \<or> s' = note_failure now u"
      by (auto simp: middleware_run_def split: option.splits prod.splits call_outcome.splits pool_result.splits)
    then show ?thesis using checked_run_frame same_node_trans by (fastforce simp: note_failure_def)
  qed
  assume "logic_middleware env now name policy args s = Some (s', r)"
  then show ?thesis
    using run checked_run_frame
    by (auto simp: logic_middleware_def note_failure_def Let_def split: if_splits option.splits list.splits)
qed

lemma call_tool_frame:
  "call_tool env now name args c s = Some (s', r) \<Longrightarrow>
   same_node s s' \<and> ln_audit s' = ln_audit s \<and> ln_auth s' = ln_auth s"
proof -
  assume call: "call_tool env now name args c s = Some (s', r)"
  have handler: "same_node u u' \<and> ln_audit u' = ln_audit u \<and> ln_auth u' = ln_auth u"
    if "call_handler env now name entry q u = Some (u', r)" for entry q u u'
    using that middleware_frame by (auto simp: call_handler_def split: if_splits)
  have win: "same_node s v" if "same_node (s\<lparr>ln_windows := w\<rparr>) v" for w v
    using that by (simp add: same_node_def)
  show ?thesis
    using call handler win checked_run_frame
    by (fastforce simp: call_tool_def Let_def split: option.splits prod.splits jval.splits list.splits)
qed

lemma proxied_state: "proxied env out (u, q) = Some (s', r) \<Longrightarrow> s' = u"
  by (cases q) (auto simp: proxied_def)

lemma transform_state:
  assumes "transform_output env now agent out s = Some (s', r)"
  shows "s' = s \<or> (\<exists>name args c q. call_tool env now name args c s = Some (s', q))"
proof -
  have "s' = s \<or> (\<exists>name args c. Option.bind (call_tool env now name args c s) (proxied env out) = Some (s', r))"
    using assms unfolding transform_output_def Let_def
    by (cases out) (auto split: option.splits prod.splits jval.splits if_splits)
  then show ?thesis
    using proxied_state by (fastforce simp: Option.bind_eq_Some_conv)
qed

lemma transform_frame:
  "transform_output env now agent out s = Some (s', r) \<Longrightarrow>
   same_node s s' \<and> ln_audit s' = ln_audit s \<and> ln_auth s' = ln_auth s"
  using transform_state call_tool_frame same_node_updates(1) by metis

lemma remote_task_frame: "same_node s u \<Longrightarrow> remote_task u req ses p = remote_task s req ses p"
  by (auto simp: same_node_def remote_task_def guest_of_def signing_key_def split: option.split)

lemma screened_same: "same_node s u \<Longrightarrow> screened env u = screened env s"
  by (rule screened_cong) (simp add: same_node_def)

definition session_policy :: "liop_node \<Rightarrow> grpc_session \<Rightarrow> tool_policy option" where
  "session_policy s ses = (if gs_capability_hash ses = [] then None else policy_of (gs_capability_hash ses) s)"

lemma same_node_session: "same_node s u \<Longrightarrow> session_policy u ses = session_policy s ses"
  by (simp add: session_policy_def same_node_policy)

text \<open>The run of a released response, step by step.\<close>

definition released ::
    "node_env \<Rightarrow> time_ms \<Rightarrow> audit_fresh \<Rightarrow> logic_request \<Rightarrow> grpc_session \<Rightarrow> liop_node \<Rightarrow> liop_node \<Rightarrow> logic_response
      \<Rightarrow> worker_result \<Rightarrow> jval \<Rightarrow> jval \<Rightarrow> bool" where
  "released env now fr req ses s s' resp w v inner \<longleftrightarrow>
     (let policy = session_policy s ses; evidence = lp_semantic_evidence resp in
      (\<exists>logic client u. preflight env (or_name (gs_capability_hash ses) ''unknown_tool'') logic policy client s = (u, None)) \<and>
      run_pool env (remote_task s req ses policy) = Some (Inr w) \<and>
      (\<exists>u u'. same_node s u \<and> ln_audit u' = ln_audit s \<and> ln_auth u' = ln_auth s \<and>
         transform_output env now (gs_agent_did ses) (sanitize_output DEFAULT_CONFIG (wr_output w)) u = Some (u', Plain evidence v) \<and>
         s' = audit_run env fr ses (wr_fuel w) evidence (case wr_zk_receipt w of Some r \<Rightarrow> r | None \<Rightarrow> []) SUCCESS u' \<and>
         resp = success_response env w policy u' evidence) \<and>
      unwrap_for_aggregation_policy_scan (ne_parse env) (weight v) v = Some inner \<and>
      screened env s (or_name (gs_capability_hash ses) ''unknown_tool'') policy v inner)"

lemma finish_run_released:
  assumes "finish_run env fr ses policy w evidence v s = Some (s', Response resp)" "\<not> lp_is_error resp"
  shows "\<exists>inner. unwrap_for_aggregation_policy_scan (ne_parse env) (weight v) v = Some inner \<and>
     egress_check env s policy v inner = Some None \<and> lp_semantic_evidence resp = evidence \<and>
     resp = success_response env w policy s evidence \<and>
     s' = audit_run env fr ses (wr_fuel w) evidence (case wr_zk_receipt w of Some r \<Rightarrow> r | None \<Rightarrow> []) SUCCESS s"
proof -
  obtain inner where i: "unwrap_for_aggregation_policy_scan (ne_parse env) (weight v) v = Some inner"
    using assms(1) by (cases "unwrap_for_aggregation_policy_scan (ne_parse env) (weight v) v") (simp_all add: finish_run_def)
  obtain blocked where b: "egress_check env s policy v inner = Some blocked"
    using assms(1) by (cases "egress_check env s policy v inner") (simp_all add: finish_run_def i)
  have "blocked = None"
    using assms by (cases blocked) (auto simp: finish_run_def i b Let_def)
  then have "s' = audit_run env fr ses (wr_fuel w) evidence (case wr_zk_receipt w of Some r \<Rightarrow> r | None \<Rightarrow> []) SUCCESS s"
    "resp = (success_response env w policy s evidence)\<lparr>lp_is_error := False\<rparr>"
    using assms(1) by (simp_all add: finish_run_def i b Let_def)
  moreover have "(success_response env w policy s evidence)\<lparr>lp_is_error := False\<rparr> = success_response env w policy s evidence"
    "lp_semantic_evidence (success_response env w policy s evidence) = evidence"
    by (simp_all add: success_response_def)
  ultimately show ?thesis using i b \<open>blocked = None\<close> by simp
qed

lemma error_response_error: "error_response msg ty = Response resp \<Longrightarrow> lp_is_error resp"
  by (auto simp: error_response_def)

lemma deliver_run_released:
  assumes "json_parser (ne_parse env)" "deliver_run env now fr ses policy mode w s = Some (s', Response resp)" "\<not> lp_is_error resp"
  shows "\<exists>u v inner. transform_output env now (gs_agent_did ses) (sanitize_output DEFAULT_CONFIG (wr_output w)) s =
        Some (u, Plain (lp_semantic_evidence resp) v) \<and>
     unwrap_for_aggregation_policy_scan (ne_parse env) (weight v) v = Some inner \<and>
     screened env u (or_name (gs_capability_hash ses) ''unknown_tool'') policy v inner \<and>
     resp = success_response env w policy u (lp_semantic_evidence resp) \<and>
     s' = audit_run env fr ses (wr_fuel w) (lp_semantic_evidence resp) (case wr_zk_receipt w of Some r \<Rightarrow> r | None \<Rightarrow> []) SUCCESS u"
proof -
  from assms(2,3) obtain u evidence v where
    tr: "transform_output env now (gs_agent_did ses) (sanitize_output DEFAULT_CONFIG (wr_output w)) s = Some (u, Plain evidence v)"
    and ok: "validate_output_policy (ne_parse env) (records_count u) (or_name (gs_capability_hash ses) ''unknown_tool'') v (map_option tp_base policy) = Some None"
    and fin: "finish_run env fr ses policy w evidence v u = Some (s', Response resp)"
    by (auto simp: deliver_run_def dest: error_response_error
        split: if_splits option.splits prod.splits proxy_result.splits)
  from finish_run_released [OF fin assms(3)] egress_check_clean [OF assms(1) _ ok] tr show ?thesis by fastforce
qed

lemma run_logic_released:
  assumes "json_parser (ne_parse env)" "run_logic env now fr req ses s = Some (s', Response resp)" "\<not> lp_is_error resp"
  shows "\<exists>w v inner. released env now fr req ses s s' resp w v inner"
proof -
  let ?policy = "session_policy s ses" and ?name = "or_name (gs_capability_hash ses) ''unknown_tool''"
  from assms(2,3) obtain logic client u w where pre: "preflight env ?name logic ?policy client s = (u, None)"
    and pool: "run_pool env (remote_task u req ses ?policy) = Some (Inr w)"
    and del: "deliver_run env now fr ses ?policy (requested_mode (lr_requested_proof_mode req) ?policy) w u = Some (s', Response resp)"
    by (auto simp: run_logic_def Let_def session_policy_def [symmetric] dest: error_response_error
        split: option.splits prod.splits sum.splits)
  obtain b where u: "u = s\<lparr>ln_budget := b\<rparr>" using preflight_frame [OF pre] by blast
  then have su: "same_node s u" "ln_audit u = ln_audit s" "ln_auth u = ln_auth s" by simp_all
  obtain u' v inner where tr: "transform_output env now (gs_agent_did ses) (sanitize_output DEFAULT_CONFIG (wr_output w)) u =
        Some (u', Plain (lp_semantic_evidence resp) v)"
    and rest: "unwrap_for_aggregation_policy_scan (ne_parse env) (weight v) v = Some inner"
      "screened env u' ?name ?policy v inner" "resp = success_response env w ?policy u' (lp_semantic_evidence resp)"
      "s' = audit_run env fr ses (wr_fuel w) (lp_semantic_evidence resp) (case wr_zk_receipt w of Some r \<Rightarrow> r | None \<Rightarrow> []) SUCCESS u'"
    using deliver_run_released [OF assms(1) del assms(3)] by blast
  have same: "same_node s u'" "ln_audit u' = ln_audit s" "ln_auth u' = ln_auth s"
    using transform_frame [OF tr] su same_node_trans by auto
  have "released env now fr req ses s s' resp w v inner"
    unfolding released_def Let_def
    using pre pool remote_task_frame [OF su(1)] tr rest same su screened_same [OF same(1)] by fastforce
  then show ?thesis by blast
qed

lemma proceed_released:
  assumes "json_parser (ne_parse env)" "proceed env io fr req s = Some (s', Response resp)" "\<not> lp_is_error resp"
  shows "\<exists>ses a w v inner. map_of (as_sessions (ln_auth s)) (lr_session_token req) = Some ses \<and>
     (gs_createdAt ses = 0 \<or> io_now io - gs_createdAt ses \<le> MAX_SESSION_KEY_LIFETIME_MS) \<and>
     (\<forall>h. gs_tokenHash ses = Some h \<and> h \<noteq> [] \<longrightarrow> h \<notin> set (as_revoked a)) \<and>
     released env (io_now io) fr req ses (s\<lparr>ln_auth := a\<rparr>) s' resp w v inner"
proof -
  from assms(2) obtain ses where ses: "map_of (as_sessions (ln_auth s)) (lr_session_token req) = Some ses"
    "gs_createdAt ses = 0 \<or> io_now io - gs_createdAt ses \<le> MAX_SESSION_KEY_LIFETIME_MS"
    by (auto simp: proceed_def split: option.splits if_splits)
  let ?a = "if gs_tokenHash ses = None \<or> gs_tokenHash ses = Some [] then ln_auth s else load_revocation_list io (ln_auth s)"
  have "run_logic env (io_now io) fr req ses (s\<lparr>ln_auth := ?a\<rparr>) = Some (s', Response resp) \<and>
      (\<forall>h. gs_tokenHash ses = Some h \<and> h \<noteq> [] \<longrightarrow> h \<notin> set (as_revoked ?a))"
    using assms(2) ses by (auto simp: proceed_def Let_def split: option.splits if_splits list.splits)
  then show ?thesis using ses run_logic_released [OF assms(1) _ assms(3)] by blast
qed

lemma execute_logic_released:
  assumes "json_parser (ne_parse env)" "execute_logic env io fr authorization req s = Some (s', Response resp)"
    "\<not> lp_is_error resp"
  shows "\<exists>ses a h w v inner.
     auth_gate (ne_jwt env) (ne_url env) (ne_sha env) io authorization (ln_auth s) = (a, Inr h) \<and>
     map_of (as_sessions (ln_auth s)) (lr_session_token req) = Some ses \<and>
     (gs_createdAt ses = 0 \<or> io_now io - gs_createdAt ses \<le> 3600000) \<and>
     (\<exists>a'. (\<forall>k. gs_tokenHash ses = Some k \<and> k \<noteq> [] \<longrightarrow> k \<notin> set (as_revoked a')) \<and>
        released env (io_now io) fr req ses (s\<lparr>ln_auth := a'\<rparr>) s' resp w v inner)"
proof -
  from assms(2) obtain a h where gate: "auth_gate (ne_jwt env) (ne_url env) (ne_sha env) io authorization (ln_auth s) = (a, Inr h)"
    and go: "proceed env io fr req (s\<lparr>ln_auth := a\<rparr>) = Some (s', Response resp)"
    by (auto simp: execute_logic_def split: prod.splits sum.splits)
  have "as_sessions (ln_auth (s\<lparr>ln_auth := a\<rparr>)) = as_sessions (ln_auth s)" using auth_gate_sessions [OF gate] by simp
  with proceed_released [OF assms(1) go assms(3)] gate show ?thesis
    by (simp add: MAX_SESSION_KEY_LIFETIME_MS_def) blast
qed

text \<open>
  C3. Nothing leaves \<open>executeLogic\<close> unscreened. A response that is not an error belongs to a session that passed the
  token gate, is at most an hour old and whose token is not revoked. Its program passed the preflight of the
  negotiated tool, the worker ran it, and the value behind the evidence contains nothing the PII
  scanner finds and satisfies the tool's schema and aggregation policy.
\<close>
theorem released_evidence_screened:
  assumes "json_parser (ne_parse env)" "execute_logic env io fr authorization req s = Some (s', Response resp)"
    "\<not> lp_is_error resp"
  shows "\<exists>ses a h w v inner.
     auth_gate (ne_jwt env) (ne_url env) (ne_sha env) io authorization (ln_auth s) = (a, Inr h) \<and>
     map_of (as_sessions (ln_auth s)) (lr_session_token req) = Some ses \<and>
     (gs_createdAt ses = 0 \<or> io_now io - gs_createdAt ses \<le> 3600000) \<and>
     (\<exists>a'. (\<forall>k. gs_tokenHash ses = Some k \<and> k \<noteq> [] \<longrightarrow> k \<notin> set (as_revoked a')) \<and>
        released env (io_now io) fr req ses (s\<lparr>ln_auth := a'\<rparr>) s' resp w v inner)"
  using assms by (rule execute_logic_released)

section \<open>The audit trail\<close>

definition run_statuses :: "audit_status set" where
  "run_statuses = {SUCCESS, BLOCKED_EGRESS, ERROR}"

lemma run_statuses [simp]: "SUCCESS \<in> run_statuses" "BLOCKED_EGRESS \<in> run_statuses" "ERROR \<in> run_statuses"
  by (simp_all add: run_statuses_def)

definition audited :: "node_env \<Rightarrow> audit_fresh \<Rightarrow> liop_node \<Rightarrow> liop_node \<Rightarrow> bool" where
  "audited env fr s s' \<longleftrightarrow>
     ln_audit s' = ln_audit s \<or>
     (\<exists>params. ap_status params \<in> run_statuses \<and>
        ln_audit s' = fst (record_execution (ne_sha env) fr params (ln_audit s)))"

lemma audited_run:
  assumes "ln_audit u = ln_audit s" "st \<in> run_statuses"
  shows "audited env fr s (audit_run env fr ses f e r st u)"
proof -
  obtain params where "ap_status params = st"
    "ln_audit (audit_run env fr ses f e r st u) = fst (record_execution (ne_sha env) fr params (ln_audit s))"
    by (simp add: audit_run_def assms(1)) (metis audit_params.select_convs(10))
  then show ?thesis using assms(2) by (auto simp: audited_def)
qed

lemma audited_same: "ln_audit u = ln_audit s \<Longrightarrow> audited env fr s u"
  by (simp add: audited_def)

lemma finish_run_audited:
  "finish_run env fr ses policy w evidence v s = Some (s', r) \<Longrightarrow>
   \<exists>e rc st. st \<in> run_statuses \<and> s' = audit_run env fr ses (wr_fuel w) e rc st s"
  by (cases "unwrap_for_aggregation_policy_scan (ne_parse env) (weight v) v";
      cases "egress_check env s policy v (the (unwrap_for_aggregation_policy_scan (ne_parse env) (weight v) v))")
    (auto simp: finish_run_def Let_def split: if_splits intro: run_statuses)

lemma deliver_run_audited:
  assumes "deliver_run env now fr ses policy mode w s = Some (s', r)"
  shows "audited env fr s s'"
proof (cases "mode = PROOF_MODE_ZK_BLOCKING \<and> \<not> groth_type w")
  case True
  then show ?thesis using assms by (simp add: deliver_run_def audited_same)
next
  case False
  then obtain u p where tr: "transform_output env now (gs_agent_did ses) (sanitize_output DEFAULT_CONFIG (wr_output w)) s = Some (u, p)"
    and "s' = u \<or> (\<exists>e v. finish_run env fr ses policy w e v u = Some (s', r))"
    using assms by (auto simp: deliver_run_def split: option.splits prod.splits proxy_result.splits) blast+
  moreover have "ln_audit u = ln_audit s" using transform_frame [OF tr] by simp
  ultimately show ?thesis using finish_run_audited audited_run audited_same by metis
qed

lemma run_logic_audited:
  assumes "run_logic env now fr req ses s = Some (s', r)"
  shows "audited env fr s s'"
proof -
  let ?policy = "session_policy s ses" and ?name = "or_name (gs_capability_hash ses) ''unknown_tool''"
  show ?thesis
  proof (cases "preflight_plaintext env req ses")
    case None
    then show ?thesis using assms by (simp add: run_logic_def Let_def audited_same)
  next
    case (Some payload)
    let ?logic = "case extract_logic payload of Some (c # cs) \<Rightarrow> c # cs | _ \<Rightarrow> trim payload"
    obtain u e where pre: "preflight env ?name ?logic ?policy (or_name (gs_agent_did ses) (lr_session_token req)) s = (u, e)"
      by fastforce
    then have u: "ln_audit u = ln_audit s" using preflight_frame by fastforce
    have "s' = u \<or> (\<exists>x. s' = audit_run env fr ses 0 x [] ERROR u) \<or>
        (\<exists>mode w. deliver_run env now fr ses ?policy mode w u = Some (s', r))"
      using assms Some pre
      by (auto simp: run_logic_def Let_def session_policy_def [symmetric] split: option.splits sum.splits)
    then show ?thesis
    proof (elim disjE exE)
      fix mode z assume "deliver_run env now fr ses ?policy mode z u = Some (s', r)"
      then show ?thesis using deliver_run_audited u by (metis audited_def)
    qed (use u audited_run audited_same in auto)
  qed
qed

lemma execute_logic_audited:
  assumes "execute_logic env io fr authorization req s = Some (s', r)"
  shows "audited env fr s s'"
proof -
  have go: "audited env fr u s'" if "proceed env io fr req u = Some (s', r)" for u
  proof -
    from that have "ln_audit s' = ln_audit u \<or> (\<exists>ses a. run_logic env (io_now io) fr req ses (u\<lparr>ln_auth := a\<rparr>) = Some (s', r)) \<or>
        (\<exists>ses. run_logic env (io_now io) fr req ses u = Some (s', r))"
      by (auto simp: proceed_def Let_def split: option.splits if_splits list.splits)
    then show ?thesis using run_logic_audited [of env "io_now io" fr req] audited_same [of s' u] by (fastforce simp: audited_def)
  qed
  from assms obtain a where "s' = s\<lparr>ln_auth := a\<rparr> \<or> proceed env io fr req (s\<lparr>ln_auth := a\<rparr>) = Some (s', r)"
    by (auto simp: execute_logic_def split: prod.splits sum.splits)
  then show ?thesis using go by (fastforce simp: audited_def)
qed

lemma audit_run_entry:
  "\<exists>e. al_entries (ln_audit (audit_run env fr ses f evidence rc st s)) = al_entries (ln_audit s) @ [e] \<and>
     ae_status e = st \<and> ae_outputHash e = hex_of (Rep_digest (ne_sha env (utf8 evidence)))"
  using hex_of_digest_nonempty [of "Rep_digest (ne_sha env (utf8 evidence))"]
  by (auto simp: audit_run_def record_execution_def Let_def or_else_def)


section \<open>Evidence and receipt\<close>

lemma math_round_of_int: "math_round (of_int k) = of_int k"
proof -
  have "\<lfloor>of_int k + 1 / 2 :: real\<rfloor> = k" by linarith
  then show ?thesis by (simp add: math_round_def)
qed

lemma sanitize_number_again: "sanitize_number m (sanitize_number m x) = sanitize_number m x"
proof -
  let ?f = "10 ^ sc_maxDecimalPlaces m :: real"
  let ?v = "if sc_clampNonNegative m \<and> x < 0 then 0 else x"
  define k where "k = \<lfloor>?v * ?f + 1 / 2\<rfloor>"
  have k: "math_round (?v * ?f) = of_int k" by (simp only: math_round_def k_def)
  have "0 \<le> k" if "sc_clampNonNegative m"
  proof -
    have "0 \<le> ?v * ?f" using that by simp
    then have "0 \<le> ?v * ?f + 1 / 2" by (rule add_nonneg_nonneg) simp
    then show ?thesis unfolding k_def zero_le_floor .
  qed
  then have "\<not> (sc_clampNonNegative m \<and> of_int k / ?f < 0)" by (auto simp: divide_less_0_iff)
  then show ?thesis
    using k math_round_of_int [of k] by (auto simp: sanitize_number_def Let_def)
qed

text \<open>Sanitizing a sanitized value without shared objects changes nothing.\<close>

lemma sanitize_again:
  "ids (fst (sanitize_walk m vis v)) = [] \<Longrightarrow>
     sanitize_walk m vis' (fst (sanitize_walk m vis v)) = (fst (sanitize_walk m vis v), vis')"
  "concat (map ids (fst (sanitize_items m vis xs))) = [] \<Longrightarrow>
     sanitize_items m vis' (fst (sanitize_items m vis xs)) = (fst (sanitize_items m vis xs), vis')"
  "concat (map (\<lambda>p. ids (snd p)) (fst (sanitize_fields m vis fs))) = [] \<Longrightarrow>
     sanitize_fields m vis' (fst (sanitize_fields m vis fs)) = (fst (sanitize_fields m vis fs), vis')"
proof (induction m vis v and m vis xs and m vis fs arbitrary: vis' and vis' and vis'
    rule: sanitize_walk_sanitize_items_sanitize_fields.induct)
  case (2 m vis i xs)
  show ?case
  proof (cases "visited i vis")
    case True
    then show ?thesis using 2 by (auto simp: visited_def split: option.splits)
  next
    case False
    then have "concat (map ids (fst (sanitize_items m (visit i vis) xs))) = []"
      using 2 by (auto simp: case_prod_beta Let_def)
    from "2.IH" [OF False this, of vis'] show ?thesis using False
      by (simp add: case_prod_beta Let_def visited_def visit_def)
  qed
next
  case (3 m vis i fs)
  show ?case
  proof (cases "visited i vis")
    case True
    then show ?thesis using 3 by (auto simp: visited_def split: option.splits)
  next
    case False
    then have "concat (map (\<lambda>p. ids (snd p)) (fst (sanitize_fields m (visit i vis) fs))) = []"
      using 3 by (auto simp: case_prod_beta Let_def)
    from "3.IH" [OF False this, of vis'] show ?thesis using False
      by (simp add: case_prod_beta Let_def visited_def visit_def)
  qed
next
  case (6 m vis x xs)
  obtain y s1 where y: "sanitize_walk m vis x = (y, s1)" by fastforce
  obtain ys s2 where ys: "sanitize_items m s1 xs = (ys, s2)" by fastforce
  show ?case using 6(1) [of vis'] 6(2) [OF y [symmetric] refl, of vis'] 6(3) by (simp add: y ys)
next
  case (8 m vis k v fs)
  obtain y s1 where y: "sanitize_walk m vis v = (y, s1)" by fastforce
  obtain ys s2 where ys: "sanitize_fields m s1 fs = (ys, s2)" by fastforce
  show ?case
    using 8(1) [of vis'] 8(2) [OF y [symmetric] refl, of vis'] 8(3)
    by (cases "k = ''__proto__''") (simp_all add: y ys)
qed (simp_all add: sanitize_number_again)

text \<open>An output that prints as JSON reads back: not undefined, null, NaN or infinite.\<close>

fun printable :: "jval \<Rightarrow> bool" where
  "printable JUndef = False"
| "printable JNull = False"
| "printable (JNum (Fin x)) = True"
| "printable (JNum n) = False"
| "printable v = True"

definition prints_json :: "node_env \<Rightarrow> bool" where
  "prints_json env \<longleftrightarrow>
     (\<forall>v. printable v \<and> (\<nexists>t. v = JStr t) \<longrightarrow>
        (\<exists>d. ne_parse env (ne_stringify env v) = Some d \<and> d \<noteq> JUndef \<and> d \<noteq> JNull))"

definition names_proxy_tool :: "node_env \<Rightarrow> jval \<Rightarrow> bool" where
  "names_proxy_tool env v \<longleftrightarrow>
     (case ne_parse env (output_text (wh_env (ne_host env)) v) of
        None \<Rightarrow> False | Some d \<Rightarrow> truthy (opt_prop d ''__liop_proxy_tool''))"

lemma transform_plain:
  assumes "prints_json env" "printable out" "\<not> names_proxy_tool env out"
  shows "transform_output env now agent out s = Some (s, Plain (output_text (wh_env (ne_host env)) out) out)"
proof (cases "\<exists>t. out = JStr t")
  case True
  then obtain t where t: "out = JStr t" by blast
  have tx: "output_text (wh_env (ne_host env)) out = t" by (simp add: t output_text_def)
  show ?thesis
  proof (cases "Option.bind (ne_parse env t) (\<lambda>d. map_option (Pair d) (js_prop d ''__liop_proxy_tool''))")
    case None
    then show ?thesis unfolding tx by (simp add: transform_output_def t string_of_def)
  next
    case (Some q)
    then obtain d x where d: "ne_parse env t = Some d" "js_prop d ''__liop_proxy_tool'' = Some x" "q = (d, x)"
      by (auto simp: Option.bind_eq_Some_conv)
    have "\<not> truthy x" using assms(3) d by (simp add: names_proxy_tool_def tx opt_prop_def)
    with d show ?thesis unfolding tx by (simp add: transform_output_def t)
  qed
next
  case False
  let ?t = "ne_stringify env out"
  have tx: "output_text (wh_env (ne_host env)) out = ?t"
    "(case out of JStr t \<Rightarrow> Some t | JUndef \<Rightarrow> None | v \<Rightarrow> Some (ne_stringify env v)) = Some ?t"
    using False assms(2) by (cases out; simp add: output_text_def)+
  obtain d where d: "ne_parse env ?t = Some d" "d \<noteq> JUndef" "d \<noteq> JNull"
    using assms(1,2) False by (auto simp: prints_json_def)
  then obtain x where x: "js_prop d ''__liop_proxy_tool'' = Some x" by (cases d) auto
  have "\<not> truthy x" using assms(3) x d(1) by (simp add: names_proxy_tool_def tx opt_prop_def)
  then show ?thesis unfolding transform_output_def tx Let_def by (simp add: d(1) x)
qed

lemma process_sealed:
  assumes "process_logic_execution h d = Some (Inr w)" "\<not> wd_isWarmup d"
  shows "\<exists>img noisy raw. wr_image_id w = hex_of img \<and> wr_output w = sanitize_output DEFAULT_CONFIG noisy \<and>
     wr_zk_receipt w = Some (cd_toBase64 (wh_codec h) raw) \<and>
     (if verdict_of w = ''hmac'' then \<exists>rest. raw = RECEIPT_VERSION_V1 # rest
      else \<exists>ty rest. raw = RECEIPT_VERSION_V2 # ty # rest \<and> wr_proof_type w = Some ty)"
proof -
  from assms obtain ins secret payload noisy fuel where
    "commit_output h d ins secret (derive_logic_image_digest (wh_env h) (logic_bytes payload)) (sanitize_output DEFAULT_CONFIG noisy) fuel = Inr w"
    by (elim process_cases)
  then consider mode where "commit_v2 h d mode ins (derive_logic_image_digest (wh_env h) (logic_bytes payload)) (sanitize_output DEFAULT_CONFIG noisy) fuel = Inr w"
    | "commit_v1 h d secret (derive_logic_image_digest (wh_env h) (logic_bytes payload)) (sanitize_output DEFAULT_CONFIG noisy) fuel = Inr w"
    by (auto simp: commit_output_def split: option.splits if_splits)
  then show ?thesis
  proof cases
    case 1
    then obtain journal pf raw ty where seal: "seal_receipt h (wd_pqcSigningKey d) journal pf = Inr (raw, ty)"
      and w: "wr_zk_receipt w = Some (cd_toBase64 (wh_codec h) raw)" "wr_proof_type w = Some ty"
        "wr_image_id w = hex_of (derive_logic_image_digest (wh_env h) (logic_bytes payload))"
        "wr_output w = sanitize_output DEFAULT_CONFIG noisy"
      by (auto simp: commit_v2_def Let_def)
    have "(\<exists>rest. raw = RECEIPT_VERSION_V2 # ty # rest) \<and> (ty = GROTH16 \<or> ty = GROTH16_PQC_HYBRID)"
      using seal by (auto simp: seal_receipt_def encode_v2_def encode_hybrid_v2_def Let_def split: option.splits)
    then show ?thesis using w by (auto simp: verdict_of_def)
  next
    case 2
    then obtain raw rest where "raw = RECEIPT_VERSION_V1 # rest" "wr_zk_receipt w = Some (cd_toBase64 (wh_codec h) raw)"
      "wr_proof_type w = Some HMAC_LEGACY" "wr_image_id w = hex_of (derive_logic_image_digest (wh_env h) (logic_bytes payload))"
      "wr_output w = sanitize_output DEFAULT_CONFIG noisy"
      by (auto simp: commit_v1_def encode_v1_def Let_def)
    then show ?thesis by (auto simp: verdict_of_def receipt_consts)
  qed
qed

lemma run_pool_process: "run_pool env d = Some (Inr w) \<Longrightarrow> process_logic_execution (ne_host env) d = Some (Inr w)"
proof -
  assume "run_pool env d = Some (Inr w)"
  then obtain z where "process_logic_execution (ne_host env) d = Some z"
    "(case z of Inl e \<Rightarrow> Inl (Worker_Raised e) | Inr w \<Rightarrow> Inr w) = (Inr w :: pool_error + worker_result)"
    by (auto simp: run_pool_def split: option.splits)
  then show ?thesis by (cases z) auto
qed

text \<open>Documented conversions: hexadecimal text of bytes reads back, and the empty text holds no bytes.\<close>

definition codec_faithful :: "worker_host \<Rightarrow> bool" where
  "codec_faithful h \<longleftrightarrow> (\<forall>b. ve_fromHex (wh_env h) (hex_of b) = b) \<and> cd_fromBase64 (wh_codec h) [] = []"

text \<open>An output whose evidence is its own text: printable, without shared objects, and not a request to a proxied tool.\<close>

definition plain_output :: "node_env \<Rightarrow> jval \<Rightarrow> bool" where
  "plain_output env v \<longleftrightarrow> ids v = [] \<and> printable v \<and> \<not> names_proxy_tool env v"

lemma released_receipt:
  assumes "host_faithful (ne_host env)" "codec_faithful (ne_host env)" "prints_json env"
    "released env now fr req ses s s' resp w v inner" "plain_output env (wr_output w)"
  shows "lp_semantic_evidence resp = output_text (wh_env (ne_host env)) (wr_output w) \<and>
     hex_of (lp_cryptographic_proof resp) = wr_image_id w \<and>
     Some (lp_zk_receipt resp) = map_option (cd_fromBase64 (wh_codec (ne_host env))) (wr_zk_receipt w) \<and>
     (if verdict_of w = ''hmac'' then \<exists>rest. lp_zk_receipt resp = RECEIPT_VERSION_V1 # rest
      else \<exists>ty rest. lp_zk_receipt resp = RECEIPT_VERSION_V2 # ty # rest \<and> wr_proof_type w = Some ty)"
proof -
  let ?policy = "session_policy s ses"
  from assms(4) obtain u u' where pool: "run_pool env (remote_task s req ses ?policy) = Some (Inr w)"
    and tr: "transform_output env now (gs_agent_did ses) (sanitize_output DEFAULT_CONFIG (wr_output w)) u =
      Some (u', Plain (lp_semantic_evidence resp) v)"
    and resp: "resp = success_response env w ?policy u' (lp_semantic_evidence resp)"
    by (auto simp: released_def Let_def)
  obtain img noisy raw where w: "wr_image_id w = hex_of img" "wr_output w = sanitize_output DEFAULT_CONFIG noisy"
    "wr_zk_receipt w = Some (cd_toBase64 (wh_codec (ne_host env)) raw)"
    "if verdict_of w = ''hmac'' then \<exists>rest. raw = RECEIPT_VERSION_V1 # rest
      else \<exists>ty rest. raw = RECEIPT_VERSION_V2 # ty # rest \<and> wr_proof_type w = Some ty"
    using process_sealed [OF run_pool_process [OF pool]] by (auto simp: remote_task_def)
  have "sanitize_output DEFAULT_CONFIG (wr_output w) = wr_output w"
    using sanitize_again(1) [of DEFAULT_CONFIG "{}" noisy "{}"] assms(5)
    by (simp add: w(2) sanitize_output_def plain_output_def)
  then have "lp_semantic_evidence resp = output_text (wh_env (ne_host env)) (wr_output w)"
    using tr transform_plain [OF assms(3), of "wr_output w" now "gs_agent_did ses" u] assms(5) by (simp add: plain_output_def)
  moreover have same: "cd_fromBase64 (wh_codec (ne_host env)) (cd_toBase64 (wh_codec (ne_host env)) raw) = raw"
    using assms(1) by (simp add: host_faithful_def)
  then have raw: "lp_zk_receipt resp = raw"
    using assms(2) w(3) by (subst resp) (cases "cd_toBase64 (wh_codec (ne_host env)) raw"; simp add: success_response_def codec_faithful_def)
  moreover have "lp_cryptographic_proof resp = img"
    using assms(2) w(1) by (subst resp) (simp add: success_response_def codec_faithful_def)
  ultimately show ?thesis using w(1,3,4) same by (auto split: if_splits)
qed

section \<open>Where the composition falls short\<close>

lemma policy_of_unregistered: "map_of (ln_tools s) name = None \<Longrightarrow> policy_of name s = None"
  by (simp add: policy_of_def)

lemma egress_unrestricted:
  assumes "scan (ne_parse env) (ne_scanner env) (weight v) {} v = Some (None, vis)"
  shows "egress_check env s None v inner = Some None"
  using assms by (simp add: egress_check_def violates_aggregation_first_policy_def)

text \<open>
  C16. No tool has to exist. Any capability can be negotiated, and \<open>executeLogic\<close> looks the policy up under it: a session
  for an unregistered name runs its program on all records, without noise, and its output meets no
  row-export check, no schema and no aggregation policy. Only the budget, the taint analysis
  and the PII scanner stand between the records and the response.
\<close>
theorem unregistered_capability_unrestricted:
  assumes "map_of (ln_tools s) (gs_capability_hash ses) = None" "requested_mode (lr_requested_proof_mode req) None \<noteq> PROOF_MODE_ZK_BLOCKING"
    "preflight_plaintext env req ses = Some (c # cs)" "extract_logic (c # cs) = None"
    "enforce_query_budget (ne_store env) (or_name (gs_agent_did ses) (lr_session_token req))
       (or_name (gs_capability_hash ses) ''unknown_tool'')
       (tv_queriedFields (taint_check env s (trim (c # cs)) (min_max_threshold None))) None (ln_budget s) = (b, None)"
    "tv_violation (taint_check env s (trim (c # cs)) (min_max_threshold None)) = None"
    "run_pool env (remote_task s req ses None) = Some (Inr w)" "prints_json env" "plain_output env out"
    "out = sanitize_output DEFAULT_CONFIG (wr_output w)"
    "scan (ne_parse env) (ne_scanner env) (weight out) {} out = Some (None, vis)"
    "unwrap_for_aggregation_policy_scan (ne_parse env) (weight out) out \<noteq> None"
  shows "\<exists>s' resp. run_logic env now fr req ses s = Some (s', Response resp) \<and> \<not> lp_is_error resp \<and>
     lp_semantic_evidence resp = output_text (wh_env (ne_host env)) out \<and>
     wd_records (remote_task s req ses None) = ln_records s \<and> wd_dpConfig (remote_task s req ses None) = None"
proof -
  let ?u = "s\<lparr>ln_budget := b\<rparr>" and ?name = "gs_capability_hash ses"
  have policy: "session_policy s ses = None" using assms(1) by (simp add: session_policy_def policy_of_unregistered)
  have task: "remote_task ?u req ses None = remote_task s req ses None" by (rule remote_task_frame) simp
  have pre: "preflight env (or_name ?name ''unknown_tool'') (trim (c # cs)) None (or_name (gs_agent_did ses) (lr_session_token req)) s = (?u, None)"
    using assms(5,6) by (simp add: preflight_def run_preflight_policy_def Let_def)
  have tr: "transform_output env now (gs_agent_did ses) out ?u = Some (?u, Plain (output_text (wh_env (ne_host env)) out) out)"
    using assms(8,9) by (intro transform_plain) (simp_all add: plain_output_def)
  obtain inner where inner: "unwrap_for_aggregation_policy_scan (ne_parse env) (weight out) out = Some inner" using assms(12) by blast
  have fin: "\<exists>s' resp. deliver_run env now fr ses None (requested_mode (lr_requested_proof_mode req) None) w ?u = Some (s', Response resp) \<and>
      \<not> lp_is_error resp \<and> lp_semantic_evidence resp = output_text (wh_env (ne_host env)) out"
    using assms(2) tr inner egress_unrestricted [OF assms(11)]
    by (simp add: deliver_run_def assms(10) [symmetric] validate_output_policy_def finish_run_def Let_def success_response_def)
  have "run_logic env now fr req ses s =
      deliver_run env now fr ses None (requested_mode (lr_requested_proof_mode req) None) w ?u"
    using assms(3,4,7) pre task by (simp add: run_logic_def Let_def session_policy_def [symmetric] policy)
  then show ?thesis using fin by (simp add: remote_task_def dp_config_of_def)
qed

text \<open>
  The requester can lower a required proof. For a tool whose policy demands one, a request for the optimistic mode
  wins; without a native prover the accepted run carries the 128 placeholder bytes, and the check that
  refuses a missing proof does not apply to it.
\<close>
theorem required_proof_downgraded:
  assumes "host_faithful (ne_host env)" "wh_prover (ne_host env) = None"
    "Option.bind policy tp_zkMode = Some ''required''" "lr_requested_proof_mode req = Some PROOF_MODE_ZK_OPTIMISTIC"
    "run_pool env (remote_task s req ses policy) = Some (Inr w)"
  shows "policy_proof_mode policy = PROOF_MODE_ZK_BLOCKING \<and>
     requested_mode (lr_requested_proof_mode req) policy \<noteq> PROOF_MODE_ZK_BLOCKING \<and> groth_type w \<and>
     (\<exists>receipt dr. wr_zk_receipt w = Some receipt \<and>
        decode (ne_sha env) (cd_fromBase64 (wh_codec (ne_host env)) receipt) = Inr dr \<and> dr_proof dr = replicate 128 0x42)"
proof -
  have mode: "requested_mode (lr_requested_proof_mode req) policy = PROOF_MODE_ZK_OPTIMISTIC"
    using assms(4) by (simp add: requested_mode_def PROOF_MODE_ZK_OPTIMISTIC_def PROOF_MODE_LEGACY_HMAC_def)
  have "\<not> wd_isWarmup (remote_task s req ses policy)" "wd_proofMode (remote_task s req ses policy) = Some PROOF_MODE_ZK_OPTIMISTIC"
    by (simp_all add: remote_task_def mode)
  note placeholder = optimistic_placeholder [OF run_pool_process [OF assms(5)] this(1) assms(1) this(2) assms(2)]
  have "groth_type w" using placeholder by (auto simp: verdict_of_def groth_type_def split: if_splits)
  then show ?thesis
    using placeholder mode assms(3) by (simp add: policy_proof_mode_def PROOF_MODE_ZK_OPTIMISTIC_def PROOF_MODE_ZK_BLOCKING_def)
qed

text \<open>
  The throttle does not see well-formed requests. A call whose \<open>payload\<close> is a string with an envelope bypasses the
  middleware: however often its programs are refused, the failure counter and the program cache
  stay as they are and the call is never throttled.
\<close>
theorem envelope_calls_never_throttled:
  assumes "call_tool env now name args client s = Some (s', r)" "map_of (ln_tools s) name = Some entry"
    "te_schema entry (if truthy args then args else JObj None []) = Some parsed"
    "opt_prop (with_bypass_flag args parsed) ''payload'' = JStr payload" "extract_logic payload = Some logic" "logic \<noteq> []"
  shows "ln_stats s' = ln_stats s \<and> ln_cache s' = ln_cache s \<and> r \<noteq> Throttled \<and> r \<noteq> Malformed_Payload"
proof -
  have run: "ln_stats u = ln_stats s \<and> ln_cache u = ln_cache s \<and> q \<noteq> Throttled \<and> q \<noteq> Malformed_Payload"
    if "checked_run env name logic (te_policy entry) client (s\<lparr>ln_windows := win\<rparr>) = Some (u, q)" for win u q
    using checked_run_frame [OF that] that by (auto simp: checked_run_def split: prod.splits option.splits)
  obtain c cs where "logic = c # cs" using assms(6) by (cases logic) auto
  then show ?thesis
    using assms(1-5) run by (fastforce simp: call_tool_def Let_def split: prod.splits option.splits)
qed

text \<open>
  Only runs are audited. Every entry a request adds is a success, a blocked output or an execution error: the statuses
  \<open>POLICY_VIOLATION\<close> and \<open>TAINT_ANALYSIS_VIOLATION\<close> are never written, and a program the preflight
  refuses leaves no trace in the log.
\<close>
theorem refusals_not_audited:
  assumes "execute_logic env io fr authorization req s = Some (s', r)"
  shows "\<exists>new. al_entries (ln_audit s') = al_entries (ln_audit s) @ new \<and>
     (\<forall>e\<in>set new. ae_status e \<in> {SUCCESS, BLOCKED_EGRESS, ERROR})"
proof -
  have one: "\<exists>e. al_entries (fst (record_execution (ne_sha env) fr params (ln_audit s))) = al_entries (ln_audit s) @ [e] \<and>
      ae_status e = ap_status params" for params
    by (auto simp: record_execution_def Let_def)
  have "\<exists>new. al_entries (ln_audit s') = al_entries (ln_audit s) @ new \<and>
      (\<forall>e\<in>set new. ae_status e \<in> {SUCCESS, BLOCKED_EGRESS, ERROR})"
    if "ap_status params \<in> {SUCCESS, BLOCKED_EGRESS, ERROR}"
      "ln_audit s' = fst (record_execution (ne_sha env) fr params (ln_audit s))" for params
    using that one [of params] by force
  then show ?thesis using execute_logic_audited [OF assms] unfolding audited_def run_statuses_def by (metis append_Nil2 empty_iff list.set(1))
qed

text \<open>A result that carries \<open>isError: true\<close> is not compared with the schema of the tool.\<close>

lemma error_flag_skips_schema:
  "validate_output_policy parse n name (JObj i ((''isError'', JBool True) # fs)) policy = Some None"
  by (cases policy) (simp_all add: validate_output_policy_def parse_unknown_json_def field_of_def)

text \<open>A program the preflight refuses changes the budget store at most.\<close>

lemma refused_run_silent:
  assumes "preflight_plaintext env req ses = Some payload"
    "preflight env (or_name (gs_capability_hash ses) ''unknown_tool'')
       (case extract_logic payload of Some (c # cs) \<Rightarrow> c # cs | _ \<Rightarrow> trim payload)
       (session_policy s ses) (or_name (gs_agent_did ses) (lr_session_token req)) s = (u, Some e)"
  shows "\<exists>b. run_logic env now fr req ses s = Some (s\<lparr>ln_budget := b\<rparr>, error_response (ne_text env (Preflight_Refused e)) None)"
  using assms preflight_frame [OF assms(2)]
  by (auto simp: run_logic_def Let_def session_policy_def split: option.splits list.splits)

section \<open>A concrete server\<close>

text \<open>One tool over no records whose policy asks for the optimistic mode, one open session, and the host of the worker theory.\<close>

definition demo_node_env :: node_env where
  "demo_node_env = \<lparr>ne_host = demo_host, ne_fault = (\<lambda>_. None), ne_acorn = (\<lambda>_. None), ne_walk = (\<lambda>n. [n]),
     ne_store = \<lparr>se_tries = (\<lambda>_. Created), se_save = True\<rparr>, ne_scanner = pii_scanner_new [] [] None,
     ne_jwt = (\<lambda>_ _. Inl ''invalid''), ne_url = (\<lambda>_. None), ne_text = (\<lambda>_. ''refused''), ne_detail = (\<lambda>_. ''fault''),
     ne_string = (\<lambda>_. ''3''), ne_dev = False, ne_verbose = False\<rparr>"

definition demo_policy :: "string \<Rightarrow> tool_policy option" where
  "demo_policy zk = Some \<lparr>tp_base = \<lparr>ep_enforceAggregationFirst = None, ep_preflightDenyPatterns = [], ep_outputSchema = None,
       ep_budget = \<lparr>bp_sensitiveKeys = [], bp_queryBudgetPerField = None, bp_budgetStorePath = None\<rparr>\<rparr>,
     tp_dpEpsilon = None, tp_dpSensitivity = None, tp_dpSmallDatasetThreshold = Some 0, tp_zkMode = Some zk,
     tp_guestImageId = None, tp_pqcSign = False\<rparr>"

definition demo_session :: "string \<Rightarrow> grpc_session" where
  "demo_session capability = \<lparr>gs_capability_hash = capability, gs_kyber_sk = [], gs_agent_did = ''did'', gs_tokenHash = None, gs_createdAt = 500\<rparr>"

definition demo_node :: liop_node where
  "demo_node = \<lparr>ln_tools = [(''count'', \<lparr>te_logicTool = True, te_schema = Some, te_handler = Inr, te_policy = demo_policy ''optimistic''\<rparr>)],
     ln_records = [], ln_limits = \<lparr>toolCallWindowMs = 60000, toolCallMaxPerWindow = 10, globalCallMaxPerWindow = 10\<rparr>,
     ln_windows = \<lparr>toolCallWindows = [], globalCallWindow = []\<rparr>,
     ln_budget = \<lparr>bs_classes = field_classes_new [] [], bs_configStorePath = None, bs_memory = [], bs_disk = None\<rparr>,
     ln_audit = sample_logger,
     ln_auth = \<lparr>as_validator = None, as_localTestToken = None, as_revocationPath = None, as_revoked = [], as_lastLoad = 0,
       as_disk = None, as_sessions = [(''t'', demo_session ''count'')]\<rparr>,
     ln_stats = None, ln_cache = [], ln_guestImageId = None, ln_signingKey = None\<rparr>"

definition demo_request :: "int option \<Rightarrow> logic_request" where
  "demo_request mode = \<lparr>lr_session_token = ''t'', lr_wasm_binary = utf8 ''return records.length'' @ replicate 16 7, lr_inputs = [],
     lr_pqc_ciphertext = [], lr_aes_nonce = Some (replicate 12 0), lr_requested_proof_mode = mode\<rparr>"

definition demo_fresh :: audit_fresh where
  "demo_fresh = \<lparr>af_uuid = ''u'', af_now = ''t'', af_random = ''r''\<rparr>"

definition demo_io :: io where
  "demo_io = \<lparr>io_now = 1000, io_read = True, io_write = True, io_stat = True\<rparr>"

lemma demo_fields [simp]:
  "ne_host demo_node_env = demo_host" "ne_fault demo_node_env d = None" "wh_env demo_host = demo_env" "wh_codec demo_host = demo_codec"
  "ve_parse demo_env = demo_parse" "ve_stringify demo_env v = ''3''" "ln_records demo_node = []" "ln_guestImageId demo_node = None"
  "ln_signingKey demo_node = None" "wh_prover demo_host = None"
  by (simp_all add: demo_node_env_def demo_host_def demo_env_def demo_node_def)

lemma demo_sanitized: "sanitize_output DEFAULT_CONFIG (JNum (Fin 3)) = JNum (Fin 3)"
proof -
  have "math_round 30000 = 30000" using math_round_of_int [of 30000] by simp
  then show ?thesis by (simp add: sanitize_output_def sanitize_number_def DEFAULT_CONFIG_def)
qed

lemma demo_weight: "weight (JObj None (map (map_prod id atom_value) fs)) < length (json_object fs)"
proof -
  have str: "length t + 2 \<le> length (json_string t)" for t
  proof -
    have "length t \<le> length (concat (map json_esc t))"
    proof (induction t)
      case (Cons c t)
      have "json_esc c \<noteq> []" using json_esc_head [of c] by auto
      then show ?case using Cons by (cases "json_esc c") auto
    qed simp
    then show ?thesis by (simp add: json_string_def)
  qed
  have field: "Suc (weight (atom_value a)) \<le> length (json_field (k, a))" for k a
  proof -
    have "weight (atom_value a) \<le> length (atom_text a)"
    proof (cases a)
      case (AStr t)
      then show ?thesis using str [of t] by simp
    qed simp
    then show ?thesis by (simp add: json_field_def)
  qed
  have "weight (JObj None (map (map_prod id atom_value) fs)) \<le> length (join '','' (map json_field fs))"
  proof (induction fs rule: induct_list012)
    case (2 f) then show ?case using field [of "snd f" "fst f"] by simp
  next
    case (3 f g fs) then show ?case using field [of "snd f" "fst f"] by simp
  qed simp
  then show ?thesis by (simp add: json_object_def)
qed

lemma demo_json_parser: "json_parser demo_parse"
proof -
  have "weight p < length t \<and> ids p = []" if "demo_parse t = Some p" for t p
  proof (cases "\<exists>fs. t = json_object fs")
    case True
    then obtain fs where "t = json_object fs" by blast
    moreover have "ids (atom_value a) = []" for a by (cases a) simp_all
    ultimately show ?thesis using that demo_weight [of fs] by (auto simp: demo_parse_object)
  qed (use that in \<open>auto simp: demo_parse_def split: if_splits\<close>)
  then show ?thesis by (auto simp: json_parser_def)
qed

lemma demo_prints: "prints_json demo_node_env" "codec_faithful demo_host" "plain_output demo_node_env (JNum (Fin 3))"
proof -
  have three: "demo_parse ''3'' = Some (JNum (Fin 3))"
    by (auto simp: demo_parse_def json_object_def)
  then show "prints_json demo_node_env" by (simp add: prints_json_def)
  show "plain_output demo_node_env (JNum (Fin 3))"
    using three by (simp add: plain_output_def names_proxy_tool_def output_text_def opt_prop_def)
  have inv: "inv hex_of (hex_of b) = b" for b by (simp add: inv_f_f inj_def)
  moreover have "hex_of [] = []" by (simp add: hex_of_def)
  ultimately have "inv hex_of [] = []" by metis
  then show "codec_faithful demo_host"
    by (simp add: codec_faithful_def demo_codec_def demo_env_def inv)
qed

lemma demo_texts:
  "extract_logic ''return records.length'' = None" "trim ''return records.length'' = ''return records.length''"
  "extract_logic (''@LIOP{x}'' @ [CHR 0x0A] @ ''return records.length'' @ [CHR 0x0A] @ ''@END'') = Some ''return records.length''"
  by code_simp+

lemma demo_noise:
  assumes "policy = None \<or> (\<exists>zk. policy = demo_policy zk)" "wd_dpConfig d = dp_config_of policy" "wd_records d = []"
  shows "noisy_output demo_host d img v = Some v"
  using assms by (auto simp: noisy_output_def dp_config_of_def demo_policy_def apply_dp_to_output_def merge_dp_config_def given_def Let_def)

lemma demo_open:
  "open_request demo_host (remote_task demo_node (demo_request mode) (demo_session capability) policy) =
     Inr (utf8 ''return records.length'', ([], JUndef), replicate 32 0)"
  by (simp add: open_request_def remote_task_def demo_request_def demo_host_def open_box_def demo_gcm_def)

lemma demo_remote:
  assumes "policy = None \<or> (\<exists>zk. policy = demo_policy zk)" "requested_mode mode policy = PROOF_MODE_ZK_OPTIMISTIC"
  shows "\<exists>w. run_pool demo_node_env (remote_task demo_node (demo_request mode) (demo_session capability) policy) = Some (Inr w) \<and>
     wr_output w = JNum (Fin 3)"
proof -
  let ?d = "remote_task demo_node (demo_request mode) (demo_session capability) policy"
  have mode: "lr_requested_proof_mode (demo_request mode) = mode" by (simp add: demo_request_def)
  have "wd_dpConfig ?d = dp_config_of policy" "wd_records ?d = []" by (simp_all add: remote_task_def)
  note noise = demo_noise [OF assms(1) this]
  have "\<exists>w. process_logic_execution demo_host ?d = Some (Inr w) \<and> wr_output w = sanitize_output DEFAULT_CONFIG (JNum (Fin 3))"
    by (rule demo_runs [OF _ _ demo_open])
      (use assms noise mode in \<open>auto simp: remote_task_def check_session_def demo_host_def demo_session_def MAX_SESSION_KEY_LIFETIME_MS_def
          guest_of_def signing_key_def demo_policy_def\<close>)
  then show ?thesis by (auto simp: run_pool_def demo_sanitized)
qed

lemma demo_preflight:
  assumes "policy = None \<or> (\<exists>zk. policy = demo_policy zk)" "ln_budget s = ln_budget demo_node"
  shows "preflight demo_node_env name logic policy client s = (s, None)"
proof -
  have "taint_check demo_node_env s logic thr = \<lparr>tv_violation = None, tv_queriedFields = []\<rparr>" for thr
    by (simp add: taint_check_def analyze_def extract_queried_fields_def demo_node_env_def)
  then show ?thesis
    using assms by (auto simp: preflight_def run_preflight_policy_def enforce_query_budget_def demo_policy_def Let_def)
qed

lemma demo_plaintext:
  "preflight_plaintext demo_node_env (demo_request mode) (demo_session capability) = Some ''return records.length''"
  by (simp add: preflight_plaintext_def demo_request_def demo_host_def open_box_def demo_gcm_def demo_env_def inv_f_f)

lemma demo_scan:
  "scan (ne_parse demo_node_env) (ne_scanner demo_node_env) (weight (JNum (Fin 3))) {} (JNum (Fin 3)) = Some (None, {})"
  "unwrap_for_aggregation_policy_scan demo_parse n (JNum (Fin 3)) = Some (JNum (Fin 3))"
  by (simp, subst unwrap_for_aggregation_policy_scan.simps, simp)

lemma demo_release:
  "\<exists>s' resp. execute_logic demo_node_env demo_io demo_fresh None (demo_request None) demo_node = Some (s', Response resp) \<and> \<not> lp_is_error resp"
proof -
  let ?policy = "demo_policy ''optimistic''"
  have mode: "requested_mode None ?policy = PROOF_MODE_ZK_OPTIMISTIC" "lr_requested_proof_mode (demo_request None) = None"
    by (simp_all add: requested_mode_def demo_policy_def policy_proof_mode_def demo_request_def)
  obtain w where w: "run_pool demo_node_env (remote_task demo_node (demo_request None) (demo_session ''count'') ?policy) = Some (Inr w)"
    "wr_output w = JNum (Fin 3)"
    using demo_remote [OF _ mode(1)] by blast
  have policy: "session_policy demo_node (demo_session ''count'') = ?policy"
    by (simp add: session_policy_def demo_session_def policy_of_def demo_node_def)
  have tr: "transform_output demo_node_env 1000 (gs_agent_did (demo_session ''count'')) (JNum (Fin 3)) demo_node =
      Some (demo_node, Plain (output_text demo_env (JNum (Fin 3))) (JNum (Fin 3)))"
    using transform_plain [OF demo_prints(1)] demo_prints(3) by (simp add: plain_output_def)
  have valid: "validate_output_policy (ne_parse demo_node_env) (records_count demo_node) name (JNum (Fin 3)) (map_option tp_base ?policy) = Some None" for name
    by (simp add: validate_output_policy_def demo_policy_def parse_unknown_json_def)
  have clean: "egress_check demo_node_env demo_node ?policy (JNum (Fin 3)) (JNum (Fin 3)) = Some None"
    using demo_scan(1) by (simp add: egress_check_def demo_policy_def violates_aggregation_first_policy_def)
  have "deliver_run demo_node_env 1000 demo_fresh (demo_session ''count'') ?policy PROOF_MODE_ZK_OPTIMISTIC w demo_node =
      finish_run demo_node_env demo_fresh (demo_session ''count'') ?policy w (output_text demo_env (JNum (Fin 3))) (JNum (Fin 3)) demo_node"
    using tr valid by (simp add: deliver_run_def w(2) demo_sanitized PROOF_MODE_ZK_OPTIMISTIC_def PROOF_MODE_ZK_BLOCKING_def)
  moreover have "\<exists>s' resp. finish_run demo_node_env demo_fresh (demo_session ''count'') ?policy w (output_text demo_env (JNum (Fin 3))) (JNum (Fin 3)) demo_node =
      Some (s', Response resp) \<and> \<not> lp_is_error resp"
    using clean by (simp add: finish_run_def demo_scan(2) Let_def success_response_def)
  ultimately have fin: "\<exists>s' resp. deliver_run demo_node_env 1000 demo_fresh (demo_session ''count'') ?policy PROOF_MODE_ZK_OPTIMISTIC w demo_node =
      Some (s', Response resp) \<and> \<not> lp_is_error resp" by simp
  have pre: "preflight demo_node_env name logic ?policy client demo_node = (demo_node, None)" for name logic client
    by (rule demo_preflight) auto
  have "run_logic demo_node_env 1000 demo_fresh (demo_request None) (demo_session ''count'') demo_node =
      deliver_run demo_node_env 1000 demo_fresh (demo_session ''count'') ?policy PROOF_MODE_ZK_OPTIMISTIC w demo_node"
    using w(1) mode pre by (simp add: run_logic_def demo_plaintext demo_texts(1) Let_def session_policy_def [symmetric] policy)
  moreover have "execute_logic demo_node_env demo_io demo_fresh None (demo_request None) demo_node =
      run_logic demo_node_env 1000 demo_fresh (demo_request None) (demo_session ''count'') demo_node"
    by (simp add: execute_logic_def auth_gate_def proceed_def demo_node_def demo_request_def demo_session_def demo_io_def MAX_SESSION_KEY_LIFETIME_MS_def)
  ultimately show ?thesis using fin by simp
qed

theorem released_evidence_screened_witness:
  "\<exists>s' resp ses a h w v inner.
     execute_logic demo_node_env demo_io demo_fresh None (demo_request None) demo_node = Some (s', Response resp) \<and>
     auth_gate (ne_jwt demo_node_env) (ne_url demo_node_env) (ne_sha demo_node_env) demo_io None (ln_auth demo_node) = (a, Inr h) \<and>
     (\<exists>a'. released demo_node_env (io_now demo_io) demo_fresh (demo_request None) ses (demo_node\<lparr>ln_auth := a'\<rparr>) s' resp w v inner)"
proof -
  obtain s' resp where r: "execute_logic demo_node_env demo_io demo_fresh None (demo_request None) demo_node = Some (s', Response resp)"
    "\<not> lp_is_error resp" using demo_release by blast
  have parser: "json_parser (ne_parse demo_node_env)" by (simp add: demo_json_parser)
  from released_evidence_screened [OF parser r] r(1) show ?thesis by blast
qed


theorem refusals_not_audited_witness:
  "\<exists>s' resp e. execute_logic demo_node_env demo_io demo_fresh None (demo_request None) demo_node = Some (s', Response resp) \<and>
     (\<forall>e\<in>set (al_entries (ln_audit s')). ae_status e \<in> {SUCCESS, BLOCKED_EGRESS, ERROR})"
proof -
  obtain s' resp where r: "execute_logic demo_node_env demo_io demo_fresh None (demo_request None) demo_node = Some (s', Response resp)"
    using demo_release by blast
  have empty: "al_entries (ln_audit demo_node) = []" by (simp add: demo_node_def sample_logger_def)
  from refusals_not_audited [OF r] r empty show ?thesis by auto
qed

theorem required_proof_downgraded_witness:
  "\<exists>w. run_pool demo_node_env (remote_task demo_node (demo_request (Some 1)) (demo_session ''count'') (demo_policy ''required'')) = Some (Inr w) \<and>
     policy_proof_mode (demo_policy ''required'') = PROOF_MODE_ZK_BLOCKING \<and> groth_type w"
proof -
  have mode: "requested_mode (Some 1) (demo_policy ''required'') = PROOF_MODE_ZK_OPTIMISTIC"
    by (simp add: requested_mode_def PROOF_MODE_ZK_OPTIMISTIC_def PROOF_MODE_LEGACY_HMAC_def)
  obtain w where w: "run_pool demo_node_env (remote_task demo_node (demo_request (Some 1)) (demo_session ''count'') (demo_policy ''required'')) = Some (Inr w)"
    using demo_remote [OF _ mode] by blast
  have "host_faithful (ne_host demo_node_env)" "wh_prover (ne_host demo_node_env) = None"
    "Option.bind (demo_policy ''required'') tp_zkMode = Some ''required''"
    "lr_requested_proof_mode (demo_request (Some 1)) = Some PROOF_MODE_ZK_OPTIMISTIC"
    by (simp_all add: demo_host_faithful demo_policy_def demo_request_def PROOF_MODE_ZK_OPTIMISTIC_def)
  from required_proof_downgraded [OF this w] w show ?thesis by blast
qed

theorem unregistered_capability_unrestricted_witness:
  "map_of (ln_tools demo_node) ''ghost'' = None \<and>
   (\<exists>s' resp. run_logic demo_node_env 1000 demo_fresh (demo_request (Some 1)) (demo_session ''ghost'') demo_node = Some (s', Response resp) \<and>
      \<not> lp_is_error resp \<and> lp_semantic_evidence resp = ''3'')"
proof -
  have mode: "requested_mode (Some 1) None = PROOF_MODE_ZK_OPTIMISTIC" "lr_requested_proof_mode (demo_request (Some 1)) = Some 1"
    by (simp_all add: requested_mode_def PROOF_MODE_ZK_OPTIMISTIC_def PROOF_MODE_LEGACY_HMAC_def demo_request_def)
  obtain w where w: "run_pool demo_node_env (remote_task demo_node (demo_request (Some 1)) (demo_session ''ghost'') None) = Some (Inr w)"
    "wr_output w = JNum (Fin 3)" using demo_remote [OF _ mode(1)] by blast
  have tool: "map_of (ln_tools demo_node) (gs_capability_hash (demo_session ''ghost'')) = None"
    by (simp add: demo_node_def demo_session_def)
  have taint: "taint_check demo_node_env demo_node logic thr = \<lparr>tv_violation = None, tv_queriedFields = []\<rparr>" for logic thr
    by (simp add: taint_check_def analyze_def extract_queried_fields_def demo_node_env_def)
  have facts: "requested_mode (lr_requested_proof_mode (demo_request (Some 1))) None \<noteq> PROOF_MODE_ZK_BLOCKING"
    "preflight_plaintext demo_node_env (demo_request (Some 1)) (demo_session ''ghost'') = Some (CHR ''r'' # ''eturn records.length'')"
    "extract_logic (CHR ''r'' # ''eturn records.length'') = None"
    by (simp_all add: mode demo_plaintext demo_texts(1) PROOF_MODE_ZK_OPTIMISTIC_def PROOF_MODE_ZK_BLOCKING_def)
  have budget: "enforce_query_budget (ne_store demo_node_env) client name
       (tv_queriedFields (taint_check demo_node_env demo_node logic thr)) None (ln_budget demo_node) = (ln_budget demo_node, None)"
    "tv_violation (taint_check demo_node_env demo_node logic thr) = None" for client name logic thr
    by (simp_all add: taint enforce_query_budget_def)
  have sanitized: "JNum (Fin 3) = sanitize_output DEFAULT_CONFIG (wr_output w)" by (simp only: w(2) demo_sanitized)
  have unwrapped: "unwrap_for_aggregation_policy_scan (ne_parse demo_node_env) (weight (JNum (Fin 3))) (JNum (Fin 3)) \<noteq> None"
    by (simp add: demo_scan(2))
  obtain s' resp where "run_logic demo_node_env 1000 demo_fresh (demo_request (Some 1)) (demo_session ''ghost'') demo_node = Some (s', Response resp)"
    "\<not> lp_is_error resp" "lp_semantic_evidence resp = output_text (wh_env (ne_host demo_node_env)) (JNum (Fin 3))"
    using unregistered_capability_unrestricted [OF tool facts budget w(1) demo_prints(1,3) sanitized demo_scan(1) unwrapped] by blast
  then show ?thesis using tool by (auto simp: output_text_def demo_session_def)
qed

text \<open>A call of the tool.\<close>

definition demo_envelope :: string where
  "demo_envelope = ''@LIOP{x}'' @ [CHR 0x0A] @ ''return records.length'' @ [CHR 0x0A] @ ''@END''"

definition demo_args :: jval where
  "demo_args = JObj None [(''payload'', JStr demo_envelope)]"

lemma demo_call:
  "\<exists>s' w. call_tool demo_node_env 0 ''count'' demo_args ''client'' demo_node = Some (s', Pool_Answer (Delivered (JNum (Fin 3)) w))"
proof -
  let ?policy = "demo_policy ''optimistic''" and ?d = "local_task demo_node ''return records.length'' (demo_policy ''optimistic'')"
  have "open_request demo_host ?d = Inr (utf8 ''return records.length'', ([], JUndef), replicate 32 0)"
    by (simp add: open_request_def local_task_def)
  then have "\<exists>w. process_logic_execution demo_host ?d = Some (Inr w) \<and> wr_output w = sanitize_output DEFAULT_CONFIG (JNum (Fin 3))"
    by (rule demo_runs [rotated 2])
      (use demo_noise [of ?policy ?d] in \<open>auto simp: local_task_def check_session_def guest_of_def signing_key_def policy_proof_mode_def demo_policy_def\<close>)
  then obtain w where w: "run_pool demo_node_env ?d = Some (Inr w)" "wr_output w = JNum (Fin 3)"
    by (auto simp: run_pool_def demo_sanitized)
  have policy: "policy_of ''count'' demo_node = ?policy" "records_count demo_node = 0"
    by (simp_all add: policy_of_def demo_node_def records_count_def)
  have valid: "validate_output_policy (ne_parse demo_node_env) 0 ''count'' (JNum (Fin 3)) (map_option tp_base ?policy) = Some None"
    by (simp add: validate_output_policy_def demo_policy_def parse_unknown_json_def)
  have clean: "egress_check demo_node_env u ?policy (JNum (Fin 3)) (JNum (Fin 3)) = Some None" for u
    using demo_scan(1) by (simp add: egress_check_def demo_policy_def violates_aggregation_first_policy_def)
  have mode: "policy_proof_mode ?policy \<noteq> PROOF_MODE_ZK_BLOCKING"
    by (simp add: policy_proof_mode_def demo_policy_def PROOF_MODE_ZK_OPTIMISTIC_def PROOF_MODE_ZK_BLOCKING_def)
  have pre: "preflight demo_node_env name logic ?policy client (demo_node\<lparr>ln_windows := win\<rparr>) =
      (demo_node\<lparr>ln_windows := win\<rparr>, None)" for name logic client win
    by (rule demo_preflight) auto
  have run: "checked_run demo_node_env ''count'' ''return records.length'' ?policy client (demo_node\<lparr>ln_windows := win\<rparr>) =
      Some (demo_node\<lparr>ln_windows := win\<rparr>, Pool_Answer (Delivered (JNum (Fin 3)) w))" for client win
    using w valid clean mode by (simp add: checked_run_def pre execute_in_worker_pool_def policy demo_sanitized)
  obtain win where win: "admit_call (ln_limits demo_node) (ln_windows demo_node) ''count'' 0 = (None, win)"
    by (simp add: admit_call_def check_global_rate_limit_def check_tool_call_rate_limit_def demo_node_def Let_def)
  have logic: "extract_logic demo_envelope = Some ''return records.length''" unfolding demo_envelope_def by (rule demo_texts(3))
  have tool: "map_of (ln_tools demo_node) ''count'' =
      Some \<lparr>te_logicTool = True, te_schema = Some, te_handler = Inr, te_policy = ?policy\<rparr>" by (simp add: demo_node_def)
  have "call_tool demo_node_env 0 ''count'' demo_args ''client'' demo_node =
      checked_run demo_node_env ''count'' ''return records.length'' ?policy ''client'' (demo_node\<lparr>ln_windows := win\<rparr>)"
    by (simp add: call_tool_def tool win demo_args_def with_bypass_flag_def opt_prop_def logic)
  then show ?thesis by (auto simp: run)
qed


theorem envelope_calls_never_throttled_witness:
  "\<exists>s' r. call_tool demo_node_env 0 ''count'' demo_args ''client'' demo_node = Some (s', r) \<and>
     ln_stats s' = ln_stats demo_node \<and> r \<noteq> Throttled"
proof -
  obtain s' r where r: "call_tool demo_node_env 0 ''count'' demo_args ''client'' demo_node = Some (s', r)"
    using demo_call by blast
  have "\<exists>entry. map_of (ln_tools demo_node) ''count'' = Some entry \<and> te_schema entry (if truthy demo_args then demo_args else JObj None []) = Some demo_args"
    by (simp add: demo_node_def demo_args_def)
  then obtain entry where entry: "map_of (ln_tools demo_node) ''count'' = Some entry"
    "te_schema entry (if truthy demo_args then demo_args else JObj None []) = Some demo_args" by blast
  have "opt_prop (with_bypass_flag demo_args demo_args) ''payload'' = JStr demo_envelope"
    by (simp add: demo_args_def with_bypass_flag_def opt_prop_def)
  moreover have "extract_logic demo_envelope = Some ''return records.length''" unfolding demo_envelope_def by (rule demo_texts(3))
  ultimately show ?thesis using envelope_calls_never_throttled [OF r entry] r by auto
qed

end
