(* ===== verification/Mesh_Node.thy ===== *)
theory Mesh_Node
  imports Crypto_Wrappers
begin

text \<open>
  \<open>mesh/node.ts\<close>: the manifest a node publishes, the configuration of a node, the circuit breaker for peers
  that do not answer, the length-prefixed manifest stream, discovery, address resolution and the persistent
  identity. The libp2p node, the disk, \<open>JSON.parse\<close> and \<open>JSON.stringify\<close> and the decoding of text are
  parameters; what the network does is a list of events or a function of the attempt. Log output is left out,
  except that the time of the last log line is state of the breaker.
\<close>

section \<open>Manifests\<close>

record manifest_tool =
  mt_name :: string
  mt_description :: "string option"
  mt_inputSchema :: jval

record manifest_resource =
  mr_name :: string
  mr_uri :: string
  mr_description :: "string option"
  mr_mimeType :: "string option"
  mr_text :: "string option"
  mr_value :: jval            \<comment> \<open>the object itself\<close>

record taxonomy =
  tx_domain :: string
  tx_clearanceTier :: jsnum
  tx_executionTypes :: "string list"

record liop_manifest =
  mf_peerId :: string
  mf_grpcPort :: int
  mf_tools :: "manifest_tool list"
  mf_resources :: "manifest_resource list"
  mf_serverName :: "string option"
  mf_taxonomy :: "taxonomy option"
  mf_authRequired :: bool
  mf_tokenSlug :: "string option"
  mf_pqcSignature :: "string option"
  mf_pqcPublicKey :: "string option"
  mf_object :: manifest       \<comment> \<open>the parsed object\<close>

text \<open>
  The interface read off a parsed value. The code does not check the types it declares; a manifest that
  has other ones is outside the model, and is taken here like the one whose \<open>tools\<close> are missing, which
  raises when their number is logged.
\<close>

fun as_string :: "jval \<Rightarrow> string option" where
  "as_string (JStr s) = Some s"
| "as_string v = None"

fun as_int :: "jval \<Rightarrow> int option" where
  "as_int (JNum (Fin r)) = (if r = of_int \<lfloor>r\<rfloor> then Some \<lfloor>r\<rfloor> else None)"
| "as_int v = None"

fun as_list :: "jval \<Rightarrow> jval list option" where
  "as_list (JArr i xs) = Some xs"
| "as_list v = None"

fun all_some :: "'a option list \<Rightarrow> 'a list option" where
  "all_some [] = Some []"
| "all_some (None # xs) = None"
| "all_some (Some x # xs) = map_option ((#) x) (all_some xs)"

definition tool_of :: "jval \<Rightarrow> manifest_tool option" where
  "tool_of v = map_option (\<lambda>name. \<lparr>mt_name = name, mt_description = as_string (opt_prop v ''description''),
     mt_inputSchema = opt_prop v ''inputSchema''\<rparr>) (as_string (opt_prop v ''name''))"

definition resource_of :: "jval \<Rightarrow> manifest_resource option" where
  "resource_of v =
     (case (as_string (opt_prop v ''name''), as_string (opt_prop v ''uri'')) of
        (Some name, Some uri) \<Rightarrow>
          Some \<lparr>mr_name = name, mr_uri = uri, mr_description = as_string (opt_prop v ''description''),
            mr_mimeType = as_string (opt_prop v ''mimeType''), mr_text = as_string (opt_prop v ''text''), mr_value = v\<rparr>
      | _ \<Rightarrow> None)"

definition taxonomy_of :: "jval \<Rightarrow> taxonomy option" where
  "taxonomy_of v =
     (case (as_string (opt_prop v ''domain''), opt_prop v ''clearanceTier'',
            Option.bind (as_list (opt_prop v ''executionTypes'')) (all_some \<circ> map as_string)) of
        (Some d, JNum n, Some ts) \<Rightarrow> Some \<lparr>tx_domain = d, tx_clearanceTier = n, tx_executionTypes = ts\<rparr>
      | _ \<Rightarrow> None)"

definition manifest_of :: "jval \<Rightarrow> liop_manifest option" where
  "manifest_of v =
     (case (as_string (opt_prop v ''peerId''), as_int (opt_prop v ''grpcPort''),
            Option.bind (as_list (opt_prop v ''tools'')) (all_some \<circ> map tool_of),
            Option.bind (as_list (opt_prop v ''resources'')) (all_some \<circ> map resource_of), v) of
        (Some peer, Some port, Some tools, Some resources, JObj i fs) \<Rightarrow>
          Some \<lparr>mf_peerId = peer, mf_grpcPort = port, mf_tools = tools, mf_resources = resources,
            mf_serverName = as_string (opt_prop (opt_prop v ''serverInfo'') ''name''),
            mf_taxonomy = taxonomy_of (opt_prop v ''taxonomy''), mf_authRequired = truthy (opt_prop v ''authRequired''),
            mf_tokenSlug = as_string (opt_prop v ''tokenSlug''), mf_pqcSignature = as_string (opt_prop v ''pqcSignature''),
            mf_pqcPublicKey = as_string (opt_prop v ''pqcPublicKey''), mf_object = fs\<rparr>
      | _ \<Rightarrow> None)"

section \<open>Configuration\<close>

record mesh_config =
  mc_listenAddresses :: "string list option"
  mc_bootstrapNodes :: "string list option"
  mc_identityPath :: "string option"
  mc_enableWAN :: "bool option"
  mc_dhtStoragePath :: "string option"
  mc_addressMapper :: "(string \<Rightarrow> string option) option"
  mc_enableAutoNAT :: "bool option"
  mc_enableRelay :: "bool option"
  mc_enableDcutr :: "bool option"
  mc_enableMdns :: "bool option"
  mc_swarmKey :: "bytes option"

definition or_else :: "'a option \<Rightarrow> 'a \<Rightarrow> 'a" where
  "or_else v d = (case v of None \<Rightarrow> d | Some x \<Rightarrow> x)"

text \<open>The constructor: it rebuilds the configuration from the fields it names.\<close>

definition new_config :: "mesh_config \<Rightarrow> mesh_config" where
  "new_config config =
     \<lparr>mc_listenAddresses = Some (or_else (mc_listenAddresses config) [''/ip4/0.0.0.0/tcp/0/ws'', ''/ip4/0.0.0.0/tcp/0'']),
      mc_bootstrapNodes = Some (or_else (mc_bootstrapNodes config) []), mc_identityPath = mc_identityPath config,
      mc_enableWAN = Some (or_else (mc_enableWAN config) False), mc_dhtStoragePath = mc_dhtStoragePath config,
      mc_addressMapper = mc_addressMapper config, mc_enableAutoNAT = None, mc_enableRelay = None, mc_enableDcutr = None,
      mc_enableMdns = None, mc_swarmKey = mc_swarmKey config\<rparr>"

definition DEFAULT_BOOTSTRAP_NODES :: "string list" where
  "DEFAULT_BOOTSTRAP_NODES =
    [''/dnsaddr/bootstrap.libp2p.io/p2p/QmNnooDuVkcruPhcoXdia1vAHm1qrCEYWvmqVkMBjeEbFR'',
     ''/dnsaddr/bootstrap.libp2p.io/p2p/QmQCU2EcMqAqQPR2i9bChDtGNJchTbq5TbXJJ16u19uLTa'',
     ''/dnsaddr/bootstrap.libp2p.io/p2p/QmbLHAnMoJPWSCR5Zhtx6BHJX9KiKNN6tpvbUcqanj75Nb'',
     ''/dnsaddr/bootstrap.libp2p.io/p2p/QmcZf59bWwK5XFi76CZX8cbJ4BhTzzA3gU1ZjWZcYW7dwt'']"

text \<open>What \<open>start\<close> hands to \<open>createLibp2p\<close>.\<close>

record node_settings =
  ns_listen :: "string list"
  ns_bootstrap :: "string list"
  ns_mdns :: bool
  ns_dhtProtocol :: string
  ns_autoNAT :: bool
  ns_relay :: bool
  ns_dcutr :: bool
  ns_psk :: "bytes option"

definition start_settings :: "mesh_config \<Rightarrow> node_settings" where
  "start_settings config =
     (let wan = or_else (mc_enableWAN config) False;
          bootNodes = or_else (mc_bootstrapNodes config) [] in
      \<lparr>ns_listen = or_else (mc_listenAddresses config) [],
       ns_bootstrap = (if bootNodes = [] \<and> wan then DEFAULT_BOOTSTRAP_NODES else bootNodes),
       ns_mdns = or_else (mc_enableMdns config) (\<not> wan),
       ns_dhtProtocol = (if wan then ''/ipfs/kad/1.0.0'' else ''/ipfs/lan/kad/1.0.0''),
       ns_autoNAT = or_else (mc_enableAutoNAT config) True, ns_relay = or_else (mc_enableRelay config) True,
       ns_dcutr = or_else (mc_enableDcutr config) True, ns_psk = mc_swarmKey config\<rparr>)"

definition is_private_network :: "mesh_config \<Rightarrow> bool" where
  "is_private_network config \<longleftrightarrow> mc_swarmKey config \<noteq> None"

section \<open>The circuit breaker\<close>

record failure_state =
  fs_failures :: nat
  fs_cooldownUntil :: time_ms
  fs_lastSkipLogAt :: time_ms

type_synonym breaker = "(string, failure_state) js_map"

text \<open>The steps shared by the two breakers of the SDK, with their base, their maximum and their log interval.\<close>

definition breaker_failure :: "int \<Rightarrow> int \<Rightarrow> time_ms \<Rightarrow> string \<Rightarrow> breaker \<Rightarrow> breaker" where
  "breaker_failure base longest now peerId st =
     (let failures = (case map_of st peerId of None \<Rightarrow> 0 | Some prev \<Rightarrow> fs_failures prev) + 1;
          backoff = min (base * 2 ^ (failures - 1)) longest in
      AList.update peerId \<lparr>fs_failures = failures, fs_cooldownUntil = now + backoff, fs_lastSkipLogAt = 0\<rparr> st)"

definition breaker_skip :: "int \<Rightarrow> time_ms \<Rightarrow> string \<Rightarrow> breaker \<Rightarrow> breaker \<times> bool" where
  "breaker_skip throttle now peerId st =
     (case map_of st peerId of
        None \<Rightarrow> (st, False)
      | Some state \<Rightarrow>
          if fs_cooldownUntil state \<le> now then (st, False)
          else if throttle < now - fs_lastSkipLogAt state then
            (AList.update peerId (state\<lparr>fs_lastSkipLogAt := now\<rparr>) st, True)
          else (st, True))"

definition MANIFEST_DIAL_BASE_COOLDOWN_MS :: int where "MANIFEST_DIAL_BASE_COOLDOWN_MS = 10000"
definition MANIFEST_DIAL_MAX_COOLDOWN_MS :: int where "MANIFEST_DIAL_MAX_COOLDOWN_MS = 2 * 60000"
definition MANIFEST_DIAL_SKIP_LOG_THROTTLE_MS :: int where "MANIFEST_DIAL_SKIP_LOG_THROTTLE_MS = 30000"

definition should_skip_manifest_dial :: "time_ms \<Rightarrow> string \<Rightarrow> breaker \<Rightarrow> breaker \<times> bool" where
  "should_skip_manifest_dial = breaker_skip MANIFEST_DIAL_SKIP_LOG_THROTTLE_MS"

definition record_manifest_dial_failure :: "time_ms \<Rightarrow> string \<Rightarrow> breaker \<Rightarrow> breaker" where
  "record_manifest_dial_failure = breaker_failure MANIFEST_DIAL_BASE_COOLDOWN_MS MANIFEST_DIAL_MAX_COOLDOWN_MS"

definition clear_manifest_dial_failure :: "string \<Rightarrow> breaker \<Rightarrow> breaker" where
  "clear_manifest_dial_failure peerId st = AList.delete peerId st"


section \<open>The manifest stream\<close>

text \<open>The length as four bytes, big-endian, before the text; \<open>writeUInt32BE\<close> raises beyond its range.\<close>

definition manifest_packet :: "string \<Rightarrow> bytes option" where
  "manifest_packet manifestStr =
     (let payload = utf8 manifestStr in
      if 2 ^ 32 \<le> length payload then None else Some (be_bytes 4 (length payload) @ payload))"

text \<open>What the iteration over the stream yields; \<open>Broken\<close>: it raises, or the five seconds are over.\<close>

datatype read_event = Chunk bytes | Broken string

fun read_manifest :: "bytes \<Rightarrow> read_event list \<Rightarrow> string + bytes" where
  "read_manifest got [] = Inr got"
| "read_manifest got (Broken e # es) = (if got = [] then Inl e else Inr got)"
| "read_manifest got (Chunk b # es) =
     (let got' = got @ b in
      if b \<noteq> [] \<and> 4 \<le> length got' \<and> 4 + be_val (take 4 got') \<le> length got' then Inr got' else read_manifest got' es)"

section \<open>The node\<close>

record mesh_node =
  mn_self :: "string option"            \<comment> \<open>the identity of the running libp2p node\<close>
  mn_provider :: "liop_manifest option" \<comment> \<open>what \<open>manifestProvider\<close> returns\<close>
  mn_dialFailures :: breaker
  mn_announced :: "string list"
  mn_config :: mesh_config

datatype attempt = Dial_Failed string | Raised string | Stream "read_event list"

record mesh_env =
  me_text :: "bytes \<Rightarrow> string"
  me_parse :: "string \<Rightarrow> jval option"

definition decode_manifest :: "mesh_env \<Rightarrow> bytes \<Rightarrow> string + liop_manifest" where
  "decode_manifest env raw =
     (if length raw < 4 then Inl ''Received empty/invalid manifest (too short)''
      else
        (let declaredLen = be_val (take 4 raw); jsonStr = me_text env (subarray raw 4 (4 + declaredLen)) in
         case Option.bind (me_parse env jsonStr) manifest_of of
           None \<Rightarrow> Inl ''SyntaxError''
         | Some manifest \<Rightarrow> Inr manifest))"

text \<open>
  The attempts of \<open>queryManifest\<close>; \<open>now\<close> is the time of the last one. A dial that fails the last time
  returns from within the inner handler.
\<close>

definition MAX_ATTEMPTS :: nat where "MAX_ATTEMPTS = 3"

fun query_attempts ::
    "mesh_env \<Rightarrow> time_ms \<Rightarrow> string \<Rightarrow> attempt list \<Rightarrow> mesh_node \<Rightarrow> mesh_node \<times> liop_manifest option" where
  "query_attempts env now peerId [] s = (s, None)"
| "query_attempts env now peerId (Dial_Failed e # as) s = (if as = [] then (s, None) else query_attempts env now peerId as s)"
| "query_attempts env now peerId (Raised e # as) s =
     (if as = [] then (s\<lparr>mn_dialFailures := record_manifest_dial_failure now peerId (mn_dialFailures s)\<rparr>, None)
      else query_attempts env now peerId as s)"
| "query_attempts env now peerId (Stream es # as) s =
     (case ebind (read_manifest [] es) (decode_manifest env) of
        Inr manifest \<Rightarrow> (s\<lparr>mn_dialFailures := clear_manifest_dial_failure peerId (mn_dialFailures s)\<rparr>, Some manifest)
      | Inl e \<Rightarrow>
          if as = [] then (s\<lparr>mn_dialFailures := record_manifest_dial_failure now peerId (mn_dialFailures s)\<rparr>, None)
          else query_attempts env now peerId as s)"

datatype mesh_error = Not_Running

definition query_manifest ::
    "mesh_env \<Rightarrow> time_ms \<Rightarrow> time_ms \<Rightarrow> (nat \<Rightarrow> attempt) \<Rightarrow> string \<Rightarrow> mesh_node \<Rightarrow> mesh_node \<times> (mesh_error + liop_manifest option)" where
  "query_manifest env now later network peerId s =
     (case mn_self s of
        None \<Rightarrow> (s, Inl Not_Running)
      | Some self \<Rightarrow>
          if peerId = self then (s, Inr (mn_provider s))
          else
            (case should_skip_manifest_dial now peerId (mn_dialFailures s) of
               (st, skip) \<Rightarrow>
                 (let s = s\<lparr>mn_dialFailures := st\<rparr> in
                  if skip then (s, Inr None)
                  else (case query_attempts env later peerId (map network [1..<MAX_ATTEMPTS + 1]) s of
                          (s, r) \<Rightarrow> (s, Inr r)))))"

text \<open>The addresses of a peer under the address mapper, and the one that is dialled directly.\<close>

definition translate_addresses :: "(string \<Rightarrow> string option) \<Rightarrow> string list \<Rightarrow> string list" where
  "translate_addresses mapper addrs =
     List.map_filter (\<lambda>a. case mapper a of Some (c # cs) \<Rightarrow> Some (c # cs) | _ \<Rightarrow> None) addrs"

definition direct_tcp :: "string list \<Rightarrow> string option" where
  "direct_tcp addrs = find (\<lambda>a. str_includes a ''/tcp/'' \<and> \<not> str_includes a ''/ws'') addrs"

datatype dial_target = Dial_Peer string | Dial_Address string

definition dial_target_of :: "mesh_config \<Rightarrow> string \<Rightarrow> string list \<Rightarrow> dial_target" where
  "dial_target_of config peerId addrs =
     (case mc_addressMapper config of
        None \<Rightarrow> Dial_Peer peerId
      | Some mapper \<Rightarrow>
          (case direct_tcp (translate_addresses mapper addrs) of
             Some a \<Rightarrow> Dial_Address a
           | None \<Rightarrow> Dial_Peer peerId))"

section \<open>Discovery\<close>

definition LIOP_MANIFEST_CAPABILITY :: string where
  "LIOP_MANIFEST_CAPABILITY = ''liop:manifest''"

text \<open>What the race between the DHT iterator and the idle timer yields; the list ends with the iterator.\<close>

datatype provider_event = Found string | Idle_Timeout | Iteration_Error

fun collect_providers :: "string list \<Rightarrow> provider_event list \<Rightarrow> string list" where
  "collect_providers providers (Found p # es) = collect_providers (set_add p providers) es"
| "collect_providers providers es = providers"

definition idle_timeout :: "nat \<Rightarrow> time_ms" where
  "idle_timeout connections = (if 1 < connections then 1500 else 3000)"

text \<open>\<open>None\<close> for the events: the query raises before it yields anything.\<close>

definition find_providers :: "string \<Rightarrow> provider_event list option \<Rightarrow> mesh_node \<Rightarrow> mesh_error + string list" where
  "find_providers hash dht s =
     (case mn_self s of
        None \<Rightarrow> Inl Not_Running
      | Some self \<Rightarrow>
          (case dht of
             None \<Rightarrow> Inr []
           | Some es \<Rightarrow>
               (let providers = collect_providers [] es in
                Inr (if hash \<in> set (mn_announced s) then set_add self providers else providers))))"

definition discover_manifest_providers :: "provider_event list option \<Rightarrow> mesh_node \<Rightarrow> mesh_error + string list" where
  "discover_manifest_providers = find_providers LIOP_MANIFEST_CAPABILITY"

definition announce_capability :: "string \<Rightarrow> mesh_node \<Rightarrow> mesh_node \<times> (mesh_error + unit)" where
  "announce_capability hash s =
     (case mn_self s of
        None \<Rightarrow> (s, Inl Not_Running)
      | Some self \<Rightarrow> (s\<lparr>mn_announced := set_add hash (mn_announced s)\<rparr>, Inr ()))"

text \<open>The capabilities \<open>reannounceAll\<close> provides again; \<open>busy\<close> is \<open>reannouncing\<close>.\<close>

definition reannounce_all :: "bool \<Rightarrow> mesh_node \<Rightarrow> string list" where
  "reannounce_all busy s = (if busy \<or> mn_self s = None then [] else mn_announced s)"

definition resolve_peer :: "(string \<times> string) list \<Rightarrow> (string \<times> string list) list \<Rightarrow> string \<Rightarrow> mesh_node \<Rightarrow> mesh_error + string list" where
  "resolve_peer connections peerStore peerId s =
     (case mn_self s of
        None \<Rightarrow> Inl Not_Running
      | Some self \<Rightarrow>
          Inr (case find (\<lambda>(p, a). p = peerId) connections of
                 Some (p, remoteAddr) \<Rightarrow> [remoteAddr]
               | None \<Rightarrow>
                   (case find (\<lambda>(p, as). p = peerId \<and> as \<noteq> []) peerStore of
                      Some (p, as) \<Rightarrow> as
                    | None \<Rightarrow> [])))"

definition get_peers :: "(string \<times> string) list \<Rightarrow> mesh_node \<Rightarrow> string list" where
  "get_peers connections s = (if mn_self s = None then [] else map fst connections)"

section \<open>What is kept on disk\<close>

text \<open>
  The identity file: \<open>io_read\<close> yields its text or the code of the error, \<open>io_protobuf\<close> and
  \<open>io_unprotobuf\<close> are the key format of libp2p, \<open>io_generate\<close> a new key.
\<close>

record 'key identity_io =
  io_read :: "string + string"
  io_parse :: "string \<Rightarrow> jval option"
  io_print :: "jval \<Rightarrow> string"
  io_fromBase64 :: "jval \<Rightarrow> bytes option"
  io_toBase64 :: "bytes \<Rightarrow> string"
  io_protobuf :: "'key \<Rightarrow> bytes"
  io_unprotobuf :: "bytes \<Rightarrow> 'key option"
  io_generate :: 'key
  io_idOf :: "'key \<Rightarrow> string"

definition read_identity :: "'key identity_io \<Rightarrow> 'key option" where
  "read_identity io =
     (case io_read io of
        Inl code \<Rightarrow> None
      | Inr data \<Rightarrow>
          Option.bind (Option.bind (Option.bind (io_parse io data) (\<lambda>json. js_prop json ''privKey'')) (io_fromBase64 io))
            (io_unprotobuf io))"

definition load_or_create_identity :: "'key identity_io \<Rightarrow> mesh_config \<Rightarrow> 'key \<times> bool" where
  "load_or_create_identity io config =
     (case mc_identityPath config of
        Some (c # cs) \<Rightarrow>
          (case read_identity io of
             Some privateKey \<Rightarrow> (privateKey, False)
           | None \<Rightarrow> (io_generate io, True))
      | _ \<Rightarrow> (io_generate io, True))"

definition identity_file :: "'key identity_io \<Rightarrow> 'key \<Rightarrow> string" where
  "identity_file io privateKey =
     io_print io (JObj None [(''id'', JStr (io_idOf io privateKey)),
       (''privKey'', JStr (io_toBase64 io (io_protobuf io privateKey)))])"

text \<open>The key \<open>start\<close> runs with, and the text it writes over the identity file, if any.\<close>

definition start_identity :: "'key identity_io \<Rightarrow> mesh_config \<Rightarrow> 'key \<times> string option" where
  "start_identity io config =
     (case load_or_create_identity io config of
        (privateKey, isNew) \<Rightarrow>
          (privateKey,
           case mc_identityPath config of
             Some (c # cs) \<Rightarrow> if isNew then Some (identity_file io privateKey) else None
           | _ \<Rightarrow> None))"

text \<open>The peers written to the routing-table file, and those read back: \<open>valid\<close> are the ones libp2p accepts.\<close>

definition saved_peers :: "(string \<times> string list) list \<Rightarrow> (string \<times> string list) list" where
  "saved_peers peers = filter (\<lambda>(p, as). as \<noteq> []) peers"

definition loaded_peers :: "(string \<times> string list \<Rightarrow> bool) \<Rightarrow> (string \<times> string list) list \<Rightarrow> (string \<times> string list) list" where
  "loaded_peers valid peers = filter (\<lambda>p. fst p \<noteq> [] \<and> valid p) peers"

section \<open>The breaker against its history\<close>

text \<open>
  What a client of a breaker relies on: \<open>failures\<close> and \<open>until\<close> change as the laws say, whatever is
  kept about log lines. A history of events then decides every check.
\<close>

datatype breaker_event = Failure time_ms string | Success string | Check time_ms string

fun history_step :: "string \<Rightarrow> nat \<times> time_ms \<Rightarrow> breaker_event \<Rightarrow> nat \<times> time_ms" where
  "history_step p (n, t) (Failure now q) = (if q = p then (n + 1, now) else (n, t))"
| "history_step p (n, t) (Success q) = (if q = p then (0, t) else (n, t))"
| "history_step p (n, t) (Check now q) = (n, t)"

text \<open>The failures of a peer since its last success, and the time of the last one.\<close>

definition history :: "string \<Rightarrow> breaker_event list \<Rightarrow> nat \<times> time_ms" where
  "history p es = run (history_step p) (0, 0) es"

definition cooling :: "int \<Rightarrow> int \<Rightarrow> time_ms \<Rightarrow> nat \<times> time_ms \<Rightarrow> bool" where
  "cooling base longest now h \<longleftrightarrow> fst h \<noteq> 0 \<and> now < snd h + min (base * 2 ^ (fst h - 1)) longest"

definition count_of :: "nat option \<Rightarrow> nat" where
  "count_of n = (case n of None \<Rightarrow> 0 | Some k \<Rightarrow> k)"

locale circuit_breaker =
  fixes fail :: "time_ms \<Rightarrow> string \<Rightarrow> 'b \<Rightarrow> 'b" and skip :: "time_ms \<Rightarrow> string \<Rightarrow> 'b \<Rightarrow> 'b \<times> bool"
    and clear :: "string \<Rightarrow> 'b \<Rightarrow> 'b" and failures :: "'b \<Rightarrow> string \<Rightarrow> nat option" and until :: "'b \<Rightarrow> string \<Rightarrow> time_ms"
    and base longest :: int
  assumes failures_fail: "failures (fail now q b) p = (if p = q then Some (count_of (failures b p) + 1) else failures b p)"
    and until_fail: "until (fail now q b) p = (if p = q then now + min (base * 2 ^ count_of (failures b p)) longest else until b p)"
    and failures_clear: "failures (clear q b) p = (if p = q then None else failures b p)"
    and until_clear: "p \<noteq> q \<Longrightarrow> until (clear q b) p = until b p"
    and failures_skip: "failures (fst (skip now q b)) p = failures b p"
    and until_skip: "until (fst (skip now q b)) p = until b p"
    and skips: "snd (skip now p b) \<longleftrightarrow> failures b p \<noteq> None \<and> now < until b p"
begin

fun on_breaker :: "'b \<Rightarrow> breaker_event \<Rightarrow> 'b" where
  "on_breaker b (Failure now p) = fail now p b"
| "on_breaker b (Success p) = clear p b"
| "on_breaker b (Check now p) = fst (skip now p b)"

definition matches :: "string \<Rightarrow> 'b \<Rightarrow> nat \<times> time_ms \<Rightarrow> bool" where
  "matches p b h \<longleftrightarrow> failures b p = (if fst h = 0 then None else Some (fst h)) \<and>
     (fst h \<noteq> 0 \<longrightarrow> until b p = snd h + min (base * 2 ^ (fst h - 1)) longest)"

lemma matches_step: "matches p b h \<Longrightarrow> matches p (on_breaker b e) (history_step p h e)"
  by (cases e; cases h)
    (auto simp: matches_def failures_fail until_fail failures_clear until_clear failures_skip until_skip count_of_def)

lemma matches_run: "matches p b h \<Longrightarrow> matches p (run on_breaker b es) (run (history_step p) h es)"
proof (induction es arbitrary: b h)
  case (Cons e es)
  from Cons.IH [OF matches_step [OF Cons.prems]] show ?case by simp
qed simp

lemma check_exact:
  assumes "failures b p = None"
  shows "snd (skip now p (run on_breaker b es)) \<longleftrightarrow> cooling base longest now (history p es)"
  using matches_run [of p b "(0, 0)" es] assms by (auto simp: matches_def skips cooling_def history_def split: if_splits)

lemma waits_at_least_base:
  assumes "0 < base" "base \<le> longest" "now < t + base"
  shows "snd (skip now p (fail t p b))"
proof -
  have "base \<le> base * 2 ^ count_of (failures b p)" using assms(1) by simp
  with assms have "now < t + base * 2 ^ count_of (failures b p)" "now < t + longest" by linarith+
  then show ?thesis by (simp add: skips failures_fail until_fail)
qed

lemma never_waits_longer: "t + longest \<le> now \<Longrightarrow> \<not> snd (skip now p (fail t p b))"
  by (auto simp: skips until_fail)

end

text \<open>The model's breaker.\<close>

definition failures_of :: "breaker \<Rightarrow> string \<Rightarrow> nat option" where
  "failures_of st p = map_option fs_failures (map_of st p)"

definition until_of :: "breaker \<Rightarrow> string \<Rightarrow> time_ms" where
  "until_of st p = (case map_of st p of None \<Rightarrow> 0 | Some f \<Rightarrow> fs_cooldownUntil f)"

lemma breaker_laws:
  "failures_of (breaker_failure base longest now q st) p =
     (if p = q then Some (count_of (failures_of st p) + 1) else failures_of st p)"
  "until_of (breaker_failure base longest now q st) p =
     (if p = q then now + min (base * 2 ^ count_of (failures_of st p)) longest else until_of st p)"
  "failures_of (AList.delete q st) p = (if p = q then None else failures_of st p)"
  "p \<noteq> q \<Longrightarrow> until_of (AList.delete q st) p = until_of st p"
  "failures_of (fst (breaker_skip throttle now q st)) p = failures_of st p"
  "until_of (fst (breaker_skip throttle now q st)) p = until_of st p"
  "snd (breaker_skip throttle now p st) \<longleftrightarrow> failures_of st p \<noteq> None \<and> now < until_of st p"
  by (auto simp: failures_of_def until_of_def breaker_failure_def breaker_skip_def count_of_def jm.get_put jm.get_del Let_def
      split: option.splits)

interpretation dial: circuit_breaker record_manifest_dial_failure should_skip_manifest_dial clear_manifest_dial_failure
    failures_of until_of MANIFEST_DIAL_BASE_COOLDOWN_MS MANIFEST_DIAL_MAX_COOLDOWN_MS
  by unfold_locales
    (simp_all add: record_manifest_dial_failure_def should_skip_manifest_dial_def clear_manifest_dial_failure_def breaker_laws)

text \<open>
  Whatever the order of failed queries, answers and checks, a peer is skipped exactly while its
  cooldown lasts: from its last failure, ten seconds doubled with every further failure since its last
  answer, and never more than two minutes.
\<close>

theorem dial_cooldown_exact:
  "snd (should_skip_manifest_dial now p (run dial.on_breaker [] es)) \<longleftrightarrow> cooling 10000 120000 now (history p es)"
  using dial.check_exact [of "[]" p now es]
  by (simp add: failures_of_def MANIFEST_DIAL_BASE_COOLDOWN_MS_def MANIFEST_DIAL_MAX_COOLDOWN_MS_def)

section \<open>Properties of the node\<close>

lemma dial_failures_silent:
  assumes "\<forall>a\<in>set (butlast as). \<exists>e. a = Dial_Failed e \<or> a = Raised e" "as \<noteq> []" "last as = Dial_Failed e"
  shows "query_attempts env now p as s = (s, None)"
  using assms
proof (induction as)
  case (Cons a as)
  then show ?case by (cases "as = []") (auto split: if_splits)
qed simp

text \<open>
  A peer that cannot be dialled is never put on cooldown: when the third attempt fails in the dial, the
  query ends without a manifest and leaves the node as it was, so the breaker admits the next query at once.
\<close>

theorem unreachable_peer_never_cooled:
  assumes "mn_self s = Some self" "p \<noteq> self" "map_of (mn_dialFailures s) p = None"
    and "\<forall>n\<in>{1, 2}. \<exists>e. network n = Dial_Failed e \<or> network n = Raised e" "network 3 = Dial_Failed e"
  shows "query_manifest env now later network p s = (s, Inr None) \<and>
     \<not> snd (should_skip_manifest_dial next p (mn_dialFailures (fst (query_manifest env now later network p s))))"
proof -
  have attempts: "map network [1..<MAX_ATTEMPTS + 1] = [network 1, network 2, network 3]"
    by (simp add: MAX_ATTEMPTS_def upt_rec numeral_2_eq_2 numeral_3_eq_3)
  have skip: "should_skip_manifest_dial t p (mn_dialFailures s) = (mn_dialFailures s, False)" for t
    using assms(3) by (simp add: should_skip_manifest_dial_def breaker_skip_def)
  have "query_attempts env later p [network 1, network 2, network 3] s = (s, None)"
    by (rule dial_failures_silent) (use assms(4,5) in auto)
  then have "query_manifest env now later network p s = (s, Inr None)"
    using assms(1,2) unfolding query_manifest_def attempts by (simp add: skip)
  then show ?thesis by (simp add: skip)
qed

text \<open>
  The constructor drops four switches of its argument: relay, hole punching and AutoNAT are always on, and
  mDNS runs exactly outside the WAN, whatever the caller asked for.
\<close>

theorem switches_ignored:
  "ns_autoNAT (start_settings (new_config config)) \<and> ns_relay (start_settings (new_config config)) \<and>
   ns_dcutr (start_settings (new_config config)) \<and>
   (ns_mdns (start_settings (new_config config)) \<longleftrightarrow> mc_enableWAN config \<noteq> Some True) \<and>
   ns_psk (start_settings (new_config config)) = mc_swarmKey config"
  by (cases "mc_enableWAN config") (auto simp: start_settings_def new_config_def or_else_def Let_def)

text \<open>
  The identity written at the first start is the one every later start runs with, and that start
  writes nothing.
\<close>

theorem identity_persists:
  assumes "\<forall>k. io_parse io (identity_file io k) =
      Some (JObj None [(''id'', JStr (io_idOf io k)), (''privKey'', JStr (io_toBase64 io (io_protobuf io k)))])"
    and "\<forall>k. io_fromBase64 io (JStr (io_toBase64 io (io_protobuf io k))) = Some (io_protobuf io k)"
    and "\<forall>k. io_unprotobuf io (io_protobuf io k) = Some k"
    and "start_identity io config = (key, Some file_text)"
  shows "start_identity (io\<lparr>io_read := Inr file_text\<rparr>) config = (key, None)"
  using assms
  by (auto simp: start_identity_def load_or_create_identity_def read_identity_def
      split: option.splits list.splits prod.splits if_splits)

text \<open>
  A configured identity file that cannot be read, whether it is missing, unreadable or corrupt, is
  replaced by a new identity.
\<close>

theorem unread_identity_replaced:
  assumes "mc_identityPath config = Some path" "path \<noteq> []" "read_identity io = None"
  shows "start_identity io config = (io_generate io, Some (identity_file io (io_generate io)))"
  using assms by (auto simp: start_identity_def load_or_create_identity_def neq_Nil_conv)

section \<open>The stream is read as it was written\<close>

lemma read_frame:
  assumes "concat cs = rest" "got @ rest = packet @ extra" "length got < length packet"
    and "4 \<le> length packet" "4 + be_val (take 4 packet) = length packet"
  shows "\<exists>more. read_manifest got (map Chunk cs @ es) = Inr (packet @ more)"
  using assms(1-3)
proof (induction cs arbitrary: got rest)
  case Nil
  then have "length packet \<le> length got" by (metis append_Nil2 concat.simps(1) length_append le_add1)
  with Nil show ?case by simp
next
  case (Cons c cs)
  let ?got = "got @ c"
  have eq: "?got @ concat cs = packet @ extra" using Cons.prems(1,2) by simp
  show ?case
  proof (cases "length packet \<le> length ?got")
    case True
    then obtain more where more: "?got = packet @ more" using eq by (metis append_eq_append_conv_if append_eq_conv_conj)
    moreover have "c \<noteq> []" using True Cons.prems(3) by auto
    ultimately show ?thesis using assms(4,5) by (auto simp: Let_def)
  next
    case False
    from False have "length ?got < length packet" by simp
    have "?got = take (length ?got) (packet @ extra)" using eq by (metis append_eq_conv_conj)
    with \<open>length ?got < length packet\<close> have "?got = take (length ?got) packet" by simp
    then have "take 4 ?got = take 4 packet" if "4 \<le> length ?got"
      using that by (metis min.absorb1 take_take)
    then have "\<not> (4 \<le> length ?got \<and> 4 + be_val (take 4 ?got) \<le> length ?got)"
      using False assms(5) by auto
    then have "read_manifest got (map Chunk (c # cs) @ es) = read_manifest ?got (map Chunk cs @ es)"
      by (auto simp: Let_def)
    moreover have "\<exists>more. read_manifest ?got (map Chunk cs @ es) = Inr (packet @ more)"
      by (rule Cons.IH [OF refl eq]) (use False in simp)
    ultimately show ?thesis by simp
  qed
qed

text \<open>
  However the network cuts the packet of a manifest into chunks, whatever follows it in the last chunk
  and whatever happens afterwards, the querying node reads the text that was sent.
\<close>

theorem manifest_stream_roundtrip:
  assumes "manifest_packet json = Some packet" "concat cs = packet @ extra" "me_text env (utf8 json) = json"
  shows "ebind (read_manifest [] (map Chunk cs @ es)) (decode_manifest env) =
     (case Option.bind (me_parse env json) manifest_of of None \<Rightarrow> Inl ''SyntaxError'' | Some m \<Rightarrow> Inr m)"
proof -
  have len: "length (utf8 json) < 2 ^ 32" and packet: "packet = be_bytes 4 (length (utf8 json)) @ utf8 json"
    using assms(1) by (auto simp: manifest_packet_def Let_def split: if_splits)
  have header: "be_val (take 4 (packet @ more)) = length (utf8 json)" for more
    using len by (simp add: packet be_val_be_bytes)
  obtain more where "read_manifest [] (map Chunk cs @ es) = Inr (packet @ more)"
    using read_frame [of cs "packet @ extra" "[]" packet extra es] assms(2) header [of "[]"] packet by auto
  moreover have "decode_manifest env (packet @ more) =
      (case Option.bind (me_parse env json) manifest_of of None \<Rightarrow> Inl ''SyntaxError'' | Some m \<Rightarrow> Inr m)"
  proof -
    have "subarray (packet @ more) 4 (4 + length (utf8 json)) = utf8 json"
      by (rule subarray_at [of _ "be_bytes 4 (length (utf8 json))" "utf8 json" more]) (simp_all add: packet)
    moreover have "\<not> length (packet @ more) < 4" by (simp add: packet)
    ultimately show ?thesis using header [of more] assms(3) by (simp add: decode_manifest_def Let_def)
  qed
  ultimately show ?thesis by simp
qed

section \<open>Witnesses\<close>

definition demo_mesh_node :: mesh_node where
  "demo_mesh_node = \<lparr>mn_self = Some ''me'', mn_provider = None, mn_dialFailures = [], mn_announced = [],
     mn_config = \<lparr>mc_listenAddresses = None, mc_bootstrapNodes = None, mc_identityPath = Some ''id.json'', mc_enableWAN = None,
       mc_dhtStoragePath = None, mc_addressMapper = None, mc_enableAutoNAT = Some False, mc_enableRelay = None,
       mc_enableDcutr = None, mc_enableMdns = Some False, mc_swarmKey = None\<rparr>\<rparr>"

theorem unreachable_peer_never_cooled_witness:
  "query_manifest (undefined :: mesh_env) 0 9000 (\<lambda>_. Dial_Failed ''refused'') ''peer'' demo_mesh_node = (demo_mesh_node, Inr None) \<and>
   \<not> snd (should_skip_manifest_dial 9001 ''peer''
       (mn_dialFailures (fst (query_manifest (undefined :: mesh_env) 0 9000 (\<lambda>_. Dial_Failed ''refused'') ''peer'' demo_mesh_node))))"
  by (rule unreachable_peer_never_cooled [where self = "''me''"]) (simp_all add: demo_mesh_node_def)

definition demo_identity :: "bool identity_io" where
  "demo_identity = \<lparr>io_read = Inl ''EACCES'', io_parse = (\<lambda>t. Some (JObj None [(''id'', JStr ''me''), (''privKey'', JStr t)])),
     io_print = (\<lambda>v. case opt_prop v ''privKey'' of JStr t \<Rightarrow> t | _ \<Rightarrow> []),
     io_fromBase64 = (\<lambda>v. Some (if v = JStr ''AQ=='' then [1] else [0])), io_toBase64 = (\<lambda>b. if b = [1] then ''AQ=='' else ''AA==''),
     io_protobuf = (\<lambda>k. if k then [1] else [0]), io_unprotobuf = (\<lambda>b. Some (b = [1])), io_generate = True,
     io_idOf = (\<lambda>k. ''me'')\<rparr>"

theorem identity_persists_witness:
  "start_identity demo_identity (mn_config demo_mesh_node) = (True, Some ''AQ=='') \<and>
   start_identity (demo_identity\<lparr>io_read := Inr ''AQ==''\<rparr>) (mn_config demo_mesh_node) = (True, None)"
proof -
  have first: "start_identity demo_identity (mn_config demo_mesh_node) = (True, Some ''AQ=='')" by code_simp
  have "start_identity (demo_identity\<lparr>io_read := Inr ''AQ==''\<rparr>) (mn_config demo_mesh_node) = (True, None)"
    by (rule identity_persists [OF _ _ _ first])
      (simp_all add: demo_identity_def identity_file_def opt_prop_def)
  with first show ?thesis by blast
qed

theorem unread_identity_replaced_witness:
  "start_identity demo_identity (mn_config demo_mesh_node) = (True, Some (identity_file demo_identity True))"
  using unread_identity_replaced [of "mn_config demo_mesh_node" "''id.json''" demo_identity]
  by (simp add: demo_mesh_node_def demo_identity_def read_identity_def)

definition demo_stream_env :: mesh_env where
  "demo_stream_env = \<lparr>me_text = (\<lambda>b. if b = utf8 ''x'' then ''x'' else []), me_parse = (\<lambda>t. None)\<rparr>"

theorem manifest_stream_roundtrip_witness:
  "ebind (read_manifest [] (map Chunk [[0, 0], [0], [1, 0x78, 9]] @ [Broken ''reset''])) (decode_manifest demo_stream_env) =
     (case Option.bind (me_parse demo_stream_env ''x'') manifest_of of None \<Rightarrow> Inl ''SyntaxError'' | Some m \<Rightarrow> Inr m)"
proof (rule manifest_stream_roundtrip)
  show "manifest_packet ''x'' = Some [0, 0, 0, 1, 0x78]"
  proof -
    have "be_bytes 4 1 = [0, 0, 0, 1]" by code_simp
    then show ?thesis by (simp add: manifest_packet_def utf8_def utf8_char_def)
  qed
  show "concat [[0, 0], [0], [1, 0x78, 9]] = [0, 0, 0, 1, 0x78] @ [9 :: byte]" by simp
  show "me_text demo_stream_env (utf8 ''x'') = ''x''" by (simp add: demo_stream_env_def)
qed

end
