(* ===== verification/Liop_Client.thy ===== *)
theory Liop_Client
  imports Logic_Server Mesh_Node
begin

text \<open>
  \<open>client/index.ts\<close> and the token handling of \<open>rpc/client.ts\<close>: discovery of tools, the choice of a gRPC
  connection and of its token, the handshake with its retries, the sealing of a request, and the stream of
  responses with the verification of receipts.

  The mesh, the process environment, the remote host, the random nonces and the libraries are the record
  \<open>client_env\<close>; the mesh answers the same throughout one call. The token manager is present or not, and
  \<open>ce_freshToken\<close> is what its \<open>getToken\<close> yields (\<open>None\<close>: it throws). Log output, metrics and telemetry are
  left out.
\<close>

section \<open>State\<close>

text \<open>A token is resolved at every call, from the environment variable found first or else dynamically, or fixed by \<open>setToken\<close>.\<close>

datatype token_provider = Resolver "string option" | Fixed_Token string

record rpc_client =
  rc_address :: string
  rc_token :: token_provider

record liop_client =
  lc_connected :: bool
  lc_rpcClients :: "(string, rpc_client) js_map"
  lc_manifests :: "(string, liop_manifest) js_map"
  lc_oauthToken :: "string option"
  lc_managed :: bool           \<comment> \<open>\<open>tokenManager\<close> is set\<close>

record intent_answer =
  ia_accepted :: bool
  ia_error_message :: string
  ia_publicKey :: "bytes option"
  ia_session_token :: string

datatype negotiation = Rpc_Failed string | Answered intent_answer

text \<open>What the event loop hands to the handlers; \<open>Verified n\<close>: the verification of the \<open>n\<close>-th pending response has ended.\<close>

datatype stream_event = Data logic_response | Verified nat | Stream_Error string | End

record client_env =
  ce_findProviders :: "string \<Rightarrow> string list"
  ce_discover :: "string list"
  ce_queryManifest :: "string \<Rightarrow> string + liop_manifest option"
  ce_resolvePeer :: "string \<Rightarrow> string list"
  ce_variable :: "string \<Rightarrow> string option"
  ce_freshToken :: "string option"
  ce_negotiate :: "rpc_client \<Rightarrow> nat \<Rightarrow> negotiation"   \<comment> \<open>with the number of the attempt\<close>
  ce_encap :: "bytes \<Rightarrow> (bytes \<times> bytes) option"
  ce_aes :: aes_gcm
  ce_nonce :: "nat \<Rightarrow> bytes"
  ce_stream :: "rpc_client \<Rightarrow> logic_request \<Rightarrow> stream_event list"
  ce_verifier :: verifier_env
  ce_vkeys :: vkey_registry

datatype client_error =
  Not_Connected | No_Providers string | Query_Failed string | No_Manifest | Not_Listed string
| Negotiation_Failed string | Refresh_Failed | Intent_Denied string | No_Public_Key | Encapsulation_Failed crypto_error
| Sealing_Failed | Integrity_Violated | Stream_Failed string | No_Results

section \<open>Addresses\<close>

definition ip4_of :: "string \<Rightarrow> string option" where
  "ip4_of maddr =
     (case dropWhile (\<lambda>p. p \<noteq> ''ip4'') (split_on CHR ''/'' maddr) of
        _ # ip # _ \<Rightarrow> Some ip
      | _ \<Rightarrow> None)"

definition routable :: "string \<Rightarrow> bool" where
  "routable ip \<longleftrightarrow> ip \<noteq> ''127.0.0.1'' \<and> \<not> starts_with ip ''127.'' \<and> ip \<noteq> ''0.0.0.0'' \<and> ip \<noteq> ''localhost''"

definition select_optimal_ip :: "string list \<Rightarrow> string option" where
  "select_optimal_ip addrs =
     (let ips = List.map_filter ip4_of addrs in
      case find routable ips of
        Some ip \<Rightarrow> Some ip
      | None \<Rightarrow> (case ips of [] \<Rightarrow> None | ip # _ \<Rightarrow> Some ip))"

definition target_of :: "string \<Rightarrow> int \<Rightarrow> string" where
  "target_of ip port = ip @ '':'' @ show_int port"

definition resolve_capability :: "client_env \<Rightarrow> string \<Rightarrow> liop_client \<Rightarrow> liop_client \<times> (client_error + string)" where
  "resolve_capability env toolName s =
     (if \<not> lc_connected s then (s, Inl Not_Connected)
      else
        (case ce_findProviders env toolName of
           [] \<Rightarrow> (s, Inl (No_Providers toolName))
         | providerId # _ \<Rightarrow>
             (case ce_queryManifest env providerId of
                Inl e \<Rightarrow> (s, Inl (Query_Failed e))
              | Inr found \<Rightarrow>
                  (let port = (case found of None \<Rightarrow> 50051 | Some m \<Rightarrow> mf_grpcPort m);
                       s = (case found of None \<Rightarrow> s | Some m \<Rightarrow> s\<lparr>lc_manifests := AList.update providerId m (lc_manifests s)\<rparr>) in
                   (s, Inr (case select_optimal_ip (ce_resolvePeer env providerId) of
                              Some (c # cs) \<Rightarrow> target_of (c # cs) port
                            | _ \<Rightarrow> target_of ''127.0.0.1'' port))))))"

section \<open>Discovery\<close>

type_synonym tool_list = "(string \<times> string option) list"

definition add_tool :: "manifest_tool \<Rightarrow> tool_list \<Rightarrow> tool_list" where
  "add_tool t tools = (if mt_name t \<in> fst ` set tools then tools else tools @ [(mt_name t, mt_description t)])"

fun discover :: "client_env \<Rightarrow> bool \<Rightarrow> string list \<Rightarrow> liop_client \<times> tool_list \<Rightarrow> liop_client \<times> tool_list" where
  "discover env forceRefresh [] st = st"
| "discover env forceRefresh (peerId # ps) (s, tools) =
     (case if forceRefresh then None else map_of (lc_manifests s) peerId of
        Some m \<Rightarrow> discover env forceRefresh ps (s, fold add_tool (mf_tools m) tools)
      | None \<Rightarrow>
          (case ce_queryManifest env peerId of
             Inr (Some m) \<Rightarrow>
               discover env forceRefresh ps
                 (s\<lparr>lc_manifests := AList.update peerId m (lc_manifests s)\<rparr>, fold add_tool (mf_tools m) tools)
           | _ \<Rightarrow> discover env forceRefresh ps (s, tools)))"

definition discover_tools :: "client_env \<Rightarrow> bool \<Rightarrow> liop_client \<Rightarrow> liop_client \<times> (client_error + tool_list)" where
  "discover_tools env forceRefresh s =
     (if \<not> lc_connected s then (s, Inl Not_Connected)
      else (case discover env forceRefresh (ce_discover env) (s, []) of (s, tools) \<Rightarrow> (s, Inr tools)))"

section \<open>Connections\<close>

text \<open>\<open>process.env[a] || process.env[b]\<close>; the empty text counts as absent.\<close>

fun first_variable :: "(string \<Rightarrow> string option) \<Rightarrow> string list \<Rightarrow> string option" where
  "first_variable env [] = None"
| "first_variable env (v # vs) = (case env v of Some (c # cs) \<Rightarrow> Some (c # cs) | _ \<Rightarrow> first_variable env vs)"

definition node_variable :: "(string \<Rightarrow> string option) \<Rightarrow> string \<Rightarrow> string option" where
  "node_variable env suffix = first_variable env [''LIOP_TOKEN_'' @ suffix, ''LIOP_OAUTH_TOKEN_'' @ suffix]"

definition token_variable :: "client_env \<Rightarrow> string \<Rightarrow> string option" where
  "token_variable env suffix = node_variable (ce_variable env) suffix"

definition lists_tool :: "string \<Rightarrow> liop_manifest \<Rightarrow> bool" where
  "lists_tool toolName m \<longleftrightarrow> list_ex (\<lambda>t. mt_name t = toolName) (mf_tools m)"

text \<open>The manifest and peer a key stands for: a peer of the cache, or the first one that lists a tool of this name.\<close>

definition owner_of :: "string \<Rightarrow> liop_client \<Rightarrow> string \<times> liop_manifest option" where
  "owner_of key s =
     (case map_of (lc_manifests s) key of
        Some m \<Rightarrow> (key, Some m)
      | None \<Rightarrow>
          (case find (\<lambda>(p, m). lists_tool key m) (lc_manifests s) of
             Some (p, m) \<Rightarrow> (p, Some m)
           | None \<Rightarrow> (key, None)))"

text \<open>\<open>toUpperCase().replace(/[^A-Z0-9_]/g, "_")\<close>\<close>

definition clean_upper :: "string \<Rightarrow> string" where
  "clean_upper s = map (\<lambda>c. if is_upper c \<or> is_digit c \<or> c = CHR ''_'' then c else CHR ''_'') (to_upper s)"

definition clean_name :: "string \<Rightarrow> string" where
  "clean_name name = clean_upper (to_lower name)"

definition short_id :: "string \<Rightarrow> string" where
  "short_id peerId = to_upper (drop (length peerId - 8) peerId)"

definition env_token :: "client_env \<Rightarrow> string \<times> liop_manifest option \<Rightarrow> string option" where
  "env_token env owner =
     (let slug = (case Option.bind (snd owner) mf_tokenSlug of Some t \<Rightarrow> t | None \<Rightarrow> []);
          name = (case Option.bind (snd owner) mf_serverName of Some t \<Rightarrow> t | None \<Rightarrow> []);
          bySlug = (if slug = [] then None else token_variable env slug);
          byPeer = (if fst owner = [] then None else token_variable env (short_id (fst owner)));
          byName = (if name = [] then None else token_variable env (clean_name name)) in
      case bySlug of Some t \<Rightarrow> Some t | None \<Rightarrow> (case byPeer of Some t \<Rightarrow> Some t | None \<Rightarrow> byName))"

definition get_or_create_rpc_client ::
    "client_env \<Rightarrow> string \<Rightarrow> string \<Rightarrow> liop_client \<Rightarrow> liop_client \<times> rpc_client" where
  "get_or_create_rpc_client env key address s =
     (case map_of (lc_rpcClients s) key of
        Some c \<Rightarrow> (s, c)
      | None \<Rightarrow>
          (let c = \<lparr>rc_address = address, rc_token = Resolver (env_token env (owner_of key s))\<rparr> in
           (s\<lparr>lc_rpcClients := AList.update key c (lc_rpcClients s)\<rparr>, c)))"

text \<open>\<open>resolveToken\<close>.\<close>

definition active_token :: "client_env \<Rightarrow> liop_client \<Rightarrow> rpc_client \<Rightarrow> string option" where
  "active_token env s c =
     (case rc_token c of
        Fixed_Token t \<Rightarrow> Some t
      | Resolver (Some t) \<Rightarrow> Some t
      | Resolver None \<Rightarrow> if lc_managed s then ce_freshToken env else lc_oauthToken s)"

text \<open>
  The connection of a call. The result names the key the stream evicts on an error, the key the
  connection is kept under, and the connection.
\<close>

fun fast_path :: "client_env \<Rightarrow> string \<Rightarrow> (string \<times> liop_manifest) list \<Rightarrow> liop_client \<Rightarrow> (liop_client \<times> string \<times> rpc_client) option" where
  "fast_path env toolName [] s = None"
| "fast_path env toolName ((peerId, m) # ms) s =
     (if lists_tool toolName m then
        (case map_of (lc_rpcClients s) peerId of
           Some c \<Rightarrow> Some (s, peerId, c)
         | None \<Rightarrow>
             (case select_optimal_ip (ce_resolvePeer env peerId) of
                Some (c # cs) \<Rightarrow>
                  (case get_or_create_rpc_client env peerId (target_of (c # cs) (mf_grpcPort m)) s of
                     (s, client) \<Rightarrow> Some (s, peerId, client))
              | _ \<Rightarrow> fast_path env toolName ms s))
      else fast_path env toolName ms s)"

definition route :: "client_env \<Rightarrow> string \<Rightarrow> liop_client \<Rightarrow> liop_client \<times> (client_error + string \<times> string \<times> rpc_client)" where
  "route env toolName s =
     (case map_of (lc_rpcClients s) ''static'' of
        Some c \<Rightarrow> (s, Inr (''static'', ''static'', c))
      | None \<Rightarrow>
          (case map_of (lc_rpcClients s) toolName of
             Some c \<Rightarrow> (s, Inr (''static'', toolName, c))
           | None \<Rightarrow>
               (case fast_path env toolName (lc_manifests s) s of
                  Some (s, peerId, c) \<Rightarrow> (s, Inr (peerId, peerId, c))
                | None \<Rightarrow>
                    (case resolve_capability env toolName s of
                       (s, Inl e) \<Rightarrow> (s, Inl e)
                     | (s, Inr address) \<Rightarrow>
                         (case get_or_create_rpc_client env toolName address s of
                            (s, c) \<Rightarrow> (s, Inr (toolName, toolName, c)))))))"

section \<open>The handshake\<close>

text \<open>\<open>invalidate\<close>, \<open>getToken\<close> and \<open>setToken\<close> on the connection kept under \<open>key\<close>; \<open>None\<close> when \<open>getToken\<close> throws.\<close>

definition refresh_token :: "client_env \<Rightarrow> string \<Rightarrow> rpc_client \<Rightarrow> liop_client \<Rightarrow> (liop_client \<times> rpc_client) option" where
  "refresh_token env key c s =
     map_option (\<lambda>fresh.
       let c = c\<lparr>rc_token := Fixed_Token fresh\<rparr> in
       (s\<lparr>lc_oauthToken := Some fresh, lc_rpcClients := AList.update key c (lc_rpcClients s)\<rparr>, c))
     (ce_freshToken env)"

definition mentions :: "string list \<Rightarrow> string \<Rightarrow> bool" where
  "mentions words msg \<longleftrightarrow> list_ex (str_includes msg) words"

text \<open>\<open>negotiateIntent\<close> with the retry after a thrown authentication error, then the retry after a refusal.\<close>

definition negotiate_first ::
    "client_env \<Rightarrow> string \<Rightarrow> rpc_client \<Rightarrow> liop_client \<Rightarrow> liop_client \<times> rpc_client \<times> nat \<times> (client_error + intent_answer)" where
  "negotiate_first env key c s =
     (case ce_negotiate env c 0 of
        Answered a \<Rightarrow> (s, c, 1, Inr a)
      | Rpc_Failed msg \<Rightarrow>
          if lc_managed s \<and> mentions [''UNAUTHENTICATED'', ''Invalid JWT'', ''timestamp check failed'', ''expired''] msg then
            (case refresh_token env key c s of
               None \<Rightarrow> (s, c, 1, Inl Refresh_Failed)
             | Some (s, c) \<Rightarrow>
                 (s, c, 2, case ce_negotiate env c 1 of Answered a \<Rightarrow> Inr a | Rpc_Failed msg \<Rightarrow> Inl (Negotiation_Failed msg)))
          else (s, c, 1, Inl (Negotiation_Failed msg)))"

definition negotiate ::
    "client_env \<Rightarrow> string \<Rightarrow> rpc_client \<Rightarrow> liop_client \<Rightarrow> liop_client \<times> rpc_client \<times> (client_error + intent_answer)" where
  "negotiate env key c s =
     (case negotiate_first env key c s of
        (s, c, n, Inl e) \<Rightarrow> (s, c, Inl e)
      | (s, c, n, Inr a) \<Rightarrow>
          if ia_accepted a then (s, c, Inr a)
          else if lc_managed s \<and> mentions [''token'', ''UNAUTHENTICATED'', ''expired'', ''timestamp check failed''] (ia_error_message a) then
            (case refresh_token env key c s of
               None \<Rightarrow> (s, c, Inl Refresh_Failed)
             | Some (s, c) \<Rightarrow>
                 (s, c, case ce_negotiate env c n of
                          Rpc_Failed msg \<Rightarrow> Inl (Negotiation_Failed msg)
                        | Answered a \<Rightarrow> if ia_accepted a then Inr a else Inl (Intent_Denied (ia_error_message a))))
          else (s, c, Inl (Intent_Denied (ia_error_message a))))"

text \<open>The fields of an accepted answer, under either spelling.\<close>

definition reply_of :: "intent_response \<Rightarrow> intent_answer" where
  "reply_of answer =
     \<lparr>ia_accepted = True, ia_error_message = [], ia_publicKey = Some (ir_kyber_public_key answer),
      ia_session_token = ir_session_token answer\<rparr>"

section \<open>Sealing\<close>

text \<open>\<open>JSON.stringify\<close> gives no text for \<open>undefined\<close>, which the cipher refuses.\<close>

fun seal_inputs :: "client_env \<Rightarrow> bytes \<Rightarrow> nat \<Rightarrow> (string \<times> jval) list \<Rightarrow> client_error + (string \<times> bytes) list" where
  "seal_inputs env key i [] = Inr []"
| "seal_inputs env key i ((k, v) # rest) =
     ebind (guard (v \<noteq> JUndef) Sealing_Failed) (\<lambda>_.
       (case ag_seal (ce_aes env) key (ce_nonce env i) (utf8 (ve_stringify (ce_verifier env) v)) of
          (encrypted, authTag) \<Rightarrow>
            ebind (seal_inputs env key (i + 1) rest) (\<lambda>sealed. Inr ((k, ce_nonce env i @ encrypted @ authTag) # sealed))))"

definition seal_request ::
    "client_env \<Rightarrow> intent_answer \<Rightarrow> bytes \<Rightarrow> (string \<times> jval) list \<Rightarrow> client_error + (logic_request \<times> bytes)" where
  "seal_request env a payload args =
     (case ia_publicKey a of
        None \<Rightarrow> Inl No_Public_Key
      | Some publicKey \<Rightarrow>
          (case encapsulate_asymmetric (ce_encap env) publicKey of
             Inl e \<Rightarrow> Inl (Encapsulation_Failed e)
           | Inr (kyberCiphertext, sharedSecret) \<Rightarrow>
               (case encrypt_payload (ce_aes env) (ce_nonce env 0) payload sharedSecret of
                  Inl e \<Rightarrow> Inl Sealing_Failed
                | Inr (encryptedWasm, aesNonce) \<Rightarrow>
                    ebind (seal_inputs env sharedSecret 1 args) (\<lambda>encryptedInputs.
                      Inr (\<lparr>lr_session_token = ia_session_token a, lr_wasm_binary = encryptedWasm, lr_inputs = encryptedInputs,
                            lr_pqc_ciphertext = kyberCiphertext, lr_aes_nonce = Some aesNonce, lr_requested_proof_mode = None\<rparr>,
                           sharedSecret)))))"

section \<open>The stream\<close>

record call_options =
  co_zkPolicy :: "string option"
  co_circuitName :: "string option"

record tool_result =
  cr_text :: string
  cr_isError :: bool
  cr_zkVerified :: bool
  cr_zkProofType :: byte

datatype settled = Resolved tool_result | Rejected client_error

definition is_v2 :: "bytes \<Rightarrow> bool" where
  "is_v2 receipt \<longleftrightarrow> receipt \<noteq> [] \<and> hd receipt = 2"

definition verify_response ::
    "client_env \<Rightarrow> call_options \<Rightarrow> bytes \<Rightarrow> bytes \<Rightarrow> logic_response \<Rightarrow> bool" where
  "verify_response env opts payload sharedSecret response =
     (let receipt = lp_zk_receipt response;
          zkPolicy = (case co_zkPolicy opts of Some p \<Rightarrow> p | None \<Rightarrow> if is_v2 receipt then ''required'' else ''none'') in
      liop_verify_zk_receipt (ce_verifier env) (ce_vkeys env) payload (hex_of (lp_cryptographic_proof response)) receipt
        (Options \<lparr>vz_sessionSecret = Some sharedSecret, vz_expectedOutput = JStr (lp_semantic_evidence response),
                  vz_guestImageIdHex = None, vz_vkeyRaw = None, vz_zkPolicy = Some zkPolicy, vz_circuitName = co_circuitName opts\<rparr>)
        JUndef)"

definition call_result :: "logic_response \<Rightarrow> tool_result" where
  "call_result response =
     \<lparr>cr_text = lp_semantic_evidence response, cr_isError = lp_is_error response, cr_zkVerified = \<not> lp_is_error response,
      cr_zkProofType =
        (if \<not> lp_is_error response \<and> is_v2 (lp_zk_receipt response) \<and> length (lp_zk_receipt response) > 1
         then lp_zk_receipt response ! 1 else HMAC_LEGACY)\<rparr>"

text \<open>The first settlement of the promise counts; \<open>resultFulfilled\<close> and \<open>hasReceivedData\<close> are the flags of the handlers.\<close>

record stream_state =
  sr_fulfilled :: bool
  sr_hasData :: bool
  sr_pending :: "logic_response list"    \<comment> \<open>responses whose verification has not ended\<close>
  sr_settled :: "settled option"
  sr_client :: liop_client

definition settle :: "settled \<Rightarrow> stream_state \<Rightarrow> stream_state" where
  "settle r st = (case sr_settled st of None \<Rightarrow> st\<lparr>sr_settled := Some r\<rparr> | Some _ \<Rightarrow> st)"

definition fulfil :: "logic_response \<Rightarrow> stream_state \<Rightarrow> stream_state" where
  "fulfil response st = settle (Resolved (call_result response)) (st\<lparr>sr_fulfilled := True\<rparr>)"

fun on_event ::
    "client_env \<Rightarrow> call_options \<Rightarrow> bytes \<Rightarrow> bytes \<Rightarrow> string \<Rightarrow> string \<Rightarrow> stream_state \<Rightarrow> stream_event \<Rightarrow> stream_state" where
  "on_event env opts payload secret target tool st (Data response) =
     (if sr_fulfilled st then st
      else if lp_is_error response then fulfil response (st\<lparr>sr_hasData := True\<rparr>)
      else st\<lparr>sr_hasData := True, sr_pending := sr_pending st @ [response]\<rparr>)"
| "on_event env opts payload secret target tool st (Verified n) =
     (if length (sr_pending st) \<le> n then st
      else
        (let response = sr_pending st ! n; st = st\<lparr>sr_pending := take n (sr_pending st) @ drop (n + 1) (sr_pending st)\<rparr> in
         if verify_response env opts payload secret response then fulfil response st
         else settle (Rejected Integrity_Violated) st))"
| "on_event env opts payload secret target tool st (Stream_Error msg) =
     (let c = sr_client st;
          st = st\<lparr>sr_client := c\<lparr>lc_rpcClients := AList.delete tool (AList.delete target (lc_rpcClients c))\<rparr>\<rparr> in
      if sr_fulfilled st then st else settle (Rejected (Stream_Failed msg)) st)"
| "on_event env opts payload secret target tool st End =
     (if \<not> sr_hasData st \<and> \<not> sr_fulfilled st then settle (Rejected No_Results) st else st)"

definition stream_start :: "liop_client \<Rightarrow> stream_state" where
  "stream_start s = \<lparr>sr_fulfilled = False, sr_hasData = False, sr_pending = [], sr_settled = None, sr_client = s\<rparr>"

text \<open>The whole call; \<open>None\<close> as result: the stream neither ended nor answered.\<close>

definition client_call_tool ::
    "client_env \<Rightarrow> string \<Rightarrow> (string \<times> jval) list \<Rightarrow> bytes \<Rightarrow> call_options \<Rightarrow> liop_client \<Rightarrow> liop_client \<times> settled option" where
  "client_call_tool env toolName args payload opts s =
     (if \<not> lc_connected s then (s, Some (Rejected Not_Connected))
      else
        (case route env toolName s of
           (s, Inl e) \<Rightarrow> (s, Some (Rejected e))
         | (s, Inr (target, key, c)) \<Rightarrow>
             (case negotiate env key c s of
                (s, c, Inl e) \<Rightarrow> (s, Some (Rejected e))
              | (s, c, Inr a) \<Rightarrow>
                  (case seal_request env a payload args of
                     Inl e \<Rightarrow> (s, Some (Rejected e))
                   | Inr (req, secret) \<Rightarrow>
                       (let st = run (on_event env opts payload secret target toolName) (stream_start s) (ce_stream env c req) in
                        (sr_client st, sr_settled st))))))"

section \<open>Resources\<close>

text \<open>The contents are the listed metadata: uri, media type and the definition itself.\<close>

definition read_mesh_resource :: "client_env \<Rightarrow> string \<Rightarrow> liop_client \<Rightarrow> client_error + string \<times> string \<times> jval" where
  "read_mesh_resource env uri s =
     (if \<not> lc_connected s then Inl Not_Connected
      else
        (case ce_findProviders env uri of
           [] \<Rightarrow> Inl (No_Providers uri)
         | p # _ \<Rightarrow>
             (case ce_queryManifest env p of
                Inl e \<Rightarrow> Inl (Query_Failed e)
              | Inr None \<Rightarrow> Inl No_Manifest
              | Inr (Some m) \<Rightarrow>
                  (case find (\<lambda>r. mr_uri r = uri) (mf_resources m) of
                     None \<Rightarrow> Inl (Not_Listed uri)
                   | Some r \<Rightarrow>
                       Inr (uri, (case mr_mimeType r of Some (c # cs) \<Rightarrow> c # cs | _ \<Rightarrow> ''application/json''), mr_value r)))))"

end
