(* ===== verification/Client_Properties.thy ===== *)
theory Client_Properties
  imports Liop_Client Server_Properties
begin

text \<open>
  What the client guarantees: a successful call carries a verified response, a sealed request opens at
  the worker that holds the session secret, discovery names every tool once; and which token a
  connection sends where.
\<close>

section \<open>Verified results\<close>

definition answered :: "client_env \<Rightarrow> call_options \<Rightarrow> bytes \<Rightarrow> bytes \<Rightarrow> stream_event set \<Rightarrow> settled option \<Rightarrow> bool" where
  "answered env opts payload secret evs outcome \<longleftrightarrow>
     (\<forall>r. outcome = Some (Resolved r) \<longrightarrow>
        (\<exists>response. Data response \<in> evs \<and> r = call_result response \<and>
           (lp_is_error response \<or> verify_response env opts payload secret response)))"

definition stream_inv :: "client_env \<Rightarrow> call_options \<Rightarrow> bytes \<Rightarrow> bytes \<Rightarrow> stream_event set \<Rightarrow> stream_state \<Rightarrow> bool" where
  "stream_inv env opts payload secret evs st \<longleftrightarrow>
     (\<forall>response\<in>set (sr_pending st). Data response \<in> evs \<and> \<not> lp_is_error response) \<and>
     answered env opts payload secret evs (sr_settled st)"

lemma settle_simps [simp]:
  "sr_pending (settle r st) = sr_pending st" "sr_pending (fulfil response st) = sr_pending st"
  "sr_settled (settle r st) = (case sr_settled st of None \<Rightarrow> Some r | Some q \<Rightarrow> Some q)"
  "sr_settled (fulfil response st) = (case sr_settled st of None \<Rightarrow> Some (Resolved (call_result response)) | Some q \<Rightarrow> Some q)"
  by (simp_all add: settle_def fulfil_def split: option.split)

lemma on_event_inv:
  assumes "stream_inv env opts payload secret evs st" "e \<in> evs"
  shows "stream_inv env opts payload secret evs (on_event env opts payload secret target tool st e)"
proof (cases e)
  case (Data response)
  then show ?thesis using assms by (auto simp: stream_inv_def answered_def split: option.split)
next
  case (Verified n)
  have "set (take n xs @ drop (n + 1) xs) \<subseteq> set xs" for xs :: "logic_response list"
    using set_take_subset set_drop_subset by (metis Un_least set_append)
  then show ?thesis using assms Verified by (auto simp: stream_inv_def answered_def Let_def split: option.split)
qed (use assms in \<open>auto simp: stream_inv_def answered_def Let_def split: option.split\<close>)

lemma stream_run_inv:
  assumes "set es \<subseteq> evs" "stream_inv env opts payload secret evs st"
  shows "stream_inv env opts payload secret evs (run (on_event env opts payload secret target tool) st es)"
  using assms by (induction es arbitrary: st) (auto intro: on_event_inv)

text \<open>
  C6. A call that resolves without error carries the evidence of a response whose receipt the verifier accepted for
  the program sent, the secret of this session and exactly this evidence.
\<close>
theorem resolved_call_verified:
  assumes "client_call_tool env toolName args payload opts s = (s', Some (Resolved r))" "\<not> cr_isError r"
  shows "\<exists>c a req secret response. seal_request env a payload args = Inr (req, secret) \<and>
     Data response \<in> set (ce_stream env c req) \<and> \<not> lp_is_error response \<and> cr_text r = lp_semantic_evidence response \<and> cr_zkVerified r \<and>
     verify_response env opts payload secret response"
proof -
  from assms(1) obtain u target c a req secret where seal: "seal_request env a payload args = Inr (req, secret)"
    and settled: "sr_settled (run (on_event env opts payload secret target toolName) (stream_start u) (ce_stream env c req)) = Some (Resolved r)"
    by (auto simp: client_call_tool_def Let_def split: if_splits prod.splits sum.splits)
  have "stream_inv env opts payload secret (set (ce_stream env c req)) (stream_start u)"
    by (simp add: stream_inv_def answered_def stream_start_def)
  from stream_run_inv [OF order_refl this, of target toolName] settled obtain response where
    "Data response \<in> set (ce_stream env c req)" "r = call_result response"
    "lp_is_error response \<or> verify_response env opts payload secret response"
    by (auto simp: stream_inv_def answered_def)
  moreover have "cr_isError r = lp_is_error response" "cr_text r = lp_semantic_evidence response" "cr_zkVerified r \<longleftrightarrow> \<not> lp_is_error response"
    using \<open>r = call_result response\<close> by (simp_all add: call_result_def)
  ultimately show ?thesis using seal assms(2) by blast
qed

text \<open>
  The default policy of the client rejects nothing: without an explicit \<open>zkPolicy\<close> a response is accepted exactly
  when it is accepted under \<open>none\<close>. What proof a tool advertises plays no part, and a server that
  answers with a version 1 receipt is believed on the shared secret alone.
\<close>
theorem default_policy_vacuous:
  "verify_response env \<lparr>co_zkPolicy = None, co_circuitName = circuit\<rparr> payload secret response =
   verify_response env \<lparr>co_zkPolicy = Some ''none'', co_circuitName = circuit\<rparr> payload secret response"
proof (cases "is_v2 (lp_zk_receipt response)")
  case True
  let ?t = "task_of (ce_vkeys env) payload (hex_of (lp_cryptographic_proof response)) (lp_zk_receipt response)
      (Options \<lparr>vz_sessionSecret = Some secret, vz_expectedOutput = JStr (lp_semantic_evidence response),
        vz_guestImageIdHex = None, vz_vkeyRaw = None, vz_zkPolicy = Some ''none'', vz_circuitName = circuit\<rparr>) JUndef"
  have "worker_verify_receipt (ce_verifier env) (?t\<lparr>zt_zkPolicy := Some ''required''\<rparr>) = worker_verify_receipt (ce_verifier env) ?t"
  proof -
    have "dr_version d \<noteq> RECEIPT_VERSION_V1" if "decode (ve_sha (ce_verifier env)) (lp_zk_receipt response) = Inr d" for d
      using decode_version [OF that] True by (auto simp: is_v2_def hd_conv_nth receipt_consts)
    then show ?thesis
      by (auto simp: worker_verify_receipt_def task_of_def verify_v2_def Let_def split: sum.split list.split option.split)
  qed
  moreover have "?t\<lparr>zt_zkPolicy := Some ''required''\<rparr> = task_of (ce_vkeys env) payload (hex_of (lp_cryptographic_proof response)) (lp_zk_receipt response)
      (Options \<lparr>vz_sessionSecret = Some secret, vz_expectedOutput = JStr (lp_semantic_evidence response),
        vz_guestImageIdHex = None, vz_vkeyRaw = None, vz_zkPolicy = Some ''required'', vz_circuitName = circuit\<rparr>) JUndef"
    by (simp add: task_of_def Let_def)
  ultimately show ?thesis using True by (simp add: verify_response_def liop_verify_zk_receipt_def Let_def)
next
  case False
  then show ?thesis by (simp add: verify_response_def)
qed

section \<open>Sealing and opening\<close>

text \<open>The values the worker sees for the inputs: what is left of them after printing and parsing.\<close>

fun received_inputs :: "verifier_env \<Rightarrow> (string \<times> jval) list \<Rightarrow> worker_inputs \<Rightarrow> worker_inputs option" where
  "received_inputs env [] ins = Some ins"
| "received_inputs env ((k, v) # rest) ins =
     Option.bind (ve_parse env (ve_stringify env v)) (\<lambda>w. received_inputs env rest (add_input k w ins))"

lemma open_box_seal:
  assumes "gcm_correct a"
  shows "open_box a key nonce (fst (ag_seal a key nonce p) @ snd (ag_seal a key nonce p)) = Some p"
  using assms by (simp add: open_box_def gcm_correct_def)

lemma sealed_inputs_open:
  assumes "gcm_correct (wh_aes h)" "ce_aes env = wh_aes h" "ce_verifier env = wh_env h" "\<forall>s. ve_text (wh_env h) (utf8 s) = s"
    and "\<forall>i. length (ce_nonce env i) = 12" "seal_inputs env key i args = Inr sealed" "received_inputs (wh_env h) args ins = Some ins'"
  shows "decrypt_inputs h key sealed ins = Inr ins'"
  using assms(6,7)
proof (induction args arbitrary: i ins sealed)
  case (Cons kv rest)
  obtain k v where kv: "kv = (k, v)" by fastforce
  let ?e = "ag_seal (wh_aes h) key (ce_nonce env i) (utf8 (ve_stringify (wh_env h) v))"
  from Cons.prems(1) obtain more_sealed where sealed: "seal_inputs env key (i + 1) rest = Inr more_sealed"
    "sealed = (k, ce_nonce env i @ fst ?e @ snd ?e) # more_sealed"
    using assms(2,3) by (auto simp: kv case_prod_beta)
  from Cons.prems(2) obtain w where w: "ve_parse (wh_env h) (ve_stringify (wh_env h) v) = Some w"
    "received_inputs (wh_env h) rest (add_input k w ins) = Some ins'"
    by (auto simp: kv Option.bind_eq_Some_conv)
  let ?buf = "ce_nonce env i @ fst ?e @ snd ?e"
  have len: "length (snd ?e) = 16" "length (ce_nonce env i) = 12" using assms(1,5) by (simp_all add: gcm_correct_def)
  have parts: "take 12 ?buf = ce_nonce env i" "drop (length ?buf - 16) ?buf = snd ?e" "drop 12 (take (length ?buf - 16) ?buf) = fst ?e"
    using len by simp_all
  have "ag_open (wh_aes h) key (ce_nonce env i) (fst ?e) (snd ?e) = Some (utf8 (ve_stringify (wh_env h) v))"
    using assms(1) by (simp add: gcm_correct_def)
  then show ?case
    using Cons.IH [OF sealed(1) w(2)] w(1) assms(4) by (simp only: sealed(2) decrypt_inputs.simps Let_def parts) simp
qed simp

lemma sealed_request_opened:
  assumes "gcm_correct (wh_aes h)" "ce_aes env = wh_aes h" "ce_verifier env = wh_env h" "\<forall>s. ve_text (wh_env h) (utf8 s) = s"
    and "\<forall>i. length (ce_nonce env i) = 12" "\<forall>pk ct ss. ce_encap env pk = Some (ct, ss) \<and> ia_publicKey a = Some pk \<longrightarrow> wh_decap h ct sk = Some ss"
    and "seal_request env a payload args = Inr (req, secret)" "received_inputs (wh_env h) args ([], JUndef) = Some ins"
    and "wd_ciphertext d = lr_pqc_ciphertext req" "wd_secretKey d = sk" "wd_wasmBinary d = lr_wasm_binary req" "wd_inputs d = lr_inputs req"
    and "wd_aesNonce d = lr_aes_nonce req" "wd_isEncrypted d = Some True"
  shows "open_request h d = Inr (payload, ins, secret)"
proof -
  from assms(7) obtain pk ct where pk: "ia_publicKey a = Some pk" "ce_encap env pk = Some (ct, secret)"
    and req: "encrypt_payload (wh_aes h) (ce_nonce env 0) payload secret = Inr (lr_wasm_binary req, the (lr_aes_nonce req))"
      "lr_pqc_ciphertext req = ct" "seal_inputs env secret 1 args = Inr (lr_inputs req)" "lr_aes_nonce req \<noteq> None"
    using assms(2) by (auto simp: seal_request_def encapsulate_asymmetric_def split: option.splits sum.splits prod.splits)
  obtain n where n: "lr_aes_nonce req = Some n" using req(4) by blast
  have "lr_wasm_binary req = fst (ag_seal (wh_aes h) secret n payload) @ snd (ag_seal (wh_aes h) secret n payload)"
    using req(1) n by (auto simp: encrypt_payload_def case_prod_beta)
  then have "open_box (wh_aes h) secret n (lr_wasm_binary req) = Some payload" using open_box_seal [OF assms(1)] by simp
  moreover have "decrypt_inputs h secret (lr_inputs req) ([], JUndef) = Inr ins"
    by (rule sealed_inputs_open [OF assms(1-5) req(3) assms(8)])
  moreover have "wh_decap h ct sk = Some secret" using assms(6) pk by blast
  ultimately show ?thesis using assms(9-14) req(2) n by (simp add: open_request_def)
qed

text \<open>
  C27. What the client seals the worker opens: with the session's secret key the worker recovers the program, the shared
  secret, and every input as its JSON text reads back.
\<close>
theorem sealed_request_opens:
  assumes "gcm_correct (wh_aes h)" "ce_aes env = wh_aes h" "ce_verifier env = wh_env h" "\<forall>s. ve_text (wh_env h) (utf8 s) = s"
    and "\<forall>i. length (ce_nonce env i) = 12" "\<forall>pk ct ss. ce_encap env pk = Some (ct, ss) \<and> ia_publicKey a = Some pk \<longrightarrow> wh_decap h ct (gs_kyber_sk ses) = Some ss"
    and "seal_request env a payload args = Inr (req, secret)" "received_inputs (wh_env h) args ([], JUndef) = Some ins"
  shows "open_request h (remote_task s req ses policy) = Inr (payload, ins, secret)"
  by (rule sealed_request_opened [OF assms]) (simp_all add: remote_task_def)

section \<open>Addresses and discovery\<close>

lemma ip4_in_addrs: "ip \<in> set (List.map_filter ip4_of addrs) \<longleftrightarrow> (\<exists>maddr\<in>set addrs. ip4_of maddr = Some ip)"
  by (force simp: List.map_filter_def)

text \<open>
  \<open>selectOptimalIp\<close> picks an announced IPv4 address whenever there is one, and a loopback or wildcard address only
  when nothing else is announced.
\<close>
theorem select_optimal_ip_exact:
  "(select_optimal_ip addrs = None \<longleftrightarrow> (\<forall>maddr\<in>set addrs. ip4_of maddr = None)) \<and>
   (\<forall>ip. select_optimal_ip addrs = Some ip \<longrightarrow>
      (\<exists>maddr\<in>set addrs. ip4_of maddr = Some ip) \<and>
      (routable ip \<or> (\<forall>maddr\<in>set addrs. \<forall>other. ip4_of maddr = Some other \<longrightarrow> \<not> routable other)))"
proof -
  let ?ips = "List.map_filter ip4_of addrs"
  have none: "?ips = [] \<longleftrightarrow> (\<forall>maddr\<in>set addrs. ip4_of maddr = None)"
    using ip4_in_addrs [of _ addrs] by (metis ex_in_conv not_None_eq set_empty)
  show ?thesis
  proof (cases "find routable ?ips")
    case None
    then have "\<forall>ip\<in>set ?ips. \<not> routable ip" by (simp add: find_None_iff)
    with None have all: "select_optimal_ip addrs = (case ?ips of [] \<Rightarrow> None | ip # _ \<Rightarrow> Some ip)"
      "\<And>maddr ip. maddr \<in> set addrs \<Longrightarrow> ip4_of maddr = Some ip \<Longrightarrow> \<not> routable ip"
      using ip4_in_addrs [of _ addrs] by (auto simp: select_optimal_ip_def)
    show ?thesis
    proof (cases ?ips)
      case Nil
      then show ?thesis using all none by simp
    next
      case (Cons ip ips)
      then have "\<exists>maddr\<in>set addrs. ip4_of maddr = Some ip" using ip4_in_addrs [of ip addrs] by simp
      then show ?thesis using all Cons none by auto
    qed
  next
    case (Some ip)
    then have "ip \<in> set ?ips" "routable ip" by (auto simp: find_Some_iff)
    then show ?thesis using Some none ip4_in_addrs [of ip addrs] by (auto simp: select_optimal_ip_def Let_def)
  qed
qed

text \<open>The tools of a list of manifests, the first of each name.\<close>

fun first_by_name :: "tool_list \<Rightarrow> tool_list" where
  "first_by_name [] = []"
| "first_by_name (t # ts) = t # filter (\<lambda>u. fst u \<noteq> fst t) (first_by_name ts)"

definition offered :: "client_env \<Rightarrow> bool \<Rightarrow> liop_client \<Rightarrow> string \<Rightarrow> liop_manifest option" where
  "offered env forceRefresh s peerId =
     (case if forceRefresh then None else map_of (lc_manifests s) peerId of
        Some m \<Rightarrow> Some m
      | None \<Rightarrow> (case ce_queryManifest env peerId of Inr found \<Rightarrow> found | Inl e \<Rightarrow> None))"

definition offers :: "liop_manifest \<Rightarrow> tool_list" where
  "offers m = map (\<lambda>t. (mt_name t, mt_description t)) (mf_tools m)"

lemma add_tool_first: "fold add_tool ts tools = tools @ filter (\<lambda>u. fst u \<notin> fst ` set tools) (first_by_name (map (\<lambda>t. (mt_name t, mt_description t)) ts))"
proof (induction ts arbitrary: tools)
  case (Cons t ts)
  let ?rest = "first_by_name (map (\<lambda>t. (mt_name t, mt_description t)) ts)"
  show ?case
  proof (cases "mt_name t \<in> fst ` set tools")
    case True
    have "filter (\<lambda>u. fst u \<notin> fst ` set tools) (filter (\<lambda>u. fst u \<noteq> mt_name t) ?rest) = filter (\<lambda>u. fst u \<notin> fst ` set tools) ?rest"
      unfolding filter_filter by (rule filter_cong [OF refl]) (use True in metis)
    then show ?thesis using Cons.IH [of tools] True by (simp add: add_tool_def)
  next
    case False
    have "filter (\<lambda>u. fst u \<notin> fst ` set (tools @ [(mt_name t, mt_description t)])) ?rest =
        filter (\<lambda>u. fst u \<notin> fst ` set tools) (filter (\<lambda>u. fst u \<noteq> mt_name t) ?rest)"
      unfolding filter_filter by (rule filter_cong [OF refl]) simp
    then show ?thesis using Cons.IH [of "tools @ [(mt_name t, mt_description t)]"] False by (simp add: add_tool_def)
  qed
qed simp

lemma first_by_name_append:
  "first_by_name (xs @ ys) = first_by_name xs @ filter (\<lambda>u. fst u \<notin> fst ` set (first_by_name xs)) (first_by_name ys)"
proof (induction xs)
  case (Cons x xs)
  have "filter (\<lambda>u. fst u \<noteq> fst x) (filter (\<lambda>u. fst u \<notin> fst ` set (first_by_name xs)) (first_by_name ys)) =
      filter (\<lambda>u. fst u \<notin> fst ` set (x # filter (\<lambda>u. fst u \<noteq> fst x) (first_by_name xs))) (first_by_name ys)"
    by (auto intro!: filter_cong)
  then show ?case by (simp add: Cons.IH)
qed simp

lemma fold_add_tool: "fold add_tool (mf_tools m) (first_by_name xs) = first_by_name (xs @ offers m)"
  by (simp add: add_tool_first first_by_name_append offers_def)

lemma offered_update:
  "ce_queryManifest env peerId = Inr (Some m) \<Longrightarrow>
   (if forceRefresh then None else map_of (lc_manifests s) peerId) = None \<Longrightarrow>
   offered env forceRefresh (s\<lparr>lc_manifests := AList.update peerId m (lc_manifests s)\<rparr>) = offered env forceRefresh s"
  by (rule ext) (auto simp: offered_def jm.get_put)

lemma discover_first:
  "snd (discover env forceRefresh ps (s, first_by_name xs)) =
   first_by_name (xs @ concat (map offers (List.map_filter (offered env forceRefresh s) ps)))"
proof (induction ps arbitrary: s xs)
  case Nil
  then show ?case by (simp add: List.map_filter_simps)
next
  case (Cons p ps)
  show ?case
  proof (cases "if forceRefresh then None else map_of (lc_manifests s) p")
    case (Some m)
    then have "offered env forceRefresh s p = Some m" by (simp add: offered_def)
    then show ?thesis using Some Cons.IH [of s "xs @ offers m"] by (simp add: List.map_filter_simps fold_add_tool)
  next
    case None
    note uncached = None
    show ?thesis
    proof (cases "\<exists>m. ce_queryManifest env p = Inr (Some m)")
      case True
      then obtain m where m: "ce_queryManifest env p = Inr (Some m)" by blast
      then have "offered env forceRefresh s p = Some m" using uncached by (simp add: offered_def)
      then show ?thesis
        using m uncached Cons.IH [of "s\<lparr>lc_manifests := AList.update p m (lc_manifests s)\<rparr>" "xs @ offers m"] offered_update [OF m uncached]
        by (simp add: List.map_filter_simps fold_add_tool)
    next
      case False
      then have "offered env forceRefresh s p = None" using uncached by (auto simp: offered_def split: sum.split option.split)
      moreover have "discover env forceRefresh (p # ps) (s, first_by_name xs) = discover env forceRefresh ps (s, first_by_name xs)"
        using uncached False by (auto split: sum.split option.split)
      ultimately show ?thesis using Cons.IH [of s xs] by (simp add: List.map_filter_simps)
    qed
  qed
qed

lemma distinct_first_by_name: "distinct (map fst (first_by_name ts))"
  by (induction ts) (auto simp: distinct_map_filter)

text \<open>
  Discovery lists every tool once. Whatever is cached and whichever queries fail, the result is the tools of the
  manifests of the providers in order, cached or freshly queried, each name with its first description.
\<close>
theorem discover_tools_first_wins:
  assumes "discover_tools env forceRefresh s = (s', Inr tools)"
  shows "tools = first_by_name (concat (map offers (List.map_filter (offered env forceRefresh s) (ce_discover env)))) \<and>
     distinct (map fst tools)"
proof -
  have "tools = snd (discover env forceRefresh (ce_discover env) (s, first_by_name []))"
    using assms by (auto simp: discover_tools_def split: if_splits prod.splits)
  then show ?thesis using discover_first [of env forceRefresh "ce_discover env" s "[]"] distinct_first_by_name by simp
qed

section \<open>Tokens\<close>

text \<open>
  A token can reach the wrong peer. When a tool is resolved through the mesh, the connection is kept under the name of
  the tool and takes the token of the first cached manifest that lists such a tool, not of the provider it
  connects to.
\<close>
theorem mesh_connection_uses_first_listing:
  assumes "lc_connected s" "map_of (lc_rpcClients s) ''static'' = None" "map_of (lc_rpcClients s) tool = None"
    and "map_of (lc_manifests s) owner = Some m" "lc_manifests s = (owner, m) # rest" "lists_tool tool m"
    and "fast_path env tool (lc_manifests s) s = None" "tool \<notin> fst ` set (lc_manifests s)"
    and "ce_findProviders env tool = provider # others" "ce_queryManifest env provider = Inr (Some pm)" "provider \<noteq> tool" "provider \<noteq> owner"
    and "mf_tokenSlug m = Some slug" "slug \<noteq> []" "ce_variable env (''LIOP_TOKEN_'' @ slug) = Some token" "token \<noteq> []"
    and "select_optimal_ip (ce_resolvePeer env provider) = Some ip" "ip \<noteq> []"
  shows "\<exists>s' c. route env tool s = (s', Inr (tool, tool, c)) \<and> rc_address c = target_of ip (mf_grpcPort pm) \<and>
     active_token env s' c = Some token"
proof -
  let ?u = "s\<lparr>lc_manifests := AList.update provider pm (lc_manifests s)\<rparr>"
  obtain i j where ip: "ip = i # j" using assms(18) by (cases ip) auto
  have res: "resolve_capability env tool s = (?u, Inr (target_of ip (mf_grpcPort pm)))"
    using assms(1,9,10,17) by (simp add: resolve_capability_def ip Let_def)
  have cached: "lc_manifests ?u = (owner, m) # AList.update provider pm rest" using assms(5,12) by simp
  have "map_of (lc_manifests s) tool = None" using assms(8) by (simp add: map_of_eq_None_iff)
  then have "map_of (lc_manifests ?u) tool = None" using assms(11) by (simp add: jm.get_put)
  then have "owner_of tool ?u = (owner, Some m)" unfolding owner_of_def using assms(6) cached by simp
  moreover obtain t ts where "token = t # ts" using assms(16) by (cases token) auto
  ultimately have tok: "env_token env (owner_of tool ?u) = Some token"
    using assms(13-15) by (simp add: env_token_def token_variable_def node_variable_def)
  show ?thesis
    using assms(2,3,7) res tok by (simp add: route_def get_or_create_rpc_client_def active_token_def Let_def)
qed

text \<open>
  A refusal can obtain the managed token. A provider for which the client holds a token of its own refuses
  with a message that mentions a token: the client repeats the request with the token of its token manager, and
  keeps sending that one to this provider.
\<close>
theorem refusal_elicits_managed_token:
  assumes "lc_managed s" "ce_negotiate env c 0 = Answered a" "\<not> ia_accepted a" "str_includes (ia_error_message a) ''token''"
    and "ce_freshToken env = Some fresh" "ce_negotiate env (c\<lparr>rc_token := Fixed_Token fresh\<rparr>) 1 = Answered b" "ia_accepted b"
  shows "\<exists>s' c'. negotiate env key c s = (s', c', Inr b) \<and> active_token env s' c' = Some fresh \<and>
     map_of (lc_rpcClients s') key = Some c' \<and> rc_address c' = rc_address c"
  using assms
  by (simp add: negotiate_def negotiate_first_def mentions_def refresh_token_def active_token_def jm.get_put Let_def)

section \<open>A concrete client\<close>

definition demo_client_env :: client_env where
  "demo_client_env = \<lparr>ce_findProviders = (\<lambda>_. []), ce_discover = [], ce_queryManifest = (\<lambda>_. Inr None), ce_resolvePeer = (\<lambda>_. []),
     ce_variable = (\<lambda>_. None), ce_freshToken = None, ce_negotiate = (\<lambda>_ _. Rpc_Failed ''down''), ce_encap = (\<lambda>_. Some ([], replicate 32 0)),
     ce_aes = demo_gcm, ce_nonce = (\<lambda>_. replicate 12 0), ce_stream = (\<lambda>_ _. []), ce_verifier = demo_env, ce_vkeys = []\<rparr>"

abbreviation demo_answer :: intent_response where
  "demo_answer \<equiv> \<lparr>ir_session_token = ''t'', ir_kyber_public_key = replicate 1184 0\<rparr>"

lemma demo_sealed:
  "seal_request demo_client_env (reply_of demo_answer) (utf8 ''return records.length'') [] = Inr (demo_request None, replicate 32 0)"
  by (simp add: seal_request_def reply_of_def encapsulate_asymmetric_def demo_client_env_def encrypt_payload_def demo_gcm_def demo_request_def)

lemma demo_parties:
  "host_faithful (ne_host demo_node_env)" "codec_faithful (ne_host demo_node_env)" "gcm_correct (wh_aes (ne_host demo_node_env))"
  "prints_json demo_node_env" "json_parser (ne_parse demo_node_env)" "ce_aes demo_client_env = wh_aes (ne_host demo_node_env)"
  "ce_verifier demo_client_env = wh_env (ne_host demo_node_env)" "\<forall>i. length (ce_nonce demo_client_env i) = 12"
  "\<forall>ct ss. ce_encap demo_client_env (replicate 1184 0) = Some (ct, ss) \<longrightarrow> wh_decap (ne_host demo_node_env) ct [] = Some ss"
proof -
  have "gcm_correct demo_gcm" by (auto simp: gcm_correct_def demo_gcm_def)
  then show "gcm_correct (wh_aes (ne_host demo_node_env))" by (simp add: demo_host_def)
qed (simp_all add: demo_host_faithful demo_prints demo_json_parser demo_client_env_def, simp_all add: demo_host_def)

theorem sealed_request_opens_witness:
  "open_request demo_host (remote_task demo_node (demo_request None) (demo_session ''count'') None) =
     Inr (utf8 ''return records.length'', ([], JUndef), replicate 32 0)"
proof -
  have "\<forall>pk ct ss. ce_encap demo_client_env pk = Some (ct, ss) \<and> ia_publicKey (reply_of demo_answer) = Some pk \<longrightarrow>
      wh_decap demo_host ct (gs_kyber_sk (demo_session ''count'')) = Some ss"
    by (simp add: demo_client_env_def demo_host_def)
  moreover have "\<forall>s. ve_text (wh_env demo_host) (utf8 s) = s" using demo_host_faithful by (simp add: host_faithful_def)
  ultimately show ?thesis
    using sealed_request_opens [of demo_host demo_client_env "reply_of demo_answer" "demo_session ''count''"] demo_parties demo_sealed by simp
qed

text \<open>Two peers list the same tool; only the second one can be reached.\<close>

definition demo_manifest :: "int \<Rightarrow> string option \<Rightarrow> liop_manifest" where
  "demo_manifest port slug = \<lparr>mf_peerId = [], mf_grpcPort = port,
     mf_tools = [\<lparr>mt_name = ''sum'', mt_description = None, mt_inputSchema = JUndef\<rparr>], mf_resources = [],
     mf_serverName = None, mf_taxonomy = None, mf_authRequired = False, mf_tokenSlug = slug, mf_pqcSignature = None,
     mf_pqcPublicKey = None, mf_object = []\<rparr>"

definition demo_mesh :: client_env where
  "demo_mesh = demo_client_env\<lparr>ce_findProviders := (\<lambda>_. [''B'']), ce_discover := [''A'', ''B''],
     ce_queryManifest := (\<lambda>p. if p = ''B'' then Inr (Some (demo_manifest 7 None)) else Inl ''offline''),
     ce_resolvePeer := (\<lambda>p. if p = ''B'' then [''/ip4/10.0.0.2/tcp/1''] else []),
     ce_variable := (\<lambda>v. if v = ''LIOP_TOKEN_ALPHA'' then Some ''secret'' else None)\<rparr>"

definition demo_client :: liop_client where
  "demo_client = \<lparr>lc_connected = True, lc_rpcClients = [], lc_manifests = [(''A'', demo_manifest 5 (Some ''ALPHA''))],
     lc_oauthToken = None, lc_managed = False\<rparr>"

theorem discover_tools_first_wins_witness:
  "\<exists>s'. discover_tools demo_mesh False demo_client = (s', Inr [(''sum'', None)]) \<and> distinct (map fst [(''sum'', None :: string option)])"
proof -
  have "\<exists>s'. discover_tools demo_mesh False demo_client = (s', Inr [(''sum'', None)])"
    by (simp add: discover_tools_def demo_mesh_def demo_client_env_def demo_client_def demo_manifest_def add_tool_def)
  then show ?thesis using discover_tools_first_wins by blast
qed

theorem mesh_connection_uses_first_listing_witness:
  "\<exists>s' c. route demo_mesh ''sum'' demo_client = (s', Inr (''sum'', ''sum'', c)) \<and> rc_address c = target_of ''10.0.0.2'' 7 \<and>
     active_token demo_mesh s' c = Some ''secret''"
proof -
  have ip: "select_optimal_ip [''/ip4/10.0.0.2/tcp/1''] = Some ''10.0.0.2''" by code_simp
  have none: "select_optimal_ip [] = None" by code_simp
  have port: "mf_grpcPort (demo_manifest 7 None) = 7" by (simp add: demo_manifest_def)
  have "\<exists>s' c. route demo_mesh ''sum'' demo_client = (s', Inr (''sum'', ''sum'', c)) \<and>
      rc_address c = target_of ''10.0.0.2'' (mf_grpcPort (demo_manifest 7 None)) \<and> active_token demo_mesh s' c = Some ''secret''"
    by (rule mesh_connection_uses_first_listing [where owner = "''A''" and m = "demo_manifest 5 (Some ''ALPHA'')" and rest = "[]"
          and provider = "''B''" and others = "[]" and slug = "''ALPHA''"])
      (simp_all add: demo_client_def demo_mesh_def demo_client_env_def ip none, simp_all add: demo_manifest_def lists_tool_def)
  then show ?thesis using port by simp
qed

definition demo_refusing :: client_env where
  "demo_refusing = demo_client_env\<lparr>ce_freshToken := Some ''managed'', ce_negotiate := (\<lambda>c n. Answered \<lparr>ia_accepted = (n = 1),
       ia_error_message = ''bad token'', ia_publicKey = None, ia_session_token = []\<rparr>)\<rparr>"

theorem refusal_elicits_managed_token_witness:
  "\<exists>s' c' b. negotiate demo_refusing ''B'' \<lparr>rc_address = ''x'', rc_token = Resolver (Some ''own'')\<rparr> (demo_client\<lparr>lc_managed := True\<rparr>) = (s', c', Inr b) \<and>
   active_token demo_refusing s' c' = Some ''managed''"
proof -
  let ?c = "\<lparr>rc_address = ''x'', rc_token = Resolver (Some ''own'')\<rparr>"
  let ?a = "\<lambda>ok. \<lparr>ia_accepted = ok, ia_error_message = ''bad token'', ia_publicKey = None, ia_session_token = []\<rparr>"
  have word: "str_includes ''bad token'' ''token''" by code_simp
  have "lc_managed (demo_client\<lparr>lc_managed := True\<rparr>)" "ce_negotiate demo_refusing ?c 0 = Answered (?a False)" "\<not> ia_accepted (?a False)"
    "str_includes (ia_error_message (?a False)) ''token''" "ce_freshToken demo_refusing = Some ''managed''"
    "ce_negotiate demo_refusing (?c\<lparr>rc_token := Fixed_Token ''managed''\<rparr>) 1 = Answered (?a True)" "ia_accepted (?a True)"
    using word by (simp_all add: demo_refusing_def)
  from refusal_elicits_managed_token [OF this, of "''B''"] show ?thesis by blast
qed

end
