(* ===== verification/Mcp_Router.thy ===== *)
theory Mcp_Router
  imports Liop_Client Mcp_Bridge
begin

text \<open>
  \<open>gateway/router.ts\<close> and \<open>utils/mcpCompact.ts\<close>: the gateway between MCP clients and the mesh, with its
  cache of manifests, its circuit breaker, the names under which remote tools are listed and found again, the
  choice of a token and of an address, the proxied call over gRPC and the dispatcher.

  The local server, the mesh node, the process environment, the authorization server, the remote hosts and the
  libraries are the record \<open>router_env\<close>; the mesh answers the same throughout one request, except that every
  discovery has a number. A discovery runs to its end before the request goes on, which is how a second
  request that finds one running waits for it. Log output, metrics and telemetry are left out.
\<close>

section \<open>Descriptions\<close>

text \<open>The text before the first occurrence of a pattern, and the rest from it on.\<close>

fun split_at :: "string \<Rightarrow> string \<Rightarrow> (string \<times> string) option" where
  "split_at pat s =
     (if starts_with s pat then Some ([], s)
      else (case s of [] \<Rightarrow> None | c # cs \<Rightarrow> map_option (map_prod ((#) c) id) (split_at pat cs)))"

declare split_at.simps [simp del]

definition replace_first :: "string \<Rightarrow> string \<Rightarrow> string \<Rightarrow> string" where
  "replace_first pat new s = (case split_at pat s of None \<Rightarrow> s | Some (u, v) \<Rightarrow> u @ new @ drop (length pat) v)"

definition trim_end :: "string \<Rightarrow> string" where
  "trim_end s = rev (dropWhile js_space (rev s))"

definition mcp_compact_tool_descriptions :: "(string \<Rightarrow> string option) \<Rightarrow> bool" where
  "mcp_compact_tool_descriptions env =
     (case map_option (trim \<circ> to_lower) (env ''LIOP_MCP_COMPACT_TOOL_DESCRIPTIONS'') of
        Some v \<Rightarrow> \<not> (v = ''0'' \<or> v = ''false'' \<or> v = ''no'')
      | None \<Rightarrow> True)"

abbreviation nl :: string where "nl \<equiv> [CHR 0x0A]"
abbreviation crlf :: string where "crlf \<equiv> [CHR 0x0D, CHR 0x0A]"

fun cut_at_marker :: "string list \<Rightarrow> string \<Rightarrow> string" where
  "cut_at_marker [] d = d"
| "cut_at_marker (m # ms) d = (case split_at m d of Some (u, v) \<Rightarrow> u | None \<Rightarrow> cut_at_marker ms d)"

definition strip_verbose_liop_tool_description :: "string \<Rightarrow> string" where
  "strip_verbose_liop_tool_description description =
     trim_end (cut_at_marker
       [nl @ nl @ ''[LIOP-PROTO-V1:'', crlf @ crlf @ ''[LIOP-PROTO-V1:'', nl @ ''[LIOP-PROTO-V1:''] description)"

section \<open>State\<close>

record mesh_ops =
  mo_self :: string
  mo_connections :: "string list"
  mo_bootstrap :: "string list"
  mo_tableSize :: nat
  mo_discover :: "nat \<Rightarrow> string list"            \<comment> \<open>the answer to every discovery\<close>
  mo_query :: "string \<Rightarrow> string + liop_manifest option"
  mo_arrival :: "string list \<Rightarrow> string list"     \<comment> \<open>the order in which the queried peers answer\<close>
  mo_find :: "nat \<Rightarrow> string \<Rightarrow> string list"
  mo_resolve :: "string \<Rightarrow> string list"
  mo_sign :: "bytes \<Rightarrow> bytes"

datatype router_event = Reply logic_response | Ended | Checked | Check_Raised | Failed string

record router_env =
  rv_variable :: "string \<Rightarrow> string option"
  rv_codec :: codec
  rv_dsa :: ml_dsa
  rv_le :: "string \<Rightarrow> string \<Rightarrow> bool"
  rv_parse :: "string \<Rightarrow> jval option"
  rv_stringify :: "jval \<Rightarrow> string"
  rv_jwtActive :: bool
  rv_server :: server_ops
  rv_statusBlock :: string
  rv_nexus :: "string \<Rightarrow> (string \<times> string) list \<Rightarrow> string option"  \<comment> \<open>the token a POST of the form yields\<close>
  rv_interfaces :: "string list"
  rv_mesh :: "mesh_ops option"
  rv_defaultRpcPort :: int
  rv_negotiate :: "string \<Rightarrow> string option \<Rightarrow> string \<Rightarrow> bytes \<Rightarrow> negotiation"
  rv_encap :: "bytes \<Rightarrow> (bytes \<times> bytes) option"
  rv_aes :: aes_gcm
  rv_nonce :: bytes
  rv_execute :: "string \<Rightarrow> string option \<Rightarrow> logic_request \<Rightarrow> router_event list"
  rv_verifier :: verifier_env
  rv_vkeys :: vkey_registry

record discovery_stats =
  ds_candidates :: nat
  ds_success :: nat
  ds_failures :: nat

type_synonym manifest_cache = "(string, liop_manifest \<times> time_ms) js_map"

record mcp_router =
  ro_cache :: manifest_cache
  ro_failures :: breaker
  ro_meshAgentToken :: "string option"
  ro_stats :: discovery_stats

definition get_manifest_cache_size :: "mcp_router \<Rightarrow> nat" where
  "get_manifest_cache_size s = length (ro_cache s)"

section \<open>The circuit breaker of the router\<close>

definition MANIFEST_FAILURE_BASE_COOLDOWN_MS :: int where "MANIFEST_FAILURE_BASE_COOLDOWN_MS = 15000"
definition MANIFEST_FAILURE_MAX_COOLDOWN_MS :: int where "MANIFEST_FAILURE_MAX_COOLDOWN_MS = 5 * 60000"
definition MANIFEST_SKIP_LOG_THROTTLE_MS :: int where "MANIFEST_SKIP_LOG_THROTTLE_MS = 30000"

definition should_skip_manifest_query :: "time_ms \<Rightarrow> string \<Rightarrow> breaker \<Rightarrow> breaker \<times> bool" where
  "should_skip_manifest_query = breaker_skip MANIFEST_SKIP_LOG_THROTTLE_MS"

definition record_manifest_query_success :: "string \<Rightarrow> breaker \<Rightarrow> breaker" where
  "record_manifest_query_success peerId st = AList.delete peerId st"

definition record_manifest_query_failure :: "time_ms \<Rightarrow> string \<Rightarrow> breaker \<Rightarrow> breaker" where
  "record_manifest_query_failure = breaker_failure MANIFEST_FAILURE_BASE_COOLDOWN_MS MANIFEST_FAILURE_MAX_COOLDOWN_MS"

interpretation query: circuit_breaker record_manifest_query_failure should_skip_manifest_query record_manifest_query_success
    failures_of until_of MANIFEST_FAILURE_BASE_COOLDOWN_MS MANIFEST_FAILURE_MAX_COOLDOWN_MS
  by unfold_locales
    (simp_all add: record_manifest_query_failure_def should_skip_manifest_query_def record_manifest_query_success_def breaker_laws)

section \<open>Discovery\<close>

definition MANIFEST_CACHE_TTL_S :: int where "MANIFEST_CACHE_TTL_S = 300"
definition MANIFEST_DISCOVERY_RETRIES :: nat where "MANIFEST_DISCOVERY_RETRIES = 5"

definition remote_ids :: "mesh_ops \<Rightarrow> string list \<Rightarrow> string list" where
  "remote_ids mo peers = filter (\<lambda>p. p \<noteq> mo_self mo) peers"

text \<open>The retries of one attempt, from discovery number \<open>k\<close>; the result has the number of the next.\<close>

fun discover_retry :: "mesh_ops \<Rightarrow> nat \<Rightarrow> nat \<Rightarrow> string list \<times> nat" where
  "discover_retry mo 0 k = ([], k)"
| "discover_retry mo (Suc n) k =
     (if remote_ids mo (mo_discover mo k) \<noteq> [] \<or> n = 0 then (mo_discover mo k, k + 1) else discover_retry mo n (k + 1))"

definition merge_active :: "mesh_ops \<Rightarrow> string list \<Rightarrow> string list" where
  "merge_active mo peers = (if mo_connections mo \<noteq> [] then fold set_add (peers @ mo_connections mo) [] else peers)"

fun gather_providers :: "mesh_ops \<Rightarrow> nat \<Rightarrow> nat \<Rightarrow> string list \<times> nat" where
  "gather_providers mo 0 k = ([], k)"
| "gather_providers mo (Suc n) k =
     (case discover_retry mo MANIFEST_DISCOVERY_RETRIES k of
        (peers, k') \<Rightarrow>
          (let providers = merge_active mo peers in
           if remote_ids mo providers \<noteq> [] \<or> n = 0 then (providers, k') else gather_providers mo n k'))"

definition connected_first :: "mesh_ops \<Rightarrow> string list \<Rightarrow> string list" where
  "connected_first mo peers = sort_key (\<lambda>p. if p \<in> set (mo_connections mo) then 0 else 1 :: nat) peers"

definition fresh :: "time_ms \<Rightarrow> liop_manifest \<times> time_ms \<Rightarrow> bool" where
  "fresh now entry \<longleftrightarrow> now - snd entry < MANIFEST_CACHE_TTL_S * 1000"

text \<open>The filter over the candidates: it counts the cached ones and moves the breaker's log times.\<close>

fun eligible_peers :: "mesh_ops \<Rightarrow> time_ms \<Rightarrow> string list \<Rightarrow> mcp_router \<times> nat \<Rightarrow> mcp_router \<times> nat \<times> string list" where
  "eligible_peers mo now [] (s, success) = (s, success, [])"
| "eligible_peers mo now (p # ps) (s, success) =
     (if p = mo_self mo then eligible_peers mo now ps (s, success)
      else
        (case should_skip_manifest_query now p (ro_failures s) of
           (st, skip) \<Rightarrow>
             (let s = s\<lparr>ro_failures := st\<rparr> in
              if skip then eligible_peers mo now ps (s, success)
              else
                (case map_of (ro_cache s) p of
                   Some entry \<Rightarrow>
                     if fresh now entry then eligible_peers mo now ps (s, success + 1)
                     else (case eligible_peers mo now ps (s, success) of (s, n, es) \<Rightarrow> (s, n, p # es))
                 | None \<Rightarrow> (case eligible_peers mo now ps (s, success) of (s, n, es) \<Rightarrow> (s, n, p # es))))))"

definition present :: "string option \<Rightarrow> bool" where
  "present v \<longleftrightarrow> (case v of Some t \<Rightarrow> t \<noteq> [] | None \<Rightarrow> False)"

definition attested :: "router_env \<Rightarrow> liop_manifest \<Rightarrow> bool" where
  "attested env m \<longleftrightarrow>
     verify_manifest (rv_codec env) (rv_dsa env) (mf_object m) (or_else (mf_pqcSignature m) []) (or_else (mf_pqcPublicKey m) [])"

text \<open>A peer's answer; the flags count a success, count an error.\<close>

definition cache_manifest :: "time_ms \<Rightarrow> string \<Rightarrow> liop_manifest \<Rightarrow> mcp_router \<Rightarrow> mcp_router" where
  "cache_manifest now peerId manifest s = s\<lparr>ro_cache := AList.update peerId (manifest, now) (ro_cache s)\<rparr>"

definition settle_query :: "router_env \<Rightarrow> mesh_ops \<Rightarrow> time_ms \<Rightarrow> string \<Rightarrow> mcp_router \<Rightarrow> mcp_router \<times> bool \<times> bool" where
  "settle_query env mo now peerId s =
     (case mo_query mo peerId of
        Inl e \<Rightarrow> (s, False, True)
      | Inr None \<Rightarrow> (s\<lparr>ro_failures := record_manifest_query_failure now peerId (ro_failures s)\<rparr>, False, True)
      | Inr (Some manifest) \<Rightarrow>
          if present (mf_pqcSignature manifest) \<and> present (mf_pqcPublicKey manifest) \<and> \<not> attested env manifest then
            (s\<lparr>ro_failures := record_manifest_query_failure now peerId (ro_failures s)\<rparr>, False, True)
          else
            ((cache_manifest now peerId manifest s)\<lparr>ro_failures := record_manifest_query_success peerId (ro_failures s)\<rparr>, True, False))"

fun settle_all :: "router_env \<Rightarrow> mesh_ops \<Rightarrow> time_ms \<Rightarrow> string list \<Rightarrow> mcp_router \<Rightarrow> mcp_router \<times> nat \<times> nat" where
  "settle_all env mo now [] s = (s, 0, 0)"
| "settle_all env mo now (p # ps) s =
     (case settle_query env mo now p s of
        (s, ok, bad) \<Rightarrow>
          (case settle_all env mo now ps s of
             (s, oks, bads) \<Rightarrow> (s, oks + of_bool ok, bads + of_bool bad)))"

definition cached_tools :: "manifest_cache \<Rightarrow> nat" where
  "cached_tools cache = sum_list (map (\<lambda>(p, m, t). length (mf_tools m)) cache)"

definition discover_mesh :: "router_env \<Rightarrow> mesh_ops \<Rightarrow> time_ms \<Rightarrow> mcp_router \<Rightarrow> mcp_router \<times> bool" where
  "discover_mesh env mo now s =
     (let prevCount = cached_tools (ro_cache s); cold = (if ro_cache s = [] then 5 else 1);
          providerIds = fst (gather_providers mo cold 0) in
      if providerIds = [] then (s, False)
      else
        (case eligible_peers mo now (connected_first mo providerIds) (s, 0) of
           (s, cached, eligible) \<Rightarrow>
             (case settle_all env mo now (mo_arrival mo eligible) s of
                (s, oks, bads) \<Rightarrow>
                  (s\<lparr>ro_stats := \<lparr>ds_candidates = length providerIds, ds_success = cached + oks, ds_failures = bads\<rparr>\<rparr>,
                   0 < oks \<and> cached_tools (ro_cache s) \<noteq> prevCount))))"

text \<open>The flag of the result: \<open>onToolsChanged\<close> is called.\<close>

definition refresh_manifest_cache :: "router_env \<Rightarrow> bool \<Rightarrow> time_ms \<Rightarrow> mcp_router \<Rightarrow> mcp_router \<times> bool" where
  "refresh_manifest_cache env silent now s =
     (case rv_mesh env of
        None \<Rightarrow> (s, False)
      | Some mo \<Rightarrow>
          if \<not> silent \<and> ro_cache s \<noteq> [] \<and> list_all (\<lambda>(p, e). fresh now e) (ro_cache s) then (s, False)
          else discover_mesh env mo now s)"

section \<open>Remote tools\<close>

text \<open>\<open>Number.parseInt(s, 10)\<close>; \<open>None\<close> is \<open>NaN\<close>.\<close>

definition parse_int :: "string \<Rightarrow> int option" where
  "parse_int s =
     (let t = dropWhile js_space s; negative = starts_with t ''-'';
          u = (if negative \<or> starts_with t ''+'' then tl t else t); digits = takeWhile is_digit u in
      if digits = [] then None else Some ((if negative then -1 else 1) * int (dec_val digits)))"

text \<open>
  The warm-up: the rounds are what happens before the deadline, each a refresh that ends in time, with
  the mesh and the clock it sees, or the timer of three seconds.
\<close>

fun warm_up :: "router_env \<Rightarrow> int \<Rightarrow> nat \<Rightarrow> int \<Rightarrow> (mesh_ops \<times> time_ms) option list \<Rightarrow> mcp_router \<Rightarrow> mcp_router" where
  "warm_up env expected plateau lastSize [] s = s"
| "warm_up env expected plateau lastSize (r # rs) s =
     (if expected \<le> int (get_manifest_cache_size s) then s
      else
        (let s = (case r of None \<Rightarrow> s | Some (mo, now) \<Rightarrow> fst (discover_mesh env mo now s));
             size = int (get_manifest_cache_size s) in
         if expected \<le> size then s
         else if size = lastSize then
           (if 3 \<le> plateau + 1 \<and> 0 < size then s else warm_up env expected (plateau + 1) lastSize rs s)
         else warm_up env expected 0 size rs s))"

definition await_providers :: "router_env \<Rightarrow> (mesh_ops \<times> time_ms) option list \<Rightarrow> mcp_router \<Rightarrow> mcp_router" where
  "await_providers env rounds s =
     (case (parse_int (case rv_variable env ''LIOP_EXPECTED_PROVIDERS'' of None \<Rightarrow> ''1'' | Some v \<Rightarrow> v), rv_mesh env) of
        (Some expected, Some mo) \<Rightarrow>
          if int (get_manifest_cache_size s) < expected then warm_up env expected 0 (-1) rounds s else s
      | _ \<Rightarrow> s)"

definition last_chars :: "nat \<Rightarrow> string \<Rightarrow> string" where
  "last_chars n s = drop (length s - n) s"

definition DIAGNOSTIC_TOOL :: string where
  "DIAGNOSTIC_TOOL = ''LiopMeshStatus''"

type_synonym listing = "(string \<times> liop_manifest \<times> manifest_tool) list"

definition listing_of :: "manifest_cache \<Rightarrow> listing" where
  "listing_of cache = concat (map (\<lambda>(p, m, t). map (\<lambda>tool. (p, m, tool)) (mf_tools m)) cache)"

text \<open>The names: \<open>taken\<close> starts with the local ones, and collects the final ones.\<close>

fun name_tools :: "string list \<Rightarrow> listing \<Rightarrow> (string \<times> string \<times> liop_manifest \<times> manifest_tool) list" where
  "name_tools taken [] = []"
| "name_tools taken ((p, m, tool) # es) =
     (if mt_name tool = DIAGNOSTIC_TOOL then name_tools taken es
      else
        (let final = (if mt_name tool \<in> set taken then mt_name tool @ ''_'' @ last_chars 4 p else mt_name tool) in
         (final, p, m, tool) # name_tools (final # taken) es))"

definition provider_name :: "liop_manifest \<Rightarrow> string" where
  "provider_name m = (case mf_serverName m of Some (c # cs) \<Rightarrow> c # cs | _ \<Rightarrow> ''Unknown Provider'')"

definition complete_schema :: "jval \<Rightarrow> jval" where
  "complete_schema schema =
     (let schema = (if truthy schema then schema
                    else JObj None [(''type'', JStr ''object''), (''properties'', JObj None [])]);
          schema = (if truthy (opt_prop schema ''type'') then schema else set_field ''type'' (JStr ''object'') schema) in
      if truthy (opt_prop schema ''properties'') then schema else set_field ''properties'' (JObj None []) schema)"

definition tool_description :: "bool \<Rightarrow> string \<Rightarrow> liop_manifest \<Rightarrow> manifest_tool \<Rightarrow> string" where
  "tool_description terse p m tool =
     (let baseDesc = (case mt_description tool of Some (c # cs) \<Rightarrow> c # cs | _ \<Rightarrow> ''Remote tool from '' @ provider_name m);
          blueprint = (case mf_taxonomy m of None \<Rightarrow> [] | Some t \<Rightarrow> nl @ ''[LIOP-DOMAIN: '' @ tx_domain t @ '']'');
          payload = opt_prop (opt_prop (complete_schema (mt_inputSchema tool)) ''properties'') ''payload'' in
      if terse then
        strip_verbose_liop_tool_description baseDesc @ nl @ ''(Peer: '' @ last_chars 8 p @ '')'' @ blueprint
      else
        (if str_includes baseDesc ''STRICT SCHEMA ADHERENCE''
         then replace_first ''STRICT SCHEMA ADHERENCE:'' ''[INDUSTRIAL-REQUISITE] STRICT SCHEMA ADHERENCE (MANDATORY):'' baseDesc
         else baseDesc)
        @ nl @ ''(Origin: '' @ last_chars 8 p @ '')'' @ blueprint
        @ (if truthy payload then nl @ ''[REQUIRES: LIOP-PROTO-V1 ENVELOPE]'' else []))"

text \<open>The cached schema gets the missing fields too, being the same object; the next listing finds them there.\<close>

definition get_remote_tools :: "router_env \<Rightarrow> mcp_router \<Rightarrow> (string \<times> jval) list" where
  "get_remote_tools env s =
     map (\<lambda>(final, p, m, tool).
         (final, JObj None
           [(''name'', JStr final),
            (''description'', JStr (tool_description (mcp_compact_tool_descriptions (rv_variable env)) p m tool)),
            (''inputSchema'', complete_schema (mt_inputSchema tool))]))
       (name_tools (map fst (so_listTools (rv_server env))) (listing_of (ro_cache s)))"

section \<open>Remote resources\<close>

definition origin_stamp :: "router_env \<Rightarrow> string \<Rightarrow> liop_manifest \<Rightarrow> string" where
  "origin_stamp env p m =
     nl @ nl @ ''[LIOP Zero-Trust Origin]'' @ nl @ ''Provider: '' @ provider_name m @ nl @ ''Network ID: '' @ p @
     (case mf_taxonomy m of
        None \<Rightarrow> []
      | Some t \<Rightarrow>
          nl @ nl @ ''[LIOP Zero-Trust Blueprint]'' @ nl @ ''Domain: '' @ tx_domain t @ nl @ ''Clearance Tier: '' @
          cd_num (rv_codec env) (tx_clearanceTier t) @
          (if tx_executionTypes t \<noteq> [] then nl @ ''Execution Types: '' @ join '', '' (tx_executionTypes t) else []))"

definition augment_resource :: "router_env \<Rightarrow> string \<Rightarrow> liop_manifest \<Rightarrow> manifest_resource \<Rightarrow> jval" where
  "augment_resource env p m r =
     (let stamp = origin_stamp env p m in
      if starts_with (mr_uri r) ''liop://schema/'' then
        set_field ''description''
          (JStr (''[CRITICAL SCHEMA] '' @
             (case mr_description r of Some (c # cs) \<Rightarrow> c # cs | _ \<Rightarrow> ''Data Dictionary for Zero-Shot Autonomy'') @ stamp))
          (set_field ''name'' (JStr (''[SCHEMA] '' @ mr_name r)) (mr_value r))
      else
        set_field ''description''
          (JStr (case mr_description r of Some (c # cs) \<Rightarrow> (c # cs) @ stamp | _ \<Rightarrow> trim stamp)) (mr_value r))"

fun new_resources :: "router_env \<Rightarrow> string list \<Rightarrow> (string \<times> liop_manifest \<times> manifest_resource) list \<Rightarrow> (string \<times> jval) list" where
  "new_resources env seenUris [] = []"
| "new_resources env seenUris ((p, m, r) # rs) =
     (if mr_uri r \<in> set seenUris then new_resources env seenUris rs
      else (mr_uri r, augment_resource env p m r) # new_resources env (mr_uri r # seenUris) rs)"

definition get_remote_resources :: "router_env \<Rightarrow> mcp_router \<Rightarrow> (string \<times> jval) list" where
  "get_remote_resources env s =
     new_resources env (map fst (so_listResources (rv_server env)))
       (concat (map (\<lambda>(p, m, t). map (\<lambda>r. (p, m, r)) (mf_resources m)) (ro_cache s)))"

section \<open>Finding a tool again\<close>

definition canonical :: "string \<Rightarrow> string" where
  "canonical name = (case map_of TOOL_ALIASES name of Some a \<Rightarrow> a | None \<Rightarrow> name)"

fun find_target :: "(string \<Rightarrow> bool) \<Rightarrow> string \<Rightarrow> manifest_cache \<Rightarrow> (string \<times> string) option" where
  "find_target peer name [] = None"
| "find_target peer name ((p, m, t) # cache) =
     (case if peer p then find (\<lambda>tool. mt_name tool = name \<or> mt_name tool = canonical name) (mf_tools m) else None of
        Some tool \<Rightarrow> Some (p, mt_name tool)
      | None \<Rightarrow> find_target peer name cache)"

definition resolve_manifest_target :: "string \<Rightarrow> manifest_cache \<Rightarrow> (string \<times> string) option" where
  "resolve_manifest_target toolName cache =
     (case find_target (\<lambda>p. True) toolName cache of
        Some r \<Rightarrow> Some r
      | None \<Rightarrow>
          (let parts = split_on CHR ''_'' toolName in
           if 1 < length parts then
             find_target (\<lambda>p. ends_with p (last parts)) (join ''_'' (butlast parts)) cache
           else None))"

section \<open>Tokens\<close>

definition node_token :: "router_env \<Rightarrow> string \<Rightarrow> mcp_router \<Rightarrow> string option" where
  "node_token env peerId s =
     (let m = map_option fst (map_of (ro_cache s) peerId);
          slug = or_else (Option.bind m mf_tokenSlug) [];
          name = to_lower (or_else (Option.bind m mf_serverName) []);
          bySlug = (if slug = [] then None else node_variable (rv_variable env) slug);
          byPeer = node_variable (rv_variable env) (short_id peerId);
          byName = (if name = [] then None else node_variable (rv_variable env) (clean_upper name)) in
      case bySlug of Some t \<Rightarrow> Some t | None \<Rightarrow> (case byPeer of Some t \<Rightarrow> Some t | None \<Rightarrow> byName))"

definition nexus_form :: "router_env \<Rightarrow> (string \<times> string) list" where
  "nexus_form env =
     [(''grant_type'', ''client_credentials''),
      (''scope'', ''liop:tools:call liop:tools:list liop:resources:read liop:schema:read liop:mesh:query''),
      (''resource'', or_else (first_variable (rv_variable env) [''LIOP_OAUTH_AUDIENCE'', ''LIOP_AUDIENCE'']) ''urn:liop:mesh:api''),
      (''client_id'', or_else (first_variable (rv_variable env) [''LIOP_OAUTH_CLIENT_ID'', ''LIOP_CLIENT_ID'']) ''liop-mesh-agent''),
      (''client_secret'',
        or_else (first_variable (rv_variable env) [''LIOP_OAUTH_CLIENT_SECRET'', ''LIOP_CLIENT_SECRET'']) ''dev-secret-change-me'')]"

definition get_or_acquire_mesh_agent_token :: "router_env \<Rightarrow> string \<Rightarrow> mcp_router \<Rightarrow> mcp_router \<times> string option" where
  "get_or_acquire_mesh_agent_token env peerId s =
     (case if peerId = [] then None else node_token env peerId s of
        Some t \<Rightarrow> (s, Some t)
      | None \<Rightarrow>
          if present (ro_meshAgentToken s) then (s, ro_meshAgentToken s)
          else
            (case first_variable (rv_variable env) [''LIOP_OAUTH_TOKEN'', ''LIOP_TOKEN''] of
               Some t \<Rightarrow> (s\<lparr>ro_meshAgentToken := Some t\<rparr>, Some t)
             | None \<Rightarrow>
                 (case first_variable (rv_variable env) [''LIOP_NEXUS_URL''] of
                    None \<Rightarrow> (s, None)
                  | Some nexusUrl \<Rightarrow>
                      (let baseUrl = (if ends_with nexusUrl ''/oidc'' then nexusUrl else nexusUrl @ ''/oidc'') in
                       case rv_nexus env (baseUrl @ ''/token'') (nexus_form env) of
                         Some (c # cs) \<Rightarrow> (s\<lparr>ro_meshAgentToken := Some (c # cs)\<rparr>, Some (c # cs))
                       | _ \<Rightarrow> (s, None)))))"

section \<open>Addresses\<close>

definition is_docker_demo :: "string \<Rightarrow> bool" where
  "is_docker_demo nexusUrl \<longleftrightarrow>
     list_ex (str_includes nexusUrl) [''127.0.0.1:13000'', ''localhost:13000'', ''127.0.0.1:13001'', ''localhost:13001'']"

definition is_docker_port :: "string list \<Rightarrow> bool" where
  "is_docker_port addrs \<longleftrightarrow>
     list_ex (\<lambda>a. list_ex (str_includes a) [''13001'', ''13003'', ''13004'', ''13005'', ''13011'', ''13021'', ''13031'']) addrs"

definition should_remap_grpc_ports :: "router_env \<Rightarrow> string list \<Rightarrow> bool" where
  "should_remap_grpc_ports env addrs \<longleftrightarrow>
     (let var = rv_variable env in
      var ''LIOP_USE_PUBLISHED_GRPC_PORTS'' = Some ''1'' \<or> var ''LIOP_DOCKER_MAP'' = Some ''true'' \<or>
      var ''LIOP_DEV_MODE'' = Some ''true'' \<or> var ''NODE_ENV'' = Some ''development'' \<or> var ''NODE_ENV'' = Some ''test'' \<or>
      is_docker_demo (or_else (var ''LIOP_NEXUS_URL'') []) \<or> is_docker_port addrs)"

definition published_port :: "string \<Rightarrow> string \<Rightarrow> int \<Rightarrow> int" where
  "published_port provider toolName port =
     (let tn = to_lower toolName in
      if str_includes provider ''vault'' \<or> str_includes tn ''medical'' then 13011
      else if str_includes provider ''bank'' \<or> str_includes tn ''bank'' then 13021
      else if str_includes provider ''oracle'' \<or> str_includes tn ''hft'' \<or> str_includes tn ''market'' then 13031
      else port)"

definition advertised_ip :: "string \<Rightarrow> string option" where
  "advertised_ip addr =
     (case dropWhile (\<lambda>p. p \<noteq> ''ip4'') (split_on CHR ''/'' addr) of
        [] \<Rightarrow> None
      | [_] \<Rightarrow> Some ''undefined''
      | _ # ip # _ \<Rightarrow> Some ip)"

fun pick_target :: "string list \<Rightarrow> int \<Rightarrow> string option \<Rightarrow> string list \<Rightarrow> string option" where
  "pick_target interfaces port best [] = best"
| "pick_target interfaces port best (a # addrs) =
     (case advertised_ip a of
        None \<Rightarrow> pick_target interfaces port best addrs
      | Some ip \<Rightarrow>
          if ip = ''127.0.0.1'' \<or> ip \<in> set interfaces then Some (target_of ''127.0.0.1'' port)
          else pick_target interfaces port (case best of None \<Rightarrow> Some (target_of ip port) | Some b \<Rightarrow> Some b) addrs)"

definition target_address :: "router_env \<Rightarrow> string list \<Rightarrow> liop_manifest option \<Rightarrow> string \<Rightarrow> int \<Rightarrow> string" where
  "target_address env addrs manifest toolName port =
     (if should_remap_grpc_ports env addrs then
        target_of ''127.0.0.1''
          (published_port (to_lower (or_else (Option.bind manifest mf_serverName) [])) toolName port)
      else or_else (pick_target (rv_interfaces env) port None addrs) (target_of ''127.0.0.1'' port))"

section \<open>The proxied call\<close>

datatype 'a promised = Throws string | Hangs | Gives 'a

definition rpc_result :: "jval \<Rightarrow> jval \<Rightarrow> mcp_response" where
  "rpc_result i v = \<lparr>rs_id = i, rs_result = v, rs_error = JUndef\<rparr>"

definition rpc_error_response :: "jval \<Rightarrow> int \<Rightarrow> string \<Rightarrow> mcp_response" where
  "rpc_error_response i code msg =
     \<lparr>rs_id = i, rs_result = JUndef,
      rs_error = JObj None [(''code'', JNum (Fin (of_int code))), (''message'', JStr msg)]\<rparr>"

definition failed_result :: "string \<Rightarrow> jval" where
  "failed_result t = text_result t [(''isError'', JBool True)]"

definition authentication_required :: "string \<Rightarrow> liop_manifest \<Rightarrow> jval" where
  "authentication_required peerId m =
     (let providerName = (case mf_serverName m of Some (c # cs) \<Rightarrow> to_lower (c # cs) | _ \<Rightarrow> ''unknown'');
          slug = or_else (mf_tokenSlug m) [];
          primaryVar = ''LIOP_TOKEN_'' @ (if slug \<noteq> [] then slug else clean_upper providerName) in
      failed_result (''Authentication Required: The restricted node ('' @ providerName @
        '') requires an access token. Please define the '' @ primaryVar @ '' or LIOP_TOKEN_'' @ short_id peerId @
        '' environment variable on your agent/client host.''))"

definition proxy_logic :: "string \<Rightarrow> string \<Rightarrow> string" where
  "proxy_logic toolName embeddedArgsJson =
     ''return { '' @ [CHR 0x22] @ ''__liop_proxy_tool'' @ [CHR 0x22] @ '': '' @ [CHR 0x22] @ toolName @ [CHR 0x22] @ '', '' @
     [CHR 0x22] @ ''__liop_proxy_args'' @ [CHR 0x22] @ '': '' @ embeddedArgsJson @ '' };''"

definition embedded_args :: "jval \<Rightarrow> jval" where
  "embedded_args params =
     (let arguments = opt_prop params ''arguments'' in
      if arguments \<noteq> JUndef \<and> arguments \<noteq> JNull then arguments
      else if opt_prop params ''payload'' \<noteq> JUndef then params else JObj None [])"

text \<open>
  The stream. The verification starts when the stream ends, with the last response and the text received
  until then; \<open>Checked\<close> and \<open>Check_Raised\<close> are its two ends. The first settlement counts.
\<close>

record transcoding =
  tc_body :: string
  tc_last :: "logic_response option"
  tc_verdict :: "bool option"      \<comment> \<open>of the verification under way\<close>
  tc_settled :: "jval option"

definition settle_with :: "jval \<Rightarrow> transcoding \<Rightarrow> transcoding" where
  "settle_with v st = (case tc_settled st of None \<Rightarrow> st\<lparr>tc_settled := Some v\<rparr> | Some _ \<Rightarrow> st)"

text \<open>\<open>JSON.parse\<close> of the text; reading \<open>isError\<close> of \<open>null\<close> raises like a text that does not parse.\<close>

definition body_result :: "router_env \<Rightarrow> string \<Rightarrow> jval" where
  "body_result env body =
     (case rv_parse env body of
        None \<Rightarrow> text_result body []
      | Some JNull \<Rightarrow> text_result body []
      | Some v \<Rightarrow> v)"

definition audit_alert :: jval where
  "audit_alert = failed_result ''SECURITY ALERT: Remote response failed cryptographic integrity audit.''"

definition audit_reply :: "router_env \<Rightarrow> string \<Rightarrow> bytes \<Rightarrow> string \<Rightarrow> logic_response \<Rightarrow> bool" where
  "audit_reply env proxyLogic secret body r =
     liop_verify_zk_receipt (rv_verifier env) (rv_vkeys env) (utf8 proxyLogic) (hex_of (lp_cryptographic_proof r)) (lp_zk_receipt r)
       (Options \<lparr>vz_sessionSecret = Some secret, vz_expectedOutput = JStr body, vz_guestImageIdHex = None, vz_vkeyRaw = None,
                 vz_zkPolicy = Some (if is_v2 (lp_zk_receipt r) then ''required'' else ''none''), vz_circuitName = None\<rparr>)
       JUndef"

fun on_router_event :: "router_env \<Rightarrow> string \<Rightarrow> bytes \<Rightarrow> transcoding \<Rightarrow> router_event \<Rightarrow> transcoding" where
  "on_router_event env proxyLogic secret st (Reply r) =
     st\<lparr>tc_body := tc_body st @ lp_semantic_evidence r, tc_last := Some r\<rparr>"
| "on_router_event env proxyLogic secret st Ended =
     (case tc_last st of
        None \<Rightarrow> settle_with (body_result env (tc_body st)) st
      | Some r \<Rightarrow>
          if lp_is_error r then settle_with (body_result env (tc_body st)) st
          else st\<lparr>tc_verdict := Some (audit_reply env proxyLogic secret (tc_body st) r)\<rparr>)"
| "on_router_event env proxyLogic secret st Checked =
     (case tc_verdict st of
        None \<Rightarrow> st
      | Some isValid \<Rightarrow>
          settle_with (if isValid then body_result env (tc_body st) else audit_alert) (st\<lparr>tc_verdict := None\<rparr>))"
| "on_router_event env proxyLogic secret st Check_Raised =
     (case tc_verdict st of
        None \<Rightarrow> st
      | Some isValid \<Rightarrow> settle_with (text_result (tc_body st) []) (st\<lparr>tc_verdict := None\<rparr>))"
| "on_router_event env proxyLogic secret st (Failed msg) =
     settle_with (failed_result (''LIOP gRPC Error: '' @ msg)) st"

definition transcoding_start :: transcoding where
  "transcoding_start = \<lparr>tc_body = [], tc_last = None, tc_verdict = None, tc_settled = None\<rparr>"

text \<open>An exception in the callback of the handshake is lost, and the promise stays pending.\<close>

definition call_remote :: "router_env \<Rightarrow> string \<Rightarrow> string option \<Rightarrow> string \<Rightarrow> jval \<Rightarrow> intent_answer \<Rightarrow> jval option" where
  "call_remote env addr token toolName params a =
     (case Option.bind (ia_publicKey a) (\<lambda>pk. case encapsulate_asymmetric (rv_encap env) pk of Inl e \<Rightarrow> None | Inr r \<Rightarrow> Some r) of
        None \<Rightarrow> None
      | Some (ciphertext, sharedSecret) \<Rightarrow>
          (let proxyLogic = proxy_logic toolName (rv_stringify env (embedded_args params)) in
           case encrypt_payload (rv_aes env) (rv_nonce env) (utf8 proxyLogic) sharedSecret of
             Inl e \<Rightarrow> None
           | Inr (sealedLogic, nonce) \<Rightarrow>
               tc_settled (run (on_router_event env proxyLogic sharedSecret) transcoding_start
                 (rv_execute env addr token
                    \<lparr>lr_session_token = ia_session_token a, lr_wasm_binary = sealedLogic, lr_inputs = [],
                     lr_pqc_ciphertext = ciphertext, lr_aes_nonce = Some nonce, lr_requested_proof_mode = None\<rparr>))))"

definition handshake ::
    "router_env \<Rightarrow> mesh_ops \<Rightarrow> jval \<Rightarrow> string \<Rightarrow> string \<Rightarrow> jval \<Rightarrow> string option \<Rightarrow> mcp_response promised" where
  "handshake env mo i addr toolName params token =
     (case rv_negotiate env addr token toolName (mo_sign mo (utf8 toolName)) of
        Rpc_Failed msg \<Rightarrow>
          Gives (rpc_result i (failed_result (''PQC Handshake Failed: '' @ (if msg = [] then ''Rejected'' else msg))))
      | Answered a \<Rightarrow>
          if \<not> ia_accepted a then Gives (rpc_result i (failed_result ''PQC Handshake Failed: Rejected''))
          else (case call_remote env addr token toolName params a of
                  None \<Rightarrow> Hangs
                | Some v \<Rightarrow> Gives (rpc_result i v)))"

definition perform_transcoding ::
    "router_env \<Rightarrow> mesh_ops \<Rightarrow> jval \<Rightarrow> string \<Rightarrow> string \<Rightarrow> jval \<Rightarrow> string \<Rightarrow> string option \<Rightarrow> mcp_router \<Rightarrow>
       mcp_router \<times> mcp_response promised" where
  "perform_transcoding env mo i addr toolName params peerId token s =
     (case if present token then (s, token) else get_or_acquire_mesh_agent_token env peerId s of
        (s, activeToken) \<Rightarrow>
          (s, case map_of (ro_cache s) peerId of
                Some (m, t) \<Rightarrow>
                  if mf_authRequired m \<and> \<not> present activeToken then Gives (rpc_result i (authentication_required peerId m))
                  else handshake env mo i addr toolName params activeToken
              | None \<Rightarrow> handshake env mo i addr toolName params activeToken))"

definition route_to_remote_provider ::
    "router_env \<Rightarrow> mesh_ops \<Rightarrow> time_ms \<Rightarrow> jval \<Rightarrow> string \<Rightarrow> string \<Rightarrow> jval \<Rightarrow> string option \<Rightarrow> mcp_router \<Rightarrow>
       mcp_router \<times> mcp_response promised" where
  "route_to_remote_provider env mo now i toolName peerId params token s =
     (case (case map_of (ro_cache s) peerId of
              Some (m, t) \<Rightarrow> Inr (s, Some m)
            | None \<Rightarrow>
                (case mo_query mo peerId of
                   Inl e \<Rightarrow> Inl e
                 | Inr None \<Rightarrow> Inr (s, None)
                 | Inr (Some m) \<Rightarrow> Inr (cache_manifest now peerId m s, Some m))) of
        Inl e \<Rightarrow> (s, Throws e)
      | Inr (s, manifest) \<Rightarrow>
          (let grpcPort = (case manifest of None \<Rightarrow> rv_defaultRpcPort env | Some m \<Rightarrow> mf_grpcPort m);
               addr = target_address env (mo_resolve mo peerId) manifest toolName grpcPort in
           perform_transcoding env mo i addr toolName params peerId token s))"

section \<open>Tool calls\<close>

definition redact_peer_id :: "router_env \<Rightarrow> string \<Rightarrow> string" where
  "redact_peer_id env peerId =
     (if or_else (first_variable (rv_variable env) [''LIOP_DIAGNOSTIC_LEVEL'']) ''redacted'' = ''full'' then peerId
      else ''***'' @ last_chars 8 peerId)"

text \<open>The bullet of the lists is the Unicode character 8226.\<close>

definition status_lines :: "router_env \<Rightarrow> string \<Rightarrow> mcp_router \<Rightarrow> string list" where
  "status_lines env bullet s =
     (let level = or_else (first_variable (rv_variable env) [''LIOP_DIAGNOSTIC_LEVEL'']) ''redacted'';
          bootstrapNodes = (case rv_mesh env of None \<Rightarrow> [] | Some mo \<Rightarrow> mo_bootstrap mo);
          connections = (case rv_mesh env of None \<Rightarrow> 0 | Some mo \<Rightarrow> length (mo_connections mo));
          tableSize = (case rv_mesh env of None \<Rightarrow> 0 | Some mo \<Rightarrow> mo_tableSize mo);
          self = (case rv_mesh env of
                    None \<Rightarrow> ''Offline''
                  | Some mo \<Rightarrow> if mo_self mo = [] \<or> mo_self mo = ''Offline'' then ''Offline'' else redact_peer_id env (mo_self mo));
          bootstrapLine = (\<lambda>addr. let e = last (split_on CHR ''/'' addr) in
             ''  '' @ bullet @ '' '' @ (if e = [] then ''Unknown'' else last_chars 8 e) @ '' (bootstrap)'');
          toolLine = (\<lambda>(p, m, tool). ''  '' @ bullet @ '' '' @ mt_name tool @ '' (from origin: '' @ redact_peer_id env p @ '')'') in
      [''LIOP Mesh Status: '' @ (if rv_mesh env = None then ''Offline'' else ''Active''),
       ''Local Agent Identity: '' @ self,
       ''Network: '' @ show_nat connections @ '' Conns | '' @ show_nat tableSize @ '' Mesh Nodes | '' @
         show_nat (length bootstrapNodes) @ '' Bootstraps'',
       (if level \<noteq> ''minimal'' \<and> bootstrapNodes \<noteq> []
        then nl @ ''Active Bootstraps:'' @ nl @ join nl (map bootstrapLine bootstrapNodes) @ nl else []),
       ''Discovery: '' @ show_nat (ds_candidates (ro_stats s)) @ '' Candidates | '' @ show_nat (ds_success (ro_stats s)) @
         '' OK | '' @ show_nat (ds_failures (ro_stats s)) @ '' FAIL'',
       ''Tooling: '' @ show_nat (get_manifest_cache_size s) @ '' Providers | '' @ show_nat (cached_tools (ro_cache s)) @
         '' Total Remote Tools'',
       (if 0 < cached_tools (ro_cache s)
        then nl @ ''Discovered Remote Tools (Zero-Trust Origins):'' @ nl @ join nl (map toolLine (listing_of (ro_cache s)))
        else nl @ ''No remote tools discovered yet.''),
       rv_statusBlock env])"

definition mesh_status :: "router_env \<Rightarrow> string \<Rightarrow> mcp_router \<Rightarrow> jval" where
  "mesh_status env bullet s = text_result (join nl (filter (\<lambda>l. l \<noteq> []) (status_lines env bullet s))) []"

definition call_local :: "router_env \<Rightarrow> jval \<Rightarrow> string \<Rightarrow> jval \<Rightarrow> mcp_response" where
  "call_local env i toolName params =
     (case so_callTool (rv_server env) (JStr toolName)
             (if truthy (opt_prop params ''arguments'') then opt_prop params ''arguments'' else JObj None []) of
        Inl msg \<Rightarrow> rpc_error_response i (-32000) msg
      | Inr result \<Rightarrow> rpc_result i result)"

definition no_provider :: "jval \<Rightarrow> string \<Rightarrow> mcp_response" where
  "no_provider i toolName =
     rpc_error_response i (-32002)
       (''No provider found for tool: '' @ toolName @ ''. Ensure the provider node is active and connected to the mesh.'')"

text \<open>The first of three queries of the DHT that finds a provider.\<close>

definition find_provider :: "mesh_ops \<Rightarrow> string \<Rightarrow> string option" where
  "find_provider mo toolName =
     (case find (\<lambda>ps. ps \<noteq> []) (map (\<lambda>n. mo_find mo n toolName) [0..<3]) of
        Some (p # ps) \<Rightarrow> Some p
      | _ \<Rightarrow> None)"

text \<open>The cached target, or the one found after a refresh.\<close>

definition locate :: "router_env \<Rightarrow> time_ms \<Rightarrow> string \<Rightarrow> mcp_router \<Rightarrow> mcp_router \<times> (string \<times> string) option" where
  "locate env now toolName s =
     (case resolve_manifest_target toolName (ro_cache s) of
        Some r \<Rightarrow> (s, Some r)
      | None \<Rightarrow>
          (let s = fst (refresh_manifest_cache env False now s) in (s, resolve_manifest_target toolName (ro_cache s))))"

definition call_listed ::
    "router_env \<Rightarrow> mesh_ops \<Rightarrow> time_ms \<Rightarrow> jval \<Rightarrow> string \<Rightarrow> string \<Rightarrow> jval \<Rightarrow> string option \<Rightarrow> mcp_router \<Rightarrow>
       mcp_router \<times> mcp_response promised" where
  "call_listed env mo now i peerId originalToolName params token s =
     (case map_of (ro_cache s) peerId of
        Some (m, t) \<Rightarrow>
          if mf_authRequired m then
            (case if present token then (s, token) else get_or_acquire_mesh_agent_token env peerId s of
               (s, resolvedToken) \<Rightarrow>
                 if \<not> present resolvedToken then (s, Gives (rpc_result i (authentication_required peerId m)))
                 else route_to_remote_provider env mo now i originalToolName peerId params resolvedToken s)
          else route_to_remote_provider env mo now i originalToolName peerId params token s
      | None \<Rightarrow> route_to_remote_provider env mo now i originalToolName peerId params token s)"

definition with_normal_arguments :: "jval \<Rightarrow> jval" where
  "with_normal_arguments params =
     (if truthy (opt_prop params ''arguments'') then
        set_field ''arguments'' (JObj None (normalize_tool_arguments (Some (spread (opt_prop params ''arguments''))))) params
      else params)"

definition is_local :: "router_env \<Rightarrow> string \<Rightarrow> bool" where
  "is_local env toolName \<longleftrightarrow> toolName \<in> fst ` set (so_listTools (rv_server env))"

text \<open>A name that is not a string, which the declared type excludes, raises here.\<close>

definition transcode_mcp_to_liop ::
    "router_env \<Rightarrow> time_ms \<Rightarrow> string \<Rightarrow> jval \<Rightarrow> jval \<Rightarrow> string option \<Rightarrow> mcp_router \<Rightarrow> mcp_router \<times> mcp_response promised" where
  "transcode_mcp_to_liop env now bullet i params token s =
     (let params = with_normal_arguments params in
      case js_prop params ''name'' of
        Some (JStr toolName) \<Rightarrow>
          if toolName = DIAGNOSTIC_TOOL then (s, Gives (rpc_result i (mesh_status env bullet s)))
          else
            (case (is_local env toolName, rv_mesh env) of
               (True, _) \<Rightarrow> (s, Gives (call_local env i toolName params))
             | (False, None) \<Rightarrow> (s, Gives (no_provider i toolName))
             | (False, Some mo) \<Rightarrow>
                 (case locate env now toolName s of
                    (s, Some (peerId, original)) \<Rightarrow> call_listed env mo now i peerId original params token s
                  | (s, None) \<Rightarrow>
                      (case find_provider mo toolName of
                         Some p \<Rightarrow> route_to_remote_provider env mo now i toolName p params token s
                       | None \<Rightarrow> (s, Gives (no_provider i toolName)))))
      | _ \<Rightarrow> (s, Throws ''TypeError''))"

section \<open>Dispatch\<close>

datatype mcp_era = Modern | Legacy

definition detect_era :: "mcp_request \<Rightarrow> mcp_era" where
  "detect_era request =
     (if opt_prop (opt_prop (rq_params request) ''_meta'') ''io.modelcontextprotocol/protocolVersion'' = JStr MCP_PROTOCOL_VERSION
      then Modern
      else if MCP_LEGACY_SUPPORT_ENABLED \<and> is_legacy_request request then Legacy else Modern)"

definition for_era :: "mcp_request \<Rightarrow> mcp_response \<Rightarrow> mcp_response" where
  "for_era request response =
     (if detect_era request = Legacy \<and> MCP_LEGACY_SUPPORT_ENABLED then adapt_response_for_legacy_client response else response)"

definition complete_call :: "mcp_request \<Rightarrow> mcp_response \<Rightarrow> mcp_response" where
  "complete_call request response =
     (if detect_era request = Legacy \<and> MCP_LEGACY_SUPPORT_ENABLED then adapt_response_for_legacy_client response
      else if is_object (rs_result response) \<and> \<not> truthy (opt_prop (rs_result response) ''resultType'') then
        response\<lparr>rs_result := set_field ''resultType'' (JStr ''complete'') (rs_result response)\<rparr>
      else response)"

fun denial_text :: "denial \<Rightarrow> string" where
  "denial_text (Authentication_Required m) = ''Authentication required for method: '' @ m"
| "denial_text (Unknown_Method m) = ''Unknown method: '' @ m @ ''. Access denied (fail-closed).''"
| "denial_text (Missing_Scopes m missing) = ''Insufficient scopes for '' @ m @ ''. Missing: '' @ join '', '' missing"

definition diagnostic_entry :: "string \<times> jval" where
  "diagnostic_entry = (DIAGNOSTIC_TOOL, JObj None
     [(''name'', JStr DIAGNOSTIC_TOOL),
      (''description'', JStr ''LiopMeshStatus: Returns the current dynamic diagnostic status of the Zero-Trust Neural Mesh.''),
      (''inputSchema'', JObj None [(''type'', JStr ''object''), (''properties'', JObj None []),
         (''additionalProperties'', JBool False)])])"

definition listed_locals :: "router_env \<Rightarrow> (string \<times> jval) list" where
  "listed_locals env =
     (if mcp_compact_tool_descriptions (rv_variable env) then
        map (\<lambda>(n, v). (n, set_field ''description''
          (JStr (strip_verbose_liop_tool_description (case opt_prop v ''description'' of JStr d \<Rightarrow> d | _ \<Rightarrow> []))) v))
          (so_listTools (rv_server env))
      else so_listTools (rv_server env))"

definition listed :: "router_env \<Rightarrow> string \<Rightarrow> (string \<times> jval) list \<Rightarrow> jval" where
  "listed env key xs = JObj None (cacheable 300000 ''public'' @ [(key, sorted_objects (rv_le env) xs)])"

text \<open>The resource of the cached manifests that has the uri, where the server has none.\<close>

definition cached_resource :: "jval \<Rightarrow> manifest_cache \<Rightarrow> manifest_resource option" where
  "cached_resource uri cache =
     find (\<lambda>r. JStr (mr_uri r) = uri) (concat (map (\<lambda>(p, m, t). mf_resources m) cache))"

definition resource_contents :: "manifest_resource \<Rightarrow> jval" where
  "resource_contents r =
     JObj None (cacheable 60000 ''private'' @
       [(''contents'', JArr None [JObj None
          [(''uri'', JStr (mr_uri r)),
           (''mimeType'', JStr (case mr_mimeType r of Some (c # cs) \<Rightarrow> c # cs | _ \<Rightarrow> ''text/plain'')),
           (''text'', JStr (case mr_text r of Some (c # cs) \<Rightarrow> c # cs
              | _ \<Rightarrow> (case mr_description r of Some (c # cs) \<Rightarrow> c # cs | _ \<Rightarrow> ''No content provided'')))]])])"

definition read_resource :: "router_env \<Rightarrow> mcp_request \<Rightarrow> jval \<Rightarrow> mcp_router \<Rightarrow> mcp_response" where
  "read_resource env request i s =
     (let uri = opt_prop (rq_params request) ''uri'' in
      if \<not> truthy uri then rpc_error_response i (-32602) ''Missing resource uri''
      else
        (case so_readResource (rv_server env) uri of
           Inr result \<Rightarrow>
             for_era request (rpc_result i
               (if is_object result then spread_over (cacheable 60000 ''private'') result
                else JObj None (cacheable 60000 ''private'' @ [(''contents'', result)])))
         | Inl msg \<Rightarrow>
             (case cached_resource uri (ro_cache s) of
                Some r \<Rightarrow> for_era request (rpc_result i (resource_contents r))
              | None \<Rightarrow> rpc_error_response i (-32000) msg)))"

definition get_prompt :: "router_env \<Rightarrow> mcp_request \<Rightarrow> jval \<Rightarrow> mcp_response" where
  "get_prompt env request i =
     (let name = opt_prop (rq_params request) ''name''; args = opt_prop (rq_params request) ''arguments'' in
      if \<not> truthy name then rpc_error_response i (-32602) ''Missing prompt name''
      else
        (case so_getPrompt (rv_server env) name (if truthy args then args else JObj None []) of
           Inl msg \<Rightarrow> rpc_error_response i (-32000) msg
         | Inr result \<Rightarrow> for_era request (rpc_result i (if is_object result then spread_over complete result else result))))"

definition serve ::
    "router_env \<Rightarrow> time_ms \<Rightarrow> (mesh_ops \<times> time_ms) option list \<Rightarrow> string \<Rightarrow> mcp_request \<Rightarrow> jval \<Rightarrow> string option \<Rightarrow> mcp_router \<Rightarrow>
       mcp_router \<times> mcp_response option promised" where
  "serve env now rounds bullet request i token s =
     (let meth = rq_method request; give = (\<lambda>r. (s, Gives (Some r))) in
      if meth = ''initialize'' then
        give (if \<not> MCP_LEGACY_SUPPORT_ENABLED
              then rpc_error_response i (-32601) ''Method retired: initialize (MCP 2026-07-28 is stateless)''
              else build_legacy_initialize_response
                \<lparr>si_name = (case opt_prop (so_serverInfo (rv_server env)) ''name'' of JStr t \<Rightarrow> t | _ \<Rightarrow> []),
                 si_version = (case opt_prop (so_serverInfo (rv_server env)) ''version'' of JStr t \<Rightarrow> t | _ \<Rightarrow> [])\<rparr> i)
      else if meth = ''notifications/initialized'' \<or> meth = ''notifications/cancelled'' then (s, Gives None)
      else if meth = ''server/discover'' then
        give (rpc_result i (JObj None (complete @
          [(''supportedVersions'', JArr None (map JStr
              (if MCP_LEGACY_SUPPORT_ENABLED then [MCP_PROTOCOL_VERSION, MCP_PROTOCOL_VERSION_LEGACY] else [MCP_PROTOCOL_VERSION]))),
           (''capabilities'', JObj None [(''tools'', list_changed), (''resources'', list_changed), (''prompts'', list_changed)]),
           (''serverInfo'', so_serverInfo (rv_server env))])))
      else if meth = ''ping'' then give (rpc_result i (JObj None []))
      else if meth = ''tools/list'' then
        (let s = await_providers env rounds s in
         (s, Gives (Some (for_era request (rpc_result i
            (listed env ''tools'' (diagnostic_entry # listed_locals env @ get_remote_tools env s)))))))
      else if meth = ''tools/call'' then
        (case transcode_mcp_to_liop env now bullet i (rq_params request) token s of
           (s, Gives r) \<Rightarrow> (s, Gives (Some (complete_call request r)))
         | (s, Throws e) \<Rightarrow> (s, Throws e)
         | (s, Hangs) \<Rightarrow> (s, Hangs))
      else if meth = ''resources/list'' then
        give (for_era request (rpc_result i
          (listed env ''resources'' (so_listResources (rv_server env) @ get_remote_resources env s))))
      else if meth = ''resources/read'' then give (read_resource env request i s)
      else if meth = ''prompts/list'' then
        give (for_era request (rpc_result i (listed env ''prompts'' (so_listPrompts (rv_server env)))))
      else if meth = ''prompts/get'' then give (get_prompt env request i)
      else if meth = ''resources/templates/list'' then
        give (for_era request (rpc_result i (JObj None (cacheable 300000 ''public'' @ [(''resourceTemplates'', JArr None [])]))))
      else if meth = ''subscriptions/listen'' then give (for_era request (rpc_result i (JObj None complete)))
      else give (rpc_error_response i (-32601) (''Method not found: '' @ meth)))"

text \<open>\<open>dispatch\<close>: the scope check when the server validates tokens, then the method.\<close>

definition dispatch ::
    "router_env \<Rightarrow> time_ms \<Rightarrow> (mesh_ops \<times> time_ms) option list \<Rightarrow> string \<Rightarrow> mcp_request \<Rightarrow> jval \<Rightarrow> auth_info option \<Rightarrow> mcp_router \<Rightarrow>
       mcp_router \<times> mcp_response option promised" where
  "dispatch env now rounds bullet request i authInfo s =
     (let token = map_option ai_token authInfo in
      if \<not> rv_jwtActive env then serve env now rounds bullet request i token s
      else
        (case authorize_request (rq_method request) authInfo None of
           None \<Rightarrow> (s, Throws ''TypeError'')
         | Some authResult \<Rightarrow>
             if allowed authResult then serve env now rounds bullet request i token s
             else (s, Gives (Some (rpc_error_response i (-32099)
                    (case reason authResult of Some d \<Rightarrow> denial_text d | None \<Rightarrow> ''Access Denied''))))))"

end
