(* ===== verification/Router_Properties.thy ===== *)
theory Router_Properties
  imports Mcp_Router
begin

text \<open>
  What the gateway of \<open>gateway/router.ts\<close> guarantees: the cooldown of silent peers, the bound of a discovery,
  the attestation of what a refresh caches, the names of remote tools, the scope check, and exactly which
  results of a proxied call reach the client; and what it does not: the entries without attestation, the
  answers that no receipt covers, the tokens that leave with a call.
\<close>

section \<open>Cooldown and discovery\<close>

text \<open>
  A peer is left out of the manifest queries exactly while its cooldown lasts: fifteen seconds from its
  last failure, doubled with every further failure since its last answer, and never more than five minutes.
\<close>

theorem query_cooldown_exact:
  "snd (should_skip_manifest_query now p (run query.on_breaker [] es)) \<longleftrightarrow> cooling 15000 300000 now (history p es)"
  using query.check_exact [of "[]" p now es]
  by (simp add: failures_of_def MANIFEST_FAILURE_BASE_COOLDOWN_MS_def MANIFEST_FAILURE_MAX_COOLDOWN_MS_def)

lemma discover_retry_bound: "snd (discover_retry mo n k) \<le> k + n"
proof (induction n arbitrary: k)
  case (Suc n)
  show ?case using Suc.IH [of "k + 1"] by auto
qed simp

lemma discover_retry_finds:
  "\<exists>j<n. remote_ids mo (mo_discover mo (k + j)) \<noteq> [] \<Longrightarrow> remote_ids mo (fst (discover_retry mo n k)) \<noteq> []"
proof (induction n arbitrary: k)
  case (Suc n)
  then obtain j where j: "j < Suc n" "remote_ids mo (mo_discover mo (k + j)) \<noteq> []" by blast
  show ?case
  proof (cases "remote_ids mo (mo_discover mo k) = []")
    case True
    then have "j \<noteq> 0" using j(2) by (metis add_0_right)
    then have "\<exists>i<n. remote_ids mo (mo_discover mo (k + 1 + i)) \<noteq> []"
      using j by (intro exI [of _ "j - 1"]) simp
    with True Suc.IH [of "k + 1"] show ?thesis by (cases n) auto
  qed simp
qed simp

lemma set_fold_set_add: "set (fold set_add xs ys) = set xs \<union> set ys"
  by (induction xs arbitrary: ys) auto

lemma merge_active_finds:
  "remote_ids mo peers \<noteq> [] \<or> remote_ids mo (mo_connections mo) \<noteq> [] \<Longrightarrow> remote_ids mo (merge_active mo peers) \<noteq> []"
  by (auto simp: merge_active_def remote_ids_def filter_empty_conv set_fold_set_add)

lemma gather_bound: "snd (gather_providers mo n k) \<le> k + MANIFEST_DISCOVERY_RETRIES * n"
proof (induction n arbitrary: k)
  case (Suc n)
  obtain peers k' where r: "discover_retry mo MANIFEST_DISCOVERY_RETRIES k = (peers, k')" by (cases "discover_retry mo MANIFEST_DISCOVERY_RETRIES k")
  then have "k' \<le> k + MANIFEST_DISCOVERY_RETRIES"
    using discover_retry_bound [of mo MANIFEST_DISCOVERY_RETRIES k] by simp
  with Suc.IH [of k'] r show ?case by (auto simp: Let_def)
qed simp

lemma gather_finds_connected:
  "remote_ids mo (mo_connections mo) \<noteq> [] \<Longrightarrow> 0 < n \<Longrightarrow> remote_ids mo (fst (gather_providers mo n k)) \<noteq> []"
  by (cases n) (auto simp: Let_def merge_active_finds split: prod.split)

lemma discover_retry_next:
  "remote_ids mo (fst (discover_retry mo n k)) = [] \<Longrightarrow> snd (discover_retry mo n k) = k + n"
proof (induction n arbitrary: k)
  case (Suc n)
  then show ?case by (cases "remote_ids mo (mo_discover mo k) \<noteq> [] \<or> n = 0") (auto split: if_splits)
qed simp

lemma gather_finds:
  "\<exists>j<MANIFEST_DISCOVERY_RETRIES * n. remote_ids mo (mo_discover mo (k + j)) \<noteq> [] \<Longrightarrow>
     remote_ids mo (fst (gather_providers mo n k)) \<noteq> []"
proof (induction n arbitrary: k)
  case (Suc n)
  obtain peers k' where r: "discover_retry mo MANIFEST_DISCOVERY_RETRIES k = (peers, k')"
    by (cases "discover_retry mo MANIFEST_DISCOVERY_RETRIES k")
  show ?case
  proof (cases "remote_ids mo (merge_active mo peers) = []")
    case True
    then have none: "remote_ids mo peers = []" using merge_active_finds [of mo peers] by blast
    then have k': "k' = k + MANIFEST_DISCOVERY_RETRIES"
      using discover_retry_next [of mo MANIFEST_DISCOVERY_RETRIES k] r by simp
    have "\<not> (\<exists>j<MANIFEST_DISCOVERY_RETRIES. remote_ids mo (mo_discover mo (k + j)) \<noteq> [])"
      using discover_retry_finds [of MANIFEST_DISCOVERY_RETRIES mo k] r none by auto
    with Suc.prems obtain j where "MANIFEST_DISCOVERY_RETRIES \<le> j" "j < MANIFEST_DISCOVERY_RETRIES * Suc n"
      "remote_ids mo (mo_discover mo (k + j)) \<noteq> []" by (metis not_less)
    then have "\<exists>i<MANIFEST_DISCOVERY_RETRIES * n. remote_ids mo (mo_discover mo (k' + i)) \<noteq> []"
      using k' by (intro exI [of _ "j - MANIFEST_DISCOVERY_RETRIES"]) auto
    from Suc.IH [OF this] r True show ?thesis
    proof (cases n)
      case 0
      with \<open>\<exists>i<MANIFEST_DISCOVERY_RETRIES * n. remote_ids mo (mo_discover mo (k' + i)) \<noteq> []\<close> show ?thesis by simp
    qed (auto simp: Let_def)
  qed (use r in \<open>auto simp: Let_def\<close>)
qed simp

text \<open>
  A cold discovery asks the DHT at most 25 times; it comes back with a remote peer whenever one of these
  answers names one or the node is connected to one.
\<close>

theorem discovery_bounded_and_finds:
  "snd (gather_providers mo 5 0) \<le> 25 \<and>
   (remote_ids mo (fst (gather_providers mo 5 0)) = [] \<longrightarrow>
      remote_ids mo (mo_connections mo) = [] \<and> (\<forall>k<25. remote_ids mo (mo_discover mo k) = []))"
proof -
  have "snd (gather_providers mo 5 0) \<le> 25"
    using gather_bound [of mo 5 0] by (simp add: MANIFEST_DISCOVERY_RETRIES_def)
  moreover have "\<exists>k<25. remote_ids mo (mo_discover mo k) \<noteq> [] \<Longrightarrow> remote_ids mo (fst (gather_providers mo 5 0)) \<noteq> []"
    using gather_finds [of 5 mo 0] by (simp add: MANIFEST_DISCOVERY_RETRIES_def)
  ultimately show ?thesis using gather_finds_connected [of mo 5 0] by auto
qed

text \<open>A discovery that meets silence until the last answer; the witness of the implication.\<close>

theorem discovery_bounded_and_finds_witness:
  "\<exists>mo. remote_ids mo (fst (gather_providers mo 5 0)) = [] \<and> (\<forall>k<25. remote_ids mo (mo_discover mo k) = [])"
proof -
  define mo where "mo = \<lparr>mo_self = ''me'', mo_connections = [''me''], mo_bootstrap = [], mo_tableSize = 0,
    mo_discover = (\<lambda>k. [''me'']), mo_query = (\<lambda>p. Inr None), mo_arrival = id, mo_find = (\<lambda>n t. []),
    mo_resolve = (\<lambda>p. []), mo_sign = id\<rparr>"
  have retry: "remote_ids mo (fst (discover_retry mo n k)) = []" for n k
    by (induction n arbitrary: k) (auto simp: mo_def remote_ids_def)
  have "remote_ids mo (fst (gather_providers mo n k)) = []" for n k
  proof (induction n arbitrary: k)
    case (Suc n)
    obtain peers k' where r: "discover_retry mo MANIFEST_DISCOVERY_RETRIES k = (peers, k')"
      by (cases "discover_retry mo MANIFEST_DISCOVERY_RETRIES k")
    have "remote_ids mo peers = []" using retry [of MANIFEST_DISCOVERY_RETRIES k] r by simp
    then have "remote_ids mo (merge_active mo peers) = []"
      by (auto simp: merge_active_def remote_ids_def filter_empty_conv set_fold_set_add, auto simp: mo_def)
    with Suc.IH [of k'] r show ?case by (auto simp: Let_def)
  qed (simp add: remote_ids_def)
  then have none: "remote_ids mo (fst (gather_providers mo 5 0)) = []" .
  with discovery_bounded_and_finds [of mo] show ?thesis by blast
qed

section \<open>What the cache holds\<close>

text \<open>A manifest that carries a signature and a key verifies under that key.\<close>

definition signed_ok :: "router_env \<Rightarrow> liop_manifest \<Rightarrow> bool" where
  "signed_ok env m \<longleftrightarrow> (present (mf_pqcSignature m) \<and> present (mf_pqcPublicKey m) \<longrightarrow> attested env m)"

definition cache_ok :: "router_env \<Rightarrow> mcp_router \<Rightarrow> bool" where
  "cache_ok env s \<longleftrightarrow> (\<forall>p m t. map_of (ro_cache s) p = Some (m, t) \<longrightarrow> signed_ok env m)"

definition known :: "mcp_router \<Rightarrow> string set" where
  "known s = {p. map_of (ro_cache s) p \<noteq> None}"

lemma eligible_frame:
  "eligible_peers mo now ps (s, n) = (s', n', es) \<Longrightarrow>
     ro_cache s' = ro_cache s \<and> ro_meshAgentToken s' = ro_meshAgentToken s \<and> set es \<subseteq> set ps - {mo_self mo}"
proof (induction ps arbitrary: s n s' n' es)
  case (Cons p ps)
  show ?case
  proof (cases "p = mo_self mo")
    case True
    with Cons show ?thesis by fastforce
  next
    case False
    obtain st skip where sk: "should_skip_manifest_query now p (ro_failures s) = (st, skip)" by fastforce
    let ?s = "s\<lparr>ro_failures := st\<rparr>"
    obtain u k fs where r: "eligible_peers mo now ps (?s, n) = (u, k, fs)" by (cases "eligible_peers mo now ps (?s, n)")
    obtain u2 k2 fs2 where r2: "eligible_peers mo now ps (?s, n + 1) = (u2, k2, fs2)" by (cases "eligible_peers mo now ps (?s, n + 1)")
    show ?thesis
      using Cons.prems False sk r r2 Cons.IH [OF r] Cons.IH [OF r2]
      by (auto simp: Let_def split: if_splits option.splits)
  qed
qed simp

lemma cache_manifest_ok: "cache_ok env s \<Longrightarrow> signed_ok env m \<Longrightarrow> cache_ok env (cache_manifest now p m s)"
  by (auto simp: cache_ok_def cache_manifest_def jm.get_put)

lemma cache_ok_failures [simp]: "cache_ok env (s\<lparr>ro_failures := st\<rparr>) = cache_ok env s"
  "known (s\<lparr>ro_failures := st\<rparr>) = known s"
  by (simp_all add: cache_ok_def known_def)

lemma known_cache_manifest [simp]: "known (cache_manifest now p m s) = insert p (known s)"
  by (auto simp: known_def cache_manifest_def jm.get_put)

lemma cache_manifest_frame: "ro_meshAgentToken (cache_manifest now p m s) = ro_meshAgentToken s"
  by (simp add: cache_manifest_def)

lemma settle_query_cases:
  assumes "settle_query env mo now p s = (s', ok, bad)"
  obtains "s' = s" | st where "s' = s\<lparr>ro_failures := st\<rparr>"
  | m st where "mo_query mo p = Inr (Some m)" "signed_ok env m" "s' = (cache_manifest now p m s)\<lparr>ro_failures := st\<rparr>"
  using assms by (auto simp: settle_query_def signed_ok_def split: sum.splits option.splits if_splits)

lemma settle_query_frame:
  assumes "settle_query env mo now p s = (s', ok, bad)"
  shows "ro_meshAgentToken s' = ro_meshAgentToken s" "known s \<subseteq> known s'" "cache_ok env s \<Longrightarrow> cache_ok env s'"
  using assms by (auto elim!: settle_query_cases intro: cache_manifest_ok simp: cache_manifest_frame)

lemma settle_all_frame:
  "settle_all env mo now ps s = (s', oks, bads) \<Longrightarrow>
     ro_meshAgentToken s' = ro_meshAgentToken s \<and> known s \<subseteq> known s' \<and> (cache_ok env s \<longrightarrow> cache_ok env s')"
proof (induction ps arbitrary: s s' oks bads)
  case (Cons p ps)
  obtain u ok bad where q: "settle_query env mo now p s = (u, ok, bad)" by (cases "settle_query env mo now p s")
  obtain v k l where r: "settle_all env mo now ps u = (v, k, l)" by (cases "settle_all env mo now ps u")
  from Cons.prems q r have "s' = v" by simp
  with Cons.IH [OF r] settle_query_frame [OF q] show ?case by auto
qed simp

lemma discover_mesh_frame:
  "ro_meshAgentToken (fst (discover_mesh env mo now s)) = ro_meshAgentToken s"
  "known s \<subseteq> known (fst (discover_mesh env mo now s))"
  "cache_ok env s \<Longrightarrow> cache_ok env (fst (discover_mesh env mo now s))"
proof -
  let ?ps = "connected_first mo (fst (gather_providers mo (if ro_cache s = [] then 5 else 1) 0))"
  obtain u n es where e: "eligible_peers mo now ?ps (s, 0) = (u, n, es)" by (cases "eligible_peers mo now ?ps (s, 0)")
  obtain v oks bads where a: "settle_all env mo now (mo_arrival mo es) u = (v, oks, bads)"
    by (cases "settle_all env mo now (mo_arrival mo es) u")
  have s': "fst (discover_mesh env mo now s) = s \<or>
      (\<exists>st. fst (discover_mesh env mo now s) = v\<lparr>ro_stats := st\<rparr>)"
    using e a by (auto simp: discover_mesh_def Let_def)
  have frame: "known (x\<lparr>ro_stats := st\<rparr>) = known x" "cache_ok env (x\<lparr>ro_stats := st\<rparr>) = cache_ok env x" for x st
    by (simp_all add: known_def cache_ok_def)
  have "known u = known s" "cache_ok env u = cache_ok env s" "ro_meshAgentToken u = ro_meshAgentToken s"
    using eligible_frame [OF e] by (simp_all add: known_def cache_ok_def)
  with settle_all_frame [OF a] s' show "ro_meshAgentToken (fst (discover_mesh env mo now s)) = ro_meshAgentToken s"
    "known s \<subseteq> known (fst (discover_mesh env mo now s))" "cache_ok env s \<Longrightarrow> cache_ok env (fst (discover_mesh env mo now s))"
    by (auto simp: frame)
qed

lemma refresh_frame:
  "ro_meshAgentToken (fst (refresh_manifest_cache env silent now s)) = ro_meshAgentToken s"
  "known s \<subseteq> known (fst (refresh_manifest_cache env silent now s))"
  "cache_ok env s \<Longrightarrow> cache_ok env (fst (refresh_manifest_cache env silent now s))"
  using discover_mesh_frame
  by (auto simp: refresh_manifest_cache_def split: option.splits)

text \<open>
  C17. A refresh keeps the cache attested: a manifest with a signature and a key that fails the ML-DSA check is
  never stored, whatever the peers answer and in whatever order.
\<close>

theorem refreshed_cache_attested:
  assumes "cache_ok env s"
  shows "cache_ok env (fst (refresh_manifest_cache env silent now s))"
  using assms by (rule refresh_frame(3))

text \<open>
  A manifest without a signature, or without a key, is stored for the peer that sent it, whatever it
  claims, and clears the record of its failures: dropping the two fields passes the check.
\<close>

theorem unsigned_manifest_cached:
  assumes "mo_query mo p = Inr (Some m)" "\<not> present (mf_pqcSignature m) \<or> \<not> present (mf_pqcPublicKey m)"
  shows "settle_query env mo now p s =
     (s\<lparr>ro_cache := AList.update p (m, now) (ro_cache s), ro_failures := AList.delete p (ro_failures s)\<rparr>, True, False)"
  using assms by (auto simp: settle_query_def cache_manifest_def record_manifest_query_success_def)

section \<open>Names of remote tools\<close>

text \<open>
  What the listing needs so that every name leads back: no name is an alias or a name with the suffix of a
  peer, and the last four characters tell the peers apart.
\<close>

definition names_in :: "manifest_cache \<Rightarrow> string set" where
  "names_in cache = (\<lambda>(p, m, tool). mt_name tool) ` set (listing_of cache)"

definition suffixed :: "string \<Rightarrow> string \<Rightarrow> string" where
  "suffixed name p = name @ ''_'' @ last_chars 4 p"

definition clear_names :: "manifest_cache \<Rightarrow> bool" where
  "clear_names cache \<longleftrightarrow>
     (\<forall>n\<in>names_in cache. canonical n = n \<and>
        (\<forall>p\<in>fst ` set cache. suffixed n p \<notin> names_in cache \<and> canonical (suffixed n p) = suffixed n p)) \<and>
     (\<forall>p\<in>fst ` set cache. 4 \<le> length p \<and> CHR ''_'' \<notin> set (last_chars 4 p) \<and>
        (\<forall>q\<in>fst ` set cache. last_chars 4 p = last_chars 4 q \<longrightarrow> p = q))"

lemma name_tools_not_diagnostic: "(final, p, m, tool) \<in> set (name_tools taken es) \<Longrightarrow> mt_name tool \<noteq> DIAGNOSTIC_TOOL"
  by (induction taken es rule: name_tools.induct) (auto simp: Let_def split: if_splits)

lemma name_tools_entry:
  "(final, p, m, tool) \<in> set (name_tools taken es) \<Longrightarrow>
     \<exists>before after. es = before @ (p, m, tool) # after \<and>
       (final = mt_name tool \<and> mt_name tool \<notin> set taken \<and> mt_name tool \<notin> (\<lambda>(p, m, tool). mt_name tool) ` set before \<or>
        final = suffixed (mt_name tool) p)"
proof (induction taken es rule: name_tools.induct)
  case (2 taken q l u es)
  show ?case
  proof (cases "mt_name u = DIAGNOSTIC_TOOL \<or> (final, p, m, tool) = (if mt_name u \<in> set taken then suffixed (mt_name u) q else mt_name u, q, l, u)")
    case True
    then show ?thesis
    proof
      assume d: "mt_name u = DIAGNOSTIC_TOOL"
      then obtain before after where *: "es = before @ (p, m, tool) # after"
        "final = mt_name tool \<and> mt_name tool \<notin> set taken \<and> mt_name tool \<notin> (\<lambda>(p, m, tool). mt_name tool) ` set before \<or>
         final = suffixed (mt_name tool) p"
        using 2 by auto
      have "mt_name tool \<noteq> DIAGNOSTIC_TOOL" if "final = mt_name tool"
        using 2(3) d that by (auto dest: name_tools_not_diagnostic)
      with * d show ?thesis by (intro exI [of _ "(q, l, u) # before"] exI [of _ after]) auto
    next
      assume "(final, p, m, tool) = (if mt_name u \<in> set taken then suffixed (mt_name u) q else mt_name u, q, l, u)"
      then show ?thesis by (intro exI [of _ "[]"] exI [of _ es]) (auto split: if_splits)
    qed
  next
    case False
    let ?final = "if mt_name u \<in> set taken then suffixed (mt_name u) q else mt_name u"
    from False 2(2,3) obtain before after where *: "es = before @ (p, m, tool) # after"
      "final = mt_name tool \<and> mt_name tool \<notin> set (?final # taken) \<and> mt_name tool \<notin> (\<lambda>(p, m, tool). mt_name tool) ` set before \<or>
       final = suffixed (mt_name tool) p"
      by (auto simp: suffixed_def Let_def split: if_splits)
    then show ?thesis by (intro exI [of _ "(q, l, u) # before"] exI [of _ after]) (auto split: if_splits)
  qed
qed simp

lemma find_SomeD: "find P xs = Some x \<Longrightarrow> x \<in> set xs \<and> P x"
  by (induction xs) (auto split: if_splits)

lemma find_append: "find P (xs @ ys) = (case find P xs of Some x \<Rightarrow> Some x | None \<Rightarrow> find P ys)"
  by (induction xs) auto

lemma find_map: "find P (map f xs) = map_option f (find (P \<circ> f) xs)"
  by (induction xs) auto

lemma find_name_none:
  "n \<notin> (\<lambda>(p, m, tool). mt_name tool) ` set xs \<Longrightarrow> find (\<lambda>(p, m, tool). mt_name tool = n) xs = None"
  by (induction xs) auto

lemma find_target_listing:
  assumes "canonical name = name"
  shows "find_target peer name cache =
     map_option (\<lambda>(p, m, tool). (p, mt_name tool)) (find (\<lambda>(p, m, tool). peer p \<and> mt_name tool = name) (listing_of cache))"
  using assms
proof (induction peer name cache rule: find_target.induct)
  case (2 peer name p m t cache)
  have pred: "(\<lambda>tool. mt_name tool = name \<or> mt_name tool = canonical name) = (\<lambda>tool. mt_name tool = name)"
    using 2 by simp
  show ?case
  proof (cases "peer p")
    case True
    then show ?thesis using 2
      by (auto simp: listing_of_def find_append find_map comp_def pred split: option.splits)
  next
    case False
    then have "find (\<lambda>(p, m, tool). peer p \<and> mt_name tool = name) (map (\<lambda>tool. (p, m, tool)) (mf_tools m)) = None"
      by (simp add: find_None_iff)
    with False 2 show ?thesis by (simp add: listing_of_def find_append)
  qed
qed (simp add: listing_of_def)

lemma split_on_suffix: "c \<notin> set suffix \<Longrightarrow> split_on c (name @ c # suffix) = split_on c name @ [suffix]"
proof (induction name)
  case Nil
  have "split_on c suffix = [suffix]" if "c \<notin> set suffix" for suffix
    using that by (induction suffix) auto
  with Nil show ?case by simp
next
  case (Cons x name)
  then show ?case by (cases "split_on c name") (auto split: list.splits)
qed

lemma ends_with_last_chars: "4 \<le> length p \<Longrightarrow> 4 \<le> length q \<Longrightarrow> ends_with q (last_chars 4 p) \<longleftrightarrow> last_chars 4 q = last_chars 4 p"
  by (simp add: ends_with_def last_chars_def)

lemma listing_peer: "(p, m, tool) \<in> set (listing_of cache) \<Longrightarrow> p \<in> fst ` set cache \<and> mt_name tool \<in> names_in cache"
  by (force simp: listing_of_def names_in_def)

lemma resolve_suffixed:
  assumes clear: "clear_names cache" and entry: "(p, m, tool) \<in> set (listing_of cache)"
  shows "resolve_manifest_target (suffixed (mt_name tool) p) cache = Some (p, mt_name tool)"
proof -
  let ?n = "mt_name tool" let ?final = "suffixed ?n p"
  have p: "p \<in> fst ` set cache" and n: "?n \<in> names_in cache" using listing_peer [OF entry] by auto
  then have id: "canonical ?n = ?n" "canonical ?final = ?final" "?final \<notin> names_in cache"
    and suffix: "4 \<le> length p" "CHR ''_'' \<notin> set (last_chars 4 p)"
    using clear by (auto simp: clear_names_def)
  have "find_target (\<lambda>p. True) ?final cache = None"
    using id(3) find_name_none by (simp add: find_target_listing [OF id(2)] names_in_def)
  moreover have "split_on CHR ''_'' ?final = split_on CHR ''_'' ?n @ [last_chars 4 p]"
    using split_on_suffix [OF suffix(2), of ?n] by (simp add: suffixed_def)
  moreover have "find_target (\<lambda>q. ends_with q (last_chars 4 p)) ?n cache = Some (p, ?n)"
  proof -
    let ?P = "\<lambda>(q, m, t). ends_with q (last_chars 4 p) \<and> mt_name t = ?n"
    have "?P (p, m, tool)" using suffix(1) by (simp add: ends_with_last_chars)
    then have "find ?P (listing_of cache) \<noteq> None" using entry unfolding find_None_iff by blast
    then obtain e where e: "find ?P (listing_of cache) = Some e" by blast
    obtain q l u where q: "e = (q, l, u)" by (cases e)
    from find_SomeD [OF e] have mem: "(q, l, u) \<in> set (listing_of cache)"
      and u: "mt_name u = ?n" "ends_with q (last_chars 4 p)" by (simp_all add: q)
    from listing_peer [OF mem] have "q \<in> fst ` set cache" by blast
    with clear p have "4 \<le> length q" "last_chars 4 p = last_chars 4 q \<Longrightarrow> p = q" unfolding clear_names_def by blast+
    with u suffix(1) have "q = p" by (simp add: ends_with_last_chars)
    with e q u show ?thesis by (simp add: find_target_listing [OF id(1)])
  qed
  ultimately show ?thesis by (simp add: resolve_manifest_target_def Let_def)
qed

text \<open>
  C23. Every name under which a remote tool is listed leads back: a call under that name goes to the peer that
  offers the tool, under the name the peer knows, for every cache whose names and suffixes are clear.
\<close>

theorem listed_tool_routes_home:
  assumes clear: "clear_names cache" and entry: "(final, p, m, tool) \<in> set (name_tools local_names (listing_of cache))"
  shows "resolve_manifest_target final cache = Some (p, mt_name tool)"
proof -
  from name_tools_entry [OF entry] obtain before after where es: "listing_of cache = before @ (p, m, tool) # after"
    and final: "final = mt_name tool \<and> mt_name tool \<notin> set local_names \<and> mt_name tool \<notin> (\<lambda>(p, m, tool). mt_name tool) ` set before \<or>
      final = suffixed (mt_name tool) p" by blast
  have here: "(p, m, tool) \<in> set (listing_of cache)" by (simp add: es)
  show ?thesis
  proof (cases "final = suffixed (mt_name tool) p")
    case True
    with resolve_suffixed [OF clear here] show ?thesis by simp
  next
    case False
    with final have f: "final = mt_name tool" "mt_name tool \<notin> (\<lambda>(p, m, tool). mt_name tool) ` set before" by auto
    have "canonical (mt_name tool) = mt_name tool" using clear listing_peer [OF here] by (auto simp: clear_names_def)
    moreover have "find (\<lambda>(p, m, t). mt_name t = mt_name tool) before = None" using f(2) by (rule find_name_none)
    ultimately have "find_target (\<lambda>p. True) final cache = Some (p, mt_name tool)"
      using f(1) by (simp add: find_target_listing es find_append)
    then show ?thesis by (simp add: resolve_manifest_target_def)
  qed
qed

text \<open>Two peers offer the same tool, and the node has it as well.\<close>

definition bare_manifest :: "string list \<Rightarrow> liop_manifest" where
  "bare_manifest names = \<lparr>mf_peerId = [], mf_grpcPort = 50051,
     mf_tools = map (\<lambda>n. \<lparr>mt_name = n, mt_description = None, mt_inputSchema = JUndef\<rparr>) names, mf_resources = [],
     mf_serverName = None, mf_taxonomy = None, mf_authRequired = False, mf_tokenSlug = None, mf_pqcSignature = None,
     mf_pqcPublicKey = None, mf_object = []\<rparr>"

theorem listed_tool_routes_home_witness:
  "resolve_manifest_target ''sum_bbbb'' [(''aaaa'', bare_manifest [''sum''], 0), (''bbbb'', bare_manifest [''sum''], 0)] =
     Some (''bbbb'', ''sum'')"
proof -
  let ?cache = "[(''aaaa'', bare_manifest [''sum''], 0), (''bbbb'', bare_manifest [''sum''], 0 :: int)]"
  let ?tool = "\<lparr>mt_name = ''sum'', mt_description = None, mt_inputSchema = JUndef\<rparr>"
  have "clear_names ?cache"
    by (auto simp: clear_names_def names_in_def listing_of_def bare_manifest_def suffixed_def last_chars_def canonical_def
        TOOL_ALIASES_def)
  moreover have "(''sum_bbbb'', ''bbbb'', bare_manifest [''sum''], ?tool) \<in> set (name_tools [] (listing_of ?cache))"
    by (simp add: listing_of_def bare_manifest_def last_chars_def DIAGNOSTIC_TOOL_def Let_def)
  ultimately show ?thesis using listed_tool_routes_home [of ?cache] by fastforce
qed

text \<open>
  Without that condition names collide: a third peer whose identifier ends like the second one's gets the same
  listed name, and a call under it goes to the second peer.
\<close>

theorem listed_names_collide:
  "let cache = [(''xaaaa'', bare_manifest [''sum''], 0), (''xbbbb'', bare_manifest [''sum''], 0), (''ybbbb'', bare_manifest [''sum''], 0)] in
   map (\<lambda>(final, p, m, tool). (final, p)) (name_tools [] (listing_of cache)) =
     [(''sum'', ''xaaaa''), (''sum_bbbb'', ''xbbbb''), (''sum_bbbb'', ''ybbbb'')] \<and>
   resolve_manifest_target ''sum_bbbb'' cache = Some (''xbbbb'', ''sum'')"
  by (simp add: listing_of_def bare_manifest_def last_chars_def DIAGNOSTIC_TOOL_def Let_def resolve_manifest_target_def canonical_def
      TOOL_ALIASES_def ends_with_def)

section \<open>The proxied call\<close>

lemma run_replies:
  "run (on_router_event env pl secret) st (map Reply rs) =
     st\<lparr>tc_body := tc_body st @ concat (map lp_semantic_evidence rs),
        tc_last := (if rs = [] then tc_last st else Some (last rs))\<rparr>"
  by (induction rs arbitrary: st) auto

definition proxied_value :: "router_env \<Rightarrow> string \<Rightarrow> bytes \<Rightarrow> logic_response list \<Rightarrow> bool \<Rightarrow> jval" where
  "proxied_value env pl secret rs check_raised =
     (let body = concat (map lp_semantic_evidence rs) in
      if rs = [] \<or> lp_is_error (last rs) then body_result env body
      else if check_raised then text_result body []
      else if audit_reply env pl secret body (last rs) then body_result env body
      else audit_alert)"

text \<open>
  C40. What the client gets from a stream of replies that ends: the concatenated evidence, parsed, when the
  last reply passes the audit of the whole text; the alert when it fails it; but the text as it is when the
  check itself breaks down, and the evidence without any check when the last reply carries the error flag,
  which the remote host sets.
\<close>

theorem proxied_stream_exact:
  assumes "check_raised = (e = Check_Raised)" "e = Checked \<or> e = Check_Raised"
  shows "tc_settled (run (on_router_event env pl secret) transcoding_start (map Reply rs @ [Ended, e])) =
     Some (proxied_value env pl secret rs check_raised)"
  using assms
  by (auto simp: run_replies transcoding_start_def proxied_value_def settle_with_def)

text \<open>An audit of a proxied call never looks at the text it is asked about.\<close>

lemma expected_digest_proxy:
  "try_extract_proxy_output venv logic = Some p \<Longrightarrow> expected_output_digest venv logic x = expected_output_digest venv logic y"
  by (simp add: expected_output_digest_def)

lemma worker_ignores_output:
  assumes "try_extract_proxy_output venv logic = Some p" "zt_logicPayload t = Some logic" "x \<noteq> JUndef" "y \<noteq> JUndef"
  shows "worker_verify_receipt venv (t\<lparr>zt_expectedOutput := x\<rparr>) = worker_verify_receipt venv (t\<lparr>zt_expectedOutput := y\<rparr>)"
proof -
  note digest = expected_digest_proxy [OF assms(1), of x y]
  have fields: "zt_zkPolicy (t\<lparr>zt_expectedOutput := v\<rparr>) = zt_zkPolicy t" "zt_sessionSecret (t\<lparr>zt_expectedOutput := v\<rparr>) = zt_sessionSecret t"
    "zt_guestImageIdHex (t\<lparr>zt_expectedOutput := v\<rparr>) = zt_guestImageIdHex t" "zt_vkeyRaw (t\<lparr>zt_expectedOutput := v\<rparr>) = zt_vkeyRaw t"
    "zt_expectedOutput (t\<lparr>zt_expectedOutput := v\<rparr>) = v" "zt_logicPayload (t\<lparr>zt_expectedOutput := v\<rparr>) = zt_logicPayload t"
    "zt_remoteImageIdHex (t\<lparr>zt_expectedOutput := v\<rparr>) = zt_remoteImageIdHex t"
    "zt_zkReceipt (t\<lparr>zt_expectedOutput := v\<rparr>) = zt_zkReceipt t" for v by simp_all
  have given: "(x = JUndef) = False" "(y = JUndef) = False" using assms(3,4) by simp_all
  have "verify_v1 venv (t\<lparr>zt_expectedOutput := x\<rparr>) logic rh d = verify_v1 venv (t\<lparr>zt_expectedOutput := y\<rparr>) logic rh d" for rh d
    by (simp only: verify_v1_def fields given digest)
  moreover have "verify_v2 venv (t\<lparr>zt_expectedOutput := x\<rparr>) logic d = verify_v2 venv (t\<lparr>zt_expectedOutput := y\<rparr>) logic d" for d
    by (simp only: verify_v2_def fields given digest)
  ultimately show ?thesis using assms(2) by (simp only: worker_verify_receipt_def fields option.case prod.case)
qed

text \<open>
  C30. The receipt of a proxied call does not cover what the client gets: with the same proof and receipt, any
  text passes the audit that one text passes, so the host can answer whatever it likes.
\<close>

theorem proxied_answer_unbound:
  assumes "try_extract_proxy_output (rv_verifier env) (utf8 pl) = Some p"
    and "audit_reply env pl secret body r" "\<not> lp_is_error r"
  shows "proxied_value env pl secret [r\<lparr>lp_semantic_evidence := forged\<rparr>] False = body_result env forged"
proof -
  let ?task = "\<lambda>body. task_of (rv_vkeys env) (utf8 pl) (hex_of (lp_cryptographic_proof r)) (lp_zk_receipt r)
       (Options \<lparr>vz_sessionSecret = Some secret, vz_expectedOutput = JStr body, vz_guestImageIdHex = None, vz_vkeyRaw = None,
                 vz_zkPolicy = Some (if is_v2 (lp_zk_receipt r) then ''required'' else ''none''), vz_circuitName = None\<rparr>) JUndef"
  have task: "?task b = (?task [])\<lparr>zt_expectedOutput := JStr b\<rparr>" for b
    by (simp add: task_of_def Let_def)
  have logic: "zt_logicPayload (?task []) = Some (utf8 pl)" by (simp add: task_of_def Let_def)
  have "worker_verify_receipt (rv_verifier env) (?task forged) = worker_verify_receipt (rv_verifier env) (?task body)"
    using worker_ignores_output [OF assms(1) logic, of "JStr forged" "JStr body"] unfolding task [of forged] task [of body] by simp
  then have "audit_reply env pl secret forged (r\<lparr>lp_semantic_evidence := forged\<rparr>) = audit_reply env pl secret body r"
    by (simp add: audit_reply_def liop_verify_zk_receipt_def)
  with assms(2,3) show ?thesis by (simp add: proxied_value_def)
qed

lemma encode_v2_is_v2: "encode_v2 sha ty journal proof = Inr raw \<Longrightarrow> is_v2 raw"
  by (auto simp: encode_v2_def is_v2_def receipt_consts Let_def)

text \<open>
  The audit stops no one: from the proxied program alone, for any text, the host can write a version 2
  receipt with which the audit accepts, since the gateway never names a verification key.
\<close>

theorem proxied_audit_forgeable:
  "\<exists>raw. audit_reply env pl secret body (r\<lparr>lp_cryptographic_proof := [0], lp_zk_receipt := raw\<rparr>)"
proof -
  have "hex_of [0] \<noteq> []" by (simp add: hex_of_def)
  from no_key_receipt [OF this, of "rv_verifier env" "[]" "rv_vkeys env" "utf8 pl" "Some secret" "JStr body"]
  obtain journal raw where raw: "encode_v2 (ve_sha (rv_verifier env)) GROTH16 journal [] = Inr raw"
    and ok: "liop_verify_zk_receipt (rv_verifier env) (rv_vkeys env) (utf8 pl) (hex_of [0]) raw
       (Options \<lparr>vz_sessionSecret = Some secret, vz_expectedOutput = JStr body, vz_guestImageIdHex = None, vz_vkeyRaw = None,
                 vz_zkPolicy = Some ''required'', vz_circuitName = None\<rparr>) JUndef" by blast
  with encode_v2_is_v2 [OF raw] have "audit_reply env pl secret body (r\<lparr>lp_cryptographic_proof := [0], lp_zk_receipt := raw\<rparr>)"
    by (simp add: audit_reply_def)
  then show ?thesis by blast
qed

section \<open>Scopes\<close>

text \<open>
  With token validation a tool call is either refused with the error of missing scopes, leaving the router as it
  was, or comes with a token that has the scope of tool calls.
\<close>

theorem gateway_call_needs_scope:
  assumes "rv_jwtActive env" "rq_method request = ''tools/call''"
    and "dispatch env now rounds bullet request i authInfo s = (s', r)"
  shows "(s' = s \<and> (\<exists>msg. r = Gives (Some (rpc_error_response i (-32099) msg)))) \<or>
     (\<exists>info. authInfo = Some info \<and> ''liop:tools:call'' \<in> set (ai_scopes info))"
proof (cases authInfo)
  case None
  then have "authorize_request ''tools/call'' authInfo None = Some (deny (Authentication_Required ''tools/call''))"
    by (simp add: authorize_request_def scope_lookup_def SCOPE_MAP_def)
  with assms show ?thesis by (auto simp: dispatch_def Let_def)
next
  case (Some info)
  obtain res where res: "authorize_request ''tools/call'' (Some info) None = Some res"
    by (cases "authorize_request ''tools/call'' (Some info) None")
      (auto simp: authorize_request_def scope_lookup_def SCOPE_MAP_def Let_def split: if_splits)
  show ?thesis
  proof (cases "allowed res")
    case True
    with authorize_call_scope [OF res] Some show ?thesis by blast
  next
    case False
    with assms Some res show ?thesis by (auto simp: dispatch_def Let_def)
  qed
qed

section \<open>Tokens\<close>

definition grows :: "mcp_router \<Rightarrow> mcp_router \<Rightarrow> bool" where
  "grows s u \<longleftrightarrow> known s \<subseteq> known u \<and> (present (ro_meshAgentToken s) \<longrightarrow> ro_meshAgentToken u = ro_meshAgentToken s)"

lemma grows_refl [simp, intro]: "grows s s"
  by (simp add: grows_def)

lemma grows_trans [trans]: "grows s u \<Longrightarrow> grows u v \<Longrightarrow> grows s v"
  by (auto simp: grows_def)

lemma grows_discover [intro]: "grows s (fst (discover_mesh env mo now s))" "grows s (fst (refresh_manifest_cache env silent now s))"
  using discover_mesh_frame refresh_frame by (simp_all add: grows_def)

lemma grows_token: "get_or_acquire_mesh_agent_token env p s = (u, t) \<Longrightarrow> grows s u"
  by (auto simp: get_or_acquire_mesh_agent_token_def grows_def known_def Let_def split: option.splits list.splits if_splits)

lemma grows_cache [intro]: "grows s (cache_manifest now p m s)"
  by (auto simp: grows_def cache_manifest_frame)

lemma grows_warm_up: "grows s (warm_up env expected plateau lastSize rs s)"
proof (induction rs arbitrary: plateau lastSize s)
  case (Cons r rs)
  let ?u = "case r of None \<Rightarrow> s | Some (mo, now) \<Rightarrow> fst (discover_mesh env mo now s)"
  have "grows s ?u" by (auto split: option.splits prod.splits)
  moreover have "grows ?u (warm_up env expected n l rs ?u)" for n l by (rule Cons.IH)
  ultimately show ?case by (auto simp: Let_def intro: grows_trans)
qed simp

lemma grows_await [intro]: "grows s (await_providers env rounds s)"
  by (auto simp: await_providers_def grows_warm_up split: option.splits)

lemma grows_perform: "grows s (fst (perform_transcoding env mo i addr tool params p token s))"
  using grows_token [of env p s] by (auto simp: perform_transcoding_def split: prod.splits option.splits)

lemma grows_route: "grows s (fst (route_to_remote_provider env mo now i tool p params token s))"
  using grows_perform grows_trans [OF grows_cache grows_perform]
  by (auto simp: route_to_remote_provider_def Let_def split: sum.splits option.splits)

lemma grows_call_listed: "grows s (fst (call_listed env mo now i p tool params token s))"
  using grows_token [of env p s] grows_trans [OF grows_token [of env p s] grows_route] grows_route
  by (auto simp: call_listed_def split: prod.splits option.splits)

lemma grows_locate: "locate env now tool s = (u, r) \<Longrightarrow> grows s u"
  by (auto simp: locate_def Let_def split: option.splits)

lemma grows_transcode: "grows s (fst (transcode_mcp_to_liop env now bullet i params token s))"
  using grows_trans [OF grows_locate grows_call_listed] grows_trans [OF grows_locate grows_route] grows_locate
  by (auto simp: transcode_mcp_to_liop_def Let_def split: option.splits jval.splits prod.splits bool.splits)

lemma grows_dispatch: "grows s (fst (dispatch env now rounds bullet request i authInfo s))"
proof -
  have "grows s (fst (serve env now rounds bullet request i token s))" for token
    using grows_transcode [of s env now bullet i "rq_params request" token]
    by (auto simp: serve_def Let_def split: prod.splits promised.splits)
  then show ?thesis by (auto simp: dispatch_def Let_def split: option.splits)
qed

text \<open>The life of a gateway: requests, each with the world it meets, and the refreshes they start in the background.\<close>

datatype gateway_event =
  Incoming router_env time_ms "(mesh_ops \<times> time_ms) option list" string mcp_request jval "auth_info option"
| Background router_env time_ms

fun gateway_step :: "mcp_router \<Rightarrow> gateway_event \<Rightarrow> mcp_router" where
  "gateway_step s (Incoming env now rounds bullet request i authInfo) = fst (dispatch env now rounds bullet request i authInfo s)"
| "gateway_step s (Background env now) = fst (refresh_manifest_cache env True now s)"

interpretation growing: preserved gateway_step "grows s" for s
proof unfold_locales
  fix u e assume "grows s u"
  moreover have "grows u (gateway_step u e)" by (cases e) (auto intro: grows_dispatch)
  ultimately show "grows s (gateway_step u e)" by (rule grows_trans)
qed

text \<open>
  The token the gateway once acquired for itself is never renewed, whatever happens: every later call to a
  peer without a token of its own carries it, also when it has expired.
\<close>

theorem mesh_token_never_renewed:
  assumes "present (ro_meshAgentToken s)" "u = run gateway_step s es" "node_token env p u = None"
  shows "get_or_acquire_mesh_agent_token env p u = (u, ro_meshAgentToken s)"
proof -
  have "grows s u" unfolding assms(2) by (rule growing.run_inv) simp
  with assms(1) have "ro_meshAgentToken u = ro_meshAgentToken s" "present (ro_meshAgentToken u)" by (auto simp: grows_def)
  with assms(3) show ?thesis by (simp add: get_or_acquire_mesh_agent_token_def)
qed

text \<open>
  A cached manifest never leaves the cache: the time to live only decides when a peer is asked again, so the
  tools of a peer that is gone stay listed.
\<close>

theorem manifests_never_leave:
  "known s \<subseteq> known (run gateway_step s es)"
  using growing.run_inv [of s s es] by (simp add: grows_def)

lemma perform_with_token:
  "token \<noteq> [] \<Longrightarrow> perform_transcoding env mo i addr tool params p (Some token) s = (s, handshake env mo i addr tool params (Some token))"
  by (simp add: perform_transcoding_def present_def split: option.split prod.split)

lemma route_with_token:
  assumes "token \<noteq> []" "mo_query mo p = Inr found"
  shows "\<exists>addr. snd (route_to_remote_provider env mo now i tool p params (Some token) s) = handshake env mo i addr tool params (Some token)"
  using assms by (auto simp: route_to_remote_provider_def perform_with_token Let_def split: option.splits)

text \<open>
  The caller's own token travels with the call: a tool no cached manifest lists is called on the first peer that
  the DHT names for it, whoever that is, and the token of the request is presented to that peer.
\<close>

theorem caller_token_leaves:
  assumes "js_prop (with_normal_arguments params) ''name'' = Some (JStr tool)" "tool \<noteq> DIAGNOSTIC_TOOL" "\<not> is_local env tool"
    and "rv_mesh env = Some mo" "locate env now tool s = (u, None)" "find_provider mo tool = Some p"
    and "mo_query mo p = Inr found" "token \<noteq> []"
  shows "\<exists>addr. snd (transcode_mcp_to_liop env now bullet i params (Some token) s) =
     handshake env mo i addr tool (with_normal_arguments params) (Some token)"
  using assms route_with_token [of token mo p found env now i tool "with_normal_arguments params" u]
  by (simp add: transcode_mcp_to_liop_def Let_def)

section \<open>Witnesses\<close>

definition demo_router_mesh :: mesh_ops where
  "demo_router_mesh = \<lparr>mo_self = ''me'', mo_connections = [''peer''], mo_bootstrap = [], mo_tableSize = 1,
     mo_discover = (\<lambda>k. [''me'']), mo_query = (\<lambda>p. Inr (Some (bare_manifest [''sum'']))), mo_arrival = id,
     mo_find = (\<lambda>n t. [''stranger'']), mo_resolve = (\<lambda>p. [''/ip4/10.0.0.9/tcp/1'']), mo_sign = id\<rparr>"

definition demo_router_verifier :: verifier_env where
  "demo_router_verifier = demo_tee_env\<lparr>ve_text := (\<lambda>_. ''{__liop_proxy_tool}''),
     ve_parse := (\<lambda>_. Some (JObj None [(''__liop_proxy_tool'', JStr ''sum'')]))\<rparr>"

definition demo_router_env :: router_env where
  "demo_router_env = \<lparr>rv_variable = (\<lambda>v. None), rv_codec = \<lparr>cd_num = (\<lambda>n. []), cd_toBase64 = (\<lambda>b. []), cd_fromBase64 = (\<lambda>t. [])\<rparr>,
     rv_dsa = demo_dsa, rv_le = (\<lambda>a b. True), rv_parse = (\<lambda>t. None), rv_stringify = (\<lambda>v. []), rv_jwtActive = True,
     rv_server = demo_server, rv_statusBlock = [], rv_nexus = (\<lambda>u f. None), rv_interfaces = [], rv_mesh = Some demo_router_mesh,
     rv_defaultRpcPort = 50051, rv_negotiate = (\<lambda>a t c p. Rpc_Failed ''refused''), rv_encap = (\<lambda>pk. None),
     rv_aes = undefined, rv_nonce = [], rv_execute = (\<lambda>a t r. []), rv_verifier = demo_router_verifier, rv_vkeys = []\<rparr>"

definition demo_router :: mcp_router where
  "demo_router = \<lparr>ro_cache = [], ro_failures = [], ro_meshAgentToken = Some ''jwt'',
     ro_stats = \<lparr>ds_candidates = 0, ds_success = 0, ds_failures = 0\<rparr>\<rparr>"

definition demo_reply :: logic_response where
  "demo_reply = \<lparr>lp_semantic_evidence = ''1'', lp_cryptographic_proof = [0], lp_zk_receipt = [], lp_is_error = False,
     lp_proof_type = None, lp_guest_image_id = []\<rparr>"

theorem refreshed_cache_attested_witness:
  "cache_ok demo_router_env (fst (refresh_manifest_cache demo_router_env True 7 demo_router))"
  by (rule refreshed_cache_attested) (simp add: cache_ok_def demo_router_def)

theorem unsigned_manifest_cached_witness:
  "settle_query demo_router_env demo_router_mesh 7 ''peer'' demo_router =
     (demo_router\<lparr>ro_cache := [(''peer'', bare_manifest [''sum''], 7)], ro_failures := []\<rparr>, True, False)"
  using unsigned_manifest_cached [of demo_router_mesh "''peer''" "bare_manifest [''sum'']" demo_router_env 7 demo_router]
  by (simp add: demo_router_mesh_def bare_manifest_def present_def demo_router_def)

theorem proxied_stream_exact_witness:
  "tc_settled (run (on_router_event demo_router_env ''x'' []) transcoding_start (map Reply [] @ [Ended, Check_Raised])) =
     Some (proxied_value demo_router_env ''x'' [] [] True)"
  by (rule proxied_stream_exact) simp_all

theorem proxied_answer_unbound_witness:
  "\<exists>r. proxied_value demo_router_env ''x'' [] [r\<lparr>lp_semantic_evidence := ''forged''\<rparr>] False = text_result ''forged'' []"
proof -
  from proxied_audit_forgeable [of demo_router_env "''x''" "[]" "''1''" demo_reply]
  obtain raw where audit: "audit_reply demo_router_env ''x'' [] ''1'' (demo_reply\<lparr>lp_cryptographic_proof := [0], lp_zk_receipt := raw\<rparr>)"
    by blast
  have "try_extract_proxy_output (rv_verifier demo_router_env) (utf8 ''x'') = Some (JObj None [(''__liop_proxy_tool'', JStr ''sum'')])"
    by (simp add: demo_router_env_def demo_router_verifier_def try_extract_proxy_output_def trim_def js_space_def opt_prop_def
        starts_with_def)
  from proxied_answer_unbound [OF this audit, of "''forged''"]
  have "proxied_value demo_router_env ''x'' [] [demo_reply\<lparr>lp_cryptographic_proof := [0], lp_zk_receipt := raw,
      lp_semantic_evidence := ''forged''\<rparr>] False = body_result demo_router_env ''forged''"
    by (simp add: demo_reply_def)
  moreover have "body_result demo_router_env ''forged'' = text_result ''forged'' []"
    by (simp add: body_result_def demo_router_env_def)
  ultimately show ?thesis by (intro exI) simp
qed

theorem gateway_call_needs_scope_witness:
  "\<exists>s' r. dispatch demo_router_env 0 [] [] \<lparr>rq_method = ''tools/call'', rq_params = JUndef\<rparr> JNull None demo_router = (s', r) \<and> s' = demo_router \<and>
     (\<exists>msg. r = Gives (Some (rpc_error_response JNull (-32099) msg)))"
proof -
  obtain s' r where d: "dispatch demo_router_env 0 [] [] \<lparr>rq_method = ''tools/call'', rq_params = JUndef\<rparr> JNull None demo_router = (s', r)"
    by (cases "dispatch demo_router_env 0 [] [] \<lparr>rq_method = ''tools/call'', rq_params = JUndef\<rparr> JNull None demo_router")
  from gateway_call_needs_scope [OF _ _ d] have "s' = demo_router \<and> (\<exists>msg. r = Gives (Some (rpc_error_response JNull (-32099) msg)))"
    by (simp add: demo_router_env_def)
  with d show ?thesis by blast
qed

lemma node_token_unset: "rv_variable env = (\<lambda>v. None) \<Longrightarrow> node_token env p s = None"
  by (simp add: node_token_def node_variable_def Let_def)

theorem mesh_token_never_renewed_witness:
  "get_or_acquire_mesh_agent_token demo_router_env ''peer'' (gateway_step demo_router (Background demo_router_env 9)) =
     (gateway_step demo_router (Background demo_router_env 9), Some ''jwt'')"
  using mesh_token_never_renewed [of demo_router "gateway_step demo_router (Background demo_router_env 9)"
      "[Background demo_router_env 9]" demo_router_env "''peer''"]
  by (simp add: node_token_unset demo_router_env_def, simp add: demo_router_def present_def)

theorem caller_token_leaves_witness:
  "\<exists>addr. snd (transcode_mcp_to_liop demo_router_env 0 [] JNull (JObj None [(''name'', JStr ''max'')]) (Some ''mine'')
       (demo_router\<lparr>ro_cache := [(''peer'', bare_manifest [''sum''], 0)]\<rparr>)) =
     handshake demo_router_env demo_router_mesh JNull addr ''max'' (JObj None [(''name'', JStr ''max'')]) (Some ''mine'')"
proof -
  let ?s = "demo_router\<lparr>ro_cache := [(''peer'', bare_manifest [''sum''], 0)]\<rparr>"
  have args: "with_normal_arguments (JObj None [(''name'', JStr ''max'')]) = JObj None [(''name'', JStr ''max'')]"
    by (simp add: with_normal_arguments_def opt_prop_def)
  have "resolve_manifest_target ''max'' (ro_cache ?s) = None"
    by (simp add: resolve_manifest_target_def bare_manifest_def canonical_def TOOL_ALIASES_def)
  moreover have "refresh_manifest_cache demo_router_env False 0 ?s = (?s, False)"
    by (simp add: refresh_manifest_cache_def demo_router_env_def fresh_def MANIFEST_CACHE_TTL_S_def)
  ultimately have "locate demo_router_env 0 ''max'' ?s = (?s, None)" by (simp add: locate_def Let_def)
  moreover have "rv_mesh demo_router_env = Some demo_router_mesh" "\<not> is_local demo_router_env ''max''"
    by (simp_all add: demo_router_env_def is_local_def demo_server_def)
  moreover have "find_provider demo_router_mesh ''max'' = Some ''stranger''"
    by (simp add: find_provider_def demo_router_mesh_def upt_rec)
  moreover have "mo_query demo_router_mesh ''stranger'' = Inr (Some (bare_manifest [''sum'']))" by (simp add: demo_router_mesh_def)
  ultimately show ?thesis
    using caller_token_leaves [of "JObj None [(''name'', JStr ''max'')]" "''max''" demo_router_env demo_router_mesh 0 ?s ?s
        "''stranger''" "Some (bare_manifest [''sum''])" "''mine''" "[]" JNull]
    by (simp add: args DIAGNOSTIC_TOOL_def)
qed

end
