(* ===== verification/Manifest_Exchange.thy ===== *)
theory Manifest_Exchange
  imports Router_Properties Server_Properties
begin

text \<open>
  How a manifest travels: the two manifests the SDK publishes, the signed one of \<open>connectToMesh\<close> in
  \<open>server/index.ts\<close> and the plain one of the constructor in \<open>gateway/router.ts\<close>, through the packet of
  \<open>mesh/node.ts\<close> and the signature of \<open>rpc/crypto/dilithium.ts\<close> into the cache of a router; and how the call of
  a tool found there is answered by the serving node.
\<close>

section \<open>Published manifests\<close>

text \<open>What the server has registered; a property that is not set is \<open>JUndef\<close>.\<close>

record card_tool =
  ct_name :: string
  ct_description :: jval
  ct_inputSchema :: jval
  ct_zkMode :: jval
  ct_guestImageId :: jval
  ct_circuitName :: jval
  ct_vkey :: jval

record card_resource =
  cs_name :: string
  cs_uri :: string
  cs_description :: jval
  cs_mimeType :: jval
  cs_content :: jval

record node_card =
  nc_peerId :: string
  nc_port :: int
  nc_tools :: "card_tool list"
  nc_resources :: "card_resource list"
  nc_serverInfo :: jval
  nc_jwtActive :: bool
  nc_tokenSlug :: jval
  nc_guestImageId :: jval
  nc_vkeys :: jval
  nc_taxonomy :: jval

text \<open>\<open>a || b\<close>\<close>

definition js_or :: "jval \<Rightarrow> jval \<Rightarrow> jval" where
  "js_or a b = (if truthy a then a else b)"

definition published_taxonomy :: "jval \<Rightarrow> jval" where
  "published_taxonomy t =
     (if truthy t then JObj None
        [(''domain'', js_or (opt_prop t ''domain'') (JStr ''Unknown Domain'')),
         (''clearanceTier'', nullish (opt_prop t ''clearanceTier'') (JNum (Fin 0))),
         (''executionTypes'', js_or (opt_prop t ''executionTypes'') (JArr None []))]
      else JUndef)"

definition server_tool :: "node_card \<Rightarrow> card_tool \<Rightarrow> jval" where
  "server_tool node t = JObj None
     [(''name'', JStr (ct_name t)), (''description'', ct_description t), (''inputSchema'', ct_inputSchema t),
      (''zkMode'', ct_zkMode t), (''guestImageId'', nullish (ct_guestImageId t) (nc_guestImageId node)),
      (''circuitName'', ct_circuitName t), (''vkey'', ct_vkey t)]"

definition server_resource :: "card_resource \<Rightarrow> jval" where
  "server_resource r = JObj None
     [(''name'', JStr (cs_name r)), (''uri'', JStr (cs_uri r)), (''description'', cs_description r),
      (''mimeType'', cs_mimeType r), (''text'', case cs_content r of JStr t \<Rightarrow> JStr t | _ \<Rightarrow> cs_description r)]"

definition unsigned_manifest :: "node_card \<Rightarrow> manifest" where
  "unsigned_manifest node =
     [(''peerId'', JStr (nc_peerId node)), (''grpcPort'', JNum (Fin (of_int (nc_port node)))),
      (''tools'', JArr None (map (server_tool node) (nc_tools node))),
      (''resources'', JArr None (map server_resource (nc_resources node))), (''serverInfo'', nc_serverInfo node),
      (''authRequired'', JBool (nc_jwtActive node)), (''tokenSlug'', nc_tokenSlug node),
      (''guestImageId'', nc_guestImageId node), (''vkeys'', nc_vkeys node), (''taxonomy'', published_taxonomy (nc_taxonomy node))]"

text \<open>The manifest of \<open>connectToMesh\<close>, signed with the node's ML-DSA key.\<close>

definition server_manifest :: "codec \<Rightarrow> ml_dsa \<Rightarrow> node_card \<Rightarrow> bytes \<Rightarrow> bytes \<Rightarrow> crypto_error + manifest" where
  "server_manifest c d node sk pk =
     ebind (sign_manifest c d (unsigned_manifest node) sk pk) (\<lambda>(sig, key).
       Inr (unsigned_manifest node @ [(''pqcSignature'', JStr sig), (''pqcPublicKey'', JStr key)]))"

text \<open>The manifest the router registers for its own node.\<close>

definition gateway_tool :: "card_tool \<Rightarrow> jval" where
  "gateway_tool t = JObj None
     [(''name'', JStr (ct_name t)), (''description'', ct_description t), (''inputSchema'', ct_inputSchema t)]"

definition gateway_resource :: "card_resource \<Rightarrow> jval" where
  "gateway_resource r = JObj None
     [(''name'', JStr (cs_name r)), (''uri'', JStr (cs_uri r)), (''description'', cs_description r), (''mimeType'', cs_mimeType r)]"

definition gateway_manifest :: "node_card \<Rightarrow> manifest" where
  "gateway_manifest node =
     [(''peerId'', JStr (or_name (nc_peerId node) ''unknown'')), (''grpcPort'', JNum (Fin (of_int (nc_port node)))),
      (''tools'', JArr None (map gateway_tool (nc_tools node))),
      (''resources'', JArr None (map gateway_resource (nc_resources node))), (''serverInfo'', nc_serverInfo node),
      (''authRequired'', JBool (nc_jwtActive node)), (''tokenSlug'', nc_tokenSlug node),
      (''taxonomy'', published_taxonomy (nc_taxonomy node))]"

text \<open>The check of \<open>tokenSlug\<close> and the choice of the port before the node starts.\<close>

definition valid_slug :: "string \<Rightarrow> bool" where
  "valid_slug s \<longleftrightarrow> (case s of [] \<Rightarrow> False | c # cs \<Rightarrow> is_upper c \<and> list_all (\<lambda>c. is_upper c \<or> is_digit c \<or> c = CHR ''_'') cs)"

definition mesh_port :: "int option \<Rightarrow> string option \<Rightarrow> string option \<Rightarrow> string + int option" where
  "mesh_port port envPort slug =
     (if slug \<noteq> None \<and> slug \<noteq> Some [] \<and> \<not> valid_slug (the slug) then Inl ''Invalid tokenSlug''
      else Inr (case port of
                  Some p \<Rightarrow> Some p
                | None \<Rightarrow> (case envPort of Some (c # cs) \<Rightarrow> parse_int (c # cs) | _ \<Rightarrow> Some 50051)))"

section \<open>JSON drops what is undefined\<close>

text \<open>\<open>JSON.parse (JSON.stringify v)\<close> of a value without functions: undefined properties are gone, at every depth.\<close>

fun defined :: "jval \<Rightarrow> jval" where
  "defined (JArr i xs) = JArr None (map defined xs)"
| "defined (JObj i fs) = JObj None (map (\<lambda>p. (fst p, defined (snd p))) (filter (\<lambda>p. snd p \<noteq> JUndef) fs))"
| "defined v = v"

lemma defined_undef [simp]: "defined v = JUndef \<longleftrightarrow> v = JUndef"
  by (cases v) auto

lemma sort_key_fst_map: "sort_key fst (map (\<lambda>p. (fst p, f (snd p))) xs) = map (\<lambda>p. (fst p, f (snd p))) (sort_key fst xs)"
proof -
  have ins: "insort_key fst (fst p, f (snd p)) (map (\<lambda>p. (fst p, f (snd p))) ys) = map (\<lambda>p. (fst p, f (snd p))) (insort_key fst p ys)"
    for p ys by (induction ys) auto
  show ?thesis by (induction xs) (simp_all add: sort_key_def ins)
qed

lemma filter_defined:
  "filter (\<lambda>p. snd p \<noteq> JUndef) (map (\<lambda>p. (fst p, defined (snd p))) (filter (\<lambda>p. snd p \<noteq> JUndef) fs)) =
     map (\<lambda>p. (fst p, defined (snd p))) (filter (\<lambda>p. snd p \<noteq> JUndef) fs)"
  by (induction fs) auto

lemma canonicalize_defined: "canonicalize_json num (defined v) = canonicalize_json num v"
proof (induction v)
  case (JArr i xs)
  then show ?case by (auto intro!: arg_cong [of _ _ "join _"])
next
  case (JObj i fs)
  have "canonicalize_json num (defined (snd p)) = canonicalize_json num (snd p)" if "p \<in> set fs" for p
    using JObj [of p "snd p"] that by (cases p) auto
  then show ?case
    by (auto simp: filter_defined sort_key_fst_map comp_def intro!: arg_cong [of _ _ "join _"])
qed simp_all

lemma unsigned_part_defined:
  "unsigned_part (map (\<lambda>p. (fst p, defined (snd p))) (filter (\<lambda>p. snd p \<noteq> JUndef) fs)) =
     map (\<lambda>p. (fst p, defined (snd p))) (filter (\<lambda>p. snd p \<noteq> JUndef) (unsigned_part fs))"
  by (induction fs) (auto simp: unsigned_part_def)

lemma canonical_transit:
  "canonicalize_json num (JObj None (unsigned_part (map (\<lambda>p. (fst p, defined (snd p))) (filter (\<lambda>p. snd p \<noteq> JUndef) fs)))) =
     canonicalize_json num (JObj None (unsigned_part fs))"
  using canonicalize_defined [of num "JObj None (unsigned_part fs)"] by (simp add: unsigned_part_defined)

section \<open>The way of a signed manifest\<close>

definition transit :: "manifest \<Rightarrow> manifest" where
  "transit m = map (\<lambda>p. (fst p, defined (snd p))) (filter (\<lambda>p. snd p \<noteq> JUndef) m)"

lemma unsigned_manifest_part [simp]:
  "unsigned_part (unsigned_manifest node @ [(''pqcSignature'', s), (''pqcPublicKey'', k)]) = unsigned_manifest node"
  by (simp add: unsigned_part_def unsigned_manifest_def)

lemma unsigned_manifest_id [simp]: "unsigned_part (unsigned_manifest node) = unsigned_manifest node"
  by (simp add: unsigned_part_def unsigned_manifest_def)

lemma manifest_of_fields:
  "manifest_of v = Some m \<Longrightarrow> mf_pqcSignature m = as_string (opt_prop v ''pqcSignature'') \<and>
     mf_pqcPublicKey m = as_string (opt_prop v ''pqcPublicKey'') \<and> (\<exists>i. v = JObj i (mf_object m))"
  by (auto simp: manifest_of_def split: option.splits jval.splits)

lemma transit_prop: "distinct (map fst m) \<Longrightarrow> opt_prop (JObj i (transit m)) k = defined (opt_prop (JObj j m) k)"
proof (induction m)
  case (Cons p m)
  have "map_of m (fst p) = None" using Cons.prems by (auto simp: map_of_eq_None_iff)
  then show ?case using Cons by (cases "k = fst p") (auto simp: opt_prop_def transit_def split: option.splits)
qed (simp add: opt_prop_def transit_def)

lemma distinct_manifests:
  "distinct (map fst (unsigned_manifest node @ [(''pqcSignature'', s), (''pqcPublicKey'', k)]))"
  "distinct (map fst (gateway_manifest node))"
  by (simp_all add: unsigned_manifest_def gateway_manifest_def)

lemma transit_signature:
  assumes "manifest_of (JObj i (transit (unsigned_manifest node @ [(''pqcSignature'', JStr s), (''pqcPublicKey'', JStr k)]))) = Some m"
  shows "mf_pqcSignature m = Some s" "mf_pqcPublicKey m = Some k"
    "mf_object m = transit (unsigned_manifest node @ [(''pqcSignature'', JStr s), (''pqcPublicKey'', JStr k)])"
proof -
  have "opt_prop (JObj i (unsigned_manifest node @ [(''pqcSignature'', JStr s), (''pqcPublicKey'', JStr k)])) ''pqcSignature'' = JStr s"
    "opt_prop (JObj i (unsigned_manifest node @ [(''pqcSignature'', JStr s), (''pqcPublicKey'', JStr k)])) ''pqcPublicKey'' = JStr k"
    by (simp_all add: opt_prop_def unsigned_manifest_def)
  with manifest_of_fields [OF assms] show "mf_pqcSignature m = Some s" "mf_pqcPublicKey m = Some k"
    "mf_object m = transit (unsigned_manifest node @ [(''pqcSignature'', JStr s), (''pqcPublicKey'', JStr k)])"
    by (auto simp: transit_prop [OF distinct_manifests(1), where i = i and j = i])
qed

text \<open>
  C10. A manifest that the server signs arrives: through JSON, the packet and any chunking of the network it
  reaches a router that reads it back, finds the signature valid for the key it came with, and caches it.
\<close>

theorem signed_manifest_arrives:
  assumes lib: "dsa_correct d" "\<forall>b. cd_fromBase64 c (cd_toBase64 c b) = b" "length sk = SECRET_KEY_BYTES"
    and made: "server_manifest c d node sk (md_getPublicKey d sk) = Inr m"
    and json: "me_parse env (print (JObj None m)) = Some (JObj None (transit m))" "manifest_of (JObj None (transit m)) = Some r"
    and decoded: "me_text env (utf8 (print (JObj None m))) = print (JObj None m)"
    and sent: "manifest_packet (print (JObj None m)) = Some packet" "concat cs = packet @ extra"
    and router: "rv_codec renv = c" "rv_dsa renv = d"
    and asked: "mo_query mo p = map_sum id Some (ebind (read_manifest [] (map Chunk cs @ es)) (decode_manifest env))"
  shows "\<exists>st. settle_query renv mo now p s = ((cache_manifest now p r s)\<lparr>ro_failures := st\<rparr>, True, False) \<and>
     mf_pqcSignature r \<noteq> None \<and> attested renv r"
proof -
  from made obtain sig key where sgn: "sign_manifest c d (unsigned_manifest node) sk (md_getPublicKey d sk) = Inr (sig, key)"
    and m: "m = unsigned_manifest node @ [(''pqcSignature'', JStr sig), (''pqcPublicKey'', JStr key)]"
    by (auto simp: server_manifest_def)
  have r: "mf_pqcSignature r = Some sig" "mf_pqcPublicKey r = Some key" "mf_object r = transit m"
    using transit_signature [of None node sig key r] json(2) unfolding m by simp_all
  have "canonicalize_json (cd_num c) (JObj None (unsigned_part (transit m))) =
      canonicalize_json (cd_num c) (JObj None (unsigned_manifest node))"
    using canonical_transit [of "cd_num c" m] unfolding transit_def [symmetric] m unsigned_manifest_part .
  then have "attested renv r"
    using sgn lib r router
    by (auto simp: attested_def or_else_def verify_manifest_def sign_manifest_def dsa_sign_def dsa_verify_def dsa_correct_def or_default_def)
  moreover have "mo_query mo p = Inr (Some r)"
    unfolding asked manifest_stream_roundtrip [OF sent decoded] by (simp add: json)
  ultimately show ?thesis by (auto simp: settle_query_def cache_manifest_def r)
qed

text \<open>
  The manifest a router publishes for its own node carries no signature, and reading it back gives none: no
  other router ever checks it.
\<close>

theorem gateway_manifest_unsigned:
  assumes "manifest_of (JObj i (transit (gateway_manifest node))) = Some m"
  shows "\<not> present (mf_pqcSignature m) \<and> signed_ok env m"
proof -
  have "opt_prop (JObj i (gateway_manifest node)) ''pqcSignature'' = JUndef"
    by (simp add: opt_prop_def gateway_manifest_def)
  then have "opt_prop (JObj i (transit (gateway_manifest node))) ''pqcSignature'' = JUndef"
    by (simp add: transit_prop [OF distinct_manifests(2), where i = i and j = i])
  with manifest_of_fields [OF assms] show ?thesis by (auto simp: present_def signed_ok_def)
qed

section \<open>The answer to a proxied call\<close>

text \<open>The output of a program that asks for a tool: an object whose JSON names it.\<close>

definition names_call :: "node_env \<Rightarrow> jval \<Rightarrow> string \<Rightarrow> jval \<Rightarrow> bool" where
  "names_call env out name args \<longleftrightarrow> is_object out \<and> name \<noteq> [] \<and>
     (\<exists>decoded. ne_parse env (ne_stringify env out) = Some decoded \<and> js_prop decoded ''__liop_proxy_tool'' = Some (JStr name) \<and>
        args = js_or (opt_prop decoded ''__liop_proxy_args'') (JObj None []))"

lemma transform_call:
  "names_call env out name args \<Longrightarrow>
     transform_output env now agent out s =
       Option.bind (call_tool env now name args (or_name agent ''unknown-client'') s) (proxied env out)"
  by (cases out) (auto simp: names_call_def transform_output_def js_or_def Let_def)

text \<open>
  A released response to a program that asks for a tool is the answer of exactly that tool, called in the name
  of the session's agent. The tool is the one the program names: neither the capability the session was
  negotiated for nor its policy restricts it.
\<close>

theorem proxied_call_reaches_named_tool:
  assumes "json_parser (ne_parse env)" "execute_logic env io fr authorization req s = Some (s', Response resp)" "\<not> lp_is_error resp"
  shows "\<exists>ses w u a. map_of (as_sessions (ln_auth s)) (lr_session_token req) = Some ses \<and>
     run_pool env (remote_task (s\<lparr>ln_auth := a\<rparr>) req ses (session_policy (s\<lparr>ln_auth := a\<rparr>) ses)) = Some (Inr w) \<and> same_node s u \<and>
     (\<forall>name args. names_call env (sanitize_output DEFAULT_CONFIG (wr_output w)) name args \<longrightarrow>
        (\<exists>u' r v. call_tool env (io_now io) name args (or_name (gs_agent_did ses) ''unknown-client'') u = Some (u', r) \<and>
           proxied env (sanitize_output DEFAULT_CONFIG (wr_output w)) (u', r) = Some (u', Plain (lp_semantic_evidence resp) v)))"
proof -
  from execute_logic_released [OF assms] obtain ses a w v inner where
    ses: "map_of (as_sessions (ln_auth s)) (lr_session_token req) = Some ses"
    and rel: "released env (io_now io) fr req ses (s\<lparr>ln_auth := a\<rparr>) s' resp w v inner" by blast
  from rel obtain u u' where pool: "run_pool env (remote_task (s\<lparr>ln_auth := a\<rparr>) req ses (session_policy (s\<lparr>ln_auth := a\<rparr>) ses)) = Some (Inr w)"
    and same: "same_node (s\<lparr>ln_auth := a\<rparr>) u"
    and tr: "transform_output env (io_now io) (gs_agent_did ses) (sanitize_output DEFAULT_CONFIG (wr_output w)) u =
      Some (u', Plain (lp_semantic_evidence resp) v)"
    by (auto simp: released_def Let_def)
  have "same_node s u" using same by (simp add: same_node_def)
  moreover have "\<exists>t r v. call_tool env (io_now io) name args (or_name (gs_agent_did ses) ''unknown-client'') u = Some (t, r) \<and>
      proxied env (sanitize_output DEFAULT_CONFIG (wr_output w)) (t, r) = Some (t, Plain (lp_semantic_evidence resp) v)"
    if "names_call env (sanitize_output DEFAULT_CONFIG (wr_output w)) name args" for name args
  proof -
    from tr [unfolded transform_call [OF that]] obtain t r where
      "call_tool env (io_now io) name args (or_name (gs_agent_did ses) ''unknown-client'') u = Some (t, r)"
      and p: "proxied env (sanitize_output DEFAULT_CONFIG (wr_output w)) (t, r) = Some (u', Plain (lp_semantic_evidence resp) v)"
      by (auto simp: bind_eq_Some_conv)
    with proxied_state [OF p] show ?thesis by blast
  qed
  ultimately show ?thesis using ses pool by blast
qed

section \<open>Witnesses\<close>

theorem proxied_call_reaches_named_tool_witness:
  "\<exists>s' resp ses. execute_logic demo_node_env demo_io demo_fresh None (demo_request None) demo_node = Some (s', Response resp) \<and>
     map_of (as_sessions (ln_auth demo_node)) (lr_session_token (demo_request None)) = Some ses"
proof -
  obtain s' resp where r: "execute_logic demo_node_env demo_io demo_fresh None (demo_request None) demo_node = Some (s', Response resp)"
    "\<not> lp_is_error resp" using demo_release by blast
  from proxied_call_reaches_named_tool [OF demo_json_parser [unfolded demo_fields [symmetric]] r] r(1) show ?thesis by blast
qed

definition demo_published :: node_card where
  "demo_published = \<lparr>nc_peerId = ''peer'', nc_port = 50051, nc_tools = [], nc_resources = [], nc_serverInfo = JUndef, nc_jwtActive = False,
     nc_tokenSlug = JUndef, nc_guestImageId = JUndef, nc_vkeys = JUndef, nc_taxonomy = JUndef\<rparr>"

theorem gateway_manifest_unsigned_witness:
  "\<exists>m. manifest_of (JObj None (transit (gateway_manifest demo_published))) = Some m \<and> \<not> present (mf_pqcSignature m)"
proof -
  obtain m where m: "manifest_of (JObj None (transit (gateway_manifest demo_published))) = Some m"
    by (simp add: manifest_of_def transit_def gateway_manifest_def demo_published_def opt_prop_def published_taxonomy_def or_name_def)
  with gateway_manifest_unsigned [OF m, of demo_router_env] show ?thesis by blast
qed

theorem signed_manifest_arrives_witness:
  "\<exists>m r (mo :: mesh_ops). server_manifest demo_codec demo_dsa demo_published (replicate 4032 0) (replicate 1952 0) = Inr m \<and>
     mo_query mo ''peer'' = Inr (Some r) \<and> attested (demo_router_env\<lparr>rv_codec := demo_codec\<rparr>) r"
proof -
  let ?renv = "demo_router_env\<lparr>rv_codec := demo_codec\<rparr>"
  obtain m sig key where m: "server_manifest demo_codec demo_dsa demo_published (replicate 4032 0) (md_getPublicKey demo_dsa (replicate 4032 0)) = Inr m"
    and parts: "m = unsigned_manifest demo_published @ [(''pqcSignature'', JStr sig), (''pqcPublicKey'', JStr key)]"
    by (simp add: server_manifest_def sign_manifest_def dsa_sign_def SECRET_KEY_BYTES_def)
  obtain r where r: "manifest_of (JObj None (transit m)) = Some r"
    by (simp add: parts manifest_of_def transit_def unsigned_manifest_def demo_published_def opt_prop_def published_taxonomy_def)
  define env where "env = \<lparr>me_text = (\<lambda>b. ''x''), me_parse = (\<lambda>t. Some (JObj None (transit m)))\<rparr>"
  define reply where "reply = ebind (read_manifest [] (map Chunk [[0, 0, 0, 1], [0x78]] @ [])) (decode_manifest env)"
  define mo where "mo = demo_router_mesh\<lparr>mo_query := (\<lambda>p. map_sum id Some reply)\<rparr>"
  have packet: "manifest_packet ''x'' = Some [0, 0, 0, 1, 0x78]"
  proof -
    have "be_bytes 4 1 = [0, 0, 0, 1]" by code_simp
    then show ?thesis by (simp add: manifest_packet_def utf8_def utf8_char_def)
  qed
  have "reply = Inr r"
    using manifest_stream_roundtrip [OF packet, of "[[0, 0, 0, 1], [0x78]]" "[]" env "[]"] r by (simp add: reply_def env_def)
  then have asked: "mo_query mo ''peer'' = Inr (Some r)" by (simp add: mo_def)
  have "\<exists>st. settle_query ?renv mo 5 ''peer'' demo_router = ((cache_manifest 5 ''peer'' r demo_router)\<lparr>ro_failures := st\<rparr>, True, False) \<and>
      mf_pqcSignature r \<noteq> None \<and> attested ?renv r"
  proof (rule signed_manifest_arrives [OF demo_dsa_correct, where c = demo_codec and sk = "replicate 4032 0" and node = demo_published
        and m = m and env = env and print = "\<lambda>v. ''x''" and packet = "[0, 0, 0, 1, 0x78]" and cs = "[[0, 0, 0, 1], [0x78]]"
        and extra = "[]" and es = "[]"])
    show "mo_query mo ''peer'' = map_sum id Some (ebind (read_manifest [] (map Chunk [[0, 0, 0, 1], [0x78]] @ [])) (decode_manifest env))"
      unfolding reply_def [symmetric] by (simp add: mo_def)
  qed (use m r packet in \<open>simp_all add: SECRET_KEY_BYTES_def env_def demo_codec_def inv_f_f inj_def, simp_all add: demo_router_env_def\<close>)
  then have "attested ?renv r" by blast
  moreover have key: "md_getPublicKey demo_dsa (replicate 4032 0) = replicate 1952 0" by (simp add: demo_dsa_def)
  ultimately show ?thesis using m [unfolded key] asked by (intro exI conjI)
qed

end
