(* ===== verification/Hybrid_Gateway.thy ===== *)
theory Hybrid_Gateway
  imports Mcp_Router
begin

text \<open>
  \<open>gateway/hybrid.ts\<close>, \<open>gateway/interceptor.ts\<close> and \<open>gateway/grpc-web.ts\<close>: the HTTP front of the router. One
  HTTP/1 request is two steps, its arrival (probes, draining, gRPC-Web, the bearer token) and the end of its
  body (rate limit, parsing, interceptor, headers, dispatch); an HTTP/2 request is one step at the end of its
  stream. The life of a gateway is a sequence of such steps, of responses that end and of the drain.

  The mesh node, the OIDC provider, the interceptor, \<open>JSON.parse\<close>, the conversion of bytes and of values to
  text and the texts of the metrics are parameters. Log output is left out.
\<close>

section \<open>gRPC-Web frames\<close>

definition HEADER_LENGTH :: nat where "HEADER_LENGTH = 5"
definition FLAG_DATA :: byte where "FLAG_DATA = 0"
definition FLAG_TRAILERS :: byte where "FLAG_TRAILERS = 0x80"

record grpc_web_frame =
  gf_isTrailer :: bool
  gf_payload :: bytes

definition is_grpc_web_request :: "string option \<Rightarrow> bool" where
  "is_grpc_web_request contentType \<longleftrightarrow>
     (case contentType of
        None \<Rightarrow> False
      | Some t \<Rightarrow> t \<noteq> [] \<and> (let lower = to_lower t in
          starts_with lower ''application/grpc-web'' \<or> starts_with lower ''application/grpc-web+proto'' \<or>
          starts_with lower ''application/grpc-web+json''))"

text \<open>\<open>writeUInt32BE\<close> raises beyond its range.\<close>

definition frame_bytes :: "byte \<Rightarrow> bytes \<Rightarrow> bytes option" where
  "frame_bytes flag payload = (if 2 ^ 32 \<le> length payload then None else Some (flag # be_bytes 4 (length payload) @ payload))"

definition encode_data_frame :: "bytes \<Rightarrow> bytes option" where
  "encode_data_frame payload = frame_bytes FLAG_DATA payload"

text \<open>\<open>encodeURIComponent\<close>\<close>

definition uri_plain :: "char \<Rightarrow> bool" where
  "uri_plain c \<longleftrightarrow> is_upper c \<or> is_lower c \<or> is_digit c \<or> c \<in> set ''-_.!~*()'' \<or> c = CHR 0x27"

definition encode_uri_component :: "string \<Rightarrow> string" where
  "encode_uri_component s =
     concat (map (\<lambda>c. if uri_plain c then [c]
                      else concat (map (\<lambda>b. CHR ''%'' # to_upper (hex_of [b])) (utf8_char c))) s)"

definition encode_trailer_frame :: "nat \<Rightarrow> string \<Rightarrow> (string \<times> string) list \<Rightarrow> bytes option" where
  "encode_trailer_frame status message customTrailers =
     (let lines = (''grpc-status:'' @ show_nat status) # (''grpc-message:'' @ encode_uri_component message) #
                  map (\<lambda>(k, v). k @ '':'' @ v) customTrailers in
      frame_bytes FLAG_TRAILERS (utf8 (join crlf lines @ crlf)))"

text \<open>The loop of \<open>decodeFrames\<close> on the bytes from its offset on.\<close>

function decode_frames :: "bytes \<Rightarrow> grpc_web_frame list" where
  "decode_frames buffer =
     (if length buffer < HEADER_LENGTH then []
      else
        (let payloadEnd = HEADER_LENGTH + be_val (subarray buffer 1 HEADER_LENGTH) in
         if length buffer < payloadEnd then []
         else \<lparr>gf_isTrailer = bit (hd buffer) 7, gf_payload = subarray buffer HEADER_LENGTH payloadEnd\<rparr>
              # decode_frames (drop payloadEnd buffer)))"
  by pat_completeness auto
termination
  by (relation "measure length") (auto simp: HEADER_LENGTH_def)

declare decode_frames.simps [simp del]

text \<open>What the client gets back; the handler yields a status, a message and data, or raises.\<close>

definition STATUS_OK :: nat where "STATUS_OK = 0"
definition STATUS_INTERNAL :: nat where "STATUS_INTERNAL = 13"

definition dispatch_grpc_web_request ::
    "(string \<Rightarrow> bytes \<Rightarrow> string + nat \<times> string \<times> bytes) \<Rightarrow> string \<Rightarrow> bytes list \<Rightarrow> bytes option" where
  "dispatch_grpc_web_request handler url chunks =
     (let frames = decode_frames (concat chunks);
          dataPayload = (case find (\<lambda>f. \<not> gf_isTrailer f) frames of None \<Rightarrow> [] | Some f \<Rightarrow> gf_payload f) in
      case handler (if url = [] then ''/'' else url) dataPayload of
        Inl e \<Rightarrow> encode_trailer_frame STATUS_INTERNAL (if e = [] then ''Internal server error'' else e) []
      | Inr (status, message, answer) \<Rightarrow>
          Option.bind (if answer = [] then Some [] else encode_data_frame answer) (\<lambda>d.
            map_option ((@) d) (encode_trailer_frame status message [])))"

text \<open>The handler the gateway passes.\<close>

definition gateway_grpc_web :: "string \<Rightarrow> bytes list \<Rightarrow> bytes option" where
  "gateway_grpc_web = dispatch_grpc_web_request (\<lambda>path payload. Inr (STATUS_OK, ''OK'', []))"

section \<open>The interceptor\<close>

record admission_result =
  ad_allowed :: bool
  ad_reason :: "string option"
  ad_errorCode :: "int option"

datatype fail_mode = Fail_Closed | Fail_Open

text \<open>How the race between the interceptor and its deadline ends.\<close>

datatype interceptor_run = Verdict admission_result | Interceptor_Threw string | Deadline

definition TIMEOUT_REASON :: string where
  "TIMEOUT_REASON = ''The operation was aborted due to timeout''"

definition interceptor_failed :: "fail_mode option \<Rightarrow> string \<Rightarrow> admission_result" where
  "interceptor_failed failMode errorMessage =
     (if failMode = Some Fail_Open then \<lparr>ad_allowed = True, ad_reason = None, ad_errorCode = None\<rparr>
      else \<lparr>ad_allowed = False, ad_reason = Some (''Interceptor unavailable: '' @ errorMessage), ad_errorCode = Some (-32098)\<rparr>)"

fun execute_gateway_interceptor :: "fail_mode option \<Rightarrow> interceptor_run \<Rightarrow> admission_result" where
  "execute_gateway_interceptor failMode (Verdict result) = result"
| "execute_gateway_interceptor failMode (Interceptor_Threw e) = interceptor_failed failMode e"
| "execute_gateway_interceptor failMode Deadline = interceptor_failed failMode TIMEOUT_REASON"

section \<open>State and environment\<close>

datatype http_body = Json jval | Rpc "mcp_response option" | Plain string | Welcome_Page | Nothing

record http_response =
  hp_status :: nat
  hp_headers :: "(string \<times> string) list"
  hp_body :: http_body

record http_request =
  hq_method :: string
  hq_url :: string
  hq_headers :: "string \<Rightarrow> string option"
  hq_ip :: "string option"

record mesh_front =
  mh_self :: "string option"           \<comment> \<open>\<open>getPeerId\<close>, which raises when the node is not running\<close>
  mh_started :: bool
  mh_peers :: "string list"
  mh_addresses :: "string list"
  mh_private :: bool

record gateway_env =
  hg_router :: router_env
  hg_validator :: "jwt_validator option"
  hg_verify :: jwt_verify
  hg_url :: "string \<Rightarrow> (string \<times> string) option"
  hg_oauth :: bool
  hg_intercept :: "(jval \<Rightarrow> string \<Rightarrow> auth_info option \<Rightarrow> string \<Rightarrow> interceptor_run) option"
  hg_failMode :: "fail_mode option"
  hg_front :: "mesh_front option"
  hg_text :: "bytes \<Rightarrow> string"
  hg_string :: "jval \<Rightarrow> string"        \<comment> \<open>a value in a template literal\<close>
  hg_metrics :: string
  hg_timestamp :: string
  hg_uptime :: int

record hybrid =
  hy_limiter :: rate_limiter
  hy_draining :: bool
  hy_active :: nat
  hy_router :: mcp_router

section \<open>Arrival of an HTTP/1 request\<close>

definition json_answer :: "nat \<Rightarrow> (string \<times> jval) list \<Rightarrow> http_response" where
  "json_answer status fs = \<lparr>hp_status = status, hp_headers = [(''Content-Type'', ''application/json'')], hp_body = Json (JObj None fs)\<rparr>"

definition not_found :: http_response where
  "not_found = \<lparr>hp_status = 404, hp_headers = [], hp_body = Plain ''Not Found''\<rparr>"

text \<open>The \<open>error\<close> field of an answer the gateway writes itself.\<close>

definition error_field :: "int \<Rightarrow> string \<Rightarrow> string \<times> jval" where
  "error_field code message =
     (''error'', JObj None [(''code'', JNum (Fin (of_int code))), (''message'', JStr message)])"

definition draining_status :: "gateway_env \<Rightarrow> http_response" where
  "draining_status env = json_answer 503 [(''status'', JStr ''draining''), (''timestamp'', JStr (hg_timestamp env))]"

definition liveness :: "gateway_env \<Rightarrow> hybrid \<Rightarrow> http_response" where
  "liveness env s =
     (if hy_draining s then draining_status env
      else json_answer 200 [(''status'', JStr ''ok''), (''uptime'', JNum (Fin (of_int (hg_uptime env)))),
        (''timestamp'', JStr (hg_timestamp env))])"

definition readiness :: "gateway_env \<Rightarrow> hybrid \<Rightarrow> http_response" where
  "readiness env s =
     (if hy_draining s then draining_status env
      else
        (let started = (case hg_front env of None \<Rightarrow> True | Some m \<Rightarrow> mh_started m);
             peers = (case hg_front env of None \<Rightarrow> 0 | Some m \<Rightarrow> length (mh_peers m)) in
         if \<not> started then
           json_answer 503 [(''status'', JStr ''unready''), (''meshStarted'', JBool False), (''timestamp'', JStr (hg_timestamp env))]
         else
           json_answer 200 [(''status'', JStr ''ready''), (''meshStarted'', JBool True),
             (''peers'', JNum (Fin (of_nat peers))), (''timestamp'', JStr (hg_timestamp env))]))"

definition resource_metadata :: "gateway_env \<Rightarrow> http_response" where
  "resource_metadata env =
     (case hg_validator env of
        None \<Rightarrow> not_found
      | Some v \<Rightarrow>
          (let prm = build_protected_resource_metadata (jv_issuer v) (jv_audience v); strs = (\<lambda>xs. JArr None (map JStr xs)) in
           json_answer 200
             [(''resource'', JStr (prm_resource prm)), (''authorization_servers'', strs (prm_authorization_servers prm)),
              (''scopes_supported'', strs (prm_scopes_supported prm)),
              (''bearer_methods_supported'', strs (prm_bearer_methods_supported prm)),
              (''resource_documentation'', JStr (prm_resource_documentation prm))]))"

definition health_auth :: "gateway_env \<Rightarrow> jval" where
  "health_auth env =
     (case hg_validator env of
        None \<Rightarrow> JUndef
      | Some v \<Rightarrow>
          (let issuer = jv_issuer v; baseUrl = (if ends_with issuer ''/oidc'' then issuer else issuer @ ''/oidc'') in
           if issuer = [] then JUndef
           else JObj None
             ([(''issuer'', JStr issuer), (''jwks_uri'', JStr (baseUrl @ ''/jwks''))] @
              (if hg_oauth env then [(''token_endpoint'', JStr (baseUrl @ ''/token''))] else []))))"

text \<open>\<open>None\<close>: the identity of a mesh node that is not running raises out of the handler.\<close>

definition health :: "gateway_env \<Rightarrow> http_response option" where
  "health env =
     Option.bind
       (case hg_front env of
          None \<Rightarrow> Some JNull
        | Some m \<Rightarrow> map_option (\<lambda>self. JObj None
            [(''peerId'', JStr self), (''multiaddrs'', JArr None (map JStr (mh_addresses m)))]) (mh_self m))
       (\<lambda>mesh. Some (json_answer 200
         [(''status'', JStr ''healthy''), (''node'', so_serverInfo (rv_server (hg_router env))), (''mesh'', mesh),
          (''tools'', JArr None (map (\<lambda>t. JStr (fst t)) (so_listTools (rv_server (hg_router env))))),
          (''auth'', health_auth env),
          (''topology'', JObj None
             [(''tier'', JNum (Fin (if (case hg_front env of None \<Rightarrow> False | Some m \<Rightarrow> mh_private m) then 1 else 2))),
              (''prmEndpoint'', if hg_validator env = None then JUndef else JStr ''/.well-known/oauth-protected-resource''),
              (''transportCapabilities'', JArr None (map JStr [''http-mcp'', ''grpc-lio'', ''p2p-dht'']))]),
          (''timestamp'', JStr (hg_timestamp env))]))"

definition unauthorized :: "string \<Rightarrow> string \<Rightarrow> http_response" where
  "unauthorized description message =
     \<lparr>hp_status = 401,
      hp_headers = [(''WWW-Authenticate'',
        ''Bearer error='' @ [CHR 0x22] @ ''invalid_token'' @ [CHR 0x22] @ '', error_description='' @ [CHR 0x22] @ description @ [CHR 0x22]),
        (''Content-Type'', ''application/json'')],
      hp_body = Json (JObj None [(''error'', JStr message)])\<rparr>"

definition authenticate :: "gateway_env \<Rightarrow> string option \<Rightarrow> http_response + auth_info option" where
  "authenticate env authHeader =
     (case hg_validator env of
        None \<Rightarrow> Inr None
      | Some v \<Rightarrow>
          (let h = or_else authHeader [] in
           if \<not> starts_with h ''Bearer '' then
             Inl (unauthorized ''Missing or malformed Authorization header'' ''Unauthorized'')
           else
             (case jwt_validate (hg_verify env) (hg_url env) v (drop 7 h) of
                Inl e \<Rightarrow> Inl (unauthorized e ''Invalid token'')
              | Inr info \<Rightarrow> Inr (Some info))))"

datatype arrival = Answered http_response | To_Provider string | To_Grpc_Web | Reads_Body "auth_info option" | Raises

definition h1_arrival :: "gateway_env \<Rightarrow> http_request \<Rightarrow> hybrid \<Rightarrow> arrival" where
  "h1_arrival env q s =
     (let get = (hq_method q = ''GET''); url = hq_url q in
      if get \<and> url = ''/metrics'' then
        Answered \<lparr>hp_status = 200, hp_headers = [(''Content-Type'', ''text/plain; version=0.0.4; charset=utf-8'')],
          hp_body = Plain (hg_metrics env)\<rparr>
      else if get \<and> url = ''/healthz'' then Answered (liveness env s)
      else if get \<and> url = ''/readyz'' then Answered (readiness env s)
      else if hy_draining s \<and> url = ''/mcp'' then
        Answered (json_answer 503 [(''jsonrpc'', JStr ''2.0''), error_field (-32000) ''Gateway is draining connections for shutdown''])
      else if is_grpc_web_request (hq_headers q ''content-type'') then To_Grpc_Web
      else if starts_with url ''/oidc'' \<and> hg_oauth env then To_Provider (case drop 5 url of [] \<Rightarrow> ''/'' | c # cs \<Rightarrow> c # cs)
      else if get \<and> url = ''/.well-known/oauth-protected-resource'' then Answered (resource_metadata env)
      else if get \<and> (url = ''/'' \<or> url = ''/mcp'' \<or> url = ''/health'') then
        (if url = ''/health'' \<and> str_includes (or_else (hq_headers q ''accept'') []) ''application/json'' then
           (case health env of None \<Rightarrow> Raises | Some r \<Rightarrow> Answered r)
         else Answered \<lparr>hp_status = 200, hp_headers = [(''Content-Type'', ''text/html; charset=utf-8'')], hp_body = Welcome_Page\<rparr>)
      else if url = ''/mcp'' \<and> hq_method q = ''POST'' then
        (case authenticate env (hq_headers q ''authorization'') of Inl r \<Rightarrow> Answered r | Inr a \<Rightarrow> Reads_Body a)
      else Answered not_found)"

section \<open>The checks of a parsed request\<close>

text \<open>
  \<open>Malformed\<close>: an exception before the head of a response is written, \<open>After_Head\<close>: one after it, which the
  handler's own attempt to answer turns into an unhandled rejection.
\<close>

datatype refusal = Malformed | After_Head | Refused nat int string jval

definition request_id :: "jval \<Rightarrow> jval option" where
  "request_id j = map_option (\<lambda>v. nullish v JNull) (js_prop j ''id'')"

definition intercept :: "gateway_env \<Rightarrow> string \<Rightarrow> string \<Rightarrow> auth_info option \<Rightarrow> jval \<Rightarrow> refusal + unit" where
  "intercept env protocol clientIp authInfo j =
     (case hg_intercept env of
        None \<Rightarrow> Inr ()
      | Some f \<Rightarrow>
          (let verdict = execute_gateway_interceptor (hg_failMode env) (f j clientIp authInfo protocol) in
           if ad_allowed verdict then Inr ()
           else
             (case request_id j of
                None \<Rightarrow> Inl After_Head
              | Some i \<Rightarrow> Inl (Refused 403 (or_else (ad_errorCode verdict) (-32099))
                  (case ad_reason verdict of Some (c # cs) \<Rightarrow> c # cs | _ \<Rightarrow> ''Forbidden: Rejected by Gateway Interceptor'') i))))"

text \<open>A value inside a template literal.\<close>

fun template :: "gateway_env \<Rightarrow> jval \<Rightarrow> string" where
  "template env (JStr t) = t"
| "template env v = hg_string env v"

definition check_method :: "gateway_env \<Rightarrow> (string \<Rightarrow> string option) \<Rightarrow> jval \<Rightarrow> refusal + unit" where
  "check_method env headers j =
     (case headers ''mcp-method'' of
        Some (c # cs) \<Rightarrow>
          (case js_prop j ''method'' of
             None \<Rightarrow> Inl Malformed
           | Some m \<Rightarrow>
               if m = JStr (c # cs) then Inr ()
               else Inl (Refused 400 (-32020) (''HeaderMismatch: 'Mcp-Method' header ('' @ (c # cs) @
                      '') does not match JSON-RPC method ('' @ template env m @ '')'') (nullish (opt_prop j ''id'') JNull)))
      | _ \<Rightarrow> Inr ())"

definition check_name :: "gateway_env \<Rightarrow> (string \<Rightarrow> string option) \<Rightarrow> jval \<Rightarrow> refusal + unit" where
  "check_name env headers j =
     (case headers ''mcp-name'' of
        Some (c # cs) \<Rightarrow>
          (case js_prop j ''params'' of
             None \<Rightarrow> Inl Malformed
           | Some params \<Rightarrow>
               (let name = opt_prop params ''name'' in
                if truthy name \<and> name \<noteq> JStr (c # cs) then
                  Inl (Refused 400 (-32020) (''HeaderMismatch: 'Mcp-Name' header ('' @ (c # cs) @
                      '') does not match target name ('' @ template env name @ '')'') (nullish (opt_prop j ''id'') JNull))
                else Inr ()))
      | _ \<Rightarrow> Inr ())"

text \<open>
  The version of the header becomes the one of the request when it names none. Setting a field of a text, a
  number or \<open>true\<close> raises; a list of parameters, which the protocol excludes, is taken to do so too.
\<close>

definition VERSION_KEY :: string where
  "VERSION_KEY = ''io.modelcontextprotocol/protocolVersion''"

fun put_field :: "string \<Rightarrow> jval \<Rightarrow> jval \<Rightarrow> refusal + jval" where
  "put_field k x (JObj i fs) = Inr (JObj i (AList.update k x fs))"
| "put_field k x v = Inl Malformed"

definition put_version :: "string \<Rightarrow> jval \<Rightarrow> refusal + jval" where
  "put_version version params =
     (let meta = opt_prop params ''_meta''; meta = (if truthy meta then meta else JObj None []) in
      ebind (if truthy (opt_prop meta VERSION_KEY) then Inr meta else put_field VERSION_KEY (JStr version) meta) (\<lambda>meta.
        put_field ''_meta'' meta params))"

definition inject_version :: "(string \<Rightarrow> string option) \<Rightarrow> jval \<Rightarrow> refusal + jval" where
  "inject_version headers j =
     (case headers ''mcp-protocol-version'' of
        Some (c # cs) \<Rightarrow>
          (case js_prop j ''params'' of
             None \<Rightarrow> Inl Malformed
           | Some params \<Rightarrow>
               if truthy params then ebind (put_version (c # cs) params) (\<lambda>params. put_field ''params'' params j)
               else Inr j)
      | _ \<Rightarrow> Inr j)"

text \<open>The interceptor, the headers and the version; the two protocols run the same checks.\<close>

definition perimeter ::
    "gateway_env \<Rightarrow> string \<Rightarrow> string \<Rightarrow> (string \<Rightarrow> string option) \<Rightarrow> auth_info option \<Rightarrow> jval \<Rightarrow> refusal + jval" where
  "perimeter env protocol clientIp headers authInfo j =
     ebind (intercept env protocol clientIp authInfo j) (\<lambda>_.
     ebind (check_method env headers j) (\<lambda>_.
     ebind (check_name env headers j) (\<lambda>_.
       inject_version headers j)))"

section \<open>Dispatch\<close>

text \<open>What the mesh and the clock do while the request is served.\<close>

record world =
  wd_now :: time_ms
  wd_rounds :: "(mesh_ops \<times> time_ms) option list"
  wd_bullet :: string

definition router_of :: "gateway_env \<Rightarrow> router_env" where
  "router_of env = (hg_router env)\<lparr>rv_jwtActive := hg_validator env \<noteq> None\<rparr>"

text \<open>A method that is not a text matches no case of the switch.\<close>

definition unnamed_method :: "gateway_env \<Rightarrow> string \<Rightarrow> jval \<Rightarrow> auth_info option \<Rightarrow> mcp_response promised" where
  "unnamed_method env name i authInfo =
     (let missing = rpc_error_response i (-32601) (''Method not found: '' @ name) in
      if hg_validator env = None then Gives missing
      else
        (case authorize_request name authInfo None of
           None \<Rightarrow> Throws ''TypeError''
         | Some authResult \<Rightarrow>
             if allowed authResult then Gives missing
             else Gives (rpc_error_response i (-32099)
               (case reason authResult of Some d \<Rightarrow> denial_text d | None \<Rightarrow> ''Access Denied''))))"

definition dispatch_json ::
    "gateway_env \<Rightarrow> world \<Rightarrow> jval \<Rightarrow> auth_info option \<Rightarrow> mcp_router \<Rightarrow> mcp_router \<times> mcp_response option promised" where
  "dispatch_json env w j authInfo s =
     (case (js_prop j ''method'', opt_prop j ''params'', opt_prop j ''id'') of
        (None, _, _) \<Rightarrow> (s, Throws ''TypeError'')
      | (Some (JStr m), params, i) \<Rightarrow>
          dispatch (router_of env) (wd_now w) (wd_rounds w) (wd_bullet w) \<lparr>rq_method = m, rq_params = params\<rparr> i authInfo s
      | (Some v, params, i) \<Rightarrow>
          (s, case unnamed_method env (template env v) i authInfo of
                Throws e \<Rightarrow> Throws e | Hangs \<Rightarrow> Hangs | Gives r \<Rightarrow> Gives (Some r)))"

section \<open>The end of a body\<close>

datatype http_end = Sent http_response | Closed_Stream | Unsettled | Crashes

definition parse_error :: http_response where
  "parse_error = \<lparr>hp_status = 400, hp_headers = [],
     hp_body = Json (JObj None [(''jsonrpc'', JStr ''2.0''), error_field (-32700) ''Parse error''])\<rparr>"

definition refused :: "nat \<Rightarrow> int \<Rightarrow> string \<Rightarrow> jval \<Rightarrow> http_response" where
  "refused status code message i = json_answer status [(''jsonrpc'', JStr ''2.0''), (''id'', i), error_field code message]"

definition rate_key :: "auth_info option \<Rightarrow> string \<Rightarrow> string" where
  "rate_key authInfo clientIp =
     (case authInfo of
        Some info \<Rightarrow> if ai_clientId info \<noteq> [] then ''client:'' @ ai_clientId info else ''ip:'' @ clientIp
      | None \<Rightarrow> ''ip:'' @ clientIp)"

definition client_ip :: "http_request \<Rightarrow> string" where
  "client_ip q = (case hq_ip q of Some (c # cs) \<Rightarrow> c # cs | _ \<Rightarrow> ''127.0.0.1'')"

definition too_many :: "rate_limit_status \<Rightarrow> http_response" where
  "too_many status =
     \<lparr>hp_status = 429,
      hp_headers = [(''Content-Type'', ''application/json''), (''Retry-After'', show_int (- ((- resetMs status) div 1000)))],
      hp_body = Json (JObj None [(''jsonrpc'', JStr ''2.0''), (''id'', JNull),
        error_field (-32029) ''Rate limit exceeded. Too many requests.''])\<rparr>"

text \<open>The answers of the two protocols; \<open>Rpc None\<close> is the text \<open>null\<close>.\<close>

definition rpc_answer :: "mcp_response option \<Rightarrow> http_response" where
  "rpc_answer answer = \<lparr>hp_status = 200, hp_headers = [(''Content-Type'', ''application/json'')], hp_body = Rpc answer\<rparr>"

fun h1_end :: "mcp_response option promised \<Rightarrow> http_end" where
  "h1_end (Throws e) = Sent parse_error"
| "h1_end Hangs = Unsettled"
| "h1_end (Gives answer) = Sent (rpc_answer answer)"

definition bad_request :: http_response where
  "bad_request = \<lparr>hp_status = 400, hp_headers = [], hp_body = Nothing\<rparr>"

fun h2_end :: "mcp_response option promised \<Rightarrow> http_end" where
  "h2_end (Throws e) = Sent bad_request"
| "h2_end Hangs = Unsettled"
| "h2_end (Gives None) = Closed_Stream"
| "h2_end (Gives (Some answer)) = Sent (rpc_answer (Some answer))"

text \<open>The text of a body: every chunk is converted on its own.\<close>

definition body_text :: "gateway_env \<Rightarrow> bytes list \<Rightarrow> string" where
  "body_text env chunks = concat (map (hg_text env) chunks)"

definition h1_body ::
    "gateway_env \<Rightarrow> world \<Rightarrow> http_request \<Rightarrow> auth_info option \<Rightarrow> bytes list \<Rightarrow> hybrid \<Rightarrow> hybrid \<times> http_end" where
  "h1_body env w q authInfo chunks s =
     (case limiter_check (hy_limiter s) (rate_key authInfo (client_ip q)) (wd_now w) of
        (status, limiter) \<Rightarrow>
          (let s = s\<lparr>hy_limiter := limiter\<rparr> in
           if \<not> rate_limit_status.allowed status then (s, Sent (too_many status))
           else
             (case rv_parse (hg_router env) (body_text env chunks) of
                None \<Rightarrow> (s, Sent parse_error)
              | Some j \<Rightarrow>
                  (case perimeter env ''http1'' (client_ip q) (hq_headers q) authInfo j of
                     Inl Malformed \<Rightarrow> (s, Sent parse_error)
                   | Inl After_Head \<Rightarrow> (s, Crashes)
                   | Inl (Refused status code message i) \<Rightarrow> (s, Sent (refused status code message i))
                   | Inr j \<Rightarrow>
                       (case dispatch_json env w j authInfo (hy_router s) of
                          (ro, r) \<Rightarrow> (s\<lparr>hy_router := ro\<rparr>, h1_end r))))))"

section \<open>HTTP/2\<close>

definition mcp_h2_stream :: "gateway_env \<Rightarrow> world \<Rightarrow> http_request \<Rightarrow> bytes list \<Rightarrow> hybrid \<Rightarrow> hybrid \<times> http_end" where
  "mcp_h2_stream env w q chunks s =
     (case authenticate env (hq_headers q ''authorization'') of
        Inl r \<Rightarrow> (s, Sent r)
      | Inr authInfo \<Rightarrow>
          (case rv_parse (hg_router env) (body_text env chunks) of
             None \<Rightarrow> (s, Sent bad_request)
           | Some j \<Rightarrow>
               (case perimeter env ''http2'' (client_ip q) (hq_headers q) authInfo j of
                  Inl Malformed \<Rightarrow> (s, Sent bad_request)
                | Inl After_Head \<Rightarrow> (s, Crashes)
                | Inl (Refused status code message i) \<Rightarrow> (s, Sent (refused status code message i))
                | Inr j \<Rightarrow>
                    (case dispatch_json env w j authInfo (hy_router s) of
                       (ro, r) \<Rightarrow> (s\<lparr>hy_router := ro\<rparr>, h2_end r)))))"

text \<open>The stream of a path that is not served stays open; a gRPC call is answered by an empty stream.\<close>

definition h2_stream :: "gateway_env \<Rightarrow> world \<Rightarrow> http_request \<Rightarrow> bytes list \<Rightarrow> hybrid \<Rightarrow> hybrid \<times> http_end" where
  "h2_stream env w q chunks s =
     (if hq_headers q ''content-type'' = Some ''application/grpc'' then
        (s, Sent \<lparr>hp_status = 200, hp_headers = [(''content-type'', ''application/grpc'')], hp_body = Nothing\<rparr>)
      else if hq_url q = ''/mcp'' then mcp_h2_stream env w q chunks s
      else (s, Unsettled))"

text \<open>The multiplexer looks at the first bytes of a connection.\<close>

definition is_http2 :: "gateway_env \<Rightarrow> bytes \<Rightarrow> bool" where
  "is_http2 env buffer = starts_with (hg_text env buffer) ''PRI * HTTP/2.0''"

section \<open>The life of a gateway\<close>

text \<open>The requests that are open, each with what it still waits for.\<close>

record gateway_life =
  gl_gateway :: hybrid
  gl_open :: "(nat \<times> (http_request \<times> auth_info option) option) list"

datatype http_step =
  Arrives nat http_request
| Body_Ends nat world "bytes list"
| Response_Ends nat
| Stream_Ends world http_request "bytes list"
| Clean_Up time_ms
| Drain_Starts

definition opened :: "nat \<Rightarrow> arrival \<Rightarrow> http_request \<Rightarrow> gateway_life \<Rightarrow> gateway_life" where
  "opened k a q l =
     l\<lparr>gl_gateway := (gl_gateway l)\<lparr>hy_active := hy_active (gl_gateway l) + 1\<rparr>,
       gl_open := (k, case a of Reads_Body authInfo \<Rightarrow> Some (q, authInfo) | _ \<Rightarrow> None) # gl_open l\<rparr>"

text \<open>
  Every request has a number of its own. Its response ends or its connection closes, whichever is first: the
  listener of either removes both and takes the request off the count.
\<close>

fun life_step :: "gateway_env \<Rightarrow> gateway_life \<Rightarrow> http_step \<Rightarrow> gateway_life" where
  "life_step env l (Arrives k q) =
     (if map_of (gl_open l) k \<noteq> None then l else opened k (h1_arrival env q (gl_gateway l)) q l)"
| "life_step env l (Body_Ends k w chunks) =
     (case map_of (gl_open l) k of
        Some (Some (q, authInfo)) \<Rightarrow>
          l\<lparr>gl_gateway := fst (h1_body env w q authInfo chunks (gl_gateway l)), gl_open := AList.update k None (gl_open l)\<rparr>
      | _ \<Rightarrow> l)"
| "life_step env l (Response_Ends k) =
     (if map_of (gl_open l) k = None then l
      else l\<lparr>gl_gateway := (gl_gateway l)\<lparr>hy_active := hy_active (gl_gateway l) - 1\<rparr>, gl_open := AList.delete k (gl_open l)\<rparr>)"
| "life_step env l (Stream_Ends w q chunks) = l\<lparr>gl_gateway := fst (h2_stream env w q chunks (gl_gateway l))\<rparr>"
| "life_step env l (Clean_Up now) =
     l\<lparr>gl_gateway := (gl_gateway l)\<lparr>hy_limiter := limiter_cleanup (hy_limiter (gl_gateway l)) now\<rparr>\<rparr>"
| "life_step env l Drain_Starts = l\<lparr>gl_gateway := (gl_gateway l)\<lparr>hy_draining := True\<rparr>\<rparr>"

definition new_gateway :: "int option \<Rightarrow> int option \<Rightarrow> mcp_router \<Rightarrow> gateway_life" where
  "new_gateway window quota router =
     \<lparr>gl_gateway = \<lparr>hy_limiter = limiter_new window quota, hy_draining = False, hy_active = 0, hy_router = router\<rparr>,
      gl_open = []\<rparr>"

text \<open>
  The loop of \<open>drain\<close>: the samples are the active requests and the clock at every test of its condition;
  the result is the number of waits of 50 ms.
\<close>

fun drain_waits :: "int \<Rightarrow> time_ms \<Rightarrow> (nat \<times> time_ms) list \<Rightarrow> nat option" where
  "drain_waits timeoutMs start [] = None"
| "drain_waits timeoutMs start ((active, now) # samples) =
     (if 0 < active \<and> now - start < timeoutMs then map_option Suc (drain_waits timeoutMs start samples) else Some 0)"

end
