(* ===== verification/Gateway_Properties.thy ===== *)
theory Gateway_Properties
  imports Hybrid_Gateway Router_Properties
begin

text \<open>
  What the HTTP front guarantees: the frames of gRPC-Web, when an interceptor lets a request pass, what a
  request has shown before the router sees it, the count of active requests, the rate limit and the drain; and
  where the two protocols differ.
\<close>

section \<open>Frames\<close>

lemma frame_bytes_Some:
  "frame_bytes flag payload = Some b \<longleftrightarrow> length payload < 2 ^ 32 \<and> b = flag # be_bytes 4 (length payload) @ payload"
  by (auto simp: frame_bytes_def)

definition frame_of :: "byte \<times> bytes \<Rightarrow> grpc_web_frame" where
  "frame_of p = \<lparr>gf_isTrailer = bit (fst p) 7, gf_payload = snd p\<rparr>"

definition wire :: "byte \<times> bytes \<Rightarrow> bytes" where
  "wire p = fst p # be_bytes 4 (length (snd p)) @ snd p"

definition frame_fits :: "byte \<times> bytes \<Rightarrow> bool" where
  "frame_fits p \<longleftrightarrow> length (snd p) < 2 ^ 32"

lemma frame_wire: "frame_fits p \<Longrightarrow> frame_bytes (fst p) (snd p) = Some (wire p)"
  by (simp add: frame_fits_def frame_bytes_def wire_def)

lemma decode_frames_wire:
  assumes "frame_fits p"
  shows "decode_frames (wire p @ rest) = frame_of p # decode_frames rest"
proof -
  have size: "length (wire p @ rest) = 5 + length (snd p) + length rest" by (simp add: wire_def)
  have header: "subarray (wire p @ rest) 1 5 = be_bytes 4 (length (snd p))"
    by (simp add: subarray_def wire_def)
  have "wire p @ rest = (fst p # be_bytes 4 (length (snd p))) @ snd p @ rest" by (simp add: wire_def)
  then have skip: "drop 5 (wire p @ rest) = snd p @ rest" by simp
  have "subarray (wire p @ rest) 5 (5 + length (snd p)) = snd p" "drop (5 + length (snd p)) (wire p @ rest) = rest"
    by (simp_all only: subarray_def skip add.commute [of 5] drop_drop [symmetric]) simp_all
  moreover have "hd (wire p @ rest) = fst p" by (simp add: wire_def)
  ultimately show ?thesis
    using assms size header
    by (subst decode_frames.simps) (simp add: HEADER_LENGTH_def frame_of_def frame_fits_def Let_def)
qed

lemma decode_frames_split:
  "\<exists>ps rest. (\<forall>p\<in>set ps. frame_fits p) \<and> buffer = concat (map wire ps) @ rest \<and> decode_frames rest = []"
proof (induction buffer rule: decode_frames.induct)
  case (1 buffer)
  let ?n = "be_val (subarray buffer 1 HEADER_LENGTH)"
  show ?case
  proof (cases "length buffer < HEADER_LENGTH \<or> length buffer < HEADER_LENGTH + ?n")
    case True
    then have "decode_frames buffer = []" by (subst decode_frames.simps) (auto simp: Let_def)
    then show ?thesis by (intro exI [of _ "[]"] exI [of _ buffer]) simp
  next
    case False
    then have long: "\<not> length buffer < HEADER_LENGTH" "\<not> length buffer < HEADER_LENGTH + ?n" by auto
    obtain ps rest where ps: "\<forall>p\<in>set ps. frame_fits p" "drop (HEADER_LENGTH + ?n) buffer = concat (map wire ps) @ rest" "decode_frames rest = []"
      using 1 [OF long(1) refl long(2)] by blast
    let ?p = "(hd buffer, subarray buffer HEADER_LENGTH (HEADER_LENGTH + ?n))"
    have four: "length (subarray buffer 1 HEADER_LENGTH) = 4" using long by (simp add: subarray_def HEADER_LENGTH_def)
    have size: "length (snd ?p) = ?n" using long by (simp add: subarray_def)
    have "frame_fits ?p"
      using be_val_bound [of "subarray buffer 1 HEADER_LENGTH"] four unfolding frame_fits_def size by simp
    moreover have "buffer = wire ?p @ drop (HEADER_LENGTH + ?n) buffer"
    proof -
      have "buffer = hd buffer # tl buffer" using long by (cases buffer) (auto simp: HEADER_LENGTH_def)
      moreover have "tl buffer = take 4 (tl buffer) @ take ?n (drop 4 (tl buffer)) @ drop (4 + ?n) (tl buffer)"
        by (metis append_take_drop_id drop_drop add.commute)
      moreover have "be_bytes 4 ?n = take 4 (tl buffer)"
        using be_bytes_be_val [of "subarray buffer 1 HEADER_LENGTH"] four by (simp add: subarray_def HEADER_LENGTH_def drop_Suc)
      moreover have "snd ?p = take ?n (drop 4 (tl buffer))" "drop (HEADER_LENGTH + ?n) buffer = drop (4 + ?n) (tl buffer)"
        by (simp_all add: subarray_def HEADER_LENGTH_def drop_Suc eval_nat_numeral)
      ultimately show ?thesis unfolding wire_def size by simp
    qed
    ultimately show ?thesis using ps by (intro exI [of _ "?p # ps"] exI [of _ rest]) auto
  qed
qed

lemma decode_frames_wires: "\<forall>p\<in>set ps. frame_fits p \<Longrightarrow> decode_frames (concat (map wire ps) @ rest) = map frame_of ps @ decode_frames rest"
  by (induction ps) (auto simp: decode_frames_wire)

text \<open>
  C35. The parser of gRPC-Web inverts the framing: the frames of a buffer are exactly those whose encodings make
  up its beginning, and what is left over is not a whole frame.
\<close>

theorem grpc_web_frames_exact:
  "decode_frames buffer = fs \<longleftrightarrow>
     (\<exists>ps rest. (\<forall>p\<in>set ps. frame_bytes (fst p) (snd p) = Some (wire p)) \<and>
        buffer = concat (map wire ps) @ rest \<and> decode_frames rest = [] \<and> fs = map frame_of ps)"
proof -
  have fits: "frame_bytes (fst p) (snd p) = Some (wire p) \<longleftrightarrow> frame_fits p" for p
    by (auto simp: frame_bytes_Some frame_fits_def wire_def)
  show ?thesis unfolding fits
    using decode_frames_split [of buffer] decode_frames_wires by (metis append_Nil2)
qed

text \<open>
  The gateway has no gRPC-Web service: whatever is called, by whomever and with whatever payload, the answer
  is the trailer of success without a message.
\<close>

theorem grpc_web_always_succeeds:
  "gateway_grpc_web url chunks =
     Some (wire (FLAG_TRAILERS, utf8 (''grpc-status:0'' @ crlf @ ''grpc-message:OK'' @ crlf)))"
proof -
  have "encode_uri_component ''OK'' = ''OK''" by (simp add: encode_uri_component_def uri_plain_def is_upper_def)
  moreover have "show_nat 0 = ''0''" by code_simp
  ultimately show ?thesis
    by (simp add: gateway_grpc_web_def dispatch_grpc_web_request_def encode_trailer_frame_def frame_bytes_def wire_def STATUS_OK_def
        utf8_def utf8_char_def)
qed


section \<open>Admission\<close>

text \<open>
  A request passes the interceptor exactly when there is none, when its verdict allows it in time, or, in the
  mode that fails open, when it throws or misses its deadline. In the default mode silence refuses.
\<close>

theorem interceptor_admits_iff:
  "intercept env protocol ip a j = Inr () \<longleftrightarrow>
     (case hg_intercept env of
        None \<Rightarrow> True
      | Some f \<Rightarrow>
          (case f j ip a protocol of
             Verdict v \<Rightarrow> ad_allowed v
           | _ \<Rightarrow> hg_failMode env = Some Fail_Open))"
  by (auto simp: intercept_def interceptor_failed_def Let_def split: option.splits interceptor_run.splits)

lemma put_version_keeps:
  assumes "put_version v params = Inr params'" "k \<noteq> ''_meta''"
  shows "opt_prop params' k = opt_prop params k"
proof -
  from assms(1) obtain meta where "put_field ''_meta'' meta params = Inr params'"
    by (auto simp: put_version_def Let_def split: if_splits)
  then show ?thesis using assms(2)
    by (cases "(''_meta'', meta, params)" rule: put_field.cases) (auto simp: opt_prop_def AList.update_conv')
qed

text \<open>What the version of the header leaves alone.\<close>

lemma inject_version_keeps:
  assumes "inject_version headers j = Inr j'"
  shows "js_prop j' ''method'' = js_prop j ''method''" "opt_prop j' ''id'' = opt_prop j ''id''"
    and "k \<noteq> ''_meta'' \<Longrightarrow> opt_prop (opt_prop j' ''params'') k = opt_prop (opt_prop j ''params'') k"
proof -
  have "j' = j \<or> (\<exists>v i fs params. j = JObj i fs \<and> j' = JObj i (AList.update ''params'' params fs) \<and>
      put_version v (opt_prop j ''params'') = Inr params)"
    using assms by (cases j) (auto simp: inject_version_def opt_prop_def split: option.splits list.splits if_splits)
  then show "js_prop j' ''method'' = js_prop j ''method''" "opt_prop j' ''id'' = opt_prop j ''id''"
    "k \<noteq> ''_meta'' \<Longrightarrow> opt_prop (opt_prop j' ''params'') k = opt_prop (opt_prop j ''params'') k"
    by (auto simp: opt_prop_def AList.update_conv' dest: put_version_keeps [where k = k, unfolded opt_prop_def])
qed

text \<open>The headers name the method and the tool of the body, where they name one.\<close>

definition headers_agree :: "(string \<Rightarrow> string option) \<Rightarrow> jval \<Rightarrow> bool" where
  "headers_agree headers j \<longleftrightarrow>
     (\<forall>m. headers ''mcp-method'' = Some m \<and> m \<noteq> [] \<longrightarrow> js_prop j ''method'' = Some (JStr m)) \<and>
     (\<forall>n. headers ''mcp-name'' = Some n \<and> n \<noteq> [] \<longrightarrow>
        (let name = opt_prop (opt_prop j ''params'') ''name'' in truthy name \<longrightarrow> name = JStr n))"

lemma perimeter_passes:
  assumes "perimeter env protocol ip headers a j = Inr j'"
  shows "intercept env protocol ip a j = Inr ()" "headers_agree headers j" "inject_version headers j = Inr j'"
proof -
  from assms have checks: "intercept env protocol ip a j = Inr ()" "check_method env headers j = Inr ()" "check_name env headers j = Inr ()"
    "inject_version headers j = Inr j'"
    by (auto simp: perimeter_def)
  then show "intercept env protocol ip a j = Inr ()" "inject_version headers j = Inr j'" by auto
  have "js_prop j ''method'' = Some (JStr m)" if "headers ''mcp-method'' = Some m" "m \<noteq> []" for m
    using checks(2) that by (auto simp: check_method_def split: option.splits list.splits if_splits)
  moreover have "opt_prop (opt_prop j ''params'') ''name'' = JStr n"
    if "headers ''mcp-name'' = Some n" "n \<noteq> []" "truthy (opt_prop (opt_prop j ''params'') ''name'')" for n
    using checks(3) that by (auto simp: check_name_def Let_def opt_prop_def split: option.splits list.splits if_splits)
  ultimately show "headers_agree headers j" by (simp add: headers_agree_def Let_def)
qed

text \<open>An answer of the router, as opposed to one the gateway writes itself.\<close>

fun from_router :: "http_end \<Rightarrow> bool" where
  "from_router (Sent r) \<longleftrightarrow> (\<exists>answer. hp_body r = Rpc answer)"
| "from_router Closed_Stream \<longleftrightarrow> True"
| "from_router Unsettled \<longleftrightarrow> True"
| "from_router Crashes \<longleftrightarrow> False"

lemma own_answers [simp]:
  "hp_body parse_error \<noteq> Rpc x" "hp_body (too_many st) \<noteq> Rpc x" "hp_body (refused n c m i) \<noteq> Rpc x"
  "hp_body (unauthorized d m) \<noteq> Rpc x" "hp_body bad_request \<noteq> Rpc x" "hp_body (rpc_answer answer) = Rpc answer"
  by (simp_all add: bad_request_def rpc_answer_def parse_error_def too_many_def refused_def json_answer_def unauthorized_def)

lemma unauthenticated: "authenticate env h = Inl r \<Longrightarrow> \<exists>d m. r = unauthorized d m"
  by (auto simp: authenticate_def Let_def split: option.splits if_splits sum.splits)

lemma h1_body_dispatched:
  assumes "h1_body env w q a chunks s = (s', r)" "from_router r \<or> hy_router s' \<noteq> hy_router s"
  shows "rate_limit_status.allowed (fst (limiter_check (hy_limiter s) (rate_key a (client_ip q)) (wd_now w)))"
    and "\<exists>j j'. rv_parse (hg_router env) (body_text env chunks) = Some j \<and>
        perimeter env ''http1'' (client_ip q) (hq_headers q) a j = Inr j' \<and>
        hy_router s' = fst (dispatch_json env w j' a (hy_router s)) \<and> r = h1_end (snd (dispatch_json env w j' a (hy_router s)))"
  using assms by (auto simp: h1_body_def Let_def split: prod.splits if_splits option.splits sum.splits refusal.splits)

text \<open>
  C20. Before an HTTP/1 request reaches the router, the gateway was not draining, the request was a POST to the
  endpoint, its bearer token was valid where tokens are validated, it was within the rate limit of its client,
  its body parsed, the interceptor admitted it, and the routing headers named its method and tool.
\<close>

theorem http1_dispatch_guarded:
  assumes "h1_arrival env q s = Reads_Body a" "h1_body env w q a chunks u = (u', r)"
    and "from_router r \<or> hy_router u' \<noteq> hy_router u"
  shows "\<not> hy_draining s \<and> hq_url q = ''/mcp'' \<and> hq_method q = ''POST'' \<and>
     authenticate env (hq_headers q ''authorization'') = Inr a \<and>
     rate_limit_status.allowed (fst (limiter_check (hy_limiter u) (rate_key a (client_ip q)) (wd_now w))) \<and>
     (\<exists>j. rv_parse (hg_router env) (body_text env chunks) = Some j \<and>
        intercept env ''http1'' (client_ip q) a j = Inr () \<and> headers_agree (hq_headers q) j)"
proof -
  from assms(1) have "\<not> hy_draining s \<and> hq_url q = ''/mcp'' \<and> hq_method q = ''POST'' \<and> authenticate env (hq_headers q ''authorization'') = Inr a"
    by (auto simp: h1_arrival_def Let_def split: if_splits sum.splits option.splits)
  with h1_body_dispatched [OF assms(2,3)] perimeter_passes show ?thesis by blast
qed


section \<open>Tool calls need a token\<close>

lemma jwt_validate_scopes:
  assumes "jwt_validate verify url v token = Inr info"
  shows "\<exists>opts payload. verify token opts = Inr payload \<and> jo_audience opts = jv_audience v \<and>
     jo_algorithms opts = [''EdDSA'', ''ES256''] \<and> jv_issuer v \<in> set (jo_issuer opts) \<and>
     ai_scopes info = (case jp_scope payload of JStr s \<Rightarrow> split_on CHR '' '' s | _ \<Rightarrow> [])"
proof -
  let ?issuers = "build_issuer_aliases url v"
  let ?opts = "\<lparr>jo_issuer = (if 1 < length ?issuers then ?issuers else [jv_issuer v]), jo_audience = jv_audience v,
     jo_algorithms = [''EdDSA'', ''ES256''], jo_clockTolerance = 5, jo_requiredClaims = [''sub'', ''scope'']\<rparr>"
  obtain payload where "verify token ?opts = Inr payload" "ai_scopes info = (case jp_scope payload of JStr s \<Rightarrow> split_on CHR '' '' s | _ \<Rightarrow> [])"
    using assms by (auto simp: jwt_validate_def Let_def)
  moreover have "jv_issuer v \<in> set (jo_issuer ?opts)" using issuer_in_aliases [of v url] by simp
  ultimately show ?thesis by (intro exI [of _ ?opts] exI [of _ payload]) simp
qed

lemma authenticated:
  assumes "authenticate env header = Inr a" "hg_validator env = Some v"
  shows "\<exists>token info. header = Some (''Bearer '' @ token) \<and> a = Some info \<and> jwt_validate (hg_verify env) (hg_url env) v token = Inr info"
proof -
  obtain h where h: "header = Some h" "starts_with h ''Bearer ''"
    using assms by (cases header) (auto simp: authenticate_def Let_def or_else_def starts_with_def split: if_splits sum.splits)
  then have "h = ''Bearer '' @ drop 7 h" by (metis append_take_drop_id starts_with_def length_Cons list.size(3) eval_nat_numeral(2,3) numeral_nat)
  with h assms show ?thesis by (auto simp: authenticate_def Let_def or_else_def split: sum.splits if_splits)
qed

text \<open>The denial of the dispatcher: an error of its own code.\<close>

definition denied :: "http_end \<Rightarrow> bool" where
  "denied r \<longleftrightarrow> (\<exists>resp i msg. r = Sent resp \<and> hp_body resp = Rpc (Some (rpc_error_response i (-32099) msg)))"

lemma call_denied_or_scoped:
  assumes "hg_validator env \<noteq> None" "js_prop j ''method'' = Some (JStr ''tools/call'')"
  shows "(\<exists>i msg. dispatch_json env w j a s = (s, Gives (Some (rpc_error_response i (-32099) msg)))) \<or>
     (\<exists>info. a = Some info \<and> ''liop:tools:call'' \<in> set (ai_scopes info))"
proof -
  have jwt: "rv_jwtActive (router_of env)" using assms(1) by (simp add: router_of_def)
  obtain res where res: "authorize_request ''tools/call'' a None = Some res"
    by (cases "authorize_request ''tools/call'' a None")
      (auto simp: authorize_request_def scope_lookup_def SCOPE_MAP_def Let_def split: if_splits option.splits)
  show ?thesis
  proof (cases "allowed res")
    case True
    then obtain info where "a = Some info"
      using res by (cases a) (auto simp: authorize_request_def scope_lookup_def SCOPE_MAP_def Let_def split: if_splits)
    with True res authorize_call_scope show ?thesis by blast
  next
    case False
    then show ?thesis using jwt res assms(2) by (auto simp: dispatch_json_def dispatch_def Let_def)
  qed
qed

lemma h2_dispatched:
  assumes "mcp_h2_stream env w q chunks s = (s', r)" "from_router r \<or> hy_router s' \<noteq> hy_router s"
  shows "\<exists>a j j'. authenticate env (hq_headers q ''authorization'') = Inr a \<and> rv_parse (hg_router env) (body_text env chunks) = Some j \<and>
        perimeter env ''http2'' (client_ip q) (hq_headers q) a j = Inr j' \<and>
        hy_router s' = fst (dispatch_json env w j' a (hy_router s)) \<and> r = h2_end (snd (dispatch_json env w j' a (hy_router s)))"
proof (cases "authenticate env (hq_headers q ''authorization'')")
  case (Inl resp)
  with unauthenticated [OF Inl] assms show ?thesis by (auto simp: mcp_h2_stream_def)
next
  case (Inr a)
  with assms show ?thesis by (auto simp: mcp_h2_stream_def split: prod.splits option.splits sum.splits refusal.splits)
qed

text \<open>What an admitted tool call has shown.\<close>

definition call_token :: "gateway_env \<Rightarrow> jwt_validator \<Rightarrow> string option \<Rightarrow> bool" where
  "call_token env v header \<longleftrightarrow>
     (\<exists>token opts payload scope. header = Some (''Bearer '' @ token) \<and> hg_verify env token opts = Inr payload \<and>
        jo_audience opts = jv_audience v \<and> jo_algorithms opts = [''EdDSA'', ''ES256''] \<and> jv_issuer v \<in> set (jo_issuer opts) \<and>
        jp_scope payload = JStr scope \<and> ''liop:tools:call'' \<in> set (split_on CHR '' '' scope))"

lemma scoped_call_token:
  assumes "authenticate env header = Inr (Some info)" "hg_validator env = Some v" "''liop:tools:call'' \<in> set (ai_scopes info)"
  shows "call_token env v header"
proof -
  obtain token where token: "header = Some (''Bearer '' @ token)" "jwt_validate (hg_verify env) (hg_url env) v token = Inr info"
    using authenticated [OF assms(1,2)] by auto
  from jwt_validate_scopes [OF this(2)] obtain opts payload where ok: "hg_verify env token opts = Inr payload" "jo_audience opts = jv_audience v"
    "jo_algorithms opts = [''EdDSA'', ''ES256'']" "jv_issuer v \<in> set (jo_issuer opts)"
    and scopes: "ai_scopes info = (case jp_scope payload of JStr s \<Rightarrow> split_on CHR '' '' s | _ \<Rightarrow> [])" by blast
  with assms(3) obtain t where "jp_scope payload = JStr t" by (cases "jp_scope payload") auto
  with ok scopes assms(3) token show ?thesis by (auto simp: call_token_def)
qed

lemma passed_call:
  assumes "hg_validator env = Some v" "authenticate env (hq_headers q ''authorization'') = Inr a"
    and "perimeter env protocol ip (hq_headers q) a j = Inr j'" "js_prop j ''method'' = Some (JStr ''tools/call'')"
    and "end_of = h1_end \<or> end_of = h2_end"
  shows "denied (end_of (snd (dispatch_json env w j' a s))) \<and> fst (dispatch_json env w j' a s) = s \<or> call_token env v (hq_headers q ''authorization'')"
proof -
  have "js_prop j' ''method'' = Some (JStr ''tools/call'')" using inject_version_keeps(1) [OF perimeter_passes(3) [OF assms(3)]] assms(4) by simp
  from call_denied_or_scoped [OF _ this, of env w a s] assms(1)
  consider i msg where "dispatch_json env w j' a s = (s, Gives (Some (rpc_error_response i (-32099) msg)))"
    | info where "a = Some info" "''liop:tools:call'' \<in> set (ai_scopes info)" by auto
  then show ?thesis
  proof cases
    case 1
    then show ?thesis using assms(5) unfolding denied_def by fastforce
  next
    case 2
    then show ?thesis using scoped_call_token assms(1,2) by blast
  qed
qed

text \<open>
  C11. With token validation, over either protocol, a tool call that the gateway does anything for but deny came
  with a bearer token that the verifier accepted for the audience and an issuer of the node, signed with one of
  the two algorithms, and whose scope grants tool calls.
\<close>

theorem gateway_tool_call_authorized:
  assumes "hg_validator env = Some v" "rv_parse (hg_router env) (body_text env chunks) = Some j"
    and "js_prop j ''method'' = Some (JStr ''tools/call'')"
    and served: "(\<exists>s0 a. h1_arrival env q s0 = Reads_Body a \<and> h1_body env w q a chunks s = (s', r)) \<or> mcp_h2_stream env w q chunks s = (s', r)"
    and effect: "from_router r \<or> hy_router s' \<noteq> hy_router s"
  shows "denied r \<and> hy_router s' = hy_router s \<or> call_token env v (hq_headers q ''authorization'')"
  using served
proof
  assume "\<exists>s0 a. h1_arrival env q s0 = Reads_Body a \<and> h1_body env w q a chunks s = (s', r)"
  then obtain s0 a where arrival: "h1_arrival env q s0 = Reads_Body a" and body: "h1_body env w q a chunks s = (s', r)" by blast
  have "authenticate env (hq_headers q ''authorization'') = Inr a"
    using arrival by (auto simp: h1_arrival_def Let_def split: if_splits sum.splits option.splits)
  with h1_body_dispatched(2) [OF body effect] passed_call [OF assms(1) _ _ assms(3)] assms(2) show ?thesis
    by (metis option.inject)
next
  assume "mcp_h2_stream env w q chunks s = (s', r)"
  from h2_dispatched [OF this effect] passed_call [OF assms(1) _ _ assms(3)] assms(2) show ?thesis
    by (metis option.inject)
qed


section \<open>The count of active requests\<close>

definition counted :: "gateway_life \<Rightarrow> bool" where
  "counted l \<longleftrightarrow> distinct (map fst (gl_open l)) \<and> hy_active (gl_gateway l) = length (gl_open l)"

lemma h1_body_frame [simp]: "hy_active (fst (h1_body env w q a chunks s)) = hy_active s" "hy_draining (fst (h1_body env w q a chunks s)) = hy_draining s"
  by (simp_all add: h1_body_def Let_def split: prod.splits option.splits sum.splits refusal.splits)

lemma h2_stream_frame [simp]:
  "hy_active (fst (h2_stream env w q chunks s)) = hy_active s" "hy_draining (fst (h2_stream env w q chunks s)) = hy_draining s"
  "hy_limiter (fst (h2_stream env w q chunks s)) = hy_limiter s"
  by (simp_all add: h2_stream_def mcp_h2_stream_def Let_def split: prod.splits option.splits sum.splits refusal.splits)

lemma length_update_known: "map_of xs k \<noteq> None \<Longrightarrow> length (AList.update k v xs) = length xs"
  by (induction xs) auto

lemma length_delete_known: "distinct (map fst xs) \<Longrightarrow> map_of xs k \<noteq> None \<Longrightarrow> length (AList.delete k xs) = length xs - 1"
proof (induction xs)
  case (Cons x xs)
  show ?case
  proof (cases "fst x = k")
    case True
    with Cons.prems(1) have "k \<notin> fst ` set xs" by simp
    then have "AList.delete k xs = xs" by (rule delete_id)
    with True show ?thesis by (cases x) simp
  next
    case False
    with Cons.prems have "map_of xs k \<noteq> None" by (cases x) simp
    moreover from this have "0 < length xs" by (cases xs) auto
    ultimately show ?thesis using Cons False by (cases x) auto
  qed
qed simp

lemma counted_step: "counted l \<Longrightarrow> counted (life_step env l e)"
  by (cases e)
    (auto simp: counted_def opened_def map_of_eq_None_iff distinct_update distinct_delete length_update_known length_delete_known
      split: option.splits)

interpretation counting: preserved "life_step env" counted for env
  by unfold_locales (rule counted_step)

text \<open>
  Whatever happens to a gateway, the count that the drain waits for is the number of HTTP/1 requests whose
  response has not ended: none is counted twice, and none is forgotten.
\<close>

theorem active_requests_exact:
  "hy_active (gl_gateway (run (life_step env) (new_gateway window quota router) es)) =
     card (dom (map_of (gl_open (run (life_step env) (new_gateway window quota router) es))))"
proof -
  have "counted (run (life_step env) (new_gateway window quota router) es)"
    by (rule counting.run_inv) (simp add: counted_def new_gateway_def)
  then show ?thesis
    by (metis counted_def distinct_card dom_map_of_conv_image_fst length_map list.set_map)
qed

section \<open>The drain\<close>

text \<open>The requests that may still reach the router.\<close>

definition reading :: "gateway_life \<Rightarrow> nat set" where
  "reading l = {k. \<exists>p. map_of (gl_open l) k = Some (Some p)}"

lemma draining_arrival: "hy_draining s \<Longrightarrow> h1_arrival env q s \<noteq> Reads_Body a"
  by (auto simp: h1_arrival_def Let_def split: option.splits sum.splits)

definition closing :: "nat set \<Rightarrow> gateway_life \<Rightarrow> bool" where
  "closing ks l \<longleftrightarrow> hy_draining (gl_gateway l) \<and> reading l \<subseteq> ks"

lemma closing_step: "closing ks l \<Longrightarrow> closing ks (life_step env l e)"
  by (cases e)
    (auto simp: closing_def reading_def opened_def AList.update_conv' delete_conv' draining_arrival
      split: option.splits arrival.splits if_splits)

interpretation closing: preserved "life_step env" "closing ks" for env ks
  by unfold_locales (rule closing_step)

text \<open>
  Once the drain has started, the HTTP/1 requests that may still reach the router are among those whose body
  was awaited then.
\<close>

theorem drain_admits_no_request:
  "reading (run (life_step env) (life_step env l Drain_Starts) es) \<subseteq> reading l"
proof -
  have "closing (reading l) (life_step env l Drain_Starts)" by (simp add: closing_def reading_def)
  then have "closing (reading l) (run (life_step env) (life_step env l Drain_Starts) es)" by (rule closing.run_inv)
  then show ?thesis by (simp add: closing_def)
qed

text \<open>
  The drain ends: when every wait takes its 50 ms, it waits at most as often as 50 ms fit into the timeout,
  rounded up, whatever the requests do.
\<close>

lemma drain_waits_bound:
  assumes "\<forall>i. Suc i < length samples \<longrightarrow> snd (samples ! i) + 50 \<le> snd (samples ! Suc i)" "samples \<noteq> []"
    and "timeoutMs - (snd (samples ! 0) - start) \<le> 50 * int n" "n < length samples"
  shows "\<exists>m \<le> n. drain_waits timeoutMs start samples = Some m"
  using assms
proof (induction samples arbitrary: n)
  case (Cons x xs)
  obtain active now where x: "x = (active, now)" by (cases x)
  show ?case
  proof (cases "0 < active \<and> now - start < timeoutMs")
    case True
    with Cons.prems(3) x have "0 < n" by auto
    then obtain k where n: "n = Suc k" by (cases n) auto
    with Cons.prems(4) have xs: "xs \<noteq> []" "k < length xs" by auto
    have "snd (xs ! i) + 50 \<le> snd (xs ! Suc i)" if "Suc i < length xs" for i
      using Cons.prems(1) [rule_format, of "Suc i"] that by simp
    moreover have "timeoutMs - (snd (xs ! 0) - start) \<le> 50 * int k"
      using Cons.prems(1) [rule_format, of 0] Cons.prems(3) xs n by (auto simp: x)
    ultimately obtain m where "m \<le> k" "drain_waits timeoutMs start xs = Some m" using Cons.IH [of k] xs by auto
    with True x n show ?thesis by auto
  next
    case False
    with x show ?thesis by auto
  qed
qed simp

theorem drain_terminates:
  assumes "\<forall>i. Suc i < length samples \<longrightarrow> snd (samples ! i) + 50 \<le> snd (samples ! Suc i)"
    and "start \<le> snd (samples ! 0)" "nat ((timeoutMs + 49) div 50) < length samples"
  shows "\<exists>m \<le> nat ((timeoutMs + 49) div 50). drain_waits timeoutMs start samples = Some m"
  by (rule drain_waits_bound [OF assms(1)]) (use assms in \<open>auto simp: zdiv_int\<close>)


section \<open>The rate limit\<close>

text \<open>What the limiter of the gateway sees of its life.\<close>

fun limiter_view :: "gateway_life \<Rightarrow> http_step \<Rightarrow> limiter_event list" where
  "limiter_view l (Body_Ends k w chunks) =
     (case map_of (gl_open l) k of
        Some (Some (q, a)) \<Rightarrow> [limiter_event.Check (rate_key a (client_ip q)) (wd_now w)]
      | _ \<Rightarrow> [])"
| "limiter_view l (Clean_Up now) = [Cleanup now]"
| "limiter_view l _ = []"

fun limiter_trace :: "gateway_env \<Rightarrow> gateway_life \<Rightarrow> http_step list \<Rightarrow> limiter_event list" where
  "limiter_trace env l [] = []"
| "limiter_trace env l (e # es) = limiter_view l e @ limiter_trace env (life_step env l e) es"

definition throttled :: "http_end \<Rightarrow> bool" where
  "throttled r \<longleftrightarrow> (\<exists>resp. r = Sent resp \<and> hp_status resp = 429)"

text \<open>The bodies of a client that are not answered with the status of too many requests.\<close>

fun passes :: "gateway_env \<Rightarrow> string \<Rightarrow> gateway_life \<Rightarrow> http_step list \<Rightarrow> int" where
  "passes env key l [] = 0"
| "passes env key l (e # es) =
     (case e of
        Body_Ends k w chunks \<Rightarrow>
          (case map_of (gl_open l) k of
             Some (Some (q, a)) \<Rightarrow>
               if rate_key a (client_ip q) = key \<and> \<not> throttled (snd (h1_body env w q a chunks (gl_gateway l))) then 1 else 0
           | _ \<Rightarrow> 0)
      | _ \<Rightarrow> 0) + passes env key (life_step env l e) es"

lemma put_field_error: "put_field k x v = Inl e \<Longrightarrow> e = Malformed"
  by (cases v) auto

lemma inject_version_error: "inject_version headers j = Inl e \<Longrightarrow> e = Malformed"
  by (auto simp: inject_version_def put_version_def Let_def ebind_Inl_iff split: option.splits list.splits if_splits dest!: put_field_error)

lemma checks_status:
  "intercept env protocol ip a j = Inl (Refused n c m i) \<Longrightarrow> n = 403"
  "check_method env headers j = Inl (Refused n c m i) \<Longrightarrow> n = 400"
  "check_name env headers j = Inl (Refused n c m i) \<Longrightarrow> n = 400"
  by (auto simp: intercept_def check_method_def check_name_def Let_def split: option.splits list.splits if_splits)

lemma perimeter_status: "perimeter env protocol ip headers a j = Inl (Refused n c m i) \<Longrightarrow> n \<noteq> 429"
  unfolding perimeter_def ebind_Inl_iff by (auto dest: checks_status inject_version_error)

lemma h1_body_throttled:
  "throttled (snd (h1_body env w q a chunks s)) \<longleftrightarrow>
     \<not> rate_limit_status.allowed (fst (limiter_check (hy_limiter s) (rate_key a (client_ip q)) (wd_now w)))"
proof -
  have "\<not> throttled (h1_end r)" for r
    by (cases r) (simp_all add: throttled_def parse_error_def rpc_answer_def)
  then show ?thesis
    by (auto simp: h1_body_def Let_def throttled_def too_many_def parse_error_def refused_def json_answer_def
        split: prod.splits option.splits sum.splits refusal.splits dest: perimeter_status)
qed

lemma h1_body_limiter:
  "hy_limiter (fst (h1_body env w q a chunks s)) = snd (limiter_check (hy_limiter s) (rate_key a (client_ip q)) (wd_now w))"
  by (simp add: h1_body_def Let_def split: prod.splits option.splits sum.splits refusal.splits)

lemma life_limiter_step:
  "hy_limiter (gl_gateway (life_step env l e)) = run limiter_step (hy_limiter (gl_gateway l)) (limiter_view l e)"
  by (cases e) (auto simp: opened_def h1_body_limiter split: option.splits)

lemma life_limiter:
  "hy_limiter (gl_gateway (run (life_step env) l es)) = run limiter_step (hy_limiter (gl_gateway l)) (limiter_trace env l es)"
  by (induction es arbitrary: l) (simp_all add: life_limiter_step)

lemma passes_admitted: "passes env key l es = admitted key (hy_limiter (gl_gateway l)) (limiter_trace env l es)"
proof (induction es arbitrary: l)
  case (Cons e es)
  show ?case
    using Cons.IH [of "life_step env l e"] life_limiter_step [of env l e]
    by (cases e) (auto simp: admitted_append h1_body_throttled split: option.splits)
qed simp

text \<open>
  C34. However requests arrive, whatever they ask and whenever the timer cleans up: of the HTTP/1 requests of one
  client, at most \<open>2 m - 1\<close> pass the limiter within any span shorter than its window.
\<close>

theorem http1_rate_limited:
  assumes "1 \<le> m" "l = run (life_step env) (new_gateway (Some window) (Some m) router) earlier"
    and "sorted (map event_time (limiter_trace env l es))"
    and "\<forall>e\<in>set (limiter_trace env l es). lo \<le> event_time e \<and> event_time e < lo + window"
  shows "passes env key l es \<le> 2 * m - 1"
proof -
  let ?hist = "limiter_trace env (new_gateway (Some window) (Some m) router) earlier"
  have lim: "hy_limiter (gl_gateway l) = run limiter_step (limiter_new (Some window) (Some m)) ?hist"
    using assms(2) by (simp add: life_limiter) (simp add: new_gateway_def)
  have "limiter_inv (hy_limiter (gl_gateway l))" unfolding lim by (rule limiter.run_inv [OF limiter_inv_new])
  from admitted_span [OF this _ assms(3), of lo key] show ?thesis
    unfolding passes_admitted using assms(1,4) by (simp add: lim limiter_new_def)
qed

section \<open>Where HTTP/2 differs\<close>

text \<open>
  None of this holds over HTTP/2: a stream is served the same whatever the limiter has counted and whether or
  not the gateway is draining, and it leaves no trace in the limiter or the count of active requests.
\<close>

theorem http2_unlimited:
  "snd (h2_stream env w q chunks (s\<lparr>hy_limiter := lmt, hy_draining := d, hy_active := n\<rparr>)) = snd (h2_stream env w q chunks s) \<and>
   hy_router (fst (h2_stream env w q chunks (s\<lparr>hy_limiter := lmt, hy_draining := d, hy_active := n\<rparr>))) = hy_router (fst (h2_stream env w q chunks s)) \<and>
   hy_limiter (fst (h2_stream env w q chunks s)) = hy_limiter s \<and> hy_active (fst (h2_stream env w q chunks s)) = hy_active s"
  by (simp add: h2_stream_def mcp_h2_stream_def split: prod.splits option.splits sum.splits refusal.splits)

text \<open>
  The body \<open>null\<close> brings a gateway with an interceptor down: the refusal of the interceptor is written before
  the identifier of the request is read, which raises, and so does the answer to that error.
\<close>

theorem null_body_crashes:
  assumes "rv_parse (hg_router env) (body_text env chunks) = Some JNull" "hg_intercept env = Some f"
    and "\<not> ad_allowed (execute_gateway_interceptor (hg_failMode env) (f JNull (client_ip q) a ''http1''))"
    and "rate_limit_status.allowed (fst (limiter_check (hy_limiter s) (rate_key a (client_ip q)) (wd_now w)))"
  shows "snd (h1_body env w q a chunks s) = Crashes"
  using assms
  by (auto simp: h1_body_def perimeter_def intercept_def request_id_def Let_def split: prod.splits)

section \<open>Witnesses\<close>

definition demo_gateway_env :: gateway_env where
  "demo_gateway_env =
     \<lparr>hg_router = demo_router_env\<lparr>rv_parse := (\<lambda>t. if t = ''null'' then Some JNull
        else Some (JObj None
          [(''method'', JStr ''tools/call''), (''id'', JNum (Fin 1)), (''params'', JObj None [(''name'', JStr DIAGNOSTIC_TOOL)])]))\<rparr>,
      hg_validator = Some \<lparr>jv_issuer = ''i'', jv_audience = ''a''\<rparr>,
      hg_verify = (\<lambda>t opts. Inr \<lparr>jp_sub = None, jp_scope = JStr t, jp_exp = None\<rparr>), hg_url = (\<lambda>_. None), hg_oauth = False,
      hg_intercept = Some (\<lambda>j ip a p. Verdict \<lparr>ad_allowed = (j \<noteq> JNull), ad_reason = None, ad_errorCode = None\<rparr>), hg_failMode = None,
      hg_front = None, hg_text = map (char_of \<circ> unat), hg_string = (\<lambda>v. []), hg_metrics = [], hg_timestamp = [], hg_uptime = 0\<rparr>"

definition demo_call :: "string \<Rightarrow> http_request" where
  "demo_call scope = \<lparr>hq_method = ''POST'', hq_url = ''/mcp'',
     hq_headers = (\<lambda>h. if h = ''authorization'' then Some (''Bearer '' @ scope) else None), hq_ip = None\<rparr>"

definition demo_world :: world where
  "demo_world = \<lparr>wd_now = 5, wd_rounds = [], wd_bullet = []\<rparr>"

definition demo_gateway :: hybrid where
  "demo_gateway = gl_gateway (new_gateway (Some 100) (Some 2) demo_router)"

theorem grpc_web_frames_exact_witness:
  "decode_frames [0, 0, 0, 0, 1, 7, 0x80, 0, 0, 0, 0, 9] = [\<lparr>gf_isTrailer = False, gf_payload = [7]\<rparr>, \<lparr>gf_isTrailer = True, gf_payload = []\<rparr>]"
proof -
  have be: "be_bytes 4 (Suc 0) = [0, 0, 0, 1]" "be_bytes 4 0 = [0, 0, 0, 0]" by code_simp+
  have "bit (0x80 :: byte) 7" "\<not> bit (0 :: byte) 7" by simp_all
  moreover have "decode_frames [9] = []" by (simp add: decode_frames.simps HEADER_LENGTH_def)
  ultimately show ?thesis
    by (intro grpc_web_frames_exact [THEN iffD2] exI [of _ "[(0, [7]), (0x80, [])]"] exI [of _ "[9]"])
      (simp add: frame_bytes_def wire_def frame_of_def be)
qed

theorem drain_terminates_witness:
  "\<exists>m \<le> nat ((120 + 49) div 50). drain_waits 120 0 [(1, 0), (1, 50), (1, 100), (1, 150)] = Some m"
proof (rule drain_terminates)
  show "\<forall>i. Suc i < length [(1 :: nat, 0 :: int), (1, 50), (1, 100), (1, 150)] \<longrightarrow>
      snd ([(1 :: nat, 0 :: int), (1, 50), (1, 100), (1, 150)] ! i) + 50 \<le> snd ([(1 :: nat, 0 :: int), (1, 50), (1, 100), (1, 150)] ! Suc i)"
    by (auto simp: less_Suc_eq nth_Cons split: nat.splits)
qed simp_all

lemma demo_arrival: "h1_arrival demo_gateway_env (demo_call scope) demo_gateway =
    Reads_Body (Some \<lparr>ai_token = scope, ai_clientId = ''unknown'', ai_scopes = split_on CHR '' '' scope, ai_expiresAt = None\<rparr>)"
  by (simp add: h1_arrival_def demo_gateway_env_def demo_call_def demo_gateway_def new_gateway_def is_grpc_web_request_def authenticate_def
      or_else_def starts_with_def jwt_validate_def Let_def)

theorem http1_rate_limited_witness:
  "passes demo_gateway_env ''client:unknown''
     (run (life_step demo_gateway_env) (new_gateway (Some 100) (Some 2) demo_router) [Arrives 1 (demo_call ''x'')])
     [Body_Ends 1 demo_world [], Clean_Up 6] \<le> 2 * 2 - 1"
proof (rule http1_rate_limited [OF _ refl, where lo = 5])
  let ?l = "run (life_step demo_gateway_env) (new_gateway (Some 100) (Some 2) demo_router) [Arrives 1 (demo_call ''x'')]"
  have "limiter_trace demo_gateway_env ?l [Body_Ends 1 demo_world [], Clean_Up 6] = [limiter_event.Check ''client:unknown'' 5, Cleanup 6]"
    using demo_arrival [of "''x''"]
    by (simp add: demo_gateway_def opened_def) (simp add: new_gateway_def opened_def rate_key_def demo_world_def)
  then show "sorted (map event_time (limiter_trace demo_gateway_env ?l [Body_Ends 1 demo_world [], Clean_Up 6]))"
    "\<forall>e\<in>set (limiter_trace demo_gateway_env ?l [Body_Ends 1 demo_world [], Clean_Up 6]). 5 \<le> event_time e \<and> event_time e < 5 + 100"
    by simp_all
qed simp

theorem null_body_crashes_witness:
  "snd (h1_body demo_gateway_env demo_world (demo_call ''x'') None [[0x6E, 0x75], [0x6C, 0x6C]] demo_gateway) = Crashes"
proof -
  have "concat (map (map (char_of \<circ> unat)) [[0x6E :: byte, 0x75], [0x6C, 0x6C]]) = ''null''" by code_simp
  then have "body_text demo_gateway_env [[0x6E, 0x75], [0x6C, 0x6C]] = ''null''"
    by (simp add: body_text_def demo_gateway_env_def del: list.map)
  then show ?thesis
    by (intro null_body_crashes [where f = "\<lambda>j ip a p. Verdict \<lparr>ad_allowed = (j \<noteq> JNull), ad_reason = None, ad_errorCode = None\<rparr>"])
      (simp_all add: demo_gateway_env_def demo_gateway_def new_gateway_def limiter_new_def limiter_check_def)
qed

lemma demo_served:
  "\<exists>s' answer. h1_body demo_gateway_env demo_world (demo_call ''liop:tools:call'')
       (Some \<lparr>ai_token = ''liop:tools:call'', ai_clientId = ''unknown'', ai_scopes = split_on CHR '' '' ''liop:tools:call'', ai_expiresAt = None\<rparr>)
       [] demo_gateway = (s', Sent (rpc_answer (Some answer))) \<and> rs_error answer = JUndef"
proof -
  let ?params = "JObj None [(''name'', JStr DIAGNOSTIC_TOOL)]"
  let ?j = "JObj None [(''method'', JStr ''tools/call''), (''id'', JNum (Fin 1)), (''params'', ?params)]"
  let ?a = "Some \<lparr>ai_token = ''liop:tools:call'', ai_clientId = ''unknown'', ai_scopes = [''liop:tools:call''], ai_expiresAt = None\<rparr>"
  have split: "split_on CHR '' '' ''liop:tools:call'' = [''liop:tools:call'']" by simp
  have parse: "rv_parse (hg_router demo_gateway_env) (body_text demo_gateway_env []) = Some ?j"
    by (simp add: demo_gateway_env_def body_text_def)
  have pass: "perimeter demo_gateway_env ''http1'' (client_ip (demo_call ''liop:tools:call'')) (hq_headers (demo_call ''liop:tools:call'')) ?a ?j = Inr ?j"
    by (simp add: perimeter_def intercept_def check_method_def check_name_def inject_version_def demo_gateway_env_def demo_call_def Let_def)
  have "with_normal_arguments ?params = ?params" by (simp add: with_normal_arguments_def opt_prop_def)
  then have "transcode_mcp_to_liop (router_of demo_gateway_env) 5 [] (JNum (Fin 1)) ?params t demo_router =
      (demo_router, Gives (rpc_result (JNum (Fin 1)) (mesh_status (router_of demo_gateway_env) [] demo_router)))" for t
    by (simp add: transcode_mcp_to_liop_def)
  moreover have "authorize_request ''tools/call'' ?a None = Some allow"
    by (simp add: authorize_request_def scope_lookup_def SCOPE_MAP_def)
  moreover have "rv_jwtActive (router_of demo_gateway_env)" by (simp add: router_of_def demo_gateway_env_def)
  ultimately have "dispatch_json demo_gateway_env demo_world ?j ?a demo_router = (demo_router,
      Gives (Some (complete_call \<lparr>rq_method = ''tools/call'', rq_params = ?params\<rparr>
        (rpc_result (JNum (Fin 1)) (mesh_status (router_of demo_gateway_env) [] demo_router)))))"
    by (simp add: dispatch_json_def opt_prop_def dispatch_def Let_def demo_world_def) (simp add: serve_def Let_def)
  moreover have "rs_error (complete_call q (rpc_result i v)) = JUndef" for q i v
    by (simp add: complete_call_def adapt_response_for_legacy_client_def rpc_result_def)
  ultimately obtain answer where "dispatch_json demo_gateway_env demo_world ?j ?a demo_router = (demo_router, Gives (Some answer))" "rs_error answer = JUndef"
    by blast
  moreover have "rate_limit_status.allowed (fst (limiter_check (hy_limiter demo_gateway) (rate_key ?a (client_ip (demo_call ''liop:tools:call''))) (wd_now demo_world)))"
    by (simp add: demo_gateway_def new_gateway_def limiter_new_def limiter_check_def)
  moreover have "hy_router demo_gateway = demo_router" by (simp add: demo_gateway_def new_gateway_def)
  ultimately show ?thesis using parse pass unfolding split by (auto simp: h1_body_def Let_def split: prod.splits)
qed

theorem http1_dispatch_guarded_witness:
  "\<exists>j. rv_parse (hg_router demo_gateway_env) (body_text demo_gateway_env []) = Some j \<and> j \<noteq> JNull"
proof -
  from demo_served obtain s' answer where body: "h1_body demo_gateway_env demo_world (demo_call ''liop:tools:call'')
       (Some \<lparr>ai_token = ''liop:tools:call'', ai_clientId = ''unknown'', ai_scopes = split_on CHR '' '' ''liop:tools:call'', ai_expiresAt = None\<rparr>)
       [] demo_gateway = (s', Sent (rpc_answer (Some answer)))" by blast
  from http1_dispatch_guarded [OF demo_arrival body] obtain j where "rv_parse (hg_router demo_gateway_env) (body_text demo_gateway_env []) = Some j"
    by auto
  then show ?thesis by (auto simp: demo_gateway_env_def body_text_def)
qed

theorem gateway_tool_call_authorized_witness:
  "call_token demo_gateway_env \<lparr>jv_issuer = ''i'', jv_audience = ''a''\<rparr> (Some ''Bearer liop:tools:call'')"
proof -
  from demo_served obtain s' answer where body: "h1_body demo_gateway_env demo_world (demo_call ''liop:tools:call'')
       (Some \<lparr>ai_token = ''liop:tools:call'', ai_clientId = ''unknown'', ai_scopes = split_on CHR '' '' ''liop:tools:call'', ai_expiresAt = None\<rparr>)
       [] demo_gateway = (s', Sent (rpc_answer (Some answer)))" and ok: "rs_error answer = JUndef" by blast
  have parse: "rv_parse (hg_router demo_gateway_env) (body_text demo_gateway_env []) = Some (JObj None
      [(''method'', JStr ''tools/call''), (''id'', JNum (Fin 1)), (''params'', JObj None [(''name'', JStr DIAGNOSTIC_TOOL)])])"
    by (simp add: demo_gateway_env_def body_text_def)
  have "\<not> denied (Sent (rpc_answer (Some answer)))" using ok by (auto simp: denied_def rpc_error_response_def)
  moreover have "hq_headers (demo_call ''liop:tools:call'') ''authorization'' = Some ''Bearer liop:tools:call''" by (simp add: demo_call_def)
  moreover have "hg_validator demo_gateway_env = Some \<lparr>jv_issuer = ''i'', jv_audience = ''a''\<rparr>" by (simp add: demo_gateway_env_def)
  moreover have "\<exists>s0 a. h1_arrival demo_gateway_env (demo_call ''liop:tools:call'') s0 = Reads_Body a \<and>
      h1_body demo_gateway_env demo_world (demo_call ''liop:tools:call'') a [] demo_gateway = (s', Sent (rpc_answer (Some answer)))"
    using demo_arrival body by blast
  ultimately show ?thesis
    using gateway_tool_call_authorized [OF _ parse _ disjI1, of _ "demo_call ''liop:tools:call''" demo_world demo_gateway s' "Sent (rpc_answer (Some answer))"]
    by simp
qed

end
