(* ===== verification/Swarm_Key.thy ===== *)
theory Swarm_Key
  imports Mcp_Router
begin

text \<open>
  \<open>mesh/swarm-key.ts\<close>: the 95 byte pre-shared key of a private network, as Base64 text for configuration,
  as canonical text and as a file. The Base64 codec of \<open>Buffer\<close> is written out, with the leniency of its decoder;
  the generator of libp2p, the disk and the decoding of UTF-8 are parameters.
\<close>

section \<open>Base64\<close>

definition b64_char :: "nat \<Rightarrow> char" where
  "b64_char n =
     (if n < 26 then char_of (65 + n) else if n < 52 then char_of (71 + n) else if n < 62 then char_of (n - 4)
      else if n = 62 then CHR ''+'' else CHR ''/'')"

text \<open>The decoder knows both alphabets.\<close>

definition b64_value :: "char \<Rightarrow> nat option" where
  "b64_value c =
     (let n = (of_char c :: nat) in
      if is_upper c then Some (n - 65) else if is_lower c then Some (n - 71) else if is_digit c then Some (n + 4)
      else if c = CHR ''+'' \<or> c = CHR ''-'' then Some 62 else if c = CHR ''/'' \<or> c = CHR ''_'' then Some 63 else None)"

fun sextets :: "bytes \<Rightarrow> nat list" where
  "sextets (a # b # c # r) =
     (unat a div 4) # ((unat a mod 4) * 16 + unat b div 16) # ((unat b mod 16) * 4 + unat c div 64) # (unat c mod 64) # sextets r"
| "sextets [a, b] = [unat a div 4, (unat a mod 4) * 16 + unat b div 16, (unat b mod 16) * 4]"
| "sextets [a] = [unat a div 4, (unat a mod 4) * 16]"
| "sextets [] = []"

fun of_sextets :: "nat list \<Rightarrow> bytes" where
  "of_sextets (a # b # c # d # r) =
     of_nat (a * 4 + b div 16) # of_nat ((b mod 16) * 16 + c div 4) # of_nat ((c mod 4) * 64 + d) # of_sextets r"
| "of_sextets [a, b, c] = [of_nat (a * 4 + b div 16), of_nat ((b mod 16) * 16 + c div 4)]"
| "of_sextets [a, b] = [of_nat (a * 4 + b div 16)]"
| "of_sextets _ = []"

definition to_base64 :: "bytes \<Rightarrow> string" where
  "to_base64 b = map b64_char (sextets b) @ replicate ((3 - length b mod 3) mod 3) (CHR ''='')"

text \<open>Decoding stops at the first padding character and skips what is in no alphabet.\<close>

definition from_base64 :: "string \<Rightarrow> bytes" where
  "from_base64 s = of_sextets (List.map_filter b64_value (takeWhile (\<lambda>c. c \<noteq> CHR ''='') s))"

section \<open>The key\<close>

definition SWARM_KEY_BYTE_LENGTH :: nat where
  "SWARM_KEY_BYTE_LENGTH = 95"

definition create_swarm_key :: "(bytes \<Rightarrow> bytes) \<Rightarrow> bytes" where
  "create_swarm_key generateKey = generateKey (replicate SWARM_KEY_BYTE_LENGTH 0)"

definition length_error :: "string \<Rightarrow> nat \<Rightarrow> string" where
  "length_error what n = what @ '': expected '' @ show_nat SWARM_KEY_BYTE_LENGTH @ '' bytes, got '' @ show_nat n"

definition serialize_swarm_key :: "bytes \<Rightarrow> string + string" where
  "serialize_swarm_key psk =
     (if length psk \<noteq> SWARM_KEY_BYTE_LENGTH then Inl (length_error ''Invalid Swarm Key length'' (length psk)) else Inr (to_base64 psk))"

definition deserialize_swarm_key :: "string \<Rightarrow> string + bytes" where
  "deserialize_swarm_key base64Str =
     (let buf = from_base64 (trim base64Str) in
      if length buf \<noteq> SWARM_KEY_BYTE_LENGTH then Inl (length_error ''Invalid deserialized Swarm Key'' (length buf)) else Inr buf)"

fun crlf_to_lf :: "string \<Rightarrow> string" where
  "crlf_to_lf (c # d # s) = (if c = CHR 0x0D \<and> d = CHR 0x0A then CHR 0x0A # crlf_to_lf s else c # crlf_to_lf (d # s))"
| "crlf_to_lf s = s"

definition parse_swarm_key :: "string \<Rightarrow> string + bytes" where
  "parse_swarm_key rawText =
     (let trimmed = trim rawText; bytes = utf8 (trim_end (crlf_to_lf trimmed)) in
      if starts_with trimmed ''/key/swarm/psk/'' \<and> length bytes = SWARM_KEY_BYTE_LENGTH then Inr bytes
      else deserialize_swarm_key trimmed)"

record key_io =
  ki_dirname :: "string \<Rightarrow> string"
  ki_mkdir :: "string \<Rightarrow> string option"      \<comment> \<open>the error of \<open>mkdir\<close>, when there is one\<close>
  ki_write :: "string \<Rightarrow> string option"
  ki_text :: "bytes \<Rightarrow> string"

type_synonym disk = "(string, bytes) js_map"

definition save_swarm_key :: "key_io \<Rightarrow> bytes \<Rightarrow> string \<Rightarrow> disk \<Rightarrow> disk \<times> (string + unit)" where
  "save_swarm_key io psk filePath files =
     (if length psk \<noteq> SWARM_KEY_BYTE_LENGTH then (files, Inl (length_error ''Cannot save invalid Swarm Key'' (length psk)))
      else case ki_mkdir io (ki_dirname io filePath) of
        Some e \<Rightarrow> (files, Inl e)
      | None \<Rightarrow> (case ki_write io filePath of
          Some e \<Rightarrow> (files, Inl e)
        | None \<Rightarrow> (AList.update filePath psk files, Inr ())))"

definition load_swarm_key :: "key_io \<Rightarrow> string \<Rightarrow> disk \<Rightarrow> string + bytes" where
  "load_swarm_key io filePath files =
     (case map_of files filePath of
        None \<Rightarrow> Inl ''ENOENT''
      | Some fileBuffer \<Rightarrow>
          if length fileBuffer = SWARM_KEY_BYTE_LENGTH then Inr fileBuffer else parse_swarm_key (ki_text io fileBuffer))"


section \<open>Lemmas\<close>

subsection \<open>Base64\<close>

lemma char_code:
  "c = CHR ''+'' \<longleftrightarrow> (of_char c :: nat) = 43" "c = CHR ''-'' \<longleftrightarrow> (of_char c :: nat) = 45"
  "c = CHR ''/'' \<longleftrightarrow> (of_char c :: nat) = 47" "c = CHR ''_'' \<longleftrightarrow> (of_char c :: nat) = 95"
  "c = CHR ''='' \<longleftrightarrow> (of_char c :: nat) = 61" "c = CHR 0x0D \<longleftrightarrow> (of_char c :: nat) = 13"
  by (simp_all flip: of_char_eq_iff [where 'a = nat])

lemma b64_char_code:
  "n < 64 \<Longrightarrow> (of_char (b64_char n) :: nat) =
     (if n < 26 then 65 + n else if n < 52 then 71 + n else if n < 62 then n - 4 else if n = 62 then 43 else 47)"
  by (simp add: b64_char_def)

lemma b64_char_value: "n < 64 \<Longrightarrow> b64_value (b64_char n) = Some n \<and> b64_char n \<noteq> CHR ''=''"
  by (auto simp: b64_value_def is_upper_def is_lower_def is_digit_def char_code b64_char_code Let_def)

lemma regroup:
  assumes "a < 256" "b < 256" "c < (256 :: nat)"
  shows "(a div 4) * 4 + ((a mod 4) * 16 + b div 16) div 16 = a"
    "(((a mod 4) * 16 + b div 16) mod 16) * 16 + ((b mod 16) * 4 + c div 64) div 4 = b"
    "(((b mod 16) * 4 + c div 64) mod 4) * 64 + c mod 64 = c"
proof -
  have "b div 16 < 16" "c div 64 < 4" using assms by (simp_all add: less_mult_imp_div_less)
  then have "((a mod 4) * 16 + b div 16) div 16 = a mod 4" "((a mod 4) * 16 + b div 16) mod 16 = b div 16"
    "((b mod 16) * 4 + c div 64) div 4 = b mod 16" "((b mod 16) * 4 + c div 64) mod 4 = c div 64" by simp_all
  then show "(a div 4) * 4 + ((a mod 4) * 16 + b div 16) div 16 = a"
    "(((a mod 4) * 16 + b div 16) mod 16) * 16 + ((b mod 16) * 4 + c div 64) div 4 = b"
    "(((b mod 16) * 4 + c div 64) mod 4) * 64 + c mod 64 = c" by simp_all
qed

lemma regroup_last:
  assumes "a < 256" "b < (256 :: nat)"
  shows "(((a mod 4) * 16 + b div 16) mod 16) * 16 + (b mod 16) * 4 div 4 = b" "(a div 4) * 4 + (a mod 4) * 16 div 16 = a"
  using regroup(2) [OF assms, of 0] by simp_all

lemma of_unat_byte: "of_nat (unat (b :: byte)) = b"
  by simp

lemma of_sextets_sextets [simp]: "of_sextets (sextets b) = b"
proof (induction b rule: sextets.induct)
  case (1 a b c r)
  then show ?case
    using regroup [OF unat_byte [of a] unat_byte [of b] unat_byte [of c]] by (simp only: sextets.simps of_sextets.simps of_unat_byte)
next
  case (2 a b)
  then show ?case
    using regroup(1) [OF unat_byte [of a] unat_byte [of b], of 0] regroup_last(1) [OF unat_byte [of a] unat_byte [of b]]
    by (simp only: sextets.simps of_sextets.simps of_unat_byte zero_less_numeral)
next
  case (3 a)
  then show ?case
    using regroup_last(2) [OF unat_byte [of a] unat_byte [of a]] by (simp only: sextets.simps of_sextets.simps of_unat_byte)
qed simp

lemma sextets_bound: "n \<in> set (sextets b) \<Longrightarrow> n < 64"
proof (induction b rule: sextets.induct)
  case (1 a b c r)
  have "unat b div 16 < 16" "unat c div 64 < 4" "unat a div 4 < 64" "unat a mod 4 < 4" "unat b mod 16 < 16" "unat c mod 64 < 64"
    using unat_byte [of a] unat_byte [of b] unat_byte [of c] by (simp_all add: less_mult_imp_div_less)
  then show ?case using 1 by auto
next
  case (2 a b)
  have "unat b div 16 < 16" "unat a div 4 < 64" "unat a mod 4 < 4" "unat b mod 16 < 16"
    using unat_byte [of a] unat_byte [of b] by (simp_all add: less_mult_imp_div_less)
  then show ?case using 2 by auto
next
  case (3 a)
  have "unat a div 4 < 64" "unat a mod 4 < 4" using unat_byte [of a] by (simp_all add: less_mult_imp_div_less)
  then show ?case using 3 by auto
qed simp

text \<open>The characters that the decoder reads.\<close>

definition b64_text :: "char \<Rightarrow> bool" where
  "b64_text c \<longleftrightarrow> b64_value c \<noteq> None \<or> c = CHR ''=''"

lemma b64_text_not_space: "b64_text c \<Longrightarrow> \<not> js_space c"
  by (auto simp: b64_text_def b64_value_def js_space_def Let_def is_upper_def is_lower_def is_digit_def char_code split: if_splits)

lemma to_base64_text: "list_all b64_text (to_base64 b)"
  using sextets_bound b64_char_value by (auto simp: to_base64_def list_all_iff b64_text_def)

lemma from_base64_filter: "from_base64 (filter b64_text s) = from_base64 s"
proof -
  have "List.map_filter b64_value (takeWhile (\<lambda>c. c \<noteq> CHR ''='') (filter b64_text s)) =
      List.map_filter b64_value (takeWhile (\<lambda>c. c \<noteq> CHR ''='') s)"
    by (induction s) (auto simp: b64_text_def map_filter_simps)
  then show ?thesis by (simp add: from_base64_def)
qed

lemma takeWhile_padding: "(\<And>c. c \<in> set s \<Longrightarrow> c \<noteq> x) \<Longrightarrow> takeWhile (\<lambda>c. c \<noteq> x) (s @ replicate k x) = s"
  by (induction s) (auto simp: takeWhile_eq_Nil_iff)

lemma map_filter_map: "(\<And>x. x \<in> set xs \<Longrightarrow> f (g x) = Some x) \<Longrightarrow> List.map_filter f (map g xs) = xs"
  by (induction xs) (auto simp: map_filter_simps)

lemma from_to_base64 [simp]: "from_base64 (to_base64 b) = b"
proof -
  have "takeWhile (\<lambda>c. c \<noteq> CHR ''='') (to_base64 b) = map b64_char (sextets b)"
    unfolding to_base64_def using sextets_bound b64_char_value by (intro takeWhile_padding) auto
  moreover have "List.map_filter b64_value (map b64_char (sextets b)) = sextets b"
    using sextets_bound b64_char_value by (intro map_filter_map) auto
  ultimately show ?thesis by (simp add: from_base64_def)
qed

lemma length_sextets: "length (sextets b) = (length b * 4 + 2) div 3"
  by (induction b rule: sextets.induct) simp_all

subsection \<open>Keys\<close>

lemma filter_trim: "(\<And>c. p c \<Longrightarrow> \<not> js_space c) \<Longrightarrow> filter p (trim s) = filter p s"
proof -
  assume p: "\<And>c. p c \<Longrightarrow> \<not> js_space c"
  have drop: "filter p (dropWhile js_space t) = filter p t" for t using p by (induction t) auto
  show ?thesis unfolding trim_def by (metis drop rev_filter rev_rev_ident)
qed

lemma deserialize_text:
  assumes "filter b64_text s = to_base64 psk" "length psk = SWARM_KEY_BYTE_LENGTH"
  shows "deserialize_swarm_key s = Inr psk"
proof -
  have "from_base64 (trim s) = psk"
    using assms(1) filter_trim [OF b64_text_not_space, where s = s] from_base64_filter [of "trim s"] by simp
  then show ?thesis using assms(2) by (simp add: deserialize_swarm_key_def)
qed

lemma filter_crlf: "filter b64_text (crlf_to_lf s) = filter b64_text s"
proof (induction s rule: crlf_to_lf.induct)
  case (1 c d s)
  have "js_space (CHR 0x0D)" by (simp add: js_space_def)
  then have "\<not> b64_text (CHR 0x0D)" using b64_text_not_space by blast
  then show ?case using 1 by auto
qed simp_all

lemma length_utf8: "length s \<le> length (utf8 s)"
proof (induction s)
  case (Cons c s)
  have "1 \<le> length (utf8_char c)" by (simp add: Suc_le_eq)
  then show ?case using Cons by (simp add: utf8_def)
qed simp

lemma filter_trim_end: "(\<And>c. p c \<Longrightarrow> \<not> js_space c) \<Longrightarrow> filter p (trim_end s) = filter p s"
proof -
  assume p: "\<And>c. p c \<Longrightarrow> \<not> js_space c"
  have drop: "filter p (dropWhile js_space t) = filter p t" for t using p by (induction t) auto
  show ?thesis unfolding trim_end_def by (metis drop rev_filter rev_rev_ident)
qed

lemma key_text_length: "length psk = SWARM_KEY_BYTE_LENGTH \<Longrightarrow> length (to_base64 psk) = 128"
  by (simp add: to_base64_def length_sextets SWARM_KEY_BYTE_LENGTH_def)

lemma parse_text:
  assumes "filter b64_text s = to_base64 psk" "length psk = SWARM_KEY_BYTE_LENGTH"
  shows "parse_swarm_key s = Inr psk"
proof -
  have same: "filter b64_text (trim s) = to_base64 psk"
    using assms(1) filter_trim [OF b64_text_not_space] by metis
  have "filter b64_text (trim_end (crlf_to_lf (trim s))) = to_base64 psk"
    using same filter_trim_end [OF b64_text_not_space] filter_crlf by metis
  then have "128 \<le> length (trim_end (crlf_to_lf (trim s)))"
    using key_text_length [OF assms(2)] length_filter_le by metis
  then have "length (utf8 (trim_end (crlf_to_lf (trim s)))) \<noteq> SWARM_KEY_BYTE_LENGTH"
    using length_utf8 [of "trim_end (crlf_to_lf (trim s))"] by (simp add: SWARM_KEY_BYTE_LENGTH_def)
  then show ?thesis using deserialize_text [OF same assms(2)] by (simp add: parse_swarm_key_def Let_def)
qed

text \<open>The canonical text of a key, and its lines the way Windows ends them.\<close>

definition canonical_key :: "string \<Rightarrow> bool" where
  "canonical_key k \<longleftrightarrow> starts_with k ''/key/swarm/psk/'' \<and> length (utf8 k) = SWARM_KEY_BYTE_LENGTH \<and>
     CHR 0x0D \<notin> set k \<and> \<not> js_space (last k)"

fun lf_to_crlf :: "string \<Rightarrow> string" where
  "lf_to_crlf [] = []"
| "lf_to_crlf (c # s) = (if c = CHR 0x0A then CHR 0x0D # CHR 0x0A # lf_to_crlf s else c # lf_to_crlf s)"

lemma crlf_plain: "CHR 0x0D \<notin> set s \<Longrightarrow> crlf_to_lf s = s"
  by (induction s rule: crlf_to_lf.induct) auto

lemma crlf_lf: "CHR 0x0D \<notin> set s \<Longrightarrow> crlf_to_lf (lf_to_crlf s) = s"
proof (induction s)
  case (Cons c s)
  then show ?case by (cases "lf_to_crlf s") auto
qed simp

lemma dropWhile_spaces: "list_all js_space w \<Longrightarrow> dropWhile js_space (w @ s) = dropWhile js_space s"
  by (induction w) auto

lemma trim_padded:
  assumes "list_all js_space u" "list_all js_space v" "s \<noteq> []" "\<not> js_space (hd s)" "\<not> js_space (last s)"
  shows "trim (u @ s @ v) = s"
proof -
  have "dropWhile js_space (u @ s @ v) = s @ v"
    using assms by (cases s) (simp_all add: dropWhile_spaces)
  moreover have "dropWhile js_space (rev v @ rev s) = rev s"
    using assms by (cases s rule: rev_cases) (simp_all add: dropWhile_spaces)
  ultimately show ?thesis by (simp add: trim_def)
qed

lemma trim_end_plain: "s \<noteq> [] \<Longrightarrow> \<not> js_space (last s) \<Longrightarrow> trim_end s = s"
  by (cases s rule: rev_cases) (simp_all add: trim_end_def)

lemma lf_to_crlf_Nil [simp]: "lf_to_crlf s = [] \<longleftrightarrow> s = []"
  by (cases s) auto

lemma last_lf_to_crlf: "s \<noteq> [] \<Longrightarrow> last (lf_to_crlf s) = last s"
  by (induction s) auto

lemma length_lf_to_crlf: "length (utf8 (lf_to_crlf s)) = length (utf8 s) + count_list s (CHR 0x0A)"
  by (induction s) (auto simp: utf8_def utf8_char_def)

lemma lf_to_crlf_id: "count_list s (CHR 0x0A) = 0 \<Longrightarrow> lf_to_crlf s = s"
  by (induction s) (auto split: if_splits)

lemma canonical_start: "canonical_key k \<Longrightarrow> \<exists>r. k = ''/key/swarm/psk/'' @ r"
  unfolding canonical_key_def starts_with_def by (metis append_take_drop_id)

lemma parse_canonical:
  assumes "canonical_key k" "list_all js_space u" "list_all js_space v" "l = k \<or> l = lf_to_crlf k"
  shows "parse_swarm_key (u @ l @ v) = Inr (utf8 k)"
proof -
  obtain r where k: "k = ''/key/swarm/psk/'' @ r" using canonical_start [OF assms(1)] by blast
  have "\<not> js_space (last k)" "CHR 0x0D \<notin> set k" "length (utf8 k) = SWARM_KEY_BYTE_LENGTH"
    using assms(1) by (auto simp: canonical_key_def)
  moreover have l: "starts_with l ''/key/swarm/psk/'' \<and> hd l = CHR ''/''" "last l = last k" "l \<noteq> []"
    using assms(4) last_lf_to_crlf [of k] by (auto simp: k starts_with_def)
  moreover have "\<not> js_space (CHR ''/'')" by (simp add: js_space_def)
  ultimately have trimmed: "trim (u @ l @ v) = l" using assms(2,3) by (intro trim_padded) auto
  have "crlf_to_lf l = k"
    using assms(4) crlf_lf [of k] crlf_plain [of k] \<open>CHR 0x0D \<notin> set k\<close> by auto
  moreover have "trim_end k = k" using \<open>\<not> js_space (last k)\<close> k by (intro trim_end_plain) auto
  ultimately show ?thesis using trimmed l \<open>length (utf8 k) = SWARM_KEY_BYTE_LENGTH\<close> by (simp add: parse_swarm_key_def Let_def)
qed

lemma utf8_append: "utf8 (s @ t) = utf8 s @ utf8 t"
  by (simp add: utf8_def)

lemma canonical_file_length:
  assumes "length (utf8 (u @ l @ v)) = length (utf8 k)" "l = k \<or> l = lf_to_crlf k"
  shows "u @ l @ v = k"
proof -
  have "length (utf8 k) \<le> length (utf8 l)" using assms(2) length_lf_to_crlf [of k] by auto
  moreover have "length (utf8 u) + length (utf8 l) + length (utf8 v) = length (utf8 k)" using assms(1) by (simp add: utf8_append)
  ultimately have "length u \<le> 0" "length v \<le> 0" "length (utf8 l) = length (utf8 k)"
    using length_utf8 [of u] length_utf8 [of v] by linarith+
  then show ?thesis using assms(2) length_lf_to_crlf [of k] lf_to_crlf_id [of k] by auto
qed

section \<open>Properties\<close>

text \<open>
  A serialized key is 128 characters, and it is read back as the same key, by the Base64 reader and by
  the reader of either format, with line breaks, spaces or any other characters outside the
  alphabet added anywhere; nothing but a key of 95 bytes is serialized.
\<close>

theorem swarm_key_text_roundtrip:
  "(serialize_swarm_key psk = Inr t \<longleftrightarrow> length psk = 95 \<and> t = to_base64 psk) \<and>
   (serialize_swarm_key psk = Inr t \<longrightarrow>
      length t = 128 \<and> (filter b64_text s = t \<longrightarrow> deserialize_swarm_key s = Inr psk \<and> parse_swarm_key s = Inr psk))"
  using deserialize_text parse_text key_text_length
  by (auto simp: serialize_swarm_key_def SWARM_KEY_BYTE_LENGTH_def split: if_splits)

text \<open>
  A key file is read as its key in every form the code announces: the bytes that \<open>saveSwarmKey\<close> wrote, the
  canonical text with either kind of line ends and surrounded by white space, and Base64 text.
\<close>

theorem swarm_key_file_formats:
  assumes "\<forall>s. ki_text io (utf8 s) = s"
  shows "(save_swarm_key io psk p files = (files', Inr ()) \<longrightarrow> load_swarm_key io p files' = Inr psk) \<and>
    (canonical_key k \<and> list_all js_space u \<and> list_all js_space v \<and> (l = k \<or> l = lf_to_crlf k) \<and>
       map_of files p = Some (utf8 (u @ l @ v)) \<longrightarrow> load_swarm_key io p files = Inr (utf8 k)) \<and>
    (filter b64_text s = to_base64 psk \<and> length psk = 95 \<and> map_of files p = Some (utf8 s) \<longrightarrow> load_swarm_key io p files = Inr psk)"
proof (intro conjI impI; (elim conjE)?)
  show "load_swarm_key io p files' = Inr psk" if "save_swarm_key io psk p files = (files', Inr ())"
    using that by (auto simp: save_swarm_key_def load_swarm_key_def jm.get_put split: if_splits option.splits)
  show "load_swarm_key io p files = Inr (utf8 k)"
    if "canonical_key k" "list_all js_space u" "list_all js_space v" "l = k \<or> l = lf_to_crlf k" "map_of files p = Some (utf8 (u @ l @ v))"
    using that parse_canonical [OF that(1-4)] canonical_file_length [OF _ that(4), of u v] assms
    by (auto simp: load_swarm_key_def canonical_key_def)
  show "load_swarm_key io p files = Inr psk"
    if "filter b64_text s = to_base64 psk" "length psk = 95" "map_of files p = Some (utf8 s)"
  proof -
    have "128 \<le> length (utf8 s)"
      using that(1,2) key_text_length [of psk] length_filter_le [of b64_text s] length_utf8 [of s]
      by (simp add: SWARM_KEY_BYTE_LENGTH_def)
    then show ?thesis using that assms parse_text [OF that(1)] by (simp add: load_swarm_key_def SWARM_KEY_BYTE_LENGTH_def)
  qed
qed

text \<open>
  A text that announces itself as a key and has another length is not refused: it is decoded as Base64, which
  skips what is in no alphabet, and is a key when 127 of its characters are in it.
\<close>

definition wrong_key :: string where
  "wrong_key = ''/key/swarm/psk/1.0.0/'' @ [CHR 0x0A] @ ''/base16/'' @ [CHR 0x0A] @ replicate 100 (CHR ''a'')"

lemma length_of_sextets: "length (of_sextets xs) = length xs * 3 div 4"
  by (induction xs rule: of_sextets.induct) simp_all

theorem misread_swarm_key: "\<not> isl (parse_swarm_key wrong_key)"
proof -
  have "trim wrong_key = wrong_key" "length wrong_key = 131" "CHR 0x0D \<notin> set wrong_key" "trim_end wrong_key = wrong_key"
    by code_simp+
  moreover have "length (List.map_filter b64_value (takeWhile (\<lambda>c. c \<noteq> CHR ''='') wrong_key)) = 127" by code_simp
  ultimately show ?thesis
    using length_utf8 [of wrong_key] crlf_plain [of wrong_key]
    by (simp add: parse_swarm_key_def deserialize_swarm_key_def from_base64_def length_of_sextets SWARM_KEY_BYTE_LENGTH_def Let_def)
qed


section \<open>Witnesses\<close>

text \<open>Decoding of the characters below 256, for the witness.\<close>

fun utf8_text :: "bytes \<Rightarrow> string" where
  "utf8_text [] = []"
| "utf8_text [a] = [char_of (unat a)]"
| "utf8_text (a # b # r) =
     (if unat a < 128 then char_of (unat a) # utf8_text (b # r) else char_of ((unat a - 192) * 64 + (unat b - 128)) # utf8_text r)"

lemma utf8_text_char: "utf8_text (utf8_char c @ r) = c # utf8_text r"
proof (cases "(of_char c :: nat) < 128")
  case True
  then show ?thesis by (cases r) (simp_all add: utf8_char_def unat_of_nat)
next
  case False
  have "(of_char c :: nat) div 64 < 4" using of_char_less [of c] by (simp add: less_mult_imp_div_less)
  then have "unat (of_nat (192 + of_char c div 64) :: byte) = 192 + of_char c div 64"
    "unat (of_nat (128 + of_char c mod 64) :: byte) = 128 + of_char c mod 64"
    by (simp_all only: unat_of_nat) simp_all
  then show ?thesis using False unfolding utf8_char_def Let_def by (simp del: of_nat_add)
qed

lemma utf8_text_utf8: "utf8_text (utf8 s) = s"
  by (induction s) (simp_all add: utf8_def utf8_text_char)

definition demo_key :: string where
  "demo_key = ''/key/swarm/psk/1.0.0/'' @ [CHR 0x0A] @ ''/base16/'' @ [CHR 0x0A] @ replicate 64 (CHR ''a'')"

definition demo_key_io :: key_io where
  "demo_key_io = \<lparr>ki_dirname = (\<lambda>_. ''.''), ki_mkdir = (\<lambda>_. None), ki_write = (\<lambda>_. None), ki_text = utf8_text\<rparr>"

lemma demo_key_canonical: "canonical_key demo_key"
proof -
  have "starts_with demo_key ''/key/swarm/psk/''" "CHR 0x0D \<notin> set demo_key" "\<not> js_space (last demo_key)" by code_simp+
  moreover have "length (utf8 demo_key) = 95" by (simp add: demo_key_def utf8_def utf8_char_def)
  ultimately show ?thesis by (simp add: canonical_key_def SWARM_KEY_BYTE_LENGTH_def)
qed

theorem swarm_key_text_roundtrip_witness:
  "\<exists>t. serialize_swarm_key (replicate 95 7) = Inr t \<and> length t = 128 \<and>
     deserialize_swarm_key (t @ [CHR 0x0A]) = Inr (replicate 95 7) \<and> parse_swarm_key (t @ [CHR 0x0A]) = Inr (replicate 95 7)"
proof -
  have "serialize_swarm_key (replicate 95 7) = Inr (to_base64 (replicate 95 7))" using swarm_key_text_roundtrip [of "replicate 95 7"] by simp
  moreover have "filter b64_text (to_base64 (replicate 95 7) @ [CHR 0x0A]) = to_base64 (replicate 95 7)"
    using to_base64_text [of "replicate 95 7"] by (simp add: list_all_iff b64_text_def b64_value_def is_upper_def is_lower_def is_digit_def)
  ultimately show ?thesis using swarm_key_text_roundtrip [of "replicate 95 7" "to_base64 (replicate 95 7)"] by blast
qed

theorem swarm_key_file_formats_witness:
  "load_swarm_key demo_key_io ''swarm.key'' [(''swarm.key'', utf8 (lf_to_crlf demo_key @ [CHR 0x0D, CHR 0x0A]))] = Inr (utf8 demo_key)"
proof -
  have "\<forall>s. ki_text demo_key_io (utf8 s) = s" by (simp add: demo_key_io_def utf8_text_utf8)
  note file_formats = swarm_key_file_formats [OF this, where k = demo_key and u = "[]" and v = "[CHR 0x0D, CHR 0x0A]" and l = "lf_to_crlf demo_key"
    and p = "''swarm.key''" and files = "[(''swarm.key'', utf8 (lf_to_crlf demo_key @ [CHR 0x0D, CHR 0x0A]))]"]
  show ?thesis using file_formats demo_key_canonical by (simp add: js_space_def)
qed

end
