(* ===== verification/Topology_Probe.thy ===== *)
theory Topology_Probe
  imports Gateway_Properties
begin

text \<open>
  \<open>runtime/topology-probe.ts\<close>: an agent finds out whether it reaches the network through an HTTP gateway, through
  the mesh, or both. \<open>fetch\<close>, \<open>JSON.parse\<close>, the URL parser and the text of a value are parameters; the values of
  a JSON document are kept as they are received, whatever their type.
\<close>

section \<open>Environment\<close>

record fetched =
  ft_status :: nat
  ft_text :: "string option"        \<comment> \<open>\<open>None\<close>: reading the body fails\<close>

record url_parts =
  up_host :: string
  up_hostname :: string
  up_port :: string

record probe_env =
  pe_fetch :: "string \<Rightarrow> fetched option"      \<comment> \<open>a GET that accepts JSON; \<open>None\<close>: it fails or times out\<close>
  pe_parse :: "string \<Rightarrow> jval option"
  pe_url :: "string \<Rightarrow> url_parts option"     \<comment> \<open>\<open>new URL\<close>; \<open>None\<close>: it raises\<close>
  pe_with_host :: "string \<Rightarrow> string \<Rightarrow> string" \<comment> \<open>the text of the URL after \<open>url.host = h\<close>\<close>
  pe_string :: "jval \<Rightarrow> string"

definition response_ok :: "nat \<Rightarrow> bool" where
  "response_ok status \<longleftrightarrow> 200 \<le> status \<and> status \<le> 299"

definition json_body :: "probe_env \<Rightarrow> fetched \<Rightarrow> jval option" where
  "json_body env r = Option.bind (ft_text r) (pe_parse env)"

section \<open>Data\<close>

record gateway_topology =
  gt_baseUrl :: string
  gt_mcpEndpoint :: string
  gt_healthEndpoint :: string
  gt_tokenEndpoint :: jval
  gt_issuer :: jval
  gt_audience :: jval
  gt_scopes :: jval
  gt_tools :: jval
  gt_tier :: jval

record mesh_topology =
  mt_bootstrapNodes :: "string list"
  mt_identityPath :: "string option"

datatype topology_mode = Gateway_Mode | Mesh_Mode | Hybrid_Mode

record topology =
  tp_mode :: topology_mode
  tp_gateway :: "gateway_topology option"
  tp_mesh :: "mesh_topology option"

record probe_options =
  po_blgUrl :: "string option"
  po_nexusUrl :: "string option"
  po_audience :: "string option"
  po_bootstrapNodes :: "string list option"
  po_identityPath :: "string option"
  po_autoProbeLocal :: "bool option"

section \<open>One candidate\<close>

definition strip_slashes :: "string \<Rightarrow> string" where
  "strip_slashes s = rev (dropWhile (\<lambda>c. c = CHR ''/'') (rev s))"

text \<open>\<open>a || b\<close> and \<open>a ?? b\<close> on values, \<open>v?.length\<close> as a condition, and \<open>v[0]\<close>.\<close>

definition value_or :: "jval \<Rightarrow> jval \<Rightarrow> jval" where
  "value_or a b = (if truthy a then a else b)"

definition value_default :: "jval \<Rightarrow> jval \<Rightarrow> jval" where
  "value_default a b = (if a = JUndef \<or> a = JNull then b else a)"

fun has_length :: "jval \<Rightarrow> bool" where
  "has_length (JArr i xs) = (xs \<noteq> [])"
| "has_length (JStr s) = (s \<noteq> [])"
| "has_length v = truthy (opt_prop v ''length'')"

fun item0 :: "jval \<Rightarrow> jval" where
  "item0 (JArr i (x # xs)) = x"
| "item0 (JStr (c # cs)) = JStr [c]"
| "item0 v = opt_prop v ''0''"

definition DEFAULT_SCOPES :: jval where
  "DEFAULT_SCOPES = JArr None (map JStr
     [''liop:tools:list'', ''liop:tools:call'', ''liop:resources:read'', ''liop:schema:read'', ''liop:mesh:query''])"

text \<open>The metadata document overrides what the health document and the options say; a missing one changes nothing.\<close>

definition apply_metadata :: "probe_env \<Rightarrow> string \<Rightarrow> jval \<times> jval \<times> jval \<Rightarrow> jval \<times> jval \<times> jval" where
  "apply_metadata env trimmedUrl defaults =
     (case pe_fetch env (trimmedUrl @ ''/.well-known/oauth-protected-resource'') of
        None \<Rightarrow> defaults
      | Some prmRes \<Rightarrow>
          if \<not> response_ok (ft_status prmRes) then defaults
          else
            (case json_body env prmRes of
               None \<Rightarrow> defaults
             | Some prmData \<Rightarrow>
                 if prmData = JNull \<or> prmData = JUndef then defaults
                 else
                   (case defaults of (issuer, audience, scopes) \<Rightarrow>
                      (if has_length (opt_prop prmData ''authorization_servers'') then item0 (opt_prop prmData ''authorization_servers'') else issuer,
                       if truthy (opt_prop prmData ''resource'') then opt_prop prmData ''resource'' else audience,
                       if has_length (opt_prop prmData ''scopes_supported'') then opt_prop prmData ''scopes_supported'' else scopes))))"

text \<open>\<open>None\<close>: \<open>issuer.endsWith\<close> raises on a value that is not a string.\<close>

definition derive_token_endpoint :: "jval \<Rightarrow> jval \<Rightarrow> jval option" where
  "derive_token_endpoint tokenEndpoint issuer =
     (if \<not> truthy tokenEndpoint \<and> truthy issuer then
        (case issuer of
           JStr s \<Rightarrow> Some (JStr ((if ends_with s ''/oidc'' then s else s @ ''/oidc'') @ ''/token''))
         | _ \<Rightarrow> None)
      else Some tokenEndpoint)"

definition is_container_host :: "string \<Rightarrow> bool" where
  "is_container_host h \<longleftrightarrow> h = ''nexus'' \<or> h = ''nexus-prod'' \<or> starts_with h ''172.''"

definition normalize_token_endpoint :: "probe_env \<Rightarrow> probe_options \<Rightarrow> string \<Rightarrow> jval \<Rightarrow> jval" where
  "normalize_token_endpoint env options trimmedUrl tokenEndpoint =
     (if \<not> truthy tokenEndpoint then tokenEndpoint
      else
        (let token = pe_string env tokenEndpoint in
         case pe_url env token of
           None \<Rightarrow> tokenEndpoint
         | Some parsedEndpoint \<Rightarrow>
             (case po_nexusUrl options of
                Some (c # cs) \<Rightarrow>
                  (case pe_url env (strip_slashes (c # cs)) of
                     None \<Rightarrow> tokenEndpoint
                   | Some nexus \<Rightarrow> JStr (pe_with_host env token (up_host nexus)))
              | _ \<Rightarrow>
                  if is_container_host (up_hostname parsedEndpoint) \<and> str_includes trimmedUrl ''127.0.0.1''
                  then JStr (pe_with_host env token ''127.0.0.1:15000'') else tokenEndpoint)))"

text \<open>Every exception is caught: the candidate is then no gateway.\<close>

definition probe_gateway_url :: "probe_env \<Rightarrow> string \<Rightarrow> probe_options \<Rightarrow> gateway_topology option" where
  "probe_gateway_url env candidateUrl options =
     (let trimmedUrl = strip_slashes candidateUrl in
      Option.bind (pe_fetch env (trimmedUrl @ ''/health'')) (\<lambda>healthRes.
        if \<not> response_ok (ft_status healthRes) then None
        else Option.bind (json_body env healthRes) (\<lambda>healthData.
          if opt_prop healthData ''status'' \<noteq> JStr ''healthy'' then None
          else
            (let auth = opt_prop healthData ''auth'' in
             case apply_metadata env trimmedUrl
                    (value_or (opt_prop auth ''issuer'') (JStr []),
                     JStr (case po_audience options of Some (c # cs) \<Rightarrow> c # cs | _ \<Rightarrow> ''urn:liop:mesh:api''),
                     DEFAULT_SCOPES) of
               (issuer, audience, scopes) \<Rightarrow>
                 map_option (\<lambda>tokenEndpoint.
                   \<lparr>gt_baseUrl = trimmedUrl, gt_mcpEndpoint = trimmedUrl @ ''/mcp'', gt_healthEndpoint = trimmedUrl @ ''/health'',
                    gt_tokenEndpoint = normalize_token_endpoint env options trimmedUrl tokenEndpoint,
                    gt_issuer = issuer, gt_audience = audience, gt_scopes = scopes,
                    gt_tools = value_or (opt_prop healthData ''tools'') (JArr None []),
                    gt_tier = value_default (opt_prop (opt_prop healthData ''topology'') ''tier'') (JNum (Fin 2))\<rparr>)
                   (derive_token_endpoint (value_or (opt_prop auth ''token_endpoint'') (JStr [])) issuer)))))"

section \<open>The probe\<close>

definition LOCAL_CANDIDATES :: "string list" where
  "LOCAL_CANDIDATES = [''http://127.0.0.1:15018'', ''http://127.0.0.1:15000'', ''http://127.0.0.1:13000'']"

definition explicit_url :: "probe_options \<Rightarrow> string option" where
  "explicit_url options = (case po_blgUrl options of Some (c # cs) \<Rightarrow> Some (c # cs) | _ \<Rightarrow> None)"

fun probe_local :: "probe_env \<Rightarrow> probe_options \<Rightarrow> string list \<Rightarrow> string + gateway_topology option" where
  "probe_local env options [] = Inr None"
| "probe_local env options (url # urls) =
     (let probe = (case probe_gateway_url env url options of Some g \<Rightarrow> Inr (Some g) | None \<Rightarrow> probe_local env options urls) in
      case explicit_url options of
        None \<Rightarrow> probe
      | Some blgUrl \<Rightarrow>
          (case pe_url env blgUrl of
             None \<Rightarrow> Inl ''Invalid URL''
           | Some u \<Rightarrow> if str_includes url (up_port u) then probe_local env options urls else probe))"

definition find_gateway :: "probe_env \<Rightarrow> probe_options \<Rightarrow> string + gateway_topology option" where
  "find_gateway env options =
     (case Option.bind (explicit_url options) (\<lambda>u. probe_gateway_url env u options) of
        Some g \<Rightarrow> Inr (Some g)
      | None \<Rightarrow> if or_else (po_autoProbeLocal options) True then probe_local env options LOCAL_CANDIDATES else Inr None)"

definition probe_topology :: "probe_env \<Rightarrow> probe_options \<Rightarrow> string + topology" where
  "probe_topology env options =
     ebind (find_gateway env options) (\<lambda>gatewayInfo.
       (let bootstrapNodes = or_else (po_bootstrapNodes options) [];
            mesh = \<lparr>mt_bootstrapNodes = bootstrapNodes, mt_identityPath = po_identityPath options\<rparr> in
        Inr (case gatewayInfo of
          Some g \<Rightarrow>
            if bootstrapNodes \<noteq> [] then \<lparr>tp_mode = Hybrid_Mode, tp_gateway = Some g, tp_mesh = Some mesh\<rparr>
            else \<lparr>tp_mode = Gateway_Mode, tp_gateway = Some g, tp_mesh = None\<rparr>
        | None \<Rightarrow> \<lparr>tp_mode = Mesh_Mode, tp_gateway = None, tp_mesh = Some mesh\<rparr>)))"


section \<open>The choice of the gateway\<close>

fun first_some :: "('a \<Rightarrow> 'b option) \<Rightarrow> 'a list \<Rightarrow> 'b option" where
  "first_some f [] = None"
| "first_some f (x # xs) = (case f x of Some y \<Rightarrow> Some y | None \<Rightarrow> first_some f xs)"

text \<open>The candidates in the order in which they are tried; a local one whose text contains the port of the explicit URL is left out.\<close>

definition candidates :: "probe_env \<Rightarrow> probe_options \<Rightarrow> string list" where
  "candidates env options =
     (case explicit_url options of None \<Rightarrow> [] | Some u \<Rightarrow> [u]) @
     (if or_else (po_autoProbeLocal options) True then
        filter (\<lambda>l. case explicit_url options of None \<Rightarrow> True | Some u \<Rightarrow> \<not> str_includes l (up_port (the (pe_url env u)))) LOCAL_CANDIDATES
      else [])"

lemma probe_local_first:
  "(\<And>u. explicit_url options = Some u \<Longrightarrow> pe_url env u \<noteq> None) \<Longrightarrow>
     probe_local env options urls = Inr (first_some (\<lambda>u. probe_gateway_url env u options)
       (filter (\<lambda>l. case explicit_url options of None \<Rightarrow> True | Some u \<Rightarrow> \<not> str_includes l (up_port (the (pe_url env u)))) urls))"
  by (induction urls) (auto simp: Let_def split: option.splits)

lemma find_gateway_first:
  "(\<And>u. explicit_url options = Some u \<Longrightarrow> pe_url env u \<noteq> None) \<Longrightarrow>
     find_gateway env options = Inr (first_some (\<lambda>u. probe_gateway_url env u options) (candidates env options))"
  using probe_local_first [of options env LOCAL_CANDIDATES]
  by (auto simp: find_gateway_def candidates_def split: option.splits)

text \<open>
  The probe picks the first candidate that answers as a gateway, the explicit URL before the local ones, and
  the mode says exactly what the result carries: a gateway and a mesh, one of them, or the mesh alone.
\<close>

theorem topology_mode_exact:
  assumes "\<And>u. explicit_url options = Some u \<Longrightarrow> pe_url env u \<noteq> None"
  shows "\<exists>t. probe_topology env options = Inr t \<and>
     tp_gateway t = first_some (\<lambda>u. probe_gateway_url env u options) (candidates env options) \<and>
     (tp_mode t = Mesh_Mode \<longleftrightarrow> tp_gateway t = None) \<and>
     (tp_mode t = Hybrid_Mode \<longleftrightarrow> tp_gateway t \<noteq> None \<and> or_else (po_bootstrapNodes options) [] \<noteq> []) \<and>
     (tp_mode t = Gateway_Mode \<longleftrightarrow> tp_gateway t \<noteq> None \<and> or_else (po_bootstrapNodes options) [] = []) \<and>
     tp_mesh t = (if tp_mode t = Gateway_Mode then None
       else Some \<lparr>mt_bootstrapNodes = or_else (po_bootstrapNodes options) [], mt_identityPath = po_identityPath options\<rparr>)"
  using find_gateway_first [of options env] assms
  by (auto simp: probe_topology_def Let_def split: option.splits)

text \<open>
  Two explicit URLs keep the local gateways from being tried when they are not reached: one that the URL parser
  refuses, which makes the whole probe fail even with bootstrap nodes at hand, and one with the default port, whose empty text
  is part of every candidate.
\<close>

theorem explicit_url_disables_fallback:
  assumes explicit: "explicit_url options = Some u" "probe_gateway_url env u options = None" "po_autoProbeLocal options = None"
  shows "(pe_url env u = None \<longrightarrow> probe_topology env options = Inl ''Invalid URL'') \<and>
     (\<forall>p. pe_url env u = Some p \<and> up_port p = [] \<longrightarrow>
        probe_topology env options = Inr \<lparr>tp_mode = Mesh_Mode, tp_gateway = None,
          tp_mesh = Some \<lparr>mt_bootstrapNodes = or_else (po_bootstrapNodes options) [], mt_identityPath = po_identityPath options\<rparr>\<rparr>)"
proof -
  have "str_includes l []" for l by (cases l) simp_all
  then show ?thesis
    using explicit by (auto simp: probe_topology_def find_gateway_def LOCAL_CANDIDATES_def or_else_def Let_def)
qed

section \<open>Probing the gateway of this library\<close>

text \<open>What \<open>JSON.parse (JSON.stringify v)\<close> is: fields without a value are gone.\<close>

fun json_copy :: "jval \<Rightarrow> jval" where
  "json_copy (JObj i fs) = JObj None (map (\<lambda>(k, v). (k, json_copy v)) (filter (\<lambda>(k, v). v \<noteq> JUndef) fs))"
| "json_copy (JArr i xs) = JArr None (map (\<lambda>x. if x = JUndef then JNull else json_copy x) xs)"
| "json_copy v = v"

lemma opt_prop_copy:
  "distinct (map fst fs) \<Longrightarrow> opt_prop (json_copy (JObj i fs)) k = (case map_of fs k of None \<Rightarrow> JUndef | Some v \<Rightarrow> json_copy v)"
proof (induction fs)
  case (Cons p fs)
  then have "map_of fs (fst p) = None" by (simp add: map_of_eq_None_iff)
  with Cons show ?case by (cases p) (auto simp: opt_prop_def split: option.splits)
qed (simp add: opt_prop_def)

declare json_copy.simps(1) [simp del]

definition probe_request :: "string \<Rightarrow> http_request" where
  "probe_request path = \<lparr>hq_method = ''GET'', hq_url = path,
     hq_headers = (\<lambda>h. if h = ''accept'' then Some ''application/json'' else None), hq_ip = None\<rparr>"

definition answers_from :: "probe_env \<Rightarrow> string \<Rightarrow> gateway_env \<Rightarrow> hybrid \<Rightarrow> bool" where
  "answers_from env base genv s \<longleftrightarrow>
     (\<forall>path r. h1_arrival genv (probe_request path) s = Answered r \<longrightarrow>
        (\<exists>t. pe_fetch env (base @ path) = Some \<lparr>ft_status = hp_status r, ft_text = Some t\<rparr> \<and>
             (\<forall>v. hp_body r = Json v \<longrightarrow> pe_parse env t = Some (json_copy v))))"

lemma health_arrival:
  "h1_arrival genv (probe_request ''/health'') s = (case health genv of None \<Rightarrow> Raises | Some r \<Rightarrow> Answered r)"
  by (simp add: h1_arrival_def probe_request_def is_grpc_web_request_def starts_with_def or_else_def)

lemma metadata_arrival:
  "h1_arrival genv (probe_request ''/.well-known/oauth-protected-resource'') s = Answered (resource_metadata genv)"
  by (simp add: h1_arrival_def probe_request_def is_grpc_web_request_def starts_with_def)

lemma health_document:
  assumes "health genv = Some r"
  shows "\<exists>doc. hp_status r = 200 \<and> hp_body r = Json doc \<and> opt_prop (json_copy doc) ''status'' = JStr ''healthy'' \<and>
    opt_prop (json_copy doc) ''auth'' = json_copy (health_auth genv) \<and>
    opt_prop (json_copy doc) ''tools'' = JArr None (map (\<lambda>t. JStr (fst t)) (so_listTools (rv_server (hg_router genv))))"
proof -
  obtain mesh where r: "r = json_answer 200
         [(''status'', JStr ''healthy''), (''node'', so_serverInfo (rv_server (hg_router genv))), (''mesh'', mesh),
          (''tools'', JArr None (map (\<lambda>t. JStr (fst t)) (so_listTools (rv_server (hg_router genv))))),
          (''auth'', health_auth genv),
          (''topology'', JObj None
             [(''tier'', JNum (Fin (if (case hg_front genv of None \<Rightarrow> False | Some m \<Rightarrow> mh_private m) then 1 else 2))),
              (''prmEndpoint'', if hg_validator genv = None then JUndef else JStr ''/.well-known/oauth-protected-resource''),
              (''transportCapabilities'', JArr None (map JStr [''http-mcp'', ''grpc-lio'', ''p2p-dht'']))]),
          (''timestamp'', JStr (hg_timestamp genv))]" (is "r = json_answer 200 ?fs")
    using assms unfolding health_def by (auto simp only: bind_eq_Some_conv option.inject)
  have "opt_prop (json_copy (JObj None ?fs)) k = (case map_of ?fs k of None \<Rightarrow> JUndef | Some v \<Rightarrow> json_copy v)" for k
    by (rule opt_prop_copy) simp
  then show ?thesis unfolding r by (intro exI [of _ "JObj None ?fs"]) (simp add: json_answer_def o_def)
qed

definition issuer_base :: "string \<Rightarrow> string" where
  "issuer_base issuer = (if ends_with issuer ''/oidc'' then issuer else issuer @ ''/oidc'')"

text \<open>
  An agent that probes a gateway of this library, draining or not, learns the issuer and the audience that its
  token validator demands, the scopes of its access control, the names of its tools, and the token endpoint of the
  issuer, as long as no rewriting for container hosts applies.
\<close>

lemma probe_of_gateway:
  assumes served: "answers_from env (strip_slashes candidate) genv s" "health genv \<noteq> None"
    and guarded: "hg_validator genv = Some v" "jv_issuer v \<noteq> []" "jv_audience v \<noteq> []"
    and plain: "po_nexusUrl options = None" "\<And>j. pe_string env (JStr j) = j"
      "\<And>u. pe_url env (issuer_base (jv_issuer v) @ ''/token'') = Some u \<Longrightarrow> \<not> is_container_host (up_hostname u)"
  shows "\<exists>g. probe_gateway_url env candidate options = Some g \<and> gt_mcpEndpoint g = strip_slashes candidate @ ''/mcp'' \<and>
     gt_issuer g = JStr (jv_issuer v) \<and> gt_audience g = JStr (jv_audience v) \<and>
     gt_scopes g = JArr None (map JStr LIOP_SCOPES) \<and>
     gt_tools g = JArr None (map (\<lambda>t. JStr (fst t)) (so_listTools (rv_server (hg_router genv)))) \<and>
     gt_tokenEndpoint g = JStr (issuer_base (jv_issuer v) @ ''/token'')"
proof -
  let ?base = "strip_slashes candidate"
  obtain r where r: "health genv = Some r" using served(2) by blast
  obtain doc where doc: "hp_status r = 200" "hp_body r = Json doc" "opt_prop (json_copy doc) ''status'' = JStr ''healthy''"
    "opt_prop (json_copy doc) ''auth'' = json_copy (health_auth genv)"
    "opt_prop (json_copy doc) ''tools'' = JArr None (map (\<lambda>t. JStr (fst t)) (so_listTools (rv_server (hg_router genv))))"
    using health_document [OF r] by blast
  obtain t where t: "pe_fetch env (?base @ ''/health'') = Some \<lparr>ft_status = 200, ft_text = Some t\<rparr>" "pe_parse env t = Some (json_copy doc)"
    using served(1) [unfolded answers_from_def, rule_format, of "''/health''" r] r doc(1,2) by (auto simp: health_arrival)
  obtain m where m: "pe_fetch env (?base @ ''/.well-known/oauth-protected-resource'') = Some \<lparr>ft_status = 200, ft_text = Some m\<rparr>"
    "\<exists>d. pe_parse env m = Some d \<and> opt_prop d ''resource'' = JStr (jv_audience v) \<and>
       opt_prop d ''authorization_servers'' = JArr None [JStr (jv_issuer v)] \<and>
       opt_prop d ''scopes_supported'' = JArr None (map JStr LIOP_SCOPES) \<and> d \<noteq> JNull \<and> d \<noteq> JUndef"
    using served(1) [unfolded answers_from_def, rule_format, OF metadata_arrival] guarded
    by (auto simp: resource_metadata_def json_answer_def build_protected_resource_metadata_def opt_prop_def json_copy.simps(1) Let_def o_def)
  have auth: "opt_prop (json_copy (health_auth genv)) ''issuer'' = JStr (jv_issuer v)"
    "opt_prop (json_copy (health_auth genv)) ''token_endpoint'' = (if hg_oauth genv then JStr (issuer_base (jv_issuer v) @ ''/token'') else JUndef)"
    using guarded by (auto simp: health_auth_def opt_prop_copy Let_def issuer_base_def)
  have endpoint: "derive_token_endpoint (value_or (opt_prop (json_copy (health_auth genv)) ''token_endpoint'') (JStr [])) (JStr (jv_issuer v)) =
      Some (JStr (issuer_base (jv_issuer v) @ ''/token''))"
    using guarded(2) by (simp add: auth derive_token_endpoint_def value_or_def issuer_base_def)
  have "normalize_token_endpoint env options ?base (JStr (issuer_base (jv_issuer v) @ ''/token'')) = JStr (issuer_base (jv_issuer v) @ ''/token'')"
    using plain by (auto simp: normalize_token_endpoint_def Let_def split: option.split)
  moreover have "LIOP_SCOPES \<noteq> []" by (simp add: LIOP_SCOPES_def)
  ultimately show ?thesis
    using t m doc guarded endpoint auth(1)
    by (auto simp: probe_gateway_url_def apply_metadata_def json_body_def response_ok_def value_or_def Let_def)
qed


section \<open>Witnesses\<close>

text \<open>A network with the gateway at \<open>http://gw\<close>; the text of an answer is the path it was asked for.\<close>

definition demo_probe_env :: probe_env where
  "demo_probe_env =
     \<lparr>pe_fetch = (\<lambda>u. if starts_with u ''http://gw'' then
          (case h1_arrival demo_gateway_env (probe_request (drop 9 u)) demo_gateway of
             Answered r \<Rightarrow> Some \<lparr>ft_status = hp_status r, ft_text = Some (drop 9 u)\<rparr> | _ \<Rightarrow> None)
        else None),
      pe_parse = (\<lambda>t. case h1_arrival demo_gateway_env (probe_request t) demo_gateway of
          Answered r \<Rightarrow> (case hp_body r of Json v \<Rightarrow> Some (json_copy v) | _ \<Rightarrow> None) | _ \<Rightarrow> None),
      pe_url = (\<lambda>u. if u = ''10.0.0.5:15018'' then None else Some \<lparr>up_host = ''gw'', up_hostname = ''gw'', up_port = []\<rparr>),
      pe_with_host = (\<lambda>u h. u), pe_string = (\<lambda>v. case v of JStr s \<Rightarrow> s | _ \<Rightarrow> [])\<rparr>"

definition demo_options :: "string \<Rightarrow> probe_options" where
  "demo_options u = \<lparr>po_blgUrl = Some u, po_nexusUrl = None, po_audience = None, po_bootstrapNodes = Some [''/ip4/1''],
     po_identityPath = None, po_autoProbeLocal = None\<rparr>"

lemma demo_strip: "strip_slashes ''http://gw'' = ''http://gw''" "strip_slashes ''http://gw/'' = ''http://gw''"
  by (simp_all add: strip_slashes_def)

lemma demo_unreached:
  "probe_gateway_url demo_probe_env ''10.0.0.5:15018'' o' = None" "probe_gateway_url demo_probe_env ''http://down'' o' = None"
  by (simp_all add: probe_gateway_url_def strip_slashes_def demo_probe_env_def starts_with_def)

lemma demo_answers: "answers_from demo_probe_env ''http://gw'' demo_gateway_env demo_gateway"
  unfolding answers_from_def
proof (intro allI impI)
  fix path r assume r: "h1_arrival demo_gateway_env (probe_request path) demo_gateway = Answered r"
  have "starts_with (''http://gw'' @ path) ''http://gw''" "drop 9 (''http://gw'' @ path) = path" by (simp_all add: starts_with_def)
  then show "\<exists>t. pe_fetch demo_probe_env (''http://gw'' @ path) = Some \<lparr>ft_status = hp_status r, ft_text = Some t\<rparr> \<and>
      (\<forall>v. hp_body r = Json v \<longrightarrow> pe_parse demo_probe_env t = Some (json_copy v))"
    using r by (simp add: demo_probe_env_def)
qed

lemma demo_health: "health demo_gateway_env \<noteq> None"
  by (simp add: health_def demo_gateway_env_def)

theorem topology_mode_exact_witness:
  "\<exists>t. probe_topology demo_probe_env (demo_options ''http://down'') = Inr t \<and> tp_mode t = Mesh_Mode"
proof -
  have "candidates demo_probe_env (demo_options ''http://down'') = [''http://down'']"
    by (simp add: candidates_def demo_options_def explicit_url_def demo_probe_env_def LOCAL_CANDIDATES_def or_else_def)
  then show ?thesis
    using topology_mode_exact [of "demo_options ''http://down''" demo_probe_env] demo_unreached
    by (auto simp: demo_options_def explicit_url_def demo_probe_env_def)
qed

theorem explicit_url_disables_fallback_witness:
  "probe_topology demo_probe_env (demo_options ''10.0.0.5:15018'') = Inl ''Invalid URL'' \<and>
   probe_topology demo_probe_env (demo_options ''http://down'') = Inr \<lparr>tp_mode = Mesh_Mode, tp_gateway = None,
     tp_mesh = Some \<lparr>mt_bootstrapNodes = [''/ip4/1''], mt_identityPath = None\<rparr>\<rparr>"
proof
  show "probe_topology demo_probe_env (demo_options ''10.0.0.5:15018'') = Inl ''Invalid URL''"
    using explicit_url_disables_fallback [of "demo_options ''10.0.0.5:15018''" "''10.0.0.5:15018''" demo_probe_env] demo_unreached
    by (simp add: demo_options_def explicit_url_def demo_probe_env_def)
  show "probe_topology demo_probe_env (demo_options ''http://down'') = Inr \<lparr>tp_mode = Mesh_Mode, tp_gateway = None,
      tp_mesh = Some \<lparr>mt_bootstrapNodes = [''/ip4/1''], mt_identityPath = None\<rparr>\<rparr>"
    using explicit_url_disables_fallback [of "demo_options ''http://down''" "''http://down''" demo_probe_env] demo_unreached
    by (simp add: demo_options_def explicit_url_def demo_probe_env_def or_else_def)
qed

end
