(* ===== verification/Agent_Bootstrap.thy ===== *)
theory Agent_Bootstrap
  imports Topology_Probe
begin

text \<open>
  \<open>bin/agent.ts\<close>, first part: the addresses of the mesh nodes an agent starts from, found on the command line, through
  the health document of a node, in beacon files or in the environment, and brought to a form that is reachable from the host.
  The patterns of the source are written out as matchers; the file system and the address parser are parameters.
\<close>

section \<open>Patterns\<close>

text \<open>A matcher yields what follows a match at the start of the text; \<open>replace\<close> rewrites the first place that matches.\<close>

type_synonym matcher = "string \<Rightarrow> string option"

fun found_in :: "matcher \<Rightarrow> string \<Rightarrow> bool" where
  "found_in m [] = (m [] \<noteq> None)"
| "found_in m (c # cs) = (m (c # cs) \<noteq> None \<or> found_in m cs)"

fun rewrite_first :: "matcher \<Rightarrow> string \<Rightarrow> string \<Rightarrow> string" where
  "rewrite_first m new [] = (case m [] of Some r \<Rightarrow> new @ r | None \<Rightarrow> [])"
| "rewrite_first m new (c # cs) = (case m (c # cs) of Some r \<Rightarrow> new @ r | None \<Rightarrow> c # rewrite_first m new cs)"

definition literal :: "string \<Rightarrow> matcher" where
  "literal p s = (if starts_with s p then Some (drop (length p) s) else None)"

definition then_match :: "matcher \<Rightarrow> matcher \<Rightarrow> matcher" where
  "then_match m n s = Option.bind (m s) n"

text \<open>\<open>[0-9]{1,3}\<close>, taken as far as it goes: in the patterns below a dot or nothing follows.\<close>

definition octet :: matcher where
  "octet s = (let n = length (takeWhile is_digit (take 3 s)) in if n = 0 then None else Some (drop n s))"

definition digits :: matcher where
  "digits s = (case s of c # cs \<Rightarrow> if is_digit c then Some (dropWhile is_digit cs) else None | [] \<Rightarrow> None)"

text \<open>\<open>1[6-9]|2[0-9]|3[0-1]\<close>\<close>

definition private_second :: matcher where
  "private_second s =
     (case s of
        c # d # r \<Rightarrow>
          if (c = CHR ''1'' \<and> d \<in> set ''6789'') \<or> (c = CHR ''2'' \<and> is_digit d) \<or> (c = CHR ''3'' \<and> d \<in> set ''01'') then Some r else None
      | _ \<Rightarrow> None)"

definition docker_ip :: matcher where
  "docker_ip = then_match (literal ''/ip4/172.'') (then_match private_second
     (then_match (literal ''.'') (then_match octet (then_match (literal ''.'') octet))))"

definition loopback_ip :: matcher where
  "loopback_ip = literal ''/ip4/127.0.0.1''"

definition physical_ip :: matcher where
  "physical_ip = then_match (literal ''/ip4/192.168.'') (then_match octet (then_match (literal ''.'') octet))"

text \<open>\<open>/ip4/[^/]+\<close>\<close>

definition any_ip :: matcher where
  "any_ip = then_match (literal ''/ip4/'')
     (\<lambda>s. case s of c # cs \<Rightarrow> if c = CHR ''/'' then None else Some (dropWhile (\<lambda>c. c \<noteq> CHR ''/'') cs) | [] \<Rightarrow> None)"

section \<open>Addresses\<close>

definition normalize_bootstrap :: "string \<Rightarrow> string" where
  "normalize_bootstrap addr =
     (let trimmed = trim addr; target = ''/ip4/127.0.0.1'' in
      if found_in docker_ip trimmed \<or> found_in loopback_ip trimmed \<or> found_in physical_ip trimmed
      then rewrite_first physical_ip target (rewrite_first loopback_ip target (rewrite_first docker_ip target trimmed))
      else trimmed)"

text \<open>The container address and the port it is published under.\<close>

definition PUBLISHED :: "(string \<times> string) list" where
  "PUBLISHED =
     [(''/ip4/172.23.0.10'', ''15001''), (''/ip4/172.23.0.20'', ''15011''), (''/ip4/172.21.0.13'', ''15031''),
      (''/ip4/172.21.0.14'', ''15041''), (''/ip4/172.20.0.10'', ''13001''), (''/ip4/172.20.0.11'', ''13003''),
      (''/ip4/172.20.0.12'', ''13004''), (''/ip4/172.20.0.13'', ''13005'')]"

definition industrial_address_mapper :: "string \<Rightarrow> string option" where
  "industrial_address_mapper addr =
     (case find (\<lambda>(ip, port). str_includes addr ip) PUBLISHED of
        Some (ip, port) \<Rightarrow> Some (rewrite_first (then_match (literal (ip @ ''/tcp/'')) digits) (''/ip4/127.0.0.1/tcp/'' @ port) addr)
      | None \<Rightarrow>
          if str_includes addr ''/ip4/127.0.0.1/tcp/4000'' \<or> str_includes addr ''/ip4/127.0.0.1/tcp/3000'' then None else Some addr)"

section \<open>Discovery\<close>

record agent_env =
  ae_variable :: "string \<Rightarrow> string option"
  ae_argv :: "string list"                             \<comment> \<open>the arguments after the script\<close>
  ae_probe :: probe_env                                  \<comment> \<open>\<open>fetch\<close> of a document, URLs, \<open>JSON.parse\<close>\<close>
  ae_beaconDirs :: "string list"
  ae_readdir :: "string \<Rightarrow> string list option"        \<comment> \<open>\<open>None\<close>: the directory is missing or not readable\<close>
  ae_read :: "string \<Rightarrow> string \<Rightarrow> string option"     \<comment> \<open>a file of a directory\<close>
  ae_multiaddr :: "string \<Rightarrow> bool"

definition set_variable :: "agent_env \<Rightarrow> string \<Rightarrow> string option" where
  "set_variable env name = (case ae_variable env name of Some (c # cs) \<Rightarrow> Some (c # cs) | _ \<Rightarrow> None)"

definition is_docker_demo_host :: "agent_env \<Rightarrow> string \<Rightarrow> bool" where
  "is_docker_demo_host env urlStr =
     (case pe_url (ae_probe env) urlStr of
        None \<Rightarrow> False
      | Some u \<Rightarrow> (up_hostname u = ''127.0.0.1'' \<or> up_hostname u = ''localhost'') \<and> up_port u \<in> {''13000'', ''13001'', ''15000'', ''15018''})"

definition should_enable_docker_map :: "agent_env \<Rightarrow> bool" where
  "should_enable_docker_map env \<longleftrightarrow>
     ae_variable env ''NODE_ENV'' = Some ''development'' \<or> ae_variable env ''NODE_ENV'' = Some ''test'' \<or>
     ae_variable env ''LIOP_DOCKER_MAP'' = Some ''true'' \<or> ae_variable env ''LIOP_DEV_MODE'' = Some ''true'' \<or>
     (case set_variable env ''LIOP_NEXUS_URL'' of None \<Rightarrow> False | Some u \<Rightarrow> is_docker_demo_host env u)"

text \<open>
  The first address over TCP that is no websocket and no loopback. \<open>None\<close>: the list is no array or an
  element before it is neither text nor array, for which \<open>includes\<close> raises; an array as the address raises at the next step.
\<close>

fun find_tcp :: "jval list \<Rightarrow> string option option" where
  "find_tcp [] = Some None"
| "find_tcp (JStr a # xs) =
     (if str_includes a ''/tcp/'' \<and> \<not> str_includes a ''/ws'' \<and> \<not> str_includes a ''/ip4/127.0.0.1/'' then Some (Some a) else find_tcp xs)"
| "find_tcp (JArr i ys # xs) =
     (if JStr ''/tcp/'' \<in> set ys \<and> JStr ''/ws'' \<notin> set ys \<and> JStr ''/ip4/127.0.0.1/'' \<notin> set ys then None else find_tcp xs)"
| "find_tcp (x # xs) = None"

definition resolve_bootstrap_from_url :: "agent_env \<Rightarrow> string \<Rightarrow> string option" where
  "resolve_bootstrap_from_url env url =
     (let p = ae_probe env in
      Option.bind (pe_fetch p (if ends_with url ''/health'' then url else url @ ''/health'')) (\<lambda>response.
        if \<not> response_ok (ft_status response) then None
        else Option.bind (json_body p response) (\<lambda>data.
          (let mesh = opt_prop data ''mesh''; peerId = opt_prop mesh ''peerId'' in
           if \<not> has_length (opt_prop mesh ''multiaddrs'') \<or> \<not> truthy peerId then None
           else
             (case opt_prop mesh ''multiaddrs'' of
                JArr i xs \<Rightarrow>
                  (case find_tcp xs of
                     Some (Some tcpAddr) \<Rightarrow>
                       (let mapped = (if should_enable_docker_map env then industrial_address_mapper tcpAddr else Some tcpAddr);
                            resolved = (case mapped of
                                Some (c # cs) \<Rightarrow>
                                  if c # cs = tcpAddr then map_option (\<lambda>u. rewrite_first any_ip (''/ip4/'' @ up_hostname u) tcpAddr) (pe_url p url)
                                  else Some (c # cs)
                              | _ \<Rightarrow> map_option (\<lambda>u. rewrite_first any_ip (''/ip4/'' @ up_hostname u) tcpAddr) (pe_url p url)) in
                        map_option (\<lambda>r. if str_includes r ''/p2p/'' then r else r @ ''/p2p/'' @ pe_string p peerId) resolved)
                   | _ \<Rightarrow> None)
              | _ \<Rightarrow> None)))))"

text \<open>The beacons of one directory; a file that cannot be read ends the directory, what was found before it stays.\<close>

fun load_beacons :: "(string \<Rightarrow> string option) \<Rightarrow> string list \<Rightarrow> string list \<Rightarrow> string list \<times> bool" where
  "load_beacons readf [] nodes = (nodes, True)"
| "load_beacons readf (f # fs) nodes =
     (case readf f of
        None \<Rightarrow> (nodes, False)
      | Some t \<Rightarrow>
          (let addr = trim t; normalized = normalize_bootstrap addr in
           load_beacons readf fs (if addr \<noteq> [] \<and> normalized \<notin> set nodes then nodes @ [normalized] else nodes)))"

text \<open>The directories in turn, until one that was read to its end leaves a node.\<close>

fun search_beacons :: "agent_env \<Rightarrow> string list \<Rightarrow> string list \<Rightarrow> string list" where
  "search_beacons env [] nodes = nodes"
| "search_beacons env (dir # dirs) nodes =
     (case ae_readdir env dir of
        None \<Rightarrow> search_beacons env dirs nodes
      | Some files \<Rightarrow>
          (case load_beacons (ae_read env dir) (filter (\<lambda>f. ends_with f ''.multiaddr'') files) nodes of
             (nodes, whole) \<Rightarrow> if whole \<and> nodes \<noteq> [] then nodes else search_beacons env dirs nodes))"

definition discovery_url :: "agent_env \<Rightarrow> string option" where
  "discovery_url env =
     (case set_variable env ''LIOP_NEXUS_URL'' of Some u \<Rightarrow> Some u | None \<Rightarrow> set_variable env ''LIOP_BLG_URL'')"

definition add_discovered :: "agent_env \<Rightarrow> string list \<Rightarrow> string list" where
  "add_discovered env nodes =
     (case Option.bind (discovery_url env) (resolve_bootstrap_from_url env) of
        None \<Rightarrow> nodes
      | Some r \<Rightarrow> if normalize_bootstrap r \<in> set nodes then nodes else nodes @ [normalize_bootstrap r])"

definition resolve_bootstrap_nodes :: "agent_env \<Rightarrow> string list" where
  "resolve_bootstrap_nodes env =
     (let nodes = add_discovered env (filter (\<lambda>a. starts_with a ''/'') (ae_argv env));
          nodes = (if nodes = [] then search_beacons env (ae_beaconDirs env) [] else nodes);
          nodes = (if nodes = [] then (case set_variable env ''LIOP_BOOTSTRAP'' of Some b \<Rightarrow> [trim b] | None \<Rightarrow> []) else nodes)
      in filter (ae_multiaddr env) nodes)"

end
