(* ===== verification/Adaptive_Agent.thy ===== *)
theory Adaptive_Agent
  imports Agent_Bootstrap Token_Manager
begin

text \<open>
  \<open>bin/agent.ts\<close>, second part: the process between an MCP client on its standard input and the network. It
  forwards requests to an HTTP gateway, serves them through the mesh router, or both, after the topology that the probe
  found. A line is handled from its arrival to the lines it writes; what the awaited calls answer is part of the environment, numbered
  where a call is repeated. A handler that raises outside its \<open>try\<close> ends the process: it is an unhandled rejection.
\<close>

section \<open>State and environment\<close>

record relay_env =
  ra_probe :: probe_env
  ra_post :: "nat \<Rightarrow> string \<Rightarrow> (string \<times> string) list \<Rightarrow> jval \<Rightarrow> fetched option"
  ra_token :: "nat \<Rightarrow> Token_Manager.http_response"   \<comment> \<open>the answer of the token endpoint, when it is asked\<close>
  ra_stringify :: "jval \<Rightarrow> string"
  ra_inherited :: "string \<Rightarrow> string"                \<comment> \<open>the text of a member of \<open>Object.prototype\<close>\<close>
  ra_le :: "string \<Rightarrow> string \<Rightarrow> bool"
  ra_router :: router_env

record instant =
  in_world :: world
  in_end :: time_ms

datatype mesh_state = Starting | Running mcp_router | Unavailable

record relay =
  rl_tokens :: token_manager
  rl_routes :: routing_table
  rl_mesh :: mesh_state

datatype written = Lines "jval list" | Crash | Waiting

section \<open>Forwarding to the gateway\<close>

definition text_of :: "relay_env \<Rightarrow> jval \<Rightarrow> string" where
  "text_of env v = pe_string (ra_probe env) v"

definition name_of :: "relay_env \<Rightarrow> jval \<Rightarrow> string option" where
  "name_of env request =
     (let name = opt_prop (opt_prop request ''params'') ''name'' in if truthy name then Some (text_of env name) else None)"

definition forward_headers :: "relay_env \<Rightarrow> string option \<Rightarrow> string option \<Rightarrow> jval \<Rightarrow> (string \<times> string) list" where
  "forward_headers env token name request =
     [(''Content-Type'', ''application/json'')] @
     (case token of Some (c # cs) \<Rightarrow> [(''Authorization'', ''Bearer '' @ c # cs)] | _ \<Rightarrow> []) @
     (if truthy (opt_prop request ''method'') then [(''Mcp-Method'', text_of env (opt_prop request ''method''))] else []) @
     (case name of Some n \<Rightarrow> [(''Mcp-Name'', n)] | None \<Rightarrow> [])"

text \<open>\<open>getToken\<close>, awaited: the token, or \<open>None\<close> when it rejects.\<close>

definition await_token :: "relay_env \<Rightarrow> nat \<Rightarrow> time_ms \<Rightarrow> token_manager \<Rightarrow> token_manager \<times> string option" where
  "await_token env n now m =
     (case get_token now m of
        (m, Token t) \<Rightarrow> (m, Some t)
      | (m, Joined) \<Rightarrow>
          (let m = token_step m (Respond now (ra_token env n)) in
           case tm_pendingPromise m of
             Some (Received t) \<Rightarrow> (token_step m Continue, Some t)
           | _ \<Rightarrow> (m, None)))"

definition gateway_error :: "relay_env \<Rightarrow> jval \<Rightarrow> fetched \<Rightarrow> string + jval" where
  "gateway_error env request response =
     (case ft_text response of
        None \<Rightarrow> Inl ''terminated''
      | Some errorBody \<Rightarrow>
          (let errorObj = opt_prop (case pe_parse (ra_probe env) errorBody of None \<Rightarrow> JNull | Some v \<Rightarrow> v) ''error'' in
           Inr (JObj None [(''jsonrpc'', JStr ''2.0''), (''id'', opt_prop request ''id''),
             (''error'', JObj None
               [(''code'', value_default (opt_prop errorObj ''code'') (JNum (Fin (- 32603)))),
                (''message'', value_default (opt_prop errorObj ''message'')
                   (JStr (''Gateway returned HTTP '' @ show_nat (ft_status response) @ '': '' @ errorBody)))])])))"

definition settle_response :: "relay_env \<Rightarrow> jval \<Rightarrow> fetched \<Rightarrow> string + jval" where
  "settle_response env request response =
     (if \<not> response_ok (ft_status response) then gateway_error env request response
      else (case json_body (ra_probe env) response of None \<Rightarrow> Inl ''Unexpected token'' | Some v \<Rightarrow> Inr v))"

text \<open>One retry with a new token after a 401; when it cannot be made, the 401 is the answer.\<close>

definition forward_to_gateway ::
    "relay_env \<Rightarrow> string \<Rightarrow> string option \<Rightarrow> jval \<Rightarrow> time_ms \<Rightarrow> token_manager \<Rightarrow> token_manager \<times> (string + jval)" where
  "forward_to_gateway env mcpEndpoint name request now m =
     (case await_token env 0 now m of
        (m, token) \<Rightarrow>
          (case ra_post env 0 mcpEndpoint (forward_headers env token name request) request of
             None \<Rightarrow> (m, Inl ''fetch failed'')
           | Some response \<Rightarrow>
               if ft_status response = 401 \<and> Token_Manager.present token then
                 (case await_token env 1 now (invalidate m) of
                    (m, None) \<Rightarrow> (m, settle_response env request response)
                  | (m, Some t) \<Rightarrow>
                      (m, settle_response env request
                        (case ra_post env 1 mcpEndpoint (forward_headers env (Some t) name request) request of
                           None \<Rightarrow> response | Some second \<Rightarrow> second)))
               else (m, settle_response env request response)))"

section \<open>Requests answered by the agent itself\<close>

definition LIOP_MESH_STATUS_TOOL :: jval where
  "LIOP_MESH_STATUS_TOOL = snd diagnostic_entry"

definition status_definition :: tool_definition where
  "status_definition = \<lparr>td_name = DIAGNOSTIC_TOOL,
     td_description = Some ''LiopMeshStatus: Returns the current dynamic diagnostic status of the Zero-Trust Neural Mesh.'',
     td_inputSchema = Some (opt_prop LIOP_MESH_STATUS_TOOL ''inputSchema'')\<rparr>"

definition agent_capabilities :: jval where
  "agent_capabilities = JObj None
     [(''tools'', list_changed), (''resources'', JObj None [(''listChanged'', JBool True), (''subscribe'', JBool True)]), (''prompts'', list_changed)]"

definition agent_info :: "string \<Rightarrow> string \<times> jval" where
  "agent_info name = (''serverInfo'', JObj None [(''name'', JStr name), (''version'', JStr ''2.5.0'')])"

definition client_version :: "jval \<Rightarrow> jval" where
  "client_version params =
     value_default (opt_prop params ''protocolVersion'') (opt_prop (opt_prop params ''_meta'') ''io.modelcontextprotocol/protocolVersion'')"

text \<open>The answers that both HTTP modes give without the gateway; \<open>None\<close>: the request goes on.\<close>

definition own_answer :: "string \<Rightarrow> jval \<Rightarrow> jval list option" where
  "own_answer agentName request =
     (let i = opt_prop request ''id''; meth = opt_prop request ''method'' in
      if meth = JStr ''server/discover'' then
        Some [success_response i (JObj None (complete @
          [(''supportedVersions'', JArr None [JStr ''2026-07-28'', JStr ''2025-11-25'']),
           (''capabilities'', agent_capabilities), agent_info agentName]))]
      else if meth = JStr ''initialize'' then
        Some [success_response i (JObj None
          [(''protocolVersion'', if client_version (opt_prop request ''params'') = JStr ''2026-07-28'' then JStr ''2026-07-28'' else JStr ''2025-11-25''),
           (''capabilities'', agent_capabilities), agent_info agentName])]
      else if meth = JStr ''notifications/initialized'' \<or> meth = JStr ''notifications/cancelled'' then Some []
      else if meth = JStr ''ping'' then Some [success_response i (JObj None [])]
      else if meth = JStr ''resources/templates/list'' then
        Some [success_response i (JObj None (cacheable 300000 ''public'' @ [(''resourceTemplates'', JArr None [])]))]
      else if meth = JStr ''subscriptions/listen'' then Some [success_response i (JObj None complete)]
      else None)"

section \<open>Tool names\<close>

text \<open>
  \<open>TOOL_ALIASES[name] || name\<close>, with the text of the name header. A name that the literal inherits from
  \<open>Object.prototype\<close> yields a function, which is no part of the JSON text of the request, or for \<open>__proto__\<close> an empty object.
\<close>

definition canonical_name :: "relay_env \<Rightarrow> jval \<Rightarrow> jval \<times> string" where
  "canonical_name env name =
     (let key = text_of env name in
      case map_of TOOL_ALIASES key of
        Some target \<Rightarrow> (JStr target, target)
      | None \<Rightarrow>
          if key \<in> fst ` set object_prototype then (if key = ''__proto__'' then JObj None [] else JUndef, ra_inherited env key)
          else (name, key))"

text \<open>The request with normalized arguments and the canonical name, and the text of the name header.\<close>

definition canonical_call :: "relay_env \<Rightarrow> jval \<Rightarrow> jval \<times> string option" where
  "canonical_call env request =
     (let params = with_normal_arguments (opt_prop request ''params''); name = opt_prop params ''name'' in
      if truthy name then
        (case canonical_name env name of (v, t) \<Rightarrow> (set_field ''params'' (set_field ''name'' v params) request, Some t))
      else (set_field ''params'' params request, None))"

definition called_name :: "jval \<Rightarrow> jval" where
  "called_name request = opt_prop (opt_prop request ''params'') ''name''"

section \<open>The list of tools\<close>

text \<open>\<open>some\<close> and \<open>find\<close> over elements of which \<open>null\<close> has no properties: \<open>None\<close> when it comes first.\<close>

fun scan :: "(jval \<Rightarrow> bool) \<Rightarrow> jval list \<Rightarrow> jval option option" where
  "scan p [] = Some None"
| "scan p (t # ts) = (if t = JNull then None else if p t then Some (Some t) else scan p ts)"

definition named :: "string \<Rightarrow> jval \<Rightarrow> bool" where
  "named n t \<longleftrightarrow> opt_prop t ''name'' = JStr n"

definition alias_entry :: "relay_env \<Rightarrow> string \<times> string \<Rightarrow> jval \<Rightarrow> jval" where
  "alias_entry env a targetDef =
     (let d = opt_prop targetDef ''description'' in
      JObj None (AList.update ''description'' (JStr (trim (''[Alias -> '' @ snd a @ ''] '' @ (if truthy d then text_of env d else []))))
        (AList.update ''name'' (JStr (fst a)) (spread targetDef))))"

fun add_aliases :: "relay_env \<Rightarrow> (string \<times> string) list \<Rightarrow> jval list \<Rightarrow> jval list option" where
  "add_aliases env [] toolsList = Some toolsList"
| "add_aliases env (a # as) toolsList =
     Option.bind (scan (named (snd a)) toolsList) (\<lambda>targetDef.
       case targetDef of
         None \<Rightarrow> add_aliases env as toolsList
       | Some d \<Rightarrow> Option.bind (scan (named (fst a)) toolsList) (\<lambda>listed.
           add_aliases env as (if listed = None then toolsList @ [alias_entry env a d] else toolsList)))"

text \<open>A name or description that is no text, which \<open>ToolDefinition\<close> excludes, enters the table as its text.\<close>

definition definition_of :: "relay_env \<Rightarrow> jval \<Rightarrow> tool_definition" where
  "definition_of env t =
     (let optional = (\<lambda>v. if v = JUndef \<or> v = JNull then None else Some v) in
      \<lparr>td_name = text_of env (opt_prop t ''name''), td_description = map_option (text_of env) (optional (opt_prop t ''description'')),
       td_inputSchema = optional (opt_prop t ''inputSchema'')\<rparr>)"

text \<open>The entries before a \<open>null\<close> are registered, then the loop raises.\<close>

definition register_listed :: "relay_env \<Rightarrow> time_ms \<Rightarrow> string \<Rightarrow> jval list \<Rightarrow> routing_table \<Rightarrow> routing_table \<times> bool" where
  "register_listed env now mcpEndpoint toolsList routes =
     (register_gateway_tools now (map (definition_of env) (takeWhile (\<lambda>t. t \<noteq> JNull) toolsList)) mcpEndpoint True routes, JNull \<notin> set toolsList)"

definition agent_request :: "relay_env \<Rightarrow> jval \<Rightarrow> mcp_request" where
  "agent_request env request = \<lparr>rq_method = text_of env (opt_prop request ''method''), rq_params = opt_prop request ''params''\<rparr>"

definition default_field :: "string \<Rightarrow> jval \<Rightarrow> jval \<Rightarrow> jval" where
  "default_field k x result = (if truthy (opt_prop result k) then result else set_field k x result)"

definition modern_result :: "relay_env \<Rightarrow> jval \<Rightarrow> jval \<Rightarrow> jval" where
  "modern_result env request result =
     (if is_legacy_request (agent_request env request) then result
      else default_field ''cacheScope'' (JStr ''public'') (default_field ''ttlMs'' (JNum (Fin 300000))
             (default_field ''resultType'' (JStr ''complete'') result)))"

definition tools_of :: "relay_env \<Rightarrow> routing_table \<Rightarrow> jval list" where
  "tools_of env routes =
     map (\<lambda>t. JObj None [(''name'', JStr (td_name t)), (''description'', case td_description t of None \<Rightarrow> JUndef | Some d \<Rightarrow> JStr d),
        (''inputSchema'', case td_inputSchema t of None \<Rightarrow> JUndef | Some v \<Rightarrow> v)])
       (get_all_tool_definitions (ra_le env) routes)"

definition listing_result :: "relay_env \<Rightarrow> jval \<Rightarrow> jval list \<Rightarrow> jval" where
  "listing_result env request tools =
     JObj None ((if is_legacy_request (agent_request env request) then [] else cacheable 300000 ''public'') @ [(''tools'', JArr None tools)])"

section \<open>Gateway mode\<close>

text \<open>The answer to \<open>tools/list\<close> with the status tool and the aliases added; \<open>Inl\<close>: an element that is \<open>null\<close>.\<close>

definition complete_listing :: "relay_env \<Rightarrow> time_ms \<Rightarrow> string \<Rightarrow> jval \<Rightarrow> jval \<Rightarrow> relay \<Rightarrow> relay \<times> (string + jval)" where
  "complete_listing env now mcpEndpoint request response s =
     (case js_prop response ''result'' of
        None \<Rightarrow> (s, Inl ''TypeError'')
      | Some result \<Rightarrow>
          if \<not> is_object result then (s, Inr response)
          else
            (case opt_prop result ''tools'' of
               JArr i toolsList \<Rightarrow>
                 (case Option.bind (scan (named DIAGNOSTIC_TOOL) toolsList)
                         (\<lambda>st. add_aliases env TOOL_ALIASES (if st = None then LIOP_MESH_STATUS_TOOL # toolsList else toolsList)) of
                    None \<Rightarrow> (s, Inl ''TypeError'')
                  | Some toolsList \<Rightarrow>
                      (case register_listed env now mcpEndpoint toolsList (rl_routes s) of
                         (routes, registered) \<Rightarrow>
                           (s\<lparr>rl_routes := routes\<rparr>,
                            if \<not> registered then Inl ''TypeError''
                            else Inr (set_field ''result'' (modern_result env request (set_field ''tools'' (JArr i toolsList) result)) response))))
             | _ \<Rightarrow> (s, Inr (set_field ''result'' (modern_result env request result) response))))"

definition adaptive_status :: "relay_env \<Rightarrow> gateway_topology \<Rightarrow> jval \<Rightarrow> relay \<Rightarrow> jval" where
  "adaptive_status env gateway request s =
     success_response (opt_prop request ''id'') (JObj None
       [(''content'', JArr None [JObj None
          [(''type'', JStr ''text''),
           (''text'', JStr (ra_stringify env (JObj None
              [(''mode'', JStr ''adaptive-gateway''), (''gatewayUrl'', JStr (gt_baseUrl gateway)), (''tier'', gt_tier gateway),
               (''toolsAvailable'', JNum (Fin (of_nat (length (get_all_tool_definitions (ra_le env) (rl_routes s)))))),
               (''authenticated'', JBool True), (''status'', JStr ''ONLINE'')])))]])])"

definition forward :: "relay_env \<Rightarrow> gateway_topology \<Rightarrow> time_ms \<Rightarrow> string option \<Rightarrow> jval \<Rightarrow> relay \<Rightarrow> relay \<times> (string + jval)" where
  "forward env gateway now name request s =
     (case forward_to_gateway env (gt_mcpEndpoint gateway) name request now (rl_tokens s) of (m, r) \<Rightarrow> (s\<lparr>rl_tokens := m\<rparr>, r))"

definition relay_request :: "relay_env \<Rightarrow> gateway_topology \<Rightarrow> instant \<Rightarrow> string option \<Rightarrow> jval \<Rightarrow> relay \<Rightarrow> relay \<times> written" where
  "relay_request env gateway t name request s =
     (let now = wd_now (in_world t); listing = (opt_prop request ''method'' = JStr ''tools/list'') in
      case (case forward env gateway now name request s of
              (s, Inl e) \<Rightarrow> (s, Inl e)
            | (s, Inr response) \<Rightarrow>
                if listing then complete_listing env now (gt_mcpEndpoint gateway) request response s else (s, Inr response)) of
        (s, Inr response) \<Rightarrow> (s, Lines [response])
      | (s, Inl e) \<Rightarrow>
          (s, Lines [if listing then success_response (opt_prop request ''id'') (listing_result env request (tools_of env (rl_routes s)))
                     else error_response (opt_prop request ''id'') (- 32603) (''Forwarding failed: '' @ e)]))"

text \<open>A line that is \<open>null\<close> raises at the destructuring, outside of every \<open>try\<close>.\<close>

definition parse_line :: "relay_env \<Rightarrow> string \<Rightarrow> jval option" where
  "parse_line env line = (if trim line = [] then None else pe_parse (ra_probe env) (trim line))"

definition gateway_line :: "relay_env \<Rightarrow> gateway_topology \<Rightarrow> instant \<Rightarrow> string \<Rightarrow> relay \<Rightarrow> relay \<times> written" where
  "gateway_line env gateway t line s =
     (case parse_line env line of
        None \<Rightarrow> (s, Lines [])
      | Some request \<Rightarrow>
          if request = JNull then (s, Crash)
          else
            (case own_answer ''liop-adaptive-agent'' request of
               Some out \<Rightarrow> (s, Lines out)
             | None \<Rightarrow>
                 if opt_prop request ''method'' = JStr ''tools/call'' then
                   (case canonical_call env request of
                      (request, name) \<Rightarrow>
                        if called_name request = JStr DIAGNOSTIC_TOOL then (s, Lines [adaptive_status env gateway request s])
                        else relay_request env gateway t name request s)
                 else relay_request env gateway t (name_of env request) request s))"

text \<open>The number of tools as the poll compares it: \<open>v.length\<close>.\<close>

fun length_of :: "jval \<Rightarrow> jval" where
  "length_of (JArr i xs) = JNum (Fin (of_nat (length xs)))"
| "length_of (JStr s) = JNum (Fin (of_nat (length s)))"
| "length_of v = opt_prop v ''length''"

definition bare_tools :: "relay_env \<Rightarrow> jval list \<Rightarrow> tool_definition list" where
  "bare_tools env names = map (\<lambda>n. \<lparr>td_name = text_of env n, td_description = None, td_inputSchema = None\<rparr>) names"

text \<open>The tables at the start; \<open>None\<close>: the tools of the gateway are no array, which raises out of \<open>main\<close>.\<close>

definition start_routes :: "relay_env \<Rightarrow> gateway_topology \<Rightarrow> time_ms \<Rightarrow> routing_table \<Rightarrow> routing_table option" where
  "start_routes env gateway now routes =
     (case gt_tools gateway of
        JArr i names \<Rightarrow> Some (register_gateway_tools now (bare_tools env names) (gt_mcpEndpoint gateway) True
          (register_local_tool now status_definition routes))
      | _ \<Rightarrow> None)"

definition notifications :: "jval list" where
  "notifications = map (\<lambda>m. JObj None [(''jsonrpc'', JStr ''2.0''), (''method'', JStr m)])
     [''notifications/tools/list_changed'', ''notifications/resources/list_changed'']"

text \<open>The poll of the health document every 15 seconds, with the length it saw last.\<close>

definition poll_tools :: "relay_env \<Rightarrow> gateway_topology \<Rightarrow> time_ms \<Rightarrow> jval \<times> relay \<Rightarrow> (jval \<times> relay) \<times> jval list" where
  "poll_tools env gateway now = (\<lambda>(lastToolCount, s).
     (case pe_fetch (ra_probe env) (gt_healthEndpoint gateway) of
        None \<Rightarrow> ((lastToolCount, s), [])
      | Some res \<Rightarrow>
          if \<not> response_ok (ft_status res) then ((lastToolCount, s), [])
          else
            (case json_body (ra_probe env) res of
               None \<Rightarrow> ((lastToolCount, s), [])
             | Some data \<Rightarrow>
                 (let tools = opt_prop data ''tools'' in
                  if truthy tools \<and> length_of tools \<noteq> lastToolCount then
                    (case tools of
                       JArr i names \<Rightarrow>
                         ((length_of tools, s\<lparr>rl_routes := register_gateway_tools now (bare_tools env names) (gt_mcpEndpoint gateway) True (rl_routes s)\<rparr>),
                          notifications)
                     | _ \<Rightarrow> ((length_of tools, s), []))
                  else ((lastToolCount, s), [])))))"

section \<open>Hybrid mode\<close>

text \<open>\<open>router.dispatch\<close> where the mesh is up; a rejection is not caught.\<close>

definition response_value :: "mcp_response \<Rightarrow> jval" where
  "response_value r = JObj None [(''jsonrpc'', JStr ''2.0''), (''id'', rs_id r), (''result'', rs_result r), (''error'', rs_error r)]"

definition dispatch_mesh :: "relay_env \<Rightarrow> instant \<Rightarrow> jval \<Rightarrow> mcp_router \<Rightarrow> mcp_router \<times> mcp_response option promised" where
  "dispatch_mesh env t request r =
     dispatch (ra_router env) (wd_now (in_world t)) (wd_rounds (in_world t)) (wd_bullet (in_world t)) (agent_request env request)
       (opt_prop request ''id'') None r"

definition serve_mesh :: "relay_env \<Rightarrow> instant \<Rightarrow> jval \<Rightarrow> mcp_router \<Rightarrow> relay \<Rightarrow> relay \<times> written" where
  "serve_mesh env t request r s =
     (case dispatch_mesh env t request r of
        (r, Gives res) \<Rightarrow> (s\<lparr>rl_mesh := Running r\<rparr>, Lines (case res of None \<Rightarrow> [] | Some a \<Rightarrow> [response_value a]))
      | (r, Throws e) \<Rightarrow> (s\<lparr>rl_mesh := Running r\<rparr>, Crash)
      | (r, Hangs) \<Rightarrow> (s\<lparr>rl_mesh := Running r\<rparr>, Waiting))"

text \<open>A call that awaits the start of the mesh while it lasts has written nothing yet.\<close>

definition forward_or_mesh :: "relay_env \<Rightarrow> gateway_topology \<Rightarrow> instant \<Rightarrow> string option \<Rightarrow> jval \<Rightarrow> relay \<Rightarrow> relay \<times> written" where
  "forward_or_mesh env gateway t name request s =
     (case forward env gateway (wd_now (in_world t)) name request s of
        (s, Inr res) \<Rightarrow>
          (if \<not> is_legacy_request (agent_request env request) \<and> js_prop res ''result'' = None then
             (case rl_mesh s of Starting \<Rightarrow> (s, Waiting) | Unavailable \<Rightarrow> (s, Lines []) | Running r \<Rightarrow> serve_mesh env t request r s)
           else
             (s, Lines [if \<not> is_legacy_request (agent_request env request) \<and> is_object (opt_prop res ''result'')
                        then set_field ''result'' (default_field ''resultType'' (JStr ''complete'') (opt_prop res ''result'')) res else res]))
      | (s, Inl e) \<Rightarrow>
          (case rl_mesh s of Starting \<Rightarrow> (s, Waiting) | Unavailable \<Rightarrow> (s, Lines []) | Running r \<Rightarrow> serve_mesh env t request r s))"

definition hybrid_call :: "relay_env \<Rightarrow> gateway_topology \<Rightarrow> instant \<Rightarrow> jval \<Rightarrow> relay \<Rightarrow> relay \<times> written" where
  "hybrid_call env gateway t request s =
     (case canonical_call env request of
        (request, name) \<Rightarrow>
          (let toolName = (case called_name request of JStr n \<Rightarrow> n | _ \<Rightarrow> []);
               to_mesh = (\<lambda>s. case rl_mesh s of
                   Starting \<Rightarrow> (s, Waiting)
                 | Running r \<Rightarrow> serve_mesh env t request r s
                 | Unavailable \<Rightarrow> forward_or_mesh env gateway t name request s) in
           case resolve toolName (rl_routes s) of
             Some entry \<Rightarrow>
               if tr_provider entry = Http_Gateway then
                 (case forward env gateway (wd_now (in_world t)) name request s of
                    (s, Inr res) \<Rightarrow>
                      (s\<lparr>rl_routes := record_success (in_end t) toolName (in_end t - wd_now (in_world t)) (rl_routes s)\<rparr>, Lines [res])
                  | (s, Inl e) \<Rightarrow> to_mesh (s\<lparr>rl_routes := record_failure toolName (rl_routes s)\<rparr>))
               else to_mesh s
           | None \<Rightarrow> to_mesh s))"

text \<open>The tools of the gateway: what it lists, nothing when it refuses, the table when it is not reached.\<close>

definition gateway_tools :: "relay_env \<Rightarrow> gateway_topology \<Rightarrow> time_ms \<Rightarrow> jval \<Rightarrow> relay \<Rightarrow> relay \<times> jval list" where
  "gateway_tools env gateway now request s =
     (case forward env gateway now (name_of env request) request s of
        (s, Inl e) \<Rightarrow> (s, tools_of env (rl_routes s))
      | (s, Inr gwRes) \<Rightarrow>
          (case js_prop gwRes ''result'' of
             None \<Rightarrow> (s, tools_of env (rl_routes s))
           | Some resObj \<Rightarrow>
               (case opt_prop resObj ''tools'' of
                  JArr i tools \<Rightarrow>
                    (case register_listed env now (gt_mcpEndpoint gateway) tools (rl_routes s) of
                       (routes, registered) \<Rightarrow>
                         (s\<lparr>rl_routes := routes\<rparr>, if registered then tools else tools_of env routes))
                | _ \<Rightarrow> (s, []))))"

text \<open>The first entry of a name keeps its place; a gateway entry replaces what is there, a mesh entry does not.\<close>

definition key_of :: "relay_env \<Rightarrow> jval \<Rightarrow> string" where
  "key_of env t = text_of env (opt_prop t ''name'')"

definition merge_tools :: "relay_env \<Rightarrow> jval list \<Rightarrow> jval list \<Rightarrow> (string, jval) js_map" where
  "merge_tools env gw mesh =
     fold (\<lambda>t m. if map_of m (key_of env t) = None then AList.update (key_of env t) t m else m) mesh
       (fold (\<lambda>t m. AList.update (key_of env t) t m) gw [(DIAGNOSTIC_TOOL, LIOP_MESH_STATUS_TOOL)])"

definition merge_aliases :: "relay_env \<Rightarrow> (string, jval) js_map \<Rightarrow> (string, jval) js_map" where
  "merge_aliases env tools =
     fold (\<lambda>a m. case map_of m (snd a) of
                   None \<Rightarrow> m
                 | Some d \<Rightarrow> if map_of m (fst a) = None then AList.update (fst a) (alias_entry env a d) m else m) TOOL_ALIASES tools"

text \<open>An element without properties, or with a name that is no text, raises in the merge or in the comparison.\<close>

definition has_text_name :: "jval \<Rightarrow> bool" where
  "has_text_name t \<longleftrightarrow> (case opt_prop t ''name'' of JStr n \<Rightarrow> True | _ \<Rightarrow> False)"

definition hybrid_listing :: "relay_env \<Rightarrow> jval list \<Rightarrow> jval list \<Rightarrow> jval list option" where
  "hybrid_listing env gw mesh =
     (if \<not> list_all has_text_name (gw @ mesh) then None
      else Some (map snd (sort_by (\<lambda>a b. ra_le env (fst a) (fst b)) (merge_aliases env (merge_tools env gw mesh)))))"

definition hybrid_list :: "relay_env \<Rightarrow> gateway_topology \<Rightarrow> instant \<Rightarrow> jval \<Rightarrow> relay \<Rightarrow> relay \<times> written" where
  "hybrid_list env gateway t request s =
     (case gateway_tools env gateway (wd_now (in_world t)) request s of
        (s, gw) \<Rightarrow>
          (let answer = (\<lambda>s mesh. (s, case hybrid_listing env gw mesh of
                 None \<Rightarrow> Crash
               | Some tools \<Rightarrow> Lines [success_response (opt_prop request ''id'') (listing_result env request tools)])) in
           case rl_mesh s of
             Running r \<Rightarrow>
               (case dispatch_mesh env t request r of
                  (r, Gives res) \<Rightarrow> answer (s\<lparr>rl_mesh := Running r\<rparr>)
                    (case res of None \<Rightarrow> [] | Some a \<Rightarrow> (case opt_prop (rs_result a) ''tools'' of JArr i ts \<Rightarrow> ts | _ \<Rightarrow> []))
                | (r, Throws e) \<Rightarrow> (s\<lparr>rl_mesh := Running r\<rparr>, Crash)
                | (r, Hangs) \<Rightarrow> (s\<lparr>rl_mesh := Running r\<rparr>, Waiting))
           | _ \<Rightarrow> answer s []))"

definition hybrid_line :: "relay_env \<Rightarrow> gateway_topology \<Rightarrow> instant \<Rightarrow> string \<Rightarrow> relay \<Rightarrow> relay \<times> written" where
  "hybrid_line env gateway t line s =
     (case parse_line env line of
        None \<Rightarrow> (s, Lines [])
      | Some request \<Rightarrow>
          if request = JNull then (s, Crash)
          else
            (case own_answer ''liop-hybrid-agent'' request of
               Some out \<Rightarrow> (s, Lines out)
             | None \<Rightarrow>
                 if opt_prop request ''method'' = JStr ''tools/call'' then hybrid_call env gateway t request s
                 else if opt_prop request ''method'' = JStr ''tools/list'' then hybrid_list env gateway t request s
                 else forward_or_mesh env gateway t (name_of env request) request s))"

section \<open>Mesh mode\<close>

text \<open>Whatever fails here is ignored with its line.\<close>

definition mesh_line :: "relay_env \<Rightarrow> instant \<Rightarrow> string \<Rightarrow> mcp_router \<Rightarrow> mcp_router \<times> jval list" where
  "mesh_line env t line r =
     (case parse_line env line of
        None \<Rightarrow> (r, [])
      | Some request \<Rightarrow>
          if \<not> truthy (opt_prop request ''method'') then (r, [])
          else
            (case dispatch_mesh env t request r of
               (r, Gives (Some a)) \<Rightarrow> (r, [response_value a])
             | (r, _) \<Rightarrow> (r, [])))"

definition POLL_BASE_MS :: int where "POLL_BASE_MS = 10000"
definition POLL_MAX_MS :: int where "POLL_MAX_MS = 120000"

text \<open>\<open>Math.round (n * 1.5)\<close> of a positive integer.\<close>

definition next_interval :: "bool \<Rightarrow> int \<Rightarrow> int" where
  "next_interval changed pollIntervalMs =
     (if changed then POLL_BASE_MS else min ((3 * pollIntervalMs + 1) div 2) POLL_MAX_MS)"

text \<open>One poll: the cache before and after a forced refresh decide the next interval.\<close>

definition poll_manifests :: "relay_env \<Rightarrow> time_ms \<Rightarrow> mcp_router \<times> int \<Rightarrow> mcp_router \<times> int" where
  "poll_manifests env now = (\<lambda>(r, pollIntervalMs).
     (let r' = fst (refresh_manifest_cache (ra_router env) True now r) in
      (r', next_interval (get_manifest_cache_size r' \<noteq> get_manifest_cache_size r) pollIntervalMs)))"

section \<open>Main\<close>

definition main_probe_options :: "agent_env \<Rightarrow> string \<Rightarrow> probe_options" where
  "main_probe_options env identityPath =
     \<lparr>po_blgUrl = ae_variable env ''LIOP_BLG_URL'', po_nexusUrl = ae_variable env ''LIOP_NEXUS_URL'', po_audience = None,
      po_bootstrapNodes = Some (resolve_bootstrap_nodes env), po_identityPath = Some identityPath, po_autoProbeLocal = None\<rparr>"

definition first_set :: "agent_env \<Rightarrow> string list \<Rightarrow> string option" where
  "first_set env names = Option.bind (find (\<lambda>n. set_variable env n \<noteq> None) names) (set_variable env)"

definition scope_setting :: "agent_env \<Rightarrow> jval \<Rightarrow> (string + string list) option" where
  "scope_setting env v =
     (case v of
        JArr i xs \<Rightarrow> Some (Inr (map (pe_string (ae_probe env)) xs))
      | JStr s \<Rightarrow> Some (Inl s)
      | _ \<Rightarrow> if v = JUndef \<or> v = JNull then None else Some (Inl (pe_string (ae_probe env) v)))"

definition main_token_options :: "agent_env \<Rightarrow> topology \<Rightarrow> token_manager_options" where
  "main_token_options env t =
     (let fallback = or_else (set_variable env ''LIOP_NEXUS_URL'') ''http://127.0.0.1:15000'' @ ''/oidc/token'' in
      \<lparr>to_tokenEndpoint = (case tp_gateway t of
           Some g \<Rightarrow> if truthy (gt_tokenEndpoint g) then pe_string (ae_probe env) (gt_tokenEndpoint g) else fallback
         | None \<Rightarrow> fallback),
       to_clientId = or_else (first_set env [''LIOP_CLIENT_ID'', ''LIOP_OAUTH_CLIENT_ID'']) ''liop-agent'',
       to_clientSecret = or_else (first_set env [''LIOP_CLIENT_SECRET'', ''LIOP_OAUTH_CLIENT_SECRET'']) ''dev-secret-change-me'',
       to_audience = map_option (\<lambda>g. pe_string (ae_probe env) (gt_audience g)) (tp_gateway t),
       to_scopes = Option.bind (tp_gateway t) (\<lambda>g. scope_setting env (gt_scopes g)),
       to_staticToken = (case set_variable env ''LIOP_TOKEN'' of Some v \<Rightarrow> Some v | None \<Rightarrow> ae_variable env ''LIOP_OAUTH_TOKEN'')\<rparr>)"

datatype running =
  Gateway_Relay gateway_topology relay
| Mesh_Relay mesh_topology
| Hybrid_Relay gateway_topology mesh_topology relay

text \<open>What the process becomes; \<open>Inl\<close>: it ends with the message.\<close>

definition start_agent :: "agent_env \<Rightarrow> relay_env \<Rightarrow> string \<Rightarrow> time_ms \<Rightarrow> string + running" where
  "start_agent env renv identityPath now =
     ebind (probe_topology (ae_probe env) (main_probe_options env identityPath)) (\<lambda>t.
       (let relay = (\<lambda>routes. \<lparr>rl_tokens = token_manager_new (main_token_options env t), rl_routes = routes, rl_mesh = Starting\<rparr>);
            started = (\<lambda>g make. case start_routes renv g now [] of None \<Rightarrow> Inl ''TypeError'' | Some routes \<Rightarrow> Inr (make (relay routes))) in
        case tp_mode t of
          Gateway_Mode \<Rightarrow>
            (case tp_gateway t of
               None \<Rightarrow> Inl ''Topology probe indicated gateway mode without gateway info.''
             | Some g \<Rightarrow> started g (Gateway_Relay g))
        | Mesh_Mode \<Rightarrow>
            (case tp_mesh t of
               None \<Rightarrow> Inl ''Topology probe indicated mesh mode without mesh info.''
             | Some m \<Rightarrow> Inr (Mesh_Relay m))
        | Hybrid_Mode \<Rightarrow>
            (case (tp_gateway t, tp_mesh t) of
               (Some g, Some m) \<Rightarrow> started g (Hybrid_Relay g m)
             | (Some g, None) \<Rightarrow> started g (Gateway_Relay g)
             | (None, Some m) \<Rightarrow> Inr (Mesh_Relay m)
             | (None, None) \<Rightarrow> Inl [])))"

end
