(* ===== verification/Agent_Properties.thy ===== *)
theory Agent_Properties
  imports Adaptive_Agent
begin

text \<open>
  What the agent of \<open>Adaptive_Agent\<close> does with the lines it reads, how it joins the gateway of \<open>Hybrid_Gateway\<close>, and where its
  modes differ.
\<close>

section \<open>Joining a gateway\<close>

definition plain_text :: "probe_env \<Rightarrow> bool" where
  "plain_text env \<longleftrightarrow> (\<forall>j. pe_string env (JStr j) = j)"

lemma start_of_gateway:
  assumes "probe_topology (ae_probe env) (main_probe_options env ident) = Inr t" "tp_gateway t = Some g"
    "tp_mode t \<noteq> Mesh_Mode" "tp_mode t = Hybrid_Mode \<longleftrightarrow> tp_mesh t \<noteq> None" "gt_tools g = JArr i names"
  shows "\<exists>r. (start_agent env renv ident now = Inr (Gateway_Relay g r) \<or> (\<exists>m. start_agent env renv ident now = Inr (Hybrid_Relay g m r))) \<and>
    rl_tokens r = token_manager_new (main_token_options env t)"
  using assms by (cases "tp_mode t"; cases "tp_mesh t") (auto simp: start_agent_def start_routes_def Let_def)

text \<open>
  C21. An agent that is pointed at a gateway of this library becomes a relay of that gateway, with or without a mesh beside
  it, and its token manager asks the token endpoint of the very issuer that the gateway trusts, for the audience that the gateway
  demands and for the scopes of its access control; no rewriting for container hosts must apply, and the options name no other authority.
\<close>

theorem agent_joins_gateway:
  assumes pointed: "ae_variable env ''LIOP_BLG_URL'' = Some url" "url \<noteq> []" "ae_variable env ''LIOP_NEXUS_URL'' = None" "pe_url (ae_probe env) url \<noteq> None"
    and served: "answers_from (ae_probe env) (strip_slashes url) genv s" "health genv \<noteq> None"
    and guarded: "hg_validator genv = Some v" "jv_issuer v \<noteq> []" "jv_audience v \<noteq> []"
    and plain: "plain_text (ae_probe env)"
      "\<forall>u. pe_url (ae_probe env) (issuer_base (jv_issuer v) @ ''/token'') = Some u \<longrightarrow> \<not> is_container_host (up_hostname u)"
  shows "\<exists>g r. (start_agent env renv ident now = Inr (Gateway_Relay g r) \<or> (\<exists>m. start_agent env renv ident now = Inr (Hybrid_Relay g m r))) \<and>
     gt_mcpEndpoint g = strip_slashes url @ ''/mcp'' \<and>
     tm_tokenEndpoint (rl_tokens r) = issuer_base (jv_issuer v) @ ''/token'' \<and>
     tm_audience (rl_tokens r) = jv_audience v \<and> tm_scope (rl_tokens r) = join '' '' LIOP_SCOPES"
proof -
  let ?o = "main_probe_options env ident"
  obtain g where g: "probe_gateway_url (ae_probe env) url ?o = Some g" "gt_mcpEndpoint g = strip_slashes url @ ''/mcp''"
    "gt_audience g = JStr (jv_audience v)" "gt_scopes g = JArr None (map JStr LIOP_SCOPES)"
    "gt_tools g = JArr None (map (\<lambda>t. JStr (fst t)) (so_listTools (rv_server (hg_router genv))))"
    "gt_tokenEndpoint g = JStr (issuer_base (jv_issuer v) @ ''/token'')"
    using probe_of_gateway [OF served guarded, of ?o] plain pointed(3) by (auto simp: main_probe_options_def plain_text_def)
  have "explicit_url ?o = Some url" using pointed by (cases url) (simp_all add: explicit_url_def main_probe_options_def)
  then have found: "find_gateway (ae_probe env) ?o = Inr (Some g)" using g(1) by (simp add: find_gateway_def)
  then obtain t where t: "probe_topology (ae_probe env) ?o = Inr t" "tp_gateway t = Some g" "tp_mode t \<noteq> Mesh_Mode"
    "tp_mode t = Hybrid_Mode \<longleftrightarrow> tp_mesh t \<noteq> None"
    by (auto simp: probe_topology_def Let_def)
  from start_of_gateway [OF t g(5)] obtain r where r: "rl_tokens r = token_manager_new (main_token_options env t)"
    "start_agent env renv ident now = Inr (Gateway_Relay g r) \<or> (\<exists>m. start_agent env renv ident now = Inr (Hybrid_Relay g m r))" by blast
  have "map (\<lambda>x. pe_string (ae_probe env) (JStr x)) LIOP_SCOPES = LIOP_SCOPES" using plain(1) by (simp add: plain_text_def)
  then have "tm_tokenEndpoint (rl_tokens r) = issuer_base (jv_issuer v) @ ''/token''" "tm_audience (rl_tokens r) = jv_audience v"
    "tm_scope (rl_tokens r) = join '' '' LIOP_SCOPES"
    using plain(1) by (simp_all add: r(1) token_manager_new_def main_token_options_def t(2) g plain_text_def scope_setting_def o_def Let_def)
  with r(2) g(2) show ?thesis by blast
qed

text \<open>
  The agent ends at its start only for an explicit gateway URL that is no URL or for a gateway whose list of tools is
  no list: the mode that the probe reports always comes with what the mode needs.
\<close>

lemma probe_local_error: "probe_local env options urls = Inl e \<Longrightarrow> e = ''Invalid URL''"
  by (induction urls) (auto simp: Let_def split: option.splits if_splits)

theorem agent_start_errors:
  "start_agent env renv ident now = Inl e \<Longrightarrow> e = ''Invalid URL'' \<or> e = ''TypeError''"
proof (cases "find_gateway (ae_probe env) (main_probe_options env ident)")
  case (Inl m)
  then have "m = ''Invalid URL''" using probe_local_error by (auto simp: find_gateway_def split: option.splits if_splits)
  then show "start_agent env renv ident now = Inl e \<Longrightarrow> ?thesis" using Inl by (simp add: start_agent_def probe_topology_def)
next
  case (Inr found)
  then show "start_agent env renv ident now = Inl e \<Longrightarrow> ?thesis"
    by (cases found) (auto simp: start_agent_def probe_topology_def Let_def split: option.splits if_splits)
qed

section \<open>Forwarding\<close>

text \<open>The headers as the gateway sees them.\<close>

definition received_headers :: "(string \<times> string) list \<Rightarrow> string \<Rightarrow> string option" where
  "received_headers hs = map_of (map (map_prod to_lower id) hs)"

definition text_or :: "bool \<Rightarrow> jval option \<Rightarrow> bool" where
  "text_or absent v = (case v of None \<Rightarrow> absent | Some x \<Rightarrow> (\<exists>m. x = JStr m))"

definition well_typed :: "jval \<Rightarrow> bool" where
  "well_typed request \<longleftrightarrow>
     (\<exists>fs. request = JObj None fs \<and> distinct (map fst fs) \<and> text_or False (map_of fs ''method'') \<and>
        (\<forall>p. map_of fs ''params'' = Some p \<longrightarrow>
           (\<exists>i ps. p = JObj i ps \<and> distinct (map fst ps) \<and> text_or True (map_of ps ''name''))))"

lemma copied_name:
  assumes "distinct (map fst fs)"
    and "\<And>p. map_of fs ''params'' = Some p \<Longrightarrow> \<exists>i ps. p = JObj i ps \<and> distinct (map fst ps) \<and> text_or True (map_of ps ''name'')"
  shows "opt_prop (opt_prop (json_copy (JObj i fs)) ''params'') ''name'' = opt_prop (opt_prop (JObj i fs) ''params'') ''name''"
proof (cases "map_of fs ''params''")
  case None
  then show ?thesis using opt_prop_copy [OF assms(1)] by (simp add: opt_prop_def)
next
  case (Some p)
  then obtain j ps where ps: "p = JObj j ps" "distinct (map fst ps)" "text_or True (map_of ps ''name'')" using assms(2) by blast
  have "opt_prop (json_copy (JObj i fs)) ''params'' = json_copy (JObj j ps)" using opt_prop_copy [OF assms(1)] Some ps(1) by simp
  moreover have "opt_prop (json_copy (JObj j ps)) ''name'' = opt_prop (JObj j ps) ''name''"
    using opt_prop_copy [OF ps(2)] ps(3) by (auto simp: text_or_def opt_prop_def split: option.splits)
  ultimately show ?thesis using Some ps(1) by (simp add: opt_prop_def)
qed

lemma name_is_text:
  assumes "\<And>p. map_of fs ''params'' = Some p \<Longrightarrow> \<exists>i ps. p = JObj i ps \<and> distinct (map fst ps) \<and> text_or True (map_of ps ''name'')"
  shows "truthy (opt_prop (opt_prop (JObj i fs) ''params'') ''name'') \<Longrightarrow> \<exists>n. opt_prop (opt_prop (JObj i fs) ''params'') ''name'' = JStr n"
  using assms by (cases "map_of fs ''params''") (fastforce simp: opt_prop_def text_or_def split: option.splits)+

lemma header_names:
  "to_lower ''Content-Type'' = ''content-type''" "to_lower ''Authorization'' = ''authorization''"
  "to_lower ''Mcp-Method'' = ''mcp-method''" "to_lower ''Mcp-Name'' = ''mcp-name''"
  by code_simp+

lemma received_method_name:
  "received_headers (forward_headers env token name request) ''mcp-method'' =
     (if truthy (opt_prop request ''method'') then Some (text_of env (opt_prop request ''method'')) else None)"
  "received_headers (forward_headers env token name request) ''mcp-name'' = name"
  by (auto simp: received_headers_def forward_headers_def header_names split: option.split list.split)

text \<open>
  What the agent forwards passes the header check of a gateway of this library: the method and the tool that its
  headers name are those of the body that arrives.
\<close>

theorem forwarded_headers_agree:
  assumes "well_typed request" "plain_text (ra_probe env)"
  shows "headers_agree (received_headers (forward_headers env token (name_of env request) request)) (json_copy request)"
proof -
  obtain fs where fs: "request = JObj None fs" "distinct (map fst fs)" "text_or False (map_of fs ''method'')"
    "\<And>p. map_of fs ''params'' = Some p \<Longrightarrow> \<exists>i ps. p = JObj i ps \<and> distinct (map fst ps) \<and> text_or True (map_of ps ''name'')"
    using assms(1) unfolding well_typed_def by blast
  then obtain m where m: "map_of fs ''method'' = Some (JStr m)" by (auto simp: text_or_def split: option.splits)
  then have "opt_prop request ''method'' = JStr m" "js_prop (json_copy request) ''method'' = Some (JStr m)"
    using opt_prop_copy [OF fs(2), where i = None and k = "''method''"] by (auto simp: fs(1) opt_prop_def json_copy.simps(1) split: option.splits)
  moreover have "name_of env request = Some n \<Longrightarrow> opt_prop (opt_prop (json_copy request) ''params'') ''name'' = JStr n" for n
    using name_is_text [where fs = fs and i = None, OF fs(4)] copied_name [OF fs(2,4), where i = None] assms(2)
    by (auto simp: fs(1) name_of_def text_of_def plain_text_def Let_def split: if_splits)
  ultimately show ?thesis
    using assms(2) by (auto simp: headers_agree_def received_method_name text_of_def plain_text_def Let_def)
qed

text \<open>An awaited \<open>getToken\<close> when no request for a token is under way.\<close>

definition refreshed :: "time_ms \<Rightarrow> string \<Rightarrow> int option \<Rightarrow> token_manager \<Rightarrow> token_manager" where
  "refreshed now t e m = m\<lparr>tm_requests := tm_requests m + 1, tm_expiresAt := now + (case e of None \<Rightarrow> 3600 | Some n \<Rightarrow> n) * 1000,
     tm_cachedToken := Some t, tm_pendingPromise := None\<rparr>"

lemma await_token_cases:
  assumes "tm_pendingPromise m = None" "\<not> Token_Manager.present (tm_staticToken m)"
  shows "await_token env n now m = (m, tm_cachedToken m) \<and> Token_Manager.present (tm_cachedToken m) \<or>
    (\<exists>t e. ra_token env n = Token_Manager.Json (Some t) e \<and> await_token env n now m = (refreshed now t e m, Some t)) \<or>
    await_token env n now m = (m\<lparr>tm_requests := tm_requests m + 1, tm_pendingPromise := None\<rparr>, None)"
proof (cases "Token_Manager.present (tm_cachedToken m) \<and> now < tm_expiresAt m - REFRESH_BUFFER_MS")
  case True
  then show ?thesis using assms by (cases "tm_cachedToken m") (simp_all add: await_token_def get_token_def)
next
  case False
  then have get: "get_token now m = (m\<lparr>tm_pendingPromise := Some Requesting, tm_requests := tm_requests m + 1\<rparr>, Joined)"
    using assms by (auto simp: get_token_def)
  show ?thesis
  proof (cases "\<exists>t e. ra_token env n = Token_Manager.Json (Some t) e \<and> t \<noteq> []")
    case True
    then obtain t e where t: "ra_token env n = Token_Manager.Json (Some t) e" "t \<noteq> []" by blast
    then show ?thesis
      by (cases t) (auto simp: await_token_def get fetch_new_token_def refreshed_def Let_def)
  next
    case False
    then have "snd (fetch_new_token now (ra_token env n) k) \<notin> range Inr \<and> fst (fetch_new_token now (ra_token env n) k) = k" for k
      by (cases "ra_token env n"; (cases "case ra_token env n of Token_Manager.Json t e \<Rightarrow> t | _ \<Rightarrow> None")?)
        (auto simp: fetch_new_token_def elim: Token_Manager.present.elims)
    then obtain err where "fetch_new_token now (ra_token env n) (m\<lparr>tm_pendingPromise := Some Requesting, tm_requests := tm_requests m + 1\<rparr>) =
        (m\<lparr>tm_pendingPromise := Some Requesting, tm_requests := tm_requests m + 1\<rparr>, Inl err)"
      by (metis prod.collapse rangeI sum.exhaust)
    then show ?thesis by (simp add: await_token_def get Let_def)
  qed
qed

text \<open>
  A token that the gateway answered with a 401 is given up, a configured one included: the agent presents it
  again only when the token endpoint issues it once more.
\<close>

theorem rejected_token_dropped:
  assumes "await_token env 0 now m = (m1, Some t0)" "tm_pendingPromise m1 = None" "tm_clientId m1 \<noteq> []" "tm_clientSecret m1 \<noteq> []"
    and "ra_post env 0 endpoint (forward_headers env (Some t0) name request) request = Some response" "ft_status response = 401" "t0 \<noteq> []"
    and "fst (forward_to_gateway env endpoint name request now m) = m2"
    and "snd (await_token env n later m2) = Some t0"
  shows "\<exists>e. ra_token env 1 = Token_Manager.Json (Some t0) e \<or> ra_token env n = Token_Manager.Json (Some t0) e"
proof -
  let ?m = "invalidate m1"
  have inv: "tm_pendingPromise ?m = None" "tm_staticToken ?m = None" "tm_cachedToken ?m = None"
    using assms(2-4) by (simp_all add: invalidate_def Let_def)
  have m2: "m2 = fst (await_token env 1 now ?m)"
    using assms(1,5-8) by (cases t0) (auto simp: forward_to_gateway_def split: prod.splits option.splits)
  have "tm_pendingPromise m2 = None \<and> tm_staticToken m2 = None \<and>
      (tm_cachedToken m2 = None \<or> (\<exists>t e. tm_cachedToken m2 = Some t \<and> ra_token env 1 = Token_Manager.Json (Some t) e))"
    using await_token_cases [of ?m env 1 now] inv unfolding m2 by (auto simp: refreshed_def)
  then show ?thesis using await_token_cases [of m2 env n later] assms(9) by auto
qed

section \<open>One line, one answer\<close>

lemma own_answer_length:
  "own_answer name request = Some out \<Longrightarrow>
     length out = (if opt_prop request ''method'' \<in> {JStr ''notifications/initialized'', JStr ''notifications/cancelled''} then 0 else 1)"
  by (auto simp: own_answer_def Let_def split: if_splits)

lemma own_answer_notifications:
  "own_answer name request = None \<Longrightarrow> opt_prop request ''method'' \<notin> {JStr ''notifications/initialized'', JStr ''notifications/cancelled''}"
  by (auto simp: own_answer_def Let_def split: if_splits)

lemma relay_request_one: "\<exists>s' a. relay_request env gateway t name request s = (s', Lines [a])"
  by (auto simp: relay_request_def Let_def split: prod.splits sum.splits if_splits)


text \<open>
  In hybrid mode a request other than \<open>tools/list\<close> whose gateway is not reached and whose mesh did not start is never
  answered; the same line in gateway mode is answered with an error.
\<close>

theorem hybrid_silent_failure:
  assumes "parse_line env line = Some request" "request \<noteq> JNull" "own_answer ''liop-hybrid-agent'' request = None"
    and "opt_prop request ''method'' \<noteq> JStr ''tools/list''" "rl_mesh s = Unavailable"
    and "\<forall>n url hs q. ra_post env n url hs q = None"
  shows "\<exists>s'. hybrid_line env gateway t line s = (s', Lines [])"
proof -
  have post: "\<exists>m e. forward_to_gateway env url name q now tm = (m, Inl e)" for url name q now tm
    using assms(6) by (auto simp: forward_to_gateway_def split: prod.splits)
  have fw: "\<exists>s' e. forward env gateway now name q u = (s', Inl e) \<and> rl_mesh s' = rl_mesh u" for now name q u
    using post [of "gt_mcpEndpoint gateway" name q now "rl_tokens u"] by (auto simp: forward_def)
  have silent: "\<exists>s'. forward_or_mesh env gateway t name q u = (s', Lines [])" if "rl_mesh u = Unavailable" for name q u
    using fw [of "wd_now (in_world t)" name q u] that by (auto simp: forward_or_mesh_def)
  show ?thesis
  proof (cases "opt_prop request ''method'' = JStr ''tools/call''")
    case False
    then show ?thesis using assms(1-5) silent by (simp add: hybrid_line_def)
  next
    case True
    obtain q n where call: "canonical_call env request = (q, n)" by force
    let ?k = "case called_name q of JStr n \<Rightarrow> n | _ \<Rightarrow> []"
    obtain s1 e where s1: "forward env gateway (wd_now (in_world t)) n q s = (s1, Inl e)" "rl_mesh s1 = Unavailable"
      using fw [of "wd_now (in_world t)" n q s] assms(5) by auto
    have "\<exists>s'. hybrid_call env gateway t request s = (s', Lines [])"
      using silent [of s n q] silent [of "s1\<lparr>rl_routes := record_failure ?k (rl_routes s1)\<rparr>" n q] s1 assms(5)
      by (auto simp: hybrid_call_def call Let_def split: option.splits)
    then show ?thesis using True assms(1-3) by (simp add: hybrid_line_def)
  qed
qed

text \<open>A line with the JSON text \<open>null\<close> ends the agent in both modes with a gateway; in mesh mode it is ignored.\<close>

theorem null_line_ends_agent:
  "parse_line env line = Some JNull \<Longrightarrow>
     gateway_line env gateway t line s = (s, Crash) \<and> hybrid_line env gateway t line s = (s, Crash) \<and> mesh_line env t line r = (r, [])"
  by (simp add: gateway_line_def hybrid_line_def mesh_line_def opt_prop_def)

section \<open>Tools\<close>

lemma forward_settles:
  "snd (forward_to_gateway env url name request now tm) = Inl ''fetch failed'' \<and> (\<exists>hs. ra_post env 0 url hs request = None) \<or>
   (\<exists>n hs r. ra_post env n url hs request = Some r \<and> snd (forward_to_gateway env url name request now tm) = settle_response env request r)"
proof -
  obtain m token where tk: "await_token env 0 now tm = (m, token)" by force
  show ?thesis
  proof (cases "ra_post env 0 url (forward_headers env token name request) request")
    case None
    then show ?thesis by (auto simp: forward_to_gateway_def tk)
  next
    case (Some r)
    obtain m' t where tk': "await_token env 1 now (invalidate m) = (m', t)" by force
    show ?thesis
    proof (cases "t = None \<or> \<not> (ft_status r = 401 \<and> Token_Manager.present token)")
      case True
      then have "snd (forward_to_gateway env url name request now tm) = settle_response env request r"
        using Some by (auto simp: forward_to_gateway_def tk tk' simp del: One_nat_def)
      then show ?thesis using Some by blast
    next
      case False
      then obtain v where "t = Some v" by (cases t) auto
      with False Some show ?thesis
        by (cases "ra_post env 1 url (forward_headers env (Some v) name request) request") (auto simp: forward_to_gateway_def tk tk' simp del: One_nat_def)
    qed
  qed
qed

lemma refused_is_answered:
  assumes "\<And>n hs q. \<exists>r b. ra_post env n url hs q = Some r \<and> \<not> response_ok (ft_status r) \<and> ft_text r = Some b"
  shows "\<exists>err. snd (forward_to_gateway env url name request now tm) = Inr (JObj None
    [(''jsonrpc'', JStr ''2.0''), (''id'', opt_prop request ''id''), (''error'', err)])"
proof -
  obtain n hs r where r: "ra_post env n url hs request = Some r" "snd (forward_to_gateway env url name request now tm) = settle_response env request r"
    using forward_settles [of env url name request now tm] assms by (metis option.distinct(1))
  then show ?thesis using assms [of n hs request] by (auto simp: settle_response_def gateway_error_def Let_def)
qed

text \<open>
  In hybrid mode a gateway that refuses the request for its tools empties the list, while one that is not
  reached leaves the tools known before.
\<close>

theorem refused_listing_hides_tools:
  "((\<forall>n hs q. \<exists>r b. ra_post env n (gt_mcpEndpoint gateway) hs q = Some r \<and> \<not> response_ok (ft_status r) \<and> ft_text r = Some b) \<longrightarrow>
      snd (gateway_tools env gateway now request s) = []) \<and>
   ((\<forall>n hs q. ra_post env n (gt_mcpEndpoint gateway) hs q = None) \<longrightarrow>
      snd (gateway_tools env gateway now request s) = tools_of env (rl_routes s))"
proof (intro conjI impI)
  assume "\<forall>n hs q. \<exists>r b. ra_post env n (gt_mcpEndpoint gateway) hs q = Some r \<and> \<not> response_ok (ft_status r) \<and> ft_text r = Some b"
  with refused_is_answered [of env "gt_mcpEndpoint gateway" "name_of env request" request now "rl_tokens s"]
  obtain err where "snd (forward_to_gateway env (gt_mcpEndpoint gateway) (name_of env request) request now (rl_tokens s)) = Inr (JObj None
      [(''jsonrpc'', JStr ''2.0''), (''id'', opt_prop request ''id''), (''error'', err)])" by blast
  then show "snd (gateway_tools env gateway now request s) = []" by (auto simp: gateway_tools_def forward_def opt_prop_def split: prod.splits)
next
  assume "\<forall>n hs q. ra_post env n (gt_mcpEndpoint gateway) hs q = None"
  then show "snd (gateway_tools env gateway now request s) = tools_of env (rl_routes s)"
    by (auto simp: gateway_tools_def forward_def forward_to_gateway_def split: prod.splits)
qed

lemma register_gateway_provider:
  "map_of (register_gateway_tools now tools url auth routes) k = Some entry \<Longrightarrow> k \<in> td_name ` set tools \<Longrightarrow> tr_provider entry = Http_Gateway"
proof (induction tools arbitrary: routes rule: rev_induct)
  case (snoc x xs)
  then show ?case by (auto simp: register_gateway_tools_def jm.get_put new_route_def split: if_splits)
qed simp

lemma register_gateway_dom:
  "map_of (register_gateway_tools now tools url auth routes) k = None \<longleftrightarrow> map_of routes k = None \<and> k \<notin> td_name ` set tools"
  by (induction tools rule: rev_induct) (auto simp: register_gateway_tools_def jm.get_put)

lemma register_gateway_other:
  "k \<notin> td_name ` set tools \<Longrightarrow> map_of (register_gateway_tools now tools url auth routes) k = map_of routes k"
  by (induction tools rule: rev_induct) (auto simp: register_gateway_tools_def jm.get_put)

text \<open>
  The status tool of the agent is local only until the gateway lists one of the same name, as the router of this library
  always does: the list replaces the local entry, and in hybrid mode the next call of the tool leaves for the gateway.
\<close>

theorem status_tool_leaves_agent:
  assumes "plain_text (ra_probe env)" "gt_tools gateway = JArr i names" "\<forall>n \<in> set names. text_of env n \<noteq> DIAGNOSTIC_TOOL"
    and "start_routes env gateway now [] = Some routes" "t \<in> set tools" "named DIAGNOSTIC_TOOL t" "JNull \<notin> set tools"
  shows "map_option tr_provider (resolve DIAGNOSTIC_TOOL routes) = Some Local \<and>
     map_option tr_provider (resolve DIAGNOSTIC_TOOL (fst (register_listed env later url tools routes))) = Some Http_Gateway"
proof
  have no_alias: "map_of TOOL_ALIASES DIAGNOSTIC_TOOL = None" by (simp add: TOOL_ALIASES_def DIAGNOSTIC_TOOL_def)
  have "DIAGNOSTIC_TOOL \<notin> td_name ` set (bare_tools env names)" using assms(3) by (auto simp: bare_tools_def)
  then have "map_of routes DIAGNOSTIC_TOOL = map_of (register_local_tool now status_definition []) DIAGNOSTIC_TOOL"
    using assms(2,4) register_gateway_other by (fastforce simp: start_routes_def)
  then show "map_option tr_provider (resolve DIAGNOSTIC_TOOL routes) = Some Local"
    by (simp add: resolve_def no_alias register_local_tool_def status_definition_def)
  let ?defs = "map (definition_of env) (takeWhile (\<lambda>t. t \<noteq> JNull) tools)"
  have all: "takeWhile (\<lambda>t. t \<noteq> JNull) tools = tools" using assms(7) by (auto simp: takeWhile_eq_all_conv)
  have name: "td_name (definition_of env t) = DIAGNOSTIC_TOOL"
    using assms(1,6) by (simp add: definition_of_def named_def text_of_def plain_text_def Let_def)
  have mem: "DIAGNOSTIC_TOOL \<in> td_name ` set ?defs"
    unfolding all set_map using assms(5) name by (metis imageI)
  then obtain entry where "map_of (register_gateway_tools later ?defs url True routes) DIAGNOSTIC_TOOL = Some entry"
    using register_gateway_dom by fastforce
  with register_gateway_provider [OF this mem]
  show "map_option tr_provider (resolve DIAGNOSTIC_TOOL (fst (register_listed env later url tools routes))) = Some Http_Gateway"
    by (simp add: resolve_def no_alias register_listed_def)
qed

text \<open>
  A tool whose name every JavaScript object inherits cannot be called through the agent in gateway mode: the look-up of its alias finds
  the inherited member, and the request leaves without a name.
\<close>

theorem inherited_tool_name_lost:
  assumes "plain_text (ra_probe env)" "request = JObj None fs" "map_of fs ''params'' = Some (JObj i [(''name'', JStr n)])"
    and "n \<in> fst ` set object_prototype" "n \<noteq> ''__proto__''" "map_of TOOL_ALIASES n = None"
  shows "called_name (fst (canonical_call env request)) = JUndef \<and> snd (canonical_call env request) = Some (ra_inherited env n)"
proof -
  have "n \<noteq> []" using assms(4) by (auto simp: object_prototype_def)
  moreover have "with_normal_arguments (JObj i [(''name'', JStr n)]) = JObj i [(''name'', JStr n)]"
    by (simp add: with_normal_arguments_def opt_prop_def)
  ultimately show ?thesis
    using assms by (simp add: canonical_call_def canonical_name_def called_name_def opt_prop_def text_of_def plain_text_def jm.get_put Let_def)
qed

subsection \<open>The merged list\<close>

definition keyed :: "relay_env \<Rightarrow> (string, jval) js_map \<Rightarrow> bool" where
  "keyed env m \<longleftrightarrow> distinct (map fst m) \<and> (\<forall>(k, t) \<in> set m. key_of env t = k)"

lemma keyed_update: "keyed env m \<Longrightarrow> key_of env t = k \<Longrightarrow> keyed env (AList.update k t m)"
proof -
  have "set (AList.update k t m) \<subseteq> insert (k, t) (set m)" by (induction m) auto
  then show "keyed env m \<Longrightarrow> key_of env t = k \<Longrightarrow> keyed env (AList.update k t m)"
    by (auto simp: keyed_def distinct_update)
qed

lemma gateway_merge:
  "map_of (fold (\<lambda>t m. AList.update (key_of env t) t m) gw m) k =
     (case find (\<lambda>t. key_of env t = k) (rev gw) of Some t \<Rightarrow> Some t | None \<Rightarrow> map_of m k)"
  by (induction gw rule: rev_induct) (auto simp: jm.get_put)

lemma mesh_merge:
  "map_of (fold (\<lambda>t m. if map_of m (key_of env t) = None then AList.update (key_of env t) t m else m) mesh m) k =
     (case map_of m k of Some t \<Rightarrow> Some t | None \<Rightarrow> find (\<lambda>t. key_of env t = k) mesh)"
  by (induction mesh arbitrary: m) (auto simp: jm.get_put split: option.splits)

lemma alias_merge:
  assumes "distinct (map fst as)" "fst ` set as \<inter> snd ` set as = {}"
  shows "map_of (fold (\<lambda>a m. case map_of m (snd a) of None \<Rightarrow> m
      | Some d \<Rightarrow> if map_of m (fst a) = None then AList.update (fst a) (alias_entry env a d) m else m) as m) k =
    (case map_of m k of Some t \<Rightarrow> Some t
     | None \<Rightarrow> Option.bind (map_of as k) (\<lambda>target. map_option (alias_entry env (k, target)) (map_of m target)))"
  using assms
proof (induction as arbitrary: m)
  case (Cons a as)
  let ?m = "case map_of m (snd a) of None \<Rightarrow> m | Some d \<Rightarrow> if map_of m (fst a) = None then AList.update (fst a) (alias_entry env a d) m else m"
  have other: "map_of ?m j = map_of m j" if "j \<noteq> fst a" for j using that by (auto simp: jm.get_put split: option.split)
  have targets: "map_of ?m j = map_of m j" if "j \<in> snd ` set (a # as)" for j
  proof -
    have "j \<noteq> fst a" using that Cons.prems(2) by auto
    then show ?thesis by (rule other)
  qed
  have "fst ` set as \<inter> snd ` set as = {}" "distinct (map fst as)" using Cons.prems by auto
  note IH = Cons.IH [OF this(2,1), of ?m]
  show ?case
  proof (cases "k = fst a")
    case True
    then have none: "map_of as k = None" using Cons.prems(1) by (simp add: map_of_eq_None_iff)
    have look: "map_of (a # as) k = Some (snd a)" using True by (cases a) simp
    show ?thesis unfolding fold.simps comp_apply IH look
      using none True by (cases "map_of m (snd a)"; cases "map_of m k") (simp_all add: jm.get_put)
  next
    case False
    have "map_of ?m target = map_of m target" if "map_of as k = Some target" for target
      using targets [of target] map_of_SomeD [OF that] by force
    moreover have look: "map_of (a # as) k = map_of as k" using False by (cases a) simp
    ultimately show ?thesis unfolding fold.simps comp_apply IH look other [OF False] by (cases "map_of m k"; cases "map_of as k") simp_all
  qed
qed (simp split: option.split)

lemma aliases_apart: "distinct (map fst TOOL_ALIASES)" "fst ` set TOOL_ALIASES \<inter> snd ` set TOOL_ALIASES = {}"
  by (simp_all add: TOOL_ALIASES_def)

lemma alias_key: "plain_text (ra_probe env) \<Longrightarrow> key_of env (alias_entry env a d) = fst a"
  by (simp add: key_of_def alias_entry_def opt_prop_def jm.get_put text_of_def plain_text_def Let_def)

lemma keyed_fold: "keyed env m \<Longrightarrow> (\<And>x m. keyed env m \<Longrightarrow> keyed env (f x m)) \<Longrightarrow> keyed env (fold f xs m)"
  by (induction xs arbitrary: m) auto

lemma keyed_merge:
  assumes "plain_text (ra_probe env)"
  shows "keyed env (merge_aliases env (merge_tools env gw mesh))"
proof -
  have "keyed env [(DIAGNOSTIC_TOOL, LIOP_MESH_STATUS_TOOL)]"
    using assms by (simp add: keyed_def key_of_def LIOP_MESH_STATUS_TOOL_def diagnostic_entry_def opt_prop_def text_of_def plain_text_def)
  then have "keyed env (merge_tools env gw mesh)"
    unfolding merge_tools_def by (intro keyed_fold) (simp_all add: keyed_update)
  then show ?thesis
    unfolding merge_aliases_def using alias_key [OF assms] by (intro keyed_fold) (simp_all add: keyed_update split: option.split)
qed

definition base_names :: "relay_env \<Rightarrow> jval list \<Rightarrow> jval list \<Rightarrow> string set" where
  "base_names env gw mesh = insert DIAGNOSTIC_TOOL (key_of env ` set gw \<union> key_of env ` set mesh)"

lemma find_some: "find p xs = Some x \<Longrightarrow> x \<in> set xs \<and> p x"
  by (induction xs) (auto split: if_splits)

lemma merged_entry:
  "map_of (merge_tools env gw mesh) k =
     (case find (\<lambda>t. key_of env t = k) (rev gw) of Some t \<Rightarrow> Some t
      | None \<Rightarrow> if k = DIAGNOSTIC_TOOL then Some LIOP_MESH_STATUS_TOOL else find (\<lambda>t. key_of env t = k) mesh)"
  by (auto simp: merge_tools_def mesh_merge gateway_merge split: option.split)

lemma find_key: "find (\<lambda>t. key_of env t = k) ts = None \<longleftrightarrow> k \<notin> key_of env ` set ts"
  by (induction ts) auto

lemma merged_names: "map_of (merge_tools env gw mesh) k = None \<longleftrightarrow> k \<notin> base_names env gw mesh"
  using find_key [of env k "rev gw"] find_key [of env k mesh]
  by (cases "find (\<lambda>t. key_of env t = k) (rev gw)") (simp_all add: merged_entry base_names_def)

text \<open>
  The tools of hybrid mode: every name once, in the order of the comparison; the names are the status
  tool, those of the gateway and of the mesh, and the aliases of what is there; a name of the gateway has an entry of the gateway, and any other
  name of the mesh one of the mesh.
\<close>

theorem hybrid_listing_exact:
  assumes "plain_text (ra_probe env)" "hybrid_listing env gw mesh = Some tools"
    and "\<forall>x y. ra_le env x y \<or> ra_le env y x" "\<forall>x y z. ra_le env x y \<longrightarrow> ra_le env y z \<longrightarrow> ra_le env x z"
  shows "distinct (map (key_of env) tools) \<and> sorted_wrt (ra_le env) (map (key_of env) tools) \<and>
    key_of env ` set tools = base_names env gw mesh \<union> {a. \<exists>target \<in> base_names env gw mesh. (a, target) \<in> set TOOL_ALIASES} \<and>
    (\<forall>t \<in> set tools. (key_of env t \<in> key_of env ` set gw \<longrightarrow> t \<in> set gw) \<and>
       (key_of env t \<in> key_of env ` set mesh - insert DIAGNOSTIC_TOOL (key_of env ` set gw) \<longrightarrow> t \<in> set mesh))"
proof -
  let ?b = "merge_tools env gw mesh"
  let ?m = "merge_aliases env ?b"
  let ?s = "sort_by (\<lambda>a b. ra_le env (fst a) (fst b)) ?m"
  have tools: "tools = map snd ?s" using assms(2) by (auto simp: hybrid_listing_def split: if_splits)
  have keyed: "keyed env ?m" by (rule keyed_merge [OF assms(1)])
  have same: "set ?s = set ?m" by (metis set_mset_mset sort_by_mset)
  have keys: "map (key_of env) tools = map fst ?s" unfolding tools using keyed same by (auto simp: keyed_def)
  have "mset (map fst ?s) = mset (map fst ?m)" by simp
  then have distinct: "distinct (map fst ?s)" using keyed by (metis keyed_def mset_eq_imp_distinct_iff)
  have sorted: "sorted_wrt (ra_le env) (map fst ?s)"
    unfolding sorted_wrt_map by (rule sort_by_sorted) (use assms(3,4) in blast)+
  have entry: "map_of ?m k = (case map_of ?b k of Some t \<Rightarrow> Some t
      | None \<Rightarrow> Option.bind (map_of TOOL_ALIASES k) (\<lambda>target. map_option (alias_entry env (k, target)) (map_of ?b target)))" for k
    unfolding merge_aliases_def by (rule alias_merge [OF aliases_apart])
  have aliased: "(k, target) \<in> set TOOL_ALIASES \<longleftrightarrow> map_of TOOL_ALIASES k = Some target" for k target
    using aliases_apart(1) by (metis map_of_eq_Some_iff)
  have dom: "k \<in> fst ` set ?m \<longleftrightarrow> k \<in> base_names env gw mesh \<or> (\<exists>target \<in> base_names env gw mesh. (k, target) \<in> set TOOL_ALIASES)" for k
  proof -
    have "k \<in> fst ` set ?m \<longleftrightarrow> map_of ?m k \<noteq> None" by (simp add: map_of_eq_None_iff)
    also have "\<dots> \<longleftrightarrow> map_of ?b k \<noteq> None \<or> (\<exists>target. map_of TOOL_ALIASES k = Some target \<and> map_of ?b target \<noteq> None)"
      unfolding entry by (cases "map_of ?b k"; cases "map_of TOOL_ALIASES k") auto
    finally show ?thesis unfolding aliased using merged_names by auto
  qed
  have "key_of env ` set tools = fst ` set ?m" using arg_cong [OF keys, of set] same by simp
  then have names: "key_of env ` set tools = base_names env gw mesh \<union> {a. \<exists>target \<in> base_names env gw mesh. (a, target) \<in> set TOOL_ALIASES}"
    by (simp only: set_eq_iff Un_iff mem_Collect_eq dom) simp
  have origin: "(key_of env t \<in> key_of env ` set gw \<longrightarrow> t \<in> set gw) \<and>
      (key_of env t \<in> key_of env ` set mesh - insert DIAGNOSTIC_TOOL (key_of env ` set gw) \<longrightarrow> t \<in> set mesh)" if "t \<in> set tools" for t
  proof -
    from that obtain k where "(k, t) \<in> set ?m" unfolding tools using same by fastforce
    moreover have "distinct (map fst ?m)" using keyed by (simp add: keyed_def)
    ultimately have "map_of ?m k = Some t" by (simp add: map_of_eq_Some_iff)
    have "key_of env t = k" using keyed \<open>(k, t) \<in> set ?m\<close> by (auto simp: keyed_def)
    show ?thesis
    proof (cases "find (\<lambda>t. key_of env t = k) (rev gw)")
      case (Some u)
      then have "map_of ?m k = Some u" by (simp add: entry merged_entry)
      then have "t \<in> set gw" using \<open>map_of ?m k = Some t\<close> find_some [OF Some] by simp
      then show ?thesis by blast
    next
      case None
      then have gw: "k \<notin> key_of env ` set gw" using find_key [of env k "rev gw"] by simp
      have "t \<in> set mesh" if mem: "k \<in> key_of env ` set mesh" "k \<noteq> DIAGNOSTIC_TOOL"
      proof -
        obtain u where u: "find (\<lambda>t. key_of env t = k) mesh = Some u" using mem(1) find_key [of env k mesh] by (cases "find (\<lambda>t. key_of env t = k) mesh") simp_all
        then have "map_of ?m k = Some u" using None mem(2) by (simp add: entry merged_entry)
        then show ?thesis using \<open>map_of ?m k = Some t\<close> find_some [OF u] by simp
      qed
      then show ?thesis using gw \<open>key_of env t = k\<close> by auto
    qed
  qed
  show ?thesis unfolding keys using distinct sorted names origin by blast
qed

section \<open>Polling the mesh\<close>


abbreviation poll_intervals :: "bool list \<Rightarrow> int" where
  "poll_intervals changes \<equiv> run (\<lambda>n changed. next_interval changed n) POLL_BASE_MS changes"

lemma next_interval_bounds: "10000 \<le> n \<Longrightarrow> n \<le> 120000 \<Longrightarrow> 10000 \<le> next_interval c n \<and> next_interval c n \<le> 120000"
  by (auto simp: next_interval_def POLL_BASE_MS_def POLL_MAX_MS_def)

interpretation polling: preserved "\<lambda>n changed. next_interval changed n" "\<lambda>n. 10000 \<le> n \<and> n \<le> 120000"
  by unfold_locales (use next_interval_bounds in blast)

lemma poll_interval_mono:
  "n \<le> m \<Longrightarrow> run (\<lambda>n changed. next_interval changed n) n (replicate k False) \<le> run (\<lambda>n changed. next_interval changed n) m (replicate k False)"
proof (induction k arbitrary: n m)
  case (Suc k)
  have "next_interval False n \<le> next_interval False m"
    using Suc.prems zdiv_mono1 [of "3 * n + 1" "3 * m + 1" 2] by (auto simp: next_interval_def)
  then show ?case using Suc.IH by simp
qed simp

text \<open>
  The agent polls the mesh at least every two minutes and at most every ten seconds; seven polls without a change
  bring it to two minutes, whatever came before, and a change back to ten seconds.
\<close>

theorem poll_interval_bounds:
  "POLL_BASE_MS \<le> poll_intervals changes \<and> poll_intervals changes \<le> POLL_MAX_MS \<and>
   poll_intervals (changes @ [True]) = POLL_BASE_MS \<and> poll_intervals (changes @ replicate 7 False) = POLL_MAX_MS"
proof (intro conjI)
  have inv: "10000 \<le> poll_intervals changes \<and> poll_intervals changes \<le> 120000" for changes
    by (rule polling.run_inv) (simp add: POLL_BASE_MS_def)
  then show "POLL_BASE_MS \<le> poll_intervals changes" "poll_intervals changes \<le> POLL_MAX_MS" by (simp_all add: POLL_BASE_MS_def POLL_MAX_MS_def)
  show "poll_intervals (changes @ [True]) = POLL_BASE_MS" by (simp add: next_interval_def)
  have "run (\<lambda>n changed. next_interval changed n) 10000 (replicate 7 False) = 120000"
    by (simp add: eval_nat_numeral next_interval_def POLL_MAX_MS_def)
  then have "120000 \<le> poll_intervals (changes @ replicate 7 False)"
    using poll_interval_mono [of 10000 "poll_intervals changes" 7] inv [of changes] by simp
  then show "poll_intervals (changes @ replicate 7 False) = POLL_MAX_MS"
    using inv [of "changes @ replicate 7 False"] unfolding POLL_MAX_MS_def by linarith
qed

section \<open>Bootstrap addresses\<close>

lemma rewrite_first_absent: "\<not> found_in m s \<Longrightarrow> rewrite_first m new s = s"
  by (induction s) (auto split: option.split)

lemma rewrite_first_here: "m s = Some r \<Longrightarrow> rewrite_first m new s = new @ r"
  by (cases s) simp_all

lemma found_here: "m s = Some r \<Longrightarrow> found_in m s"
  by (cases s) simp_all

lemma normalize_physical:
  assumes "trim r = r" "physical_ip r = Some rest" "\<not> found_in docker_ip r" "\<not> found_in loopback_ip r"
  shows "normalize_bootstrap r = ''/ip4/127.0.0.1'' @ rest"
  using assms found_here [of physical_ip r rest]
  by (simp add: normalize_bootstrap_def rewrite_first_absent rewrite_first_here del: append.simps)

text \<open>
  A node of the local network that the agent learns about from the health document of its authority is given up for the
  agent's own host: the address of the node becomes the loopback address, and it is the only one the agent starts from.
\<close>

theorem lan_node_becomes_loopback:
  assumes "\<forall>a \<in> set (ae_argv env). \<not> starts_with a ''/''" "discovery_url env = Some url" "resolve_bootstrap_from_url env url = Some r"
    and "trim r = r" "physical_ip r = Some rest" "\<not> found_in docker_ip r" "\<not> found_in loopback_ip r"
    and "ae_multiaddr env (''/ip4/127.0.0.1'' @ rest)"
  shows "resolve_bootstrap_nodes env = [''/ip4/127.0.0.1'' @ rest]"
proof -
  have "filter (\<lambda>a. starts_with a ''/'') (ae_argv env) = []" using assms(1) by (simp add: filter_empty_conv)
  then show ?thesis
    using assms(2,3,8) normalize_physical [OF assms(4-7)]
    by (simp add: resolve_bootstrap_nodes_def add_discovered_def Let_def del: append.simps)
qed

section \<open>Witnesses\<close>

definition demo_agent_env :: "string \<Rightarrow> agent_env" where
  "demo_agent_env url =
     \<lparr>ae_variable = (\<lambda>v. if v = ''LIOP_BLG_URL'' then Some url else None), ae_argv = [], ae_probe = demo_probe_env, ae_beaconDirs = [],
      ae_readdir = (\<lambda>d. None), ae_read = (\<lambda>d f. None), ae_multiaddr = (\<lambda>a. True)\<rparr>"

definition demo_agent_request :: jval where
  "demo_agent_request = JObj None [(''method'', JStr ''tools/call''), (''params'', JObj None [(''name'', JStr ''toString'')])]"

definition demo_relay_env :: "(nat \<Rightarrow> fetched option) \<Rightarrow> relay_env" where
  "demo_relay_env post =
     \<lparr>ra_probe = demo_probe_env\<lparr>pe_parse := (\<lambda>t. if t = ''null'' then Some JNull else Some demo_agent_request)\<rparr>,
      ra_post = (\<lambda>n url hs q. post n), ra_token = (\<lambda>n. Token_Manager.Json (Some (if n = 1 then ''new'' else ''old'')) None),
      ra_stringify = (\<lambda>v. []), ra_inherited = (\<lambda>n. ''function''), ra_le = (\<lambda>x y. length x \<le> length y), ra_router = demo_router_env\<rparr>"

definition demo_relay :: relay where
  "demo_relay = \<lparr>rl_tokens = token_manager_new \<lparr>to_tokenEndpoint = ''t'', to_clientId = ''c'', to_clientSecret = ''s'', to_audience = None,
       to_scopes = None, to_staticToken = Some ''old''\<rparr>, rl_routes = [], rl_mesh = Unavailable\<rparr>"

definition demo_topology :: gateway_topology where
  "demo_topology = \<lparr>gt_baseUrl = ''g'', gt_mcpEndpoint = ''g/mcp'', gt_healthEndpoint = ''g/health'', gt_tokenEndpoint = JStr [],
     gt_issuer = JStr [], gt_audience = JStr ''a'', gt_scopes = DEFAULT_SCOPES, gt_tools = JArr None [], gt_tier = JNum (Fin 2)\<rparr>"

definition demo_instant :: instant where
  "demo_instant = \<lparr>in_world = demo_world, in_end = 6\<rparr>"

lemma demo_plain: "plain_text demo_probe_env" "plain_text (ra_probe (demo_relay_env post))"
  by (simp_all add: plain_text_def demo_probe_env_def demo_relay_env_def)

lemma demo_line: "parse_line (demo_relay_env post) ''call'' = Some demo_agent_request" "parse_line (demo_relay_env post) ''null'' = Some JNull"
proof -
  have "trim ''call'' = ''call''" "trim ''null'' = ''null''" by code_simp+
  then show "parse_line (demo_relay_env post) ''call'' = Some demo_agent_request" "parse_line (demo_relay_env post) ''null'' = Some JNull"
    by (simp_all add: parse_line_def demo_relay_env_def)
qed

theorem agent_joins_gateway_witness:
  "\<exists>g r. (start_agent (demo_agent_env ''http://gw/'') (demo_relay_env (\<lambda>n. None)) [] 0 = Inr (Gateway_Relay g r) \<or>
      (\<exists>m. start_agent (demo_agent_env ''http://gw/'') (demo_relay_env (\<lambda>n. None)) [] 0 = Inr (Hybrid_Relay g m r))) \<and>
     tm_tokenEndpoint (rl_tokens r) = ''i/oidc/token'' \<and> tm_audience (rl_tokens r) = ''a''"
proof -
  have "ae_probe (demo_agent_env ''http://gw/'') = demo_probe_env" by (simp add: demo_agent_env_def)
  note joined = agent_joins_gateway [of "demo_agent_env ''http://gw/''" "''http://gw/''" demo_gateway_env demo_gateway
      "\<lparr>jv_issuer = ''i'', jv_audience = ''a''\<rparr>" "demo_relay_env (\<lambda>n. None)" "[]" 0, unfolded this]
  have "issuer_base ''i'' @ ''/token'' = ''i/oidc/token''" by (simp add: issuer_base_def ends_with_def)
  then show ?thesis
    using joined demo_answers demo_health demo_plain(1)
    by (fastforce simp: demo_strip demo_agent_env_def demo_gateway_env_def demo_probe_env_def is_container_host_def starts_with_def)
qed

theorem agent_start_errors_witness:
  "start_agent (demo_agent_env ''10.0.0.5:15018'') (demo_relay_env (\<lambda>n. None)) [] 0 = Inl ''Invalid URL'' \<and>
   (''Invalid URL'' = ''Invalid URL'' \<or> ''Invalid URL'' = ''TypeError'')"
proof -
  have "start_agent (demo_agent_env ''10.0.0.5:15018'') (demo_relay_env (\<lambda>n. None)) [] 0 = Inl ''Invalid URL''"
    using demo_unreached(1)
    by (simp add: start_agent_def probe_topology_def find_gateway_def main_probe_options_def demo_agent_env_def explicit_url_def LOCAL_CANDIDATES_def
        or_else_def demo_probe_env_def)
  with agent_start_errors [OF this] show ?thesis by blast
qed

theorem forwarded_headers_agree_witness:
  "headers_agree (received_headers (forward_headers (demo_relay_env (\<lambda>n. None)) (Some ''t'')
     (name_of (demo_relay_env (\<lambda>n. None)) demo_agent_request) demo_agent_request)) (json_copy demo_agent_request)"
  by (rule forwarded_headers_agree [OF _ demo_plain(2)]) (simp add: well_typed_def demo_agent_request_def text_or_def)

theorem null_line_ends_agent_witness:
  "gateway_line (demo_relay_env (\<lambda>n. None)) demo_topology demo_instant ''null'' demo_relay = (demo_relay, Crash)"
  using null_line_ends_agent [OF demo_line(2)] by blast


theorem hybrid_silent_failure_witness:
  "\<exists>s'. hybrid_line (demo_relay_env (\<lambda>n. None)) demo_topology demo_instant ''call'' demo_relay = (s', Lines [])"
  by (rule hybrid_silent_failure [OF demo_line(1)])
    (simp_all add: demo_agent_request_def own_answer_def opt_prop_def demo_relay_def demo_relay_env_def)

theorem inherited_tool_name_lost_witness:
  "called_name (fst (canonical_call (demo_relay_env (\<lambda>n. None)) demo_agent_request)) = JUndef \<and>
   snd (canonical_call (demo_relay_env (\<lambda>n. None)) demo_agent_request) = Some ''function''"
proof -
  have "ra_inherited (demo_relay_env (\<lambda>n. None)) ''toString'' = ''function''" by (simp add: demo_relay_env_def)
  then show ?thesis
    using inherited_tool_name_lost [OF demo_plain(2), of demo_agent_request _ None "''toString''" "\<lambda>n. None"]
    by (simp add: demo_agent_request_def object_prototype_def TOOL_ALIASES_def)
qed

theorem refused_listing_hides_tools_witness:
  "snd (gateway_tools (demo_relay_env (\<lambda>n. Some \<lparr>ft_status = 500, ft_text = Some []\<rparr>)) demo_topology 0 demo_agent_request demo_relay) = []"
  using refused_listing_hides_tools [of "demo_relay_env (\<lambda>n. Some \<lparr>ft_status = 500, ft_text = Some []\<rparr>)" demo_topology 0 demo_agent_request demo_relay]
  by (simp add: demo_relay_env_def response_ok_def)

theorem status_tool_leaves_agent_witness:
  "\<exists>routes. start_routes (demo_relay_env (\<lambda>n. None)) demo_topology 0 [] = Some routes \<and>
     map_option tr_provider (resolve DIAGNOSTIC_TOOL routes) = Some Local \<and>
     map_option tr_provider (resolve DIAGNOSTIC_TOOL
       (fst (register_listed (demo_relay_env (\<lambda>n. None)) 1 ''g/mcp'' [LIOP_MESH_STATUS_TOOL] routes))) = Some Http_Gateway"
proof -
  obtain routes where r: "start_routes (demo_relay_env (\<lambda>n. None)) demo_topology 0 [] = Some routes"
    by (simp add: start_routes_def demo_topology_def)
  have "named DIAGNOSTIC_TOOL LIOP_MESH_STATUS_TOOL" "LIOP_MESH_STATUS_TOOL \<noteq> JNull"
    by (simp_all add: named_def LIOP_MESH_STATUS_TOOL_def diagnostic_entry_def opt_prop_def)
  then show ?thesis
    using status_tool_leaves_agent [OF demo_plain(2) _ _ r, of None "[]" LIOP_MESH_STATUS_TOOL "[LIOP_MESH_STATUS_TOOL]" 1 "''g/mcp''"] r
    by (simp add: demo_topology_def)
qed

theorem hybrid_listing_exact_witness:
  "\<exists>tools. hybrid_listing (demo_relay_env (\<lambda>n. None)) [JObj None [(''name'', JStr ''Analyze_HFT_Market_Data'')]] [] = Some tools \<and>
     ''oracle_tool'' \<in> key_of (demo_relay_env (\<lambda>n. None)) ` set tools"
proof -
  let ?gw = "[JObj None [(''name'', JStr ''Analyze_HFT_Market_Data'')]]"
  obtain tools where t: "hybrid_listing (demo_relay_env (\<lambda>n. None)) ?gw [] = Some tools"
    by (simp add: hybrid_listing_def has_text_name_def opt_prop_def)
  have "''Analyze_HFT_Market_Data'' \<in> base_names (demo_relay_env (\<lambda>n. None)) ?gw []"
    by (simp add: base_names_def key_of_def opt_prop_def text_of_def demo_relay_env_def demo_probe_env_def)
  moreover have "(''oracle_tool'', ''Analyze_HFT_Market_Data'') \<in> set TOOL_ALIASES" by (simp add: TOOL_ALIASES_def)
  moreover have "\<forall>x y. ra_le (demo_relay_env (\<lambda>n. None)) x y \<or> ra_le (demo_relay_env (\<lambda>n. None)) y x"
    "\<forall>x y z. ra_le (demo_relay_env (\<lambda>n. None)) x y \<longrightarrow> ra_le (demo_relay_env (\<lambda>n. None)) y z \<longrightarrow> ra_le (demo_relay_env (\<lambda>n. None)) x z"
    by (auto simp: demo_relay_env_def)
  ultimately show ?thesis using hybrid_listing_exact [OF demo_plain(2) t] t by blast
qed

theorem rejected_token_dropped_witness:
  "\<exists>e. ra_token (demo_relay_env (\<lambda>n. Some \<lparr>ft_status = 401, ft_text = Some []\<rparr>)) 1 = Token_Manager.Json (Some ''old'') e \<or>
     ra_token (demo_relay_env (\<lambda>n. Some \<lparr>ft_status = 401, ft_text = Some []\<rparr>)) 2 = Token_Manager.Json (Some ''old'') e"
proof -
  let ?env = "demo_relay_env (\<lambda>n. Some \<lparr>ft_status = 401, ft_text = Some []\<rparr>)"
  let ?m = "rl_tokens demo_relay"
  have first: "await_token ?env 0 0 ?m = (?m, Some ''old'')"
    by (simp add: await_token_def get_token_def demo_relay_def token_manager_new_def)
  have m: "tm_pendingPromise ?m = None" "tm_clientId ?m \<noteq> []" "tm_clientSecret ?m \<noteq> []" by (simp_all add: demo_relay_def token_manager_new_def)
  have post: "ra_post ?env 0 ''g'' (forward_headers ?env (Some ''old'') None demo_agent_request) demo_agent_request = Some \<lparr>ft_status = 401, ft_text = Some []\<rparr>"
    by (simp add: demo_relay_env_def)
  obtain m2 where m2: "fst (forward_to_gateway ?env ''g'' None demo_agent_request 0 ?m) = m2" by blast
  have "m2 = refreshed 0 ''new'' None (invalidate ?m)"
    using m2 first
    by (auto simp: forward_to_gateway_def demo_relay_env_def await_token_def get_token_def demo_relay_def token_manager_new_def
        invalidate_def fetch_new_token_def refreshed_def Let_def)
  then have "snd (await_token ?env 2 4000000 m2) = Some ''old''"
    by (simp add: await_token_def get_token_def demo_relay_env_def refreshed_def demo_relay_def token_manager_new_def invalidate_def
        REFRESH_BUFFER_MS_def fetch_new_token_def Let_def)
  from rejected_token_dropped [OF first m post _ _ m2 this] show ?thesis by simp
qed

definition demo_lan_env :: agent_env where
  "demo_lan_env = (demo_agent_env ''http://192.168.1.5:3000'')\<lparr>ae_probe :=
     \<lparr>pe_fetch = (\<lambda>u. Some \<lparr>ft_status = 200, ft_text = Some []\<rparr>),
      pe_parse = (\<lambda>t. Some (JObj None [(''mesh'', JObj None
         [(''multiaddrs'', JArr None [JStr ''/ip4/192.168.1.5/tcp/4001'']), (''peerId'', JStr ''Q'')])])),
      pe_url = (\<lambda>u. Some \<lparr>up_host = ''192.168.1.5:3000'', up_hostname = ''192.168.1.5'', up_port = ''3000''\<rparr>),
      pe_with_host = (\<lambda>u h. u), pe_string = (\<lambda>v. case v of JStr s \<Rightarrow> s | _ \<Rightarrow> [])\<rparr>\<rparr>"

theorem lan_node_becomes_loopback_witness:
  "resolve_bootstrap_nodes demo_lan_env = [''/ip4/127.0.0.1'' @ ''/tcp/4001/p2p/Q'']"
proof (rule lan_node_becomes_loopback)
  let ?r = "''/ip4/192.168.1.5/tcp/4001/p2p/Q''"
  show "discovery_url demo_lan_env = Some ''http://192.168.1.5:3000''"
    by (simp add: discovery_url_def set_variable_def demo_lan_env_def demo_agent_env_def)
  have "any_ip ''/ip4/192.168.1.5/tcp/4001'' = Some ''/tcp/4001''" by code_simp
  moreover have "\<not> should_enable_docker_map demo_lan_env" by (simp add: should_enable_docker_map_def set_variable_def demo_lan_env_def demo_agent_env_def)
  ultimately show "resolve_bootstrap_from_url demo_lan_env ''http://192.168.1.5:3000'' = Some ?r"
    by (simp add: resolve_bootstrap_from_url_def demo_lan_env_def response_ok_def json_body_def opt_prop_def starts_with_def Let_def)
  show "trim ?r = ?r" "physical_ip ?r = Some ''/tcp/4001/p2p/Q''" "\<not> found_in docker_ip ?r" "\<not> found_in loopback_ip ?r" by code_simp+
qed (simp_all add: demo_lan_env_def demo_agent_env_def)

end
