(* ===== verification/Server_Registry.thy ===== *)
theory Server_Registry
  imports Logic_Server Mcp_Bridge Mcp_Router Prompt_Texts
begin

text \<open>
  What a node offers and how it is set up: the registration of tools, prompts, resources and the data
  dictionary, the listings, \<open>getPrompt\<close> and \<open>readResource\<close> of \<open>server/index.ts\<close>, the parts of its constructor
  that decide something (limits, keys, authentication), and the two modes of \<open>bridge/index.ts\<close>: a JSON-RPC
  request served by this registry, and the copying of a legacy server into it.

  An entry of the tool map is a \<open>registered_tool\<close>; \<open>node_of\<close> hands the map to the request paths of
  \<open>Logic_Server\<close>. An operation that may raise returns the state it leaves and the error. \<open>registry_env\<close>
  holds \<open>String\<close> and \<open>JSON.stringify(v, null, 2)\<close>. A zod shape is a \<open>tool_shape\<close>: whether its \<open>payload\<close> is a
  string, its parser and the outcome of \<open>z.toJSONSchema\<close>.
\<close>

section \<open>State\<close>

record registry_env =
  re_string :: "jval \<Rightarrow> string"
  re_pretty :: "jval \<Rightarrow> string"

record tool_shape =
  sh_payloadString :: bool
  sh_parse :: "jval \<Rightarrow> jval option"
  sh_jsonSchema :: "string + jval"

record tool_info =
  ti_name :: string
  ti_description :: string
  ti_inputSchema :: jval

record registered_tool =
  rt_tool :: tool_info
  rt_entry :: tool_entry

datatype prompt_handler = Blind_Analyst | Own_Prompt "jval \<Rightarrow> string + jval"

record prompt_entry =
  pe_name :: string
  pe_description :: "string option"
  pe_arguments :: jval
  pe_handler :: prompt_handler

text \<open>\<open>content\<close> of a resource: absent, a text, or a function; of a foreign function, how its promise settles.\<close>

datatype resource_content = No_Content | Text_Content string | Envelope_Spec | Execution_Guidelines | Own_Content "string + string"

record resource_entry =
  ro_name :: string
  ro_uri :: string
  ro_description :: "string option"
  ro_mimeType :: "string option"
  ro_content :: resource_content

record mcp_server =
  ms_node :: liop_node
  ms_tools :: "(string, registered_tool) js_map"
  ms_prompts :: "(string, prompt_entry) js_map"
  ms_resources :: "(string, resource_entry) js_map"
  ms_activeSchema :: "jval option"
  ms_forbiddenKeys :: "string list option"       \<comment> \<open>\<open>config.security.forbiddenKeys\<close>\<close>
  ms_serverInfo :: jval
  ms_meshed :: bool                              \<comment> \<open>\<open>meshNode\<close> is set\<close>
  ms_announced :: "string list"                  \<comment> \<open>the calls of \<open>announceCapability\<close>\<close>

datatype registry_error =
  Tool_Registered string | Prompt_Registered string | Resource_Registered string | Unrepresentable string | Type_Error

definition node_of :: "mcp_server \<Rightarrow> liop_node" where
  "node_of s = (ms_node s)\<lparr>ln_tools := map (\<lambda>(n, t). (n, rt_entry t)) (ms_tools s)\<rparr>"

definition with_node :: "mcp_server \<Rightarrow> liop_node \<Rightarrow> mcp_server" where
  "with_node s node = s\<lparr>ms_node := node\<lparr>ln_tools := ln_tools (ms_node s)\<rparr>\<rparr>"

section \<open>The field summary of a schema\<close>

text \<open>\<open>Object.entries\<close>\<close>

fun object_entries :: "jval \<Rightarrow> (string \<times> jval) list" where
  "object_entries (JObj i fs) = fs"
| "object_entries (JArr i xs) = map (\<lambda>(n, x). (show_nat n, x)) (List.enumerate 0 xs)"
| "object_entries (JStr t) = map (\<lambda>(n, c). (show_nat n, JStr [c])) (List.enumerate 0 t)"
| "object_entries v = []"

text \<open>A value inside a template literal.\<close>

definition templated :: "(jval \<Rightarrow> string) \<Rightarrow> jval \<Rightarrow> string" where
  "templated str v = (case v of JStr t \<Rightarrow> t | _ \<Rightarrow> str v)"

text \<open>One property; \<open>None\<close> is the \<open>TypeError\<close> of a property that is \<open>null\<close>.\<close>

definition field_summary :: "(jval \<Rightarrow> string) \<Rightarrow> (jval \<Rightarrow> string option) \<Rightarrow> string \<Rightarrow> jval \<Rightarrow> string option" where
  "field_summary str nested key prop =
     (case js_prop prop ''type'' of
        None \<Rightarrow> None
      | Some propType \<Rightarrow>
          if propType = JStr ''array'' \<and> truthy (opt_prop prop ''items'')
          then map_option (\<lambda>t. key @ ''(array of '' @ t @ '')'') (nested (opt_prop prop ''items''))
          else if propType = JStr ''object'' \<and> truthy (opt_prop prop ''properties'')
          then map_option (\<lambda>t. key @ ''('' @ t @ '')'') (nested prop)
          else Some (key @ ''('' @ (if truthy propType then templated str propType else ''unknown'') @ '')''))"

text \<open>\<open>extractSchemaFieldSummary\<close>; the number is what \<open>depth\<close> lacks to 4, where the walk stops.\<close>

primrec extract_schema_field_summary :: "(jval \<Rightarrow> string) \<Rightarrow> nat \<Rightarrow> jval \<Rightarrow> string option" where
  "extract_schema_field_summary str 0 schema = Some ''{...}''"
| "extract_schema_field_summary str (Suc d) schema =
     (let schemaType = opt_prop schema ''type''; properties = opt_prop schema ''properties''; items = opt_prop schema ''items'' in
      if truthy properties
      then map_option (\<lambda>ts. ''{'' @ join '', '' ts @ ''}'')
             (those (map (\<lambda>(key, prop). field_summary str (extract_schema_field_summary str d) key prop) (object_entries properties)))
      else if schemaType = JStr ''array'' \<and> truthy items
      then map_option (\<lambda>t. ''Array of '' @ t) (extract_schema_field_summary str d items)
      else if truthy schemaType then Some (templated str schemaType)
      else Some (join '', '' (map fst (object_entries schema))))"

definition schema_digest :: "registry_env \<Rightarrow> jval \<Rightarrow> string option" where
  "schema_digest env schema = extract_schema_field_summary (re_string env) 4 schema"

section \<open>Registration\<close>

definition LOGIC_NOTE :: string where
  "LOGIC_NOTE =
     [CHR 0x0A, CHR 0x0A] @ ''Payload: LIOP v1 envelope (WASI sandbox).'' @
     '' Format: @LIOP{wasi_v1,TaskName}'' @ [CHR 0x5C] @ ''n<JS code>'' @ [CHR 0x5C] @ ''n@END'' @
     '' | Access data: env.records. Return aggregated object.'' @
     '' Note: If dataset size < 10 (synthetic demo), Egress K-Anonymity blocks output if it has >3 keys or any '' @
     ''array/nested object.'' @
     '' | Full spec: resource liop://protocol/envelope-spec''"

definition GLOBAL_SCHEMA_URI :: string where "GLOBAL_SCHEMA_URI = ''liop://schema/global''"
definition GUIDELINES_URI :: string where "GUIDELINES_URI = ''liop://schema/guidelines''"
definition ENVELOPE_URI :: string where "ENVELOPE_URI = ''liop://protocol/envelope-spec''"

text \<open>The description of a Logic-on-Origin tool, \<open>None\<close> when the summary of the active schema raises.\<close>

definition logic_description :: "registry_env \<Rightarrow> mcp_server \<Rightarrow> string \<Rightarrow> string option" where
  "logic_description env s description =
     (let blocked = (case ms_forbiddenKeys s of Some (k # ks) \<Rightarrow> [CHR 0x0A] @ ''Restricted fields: '' @ join '', '' (k # ks) @ ''.'' | _ \<Rightarrow> [])
      in case ms_activeSchema s of
           None \<Rightarrow> Some (description @ LOGIC_NOTE @ blocked)
         | Some schema \<Rightarrow>
             map_option (\<lambda>digest. description @ LOGIC_NOTE @ blocked @ [CHR 0x0A] @ ''Data structure: '' @ digest @
                 ''. Full schema: resource liop://schema/global'')
               (schema_digest env schema))"

definition input_schema :: "jval \<Rightarrow> jval" where
  "input_schema generated =
     (let properties = opt_prop generated ''properties'' in
      JObj None [(''type'', JStr ''object''), (''properties'', if truthy properties then properties else JObj None []),
        (''required'', opt_prop generated ''required'')])"

definition register_tool ::
    "registry_env \<Rightarrow> string \<Rightarrow> string \<Rightarrow> tool_shape \<Rightarrow> (jval \<Rightarrow> string + jval) \<Rightarrow> tool_policy option \<Rightarrow> mcp_server
      \<Rightarrow> mcp_server \<times> registry_error option" where
  "register_tool env name description shape handler policy s =
     (if map_of (ms_tools s) name \<noteq> None then (s, Some (Tool_Registered name))
      else case sh_jsonSchema shape of
        Inl e \<Rightarrow> (s, Some (Unrepresentable e))
      | Inr generated \<Rightarrow>
          (case (if sh_payloadString shape then logic_description env s description else Some description) of
             None \<Rightarrow> (s, Some Type_Error)
           | Some finalDescription \<Rightarrow>
               (s\<lparr>ms_tools := AList.update name
                    \<lparr>rt_tool = \<lparr>ti_name = name, ti_description = finalDescription, ti_inputSchema = input_schema generated\<rparr>,
                     rt_entry = \<lparr>te_logicTool = sh_payloadString shape, te_schema = sh_parse shape, te_handler = handler,
                                 te_policy = policy\<rparr>\<rparr> (ms_tools s),
                  ms_announced := (if ms_meshed s then ms_announced s @ [name] else ms_announced s)\<rparr>, None)))"

definition register_prompt ::
    "string \<Rightarrow> string option \<Rightarrow> jval \<Rightarrow> prompt_handler \<Rightarrow> mcp_server \<Rightarrow> mcp_server \<times> registry_error option" where
  "register_prompt name description args handler s =
     (if map_of (ms_prompts s) name \<noteq> None then (s, Some (Prompt_Registered name))
      else (s\<lparr>ms_prompts := AList.update name
                \<lparr>pe_name = name, pe_description = description, pe_arguments = args, pe_handler = handler\<rparr> (ms_prompts s)\<rparr>, None))"

definition register_resource ::
    "string \<Rightarrow> string \<Rightarrow> string option \<Rightarrow> string option \<Rightarrow> resource_content \<Rightarrow> mcp_server
      \<Rightarrow> mcp_server \<times> registry_error option" where
  "register_resource name uri description mimeType content s =
     (if map_of (ms_resources s) uri \<noteq> None then (s, Some (Resource_Registered uri))
      else (s\<lparr>ms_resources := AList.update uri
                \<lparr>ro_name = name, ro_uri = uri, ro_description = description, ro_mimeType = mimeType, ro_content = content\<rparr>
                (ms_resources s)\<rparr>, None))"

definition enable_zero_shot_autonomy :: "mcp_server \<Rightarrow> mcp_server \<times> registry_error option" where
  "enable_zero_shot_autonomy s =
     register_prompt ''liop_blind_analyst''
       (Some (''The official Logic-Injection-on-Origin Protocol system prompt. Instructs the LLM on how to securely inject '' @
              ''Logic-on-Origin without violating PII or safety constraints.'')) (JArr None []) Blind_Analyst s"

text \<open>The hint \<open>dataDictionary\<close> adds to a tool that is registered already.\<close>

definition with_structure :: "string \<Rightarrow> string \<Rightarrow> registered_tool \<Rightarrow> registered_tool" where
  "with_structure digest uri t =
     (let description = ti_description (rt_tool t) in
      if te_logicTool (rt_entry t) \<and> description \<noteq> [] \<and> \<not> str_includes description ''Data structure:''
      then t\<lparr>rt_tool := (rt_tool t)\<lparr>ti_description := description @ [CHR 0x0A] @ ''Data structure: '' @ digest @
              ''. Full schema: resource '' @ uri @ ''. Guidelines: resource liop://schema/guidelines''\<rparr>\<rparr>
      else t)"

definition with_guidelines :: "mcp_server \<Rightarrow> mcp_server" where
  "with_guidelines s =
     (if map_of (ms_resources s) GUIDELINES_URI \<noteq> None then s
      else fst (register_resource ''LIOP Execution Guidelines'' GUIDELINES_URI
             (Some ''Directives for generating compliant JavaScript code for the LIOP Sandbox runtime'') (Some ''text/plain'')
             Execution_Guidelines s))"

definition commented :: "(string \<times> jval) list \<Rightarrow> jval" where
  "commented fs = JObj None (AList.update ''$comment'' (JStr SCHEMA_COMMENT) fs)"

definition data_dictionary ::
    "registry_env \<Rightarrow> (string \<times> jval) list \<Rightarrow> string \<Rightarrow> string \<Rightarrow> string \<Rightarrow> mcp_server \<Rightarrow> mcp_server \<times> registry_error option" where
  "data_dictionary env fs name uri description s =
     (let schema = commented fs; s = s\<lparr>ms_activeSchema := Some schema\<rparr> in
      case schema_digest env schema of
        None \<Rightarrow> (s, Some Type_Error)
      | Some digest \<Rightarrow>
          register_resource name uri (Some description) (Some ''application/json'') (Text_Content (re_pretty env schema))
            (with_guidelines (s\<lparr>ms_tools := map (\<lambda>(n, t). (n, with_structure digest uri t)) (ms_tools s)\<rparr>)))"

definition set_sandbox_data :: "jval list \<Rightarrow> mcp_server \<Rightarrow> mcp_server" where
  "set_sandbox_data rs s = s\<lparr>ms_node := (ms_node s)\<lparr>ln_records := rs\<rparr>\<rparr>"

text \<open>The registering calls of an application, in any order; an error of one is the application's to handle.\<close>

datatype registration =
  Add_Tool string string tool_shape "jval \<Rightarrow> string + jval" "tool_policy option"
| Add_Prompt string "string option" jval prompt_handler
| Add_Resource string string "string option" "string option" resource_content
| Add_Dictionary "(string \<times> jval) list" string string string
| Zero_Shot
| Set_Data "jval list"

primrec registry_step :: "registry_env \<Rightarrow> mcp_server \<Rightarrow> registration \<Rightarrow> mcp_server" where
  "registry_step env s (Add_Tool n d sh h p) = fst (register_tool env n d sh h p s)"
| "registry_step env s (Add_Prompt n d a h) = fst (register_prompt n d a h s)"
| "registry_step env s (Add_Resource n u d m c) = fst (register_resource n u d m c s)"
| "registry_step env s (Add_Dictionary fs n u d) = fst (data_dictionary env fs n u d s)"
| "registry_step env s Zero_Shot = fst (enable_zero_shot_autonomy s)"
| "registry_step env s (Set_Data rs) = set_sandbox_data rs s"

section \<open>Listings and reads\<close>

definition list_tools :: "mcp_server \<Rightarrow> tool_info list" where
  "list_tools s = map (rt_tool \<circ> snd) (ms_tools s)"

definition list_prompts :: "mcp_server \<Rightarrow> prompt_entry list" where
  "list_prompts s = map snd (ms_prompts s)"

definition list_resources :: "mcp_server \<Rightarrow> resource_entry list" where
  "list_resources s = map snd (ms_resources s)"

definition blind_analyst_result :: "registry_env \<Rightarrow> mcp_server \<Rightarrow> jval" where
  "blind_analyst_result env s =
     JObj None [(''description'', JStr ''LIOP Blind Analyst Instructions''),
       (''messages'', JArr None [JObj None [(''role'', JStr ''user''),
          (''content'', JObj None [(''type'', JStr ''text''),
             (''text'', JStr (blind_analyst_text (map_option (re_pretty env) (ms_activeSchema s))))])]])]"

definition get_prompt :: "registry_env \<Rightarrow> mcp_server \<Rightarrow> jval \<Rightarrow> jval \<Rightarrow> string + jval" where
  "get_prompt env s name args =
     (case (case name of JStr n \<Rightarrow> map_of (ms_prompts s) n | _ \<Rightarrow> None) of
        None \<Rightarrow> Inl (''Prompt not found: '' @ templated (re_string env) name)
      | Some entry \<Rightarrow>
          (case pe_handler entry of
             Blind_Analyst \<Rightarrow> Inr (blind_analyst_result env s)
           | Own_Prompt h \<Rightarrow> h (JObj None [(''name'', name), (''arguments'', args)])))"

definition resource_text :: "mcp_server \<Rightarrow> resource_entry \<Rightarrow> string + string" where
  "resource_text s r =
     (case ro_content r of
        Own_Content p \<Rightarrow> p
      | Envelope_Spec \<Rightarrow> Inr (build_envelope_spec (ms_forbiddenKeys s))
      | Execution_Guidelines \<Rightarrow> Inr build_execution_guidelines
      | Text_Content t \<Rightarrow> Inr t
      | No_Content \<Rightarrow> (case ro_description r of Some (c # cs) \<Rightarrow> Inr (c # cs) | _ \<Rightarrow> Inr ''No description provided''))"

definition read_resource :: "registry_env \<Rightarrow> mcp_server \<Rightarrow> jval \<Rightarrow> string + jval" where
  "read_resource env s uri =
     (case (case uri of JStr u \<Rightarrow> map_of (ms_resources s) u | _ \<Rightarrow> None) of
        None \<Rightarrow> Inl (''Resource not found: '' @ templated (re_string env) uri)
      | Some r \<Rightarrow>
          (case resource_text s r of
             Inl e \<Rightarrow> Inl e
           | Inr t \<Rightarrow>
               Inr (JObj None [(''contents'', JArr None [JObj None [(''uri'', JStr (ro_uri r)),
                 (''mimeType'', JStr (case ro_mimeType r of Some (c # cs) \<Rightarrow> c # cs | _ \<Rightarrow> ''text/plain'')), (''text'', JStr t)]])])))"

section \<open>The bridge over this server\<close>

text \<open>The objects of the listings as the bridge prints them: a function is left out of JSON text.\<close>

definition tool_object :: "tool_info \<Rightarrow> jval" where
  "tool_object t = JObj None [(''name'', JStr (ti_name t)), (''description'', JStr (ti_description t)), (''inputSchema'', ti_inputSchema t)]"

definition prompt_object :: "prompt_entry \<Rightarrow> jval" where
  "prompt_object p =
     JObj None [(''name'', JStr (pe_name p)), (''description'', opt_str (pe_description p)), (''arguments'', pe_arguments p)]"

definition resource_object :: "resource_entry \<Rightarrow> jval" where
  "resource_object r =
     JObj None [(''name'', JStr (ro_name r)), (''uri'', JStr (ro_uri r)), (''description'', opt_str (ro_description r)),
       (''mimeType'', opt_str (ro_mimeType r)), (''content'', case ro_content r of Text_Content t \<Rightarrow> JStr t | _ \<Rightarrow> JUndef)]"

definition server_ops_of :: "registry_env \<Rightarrow> mcp_server \<Rightarrow> (jval \<Rightarrow> jval \<Rightarrow> string + jval) \<Rightarrow> server_ops" where
  "server_ops_of env s call =
     \<lparr>so_serverInfo = ms_serverInfo s,
      so_listTools = map (\<lambda>t. (ti_name t, tool_object t)) (list_tools s),
      so_listResources = map (\<lambda>r. (ro_uri r, resource_object r)) (list_resources s),
      so_listPrompts = map (\<lambda>p. (pe_name p, prompt_object p)) (list_prompts s),
      so_getPrompt = get_prompt env s, so_readResource = read_resource env s, so_callTool = call\<rparr>"

text \<open>\<open>callTool\<close> as the bridge awaits it: \<open>None\<close> when it never settles.\<close>

definition call_named ::
    "registry_env \<Rightarrow> node_env \<Rightarrow> time_ms \<Rightarrow> jval \<Rightarrow> jval \<Rightarrow> mcp_server \<Rightarrow> (mcp_server \<times> (string + jval)) option" where
  "call_named env nenv now name args s =
     (case name of
        JStr n \<Rightarrow>
          (case call_tool nenv now n args ''local-client'' (node_of s) of
             None \<Rightarrow> None
           | Some (node, Tool_Not_Found m) \<Rightarrow> Some (with_node s node, Inl (''Tool not found: '' @ m))
           | Some (node, r) \<Rightarrow> Some (with_node s node, Inr (outcome_value nenv r)))
      | _ \<Rightarrow> Some (s, Inl (''Tool not found: '' @ re_string env name)))"

text \<open>The call of a tool a payload leads to, if any.\<close>

definition requested_call :: "jval \<Rightarrow> (jval \<times> jval) option" where
  "requested_call payload =
     (let params = opt_prop payload ''params''; name = opt_prop params ''name''; args = opt_prop params ''arguments'' in
      if opt_prop payload ''jsonrpc'' = JStr ''2.0'' \<and> opt_prop payload ''method'' = JStr ''tools/call'' \<and> truthy name
      then Some (name, if truthy args then args else JObj None []) else None)"

definition serve_json_rpc ::
    "registry_env \<Rightarrow> node_env \<Rightarrow> bridge_env \<Rightarrow> (string \<Rightarrow> string \<Rightarrow> bool) \<Rightarrow> time_ms \<Rightarrow> jval \<Rightarrow> mcp_server
      \<Rightarrow> (mcp_server \<times> (unit + jval option)) option" where
  "serve_json_rpc env nenv benv le now payload s =
     (case requested_call payload of
        None \<Rightarrow> Some (s, handle_json_rpc_request benv le (Some (server_ops_of env s (\<lambda>_ _. Inl []))) payload)
      | Some (name, args) \<Rightarrow>
          map_option (\<lambda>(s', answer). (s', handle_json_rpc_request benv le (Some (server_ops_of env s' (\<lambda>_ _. answer))) payload))
            (call_named env nenv now name args s))"

text \<open>The line handler of the expose mode: the text written for a line, if any.\<close>

definition expose_line ::
    "registry_env \<Rightarrow> node_env \<Rightarrow> bridge_env \<Rightarrow> (string \<Rightarrow> string \<Rightarrow> bool) \<Rightarrow> time_ms \<Rightarrow> string \<Rightarrow> mcp_server
      \<Rightarrow> (mcp_server \<times> string option) option" where
  "expose_line env nenv benv le now line s =
     (if trim line = [] then Some (s, None)
      else case be_parse benv line of
        None \<Rightarrow> Some (s, None)
      | Some payload \<Rightarrow>
          map_option (\<lambda>(s', r). (s', case r of Inr (Some v) \<Rightarrow> Some (be_stringify benv v @ [CHR 0x0A]) | _ \<Rightarrow> None))
            (serve_json_rpc env nenv benv le now payload s))"

subsection \<open>Wrapping a legacy server\<close>

record legacy_tool =
  lt_name :: string
  lt_description :: "string option"
  lt_shape :: tool_shape
  lt_handler :: "jval \<Rightarrow> string + jval"

record legacy_resource =
  lg_name :: string
  lg_uri :: string
  lg_description :: "string option"
  lg_mimeType :: "string option"
  lg_read :: "string + string"

primrec sync_tools :: "registry_env \<Rightarrow> legacy_tool list \<Rightarrow> mcp_server \<Rightarrow> mcp_server \<times> registry_error option" where
  "sync_tools env [] s = (s, None)"
| "sync_tools env (t # ts) s =
     (case register_tool env (lt_name t) (case lt_description t of Some d \<Rightarrow> d | None \<Rightarrow> []) (lt_shape t) (lt_handler t) None s of
        (s, Some e) \<Rightarrow> (s, Some e)
      | (s, None) \<Rightarrow> sync_tools env ts s)"

primrec sync_resources :: "legacy_resource list \<Rightarrow> mcp_server \<Rightarrow> mcp_server \<times> registry_error option" where
  "sync_resources [] s = (s, None)"
| "sync_resources (r # rs) s =
     (case register_resource (lg_name r) (lg_uri r) (Some (case lg_description r of Some d \<Rightarrow> d | None \<Rightarrow> []))
             (Some (case lg_mimeType r of Some (c # cs) \<Rightarrow> c # cs | _ \<Rightarrow> ''application/octet-stream'')) (Own_Content (lg_read r)) s of
        (s, Some e) \<Rightarrow> (s, Some e)
      | (s, None) \<Rightarrow> sync_resources rs s)"

text \<open>\<open>connect\<close> of a wrapping bridge on the new server \<open>s\<close>: an \<open>Inl\<close> of \<open>joined\<close> is the failure to join the mesh.\<close>

definition wrap_connect ::
    "registry_env \<Rightarrow> bool \<Rightarrow> string + unit \<Rightarrow> legacy_tool list \<Rightarrow> legacy_resource list \<Rightarrow> mcp_server
      \<Rightarrow> mcp_server \<times> (string + registry_error) option" where
  "wrap_connect env publishToMesh joined ts rs s =
     (if \<not> publishToMesh then (s, None)
      else case joined of
        Inl e \<Rightarrow> (s, Some (Inl e))
      | Inr _ \<Rightarrow>
          (case sync_tools env ts (s\<lparr>ms_meshed := True\<rparr>) of
             (s, Some e) \<Rightarrow> (s, Some (Inr e))
           | (s, None) \<Rightarrow> apsnd (map_option Inr) (sync_resources rs s)))"

section \<open>The constructor\<close>

definition DEFAULT_FORBIDDEN_KEYS :: "string list" where
  "DEFAULT_FORBIDDEN_KEYS =
     [''id'', ''name'', ''fullName'', ''firstName'', ''lastName'', ''address'', ''street'', ''city'', ''postalCode'', ''zipCode'',
      ''phone'', ''email'', ''ssn'', ''accountHolder'', ''accountNumber'', ''account_number'', ''password'', ''token'', ''secret'',
      ''privateKey'']"

text \<open>The keys of the scanner and of the taint analyzer.\<close>

definition effective_forbidden_keys :: "string list option \<Rightarrow> string list" where
  "effective_forbidden_keys keys = (case keys of Some ks \<Rightarrow> ks | None \<Rightarrow> DEFAULT_FORBIDDEN_KEYS)"

definition server_info_of :: "jval \<Rightarrow> jval \<Rightarrow> jval" where
  "server_info_of capabilities info =
     (if truthy capabilities \<and> \<not> truthy (opt_prop info ''capabilities'') then set_field ''capabilities'' capabilities info else info)"

definition new_server :: "liop_node \<Rightarrow> string list option \<Rightarrow> jval \<Rightarrow> jval \<Rightarrow> mcp_server" where
  "new_server node keys capabilities info =
     fst (register_resource ''LIOP Envelope Specification'' ENVELOPE_URI
       (Some ''Complete Logic-on-Origin envelope format, execution rules, and security constraints'') (Some ''text/plain'') Envelope_Spec
       \<lparr>ms_node = node, ms_tools = [], ms_prompts = [], ms_resources = [], ms_activeSchema = None, ms_forbiddenKeys = keys,
        ms_serverInfo = server_info_of capabilities info, ms_meshed = False, ms_announced = []\<rparr>)"

subsection \<open>Limits\<close>

record limit_options =
  lo_windowMs :: "int option"
  lo_maxPerWindow :: "int option"
  lo_globalMaxPerWindow :: "int option"

text \<open>The limits the constructor computes; \<open>None\<close> is \<open>NaN\<close>, of a variable that is not a number.\<close>

record computed_limits =
  cl_windowMs :: "int option"
  cl_maxPerWindow :: "int option"
  cl_globalMaxPerWindow :: "int option"

definition option_or_variable :: "(string \<Rightarrow> string option) \<Rightarrow> int option \<Rightarrow> string \<Rightarrow> string \<Rightarrow> int option" where
  "option_or_variable variable opt name fallback =
     (case opt of Some n \<Rightarrow> Some n | None \<Rightarrow> parse_int (case variable name of Some t \<Rightarrow> t | None \<Rightarrow> fallback))"

definition compute_limits :: "(string \<Rightarrow> string option) \<Rightarrow> limit_options option \<Rightarrow> computed_limits" where
  "compute_limits variable rlConfig =
     \<lparr>cl_windowMs = option_or_variable variable (Option.bind rlConfig lo_windowMs) ''LIOP_RATE_LIMIT_WINDOW_MS'' ''60000'',
      cl_maxPerWindow = option_or_variable variable (Option.bind rlConfig lo_maxPerWindow) ''LIOP_RATE_LIMIT_MAX'' ''15'',
      cl_globalMaxPerWindow =
        option_or_variable variable (Option.bind rlConfig lo_globalMaxPerWindow) ''LIOP_RATE_LIMIT_GLOBAL_MAX'' ''40''\<rparr>"

text \<open>A comparison with \<open>NaN\<close> is false.\<close>

definition inside :: "int option \<Rightarrow> time_ms \<Rightarrow> time_ms \<Rightarrow> bool" where
  "inside width now t = (case width of Some w \<Rightarrow> now - t < w | None \<Rightarrow> False)"

definition reached :: "int option \<Rightarrow> time_ms list \<Rightarrow> bool" where
  "reached bound active = (case bound of Some m \<Rightarrow> int (length active) \<ge> m | None \<Rightarrow> False)"

text \<open>The admission test of \<open>callTool\<close> for all limits the constructor can compute: whether the call is refused.\<close>

definition admit_computed :: "computed_limits \<Rightarrow> call_windows \<Rightarrow> string \<Rightarrow> time_ms \<Rightarrow> bool \<times> call_windows" where
  "admit_computed cl st name now =
     (let allActive = filter (inside (cl_windowMs cl) now) (globalCallWindow st) in
      if reached (cl_globalMaxPerWindow cl) allActive then (True, st\<lparr>globalCallWindow := allActive\<rparr>)
      else
        (let st = st\<lparr>globalCallWindow := allActive @ [now]\<rparr>;
             active = filter (inside (cl_windowMs cl) now) (case map_of (toolCallWindows st) name of None \<Rightarrow> [] | Some w \<Rightarrow> w) in
         if reached (cl_maxPerWindow cl) active then (True, st)
         else (False, st\<lparr>toolCallWindows := AList.update name (active @ [now]) (toolCallWindows st)\<rparr>)))"

subsection \<open>Authentication\<close>

record auth_options =
  ao_role :: string
  ao_issuer :: "string option"
  ao_audience :: "string option"
  ao_nexusUrl :: "string option"

definition DEFAULT_AUDIENCE :: string where "DEFAULT_AUDIENCE = ''urn:liop:mesh:api''"
definition DEFAULT_NEXUS_URL :: string where "DEFAULT_NEXUS_URL = ''http://localhost:3000''"

datatype key_source = Local_Keys | Remote_Keys string

text \<open>\<open>||\<close> over optional strings.\<close>

definition first_given :: "string option list \<Rightarrow> string \<Rightarrow> string" where
  "first_given os fallback = (case filter (\<lambda>v. v \<noteq> None \<and> v \<noteq> Some []) os of Some t # _ \<Rightarrow> t | _ \<Rightarrow> fallback)"

text \<open>The validator of a node and where its keys come from; an \<open>Inl\<close> is the \<open>TypeError\<close> of \<open>new URL\<close>.\<close>

definition auth_setup ::
    "(string \<Rightarrow> string option) \<Rightarrow> (string \<Rightarrow> bool) \<Rightarrow> auth_options option \<Rightarrow> string + (jwt_validator \<times> key_source) option" where
  "auth_setup variable valid_url auth =
     (case auth of
        None \<Rightarrow> Inr None
      | Some a \<Rightarrow>
          if ao_role a = ''nexus'' then
            Inr (Some (\<lparr>jv_issuer = first_given [ao_issuer a] DEFAULT_NEXUS_URL,
                        jv_audience = first_given [ao_audience a] DEFAULT_AUDIENCE\<rparr>, Local_Keys))
          else if ao_role a = ''node'' then
            (let nexusUrl = first_given [ao_nexusUrl a, variable ''LIOP_NEXUS_URL''] DEFAULT_NEXUS_URL;
                 baseUrl = (if ends_with nexusUrl ''/oidc'' then nexusUrl else nexusUrl @ ''/oidc'') in
             if \<not> valid_url (baseUrl @ ''/jwks'') then Inl (baseUrl @ ''/jwks'')
             else Inr (Some (\<lparr>jv_issuer = nexusUrl, jv_audience = first_given [ao_audience a] DEFAULT_AUDIENCE\<rparr>,
                             Remote_Keys (baseUrl @ ''/jwks''))))
          else Inr None)"

end
