(* ===== verification/Registry_Properties.thy ===== *)
theory Registry_Properties
  imports Server_Registry Server_Properties
begin

text \<open>
  What holds of a node's registry: nothing registered is replaced or removed, what is listed can be called
  and read, how far a failed \<open>dataDictionary\<close> gets, what the hints and texts for the model promise and the
  code does not keep, and what the constructor makes of its settings.
\<close>

declare map_of_eq_Some_iff [simp del]

section \<open>Permanence\<close>

lemma map_of_mapped: "map_of (map (\<lambda>(n, t). (n, f t)) m) k = map_option f (map_of m k)"
  by (induction m) auto

lemma register_tool_result:
  assumes "register_tool env n d sh h p s = (s', e)"
  shows "(e \<noteq> None \<and> s' = s) \<or>
     (e = None \<and> map_of (ms_tools s) n = None \<and>
      (\<exists>t. ti_name (rt_tool t) = n \<and> rt_entry t = \<lparr>te_logicTool = sh_payloadString sh, te_schema = sh_parse sh, te_handler = h, te_policy = p\<rparr> \<and>
         s' = s\<lparr>ms_tools := AList.update n t (ms_tools s),
                ms_announced := (if ms_meshed s then ms_announced s @ [n] else ms_announced s)\<rparr>))"
proof (cases "map_of (ms_tools s) n = None \<and> (\<exists>g dd. sh_jsonSchema sh = Inr g \<and>
    (if sh_payloadString sh then logic_description env s d else Some d) = Some dd)")
  case True
  then obtain g dd where g: "map_of (ms_tools s) n = None" "sh_jsonSchema sh = Inr g"
      "(if sh_payloadString sh then logic_description env s d else Some d) = Some dd" by blast
  let ?t = "\<lparr>rt_tool = \<lparr>ti_name = n, ti_description = dd, ti_inputSchema = input_schema g\<rparr>,
      rt_entry = \<lparr>te_logicTool = sh_payloadString sh, te_schema = sh_parse sh, te_handler = h, te_policy = p\<rparr>\<rparr>"
  have "e = None \<and> s' = s\<lparr>ms_tools := AList.update n ?t (ms_tools s),
      ms_announced := (if ms_meshed s then ms_announced s @ [n] else ms_announced s)\<rparr>"
    using assms unfolding register_tool_def by (simp add: g)
  then show ?thesis using g(1) by (intro disjI2 conjI exI [of _ ?t]) simp_all
next
  case False
  then show ?thesis using assms by (auto simp: register_tool_def split: if_splits sum.splits option.splits)
qed

lemma register_resource_result:
  "register_resource n u d m c s = (s', e) \<Longrightarrow>
     (e \<noteq> None \<and> s' = s) \<or> (e = None \<and> map_of (ms_resources s) u = None \<and>
      s' = s\<lparr>ms_resources := AList.update u \<lparr>ro_name = n, ro_uri = u, ro_description = d, ro_mimeType = m, ro_content = c\<rparr> (ms_resources s)\<rparr>)"
  by (auto simp: register_resource_def split: if_splits)

lemma register_prompt_result:
  "register_prompt n d a h s = (s', e) \<Longrightarrow>
     (e \<noteq> None \<and> s' = s) \<or> (e = None \<and> map_of (ms_prompts s) n = None \<and>
      s' = s\<lparr>ms_prompts := AList.update n \<lparr>pe_name = n, pe_description = d, pe_arguments = a, pe_handler = h\<rparr> (ms_prompts s)\<rparr>)"
  by (auto simp: register_prompt_def split: if_splits)

text \<open>A tool with, at most, a longer description.\<close>

definition extended_by :: "registered_tool \<Rightarrow> registered_tool \<Rightarrow> bool" where
  "extended_by t t' \<longleftrightarrow>
     rt_entry t' = rt_entry t \<and> ti_name (rt_tool t') = ti_name (rt_tool t) \<and>
     ti_inputSchema (rt_tool t') = ti_inputSchema (rt_tool t) \<and> starts_with (ti_description (rt_tool t')) (ti_description (rt_tool t))"

lemma starts_with_trans: "starts_with a b \<Longrightarrow> starts_with b c \<Longrightarrow> starts_with a c"
  by (auto simp: starts_with_def take_append) (metis append_take_drop_id append.assoc append_eq_conv_conj)

lemma extended_by_refl [simp]: "extended_by t t"
  by (simp add: extended_by_def)

lemma extended_by_trans: "extended_by a b \<Longrightarrow> extended_by b c \<Longrightarrow> extended_by a c"
  by (auto simp: extended_by_def intro: starts_with_trans)

lemma with_structure_extends [simp]: "extended_by t (with_structure digest uri t)"
  by (simp add: extended_by_def with_structure_def Let_def)

text \<open>What the registry keeps of \<open>s\<close>.\<close>

definition kept :: "mcp_server \<Rightarrow> mcp_server \<Rightarrow> bool" where
  "kept s s' \<longleftrightarrow>
     (\<forall>n t. map_of (ms_tools s) n = Some t \<longrightarrow> (\<exists>t'. map_of (ms_tools s') n = Some t' \<and> extended_by t t')) \<and>
     (\<forall>u r. map_of (ms_resources s) u = Some r \<longrightarrow> map_of (ms_resources s') u = Some r) \<and>
     (\<forall>n p. map_of (ms_prompts s) n = Some p \<longrightarrow> map_of (ms_prompts s') n = Some p) \<and>
     ms_forbiddenKeys s' = ms_forbiddenKeys s"

lemma kept_refl [simp]: "kept s s"
  by (auto simp: kept_def)

lemma kept_trans:
  assumes "kept a b" "kept b c"
  shows "kept a c"
proof -
  have "\<exists>t'. map_of (ms_tools c) n = Some t' \<and> extended_by t t'" if t: "map_of (ms_tools a) n = Some t" for n t
  proof -
    obtain t1 where 1: "map_of (ms_tools b) n = Some t1" "extended_by t t1" using assms(1) t unfolding kept_def by blast
    obtain t2 where 2: "map_of (ms_tools c) n = Some t2" "extended_by t1 t2" using assms(2) 1(1) unfolding kept_def by blast
    show ?thesis using 2(1) extended_by_trans [OF 1(2) 2(2)] by blast
  qed
  then show ?thesis using assms by (simp add: kept_def)
qed

lemma kept_register:
  "kept s (fst (register_tool env n d sh h p s))" "kept s (fst (register_resource n u rd m c s))" "kept s (fst (register_prompt n pd a ph s))"
proof -
  obtain s1 e1 where 1: "register_tool env n d sh h p s = (s1, e1)" by force
  obtain s2 e2 where 2: "register_resource n u rd m c s = (s2, e2)" by force
  obtain s3 e3 where 3: "register_prompt n pd a ph s = (s3, e3)" by force
  from register_tool_result [OF 1] show "kept s (fst (register_tool env n d sh h p s))"
    unfolding 1 fst_conv by (rule disjE) (simp, elim conjE exE, simp add: kept_def liop_simps)
  from register_resource_result [OF 2] show "kept s (fst (register_resource n u rd m c s))"
    unfolding 2 fst_conv by (rule disjE) (simp, elim conjE exE, simp add: kept_def liop_simps)
  from register_prompt_result [OF 3] show "kept s (fst (register_prompt n pd a ph s))"
    unfolding 3 fst_conv by (rule disjE) (simp, elim conjE exE, simp add: kept_def liop_simps)
qed

lemma kept_structure: "kept s (s\<lparr>ms_activeSchema := a, ms_tools := map (\<lambda>(n, t). (n, with_structure digest uri t)) (ms_tools s)\<rparr>)"
  by (auto simp: kept_def map_of_mapped)

lemma kept_guidelines: "kept s (with_guidelines s)"
  using kept_register(2) by (simp add: with_guidelines_def)

lemma kept_dictionary: "kept s (fst (data_dictionary env fs n u d s))"
proof (cases "schema_digest env (commented fs)")
  case None
  then show ?thesis by (simp add: data_dictionary_def Let_def kept_def)
next
  case (Some digest)
  let ?s = "s\<lparr>ms_activeSchema := Some (commented fs), ms_tools := map (\<lambda>(n, t). (n, with_structure digest u t)) (ms_tools s)\<rparr>"
  have "data_dictionary env fs n u d s =
      register_resource n u (Some d) (Some ''application/json'') (Text_Content (re_pretty env (commented fs))) (with_guidelines ?s)"
    by (simp add: data_dictionary_def Let_def Some)
  then show ?thesis using kept_trans [OF kept_trans [OF kept_structure kept_guidelines] kept_register(2)] by simp
qed

lemma kept_step: "kept s (registry_step env s e)"
  by (cases e) (simp_all add: kept_register kept_dictionary enable_zero_shot_autonomy_def, simp add: kept_def set_sandbox_data_def)

interpretation registry_kept: preserved "registry_step env" "kept s" for env s
  by unfold_locales (meson kept_step kept_trans)

text \<open>The keys of the maps are distinct, and an entry carries its own key.\<close>

definition registry_ok :: "mcp_server \<Rightarrow> bool" where
  "registry_ok s \<longleftrightarrow>
     distinct (map fst (ms_tools s)) \<and> distinct (map fst (ms_resources s)) \<and> distinct (map fst (ms_prompts s)) \<and>
     (\<forall>n t. map_of (ms_tools s) n = Some t \<longrightarrow> ti_name (rt_tool t) = n) \<and>
     (\<forall>u r. map_of (ms_resources s) u = Some r \<longrightarrow> ro_uri r = u) \<and>
     (\<forall>n p. map_of (ms_prompts s) n = Some p \<longrightarrow> pe_name p = n)"

lemma ok_register_resource: "registry_ok s \<Longrightarrow> registry_ok (fst (register_resource n u d m c s))"
  by (simp add: registry_ok_def register_resource_def liop_simps distinct_update)

lemma ok_register_prompt: "registry_ok s \<Longrightarrow> registry_ok (fst (register_prompt n d a h s))"
  by (simp add: registry_ok_def register_prompt_def liop_simps distinct_update)

lemma ok_register_tool:
  assumes "registry_ok s"
  shows "registry_ok (fst (register_tool env n d sh h p s))"
proof -
  obtain s' e where r: "register_tool env n d sh h p s = (s', e)" by force
  from register_tool_result [OF r] show ?thesis
  proof
    assume "e \<noteq> None \<and> s' = s" then show ?thesis by (simp add: r assms)
  next
    assume "e = None \<and> map_of (ms_tools s) n = None \<and> (\<exists>t. ti_name (rt_tool t) = n \<and>
       rt_entry t = \<lparr>te_logicTool = sh_payloadString sh, te_schema = sh_parse sh, te_handler = h, te_policy = p\<rparr> \<and>
       s' = s\<lparr>ms_tools := AList.update n t (ms_tools s),
              ms_announced := (if ms_meshed s then ms_announced s @ [n] else ms_announced s)\<rparr>)"
    then obtain t where t: "ti_name (rt_tool t) = n" "ms_tools s' = AList.update n t (ms_tools s)"
        "ms_resources s' = ms_resources s" "ms_prompts s' = ms_prompts s" by auto
    show ?thesis using assms by (simp add: r registry_ok_def t(2-4) liop_simps distinct_update t(1))
  qed
qed

lemma with_structure_name [simp]: "ti_name (rt_tool (with_structure digest uri t)) = ti_name (rt_tool t)"
  "rt_entry (with_structure digest uri t) = rt_entry t"
  by (simp_all add: with_structure_def Let_def)

lemma mapped_keys [simp]: "map fst (map (\<lambda>(n, t). (n, f t)) m) = map fst m"
  by (induction m) auto

lemma ok_structure:
  "registry_ok s \<Longrightarrow> registry_ok (s\<lparr>ms_activeSchema := a, ms_tools := map (\<lambda>(n, t). (n, with_structure digest uri t)) (ms_tools s)\<rparr>)"
  by (auto simp: registry_ok_def map_of_mapped simp del: map_map)

lemma ok_dictionary: "registry_ok s \<Longrightarrow> registry_ok (fst (data_dictionary env fs n u d s))"
proof (cases "schema_digest env (commented fs)")
  case None
  then show "registry_ok s \<Longrightarrow> ?thesis" by (simp add: data_dictionary_def Let_def registry_ok_def)
next
  case (Some digest)
  assume "registry_ok s"
  from ok_structure [OF this, where a = "Some (commented fs)" and digest = digest and uri = u] Some show ?thesis
    by (simp add: data_dictionary_def Let_def ok_register_resource with_guidelines_def)
qed

lemma ok_step: "registry_ok s \<Longrightarrow> registry_ok (registry_step env s e)"
  by (cases e) (simp_all add: ok_register_tool ok_register_prompt ok_register_resource ok_dictionary enable_zero_shot_autonomy_def,
      simp add: registry_ok_def set_sandbox_data_def)

interpretation registry_sound: preserved "registry_step env" registry_ok for env
  by unfold_locales (rule ok_step)

lemma ok_new: "registry_ok (new_server node keys caps info)"
  unfolding new_server_def by (rule ok_register_resource) (simp add: registry_ok_def)

lemmas built_ok = registry_sound.run_inv [OF ok_new]


text \<open>
  Nothing an application registers is replaced or removed by any later registration, prompt, dictionary
  or failed attempt: a tool keeps its handler, schema and policy and its description only grows, resources
  and prompts stay as they are; and in a server built by its constructor every map has one entry per name.
\<close>
theorem registration_permanent:
  "kept s (run (registry_step env) s es) \<and> registry_ok (run (registry_step env) (new_server node keys caps info) es)"
  using registry_kept.run_inv [OF kept_refl] built_ok by blast

section \<open>Discovery and calls\<close>

lemma insert_by_map: "insert_by le (f x) (map f xs) = map f (insert_by (\<lambda>a b. le (f a) (f b)) x xs)"
  by (induction xs) auto

lemma sort_by_map: "sort_by le (map f xs) = map f (sort_by (\<lambda>a b. le (f a) (f b)) xs)"
  by (induction xs) (auto simp: insert_by_map)

lemma map_of_node: "map_of (ln_tools (node_of s)) n = map_option rt_entry (map_of (ms_tools s) n)"
  by (simp add: node_of_def map_of_mapped)

lemma with_node_of [simp]: "with_node s (node_of s) = s"
  by (simp add: with_node_def node_of_def)

lemma call_handler_found: "call_handler env now n entry v s \<noteq> Some (s', Tool_Not_Found m)"
  by (auto simp: call_handler_def logic_middleware_def middleware_run_def checked_run_def Let_def
      split: if_splits option.splits list.splits prod.splits sum.splits call_outcome.splits pool_result.splits)

lemma checked_run_found: "checked_run env n l p c s \<noteq> Some (s', Tool_Not_Found m)"
  by (auto simp: checked_run_def split: prod.splits option.splits)

lemma call_tool_found:
  "call_tool env now n args c s = Some (s', Tool_Not_Found m) \<longleftrightarrow> map_of (ln_tools s) n = None \<and> s' = s \<and> m = n"
proof (cases "map_of (ln_tools s) n")
  case (Some entry)
  show ?thesis
    by (auto simp: call_tool_def Some Let_def call_handler_found checked_run_found
        split: prod.splits option.splits jval.splits list.splits)
qed (auto simp: call_tool_def)

lemma registered:
  assumes "registry_ok s"
  shows "(k, t) \<in> set (ms_tools s) \<longleftrightarrow> map_of (ms_tools s) k = Some t" "(k, t) \<in> set (ms_tools s) \<Longrightarrow> ti_name (rt_tool t) = k"
proof -
  have "distinct (map fst (ms_tools s))" using assms by (simp add: registry_ok_def)
  from map_of_eq_Some_iff [OF this] show 1: "(k, t) \<in> set (ms_tools s) \<longleftrightarrow> map_of (ms_tools s) k = Some t" for k t by blast
  have "\<forall>n t. map_of (ms_tools s) n = Some t \<longrightarrow> ti_name (rt_tool t) = n" using assms by (simp add: registry_ok_def)
  with 1 show "(k, t) \<in> set (ms_tools s) \<Longrightarrow> ti_name (rt_tool t) = k" by blast
qed

lemma listed_iff:
  assumes "registry_ok s"
  shows "n \<in> ti_name ` set (list_tools s) \<longleftrightarrow> map_of (ms_tools s) n \<noteq> None"
proof
  assume "n \<in> ti_name ` set (list_tools s)"
  then obtain k t where kt: "(k, t) \<in> set (ms_tools s)" and n: "n = ti_name (rt_tool t)" by (auto simp: list_tools_def)
  from kt registered(1) [OF assms] have "map_of (ms_tools s) k = Some t" by blast
  with registered(2) [OF assms kt] n show "map_of (ms_tools s) n \<noteq> None" by simp
next
  assume "map_of (ms_tools s) n \<noteq> None"
  then obtain t where "(n, t) \<in> set (ms_tools s)" using registered(1) [OF assms] by blast
  then show "n \<in> ti_name ` set (list_tools s)" using registered(2) [OF assms] by (force simp: list_tools_def)
qed

text \<open>
  C18. Discovery is exact. On a node built by its constructor and any registrations, a \<open>tools/list\<close> over the
  bridge answers with the registered tools, each once, sorted by name; a name that is not in that list is
  answered \<open>Tool not found\<close> without any change of state, and a name in the list never is.
\<close>
theorem discovery_exact:
  assumes s: "s = run (registry_step env) (new_server node keys caps info) es"
    and "opt_prop payload ''jsonrpc'' = JStr ''2.0''" "opt_prop payload ''method'' = JStr ''tools/list''"
  shows "(\<exists>legacy. serve_json_rpc env nenv benv le now payload s = Some (s, Inr (Some (success_response (opt_prop payload ''id'')
            (list_result legacy ''tools'' (JArr None (map tool_object (sort_by (\<lambda>a b. le (ti_name a) (ti_name b)) (list_tools s))))))))) \<and>
     distinct (map ti_name (list_tools s)) \<and>
     (n \<notin> ti_name ` set (list_tools s) \<longleftrightarrow> call_named env nenv now (JStr n) args s = Some (s, Inl (''Tool not found: '' @ n))) \<and>
     (n \<in> ti_name ` set (list_tools s) \<longleftrightarrow> \<not> (\<exists>s' m. call_named env nenv now (JStr n) args s = Some (s', Inl m)))"
proof -
  have ok: "registry_ok s" unfolding s by (rule built_ok)
  have nn: "payload \<noteq> JUndef" "payload \<noteq> JNull" using assms(2) by (auto simp: opt_prop_def)
  have "requested_call payload = None" using assms(3) by (simp add: requested_call_def Let_def)
  then have 1: "\<exists>legacy. serve_json_rpc env nenv benv le now payload s = Some (s, Inr (Some (success_response (opt_prop payload ''id'')
      (list_result legacy ''tools'' (JArr None (map tool_object (sort_by (\<lambda>a b. le (ti_name a) (ti_name b)) (list_tools s))))))))"
    by (intro exI [of _ "MCP_LEGACY_SUPPORT_ENABLED \<and> is_legacy_request \<lparr>rq_method = ''tools/list'', rq_params = opt_prop payload ''params''\<rparr>"])
      (simp add: serve_json_rpc_def handle_json_rpc_request_def handle_liop_to_mcp_def method_of_def Let_def nn assms(2,3)
        server_ops_of_def sorted_objects_def sort_by_map comp_def)
  have "map ti_name (list_tools s) = map fst (ms_tools s)"
    unfolding list_tools_def map_map by (rule map_cong) (use registered(2) [OF ok] in force)+
  then have 2: "distinct (map ti_name (list_tools s))" using ok by (simp add: registry_ok_def)
  have found: "map_of (ln_tools (node_of s)) n = None \<longleftrightarrow> n \<notin> ti_name ` set (list_tools s)"
    using listed_iff [OF ok] by (simp add: map_of_node)
  have 3: "call_named env nenv now (JStr n) args s = Some (s, Inl (''Tool not found: '' @ n))" if "n \<notin> ti_name ` set (list_tools s)"
    using that found by (simp add: call_named_def call_tool_def)
  have 4: "call_named env nenv now (JStr n) args s \<noteq> Some (s', Inl m)" if "n \<in> ti_name ` set (list_tools s)" for s' m
    using that found call_tool_found [of nenv now n args "''local-client''" "node_of s"]
    by (auto simp: call_named_def split: option.splits prod.splits call_outcome.splits)
  show ?thesis using 1 2 3 4 by blast
qed


section \<open>The data dictionary\<close>

fun null_free :: "jval \<Rightarrow> bool" where
  "null_free JUndef = False"
| "null_free JNull = False"
| "null_free (JArr i xs) = list_all null_free xs"
| "null_free (JObj i fs) = list_all (\<lambda>p. null_free (snd p)) fs"
| "null_free v = True"

lemma null_free_read: "null_free v \<Longrightarrow> js_prop v k \<noteq> None" "null_free v \<Longrightarrow> truthy (opt_prop v k) \<Longrightarrow> null_free (opt_prop v k)"
proof -
  show "null_free v \<Longrightarrow> js_prop v k \<noteq> None" by (cases v) auto
  show "null_free v \<Longrightarrow> truthy (opt_prop v k) \<Longrightarrow> null_free (opt_prop v k)"
    by (cases v) (auto simp: opt_prop_def list_all_iff dest!: map_of_SomeD split: option.splits)
qed

lemma null_free_entries: "null_free v \<Longrightarrow> (k, x) \<in> set (object_entries v) \<Longrightarrow> null_free x"
  by (cases v rule: object_entries.cases) (auto simp: list_all_iff in_set_enumerate_eq)

lemma those_total: "(\<And>x. x \<in> set xs \<Longrightarrow> f x \<noteq> None) \<Longrightarrow> those (map f xs) \<noteq> None"
  by (induction xs) (auto split: option.splits)

lemma summary_total: "null_free schema \<Longrightarrow> extract_schema_field_summary str d schema \<noteq> None"
proof (induction d arbitrary: schema)
  case (Suc d)
  have field: "field_summary str (extract_schema_field_summary str d) k x \<noteq> None" if "null_free x" for k x
    using null_free_read [OF that] Suc.IH that by (auto simp: field_summary_def split: option.splits)
  show ?case
  proof (cases "truthy (opt_prop schema ''properties'')")
    case True
    have "those (map (\<lambda>(key, prop). field_summary str (extract_schema_field_summary str d) key prop)
        (object_entries (opt_prop schema ''properties''))) \<noteq> None"
      by (rule those_total) (use field null_free_entries null_free_read(2) [OF Suc.prems True] in \<open>auto split: prod.splits\<close>)
    with True show ?thesis by (simp add: Let_def)
  next
    case False
    then show ?thesis using Suc.IH null_free_read(2) [OF Suc.prems, of "''items''"] by (auto simp: Let_def)
  qed
qed simp

lemma set_update_sub: "set (AList.update k v m) \<subseteq> insert (k, v) (set m)"
  by (induction m) auto

lemma commented_null_free: "null_free (JObj i fs) \<Longrightarrow> null_free (commented fs)"
  using set_update_sub [of "''$comment''" "JStr SCHEMA_COMMENT" fs] by (auto simp: commented_def list_all_iff)

lemma dictionary_run:
  assumes "schema_digest env (commented fs) = Some digest"
  shows "data_dictionary env fs name uri d s =
     register_resource name uri (Some d) (Some ''application/json'') (Text_Content (re_pretty env (commented fs)))
       (with_guidelines (s\<lparr>ms_activeSchema := Some (commented fs), ms_tools := map (\<lambda>(n, t). (n, with_structure digest uri t)) (ms_tools s)\<rparr>))"
  by (simp add: data_dictionary_def Let_def assms)

lemma guidelines_fields [simp]:
  "ms_tools (with_guidelines s) = ms_tools s" "ms_activeSchema (with_guidelines s) = ms_activeSchema s"
  "ms_forbiddenKeys (with_guidelines s) = ms_forbiddenKeys s" "ms_node (with_guidelines s) = ms_node s"
  "u \<noteq> GUIDELINES_URI \<Longrightarrow> map_of (ms_resources (with_guidelines s)) u = map_of (ms_resources s) u"
  by (auto simp: with_guidelines_def register_resource_def liop_simps)

definition published :: "string \<Rightarrow> string \<Rightarrow> string \<Rightarrow> jval" where
  "published uri mime t =
     JObj None [(''contents'', JArr None [JObj None [(''uri'', JStr uri), (''mimeType'', JStr mime), (''text'', JStr t)]])]"

lemma read_text:
  "map_of (ms_resources s) u = Some r \<Longrightarrow> ro_content r = Text_Content t \<Longrightarrow> ro_mimeType r = Some (c # cs) \<Longrightarrow>
     read_resource env s (JStr u) = Inr (published (ro_uri r) (c # cs) t)"
  by (simp add: read_resource_def resource_text_def published_def)

text \<open>
  A data dictionary without null values whose URI is free is always accepted, however deep it is; the
  prompt of the blind analyst shows it at once, every Logic-on-Origin tool without a structure names its
  fields and its URI, and a read of the URI returns its text after any later registrations.
\<close>
theorem dictionary_published:
  assumes "null_free (JObj None fs)" "map_of (ms_resources s) uri = None" "uri \<noteq> GUIDELINES_URI"
  shows "\<exists>s' digest. data_dictionary env fs name uri d s = (s', None) \<and>
     blind_analyst_result env s' = blind_analyst_result env (s\<lparr>ms_activeSchema := Some (commented fs)\<rparr>) \<and>
     (\<forall>n. map_of (ms_tools s') n = map_option (with_structure digest uri) (map_of (ms_tools s) n)) \<and>
     (\<forall>es. read_resource env (run (registry_step env) s' es) (JStr uri) =
        Inr (published uri ''application/json'' (re_pretty env (commented fs))))"
proof -
  obtain digest where dg: "schema_digest env (commented fs) = Some digest"
    using summary_total [OF commented_null_free [OF assms(1)]] by (auto simp: schema_digest_def)
  let ?r = "\<lparr>ro_name = name, ro_uri = uri, ro_description = Some d, ro_mimeType = Some ''application/json'',
      ro_content = Text_Content (re_pretty env (commented fs))\<rparr>"
  let ?g = "with_guidelines (s\<lparr>ms_activeSchema := Some (commented fs), ms_tools := map (\<lambda>(n, t). (n, with_structure digest uri t)) (ms_tools s)\<rparr>)"
  let ?s = "?g\<lparr>ms_resources := AList.update uri ?r (ms_resources ?g)\<rparr>"
  have run: "data_dictionary env fs name uri d s = (?s, None)"
    by (simp add: dictionary_run [OF dg] register_resource_def assms)
  have "map_of (ms_resources (run (registry_step env) ?s es)) uri = Some ?r" for es
    using registry_kept.run_inv [OF kept_refl [of ?s], of env es] by (simp add: kept_def liop_simps)
  from read_text [OF this] have read: "read_resource env (run (registry_step env) ?s es) (JStr uri) =
      Inr (published uri ''application/json'' (re_pretty env (commented fs)))" for es by simp
  show ?thesis
    by (intro exI [of _ ?s] exI [of _ digest] conjI allI)
      (simp_all add: run read map_of_mapped blind_analyst_result_def)
qed

text \<open>
  A dictionary whose URI is taken raises and takes effect all the same: the resource keeps the old text,
  while the prompt shows the new schema and the tools name its fields.
\<close>
theorem failed_dictionary_takes_effect:
  assumes "map_of (ms_resources s) uri = Some r" "schema_digest env (commented fs) = Some digest"
  shows "\<exists>s'. data_dictionary env fs name uri d s = (s', Some (Resource_Registered uri)) \<and>
     read_resource env s' (JStr uri) = read_resource env s (JStr uri) \<and>
     ms_activeSchema s' = Some (commented fs) \<and>
     (\<forall>n. map_of (ms_tools s') n = map_option (with_structure digest uri) (map_of (ms_tools s) n))"
proof -
  let ?g = "with_guidelines (s\<lparr>ms_activeSchema := Some (commented fs), ms_tools := map (\<lambda>(n, t). (n, with_structure digest uri t)) (ms_tools s)\<rparr>)"
  have r: "map_of (ms_resources ?g) uri = Some r"
    using assms(1) by (auto simp: with_guidelines_def register_resource_def liop_simps)
  then have "data_dictionary env fs name uri d s = (?g, Some (Resource_Registered uri))"
    by (simp add: dictionary_run [OF assms(2)] register_resource_def)
  moreover have "resource_text ?g r = resource_text s r" by (simp add: resource_text_def split: resource_content.splits)
  ultimately show ?thesis using assms(1) r by (simp add: read_resource_def map_of_mapped)
qed

text \<open>
  After a dictionary with a URI of its own, the tools registered later point the model to
  \<open>liop://schema/global\<close> all the same, which no one serves: reading it fails, reading the dictionary works.
\<close>
theorem later_tool_names_missing_schema:
  assumes "data_dictionary env fs name uri d s = (s1, None)" "uri \<noteq> GLOBAL_SCHEMA_URI" "uri \<noteq> GUIDELINES_URI"
    and "map_of (ms_resources s) GLOBAL_SCHEMA_URI = None" "map_of (ms_tools s) n = None"
    and "sh_payloadString sh" "sh_jsonSchema sh = Inr generated"
  shows "\<exists>s2 t pre. register_tool env n desc sh h p s1 = (s2, None) \<and> map_of (ms_tools s2) n = Some t \<and>
     ti_description (rt_tool t) = pre @ ''. Full schema: resource '' @ GLOBAL_SCHEMA_URI \<and>
     read_resource env s2 (JStr GLOBAL_SCHEMA_URI) = Inl (''Resource not found: '' @ GLOBAL_SCHEMA_URI) \<and>
     read_resource env s2 (JStr uri) = Inr (published uri ''application/json'' (re_pretty env (commented fs)))"
proof -
  obtain digest where dg: "schema_digest env (commented fs) = Some digest"
    using assms(1) by (auto simp: data_dictionary_def Let_def split: option.splits)
  let ?r = "\<lparr>ro_name = name, ro_uri = uri, ro_description = Some d, ro_mimeType = Some ''application/json'',
      ro_content = Text_Content (re_pretty env (commented fs))\<rparr>"
  let ?g = "with_guidelines (s\<lparr>ms_activeSchema := Some (commented fs), ms_tools := map (\<lambda>(n, t). (n, with_structure digest uri t)) (ms_tools s)\<rparr>)"
  have s1: "s1 = ?g\<lparr>ms_resources := AList.update uri ?r (ms_resources ?g)\<rparr>"
    using assms(1) by (auto simp: dictionary_run [OF dg] register_resource_def split: if_splits)
  have apart: "GLOBAL_SCHEMA_URI \<noteq> GUIDELINES_URI" by (simp add: GLOBAL_SCHEMA_URI_def GUIDELINES_URI_def)
  have none: "map_of (ms_resources s1) GLOBAL_SCHEMA_URI = None" "map_of (ms_tools s1) n = None"
    "map_of (ms_resources s1) uri = Some ?r" "ms_activeSchema s1 = Some (commented fs)"
    using assms(2,4,5) apart by (simp_all add: s1 liop_simps map_of_mapped)
  obtain pre where pre: "logic_description env s1 desc = Some (pre @ ''. Full schema: resource '' @ GLOBAL_SCHEMA_URI)"
    by (auto simp: logic_description_def Let_def none dg GLOBAL_SCHEMA_URI_def)
  obtain s2 where s2: "register_tool env n desc sh h p s1 = (s2, None)" "ms_resources s2 = ms_resources s1"
      "\<exists>t. map_of (ms_tools s2) n = Some t \<and> ti_description (rt_tool t) = pre @ ''. Full schema: resource '' @ GLOBAL_SCHEMA_URI"
    by (simp add: register_tool_def none pre assms(6,7) liop_simps)
  have "read_resource env s2 (JStr GLOBAL_SCHEMA_URI) = Inl (''Resource not found: '' @ GLOBAL_SCHEMA_URI)"
    by (simp add: read_resource_def s2 none templated_def)
  moreover have "read_resource env s2 (JStr uri) = Inr (published uri ''application/json'' (re_pretty env (commented fs)))"
    by (rule read_text [of s2 uri ?r, simplified]) (simp_all add: s2 none)
  ultimately show ?thesis using s2(1,3) by blast
qed


section \<open>What a listing publishes\<close>

text \<open>
  \<open>resources/list\<close> carries the whole text of every resource with a text content, such as a data
  dictionary, and offers the answer to shared caches; \<open>resources/read\<close> of the same text marks it private.
\<close>
theorem listing_publishes_content:
  assumes "map_of (ms_resources s) u = Some r" "ro_uri r = u" "u \<noteq> []" "ro_content r = Text_Content t" "ro_mimeType r = Some (c # cs)"
    and "opt_prop payload ''jsonrpc'' = JStr ''2.0''" "opt_prop payload ''method'' = JStr ''resources/list''"
    and "\<not> is_legacy_request \<lparr>rq_method = ''resources/list'', rq_params = opt_prop payload ''params''\<rparr>"
    and "opt_prop ask ''jsonrpc'' = JStr ''2.0''" "opt_prop ask ''method'' = JStr ''resources/read''" "opt_prop (opt_prop ask ''params'') ''uri'' = JStr u"
    and "\<not> is_legacy_request \<lparr>rq_method = ''resources/read'', rq_params = opt_prop ask ''params''\<rparr>"
  shows "(\<exists>rs. serve_json_rpc env nenv benv le now payload s = Some (s, Inr (Some (success_response (opt_prop payload ''id'')
            (JObj None (cacheable 300000 ''public'' @ [(''resources'', JArr None rs)]))))) \<and>
          (\<exists>v \<in> set rs. opt_prop v ''uri'' = JStr u \<and> opt_prop v ''content'' = JStr t)) \<and>
     serve_json_rpc env nenv benv le now ask s = Some (s, Inr (Some (success_response (opt_prop ask ''id'')
       (spread_over (cacheable 60000 ''private'') (published u (c # cs) t)))))"
proof -
  let ?rs = "map resource_object (sort_by (\<lambda>a b. le (ro_uri a) (ro_uri b)) (list_resources s))"
  have nn: "payload \<noteq> JUndef" "payload \<noteq> JNull" "ask \<noteq> JUndef" "ask \<noteq> JNull" using assms(6,9) by (auto simp: opt_prop_def)
  have "requested_call payload = None" "requested_call ask = None" using assms(7,10) by (simp_all add: requested_call_def Let_def)
  then have answer: "serve_json_rpc env nenv benv le now payload s = Some (s, Inr (Some (success_response (opt_prop payload ''id'')
      (JObj None (cacheable 300000 ''public'' @ [(''resources'', JArr None ?rs)])))))"
    by (simp add: serve_json_rpc_def handle_json_rpc_request_def handle_liop_to_mcp_def method_of_def Let_def nn assms(6-8)
        server_ops_of_def sorted_objects_def sort_by_map comp_def list_result_def)
  have "r \<in> set (list_resources s)" using assms(1) by (force simp: list_resources_def dest: map_of_SomeD)
  then have "r \<in> set (sort_by (\<lambda>a b. le (ro_uri a) (ro_uri b)) (list_resources s))" by (metis set_mset_mset sort_by_mset)
  then have "resource_object r \<in> set ?rs" by simp
  moreover have "opt_prop (resource_object r) ''uri'' = JStr u" "opt_prop (resource_object r) ''content'' = JStr t"
    using assms(2,4) by (simp_all add: resource_object_def opt_prop_def)
  moreover have "serve_json_rpc env nenv benv le now ask s = Some (s, Inr (Some (success_response (opt_prop ask ''id'')
       (spread_over (cacheable 60000 ''private'') (published u (c # cs) t)))))"
    using \<open>requested_call ask = None\<close> read_text [OF assms(1,4,5), of env] assms(3)
    by (simp add: serve_json_rpc_def handle_json_rpc_request_def handle_liop_to_mcp_def method_of_def Let_def nn assms(2,9-12)
        server_ops_of_def published_def)
  ultimately show ?thesis using answer by blast
qed

section \<open>What the texts promise\<close>

lemma suffix_includes:
  assumes "t \<in> set (suffixes_of s)" "starts_with t p"
  shows "str_includes s p"
proof -
  obtain i where "t = drop i s" using assms(1) unfolding suffixes_of_def set_map by (elim imageE)
  then have "s = take i s @ p @ drop (length p) t"
    using assms(2) append_take_drop_id [of i s] append_take_drop_id [of "length p" t] by (simp add: starts_with_def)
  then show ?thesis unfolding str_includes_iff by blast
qed

lemma trim_infix: "\<exists>u v. s = u @ trim s @ v"
proof -
  let ?d = "dropWhile js_space s"
  have "s = takeWhile js_space s @ ?d" by simp
  moreover have "?d = rev (dropWhile js_space (rev ?d)) @ rev (takeWhile js_space (rev ?d))"
    by (metis rev_append rev_rev_ident takeWhile_dropWhile_id)
  ultimately show ?thesis unfolding trim_def by metis
qed

lemma extract_needs_envelope: "extract_logic payload = Some l \<Longrightarrow> str_includes payload ''@LIOP{''"
proof -
  assume "extract_logic payload = Some l"
  then obtain x xs where "List.map_filter compact_at (suffixes_of (trim payload)) = x # xs"
    by (auto simp: extract_logic_def split: list.splits)
  then have "x \<in> set (List.map_filter compact_at (suffixes_of (trim payload)))" by simp
  then obtain t where t: "t \<in> set (suffixes_of (trim payload))" "compact_at t \<noteq> None" by (auto simp: map_filter_def)
  then have "starts_with t ''@LIOP{''" by (auto simp: compact_at_def split: if_splits)
  with t(1) have "str_includes (trim payload) ''@LIOP{''" by (rule suffix_includes)
  then show "str_includes payload ''@LIOP{''"
    using trim_infix [of payload] by (auto simp: str_includes_iff) (metis append.assoc)
qed

lemma no_at_sign:
  "list_all (\<lambda>l. CHR ''@'' \<notin> set l) INSTRUCTIONS" "list_all (\<lambda>l. CHR ''@'' \<notin> set l) XML_FORMAT"
  "list_all (\<lambda>l. CHR ''@'' \<notin> set l) JSON_FORMAT"
  by (simp_all add: INSTRUCTIONS_def XML_FORMAT_def JSON_FORMAT_def)

lemma no_envelope_in_instructions: "\<not> str_includes (generate_system_instructions provider) ''@LIOP{''"
proof -
  have none: "list_all (\<lambda>l. CHR ''@'' \<notin> set l) ls \<Longrightarrow> CHR ''@'' \<notin> set (join [CHR 0x0A] ls)" for ls
    using set_join [of "[CHR 0x0A]" ls] by (auto simp: list_all_iff)
  have "CHR ''@'' \<notin> set (generate_system_instructions provider)"
    using no_at_sign [THEN none] by (simp add: generate_system_instructions_def Let_def)
  then show ?thesis by (auto simp: str_includes_iff)
qed

text \<open>
  The instructions of \<open>prompts/adapters.ts\<close> never name the envelope a node requires, for no provider, and
  an argument object of the form they prescribe (\<open>target\<close> and \<open>logic_blob\<close>) is refused by every
  Logic-on-Origin tool as malformed, or throttled after five such failures.
\<close>
theorem prescribed_arguments_refused:
  "\<not> str_includes (generate_system_instructions provider) ''@LIOP{'' \<and>
   logic_middleware env now name policy (JObj i [(''target'', target), (''logic_blob'', JStr program)]) s
     \<in> {Some (s, Throttled), Some (note_failure now s, Malformed_Payload)}"
proof -
  have "payload_value (JObj i [(''target'', target), (''logic_blob'', JStr program)]) = []"
    by (simp add: payload_value_def opt_prop_def nullish_def)
  moreover have "extract_logic [] = None" by code_simp
  ultimately show ?thesis using no_envelope_in_instructions by (simp add: logic_middleware_def Let_def)
qed


text \<open>
  The texts promise exact counts. What the engine releases for a count is at least one too high whenever
  the draw is in the upper eighth, for the default and every smaller epsilon.
\<close>
theorem promised_exact_count_noisy:
  assumes "uniform d c = Some (u, c')" "3 / 8 \<le> u" "u < 1 / 2" "0 < dp_epsilon config" "dp_epsilon config \<le> 1"
    and "is_count_key (to_lower k)" "k \<noteq> []" "x \<in> \<int>" "0 \<le> x"
  shows "\<exists>y. noise_number d config n (Some k) x c = Some (y, c') \<and> x + 1 \<le> y"
proof -
  have sens: "derive_field_sensitivity (Some k) g n = 1" for g
    using assms(6,7) by (simp add: derive_field_sensitivity_def Let_def)
  let ?noise = "- (1 / dp_epsilon config) * sgn u * ln (1 - 2 * \<bar>u\<bar>)"
  have u: "sgn u = 1" "\<bar>u\<bar> = u" using assms(2) by (auto simp: sgn_if)
  have "1 \<le> ln (4 :: real)" using exp_le by (subst ln_ge_iff) simp_all
  moreover have "ln (1 - 2 * u) \<le> ln (1 / 4)" using assms(2,3) by (subst ln_le_cancel_iff) auto
  ultimately have ln: "1 \<le> - ln (1 - 2 * u)" by (simp add: ln_div)
  have "1 \<le> 1 / dp_epsilon config" using assms(4,5) by simp
  then have "1 * 1 \<le> (1 / dp_epsilon config) * (- ln (1 - 2 * u))" using ln assms(4) by (intro mult_mono) auto
  then have noise: "x + 1 \<le> x + ?noise" by (simp add: u)
  have mono: "a \<le> b \<Longrightarrow> math_round a \<le> math_round b" for a b
    by (simp add: math_round_def floor_mono)
  have rounded: "a \<in> \<int> \<Longrightarrow> math_round a = a" for a
    by (auto elim!: Ints_cases simp: math_round_of_int)
  have x1: "x + 1 \<in> \<int>" using assms(8) by simp
  then have "(x + 1) * 10000 \<in> \<int>" by (metis Ints_mult Ints_numeral)
  note ten = rounded [OF this]
  have "(x + 1) * 10000 \<le> (x + ?noise) * 10000" using noise by (rule mult_right_mono) simp
  from mono [OF this] have "(x + 1) * 10000 \<le> math_round ((x + ?noise) * 10000)" unfolding ten .
  then have "x + 1 \<le> math_round ((x + ?noise) * 10000) / 10000" by simp
  from mono [OF this] have "x + 1 \<le> math_round (math_round ((x + ?noise) * 10000) / 10000)" unfolding rounded [OF x1] .
  then show ?thesis
    using assms(1,8,9) by (simp add: noise_number_def sens add_laplace_noise_def laplace_sample_def Let_def)
qed

section \<open>A wrapped server\<close>

lemma update_new_key: "k \<notin> fst ` set m \<Longrightarrow> AList.update k v m = m @ [(k, v)]"
  by (induction m) auto

lemma map_of_fresh: "map_of m k = None \<longleftrightarrow> k \<notin> fst ` set m"
  by (simp add: map_of_eq_None_iff)

lemma sync_tools_all:
  assumes "distinct (map lt_name ts)" "\<forall>t \<in> set ts. \<exists>g. sh_jsonSchema (lt_shape t) = Inr g \<and> lt_name t \<notin> fst ` set (ms_tools s)"
    and "ms_activeSchema s = None" "ms_meshed s"
  shows "\<exists>m. sync_tools env ts s = (s\<lparr>ms_tools := ms_tools s @ m, ms_announced := ms_announced s @ map lt_name ts\<rparr>, None) \<and>
     map fst m = map lt_name ts \<and> map (\<lambda>p. ti_name (rt_tool (snd p))) m = map lt_name ts \<and>
     map (\<lambda>p. te_handler (rt_entry (snd p))) m = map lt_handler ts"
  using assms
proof (induction ts arbitrary: s)
  case (Cons t ts)
  obtain g where g: "sh_jsonSchema (lt_shape t) = Inr g" "lt_name t \<notin> fst ` set (ms_tools s)" using Cons.prems(2) by auto
  let ?d = "case lt_description t of Some d \<Rightarrow> d | None \<Rightarrow> []"
  obtain dd where dd: "(if sh_payloadString (lt_shape t) then logic_description env s ?d else Some ?d) = Some dd"
    by (cases "sh_payloadString (lt_shape t)") (auto simp: logic_description_def Cons.prems(3) Let_def)
  define e where "e = \<lparr>rt_tool = \<lparr>ti_name = lt_name t, ti_description = dd, ti_inputSchema = input_schema g\<rparr>,
      rt_entry = \<lparr>te_logicTool = sh_payloadString (lt_shape t), te_schema = sh_parse (lt_shape t), te_handler = lt_handler t,
                  te_policy = None\<rparr>\<rparr>"
  have e: "register_tool env (lt_name t) ?d (lt_shape t) (lt_handler t) None s =
      (s\<lparr>ms_tools := ms_tools s @ [(lt_name t, e)], ms_announced := ms_announced s @ [lt_name t]\<rparr>, None)"
      "ti_name (rt_tool e) = lt_name t" "te_handler (rt_entry e) = lt_handler t"
    using g Cons.prems(4) by (simp_all add: register_tool_def map_of_fresh update_new_key dd e_def)
  let ?s = "s\<lparr>ms_tools := ms_tools s @ [(lt_name t, e)], ms_announced := ms_announced s @ [lt_name t]\<rparr>"
  have "\<forall>q \<in> set ts. \<exists>g. sh_jsonSchema (lt_shape q) = Inr g \<and> lt_name q \<notin> fst ` set (ms_tools ?s)"
    using Cons.prems(1,2) by (auto simp: image_iff)
  moreover have "distinct (map lt_name ts)" "ms_activeSchema ?s = None" "ms_meshed ?s" using Cons.prems by simp_all
  ultimately obtain m where "sync_tools env ts ?s = (?s\<lparr>ms_tools := ms_tools ?s @ m, ms_announced := ms_announced ?s @ map lt_name ts\<rparr>, None)"
      "map fst m = map lt_name ts" "map (\<lambda>p. ti_name (rt_tool (snd p))) m = map lt_name ts"
      "map (\<lambda>p. te_handler (rt_entry (snd p))) m = map lt_handler ts"
    using Cons.IH [of ?s] by blast
  then show ?case by (intro exI [of _ "(lt_name t, e) # m"]) (simp add: e)
qed simp

lemma sync_resources_all:
  assumes "distinct (map lg_uri rs)" "\<forall>r \<in> set rs. lg_uri r \<notin> fst ` set (ms_resources s)"
  shows "\<exists>m. sync_resources rs s = (s\<lparr>ms_resources := ms_resources s @ m\<rparr>, None) \<and> map (\<lambda>p. ro_uri (snd p)) m = map lg_uri rs"
  using assms
proof (induction rs arbitrary: s)
  case (Cons r rs)
  obtain e where e: "register_resource (lg_name r) (lg_uri r) (Some (case lg_description r of Some d \<Rightarrow> d | None \<Rightarrow> []))
             (Some (case lg_mimeType r of Some (c # cs) \<Rightarrow> c # cs | _ \<Rightarrow> ''application/octet-stream'')) (Own_Content (lg_read r)) s =
      (s\<lparr>ms_resources := ms_resources s @ [(lg_uri r, e)]\<rparr>, None)" "ro_uri e = lg_uri r"
    using Cons.prems(2) by (auto simp: register_resource_def map_of_fresh update_new_key)
  let ?s = "s\<lparr>ms_resources := ms_resources s @ [(lg_uri r, e)]\<rparr>"
  have "\<forall>q \<in> set rs. lg_uri q \<notin> fst ` set (ms_resources ?s)" using Cons.prems by (auto simp: image_iff)
  moreover have "distinct (map lg_uri rs)" using Cons.prems(1) by simp
  ultimately obtain m where "sync_resources rs ?s = (?s\<lparr>ms_resources := ms_resources ?s @ m\<rparr>, None)" "map (\<lambda>p. ro_uri (snd p)) m = map lg_uri rs"
    using Cons.IH [of ?s] by blast
  then show ?case by (intro exI [of _ "(lg_uri r, e) # m"]) (simp add: e)
qed simp

lemma new_server_fields [simp]:
  "ms_tools (new_server node keys caps info) = []" "ms_activeSchema (new_server node keys caps info) = None"
  "ms_announced (new_server node keys caps info) = []" "fst ` set (ms_resources (new_server node keys caps info)) = {ENVELOPE_URI}"
  "map (\<lambda>p. ro_uri (snd p)) (ms_resources (new_server node keys caps info)) = [ENVELOPE_URI]"
  by (simp_all add: new_server_def register_resource_def)

text \<open>
  A wrapping bridge that publishes copies every tool and resource of the legacy server, in order, with its
  own handlers, announces each tool and raises nothing, when names and URIs are distinct, no resource takes
  the URI of the envelope specification and every schema can be printed; one that does not publish serves nothing.
\<close>
theorem wrapped_server_exact:
  assumes "distinct (map lt_name ts)" "\<forall>t \<in> set ts. \<exists>g. sh_jsonSchema (lt_shape t) = Inr g"
    and "distinct (map lg_uri rs)" "ENVELOPE_URI \<notin> lg_uri ` set rs"
  shows "(\<exists>s'. wrap_connect env True (Inr ()) ts rs (new_server node keys caps info) = (s', None) \<and>
       map ti_name (list_tools s') = map lt_name ts \<and> map (\<lambda>p. te_handler (rt_entry (snd p))) (ms_tools s') = map lt_handler ts \<and>
       map ro_uri (list_resources s') = ENVELOPE_URI # map lg_uri rs \<and> ms_announced s' = map lt_name ts) \<and>
     wrap_connect env False joined ts rs (new_server node keys caps info) = (new_server node keys caps info, None) \<and>
     list_tools (new_server node keys caps info) = []"
proof -
  let ?s = "(new_server node keys caps info)\<lparr>ms_meshed := True\<rparr>"
  obtain m where m: "sync_tools env ts ?s = (?s\<lparr>ms_tools := m, ms_announced := map lt_name ts\<rparr>, None)"
      "map (\<lambda>p. ti_name (rt_tool (snd p))) m = map lt_name ts" "map (\<lambda>p. te_handler (rt_entry (snd p))) m = map lt_handler ts"
    using sync_tools_all [OF assms(1), of ?s env] assms(2) by auto
  let ?t = "?s\<lparr>ms_tools := m, ms_announced := map lt_name ts\<rparr>"
  have keys: "fst ` set (ms_resources ?t) = {ENVELOPE_URI}"
    by simp
  have fresh: "\<forall>r \<in> set rs. lg_uri r \<notin> fst ` set (ms_resources ?t)" unfolding keys using assms(4) by (metis image_eqI singletonD)
  obtain q where q: "sync_resources rs ?t = (?t\<lparr>ms_resources := ms_resources ?t @ q\<rparr>, None)" "map (\<lambda>p. ro_uri (snd p)) q = map lg_uri rs"
    using sync_resources_all [OF assms(3) fresh] by blast
  have uris: "map ro_uri (map snd (ms_resources (new_server node keys caps info))) = [ENVELOPE_URI]"
    using new_server_fields(5) [of node keys caps info] by (simp add: comp_def)
  show ?thesis
    using m(2,3) q(2) uris
    by (intro conjI exI [of _ "?t\<lparr>ms_resources := ms_resources ?t @ q\<rparr>"])
      (simp_all add: wrap_connect_def m(1) q(1) list_tools_def list_resources_def comp_def)
qed

section \<open>Settings\<close>

text \<open>
  For settings that are numbers the admission test with the limits of the constructor is exactly the
  limiter of the call path.
\<close>
theorem computed_limits_exact:
  "admit_computed \<lparr>cl_windowMs = Some w, cl_maxPerWindow = Some m, cl_globalMaxPerWindow = Some g\<rparr> st name now =
     (fst (admit_call \<lparr>toolCallWindowMs = w, toolCallMaxPerWindow = m, globalCallMaxPerWindow = g\<rparr> st name now) \<noteq> None,
      snd (admit_call \<lparr>toolCallWindowMs = w, toolCallMaxPerWindow = m, globalCallMaxPerWindow = g\<rparr> st name now))"
proof -
  have "inside (Some w) now = (\<lambda>t. now - t < w)" by (rule ext) (simp add: inside_def)
  then show ?thesis by (simp add: admit_computed_def admit_defs reached_def)
qed

text \<open>
  A variable \<open>LIOP_RATE_LIMIT_WINDOW_MS\<close> that is not a number turns both limits off: no call is refused.
\<close>
theorem unreadable_window_disables_limits:
  assumes "variable ''LIOP_RATE_LIMIT_WINDOW_MS'' = Some t" "parse_int t = None"
    and "cl_maxPerWindow (compute_limits variable None) = Some m" "0 < m"
    and "cl_globalMaxPerWindow (compute_limits variable None) = Some g" "0 < g"
  shows "\<not> fst (admit_computed (compute_limits variable None) st name now)"
proof -
  have "cl_windowMs (compute_limits variable None) = None" using assms(1,2) by (simp add: compute_limits_def option_or_variable_def)
  then show ?thesis using assms(3-6) by (simp add: admit_computed_def inside_def reached_def Let_def)
qed

text \<open>
  A node without settings takes tokens of the issuer and audience a nexus without settings issues them
  with, and asks it for its keys; a nexus URL with a final slash leads to a key address with two slashes.
\<close>
theorem default_authorization_agrees:
  "\<exists>v u. auth_setup (\<lambda>_. None) (\<lambda>_. True) (Some \<lparr>ao_role = ''nexus'', ao_issuer = None, ao_audience = None, ao_nexusUrl = None\<rparr>) =
       Inr (Some (v, Local_Keys)) \<and>
     auth_setup (\<lambda>_. None) (\<lambda>_. True) (Some \<lparr>ao_role = ''node'', ao_issuer = None, ao_audience = None, ao_nexusUrl = None\<rparr>) =
       Inr (Some (v, Remote_Keys (jv_issuer v @ ''/oidc/jwks''))) \<and>
     auth_setup (\<lambda>_. None) (\<lambda>_. True) (Some \<lparr>ao_role = ''node'', ao_issuer = None, ao_audience = None, ao_nexusUrl = Some (b @ ''/'')\<rparr>) =
       Inr (Some (u, Remote_Keys (b @ ''//oidc/jwks'')))"
  by (simp add: auth_setup_def Let_def first_given_def DEFAULT_NEXUS_URL_def ends_with_def)


section \<open>Witnesses\<close>

definition demo_registry :: registry_env where
  "demo_registry = \<lparr>re_string = (\<lambda>_. ''v''), re_pretty = (\<lambda>_. ''schema'')\<rparr>"

definition demo_shape :: tool_shape where
  "demo_shape = \<lparr>sh_payloadString = True, sh_parse = Some, sh_jsonSchema = Inr (JObj None [])\<rparr>"

definition demo_server :: mcp_server where
  "demo_server = new_server demo_node None JUndef (JObj None [])"

definition demo_schema_fields :: "(string \<times> jval) list" where
  "demo_schema_fields =
     [(''type'', JStr ''object''), (''properties'', JObj None [(''age'', JObj None [(''type'', JStr ''number'')])])]"

definition demo_ask :: "string \<Rightarrow> jval \<Rightarrow> jval" where
  "demo_ask meth uri =
     JObj None [(''jsonrpc'', JStr ''2.0''), (''id'', JNum (Fin 1)), (''method'', JStr meth),
       (''params'', JObj None [(''_meta'', JObj None [(''io.modelcontextprotocol/protocolVersion'', JStr MCP_PROTOCOL_VERSION)]), (''uri'', uri)])]"

lemma demo_ask_fields [simp]:
  "opt_prop (demo_ask m u) ''jsonrpc'' = JStr ''2.0''" "opt_prop (demo_ask m u) ''method'' = JStr m"
  "opt_prop (opt_prop (demo_ask m u) ''params'') ''uri'' = u"
  "m \<notin> {''initialize'', ''notifications/initialized''} \<Longrightarrow>
     \<not> is_legacy_request \<lparr>rq_method = m, rq_params = opt_prop (demo_ask m u) ''params''\<rparr>"
  by (simp_all add: demo_ask_def opt_prop_def is_legacy_request_def MCP_PROTOCOL_VERSION_def MCP_PROTOCOL_VERSION_LEGACY_def Let_def)

lemma demo_null_free: "null_free (JObj None demo_schema_fields)"
  by (simp add: demo_schema_fields_def)

lemma demo_taken: "\<exists>r. map_of (ms_resources demo_server) ENVELOPE_URI = Some r"
  "u \<noteq> ENVELOPE_URI \<Longrightarrow> map_of (ms_resources demo_server) u = None" "map_of (ms_tools demo_server) n = None"
  by (simp_all add: demo_server_def new_server_def register_resource_def)

theorem discovery_exact_witness:
  "let s = run (registry_step demo_registry) demo_server [Add_Tool ''sum'' ''adds'' demo_shape Inr None] in
     call_named demo_registry demo_node_env 0 (JStr ''other'') (JObj None []) s = Some (s, Inl (''Tool not found: '' @ ''other''))"
proof -
  let ?es = "[Add_Tool ''sum'' ''adds'' demo_shape Inr None]"
  let ?s = "run (registry_step demo_registry) (new_server demo_node None JUndef (JObj None [])) ?es"
  have tools: "ti_name ` set (list_tools ?s) = {''sum''}"
    by (simp add: list_tools_def register_tool_def demo_shape_def logic_description_def Let_def)
  have "call_named demo_registry demo_node_env 0 (JStr ''other'') (JObj None []) ?s = Some (?s, Inl (''Tool not found: '' @ ''other''))"
    using discovery_exact [OF refl, where payload = "demo_ask ''tools/list'' JUndef" and env = demo_registry and node = demo_node and keys = None
        and caps = JUndef and info = "JObj None []" and es = ?es and nenv = demo_node_env and benv = "Mcp_Bridge.demo_env (Inr True)"
        and le = "\<lambda>_ _. True" and now = 0 and n = "''other''" and args = "JObj None []"] tools by simp
  then show ?thesis by (simp only: demo_server_def Let_def)
qed

theorem dictionary_published_witness:
  "\<exists>s' digest. data_dictionary demo_registry demo_schema_fields ''d'' GLOBAL_SCHEMA_URI ''e'' demo_server = (s', None) \<and>
     (\<forall>n. map_of (ms_tools s') n = map_option (with_structure digest GLOBAL_SCHEMA_URI) (map_of (ms_tools demo_server) n)) \<and>
     read_resource demo_registry s' (JStr GLOBAL_SCHEMA_URI) = Inr (published GLOBAL_SCHEMA_URI ''application/json'' ''schema'')"
proof -
  have uri: "GLOBAL_SCHEMA_URI \<noteq> ENVELOPE_URI" "GLOBAL_SCHEMA_URI \<noteq> GUIDELINES_URI"
    by (simp_all add: GLOBAL_SCHEMA_URI_def ENVELOPE_URI_def GUIDELINES_URI_def)
  obtain s' digest where s': "data_dictionary demo_registry demo_schema_fields ''d'' GLOBAL_SCHEMA_URI ''e'' demo_server = (s', None)"
      "\<forall>n. map_of (ms_tools s') n = map_option (with_structure digest GLOBAL_SCHEMA_URI) (map_of (ms_tools demo_server) n)"
      "\<forall>es. read_resource demo_registry (run (registry_step demo_registry) s' es) (JStr GLOBAL_SCHEMA_URI) =
         Inr (published GLOBAL_SCHEMA_URI ''application/json'' (re_pretty demo_registry (commented demo_schema_fields)))"
    using dictionary_published [OF demo_null_free demo_taken(2) [OF uri(1)] uri(2), of demo_registry "''d''" "''e''"] by blast
  from s'(3) [rule_format, of "[]"] have "read_resource demo_registry s' (JStr GLOBAL_SCHEMA_URI) =
      Inr (published GLOBAL_SCHEMA_URI ''application/json'' ''schema'')" by (simp add: demo_registry_def)
  with s'(1,2) show ?thesis by blast
qed

lemma demo_digest: "\<exists>digest. schema_digest demo_registry (commented demo_schema_fields) = Some digest"
  using summary_total [OF commented_null_free [OF demo_null_free]] by (auto simp: schema_digest_def)

theorem failed_dictionary_takes_effect_witness:
  "\<exists>s'. data_dictionary demo_registry demo_schema_fields ''d'' ENVELOPE_URI ''e'' demo_server = (s', Some (Resource_Registered ENVELOPE_URI)) \<and>
     ms_activeSchema s' = Some (commented demo_schema_fields)"
proof -
  obtain r digest where "map_of (ms_resources demo_server) ENVELOPE_URI = Some r"
      "schema_digest demo_registry (commented demo_schema_fields) = Some digest"
    using demo_taken(1) demo_digest by blast
  from failed_dictionary_takes_effect [OF this, of "''d''" "''e''"] show ?thesis by blast
qed

theorem later_tool_names_missing_schema_witness:
  "\<exists>s1 s2. data_dictionary demo_registry demo_schema_fields ''d'' ''liop://own'' ''e'' demo_server = (s1, None) \<and>
     register_tool demo_registry ''sum'' ''adds'' demo_shape Inr None s1 = (s2, None) \<and>
     read_resource demo_registry s2 (JStr GLOBAL_SCHEMA_URI) = Inl (''Resource not found: '' @ GLOBAL_SCHEMA_URI)"
proof -
  have uri: "''liop://own'' \<noteq> ENVELOPE_URI" "''liop://own'' \<noteq> GUIDELINES_URI" "''liop://own'' \<noteq> GLOBAL_SCHEMA_URI"
      "GLOBAL_SCHEMA_URI \<noteq> ENVELOPE_URI"
    by (simp_all add: GLOBAL_SCHEMA_URI_def ENVELOPE_URI_def GUIDELINES_URI_def)
  obtain digest where dg: "schema_digest demo_registry (commented demo_schema_fields) = Some digest" using demo_digest by blast
  obtain s1 where s1: "data_dictionary demo_registry demo_schema_fields ''d'' ''liop://own'' ''e'' demo_server = (s1, None)"
    using demo_taken(2) [OF uri(1)] uri(2) by (simp add: dictionary_run [OF dg] register_resource_def)
  have shape: "sh_payloadString demo_shape" "sh_jsonSchema demo_shape = Inr (JObj None [])" by (simp_all add: demo_shape_def)
  show ?thesis
    using later_tool_names_missing_schema [OF s1 uri(3,2) demo_taken(2) [OF uri(4)] demo_taken(3) [of "''sum''"] shape,
        of "''adds''" Inr None] s1 by blast
qed

definition demo_resources :: mcp_server where
  "demo_resources = fst (register_resource ''d'' ''u'' None (Some ''application/json'') (Text_Content ''secret schema'') demo_server)"

theorem listing_publishes_content_witness:
  "\<exists>rs. serve_json_rpc demo_registry demo_node_env (Mcp_Bridge.demo_env (Inr True)) (\<lambda>_ _. True) 0 (demo_ask ''resources/list'' JUndef) demo_resources =
      Some (demo_resources, Inr (Some (success_response (opt_prop (demo_ask ''resources/list'' JUndef) ''id'')
        (JObj None (cacheable 300000 ''public'' @ [(''resources'', JArr None rs)]))))) \<and>
     (\<exists>v \<in> set rs. opt_prop v ''content'' = JStr ''secret schema'')"
proof -
  let ?r = "\<lparr>ro_name = ''d'', ro_uri = ''u'', ro_description = None, ro_mimeType = Some ''application/json'',
      ro_content = Text_Content ''secret schema''\<rparr>"
  have r: "map_of (ms_resources demo_resources) ''u'' = Some ?r"
    by (simp add: demo_resources_def demo_server_def new_server_def register_resource_def ENVELOPE_URI_def)
  show ?thesis
    using listing_publishes_content [OF r _ _ _ _ _ _ _ demo_ask_fields(1) demo_ask_fields(2) demo_ask_fields(3),
        of "''secret schema''" "CHR ''a''" "''pplication/json''" "demo_ask ''resources/list'' JUndef" demo_registry demo_node_env
           "Mcp_Bridge.demo_env (Inr True)" "\<lambda>_ _. True" 0] by auto
qed

theorem promised_exact_count_noisy_witness:
  "\<exists>y. noise_number (\<lambda>_. 2 / 5) DEFAULT_DP_CONFIG 5 (Some ''count'') 10 0 = Some (y, 1) \<and> 10 + 1 \<le> y"
proof (rule promised_exact_count_noisy)
  show "uniform (\<lambda>_. 2 / 5) 0 = Some (2 / 5, 1)" by (subst uniform.simps) simp
  show "is_count_key (to_lower ''count'')" by code_simp
qed (simp_all add: DEFAULT_DP_CONFIG_def)

theorem wrapped_server_exact_witness:
  "\<exists>s'. wrap_connect demo_registry True (Inr ()) [\<lparr>lt_name = ''sum'', lt_description = None, lt_shape = demo_shape, lt_handler = Inr\<rparr>]
       [\<lparr>lg_name = ''r'', lg_uri = ''u'', lg_description = None, lg_mimeType = None, lg_read = Inr ''t''\<rparr>] demo_server = (s', None) \<and>
     map ti_name (list_tools s') = [''sum''] \<and> map ro_uri (list_resources s') = [ENVELOPE_URI, ''u'']"
proof -
  let ?t = "\<lparr>lt_name = ''sum'', lt_description = None, lt_shape = demo_shape, lt_handler = Inr\<rparr>"
  let ?r = "\<lparr>lg_name = ''r'', lg_uri = ''u'', lg_description = None, lg_mimeType = None, lg_read = Inr ''t''\<rparr>"
  show ?thesis
    using wrapped_server_exact [of "[?t]" "[?r]" demo_registry demo_node None JUndef "JObj None []" "Inr ()"]
    by (auto simp: demo_server_def demo_shape_def ENVELOPE_URI_def)
qed

theorem unreadable_window_disables_limits_witness:
  "\<not> fst (admit_computed (compute_limits (\<lambda>n. if n = ''LIOP_RATE_LIMIT_WINDOW_MS'' then Some ''one minute'' else None) None)
     \<lparr>toolCallWindows = [], globalCallWindow = []\<rparr> ''sum'' 0)"
proof (rule unreadable_window_disables_limits)
  show "parse_int ''one minute'' = None" by code_simp
  have "parse_int ''15'' = Some 15" "parse_int ''40'' = Some 40" by code_simp+
  then show "cl_maxPerWindow (compute_limits (\<lambda>n. if n = ''LIOP_RATE_LIMIT_WINDOW_MS'' then Some ''one minute'' else None) None) = Some 15"
    "cl_globalMaxPerWindow (compute_limits (\<lambda>n. if n = ''LIOP_RATE_LIMIT_WINDOW_MS'' then Some ''one minute'' else None) None) = Some 40"
    by (simp_all add: compute_limits_def option_or_variable_def)
qed simp_all

end
