(* ===== verification/Transport_Tls.thy ===== *)
theory Transport_Tls
  imports Js_Values
begin

text \<open>
  The transport security of the RPC layer: the choice of gRPC credentials (\<open>rpc/tls.ts\<close>) and the certificate
  manager with its hot reload (\<open>security/cert-manager.ts\<close>).

  \<open>tls_env\<close> holds two variables of the environment, the disk and whether grpc-js accepts the material it is
  given. A manager is a record; its watchers and its timer are the events of \<open>cert_step\<close>. An exception is an
  \<open>Inl\<close>; an \<open>error\<close> event without a listener raises in the timer and ends the process (\<open>cm_crashed\<close>).
\<close>

section \<open>The certificate manager\<close>

record cert_options =
  cp_rootCertPath :: "string option"
  cp_certChainPath :: string
  cp_privateKeyPath :: string
  cp_warningDays :: "int option"
  cp_watchFiles :: "bool option"
  cp_debounceMs :: "int option"

record x509 =
  x5_subject :: string
  x5_issuer :: string
  x5_fingerprint256 :: string
  x5_validFrom :: int
  x5_validTo :: int

text \<open>The disk and the X.509 parser at one moment; \<open>None\<close> is an exception.\<close>

record cert_files =
  cf_exists :: "string \<Rightarrow> bool"
  cf_read :: "string \<Rightarrow> bytes option"
  cf_x509 :: "bytes \<Rightarrow> x509 option"

record cert_info =
  ci_x509 :: x509
  ci_daysRemaining :: int
  ci_isExpired :: bool
  ci_isExpiringSoon :: bool

datatype cert_error = Chain_Not_Found string | Key_Not_Found string | Unreadable string | No_Certificate | Not_A_Certificate

datatype cert_signal = Reloaded cert_info | Reload_Failed cert_error

record cert_manager =
  cm_options :: cert_options
  cm_rootCert :: "bytes option"
  cm_certChain :: "bytes option"
  cm_privateKey :: "bytes option"
  cm_watched :: "string list"
  cm_due :: "int option"                     \<comment> \<open>when the pending reload timer fires\<close>
  cm_errorListener :: bool
  cm_signals :: "cert_signal list"
  cm_crashed :: bool

definition warning_days :: "cert_manager \<Rightarrow> int" where
  "warning_days s = (case cp_warningDays (cm_options s) of Some d \<Rightarrow> d | None \<Rightarrow> 30)"

definition debounce_ms :: "cert_manager \<Rightarrow> int" where
  "debounce_ms s = (case cp_debounceMs (cm_options s) of Some d \<Rightarrow> d | None \<Rightarrow> 150)"

definition given_path :: "string option \<Rightarrow> bool" where
  "given_path p \<longleftrightarrow> p \<noteq> None \<and> p \<noteq> Some []"

text \<open>\<open>loadCertificates\<close>: the buffers are replaced one by one, and an error keeps those replaced so far.\<close>

definition load_root :: "cert_files \<Rightarrow> cert_manager \<Rightarrow> cert_manager \<times> cert_error option" where
  "load_root w s =
     (case cp_rootCertPath (cm_options s) of
        Some (c # cs) \<Rightarrow>
          if cf_exists w (c # cs)
          then (case cf_read w (c # cs) of None \<Rightarrow> (s, Some (Unreadable (c # cs))) | Some b \<Rightarrow> (s\<lparr>cm_rootCert := Some b\<rparr>, None))
          else (s, None)
      | _ \<Rightarrow> (s, None))"

definition load_pair :: "cert_files \<Rightarrow> cert_manager \<Rightarrow> cert_manager \<times> cert_error option" where
  "load_pair w s =
     (let chain = cp_certChainPath (cm_options s); key = cp_privateKeyPath (cm_options s) in
      if \<not> cf_exists w chain then (s, Some (Chain_Not_Found chain))
      else if \<not> cf_exists w key then (s, Some (Key_Not_Found key))
      else case cf_read w chain of
        None \<Rightarrow> (s, Some (Unreadable chain))
      | Some c \<Rightarrow>
          (let s = s\<lparr>cm_certChain := Some c\<rparr> in
           case cf_read w key of
             None \<Rightarrow> (s, Some (Unreadable key))
           | Some k \<Rightarrow> (s\<lparr>cm_privateKey := Some k\<rparr>, None)))"

definition load_certificates :: "cert_files \<Rightarrow> cert_manager \<Rightarrow> cert_manager \<times> cert_error option" where
  "load_certificates w s =
     (case load_root w s of
        (s, Some e) \<Rightarrow> (s, Some e)
      | (s, None) \<Rightarrow> load_pair w s)"

definition inspect_certificate :: "cert_files \<Rightarrow> int \<Rightarrow> cert_manager \<Rightarrow> cert_error + cert_info" where
  "inspect_certificate w now s =
     (case cm_certChain s of
        None \<Rightarrow> Inl No_Certificate
      | Some b \<Rightarrow>
          (case cf_x509 w b of
             None \<Rightarrow> Inl Not_A_Certificate
           | Some x \<Rightarrow>
               (let msRemaining = x5_validTo x - now;
                    daysRemaining = max 0 (msRemaining div (1000 * 60 * 60 * 24)) in
                Inr \<lparr>ci_x509 = x, ci_daysRemaining = daysRemaining, ci_isExpired = (msRemaining \<le> 0),
                     ci_isExpiringSoon = (daysRemaining \<le> warning_days s)\<rparr>)))"

definition setup_watchers :: "cert_files \<Rightarrow> (string \<Rightarrow> bool) \<Rightarrow> cert_manager \<Rightarrow> cert_manager" where
  "setup_watchers w watchable s =
     (let opt = cm_options s;
          paths = filter (\<lambda>p. p \<noteq> [] \<and> cf_exists w p)
            ([cp_certChainPath opt, cp_privateKeyPath opt] @ (case cp_rootCertPath opt of Some p \<Rightarrow> [p] | None \<Rightarrow> [])) in
      s\<lparr>cm_watched := cm_watched s @ filter watchable paths\<rparr>)"

definition new_cert_manager :: "cert_files \<Rightarrow> (string \<Rightarrow> bool) \<Rightarrow> cert_options \<Rightarrow> cert_error + cert_manager" where
  "new_cert_manager w watchable opt =
     (case load_certificates w \<lparr>cm_options = opt, cm_rootCert = None, cm_certChain = None, cm_privateKey = None, cm_watched = [],
              cm_due = None, cm_errorListener = False, cm_signals = [], cm_crashed = False\<rparr> of
        (s, Some e) \<Rightarrow> Inl e
      | (s, None) \<Rightarrow> Inr (if cp_watchFiles opt = Some False then s else setup_watchers w watchable s))"

definition reload :: "cert_files \<Rightarrow> int \<Rightarrow> cert_manager \<Rightarrow> cert_manager \<times> (cert_error + cert_info)" where
  "reload w now s =
     (case load_certificates w s of
        (s, Some e) \<Rightarrow> (s, Inl e)
      | (s, None) \<Rightarrow>
          (case inspect_certificate w now s of
             Inl e \<Rightarrow> (s, Inl e)
           | Inr info \<Rightarrow> (s\<lparr>cm_signals := cm_signals s @ [Reloaded info]\<rparr>, Inr info)))"

text \<open>The callback of the timer. \<open>emit("error")\<close> without a listener raises.\<close>

definition timer_reload :: "cert_files \<Rightarrow> int \<Rightarrow> cert_manager \<Rightarrow> cert_manager" where
  "timer_reload w now s =
     (case reload w now (s\<lparr>cm_due := None\<rparr>) of
        (s, Inr info) \<Rightarrow> s
      | (s, Inl e) \<Rightarrow> if cm_errorListener s then s\<lparr>cm_signals := cm_signals s @ [Reload_Failed e]\<rparr> else s\<lparr>cm_crashed := True\<rparr>)"

definition dispose :: "cert_manager \<Rightarrow> cert_manager" where
  "dispose s = s\<lparr>cm_due := None, cm_watched := [], cm_errorListener := False\<rparr>"

datatype cert_event = File_Changed string int | Time_Passes int cert_files | Listen_Errors | Dispose

fun cert_step :: "cert_manager \<Rightarrow> cert_event \<Rightarrow> cert_manager" where
  "cert_step s (File_Changed p now) =
     (if cm_crashed s \<or> p \<notin> set (cm_watched s) then s else s\<lparr>cm_due := Some (now + debounce_ms s)\<rparr>)"
| "cert_step s (Time_Passes now w) =
     (case cm_due s of Some t \<Rightarrow> if cm_crashed s \<or> now < t then s else timer_reload w now s | None \<Rightarrow> s)"
| "cert_step s Listen_Errors = s\<lparr>cm_errorListener := True\<rparr>"
| "cert_step s Dispose = dispose s"

section \<open>Credentials\<close>

record tls_env =
  cx_nodeEnv :: "string option"
  cx_enforceTls :: "string option"
  cx_readFile :: "string \<Rightarrow> bytes option"
  cx_serverSsl :: "bytes option \<Rightarrow> bytes \<Rightarrow> bytes \<Rightarrow> bool"
  cx_channelSsl :: "bytes \<Rightarrow> bytes option \<Rightarrow> bytes option \<Rightarrow> bool"

record tls_options =
  to_rootCert :: "string option"
  to_certChain :: "string option"
  to_privateKey :: "string option"
  to_mutualTls :: bool
  to_certManager :: "cert_manager option"
  to_insecure :: bool
  to_suppressWarning :: bool

datatype tls_error = Mutual_Without_Root | Manager_Failed | Certificates_Required | Loading_Failed

datatype server_credentials = Insecure_Server | Ssl_Server "bytes option" bytes bytes bool

datatype channel_credentials = Insecure_Channel | Ssl_Channel bytes "bytes option" "bytes option"

definition is_tls_enforced :: "tls_env \<Rightarrow> bool" where
  "is_tls_enforced env \<longleftrightarrow> cx_nodeEnv env = Some ''production'' \<or> cx_enforceTls env = Some ''true''"

text \<open>The catch blocks: in enforced mode an error, else the insecure credentials.\<close>

definition or_insecure :: "tls_env \<Rightarrow> 'a \<Rightarrow> tls_error \<Rightarrow> 'a option \<Rightarrow> tls_error + 'a" where
  "or_insecure env insecure e r =
     (case r of Some c \<Rightarrow> Inr c | None \<Rightarrow> if is_tls_enforced env then Inl e else Inr insecure)"

definition server_ssl :: "tls_env \<Rightarrow> bool \<Rightarrow> bytes option \<Rightarrow> bytes option \<Rightarrow> bytes option \<Rightarrow> server_credentials option" where
  "server_ssl env mutual ca chain key =
     (case (chain, key) of
        (Some c, Some k) \<Rightarrow>
          if mutual \<and> ca = None then None
          else if cx_serverSsl env ca c k then Some (Ssl_Server ca c k mutual) else None
      | _ \<Rightarrow> None)"

text \<open>An optional file: \<open>None\<close> when reading it raises.\<close>

definition read_optional :: "tls_env \<Rightarrow> string option \<Rightarrow> bytes option option" where
  "read_optional env p =
     (case p of Some (c # cs) \<Rightarrow> map_option Some (cx_readFile env (c # cs)) | _ \<Rightarrow> Some None)"

definition create_server_credentials :: "tls_env \<Rightarrow> tls_options option \<Rightarrow> tls_error + server_credentials" where
  "create_server_credentials env tls =
     (case tls of
        None \<Rightarrow> or_insecure env Insecure_Server Certificates_Required None
      | Some t \<Rightarrow>
          if to_mutualTls t \<and> \<not> given_path (to_rootCert t) \<and> Option.bind (to_certManager t) cm_rootCert = None
          then Inl Mutual_Without_Root
          else case to_certManager t of
            Some m \<Rightarrow>
              or_insecure env Insecure_Server Manager_Failed
                (server_ssl env (to_mutualTls t) (cm_rootCert m) (cm_certChain m) (cm_privateKey m))
          | None \<Rightarrow>
              (case (to_certChain t, to_privateKey t) of
                 (Some (c # cs), Some (k # ks)) \<Rightarrow>
                   or_insecure env Insecure_Server Loading_Failed
                     (case read_optional env (to_rootCert t) of
                        None \<Rightarrow> None
                      | Some ca \<Rightarrow>
                          server_ssl env (to_mutualTls t) ca (cx_readFile env (c # cs)) (cx_readFile env (k # ks)))
               | _ \<Rightarrow> or_insecure env Insecure_Server Certificates_Required None))"

definition channel_ssl :: "tls_env \<Rightarrow> bytes \<Rightarrow> bytes option \<Rightarrow> bytes option \<Rightarrow> channel_credentials option" where
  "channel_ssl env ca key chain = (if cx_channelSsl env ca key chain then Some (Ssl_Channel ca key chain) else None)"

definition create_channel_credentials :: "tls_env \<Rightarrow> tls_options option \<Rightarrow> tls_error + channel_credentials" where
  "create_channel_credentials env tls =
     (case tls of
        None \<Rightarrow> or_insecure env Insecure_Channel Certificates_Required None
      | Some t \<Rightarrow>
          (case to_certManager t of
             Some m \<Rightarrow>
               or_insecure env Insecure_Channel Manager_Failed
                 (case (cm_rootCert m, cm_certChain m, cm_privateKey m) of
                    (Some r, Some c, Some k) \<Rightarrow> channel_ssl env r (Some k) (Some c)
                  | _ \<Rightarrow> None)
           | None \<Rightarrow>
               (case to_rootCert t of
                  Some (c # cs) \<Rightarrow>
                    or_insecure env Insecure_Channel Loading_Failed
                      (case (cx_readFile env (c # cs), read_optional env (to_certChain t), read_optional env (to_privateKey t)) of
                         (Some r, Some chain, Some key) \<Rightarrow> channel_ssl env r key chain
                       | _ \<Rightarrow> None)
                | _ \<Rightarrow> or_insecure env Insecure_Channel Certificates_Required None)))"

section \<open>Properties of the credentials\<close>

lemma or_insecure_result:
  "or_insecure env i e r = Inr c \<longleftrightarrow> r = Some c \<or> (r = None \<and> \<not> is_tls_enforced env \<and> c = i)"
  by (auto simp: or_insecure_def split: option.splits)

lemma server_ssl_result:
  "server_ssl env m ca chain key = Some c \<longleftrightarrow>
     (\<exists>b k. chain = Some b \<and> key = Some k \<and> (m \<longrightarrow> ca \<noteq> None) \<and> cx_serverSsl env ca b k \<and> c = Ssl_Server ca b k m)"
  by (auto simp: server_ssl_def split: option.splits if_splits)

lemma channel_ssl_result: "channel_ssl env r k c = Some x \<longleftrightarrow> cx_channelSsl env r k c \<and> x = Ssl_Channel r k c"
  by (auto simp: channel_ssl_def)

lemmas tls_results = or_insecure_result server_ssl_result channel_ssl_result

text \<open>
  C24. In production, or with \<open>LIOP_ENFORCE_TLS\<close>, no configuration leads to an unencrypted server or channel:
  every failure is an error.
\<close>
theorem enforced_tls_never_insecure:
  assumes "is_tls_enforced env"
  shows "create_server_credentials env tls \<noteq> Inr Insecure_Server \<and> create_channel_credentials env tls' \<noteq> Inr Insecure_Channel"
  using assms
  by (auto simp: create_server_credentials_def create_channel_credentials_def tls_results
      split: option.splits list.splits if_splits)

theorem enforced_tls_never_insecure_witness:
  "create_server_credentials \<lparr>cx_nodeEnv = Some ''production'', cx_enforceTls = None, cx_readFile = (\<lambda>_. None),
       cx_serverSsl = (\<lambda>_ _ _. True), cx_channelSsl = (\<lambda>_ _ _. True)\<rparr> None \<noteq> Inr Insecure_Server"
  using enforced_tls_never_insecure [of "\<lparr>cx_nodeEnv = Some ''production'', cx_enforceTls = None, cx_readFile = (\<lambda>_. None),
       cx_serverSsl = (\<lambda>_ _ _. True), cx_channelSsl = (\<lambda>_ _ _. True)\<rparr>" None None] by (simp add: is_tls_enforced_def)

text \<open>
  Encrypted server credentials use a key and a chain that were read, and with mutual TLS they carry a root
  certificate and demand one of every client.
\<close>
theorem mutual_tls_checks_clients:
  assumes "create_server_credentials env (Some t) = Inr (Ssl_Server ca chain key check)"
  shows "check = to_mutualTls t \<and> (to_mutualTls t \<longrightarrow> ca \<noteq> None) \<and>
     (case to_certManager t of
        Some m \<Rightarrow> ca = cm_rootCert m \<and> Some chain = cm_certChain m \<and> Some key = cm_privateKey m
      | None \<Rightarrow> Some chain = Option.bind (to_certChain t) (cx_readFile env) \<and> Some key = Option.bind (to_privateKey t) (cx_readFile env))"
  using assms
  by (auto simp: create_server_credentials_def tls_results split: option.splits list.splits if_splits)

definition demo_tls_env :: tls_env where
  "demo_tls_env = \<lparr>cx_nodeEnv = None, cx_enforceTls = None, cx_readFile = (\<lambda>p. if p = ''gone'' then None else Some (utf8 p)),
     cx_serverSsl = (\<lambda>_ _ _. True), cx_channelSsl = (\<lambda>_ _ _. True)\<rparr>"

definition demo_tls :: "string \<Rightarrow> tls_options" where
  "demo_tls key = \<lparr>to_rootCert = Some ''ca'', to_certChain = Some ''chain'', to_privateKey = Some key, to_mutualTls = True,
     to_certManager = None, to_insecure = False, to_suppressWarning = False\<rparr>"

theorem mutual_tls_checks_clients_witness:
  "\<exists>ca chain key. create_server_credentials demo_tls_env (Some (demo_tls ''key'')) = Inr (Ssl_Server ca chain key True) \<and> ca \<noteq> None"
proof -
  have "create_server_credentials demo_tls_env (Some (demo_tls ''key'')) =
      Inr (Ssl_Server (Some (utf8 ''ca'')) (utf8 ''chain'') (utf8 ''key'') True)"
    by (simp add: create_server_credentials_def demo_tls_env_def demo_tls_def given_path_def read_optional_def server_ssl_def or_insecure_def)
  from this mutual_tls_checks_clients [OF this] show ?thesis by auto
qed

text \<open>
  A server that was told to authenticate its clients, and whose key cannot be read, serves everyone
  unencrypted outside of production; a node, which passes no options, never has any other credentials.
\<close>
theorem lost_certificate_serves_plaintext:
  assumes "\<not> is_tls_enforced env" "to_certManager t = None" "given_path (to_rootCert t)" "Option.bind (to_privateKey t) (cx_readFile env) = None"
  shows "create_server_credentials env (Some t) = Inr Insecure_Server \<and> create_server_credentials env None = Inr Insecure_Server"
  using assms
  by (auto simp: create_server_credentials_def or_insecure_def server_ssl_def split: option.splits list.splits)

theorem lost_certificate_serves_plaintext_witness:
  "to_mutualTls (demo_tls ''gone'') \<and> create_server_credentials demo_tls_env (Some (demo_tls ''gone'')) = Inr Insecure_Server"
  using lost_certificate_serves_plaintext [of demo_tls_env "demo_tls ''gone''"]
  by (simp add: demo_tls_env_def demo_tls_def is_tls_enforced_def given_path_def)

text \<open>
  With enforced TLS a node cannot open its RPC port, which it does without options, and the gateway cannot
  open the channel of a proxied call, which it asks to be insecure.
\<close>
theorem enforced_tls_stops_node_and_gateway:
  assumes "is_tls_enforced env"
  shows "create_server_credentials env None = Inl Certificates_Required \<and>
     create_channel_credentials env (Some \<lparr>to_rootCert = None, to_certChain = None, to_privateKey = None, to_mutualTls = False,
       to_certManager = None, to_insecure = True, to_suppressWarning = True\<rparr>) = Inl Certificates_Required"
  using assms by (simp add: create_server_credentials_def create_channel_credentials_def or_insecure_def)

theorem enforced_tls_stops_node_and_gateway_witness:
  "create_server_credentials (demo_tls_env\<lparr>cx_enforceTls := Some ''true''\<rparr>) None = Inl Certificates_Required"
  using enforced_tls_stops_node_and_gateway [of "demo_tls_env\<lparr>cx_enforceTls := Some ''true''\<rparr>"] by (simp add: is_tls_enforced_def)

section \<open>Properties of the manager\<close>

lemma load_root_kept:
  "load_root w s = (s', e) \<Longrightarrow> cm_options s' = cm_options s \<and> cm_due s' = cm_due s \<and> cm_errorListener s' = cm_errorListener s \<and>
     cm_certChain s' = cm_certChain s \<and> cm_privateKey s' = cm_privateKey s \<and> cm_watched s' = cm_watched s \<and>
     cm_signals s' = cm_signals s \<and> cm_crashed s' = cm_crashed s"
  by (auto simp: load_root_def split: option.splits list.splits if_splits)

lemma load_pair_kept:
  "load_pair w s = (s', e) \<Longrightarrow> cm_options s' = cm_options s \<and> cm_due s' = cm_due s \<and> cm_errorListener s' = cm_errorListener s \<and>
     cm_rootCert s' = cm_rootCert s \<and> cm_watched s' = cm_watched s \<and> cm_signals s' = cm_signals s \<and> cm_crashed s' = cm_crashed s"
  by (auto simp: load_pair_def Let_def split: option.splits if_splits)

lemma load_kept:
  assumes "load_certificates w s = (s', e)"
  shows "cm_options s' = cm_options s \<and> cm_due s' = cm_due s \<and> cm_errorListener s' = cm_errorListener s \<and>
     cm_watched s' = cm_watched s \<and> cm_signals s' = cm_signals s \<and> cm_crashed s' = cm_crashed s"
  using assms load_root_kept load_pair_kept
  by (fastforce simp: load_certificates_def split: prod.splits option.splits)

lemma reload_kept:
  assumes "reload w now s = (s', r)"
  shows "cm_due s' = cm_due s" "cm_errorListener s' = cm_errorListener s"
proof -
  obtain u e where u: "load_certificates w s = (u, e)" by force
  have "s' = u \<or> (\<exists>i. s' = u\<lparr>cm_signals := cm_signals u @ [Reloaded i]\<rparr>)"
    using assms by (auto simp: reload_def u split: option.splits sum.splits)
  then show "cm_due s' = cm_due s" "cm_errorListener s' = cm_errorListener s" using load_kept [OF u] by auto
qed

lemma timer_reload_due: "cm_due (timer_reload w now s) = None"
proof -
  obtain u r where u: "reload w now (s\<lparr>cm_due := None\<rparr>) = (u, r)" by force
  show ?thesis using reload_kept(1) [OF u] by (cases r) (simp_all add: timer_reload_def u)
qed

text \<open>
  Loading is not atomic. When the new chain is there and the new key cannot be read, the manager keeps the
  new chain beside the old key and hands both to every server created from it.
\<close>
theorem failed_reload_mixes_pair:
  assumes "cp_rootCertPath (cm_options s) = None"
    and "cf_exists w (cp_certChainPath (cm_options s))" "cf_exists w (cp_privateKeyPath (cm_options s))"
    and "cf_read w (cp_certChainPath (cm_options s)) = Some chain" "cf_read w (cp_privateKeyPath (cm_options s)) = None"
  shows "\<exists>s' e. reload w now s = (s', Inl e) \<and> cm_certChain s' = Some chain \<and> cm_privateKey s' = cm_privateKey s"
  using assms by (simp add: reload_def load_certificates_def load_root_def load_pair_def Let_def)

definition demo_manager :: cert_manager where
  "demo_manager = \<lparr>cm_options = \<lparr>cp_rootCertPath = None, cp_certChainPath = ''chain'', cp_privateKeyPath = ''gone'', cp_warningDays = None,
       cp_watchFiles = None, cp_debounceMs = None\<rparr>, cm_rootCert = None, cm_certChain = Some [1], cm_privateKey = Some [2],
     cm_watched = [''chain''], cm_due = None, cm_errorListener = False, cm_signals = [], cm_crashed = False\<rparr>"

definition demo_disk :: cert_files where
  "demo_disk = \<lparr>cf_exists = (\<lambda>_. True), cf_read = (\<lambda>p. if p = ''gone'' then None else Some [3]), cf_x509 = (\<lambda>_. None)\<rparr>"

theorem failed_reload_mixes_pair_witness:
  "\<exists>s' e. reload demo_disk 0 demo_manager = (s', Inl e) \<and> cm_certChain s' = Some [3] \<and> cm_privateKey s' = Some [2]"
  using failed_reload_mixes_pair [of demo_manager demo_disk "[3]" 0] by (simp add: demo_manager_def demo_disk_def)

text \<open>
  A hot reload that fails, for whatever reason, ends the process unless the application listens for errors.
\<close>
theorem failed_hot_reload_ends_process:
  assumes "cm_due s = Some t" "t \<le> now" "\<not> cm_crashed s" "\<not> cm_errorListener s" "\<exists>e. snd (reload w now s) = Inl e"
  shows "cm_crashed (cert_step s (Time_Passes now w))"
proof -
  have load: "load_certificates w (s\<lparr>cm_due := None\<rparr>) = (fst (load_certificates w s)\<lparr>cm_due := None\<rparr>, snd (load_certificates w s))"
    by (auto simp: load_certificates_def load_root_def load_pair_def Let_def split: option.splits list.splits if_splits)
  have inspect: "inspect_certificate w now (u\<lparr>cm_due := None\<rparr>) = inspect_certificate w now u" for u
    by (simp add: inspect_certificate_def warning_days_def Let_def split: option.splits)
  have "\<exists>e. snd (reload w now (s\<lparr>cm_due := None\<rparr>)) = Inl e"
    using assms(5) by (auto simp: reload_def load inspect split: prod.splits option.splits sum.splits)
  moreover have "\<not> cm_errorListener (fst (reload w now (s\<lparr>cm_due := None\<rparr>)))"
    using assms(4) reload_kept(2) [of w now "s\<lparr>cm_due := None\<rparr>"] by (cases "reload w now (s\<lparr>cm_due := None\<rparr>)") simp
  ultimately show ?thesis using assms(1-3) by (cases "reload w now (s\<lparr>cm_due := None\<rparr>)") (auto simp: timer_reload_def)
qed

theorem failed_hot_reload_ends_process_witness:
  "cm_crashed (cert_step (demo_manager\<lparr>cm_due := Some 150\<rparr>) (Time_Passes 150 demo_disk))"
  by (rule failed_hot_reload_ends_process [where t = 150])
    (simp_all add: demo_manager_def demo_disk_def reload_def load_certificates_def load_root_def load_pair_def Let_def)

text \<open>
  Changes are debounced. After a burst of changes the reload is due once, \<open>debounceMs\<close> after the last
  change; until then nothing is read, and one run of the timer leaves nothing due.
\<close>
theorem one_reload_per_burst:
  assumes "changes \<noteq> []" "\<forall>c \<in> set changes. fst c \<in> set (cm_watched s)" "\<not> cm_crashed s"
  shows "run cert_step s (map (\<lambda>(p, t). File_Changed p t) changes) = s\<lparr>cm_due := Some (snd (last changes) + debounce_ms s)\<rparr> \<and>
     (now < snd (last changes) + debounce_ms s \<longrightarrow>
        cert_step (s\<lparr>cm_due := Some (snd (last changes) + debounce_ms s)\<rparr>) (Time_Passes now w) =
          s\<lparr>cm_due := Some (snd (last changes) + debounce_ms s)\<rparr>) \<and>
     (snd (last changes) + debounce_ms s \<le> now \<longrightarrow>
        cm_due (cert_step (s\<lparr>cm_due := Some (snd (last changes) + debounce_ms s)\<rparr>) (Time_Passes now w)) = None)"
proof -
  have 1: "run cert_step s (map (\<lambda>(p, t). File_Changed p t) changes) = s\<lparr>cm_due := Some (snd (last changes) + debounce_ms s)\<rparr>"
    using assms
  proof (induction changes arbitrary: s)
    case (Cons c cs)
    let ?s = "s\<lparr>cm_due := Some (snd c + debounce_ms s)\<rparr>"
    have step: "cert_step s (File_Changed (fst c) (snd c)) = ?s" using Cons.prems by simp
    have d: "debounce_ms ?s = debounce_ms s" by (simp add: debounce_ms_def)
    show ?case
    proof (cases "cs = []")
      case True
      then show ?thesis using step by (simp add: case_prod_unfold)
    next
      case False
      then show ?thesis using step Cons.IH [of ?s] Cons.prems by (simp add: case_prod_unfold d)
    qed
  qed simp
  then show ?thesis using assms(3) by (simp add: timer_reload_due)
qed

theorem one_reload_per_burst_witness:
  "run cert_step demo_manager [File_Changed ''chain'' 10, File_Changed ''chain'' 90] = demo_manager\<lparr>cm_due := Some 240\<rparr>"
  using one_reload_per_burst [of "[(''chain'', 10), (''chain'', 90)]" demo_manager 0 demo_disk]
  by (simp add: demo_manager_def debounce_ms_def)

text \<open>
  A disposed manager never reads the disk again: whatever happens later, its certificates, its signals and
  its process stay as they were.
\<close>
theorem disposed_manager_silent:
  "let s' = run cert_step (dispose s) es in
     cm_rootCert s' = cm_rootCert s \<and> cm_certChain s' = cm_certChain s \<and> cm_privateKey s' = cm_privateKey s \<and>
     cm_signals s' = cm_signals s \<and> cm_crashed s' = cm_crashed s"
proof -
  have "preserved cert_step (\<lambda>u :: cert_manager. cm_due u = None \<and> cm_watched u = [] \<and> cm_rootCert u = cm_rootCert s \<and> cm_certChain u = cm_certChain s \<and>
      cm_privateKey u = cm_privateKey s \<and> cm_signals u = cm_signals s \<and> cm_crashed u = cm_crashed s)"
  proof
    fix u :: cert_manager and e
    assume "cm_due u = None \<and> cm_watched u = [] \<and> cm_rootCert u = cm_rootCert s \<and> cm_certChain u = cm_certChain s \<and>
      cm_privateKey u = cm_privateKey s \<and> cm_signals u = cm_signals s \<and> cm_crashed u = cm_crashed s"
    then show "cm_due (cert_step u e) = None \<and> cm_watched (cert_step u e) = [] \<and> cm_rootCert (cert_step u e) = cm_rootCert s \<and>
      cm_certChain (cert_step u e) = cm_certChain s \<and> cm_privateKey (cert_step u e) = cm_privateKey s \<and>
      cm_signals (cert_step u e) = cm_signals s \<and> cm_crashed (cert_step u e) = cm_crashed s"
      by (cases e) (auto simp: dispose_def)
  qed
  from preserved.run_inv [OF this] show ?thesis by (simp add: dispose_def Let_def)
qed

text \<open>
  What the inspection reports of a loaded certificate: the days are whole and never negative, an expired
  certificate is also reported as expiring soon, and zero days are left to one that is still valid for hours.
\<close>
theorem inspection_exact:
  assumes "inspect_certificate w now s = Inr info" "0 \<le> warning_days s"
  shows "0 \<le> ci_daysRemaining info \<and> (ci_isExpired info \<longrightarrow> ci_isExpiringSoon info \<and> ci_daysRemaining info = 0) \<and>
     (ci_isExpired info \<longleftrightarrow> x5_validTo (ci_x509 info) \<le> now) \<and>
     (\<not> ci_isExpired info \<longrightarrow> ci_daysRemaining info * 86400000 \<le> x5_validTo (ci_x509 info) - now \<and>
        x5_validTo (ci_x509 info) - now < (ci_daysRemaining info + 1) * 86400000)"
proof -
  obtain x where x: "info = \<lparr>ci_x509 = x, ci_daysRemaining = max 0 ((x5_validTo x - now) div 86400000), ci_isExpired = (x5_validTo x - now \<le> 0),
      ci_isExpiringSoon = (max 0 ((x5_validTo x - now) div 86400000) \<le> warning_days s)\<rparr>"
    using assms(1) by (auto simp: inspect_certificate_def Let_def split: option.splits)
  define m where "m = x5_validTo x - now"
  have "m = m div 86400000 * 86400000 + m mod 86400000" "0 \<le> m mod 86400000" "m mod 86400000 < 86400000" by simp_all
  then have "m \<le> 0 \<longrightarrow> m div 86400000 \<le> 0" "0 < m \<longrightarrow> 0 \<le> m div 86400000"
    "m div 86400000 * 86400000 \<le> m" "m < m div 86400000 * 86400000 + 86400000" by linarith+
  moreover have "x5_validTo x = m + now" by (simp add: m_def)
  ultimately show ?thesis using assms(2) by (auto simp: x max_def)
qed

theorem inspection_exact_witness:
  "\<exists>info. inspect_certificate (demo_disk\<lparr>cf_x509 := \<lambda>_. Some \<lparr>x5_subject = [], x5_issuer = [], x5_fingerprint256 = [], x5_validFrom = 0,
       x5_validTo = 5\<rparr>\<rparr>) 10 demo_manager = Inr info \<and> ci_isExpired info \<and> ci_isExpiringSoon info"
proof -
  let ?w = "demo_disk\<lparr>cf_x509 := \<lambda>_. Some \<lparr>x5_subject = [], x5_issuer = [], x5_fingerprint256 = [], x5_validFrom = 0, x5_validTo = 5\<rparr>\<rparr>"
  obtain info where info: "inspect_certificate ?w 10 demo_manager = Inr info" "x5_validTo (ci_x509 info) = 5"
    by (simp add: inspect_certificate_def demo_manager_def Let_def)
  have "0 \<le> warning_days demo_manager" by (simp add: warning_days_def demo_manager_def)
  from inspection_exact [OF info(1) this] info show ?thesis by auto
qed

end
