(* ===== verification/Authorization_Server.thy ===== *)
theory Authorization_Server
  imports Server_Registry Transport_Tls
begin

text \<open>
  The authorization server of a nexus node (\<open>security/oauth-server.ts\<close>, and its clients and issuer in the
  constructor of \<open>server/index.ts\<close>) and the RPC server of every node (\<open>rpc/server.ts\<close>). The provider itself is a
  library: the model is the configuration it receives and the callbacks it calls. The key pair and the random
  cookie key are arguments.
\<close>

section \<open>The provider\<close>

record oauth_client =
  oc_client_id :: string
  oc_client_secret :: string
  oc_grant_types :: "string list"
  oc_scope :: string

record oidc_client =
  od_client_id :: string
  od_client_secret :: string
  od_grant_types :: "string list"
  od_response_types :: "string list"
  od_redirect_uris :: "string list"
  od_scope :: string
  od_auth_method :: string
  od_signed_response_alg :: string

record oidc_features =
  of_clientCredentials :: bool
  of_devInteractions :: bool
  of_resourceIndicators :: bool

type_synonym jwk = "(string \<times> string) list"

record oidc_provider =
  op_issuer :: string
  op_scopes :: "string list"
  op_clients :: "oidc_client list"
  op_features :: oidc_features
  op_accessTokenFormat :: string
  op_jwks :: "jwk list"
  op_ttl :: int
  op_cookieKeys :: "string list"
  op_proxy :: bool

definition m2m_client :: "oauth_client \<Rightarrow> oidc_client" where
  "m2m_client c =
     \<lparr>od_client_id = oc_client_id c, od_client_secret = oc_client_secret c, od_grant_types = [''client_credentials''],
      od_response_types = [], od_redirect_uris = [], od_scope = oc_scope c, od_auth_method = ''client_secret_post'',
      od_signed_response_alg = ''EdDSA''\<rparr>"

text \<open>\<open>kid\<close> and the spread of an exported key.\<close>

definition key_id :: "(bytes \<Rightarrow> digest) \<Rightarrow> jwk \<Rightarrow> string" where
  "key_id sha publicJwk = take 16 (sha_hex sha (case map_of publicJwk ''x'' of Some x \<Rightarrow> x | None \<Rightarrow> []))"

definition complete_key :: "string \<Rightarrow> jwk \<Rightarrow> jwk" where
  "complete_key kid jwk = AList.update ''alg'' ''EdDSA'' (AList.update ''use'' ''sig'' (AList.update ''kid'' kid jwk))"

definition normalized_issuer :: "string \<Rightarrow> string" where
  "normalized_issuer issuer = (if ends_with issuer ''/'' then take (length issuer - 1) issuer else issuer)"

text \<open>\<open>createOAuthServer\<close>: the provider and the public keys of the validator.\<close>

definition create_oauth_server ::
    "(bytes \<Rightarrow> digest) \<Rightarrow> jwk \<times> jwk \<Rightarrow> string \<Rightarrow> string \<Rightarrow> oauth_client list \<Rightarrow> oidc_provider \<times> jwk list" where
  "create_oauth_server sha keyPair cookieKey issuer clients =
     (let kid = key_id sha (snd keyPair) in
      (\<lparr>op_issuer = normalized_issuer issuer, op_scopes = [''openid'', ''offline_access''] @ LIOP_SCOPES,
        op_clients = map m2m_client clients,
        op_features = \<lparr>of_clientCredentials = True, of_devInteractions = False, of_resourceIndicators = True\<rparr>,
        op_accessTokenFormat = ''jwt'', op_jwks = [complete_key kid (fst keyPair)], op_ttl = 3600, op_cookieKeys = [cookieKey],
        op_proxy = True\<rparr>,
       [complete_key kid (snd keyPair)]))"

subsection \<open>Its callbacks\<close>

record resource_server_info =
  ri_scope :: string
  ri_accessTokenFormat :: string
  ri_alg :: string

definition get_resource_server_info :: "string option \<Rightarrow> resource_server_info" where
  "get_resource_server_info clientScope =
     \<lparr>ri_scope = (case clientScope of Some s \<Rightarrow> s | None \<Rightarrow> []), ri_accessTokenFormat = ''jwt'', ri_alg = ''EdDSA''\<rparr>"

definition extra_token_claims :: "string \<Rightarrow> string \<Rightarrow> (string \<times> string) list" where
  "extra_token_claims kind scope = (if kind = ''AccessToken'' then [(''scope'', scope)] else [])"

definition interaction_url :: "string + string" where
  "interaction_url = Inl ''InteractionsNotSupportedException: This Authorization Server is strictly configured for Machine-to-Machine flows.''"

subsection \<open>A nexus node\<close>

definition DEFAULT_CLIENT_SCOPE :: string where
  "DEFAULT_CLIENT_SCOPE = ''liop:tools:call liop:tools:list liop:resources:read liop:schema:read liop:mesh:query''"

definition nexus_clients :: "(string \<Rightarrow> string option) \<Rightarrow> oauth_client list option \<Rightarrow> oauth_client list" where
  "nexus_clients variable clients =
     (case clients of
        Some cs \<Rightarrow> cs
      | None \<Rightarrow>
          [\<lparr>oc_client_id = first_given [variable ''LIOP_OAUTH_CLIENT_ID''] ''liop-mesh-agent'',
            oc_client_secret = first_given [variable ''LIOP_OAUTH_CLIENT_SECRET''] ''dev-secret-change-me'',
            oc_grant_types = [''client_credentials''], oc_scope = DEFAULT_CLIENT_SCOPE\<rparr>])"

definition nexus_setup ::
    "(bytes \<Rightarrow> digest) \<Rightarrow> jwk \<times> jwk \<Rightarrow> string \<Rightarrow> (string \<Rightarrow> string option) \<Rightarrow> oauth_client list option \<Rightarrow> auth_options \<Rightarrow>
     (jwt_validator \<times> oidc_provider \<times> jwk list) option" where
  "nexus_setup sha keyPair cookieKey variable clients a =
     (if ao_role a = ''nexus'' then
        (let issuer = first_given [ao_issuer a] DEFAULT_NEXUS_URL;
             (provider, jwks) = create_oauth_server sha keyPair cookieKey issuer (nexus_clients variable clients) in
         Some (\<lparr>jv_issuer = issuer, jv_audience = first_given [ao_audience a] DEFAULT_AUDIENCE\<rparr>, provider, jwks))
      else None)"

section \<open>The RPC server\<close>

text \<open>\<open>listen\<close>: an \<open>Inl None\<close> is the error of \<open>bindAsync\<close>; \<open>bind\<close> is the port it assigns.\<close>

definition rpc_listen ::
    "tls_env \<Rightarrow> (string \<Rightarrow> server_credentials \<Rightarrow> int option) \<Rightarrow> int option \<Rightarrow> tls_options option \<Rightarrow> tls_error option + int" where
  "rpc_listen env bind port tls =
     (case create_server_credentials env tls of
        Inl e \<Rightarrow> Inl (Some e)
      | Inr c \<Rightarrow>
          (case bind (''0.0.0.0:'' @ show_int (case port of Some p \<Rightarrow> p | None \<Rightarrow> 50051)) c of
             Some p \<Rightarrow> Inr p | None \<Rightarrow> Inl None))"

record shutdown =
  sd_resolved :: bool
  sd_timerArmed :: bool
  sd_forced :: nat      \<comment> \<open>calls of \<open>forceShutdown\<close>\<close>
  sd_fulfilled :: nat   \<comment> \<open>calls of \<open>resolve\<close>\<close>

datatype shutdown_event = Timeout_Fires | Try_Shutdown_Done

definition shutdown_start :: shutdown where
  "shutdown_start = \<lparr>sd_resolved = False, sd_timerArmed = True, sd_forced = 0, sd_fulfilled = 0\<rparr>"

fun shutdown_step :: "shutdown \<Rightarrow> shutdown_event \<Rightarrow> shutdown" where
  "shutdown_step s Timeout_Fires =
     (if \<not> sd_timerArmed s then s
      else if \<not> sd_resolved s
      then s\<lparr>sd_timerArmed := False, sd_resolved := True, sd_forced := sd_forced s + 1, sd_fulfilled := sd_fulfilled s + 1\<rparr>
      else s\<lparr>sd_timerArmed := False\<rparr>)"
| "shutdown_step s Try_Shutdown_Done =
     (if \<not> sd_resolved s then s\<lparr>sd_resolved := True, sd_timerArmed := False, sd_fulfilled := sd_fulfilled s + 1\<rparr> else s)"

section \<open>Properties\<close>

definition foreign_issuer :: "(string \<Rightarrow> (string \<times> string) option) \<Rightarrow> string \<Rightarrow> bool" where
  "foreign_issuer url issuer \<longleftrightarrow>
     (case url (normalized_issuer issuer) of
        None \<Rightarrow> True
      | Some (h, p) \<Rightarrow> h @ '':'' @ (if p = [] then ''3000'' else p) \<notin> set NEXUS_AUTHORITIES)"

lemma foreign_aliases: "foreign_issuer url (jv_issuer v) \<Longrightarrow> build_issuer_aliases url v = [jv_issuer v]"
proof (cases "url (normalized_issuer (jv_issuer v))")
  case (Some hp)
  then show "foreign_issuer url (jv_issuer v) \<Longrightarrow> ?thesis"
    by (cases hp) (simp add: foreign_issuer_def build_issuer_aliases_def normalized_issuer_def [symmetric] Let_def)
qed (simp add: build_issuer_aliases_def normalized_issuer_def [symmetric] Let_def)

lemma normalized_same: "normalized_issuer i = i \<longleftrightarrow> \<not> ends_with i ''/''"
proof (cases "ends_with i ''/''")
  case True
  then have "i \<noteq> []" by (auto simp: ends_with_def)
  then have "length (take (length i - 1) i) < length i" by (cases i) simp_all
  then have "take (length i - 1) i \<noteq> i" by (metis less_irrefl)
  then show ?thesis using True by (simp add: normalized_issuer_def)
qed (simp add: normalized_issuer_def)

text \<open>
  A nexus accepts the issuer of its own tokens exactly when its configured URL has no slash at the end, unless the
  URL is one of the addresses of the demonstration network. The provider drops the slash, the validator of the
  same node does not: with a verifier that checks the issuer every token of the node is refused by the node.
\<close>
theorem nexus_accepts_own_tokens_iff:
  assumes "nexus_setup sha keyPair cookieKey variable clients a = Some (v, provider, jwks)" "foreign_issuer url (jv_issuer v)"
    and "\<And>opts p. jwt_verify token opts = Inr p \<Longrightarrow> op_issuer provider \<in> set (jo_issuer opts)"
    and "\<And>opts. op_issuer provider \<in> set (jo_issuer opts) \<Longrightarrow> jo_audience opts = jv_audience v \<Longrightarrow> \<exists>p. jwt_verify token opts = Inr p"
  shows "(\<exists>info. jwt_validate jwt_verify url v token = Inr info) \<longleftrightarrow> \<not> ends_with (jv_issuer v) ''/''"
proof -
  have issuer: "op_issuer provider = normalized_issuer (jv_issuer v)"
    using assms(1) by (auto simp: nexus_setup_def create_oauth_server_def Let_def split: if_splits)
  let ?opts = "\<lparr>jo_issuer = [jv_issuer v], jo_audience = jv_audience v, jo_algorithms = [''EdDSA'', ''ES256''],
      jo_clockTolerance = 5, jo_requiredClaims = [''sub'', ''scope'']\<rparr>"
  have "(\<exists>info. jwt_validate jwt_verify url v token = Inr info) \<longleftrightarrow> (\<exists>p. jwt_verify token ?opts = Inr p)"
    by (simp add: jwt_validate_def foreign_aliases [OF assms(2)] split: sum.splits)
  also have "\<dots> \<longleftrightarrow> op_issuer provider = jv_issuer v" using assms(3) [of ?opts] assms(4) [of ?opts] by auto
  finally show ?thesis by (simp add: issuer normalized_same)
qed

definition demo_auth :: "string \<Rightarrow> auth_options" where
  "demo_auth issuer = \<lparr>ao_role = ''nexus'', ao_issuer = Some issuer, ao_audience = None, ao_nexusUrl = None\<rparr>"

definition demo_verify :: "string \<Rightarrow> jwt_verify" where
  "demo_verify iss token opts =
     (if iss \<in> set (jo_issuer opts) then Inr \<lparr>jp_sub = Some ''c'', jp_scope = JStr ''liop:tools:call'', jp_exp = None\<rparr> else Inl ''issuer'')"

theorem nexus_accepts_own_tokens_iff_witness:
  "\<exists>v provider jwks. nexus_setup (\<lambda>_. Abs_digest (replicate 32 7)) ([], []) [] (\<lambda>_. None) None (demo_auth ''https://auth.org/'') = Some (v, provider, jwks) \<and>
     \<not> (\<exists>info. jwt_validate (demo_verify ''https://auth.org'') (\<lambda>_. Some (''auth.org'', '''')) v ''t'' = Inr info)"
proof -
  obtain v provider jwks where s: "nexus_setup (\<lambda>_. Abs_digest (replicate 32 7)) ([], []) [] (\<lambda>_. None) None (demo_auth ''https://auth.org/'') = Some (v, provider, jwks)"
    "jv_issuer v = ''https://auth.org/''" "op_issuer provider = ''https://auth.org''"
    by (simp add: nexus_setup_def demo_auth_def create_oauth_server_def first_given_def normalized_issuer_def ends_with_def Let_def)
  have f: "foreign_issuer (\<lambda>_. Some (''auth.org'', '''')) (jv_issuer v)"
    by (simp add: foreign_issuer_def s NEXUS_AUTHORITIES_def)
  have "(\<exists>info. jwt_validate (demo_verify ''https://auth.org'') (\<lambda>_. Some (''auth.org'', '''')) v ''t'' = Inr info) \<longleftrightarrow>
      \<not> ends_with (jv_issuer v) ''/''"
    by (rule nexus_accepts_own_tokens_iff [OF s(1) f]) (simp_all add: s(3) demo_verify_def split: if_splits)
  then show ?thesis using s by (auto simp: ends_with_def)
qed

text \<open>
  A nexus started without clients and without a secret in its environment has one client, whose published
  identifier and secret obtain every scope there is: each method of the protocol is open to a token with it.
\<close>
theorem default_secret_opens_every_method:
  assumes "ao_role a = ''nexus''" "variable ''LIOP_OAUTH_CLIENT_ID'' = None" "variable ''LIOP_OAUTH_CLIENT_SECRET'' = None"
  shows "\<exists>v provider jwks. nexus_setup sha keyPair cookieKey variable None a = Some (v, provider, jwks) \<and>
     (\<exists>c. op_clients provider = [c] \<and> od_client_id c = ''liop-mesh-agent'' \<and> od_client_secret c = ''dev-secret-change-me'' \<and>
        od_grant_types c = [''client_credentials''] \<and> set (split_on CHR '' '' (od_scope c)) = set LIOP_SCOPES \<and>
        (\<forall>m\<in>fst ` set SCOPE_MAP. \<forall>info. ai_scopes info = split_on CHR '' '' (od_scope c) \<longrightarrow>
           authorize_request m (Some info) None = Some allow))"
proof -
  have scopes: "split_on CHR '' '' DEFAULT_CLIENT_SCOPE =
      [''liop:tools:call'', ''liop:tools:list'', ''liop:resources:read'', ''liop:schema:read'', ''liop:mesh:query'']"
    by (simp add: DEFAULT_CLIENT_SCOPE_def)
  have "\<forall>m\<in>fst ` set SCOPE_MAP. \<forall>info. ai_scopes info = split_on CHR '' '' DEFAULT_CLIENT_SCOPE \<longrightarrow>
      authorize_request m (Some info) None = Some allow"
    unfolding scopes by (simp add: SCOPE_MAP_def authorize_request_def scope_lookup_def)
  moreover have "set (split_on CHR '' '' DEFAULT_CLIENT_SCOPE) = set LIOP_SCOPES" unfolding scopes by (auto simp: LIOP_SCOPES_def)
  ultimately show ?thesis using assms
    by (simp add: nexus_setup_def create_oauth_server_def nexus_clients_def first_given_def m2m_client_def Let_def)
qed

theorem default_secret_opens_every_method_witness:
  "\<exists>v provider jwks. nexus_setup (\<lambda>_. Abs_digest (replicate 32 7)) ([], []) [] (\<lambda>_. None) None (demo_auth ''i'') = Some (v, provider, jwks) \<and>
     map od_client_secret (op_clients provider) = [''dev-secret-change-me'']"
  using default_secret_opens_every_method [of "demo_auth ''i''" "\<lambda>_. None" "\<lambda>_. Abs_digest (replicate 32 7)" "([], [])" "[]"]
  by (fastforce simp: demo_auth_def)

text \<open>
  A shutdown resolves exactly once, with the first of its two events, and forces the server only when that is
  the timeout. The late event of the other kind changes nothing.
\<close>
theorem shutdown_resolves_once:
  "sd_fulfilled (run shutdown_step shutdown_start es) = (if es = [] then 0 else 1) \<and>
   sd_forced (run shutdown_step shutdown_start es) = (if take 1 es = [Timeout_Fires] then 1 else 0)"
proof (cases es)
  case (Cons e rest)
  have stays: "sd_resolved s \<Longrightarrow> sd_fulfilled (run shutdown_step s es) = sd_fulfilled s \<and> sd_forced (run shutdown_step s es) = sd_forced s" for s es
  proof (induction es arbitrary: s)
    case (Cons e es)
    have "sd_resolved (shutdown_step s e)" "sd_fulfilled (shutdown_step s e) = sd_fulfilled s" "sd_forced (shutdown_step s e) = sd_forced s"
      using Cons.prems by (cases e; simp)+
    then show ?case using Cons.IH [of "shutdown_step s e"] by simp
  qed simp
  have "sd_resolved (shutdown_step shutdown_start e)" by (cases e) (simp_all add: shutdown_start_def)
  from stays [OF this, of rest] Cons show ?thesis by (cases e) (simp_all add: shutdown_start_def)
qed (simp add: shutdown_start_def)

text \<open>
  A node under enforced TLS never opens its port in the clear: with enforcement every port that \<open>listen\<close> opens
  carries a certificate, and a call without options, as the node makes it, opens none.
\<close>
theorem listening_port_exact:
  assumes "is_tls_enforced env"
  shows "rpc_listen env bind port None = Inl (Some Certificates_Required) \<and>
     (rpc_listen env bind port tls = Inr p \<longrightarrow>
        (\<exists>ca chain key mutual. bind (''0.0.0.0:'' @ show_int (case port of Some p \<Rightarrow> p | None \<Rightarrow> 50051)) (Ssl_Server ca chain key mutual) = Some p))"
proof (intro conjI impI)
  show "rpc_listen env bind port None = Inl (Some Certificates_Required)"
    using assms by (simp add: rpc_listen_def create_server_credentials_def or_insecure_def)
next
  assume "rpc_listen env bind port tls = Inr p"
  then obtain c where c: "create_server_credentials env tls = Inr c"
    "bind (''0.0.0.0:'' @ show_int (case port of Some p \<Rightarrow> p | None \<Rightarrow> 50051)) c = Some p"
    by (auto simp: rpc_listen_def split: sum.splits option.splits)
  have "\<exists>ca chain key mutual. c = Ssl_Server ca chain key mutual"
    using c(1) assms by (auto simp: create_server_credentials_def tls_results split: option.splits list.splits if_splits)
  then show "\<exists>ca chain key mutual. bind (''0.0.0.0:'' @ show_int (case port of Some p \<Rightarrow> p | None \<Rightarrow> 50051)) (Ssl_Server ca chain key mutual) = Some p"
    using c(2) by auto
qed

theorem listening_port_exact_witness:
  "rpc_listen (demo_tls_env\<lparr>cx_enforceTls := Some ''true''\<rparr>) (\<lambda>_ _. Some 1) None None = Inl (Some Certificates_Required)"
  using listening_port_exact [of "demo_tls_env\<lparr>cx_enforceTls := Some ''true''\<rparr>"] by (simp add: is_tls_enforced_def)

end
