(* ===== verification/Trace_Log.thy ===== *)
theory Trace_Log
  imports Json_Text
begin

text \<open>
  Distributed tracing (\<open>observability/tracing.ts\<close>) and the logger with its interceptor (\<open>utils/logger.ts\<close>,
  \<open>interceptors/log-interceptor.ts\<close>).

  Random bytes are a stream; a draw of zeros only is repeated, so \<open>None\<close> is a generator that never ends. A
  header is a string or a list of strings. An interceptor is known by the lines it logs while it runs and by
  those it logs later, when its promise is resumed; its exceptions are swallowed. Further arguments of a log
  call are left out.
\<close>

section \<open>Trace contexts\<close>

record span_context =
  sc_traceId :: string
  sc_spanId :: string
  sc_sampled :: bool

definition lower_hex :: "char \<Rightarrow> bool" where
  "lower_hex c \<longleftrightarrow> is_digit c \<or> (let n = (of_char c :: nat) in 97 \<le> n \<and> n \<le> 102)"

definition zeros :: "nat \<Rightarrow> string" where
  "zeros n = replicate n CHR ''0''"

partial_function (option) generate_id :: "(nat \<Rightarrow> bytes) \<Rightarrow> nat \<Rightarrow> nat \<Rightarrow> (string \<times> nat) option" where
  "generate_id random n c =
     (let i = hex_of (random c) in if i = zeros n then generate_id random n (c + 1) else Some (i, c + 1))"

definition generate_trace_id :: "(nat \<Rightarrow> bytes) \<Rightarrow> nat \<Rightarrow> (string \<times> nat) option" where
  "generate_trace_id random c = generate_id (\<lambda>k. take 16 (random k)) 32 c"

definition generate_span_id :: "(nat \<Rightarrow> bytes) \<Rightarrow> nat \<Rightarrow> (string \<times> nat) option" where
  "generate_span_id random c = generate_id (\<lambda>k. take 8 (random k)) 16 c"

definition format_traceparent :: "string \<Rightarrow> string \<Rightarrow> bool \<Rightarrow> string" where
  "format_traceparent traceId spanId sampled =
     ''00-'' @ traceId @ ''-'' @ spanId @ ''-'' @ (if sampled then ''01'' else ''00'')"

text \<open>\<open>TRACEPARENT_REGEX\<close>: the version, the two identifiers and the flags.\<close>

definition match_traceparent :: "string \<Rightarrow> (string \<times> string \<times> string \<times> string) option" where
  "match_traceparent t =
     (let version = take 2 t; traceId = take 32 (drop 3 t); spanId = take 16 (drop 36 t); flags = drop 53 t in
      if length t = 55 \<and> t ! 2 = CHR ''-'' \<and> t ! 35 = CHR ''-'' \<and> t ! 52 = CHR ''-'' \<and>
         list_all lower_hex (version @ traceId @ spanId @ flags)
      then Some (version, traceId, spanId, flags) else None)"

definition parse_traceparent :: "string option \<Rightarrow> span_context option" where
  "parse_traceparent header =
     (case header of
        Some (c # cs) \<Rightarrow>
          (case match_traceparent (trim (c # cs)) of
             None \<Rightarrow> None
           | Some (version, traceId, spanId, flags) \<Rightarrow>
               if version = ''00'' \<and> (traceId = zeros 32 \<or> spanId = zeros 16) then None
               else Some \<lparr>sc_traceId = traceId, sc_spanId = spanId, sc_sampled = odd (hex_val (flags ! 1))\<rparr>)
      | _ \<Rightarrow> None)"

datatype header_value = One string | Many "string list"

type_synonym carrier = "(string, header_value) js_map"

definition inject_traceparent :: "span_context \<Rightarrow> carrier \<Rightarrow> carrier" where
  "inject_traceparent ctx m =
     AList.update ''traceparent'' (One (format_traceparent (sc_traceId ctx) (sc_spanId ctx) (sc_sampled ctx))) m"

definition extract_traceparent :: "carrier \<Rightarrow> span_context option" where
  "extract_traceparent m =
     (case (case map_of m ''traceparent'' of Some (One []) \<Rightarrow> map_of m ''Traceparent'' | None \<Rightarrow> map_of m ''Traceparent'' | v \<Rightarrow> v) of
        None \<Rightarrow> None
      | Some (One t) \<Rightarrow> parse_traceparent (Some t)
      | Some (Many []) \<Rightarrow> parse_traceparent None
      | Some (Many (t # ts)) \<Rightarrow> parse_traceparent (Some t))"

record span =
  sp_name :: string
  sp_context :: span_context
  sp_startTime :: int
  sp_endTime :: "int option"
  sp_attributes :: "(string, string) js_map"
  sp_failed :: bool
  sp_error :: "string option"

definition start_span ::
    "(nat \<Rightarrow> bytes) \<Rightarrow> int \<Rightarrow> string \<Rightarrow> span_context option \<Rightarrow> (string, string) js_map \<Rightarrow> nat \<Rightarrow> (span \<times> nat) option" where
  "start_span random now name parent attributes c =
     (case (case parent of
              Some p \<Rightarrow> if sc_traceId p \<noteq> [] then Some (sc_traceId p, c) else generate_trace_id random c
            | None \<Rightarrow> generate_trace_id random c) of
        None \<Rightarrow> None
      | Some (traceId, c) \<Rightarrow>
          (case generate_span_id random c of
             None \<Rightarrow> None
           | Some (spanId, c) \<Rightarrow>
               Some (\<lparr>sp_name = name,
                      sp_context = \<lparr>sc_traceId = traceId, sc_spanId = spanId,
                                    sc_sampled = (case parent of Some p \<Rightarrow> sc_sampled p | None \<Rightarrow> True)\<rparr>,
                      sp_startTime = now, sp_endTime = None, sp_attributes = attributes, sp_failed = False, sp_error = None\<rparr>, c)))"

definition set_attribute :: "string \<Rightarrow> string \<Rightarrow> span \<Rightarrow> span" where
  "set_attribute k v s = s\<lparr>sp_attributes := AList.update k v (sp_attributes s)\<rparr>"

definition record_exception :: "string \<Rightarrow> span \<Rightarrow> span" where
  "record_exception e s = s\<lparr>sp_failed := True, sp_error := Some e\<rparr>"

definition end_span :: "int \<Rightarrow> span \<Rightarrow> span" where
  "end_span now s = s\<lparr>sp_endTime := Some now\<rparr>"

section \<open>The logger\<close>

datatype log_level = Silent | Errors | Warnings | Infos | Debugs

primrec level_rank :: "log_level \<Rightarrow> nat" where
  "level_rank Silent = 0" | "level_rank Errors = 1" | "level_rank Warnings = 2" | "level_rank Infos = 3" | "level_rank Debugs = 4"

primrec level_name :: "log_level \<Rightarrow> string" where
  "level_name Silent = ''SILENT''" | "level_name Errors = ''ERROR''" | "level_name Warnings = ''WARN''"
| "level_name Infos = ''INFO''" | "level_name Debugs = ''DEBUG''"

definition level_from_env :: "string option \<Rightarrow> log_level" where
  "level_from_env v =
     (case map_option to_lower v of
        None \<Rightarrow> Infos
      | Some l \<Rightarrow>
          if l = ''silent'' then Silent else if l = ''error'' then Errors else if l = ''warn'' then Warnings
          else if l = ''debug'' then Debugs else Infos)"

record log_event =
  le_timestamp :: string
  le_level :: log_level
  le_message :: string

text \<open>What an interceptor logs while it runs, and later.\<close>

record interceptor =
  in_during :: "log_event \<Rightarrow> (log_level \<times> string) list"
  in_later :: "log_event \<Rightarrow> (log_level \<times> string) list"

record logger =
  ll_level :: log_level
  ll_interceptor :: "interceptor option"
  ll_isIntercepting :: bool
  ll_lines :: "string list"                         \<comment> \<open>written to the error stream\<close>
  ll_events :: "log_event list"                     \<comment> \<open>handed to the interceptor\<close>
  ll_resumed :: "(log_level \<times> string) list"         \<comment> \<open>log calls of interceptors still suspended\<close>

definition should_log :: "log_level \<Rightarrow> logger \<Rightarrow> bool" where
  "should_log target s \<longleftrightarrow> level_rank target \<le> level_rank (ll_level s)"

definition format_message :: "string \<Rightarrow> string \<Rightarrow> string \<Rightarrow> string" where
  "format_message ts level message = ''['' @ ts @ ''] ['' @ level @ ''] '' @ message"

text \<open>A log call while an interceptor runs: \<open>emitToInterceptor\<close> returns at once.\<close>

definition nested_log :: "string \<Rightarrow> log_level \<times> string \<Rightarrow> logger \<Rightarrow> logger" where
  "nested_log ts m s =
     (if should_log (fst m) s then s\<lparr>ll_lines := ll_lines s @ [format_message ts (level_name (fst m)) (snd m)]\<rparr> else s)"

definition emit_to_interceptor :: "string \<Rightarrow> log_level \<Rightarrow> string \<Rightarrow> logger \<Rightarrow> logger" where
  "emit_to_interceptor ts level message s =
     (case ll_interceptor s of
        None \<Rightarrow> s
      | Some i \<Rightarrow>
          if ll_isIntercepting s then s
          else
            (let e = \<lparr>le_timestamp = ts, le_level = level, le_message = message\<rparr>;
                 s = fold (nested_log ts) (in_during i e) (s\<lparr>ll_isIntercepting := True, ll_events := ll_events s @ [e]\<rparr>) in
             s\<lparr>ll_isIntercepting := False, ll_resumed := ll_resumed s @ in_later i e\<rparr>))"

definition log_call :: "string \<Rightarrow> log_level \<Rightarrow> string \<Rightarrow> logger \<Rightarrow> logger" where
  "log_call ts level message s =
     (if should_log level s
      then (let line = format_message ts (level_name level) message in
            emit_to_interceptor ts level line (s\<lparr>ll_lines := ll_lines s @ [line]\<rparr>))
      else s)"

definition set_level :: "log_level \<Rightarrow> logger \<Rightarrow> logger" where
  "set_level l s = s\<lparr>ll_level := l\<rparr>"

definition set_interceptor :: "interceptor option \<Rightarrow> logger \<Rightarrow> logger" where
  "set_interceptor i s = s\<lparr>ll_interceptor := i\<rparr>"

datatype log_action = Log log_level string | Set_Level log_level | Intercept "interceptor option" | Resume

text \<open>One action at a time stamp; \<open>Resume\<close> lets a suspended interceptor make its next log call.\<close>

fun log_step :: "logger \<Rightarrow> string \<times> log_action \<Rightarrow> logger" where
  "log_step s (ts, Log l m) = log_call ts l m s"
| "log_step s (ts, Set_Level l) = set_level l s"
| "log_step s (ts, Intercept i) = set_interceptor i s"
| "log_step s (ts, Resume) =
     (case ll_resumed s of [] \<Rightarrow> s | m # ms \<Rightarrow> log_call ts (fst m) (snd m) (s\<lparr>ll_resumed := ms\<rparr>))"

section \<open>Properties of trace contexts\<close>

definition valid_context :: "span_context \<Rightarrow> bool" where
  "valid_context ctx \<longleftrightarrow>
     length (sc_traceId ctx) = 32 \<and> length (sc_spanId ctx) = 16 \<and> list_all lower_hex (sc_traceId ctx @ sc_spanId ctx) \<and>
     sc_traceId ctx \<noteq> zeros 32 \<and> sc_spanId ctx \<noteq> zeros 16"

lemma lower_hex_dense: "lower_hex c \<Longrightarrow> \<not> js_space c"
  by (auto simp: lower_hex_def js_space_def is_digit_def Let_def)

lemma dash_dense: "\<not> js_space CHR ''-''" "\<not> js_space CHR ''0''" "\<not> js_space CHR ''1''"
  by (simp_all add: js_space_def)

lemma format_exact:
  assumes "length t = 32" "length p = 16"
  shows "match_traceparent (format_traceparent t p b) =
     (if list_all lower_hex (t @ p) then Some (''00'', t, p, if b then ''01'' else ''00'') else None)"
proof -
  let ?f = "if b then ''01'' else ''00''"
  have f: "length ?f = 2" "list_all lower_hex ?f" by (auto simp: lower_hex_def is_digit_def)
  have z: "lower_hex CHR ''0''" by (simp add: lower_hex_def is_digit_def)
  have len: "length (format_traceparent t p b) = 55" by (simp add: format_traceparent_def assms)
  have parts: "take 2 (format_traceparent t p b) = ''00''" "take 32 (drop 3 (format_traceparent t p b)) = t"
    "take 16 (drop 36 (format_traceparent t p b)) = p" "drop 53 (format_traceparent t p b) = ?f"
    by (simp_all add: format_traceparent_def assms)
  have dashes: "format_traceparent t p b ! 2 = CHR ''-''" "format_traceparent t p b ! 35 = CHR ''-''" "format_traceparent t p b ! 52 = CHR ''-''"
    by (simp_all add: format_traceparent_def nth_append assms)
  show ?thesis unfolding match_traceparent_def Let_def parts len dashes using f z by simp
qed

text \<open>
  A context survives the header: what \<open>injectTraceparent\<close> writes into any carrier, \<open>extractTraceparent\<close> reads
  back, identifiers and sampling decision unchanged.
\<close>
theorem traceparent_roundtrip:
  assumes "valid_context ctx"
  shows "extract_traceparent (inject_traceparent ctx m) = Some ctx"
proof -
  let ?h = "format_traceparent (sc_traceId ctx) (sc_spanId ctx) (sc_sampled ctx)"
  have v: "length (sc_traceId ctx) = 32" "length (sc_spanId ctx) = 16" "list_all lower_hex (sc_traceId ctx @ sc_spanId ctx)"
    "sc_traceId ctx \<noteq> zeros 32" "sc_spanId ctx \<noteq> zeros 16"
    using assms by (auto simp: valid_context_def)
  have "\<not> js_space c" if "c \<in> set ?h" for c
    using that v(3) lower_hex_dense dash_dense by (auto simp: format_traceparent_def list_all_iff split: if_splits)
  then have trim: "trim ?h = ?h" by (rule trim_plain)
  obtain c cs where h: "?h = c # cs" by (simp add: format_traceparent_def)
  have flag: "odd (hex_val ((if b then ''01'' else ''00'') ! 1)) = b" for b by (cases b) (simp_all add: hex_val_def)
  have "parse_traceparent (Some ?h) = Some ctx"
    unfolding parse_traceparent_def h option.case list.case
    unfolding h [symmetric] trim format_exact [OF v(1,2)] using v(3-5) flag by simp
  moreover have "extract_traceparent (inject_traceparent ctx m) = parse_traceparent (Some ?h)"
    unfolding extract_traceparent_def inject_traceparent_def using h by (simp add: liop_simps)
  ultimately show ?thesis by simp
qed

definition demo_context :: span_context where
  "demo_context = \<lparr>sc_traceId = replicate 32 CHR ''a'', sc_spanId = replicate 16 CHR ''b'', sc_sampled = False\<rparr>"

lemma demo_context_valid: "valid_context demo_context"
  by (simp add: valid_context_def demo_context_def zeros_def lower_hex_def list_all_iff)

theorem traceparent_roundtrip_witness: "extract_traceparent (inject_traceparent demo_context []) = Some demo_context"
  by (rule traceparent_roundtrip [OF demo_context_valid])

lemma generated_result: "generate_id random n c = Some r \<Longrightarrow> (\<exists>k. fst r = hex_of (random k)) \<and> fst r \<noteq> zeros n"
  by (rule generate_id.raw_induct [where P = "\<lambda>random n c r. (\<exists>k. fst r = hex_of (random k)) \<and> fst r \<noteq> zeros n"])
     (auto simp: Let_def split: if_splits)

lemma generated_id: "generate_id random n c = Some (i, c') \<Longrightarrow> (\<exists>k. i = hex_of (random k)) \<and> i \<noteq> zeros n"
  using generated_result by fastforce

lemma hex_digit_lower: "n < 16 \<Longrightarrow> lower_hex (hex_digit n)"
  using hex_digit_code [of n] by (auto simp: lower_hex_def is_digit_def Let_def split: if_splits)

lemma hex_of_lower: "list_all lower_hex (hex_of b)"
proof -
  have "unat z div 16 < 16" "unat z mod 16 < 16" for z :: byte
    using unat_byte [of z] by (auto simp: less_mult_imp_div_less)
  then show ?thesis by (auto simp: hex_of_def list_all_iff intro!: hex_digit_lower)
qed

lemma length_hex_of: "length (hex_of b) = 2 * length b"
  by (induction b) (simp_all add: hex_of_def)

lemma generate_total:
  assumes "hex_of (random (c + k)) \<noteq> zeros n"
  shows "\<exists>i c'. generate_id random n c = Some (i, c')"
  using assms
proof (induction k arbitrary: c)
  case 0
  then show ?case by (subst generate_id.simps) (simp add: Let_def)
next
  case (Suc k)
  then have "\<exists>i c'. generate_id random n (c + 1) = Some (i, c')" by simp
  then show ?case by (subst generate_id.simps) (auto simp: Let_def)
qed

text \<open>
  Starting a span always ends, with identifiers a peer accepts, when the random bytes are not zeros for
  ever; a span with a valid parent keeps its trace and its sampling decision.
\<close>
theorem started_span_valid:
  assumes "\<forall>k. length (random k) \<ge> 16" "\<forall>c. \<exists>k. take 8 (random (c + k)) \<noteq> replicate 8 0"
    and "case parent of None \<Rightarrow> True | Some p \<Rightarrow> valid_context p"
  shows "\<exists>s c'. start_span random now name parent attrs c = Some (s, c') \<and> valid_context (sp_context s) \<and>
     (case parent of None \<Rightarrow> sc_sampled (sp_context s)
      | Some p \<Rightarrow> sc_traceId (sp_context s) = sc_traceId p \<and> sc_sampled (sp_context s) = sc_sampled p)"
proof -
  have zero: "hex_of (replicate m 0) = zeros (2 * m)" for m
  proof -
    have "hex_digit 0 = CHR ''0''" by code_simp
    then show ?thesis by (induction m) (simp_all add: hex_of_def zeros_def)
  qed
  have z8: "zeros 16 = hex_of (replicate 8 0)" and z16: "zeros 32 = hex_of (replicate 16 0)" using zero [of 8] zero [of 16] by simp_all
  have span: "\<exists>i c'. generate_span_id random c = Some (i, c') \<and> length i = 16 \<and> list_all lower_hex i \<and> i \<noteq> zeros 16" for c
  proof -
    obtain k where "take 8 (random (c + k)) \<noteq> replicate 8 0" using assms(2) by blast
    then have "hex_of (take 8 (random (c + k))) \<noteq> zeros 16" by (simp add: z8)
    from generate_total [of "\<lambda>k. take 8 (random k)", OF this] obtain i c' where g: "generate_span_id random c = Some (i, c')"
      by (auto simp: generate_span_id_def)
    from generated_id [OF this [unfolded generate_span_id_def]] obtain j where "i = hex_of (take 8 (random j))" "i \<noteq> zeros 16" by blast
    moreover have "length (take 8 (random j)) = 8" using assms(1) [rule_format, of j] by simp
    ultimately show ?thesis using g by (auto simp: length_hex_of hex_of_lower)
  qed
  have trace: "\<exists>i c'. generate_trace_id random c = Some (i, c') \<and> length i = 32 \<and> list_all lower_hex i \<and> i \<noteq> zeros 32" for c
  proof -
    obtain k where k: "take 8 (random (c + k)) \<noteq> replicate 8 0" using assms(2) by blast
    have "take 16 (random (c + k)) \<noteq> replicate 16 0"
    proof
      assume "take 16 (random (c + k)) = replicate 16 0"
      then have "take 8 (take 16 (random (c + k))) = take 8 (replicate 16 0)" by simp
      with k show False by simp
    qed
    then have "hex_of (take 16 (random (c + k))) \<noteq> zeros 32" by (simp add: z16)
    from generate_total [of "\<lambda>k. take 16 (random k)", OF this] obtain i c' where g: "generate_trace_id random c = Some (i, c')"
      by (auto simp: generate_trace_id_def)
    from generated_id [OF this [unfolded generate_trace_id_def]] obtain j where "i = hex_of (take 16 (random j))" "i \<noteq> zeros 32" by blast
    moreover have "length (take 16 (random j)) = 16" using assms(1) [rule_format, of j] by simp
    ultimately show ?thesis using g by (auto simp: length_hex_of hex_of_lower)
  qed
  show ?thesis
  proof (cases parent)
    case None
    obtain t c1 where t: "generate_trace_id random c = Some (t, c1)" "length t = 32" "list_all lower_hex t" "t \<noteq> zeros 32" using trace by blast
    obtain i c2 where "generate_span_id random c1 = Some (i, c2)" "length i = 16" "list_all lower_hex i" "i \<noteq> zeros 16" using span by blast
    with t None show ?thesis by (auto simp: start_span_def valid_context_def)
  next
    case (Some p)
    obtain i c2 where "generate_span_id random c = Some (i, c2)" "length i = 16" "list_all lower_hex i" "i \<noteq> zeros 16" using span by blast
    moreover have "sc_traceId p \<noteq> []" using assms(3) Some by (auto simp: valid_context_def)
    ultimately show ?thesis using assms(3) Some by (auto simp: start_span_def valid_context_def)
  qed
qed

theorem started_span_valid_witness:
  "\<exists>s c'. start_span (\<lambda>_. replicate 16 1) 0 ''call'' (Some demo_context) [] 0 = Some (s, c') \<and>
     sc_traceId (sp_context s) = sc_traceId demo_context"
  using started_span_valid [of "\<lambda>_. replicate 16 1" "Some demo_context" 0 "''call''" "[]" 0] demo_context_valid
  by (auto simp: numeral_eq_Suc)

text \<open>One hop of a call: the peer reads the header, starts its span and sends its own header on.\<close>

definition hop :: "(nat \<Rightarrow> bytes) \<Rightarrow> (int \<times> string) \<Rightarrow> (carrier \<times> nat) option \<Rightarrow> (carrier \<times> nat) option" where
  "hop random call r =
     (case r of None \<Rightarrow> None
      | Some (m, c) \<Rightarrow>
          map_option (\<lambda>(s, c). (inject_traceparent (sp_context s) [], c))
            (start_span random (fst call) (snd call) (extract_traceparent m) [] c))"

text \<open>
  A trace keeps its identity and its sampling decision over any number of peers.
\<close>
theorem trace_follows_hops:
  assumes "\<forall>k. length (random k) \<ge> 16" "\<forall>c. \<exists>k. take 8 (random (c + k)) \<noteq> replicate 8 0" "valid_context ctx"
  shows "\<exists>m c' ctx'. fold (hop random) calls (Some (inject_traceparent ctx m0, c)) = Some (m, c') \<and> extract_traceparent m = Some ctx' \<and>
     sc_traceId ctx' = sc_traceId ctx \<and> sc_sampled ctx' = sc_sampled ctx"
proof -
  have "\<exists>m c' ctx'. fold (hop random) calls (Some (m0, c)) = Some (m, c') \<and> extract_traceparent m = Some ctx' \<and> valid_context ctx' \<and>
     sc_traceId ctx' = sc_traceId ctx \<and> sc_sampled ctx' = sc_sampled ctx"
    if "extract_traceparent m0 = Some ctx1" "valid_context ctx1" "sc_traceId ctx1 = sc_traceId ctx" "sc_sampled ctx1 = sc_sampled ctx" for m0 c ctx1
    using that
  proof (induction calls arbitrary: m0 c ctx1)
    case Nil
    then show ?case by auto
  next
    case (Cons call calls)
    obtain s c' where s: "start_span random (fst call) (snd call) (Some ctx1) [] c = Some (s, c')" "valid_context (sp_context s)"
        "sc_traceId (sp_context s) = sc_traceId ctx1" "sc_sampled (sp_context s) = sc_sampled ctx1"
      using started_span_valid [OF assms(1,2), of "Some ctx1"] Cons.prems(2) by fastforce
    have "hop random call (Some (m0, c)) = Some (inject_traceparent (sp_context s) [], c')"
      by (simp add: hop_def Cons.prems(1) s(1))
    with Cons.IH [OF traceparent_roundtrip [OF s(2)] s(2)] s Cons.prems show ?case by simp
  qed
  from this [OF traceparent_roundtrip [OF assms(3)] assms(3)] show ?thesis by blast
qed

text \<open>
  Not every header of the standard is treated as it says: a version \<open>ff\<close>, which is forbidden, and
  identifiers of zeros under any version but \<open>00\<close> are accepted.
\<close>
theorem forbidden_headers_accepted:
  "parse_traceparent (Some (''ff-'' @ replicate 32 CHR ''a'' @ ''-'' @ replicate 16 CHR ''b'' @ ''-01'')) =
     Some \<lparr>sc_traceId = replicate 32 CHR ''a'', sc_spanId = replicate 16 CHR ''b'', sc_sampled = True\<rparr> \<and>
   parse_traceparent (Some (''01-'' @ zeros 32 @ ''-'' @ zeros 16 @ ''-00'')) =
     Some \<lparr>sc_traceId = zeros 32, sc_spanId = zeros 16, sc_sampled = False\<rparr>"
  by code_simp

section \<open>Properties of the logger\<close>

lemma nested_fields:
  "ll_events (fold (nested_log ts) ms s) = ll_events s" "ll_resumed (fold (nested_log ts) ms s) = ll_resumed s"
  "ll_isIntercepting (fold (nested_log ts) ms s) = ll_isIntercepting s" "ll_interceptor (fold (nested_log ts) ms s) = ll_interceptor s"
  "ll_level (fold (nested_log ts) ms s) = ll_level s"
  by (induction ms arbitrary: s) (simp_all add: nested_log_def)

text \<open>
  An interceptor is handed every line that passes the level once, and the lines it logs while it runs are
  written and not handed to it again, whatever they are; the guard is down after every call.
\<close>
theorem interceptor_not_reentered:
  assumes "ll_interceptor s = Some i" "\<not> ll_isIntercepting s"
  shows "ll_events (log_call ts l m s) =
       ll_events s @ (if should_log l s then [\<lparr>le_timestamp = ts, le_level = l, le_message = format_message ts (level_name l) m\<rparr>] else []) \<and>
     \<not> ll_isIntercepting (log_call ts l m s) \<and>
     (\<not> should_log l s \<longrightarrow> log_call ts l m s = s)"
  using assms by (simp add: log_call_def emit_to_interceptor_def Let_def nested_fields)

definition demo_logger :: logger where
  "demo_logger = \<lparr>ll_level = Infos, ll_interceptor = Some \<lparr>in_during = (\<lambda>_. [(Infos, ''seen'')]), in_later = (\<lambda>_. [(Infos, ''sent'')])\<rparr>,
     ll_isIntercepting = False, ll_lines = [], ll_events = [], ll_resumed = []\<rparr>"

theorem interceptor_not_reentered_witness: "length (ll_events (log_call ''t'' Infos ''m'' demo_logger)) = 1"
  using interceptor_not_reentered [of demo_logger "\<lparr>in_during = (\<lambda>_. [(Infos, ''seen'')]), in_later = (\<lambda>_. [(Infos, ''sent'')])\<rparr>" "''t''" Infos "''m''"]
  by (simp add: demo_logger_def should_log_def)

text \<open>
  The guard covers only what an interceptor does before its first \<open>await\<close>. One that logs a line after it
  is called again for that line, and so on: one log call leads to an event for every resumption, without end.
\<close>
theorem asynchronous_interceptor_loops:
  assumes "ll_interceptor s = Some i" "\<not> ll_isIntercepting s" "should_log l s" "ll_resumed s = []"
    and "\<forall>e. in_later i e = [(l, m)]"
  shows "length (ll_events (run log_step (log_call ts l m s) (replicate n (ts, Resume)))) = length (ll_events s) + Suc n"
proof -
  have call: "ll_interceptor (log_call ts l m u) = Some i \<and> \<not> ll_isIntercepting (log_call ts l m u) \<and> should_log l (log_call ts l m u) \<and>
      ll_resumed (log_call ts l m u) = ll_resumed u @ [(l, m)] \<and> length (ll_events (log_call ts l m u)) = Suc (length (ll_events u))"
    if "ll_interceptor u = Some i" "\<not> ll_isIntercepting u" "should_log l u" for u
    using that assms(5) by (simp add: log_call_def emit_to_interceptor_def Let_def nested_fields should_log_def)
  have "length (ll_events (run log_step u (replicate n (ts, Resume)))) = length (ll_events u) + n"
    if "ll_interceptor u = Some i" "\<not> ll_isIntercepting u" "should_log l u" "ll_resumed u = [(l, m)]" for u
    using that
  proof (induction n arbitrary: u)
    case (Suc n)
    let ?u = "u\<lparr>ll_resumed := []\<rparr>"
    have "log_step u (ts, Resume) = log_call ts l m ?u" using Suc.prems(4) by simp
    moreover have "should_log l ?u" using Suc.prems(3) by (simp add: should_log_def)
    ultimately show ?case using call [of ?u] Suc.prems(1,2) Suc.IH [of "log_call ts l m ?u"] by simp
  qed simp
  from this [of "log_call ts l m s"] call [OF assms(1-3)] assms(4) show ?thesis by simp
qed

theorem asynchronous_interceptor_loops_witness:
  "length (ll_events (run log_step (log_call ''t'' Infos ''sent'' demo_logger) (replicate 9 (''t'', Resume)))) = 10"
  using asynchronous_interceptor_loops [of demo_logger "\<lparr>in_during = (\<lambda>_. [(Infos, ''seen'')]), in_later = (\<lambda>_. [(Infos, ''sent'')])\<rparr>"
      Infos "''sent''" "''t''" 9]
  by (simp add: demo_logger_def should_log_def)

end
