(* ===== verification/Metrics_Registry.thy ===== *)
theory Metrics_Registry
  imports Js_Values Routing_Table
begin

text \<open>
  The metrics of a node (\<open>observability/metrics.ts\<close>): counters, gauges and histograms with labels, the registry
  and the text it exports. A metric is a record with a map from label keys to values; the registry owns the
  metrics by name, and a metric the code holds in a constant is addressed by that name here.

  The order of \<open>localeCompare\<close> is the parameter \<open>le\<close>, the printed form of a number the parameter \<open>num\<close>.
  Numbers are exact reals. \<open>process\<close> is a \<open>process_info\<close>.
\<close>

type_synonym labels = "(string \<times> string) list"

section \<open>Labels\<close>

definition escape_quotes :: "string \<Rightarrow> string" where
  "escape_quotes v = concat (map (\<lambda>c. if c = CHR 0x22 then [CHR 0x5C, CHR 0x22] else [c]) v)"

definition sort_labels :: "(string \<Rightarrow> string \<Rightarrow> bool) \<Rightarrow> labels \<Rightarrow> labels" where
  "sort_labels le ls = sort_by (\<lambda>a b. le (fst a) (fst b)) ls"

definition format_labels :: "(string \<Rightarrow> string \<Rightarrow> bool) \<Rightarrow> labels option \<Rightarrow> string" where
  "format_labels le labels =
     (case labels of
        Some (l # ls) \<Rightarrow>
          ''{'' @ join '','' (map (\<lambda>(k, v). k @ ''='' @ [CHR 0x22] @ escape_quotes v @ [CHR 0x22]) (sort_labels le (l # ls))) @ ''}''
      | _ \<Rightarrow> [])"

definition label_part :: "string \<times> string \<Rightarrow> string" where
  "label_part p = fst p @ '':'' @ snd p"

definition labels_to_key :: "(string \<Rightarrow> string \<Rightarrow> bool) \<Rightarrow> labels option \<Rightarrow> string" where
  "labels_to_key le labels = (case labels of None \<Rightarrow> [] | Some ls \<Rightarrow> join ''|'' (map label_part (sort_labels le ls)))"

section \<open>Counters and gauges\<close>

record sample =
  sa_value :: real
  sa_labels :: "labels option"

type_synonym samples = "(string, sample) js_map"

record metric =
  me_name :: string
  me_help :: string
  me_samples :: samples

definition current :: "string \<Rightarrow> labels option \<Rightarrow> samples \<Rightarrow> sample" where
  "current key labels m = (case map_of m key of Some e \<Rightarrow> e | None \<Rightarrow> \<lparr>sa_value = 0, sa_labels = labels\<rparr>)"

definition add_value :: "(string \<Rightarrow> string \<Rightarrow> bool) \<Rightarrow> labels option \<Rightarrow> real \<Rightarrow> metric \<Rightarrow> metric" where
  "add_value le labels v m =
     (let key = labels_to_key le labels; e = current key labels (me_samples m) in
      m\<lparr>me_samples := AList.update key (e\<lparr>sa_value := sa_value e + v\<rparr>) (me_samples m)\<rparr>)"

text \<open>\<open>Counter.inc\<close>; \<open>None\<close> is the exception of a negative increment.\<close>

definition counter_inc :: "(string \<Rightarrow> string \<Rightarrow> bool) \<Rightarrow> labels option \<Rightarrow> real \<Rightarrow> metric \<Rightarrow> metric option" where
  "counter_inc le labels v m = (if v < 0 then None else Some (add_value le labels v m))"

definition metric_get :: "(string \<Rightarrow> string \<Rightarrow> bool) \<Rightarrow> labels option \<Rightarrow> metric \<Rightarrow> real" where
  "metric_get le labels m = (case map_of (me_samples m) (labels_to_key le labels) of Some e \<Rightarrow> sa_value e | None \<Rightarrow> 0)"

definition metric_reset :: "metric \<Rightarrow> metric" where
  "metric_reset m = m\<lparr>me_samples := []\<rparr>"

definition gauge_set :: "(string \<Rightarrow> string \<Rightarrow> bool) \<Rightarrow> labels option \<Rightarrow> real \<Rightarrow> metric \<Rightarrow> metric" where
  "gauge_set le labels v m =
     m\<lparr>me_samples := AList.update (labels_to_key le labels) \<lparr>sa_value = v, sa_labels = labels\<rparr> (me_samples m)\<rparr>"

definition gauge_inc :: "(string \<Rightarrow> string \<Rightarrow> bool) \<Rightarrow> labels option \<Rightarrow> real \<Rightarrow> metric \<Rightarrow> metric" where
  "gauge_inc le labels v m = add_value le labels v m"

definition gauge_dec :: "(string \<Rightarrow> string \<Rightarrow> bool) \<Rightarrow> labels option \<Rightarrow> real \<Rightarrow> metric \<Rightarrow> metric" where
  "gauge_dec le labels v m = add_value le labels (- v) m"

definition metric_lines :: "(string \<Rightarrow> string \<Rightarrow> bool) \<Rightarrow> (real \<Rightarrow> string) \<Rightarrow> string \<Rightarrow> metric \<Rightarrow> string list" where
  "metric_lines le num kind m =
     [''# HELP '' @ me_name m @ '' '' @ me_help m, ''# TYPE '' @ me_name m @ '' '' @ kind] @
     (if me_samples m = [] then [me_name m @ '' 0'']
      else map (\<lambda>(_, e). me_name m @ format_labels le (sa_labels e) @ '' '' @ num (sa_value e)) (me_samples m))"

section \<open>Histograms\<close>

record observation =
  ob_count :: nat
  ob_sum :: real
  ob_bucketCounts :: "(real, nat) js_map"
  ob_labels :: "labels option"

record histogram =
  hi_name :: string
  hi_help :: string
  hi_buckets :: "real list"
  hi_observations :: "(string, observation) js_map"

definition DEFAULT_BUCKETS :: "real list" where
  "DEFAULT_BUCKETS = [5, 10, 25, 50, 100, 250, 500, 1000, 2500, 5000, 10000]"

definition new_histogram :: "string \<Rightarrow> string \<Rightarrow> real list option \<Rightarrow> histogram" where
  "new_histogram name help buckets =
     \<lparr>hi_name = name, hi_help = help, hi_buckets = sort_by (\<le>) (case buckets of Some b \<Rightarrow> b | None \<Rightarrow> DEFAULT_BUCKETS),
      hi_observations = []\<rparr>"

definition bucket_count :: "observation \<Rightarrow> real \<Rightarrow> nat" where
  "bucket_count e b = (case map_of (ob_bucketCounts e) b of Some n \<Rightarrow> n | None \<Rightarrow> 0)"

text \<open>The map from buckets to zero: a bucket given twice has one entry.\<close>

definition empty_buckets :: "real list \<Rightarrow> (real, nat) js_map" where
  "empty_buckets bs = fold (\<lambda>b m. AList.update b 0 m) bs []"

definition observe :: "(string \<Rightarrow> string \<Rightarrow> bool) \<Rightarrow> labels option \<Rightarrow> real \<Rightarrow> histogram \<Rightarrow> histogram" where
  "observe le labels val h =
     (let key = labels_to_key le labels;
          e = (case map_of (hi_observations h) key of
                 Some e \<Rightarrow> e
               | None \<Rightarrow> \<lparr>ob_count = 0, ob_sum = 0, ob_bucketCounts = empty_buckets (hi_buckets h), ob_labels = labels\<rparr>);
          counts = fold (\<lambda>b m. if val \<le> b then AList.update b ((case map_of m b of Some n \<Rightarrow> n | None \<Rightarrow> 0) + 1) m else m)
                     (hi_buckets h) (ob_bucketCounts e) in
      h\<lparr>hi_observations := AList.update key
          (e\<lparr>ob_count := ob_count e + 1, ob_sum := ob_sum e + val, ob_bucketCounts := counts\<rparr>) (hi_observations h)\<rparr>)"

definition histogram_reset :: "histogram \<Rightarrow> histogram" where
  "histogram_reset h = h\<lparr>hi_observations := []\<rparr>"

definition with_label :: "labels option \<Rightarrow> string \<Rightarrow> string \<Rightarrow> labels option" where
  "with_label labels k v = Some (AList.update k v (case labels of Some ls \<Rightarrow> ls | None \<Rightarrow> []))"

definition observation_lines ::
    "(string \<Rightarrow> string \<Rightarrow> bool) \<Rightarrow> (real \<Rightarrow> string) \<Rightarrow> histogram \<Rightarrow> observation \<Rightarrow> string list" where
  "observation_lines le num h e =
     (let base = Some (case ob_labels e of Some ls \<Rightarrow> ls | None \<Rightarrow> []) in
      map (\<lambda>b. hi_name h @ ''_bucket'' @ format_labels le (with_label base ''le'' (num b)) @ '' '' @ num (real (bucket_count e b))) (hi_buckets h) @
      [hi_name h @ ''_bucket'' @ format_labels le (with_label base ''le'' ''+Inf'') @ '' '' @ num (real (ob_count e)),
       hi_name h @ ''_sum'' @ format_labels le base @ '' '' @ num (ob_sum e),
       hi_name h @ ''_count'' @ format_labels le base @ '' '' @ num (real (ob_count e))])"

definition histogram_lines :: "(string \<Rightarrow> string \<Rightarrow> bool) \<Rightarrow> (real \<Rightarrow> string) \<Rightarrow> histogram \<Rightarrow> string list" where
  "histogram_lines le num h =
     [''# HELP '' @ hi_name h @ '' '' @ hi_help h, ''# TYPE '' @ hi_name h @ '' histogram''] @
     (if hi_observations h = [] then [hi_name h @ ''_count 0'', hi_name h @ ''_sum 0'']
      else concat (map (\<lambda>(_, e). observation_lines le num h e) (hi_observations h)))"

section \<open>The registry\<close>

record metrics_registry =
  mr_counters :: "(string, metric) js_map"
  mr_gauges :: "(string, metric) js_map"
  mr_histograms :: "(string, histogram) js_map"

definition metric_named :: "(string, metric) js_map \<Rightarrow> string \<Rightarrow> string \<Rightarrow> metric" where
  "metric_named m name help =
     (case map_of m name of Some c \<Rightarrow> c | None \<Rightarrow> \<lparr>me_name = name, me_help = help, me_samples = []\<rparr>)"

definition counter :: "string \<Rightarrow> string \<Rightarrow> metrics_registry \<Rightarrow> metrics_registry" where
  "counter name help r = r\<lparr>mr_counters := AList.update name (metric_named (mr_counters r) name help) (mr_counters r)\<rparr>"

definition gauge :: "string \<Rightarrow> string \<Rightarrow> metrics_registry \<Rightarrow> metrics_registry" where
  "gauge name help r = r\<lparr>mr_gauges := AList.update name (metric_named (mr_gauges r) name help) (mr_gauges r)\<rparr>"

definition histogram_of :: "string \<Rightarrow> string \<Rightarrow> real list option \<Rightarrow> metrics_registry \<Rightarrow> metrics_registry" where
  "histogram_of name help buckets r =
     r\<lparr>mr_histograms := AList.update name
        (case map_of (mr_histograms r) name of Some h \<Rightarrow> h | None \<Rightarrow> new_histogram name help buckets) (mr_histograms r)\<rparr>"

record memory_usage =
  mu_rss :: real
  mu_heapUsed :: real
  mu_heapTotal :: real
  mu_external :: real

record process_info =
  pi_uptime :: real
  pi_memory :: "memory_usage option"

definition set_gauge :: "(string \<Rightarrow> string \<Rightarrow> bool) \<Rightarrow> string \<Rightarrow> string \<Rightarrow> real \<Rightarrow> metrics_registry \<Rightarrow> metrics_registry" where
  "set_gauge le name help v r =
     r\<lparr>mr_gauges := AList.update name (gauge_set le None v (metric_named (mr_gauges r) name help)) (mr_gauges r)\<rparr>"

definition collect_process_metrics ::
    "(string \<Rightarrow> string \<Rightarrow> bool) \<Rightarrow> process_info \<Rightarrow> metrics_registry \<Rightarrow> metrics_registry" where
  "collect_process_metrics le p r =
     (let r = set_gauge le ''liop_process_uptime_seconds'' ''Process uptime in seconds'' (of_int \<lfloor>pi_uptime p\<rfloor>) r;
          r = set_gauge le ''liop_node_health_status''
                ''Operational health status of the LIOP node (1 = healthy, 0 = degraded)'' 1 r in
      case pi_memory p of
        None \<Rightarrow> r
      | Some m \<Rightarrow>
          set_gauge le ''liop_process_memory_external_bytes'' ''External memory bound to C++ objects and buffers in bytes'' (mu_external m)
            (set_gauge le ''liop_process_memory_heap_total_bytes'' ''Total V8 allocated heap memory in bytes'' (mu_heapTotal m)
              (set_gauge le ''liop_process_memory_heap_used_bytes'' ''Heap memory used in bytes'' (mu_heapUsed m)
                (set_gauge le ''liop_process_memory_rss_bytes'' ''Resident set size memory in bytes'' (mu_rss m) r))))"

definition export_lines :: "(string \<Rightarrow> string \<Rightarrow> bool) \<Rightarrow> (real \<Rightarrow> string) \<Rightarrow> metrics_registry \<Rightarrow> string list" where
  "export_lines le num r =
     concat (map (\<lambda>(_, c). metric_lines le num ''counter'' c) (mr_counters r)) @
     concat (map (\<lambda>(_, g). metric_lines le num ''gauge'' g) (mr_gauges r)) @
     concat (map (\<lambda>(_, h). histogram_lines le num h) (mr_histograms r))"

definition export_prometheus_text ::
    "(string \<Rightarrow> string \<Rightarrow> bool) \<Rightarrow> (real \<Rightarrow> string) \<Rightarrow> process_info \<Rightarrow> metrics_registry \<Rightarrow> metrics_registry \<times> string" where
  "export_prometheus_text le num p r =
     (let r = collect_process_metrics le p r in (r, join [CHR 0x0A] (export_lines le num r @ [[]])))"

definition reset_all :: "metrics_registry \<Rightarrow> metrics_registry" where
  "reset_all r =
     r\<lparr>mr_counters := map (\<lambda>(n, c). (n, metric_reset c)) (mr_counters r), mr_gauges := map (\<lambda>(n, g). (n, metric_reset g)) (mr_gauges r),
       mr_histograms := map (\<lambda>(n, h). (n, histogram_reset h)) (mr_histograms r)\<rparr>"

text \<open>\<open>protocolMetrics\<close>\<close>

definition PROTOCOL_COUNTERS :: "(string \<times> string) list" where
  "PROTOCOL_COUNTERS =
     [(''liop_tool_calls_total'', ''Total number of tool logic-injection executions''),
      (''liop_tool_call_errors_total'', ''Total number of failed tool logic-injection executions or policy rejections''),
      (''liop_egress_blocks_total'', ''Total number of outputs blocked by Egress Shield''),
      (''liop_zk_verifications_total'', ''Total number of ZK-Receipt cryptographic attestation checks''),
      (''liop_zk_proofs_by_type_total'', ''Total number of verified ZK receipts partitioned by proof type (groth16, hmac)''),
      (''liop_tokens_input_total'', ''Total BPE input tokens processed by LIOP''),
      (''liop_tokens_output_total'', ''Total BPE output tokens emitted by LIOP''),
      (''liop_tokens_saved_total'', ''Estimated tokens saved compared to MCP context-pulling baseline''),
      (''liop_pqc_handshakes_total'', ''Total number of ML-KEM-768 key encapsulation operations''),
      (''liop_wire_egress_bytes_total'', ''Total wire egress bytes emitted by logic executions''),
      (''liop_wire_saved_bytes_total'', ''Estimated wire egress bytes saved compared to MCP context extraction baseline'')]"

definition PROTOCOL_GAUGES :: "(string \<times> string) list" where
  "PROTOCOL_GAUGES =
     [(''liop_mesh_peers_connected'', ''Active peer connections in the P2P mesh''),
      (''liop_manifest_cache_size'', ''Number of verified remote tool manifests in cache''),
      (''liop_zk_vkey_cache_size'', ''Number of registered verification keys in memory cache'')]"

definition PROTOCOL_HISTOGRAMS :: "(string \<times> string \<times> real list) list" where
  "PROTOCOL_HISTOGRAMS =
     [(''liop_fuel_consumed_total'', ''Deterministic fuel units consumed by injected logic'', [100, 500, 1000, 2500, 5000, 10000, 50000, 100000]),
      (''liop_zk_verification_duration_ms'', ''Duration of ZK-Receipt and HMAC cryptographic attestation in ms'',
         [1, 2, 5, 10, 25, 50, 100, 250, 500]),
      (''liop_zk_proving_duration_ms'', ''Duration of native ZK proof generation in ms'', [10, 25, 50, 100, 250, 500, 1000, 2500]),
      (''liop_operation_duration_ms'', ''End-to-end operation duration in ms'', [5, 15, 30, 50, 100, 250, 500, 1000, 2500, 5000]),
      (''liop_pqc_handshake_duration_ms'', ''Duration of ML-KEM-768 post-quantum cryptographic key encapsulation in ms'',
         [1, 5, 10, 25, 50, 100, 250, 500])]"

definition protocol_metrics :: metrics_registry where
  "protocol_metrics =
     fold (\<lambda>(n, h, b). histogram_of n h (Some b)) PROTOCOL_HISTOGRAMS
       (fold (\<lambda>(n, h). gauge n h) PROTOCOL_GAUGES
         (fold (\<lambda>(n, h). counter n h) PROTOCOL_COUNTERS \<lparr>mr_counters = [], mr_gauges = [], mr_histograms = []\<rparr>))"

section \<open>Counters\<close>

primrec increments :: "(string \<Rightarrow> string \<Rightarrow> bool) \<Rightarrow> (labels option \<times> real) list \<Rightarrow> metric \<Rightarrow> metric" where
  "increments le [] m = m"
| "increments le (i # is) m = increments le is (case counter_inc le (fst i) (snd i) m of Some m \<Rightarrow> m | None \<Rightarrow> m)"

lemma get_add_value:
  "metric_get le l (add_value le l' v m) = metric_get le l m + (if labels_to_key le l = labels_to_key le l' then v else 0)"
  by (simp add: metric_get_def add_value_def current_def Let_def liop_simps split: option.splits)

text \<open>
  A counter is exact: after any increments, some of them refused as negative, it shows for every label set
  what it showed before and the sum of the accepted increments with the same key; so it never falls.
\<close>
theorem counter_exact:
  "metric_get le l (increments le is m) =
     metric_get le l m + sum_list (map snd (filter (\<lambda>i. 0 \<le> snd i \<and> labels_to_key le (fst i) = labels_to_key le l) is)) \<and>
   metric_get le l m \<le> metric_get le l (increments le is m)"
proof -
  have sum: "metric_get le l (increments le is m) =
     metric_get le l m + sum_list (map snd (filter (\<lambda>i. 0 \<le> snd i \<and> labels_to_key le (fst i) = labels_to_key le l) is))"
    by (induction "is" arbitrary: m) (auto simp: counter_inc_def get_add_value)
  moreover have "0 \<le> sum_list (map snd (filter (\<lambda>i. 0 \<le> snd i \<and> labels_to_key le (fst i) = labels_to_key le l) is))"
    by (rule sum_list_nonneg) auto
  ultimately show ?thesis by simp
qed

lemma join_inject:
  assumes "c \<notin> \<Union> (set ` set xs)" "c \<notin> \<Union> (set ` set ys)" "xs \<noteq> []" "ys \<noteq> []" "join [c] xs = join [c] ys"
  shows "xs = ys"
proof -
  have split: "split_on c (join [c] ws) = ws" if "ws \<noteq> []" "c \<notin> \<Union> (set ` set ws)" for ws
    using that
  proof (induction "[c]" ws rule: join.induct)
    case (2 w)
    then show ?case by (induction w) auto
  next
    case (3 w v vs)
    have "split_on c (u @ c # r) = u # split_on c r" if "c \<notin> set u" for u r
      using that by (induction u) auto
    then show ?case using 3 by simp
  qed simp
  show ?thesis using split [of xs] split [of ys] assms by metis
qed

lemma label_part_inject:
  "CHR '':'' \<notin> set (fst p) \<Longrightarrow> CHR '':'' \<notin> set (fst q) \<Longrightarrow> label_part p = label_part q \<Longrightarrow> p = q"
proof -
  assume a: "CHR '':'' \<notin> set (fst p)" "CHR '':'' \<notin> set (fst q)" "label_part p = label_part q"
  have head: "takeWhile (\<lambda>c. c \<noteq> CHR '':'') (label_part r) = fst r" if "CHR '':'' \<notin> set (fst r)" for r
    using that unfolding label_part_def by (subst takeWhile_append2) auto
  have "fst p = fst q" using head [OF a(1)] head [OF a(2)] a(3) by simp
  then show "p = q" using a(3) by (simp add: label_part_def prod_eq_iff)
qed

text \<open>
  Label sets are kept apart as long as no bar occurs in them and no colon in a label name: equal keys then
  mean the same labels. A bar in a value makes two different label sets one.
\<close>
theorem label_keys_separate:
  assumes "ls \<noteq> []" "ls' \<noteq> []" "\<forall>p \<in> set ls \<union> set ls'. CHR ''|'' \<notin> set (fst p) \<union> set (snd p) \<and> CHR '':'' \<notin> set (fst p)"
  shows "labels_to_key le (Some ls) = labels_to_key le (Some ls') \<longleftrightarrow> sort_labels le ls = sort_labels le ls'"
proof
  have same: "set (sort_labels le ms) = set ms" for ms by (metis set_mset_mset sort_by_mset sort_labels_def)
  then have nonempty: "ms \<noteq> [] \<Longrightarrow> sort_labels le ms \<noteq> []" for ms by (metis empty_set set_empty)
  assume "labels_to_key le (Some ls) = labels_to_key le (Some ls')"
  then have "join ''|'' (map label_part (sort_labels le ls)) = join ''|'' (map label_part (sort_labels le ls'))"
    by (simp add: labels_to_key_def)
  moreover have "CHR ''|'' \<notin> \<Union> (set ` set (map label_part (sort_labels le ms)))" if "ms = ls \<or> ms = ls'" for ms
    using assms(3) that by (auto simp: label_part_def same)
  ultimately have "map label_part (sort_labels le ls) = map label_part (sort_labels le ls')"
    using nonempty [OF assms(1)] nonempty [OF assms(2)] by (intro join_inject [of "CHR ''|''"]) auto
  moreover have "inj_on label_part (set (sort_labels le ls) \<union> set (sort_labels le ls'))"
    using assms(3) label_part_inject unfolding inj_on_def same by blast
  ultimately show "sort_labels le ls = sort_labels le ls'" by (simp add: inj_on_map_eq_map)
qed (simp add: labels_to_key_def)

theorem label_keys_separate_witness:
  "labels_to_key (\<lambda>_ _. True) (Some [(''tool'', ''a'')]) \<noteq> labels_to_key (\<lambda>_ _. True) (Some [(''tool'', ''b'')])"
  using label_keys_separate [of "[(''tool'', ''a'')]" "[(''tool'', ''b'')]" "\<lambda>_ _. True"] by (simp add: sort_labels_def)

lemma label_bar_merges:
  "le ''status'' ''tool'' \<Longrightarrow>
     labels_to_key le (Some [(''status'', ''error''), (''tool'', ''sum'')]) = labels_to_key le (Some [(''status'', ''error|tool:sum'')])"
  by (simp add: labels_to_key_def sort_labels_def label_part_def)

section \<open>Histograms\<close>

definition observations :: "(string \<Rightarrow> string \<Rightarrow> bool) \<Rightarrow> (labels option \<times> real) list \<Rightarrow> histogram \<Rightarrow> histogram" where
  "observations le os h = fold (\<lambda>(l, v). observe le l v) os h"

definition with_key :: "(string \<Rightarrow> string \<Rightarrow> bool) \<Rightarrow> string \<Rightarrow> (labels option \<times> real) list \<Rightarrow> real list" where
  "with_key le key os = map snd (filter (\<lambda>q. labels_to_key le (fst q) = key) os)"

lemma with_key_snoc [simp]:
  "with_key le key (os @ [q]) = with_key le key os @ (if labels_to_key le (fst q) = key then [snd q] else [])"
  by (simp add: with_key_def)

definition counts_of :: "observation \<Rightarrow> real list \<Rightarrow> real list \<Rightarrow> bool" where
  "counts_of e bs vs \<longleftrightarrow>
     ob_count e = length vs \<and> ob_sum e = sum_list vs \<and> (\<forall>b \<in> set bs. bucket_count e b = length (filter (\<lambda>v. v \<le> b) vs))"

lemma fold_buckets:
  fixes val :: real
  assumes "distinct bs"
  shows "map_of (fold (\<lambda>b m. if val \<le> b then AList.update b ((case map_of m b of Some n \<Rightarrow> n | None \<Rightarrow> 0) + 1) m else m) bs m) b =
     (if b \<in> set bs \<and> val \<le> b then Some ((case map_of m b of Some n \<Rightarrow> n | None \<Rightarrow> (0 :: nat)) + 1) else map_of m b)"
  using assms by (induction bs arbitrary: m) (auto simp: liop_simps)

lemma empty_buckets_zero: "(case map_of (empty_buckets bs) b of Some n \<Rightarrow> n | None \<Rightarrow> 0) = 0"
proof -
  have "(case map_of (fold (\<lambda>b m. AList.update b 0 m) bs m) b of Some n \<Rightarrow> n | None \<Rightarrow> 0) = (0 :: nat)"
    if "(case map_of m b of Some n \<Rightarrow> n | None \<Rightarrow> 0) = (0 :: nat)" for m
    using that by (induction bs arbitrary: m) (auto simp: liop_simps)
  from this [of "[]"] show ?thesis by (simp add: empty_buckets_def)
qed

lemma observations_counts:
  assumes "distinct (hi_buckets h)" "hi_observations h = []"
  shows "hi_buckets (observations le os h) = hi_buckets h \<and>
     (case map_of (hi_observations (observations le os h)) key of
        None \<Rightarrow> with_key le key os = []
      | Some e \<Rightarrow> counts_of e (hi_buckets h) (with_key le key os))"
proof (induction os arbitrary: key rule: rev_induct)
  case Nil
  then show ?case using assms(2) by (simp add: observations_def with_key_def)
next
  case (snoc q os)
  define g where "g = observations le os h"
  have step: "observations le (os @ [q]) h = observe le (fst q) (snd q) g"
    by (simp add: observations_def g_def case_prod_unfold)
  have g: "hi_buckets g = hi_buckets h" "case map_of (hi_observations g) k of None \<Rightarrow> with_key le k os = []
      | Some e \<Rightarrow> counts_of e (hi_buckets h) (with_key le k os)" for k
    using snoc.IH unfolding g_def by blast+
  let ?k = "labels_to_key le (fst q)"
  define e where "e = (case map_of (hi_observations g) ?k of Some e \<Rightarrow> e
      | None \<Rightarrow> \<lparr>ob_count = 0, ob_sum = 0, ob_bucketCounts = empty_buckets (hi_buckets g), ob_labels = fst q\<rparr>)"
  have e: "counts_of e (hi_buckets h) (with_key le ?k os)"
    using g(2) [of ?k] empty_buckets_zero [of "hi_buckets g"]
    by (auto simp: e_def counts_of_def bucket_count_def split: option.splits)
  define e' where "e' = e\<lparr>ob_count := ob_count e + 1, ob_sum := ob_sum e + snd q, ob_bucketCounts :=
      fold (\<lambda>b m. if snd q \<le> b then AList.update b ((case map_of m b of Some n \<Rightarrow> n | None \<Rightarrow> 0) + 1) m else m) (hi_buckets g) (ob_bucketCounts e)\<rparr>"
  have e': "counts_of e' (hi_buckets h) (with_key le ?k os @ [snd q])"
    using e g(1) assms(1) by (auto simp: counts_of_def e'_def bucket_count_def fold_buckets)
  have obs: "observe le (fst q) (snd q) g = g\<lparr>hi_observations := AList.update ?k e' (hi_observations g)\<rparr>"
    by (simp add: observe_def Let_def e_def e'_def)
  show ?case
    unfolding step obs using g(1) g(2) [of key] e' by (auto simp: liop_simps split: option.splits)
qed

text \<open>
  A histogram is exact. With distinct bounds, after any observations the series of a label set counts them
  all, sums them, and each bucket counts those not above its bound; so a larger bound never shows less and no
  bucket shows more than the total.
\<close>
theorem histogram_exact:
  assumes "distinct (hi_buckets h)" "hi_observations h = []" "map_of (hi_observations (observations le os h)) key = Some e"
  shows "counts_of e (hi_buckets h) (with_key le key os) \<and>
     (\<forall>b \<in> set (hi_buckets h). bucket_count e b \<le> ob_count e \<and> (\<forall>b' \<in> set (hi_buckets h). b \<le> b' \<longrightarrow> bucket_count e b \<le> bucket_count e b'))"
proof -
  have c: "counts_of e (hi_buckets h) (with_key le key os)"
    using observations_counts [OF assms(1,2), of le os key] assms(3) by simp
  moreover have "length (filter (\<lambda>v. v \<le> b) vs) \<le> length (filter (\<lambda>v. v \<le> b') vs)" if "b \<le> b'" for b b' :: real and vs
    using that by (induction vs) auto
  ultimately show ?thesis by (auto simp: counts_of_def)
qed

theorem histogram_exact_witness:
  "\<exists>e. map_of (hi_observations (observations (\<lambda>_ _. True) [(None, 7), (None, 30)] (new_histogram ''h'' ''t'' None))) [] = Some e \<and>
     bucket_count e 10 = 1 \<and> bucket_count e 25 = 1 \<and> bucket_count e 50 = 2 \<and> ob_count e = 2"
proof -
  let ?h = "new_histogram ''h'' ''t'' None"
  have h: "distinct (hi_buckets ?h)" "hi_observations ?h = []" by (simp_all add: new_histogram_def DEFAULT_BUCKETS_def)
  obtain e where e: "map_of (hi_observations (observations (\<lambda>_ _. True) [(None, 7), (None, 30)] ?h)) [] = Some e"
    by (simp add: observations_def observe_def labels_to_key_def Let_def new_histogram_def liop_simps)
  have "counts_of e (hi_buckets ?h) [7, 30]"
    using histogram_exact [OF h e] by (simp add: with_key_def labels_to_key_def)
  then have "bucket_count e 10 = 1 \<and> bucket_count e 25 = 1 \<and> bucket_count e 50 = 2 \<and> ob_count e = 2"
    by (simp add: counts_of_def new_histogram_def DEFAULT_BUCKETS_def)
  with e show ?thesis by blast
qed

section \<open>The exported text\<close>

lemma split_on_tail: "\<exists>us. split_on c (u @ c # r) = us @ split_on c r \<and> us \<noteq> []"
proof (induction u)
  case (Cons x u)
  then obtain v vs where "split_on c (u @ c # r) = (v # vs) @ split_on c r" by (metis neq_Nil_conv)
  then show ?case by (cases "x = c") (auto intro: exI [of _ "[] # v # vs"] exI [of _ "(x # v) # vs"])
qed auto

lemma split_on_inner_line: "c \<notin> set w \<Longrightarrow> w \<in> set (split_on c (u @ c # w @ c # r))"
proof -
  assume "c \<notin> set w"
  then have "split_on c (w @ c # r) = w # split_on c r" by (induction w) auto
  then show ?thesis using split_on_tail [of c u "w @ c # r"] by auto
qed

lemma join_infix: "w \<in> set ws \<Longrightarrow> \<exists>u v. join sep ws = u @ w @ v"
proof (induction sep ws rule: join.induct)
  case (2 sep w')
  then show ?case by (intro exI [of _ "[]"]) simp
next
  case (3 sep w' v vs)
  show ?case
  proof (cases "w = w'")
    case True
    then show ?thesis by (auto intro: exI [of _ "[]"])
  next
    case False
    then obtain u z where "join sep (v # vs) = u @ w @ z" using 3 by auto
    then have "join sep (w' # v # vs) = (w' @ sep @ u) @ w @ z" by simp
    then show ?thesis by blast
  qed
qed auto

lemma escape_append: "escape_quotes (a @ b) = escape_quotes a @ escape_quotes b"
  by (simp add: escape_quotes_def)

lemma escape_plain: "CHR 0x22 \<notin> set w \<Longrightarrow> escape_quotes w = w"
  unfolding escape_quotes_def by (induction w) auto

lemma format_infix:
  assumes "(k, v) \<in> set ls"
  shows "\<exists>u z. format_labels le (Some ls) = u @ escape_quotes v @ z"
proof -
  obtain l ms where ls: "ls = l # ms" using assms by (cases ls) auto
  have "(k, v) \<in> set (sort_labels le ls)" using assms by (metis set_mset_mset sort_by_mset sort_labels_def)
  then have "k @ ''='' @ [CHR 0x22] @ escape_quotes v @ [CHR 0x22] \<in>
      set (map (\<lambda>(k, v). k @ ''='' @ [CHR 0x22] @ escape_quotes v @ [CHR 0x22]) (sort_labels le ls))" by force
  from join_infix [OF this, of "'',''"] obtain u z where
    "join '','' (map (\<lambda>(k, v). k @ ''='' @ [CHR 0x22] @ escape_quotes v @ [CHR 0x22]) (sort_labels le ls)) =
       u @ (k @ ''='' @ [CHR 0x22] @ escape_quotes v @ [CHR 0x22]) @ z" by blast
  then show ?thesis unfolding format_labels_def ls list.case option.case
    by (intro exI [of _ "''{'' @ u @ k @ ''='' @ [CHR 0x22]"] exI [of _ "[CHR 0x22] @ z @ ''}''"]) simp
qed

lemma counter_lines_exported:
  assumes "(name, c) \<in> set (mr_counters r)" "l \<in> set (metric_lines le num ''counter'' c)"
  shows "\<exists>u z. snd (export_prometheus_text le num p r) = u @ l @ z"
proof -
  have "mr_counters (collect_process_metrics le p r) = mr_counters r"
    by (simp add: collect_process_metrics_def set_gauge_def Let_def split: option.split)
  then have "l \<in> set (export_lines le num (collect_process_metrics le p r) @ [[]])"
    using assms by (fastforce simp: export_lines_def)
  from join_infix [OF this] show ?thesis by (simp add: export_prometheus_text_def Let_def)
qed

text \<open>
  The exported text can be forged. A label value is printed with its line ends, so a value with a line
  between two line ends, such as the capability a remote client negotiates, puts that line into the text any
  scraper reads.
\<close>
theorem metrics_text_forged:
  assumes "(name, c) \<in> set (mr_counters r)" "(key, e) \<in> set (me_samples c)" "sa_labels e = Some ls" "(k, v) \<in> set ls"
    and "v = a @ [CHR 0x0A] @ forged @ [CHR 0x0A] @ b" "CHR 0x0A \<notin> set forged" "CHR 0x22 \<notin> set forged"
  shows "forged \<in> set (split_on (CHR 0x0A) (snd (export_prometheus_text le num p r)))"
proof -
  let ?l = "me_name c @ format_labels le (sa_labels e) @ '' '' @ num (sa_value e)"
  have "?l \<in> set (metric_lines le num ''counter'' c)" using assms(2) by (force simp: metric_lines_def)
  from counter_lines_exported [OF assms(1) this] obtain u z where whole: "snd (export_prometheus_text le num p r) = u @ ?l @ z" by blast
  obtain u' z' where "format_labels le (Some ls) = u' @ escape_quotes v @ z'" using format_infix [OF assms(4)] by blast
  moreover have "escape_quotes v = escape_quotes a @ CHR 0x0A # forged @ CHR 0x0A # escape_quotes b"
    using escape_plain [OF assms(7)] escape_plain [of "[CHR 0x0A]"] by (simp add: assms(5) escape_append) (simp add: escape_quotes_def)
  ultimately have "snd (export_prometheus_text le num p r) =
      (u @ me_name c @ u' @ escape_quotes a) @ CHR 0x0A # forged @ CHR 0x0A # (escape_quotes b @ z' @ '' '' @ num (sa_value e) @ z)"
    using whole assms(3) by simp
  then show ?thesis using split_on_inner_line [OF assms(6)] by metis
qed

theorem metrics_text_forged_witness:
  "''liop_node_health_status 0'' \<in> set (split_on (CHR 0x0A) (snd (export_prometheus_text (\<lambda>_ _. True) (\<lambda>_. ''1'') \<lparr>pi_uptime = 0, pi_memory = None\<rparr>
     \<lparr>mr_counters = [(''c'', add_value (\<lambda>_ _. True) (Some [(''capability'', [CHR 0x0A] @ ''liop_node_health_status 0'' @ [CHR 0x0A])]) 1
        \<lparr>me_name = ''c'', me_help = ''h'', me_samples = []\<rparr>)], mr_gauges = [], mr_histograms = []\<rparr>)))"
proof (rule metrics_text_forged [where a = "[]" and b = "[]"])
  let ?v = "[CHR 0x0A] @ ''liop_node_health_status 0'' @ [CHR 0x0A]"
  let ?c = "add_value (\<lambda>_ _. True) (Some [(''capability'', ?v)]) 1 \<lparr>me_name = ''c'', me_help = ''h'', me_samples = []\<rparr>"
  show "(''c'', ?c) \<in> set (mr_counters \<lparr>mr_counters = [(''c'', ?c)], mr_gauges = [], mr_histograms = []\<rparr>)" by simp
  show "(labels_to_key (\<lambda>_ _. True) (Some [(''capability'', ?v)]), \<lparr>sa_value = 1, sa_labels = Some [(''capability'', ?v)]\<rparr>) \<in> set (me_samples ?c)"
    by (simp add: add_value_def current_def Let_def)
qed (simp_all, simp)

text \<open>
  Every label set seen once stays: the number of series a counter holds is the number of different keys it
  was ever given, with no bound.
\<close>
theorem series_never_dropped:
  "fst ` set (me_samples (increments le is m)) = fst ` set (me_samples m) \<union> (\<lambda>i. labels_to_key le (fst i)) ` set (filter (\<lambda>i. 0 \<le> snd i) is)"
proof (induction "is" arbitrary: m)
  case (Cons i "is")
  have "fst ` set (me_samples (add_value le l v m)) = insert (labels_to_key le l) (fst ` set (me_samples m))" for l v
    by (simp add: add_value_def Let_def dom_map_of_conv_image_fst [symmetric] update_conv')
  then show ?case using Cons.IH by (auto simp: counter_inc_def)
qed simp

end
