(* ===== verification/Token_Economy.thy ===== *)
theory Token_Economy
  imports Metrics_Registry Json_Text
begin

text \<open>
  Token accounting: the estimators (\<open>economy/estimator.ts\<close>), the emitter of \<open>gen_ai\<close> metrics
  (\<open>economy/otel.ts\<close>) and the telemetry engine (\<open>economy/telemetry.ts\<close>) with its reports, over the metrics of
  \<open>Metrics_Registry\<close>. The tokenizer is a function that may raise. The status block is the data of its lines;
  the box characters and \<open>toLocaleString\<close> of its text are left out.
\<close>

section \<open>Estimators\<close>

datatype estimator = Real_Estimator "string \<Rightarrow> int option" | Heuristic_Estimator

definition chars_by_four :: "string \<Rightarrow> int" where
  "chars_by_four t = ceil_div (int (length t)) 4"

text \<open>\<open>None\<close> is an exception of the tokenizer.\<close>

fun estimate :: "estimator \<Rightarrow> string \<Rightarrow> int option" where
  "estimate (Real_Estimator f) t = (if t = [] then Some 0 else f t)"
| "estimate Heuristic_Estimator t = (if t = [] then Some 0 else Some (chars_by_four t))"

primrec estimator_name :: "estimator \<Rightarrow> string" where
  "estimator_name (Real_Estimator f) = ''o200k_base''"
| "estimator_name Heuristic_Estimator = ''heuristic (chars/4)''"

text \<open>Both factories: the constructor swallows an error of \<open>setMergeCacheSize\<close>, so it never raises.\<close>

definition create_estimator :: "(string \<Rightarrow> int option) \<Rightarrow> estimator" where
  "create_estimator countTokens = Real_Estimator countTokens"

section \<open>The engine\<close>

datatype operation_type = Tools_List | Tool_Call | Resource_Read | Resource_List | Prompt_Get | Prompt_List | Diagnostic

primrec type_name :: "operation_type \<Rightarrow> string" where
  "type_name Tools_List = ''tools_list''" | "type_name Tool_Call = ''tool_call''" | "type_name Resource_Read = ''resource_read''"
| "type_name Resource_List = ''resource_list''" | "type_name Prompt_Get = ''prompt_get''" | "type_name Prompt_List = ''prompt_list''"
| "type_name Diagnostic = ''diagnostic''"

definition otel_operation :: "operation_type \<Rightarrow> string" where
  "otel_operation t = (if t = Tool_Call then ''execute_tool'' else ''chat'')"

record operation =
  op_type :: operation_type
  op_method :: string
  op_input :: int
  op_output :: int
  op_timestamp :: int
  op_toolName :: "string option"
  op_durationMs :: "real option"
  op_originDatasetTokens :: "int option"

datatype otel_record = Token_Usage int string string "string option" | Operation_Duration real string

record telemetry =
  tg_operations :: "operation list"
  tg_sessionId :: string
  tg_startedAt :: int
  tg_estimator :: estimator
  tg_otelActive :: bool
  tg_otel :: "otel_record list"

definition count_tokens :: "telemetry \<Rightarrow> string \<Rightarrow> int" where
  "count_tokens s t = (case estimate (tg_estimator s) t of Some n \<Rightarrow> n | None \<Rightarrow> chars_by_four t)"

definition given_name :: "string option \<Rightarrow> string \<Rightarrow> string" where
  "given_name n other = (case n of Some (c # cs) \<Rightarrow> c # cs | _ \<Rightarrow> other)"

definition otel_records :: "operation \<Rightarrow> otel_record list" where
  "otel_records m =
     (let name = otel_operation (op_type m); tool = (case op_toolName m of Some (c # cs) \<Rightarrow> Some (c # cs) | _ \<Rightarrow> None) in
      (if op_input m > 0 then [Token_Usage (op_input m) ''input'' name tool] else []) @
      (if op_output m > 0 then [Token_Usage (op_output m) ''output'' name tool] else []) @
      (case op_durationMs m of Some d \<Rightarrow> [Operation_Duration (d / 1000) name] | None \<Rightarrow> []))"

definition prom_labels :: "operation \<Rightarrow> labels option" where
  "prom_labels m = Some [(''type'', type_name (op_type m)), (''method'', op_method m), (''tool'', given_name (op_toolName m) ''none'')]"

definition tool_label :: "operation \<Rightarrow> labels option" where
  "tool_label m = Some [(''tool'', given_name (op_toolName m) ''none'')]"

definition inc_named ::
    "(string \<Rightarrow> string \<Rightarrow> bool) \<Rightarrow> string \<Rightarrow> labels option \<Rightarrow> int \<Rightarrow> metrics_registry \<Rightarrow> metrics_registry" where
  "inc_named le name labels v r =
     (let c = metric_named (mr_counters r) name [] in
      r\<lparr>mr_counters := AList.update name (case counter_inc le labels (of_int v) c of Some c \<Rightarrow> c | None \<Rightarrow> c) (mr_counters r)\<rparr>)"

definition observe_named ::
    "(string \<Rightarrow> string \<Rightarrow> bool) \<Rightarrow> string \<Rightarrow> labels option \<Rightarrow> real \<Rightarrow> metrics_registry \<Rightarrow> metrics_registry" where
  "observe_named le name labels v r =
     (let h = (case map_of (mr_histograms r) name of Some h \<Rightarrow> h | None \<Rightarrow> new_histogram name [] None) in
      r\<lparr>mr_histograms := AList.update name (observe le labels v h) (mr_histograms r)\<rparr>)"

definition saved_tokens :: "operation \<Rightarrow> int option" where
  "saved_tokens m =
     (case op_originDatasetTokens m of Some n \<Rightarrow> if n > op_output m then Some (n - op_output m) else None | None \<Rightarrow> None)"

definition record_metrics :: "(string \<Rightarrow> string \<Rightarrow> bool) \<Rightarrow> operation \<Rightarrow> metrics_registry \<Rightarrow> metrics_registry" where
  "record_metrics le m r =
     (let r = (if op_input m > 0 then inc_named le ''liop_tokens_input_total'' (prom_labels m) (op_input m) r else r);
          r = (if op_output m > 0 then inc_named le ''liop_tokens_output_total'' (prom_labels m) (op_output m) r else r);
          r = (case saved_tokens m of Some n \<Rightarrow> inc_named le ''liop_tokens_saved_total'' (tool_label m) n r | None \<Rightarrow> r) in
      case op_durationMs m of
        Some d \<Rightarrow> if d \<ge> 0 then observe_named le ''liop_operation_duration_ms'' (prom_labels m) d r else r
      | None \<Rightarrow> r)"

text \<open>\<open>record\<close>: an inactive bridge has histograms that do nothing; no failure of either part is seen outside.\<close>

definition record_operation ::
    "(string \<Rightarrow> string \<Rightarrow> bool) \<Rightarrow> operation \<Rightarrow> telemetry \<times> metrics_registry \<Rightarrow> telemetry \<times> metrics_registry" where
  "record_operation le m sr =
     (case sr of (s, r) \<Rightarrow>
        (s\<lparr>tg_operations := tg_operations s @ [m],
           tg_otel := (if tg_otelActive s then tg_otel s @ otel_records m else tg_otel s)\<rparr>, record_metrics le m r))"

definition reset_operations :: "telemetry \<Rightarrow> telemetry" where
  "reset_operations s = s\<lparr>tg_operations := []\<rparr>"

section \<open>Reports\<close>

record session_report =
  sr_operations :: "operation list"
  sr_totalInput :: int
  sr_totalOutput :: int
  sr_estimatorName :: string
  sr_uptimeMs :: int

definition get_report :: "int \<Rightarrow> telemetry \<Rightarrow> session_report" where
  "get_report now s =
     \<lparr>sr_operations = tg_operations s, sr_totalInput = sum_list (map op_input (tg_operations s)),
      sr_totalOutput = sum_list (map op_output (tg_operations s)), sr_estimatorName = estimator_name (tg_estimator s),
      sr_uptimeMs = now - tg_startedAt s\<rparr>"

record breakdown =
  br_input :: int
  br_output :: int
  br_calls :: nat
  br_avgDurationMs :: real

definition tool_key :: "operation \<Rightarrow> string" where
  "tool_key m = given_name (op_toolName m) (op_method m)"

definition duration_or_zero :: "operation \<Rightarrow> real" where
  "duration_or_zero m = (case op_durationMs m of Some d \<Rightarrow> d | None \<Rightarrow> 0)"

definition add_to_breakdown :: "operation \<Rightarrow> (string, breakdown) js_map \<Rightarrow> (string, breakdown) js_map" where
  "add_to_breakdown m report =
     (let e = (case map_of report (tool_key m) of Some e \<Rightarrow> e | None \<Rightarrow> \<lparr>br_input = 0, br_output = 0, br_calls = 0, br_avgDurationMs = 0\<rparr>);
          totalDuration = br_avgDurationMs e * real (br_calls e) + duration_or_zero m;
          newCalls = br_calls e + 1 in
      AList.update (tool_key m)
        \<lparr>br_input = br_input e + op_input m, br_output = br_output e + op_output m, br_calls = newCalls,
         br_avgDurationMs = totalDuration / real newCalls\<rparr> report)"

definition get_per_tool_report :: "telemetry \<Rightarrow> (string, breakdown) js_map" where
  "get_per_tool_report s = fold add_to_breakdown (tg_operations s) []"

record type_row =
  ty_count :: nat
  ty_input :: int
  ty_output :: int

definition add_to_types :: "operation \<Rightarrow> (operation_type, type_row) js_map \<Rightarrow> (operation_type, type_row) js_map" where
  "add_to_types m rows =
     (let e = (case map_of rows (op_type m) of Some e \<Rightarrow> e | None \<Rightarrow> \<lparr>ty_count = 0, ty_input = 0, ty_output = 0\<rparr>) in
      AList.update (op_type m) \<lparr>ty_count = ty_count e + 1, ty_input = ty_input e + op_input m, ty_output = ty_output e + op_output m\<rparr> rows)"

definition format_uptime :: "int \<Rightarrow> string" where
  "format_uptime ms =
     (let seconds = ms div 1000; minutes = seconds div 60; hours = minutes div 60 in
      if seconds < 60 then show_int seconds @ ''s''
      else if minutes < 60 then show_int minutes @ ''m '' @ show_int (seconds mod 60) @ ''s''
      else show_int hours @ ''h '' @ show_int (minutes mod 60) @ ''m'')"

record status_block =
  sb_session :: string
  sb_uptime :: string
  sb_estimator :: string
  sb_count :: nat
  sb_types :: "(operation_type \<times> type_row) list"
  sb_totalInput :: int
  sb_totalOutput :: int
  sb_combined :: int
  sb_tools :: "(string \<times> breakdown) list"
  sb_avgLatency :: "int option"                \<comment> \<open>shown when positive\<close>
  sb_otelActive :: bool

definition average_latency :: "operation list \<Rightarrow> int" where
  "average_latency ops =
     (let timed = filter (\<lambda>m. op_durationMs m \<noteq> None) ops in
      if timed = [] then 0 else \<lfloor>sum_list (map duration_or_zero timed) / real (length timed) + 1 / 2\<rfloor>)"

text \<open>\<open>formatStatusBlock\<close>; \<open>None\<close> is the empty text.\<close>

definition format_status_block :: "int \<Rightarrow> telemetry \<Rightarrow> status_block option" where
  "format_status_block now s =
     (let report = get_report now s; latency = average_latency (tg_operations s) in
      if sr_operations report = [] then None
      else Some \<lparr>sb_session = take 8 (tg_sessionId s), sb_uptime = format_uptime (sr_uptimeMs report),
                 sb_estimator = sr_estimatorName report, sb_count = length (sr_operations report),
                 sb_types = fold add_to_types (tg_operations s) [], sb_totalInput = sr_totalInput report,
                 sb_totalOutput = sr_totalOutput report, sb_combined = sr_totalInput report + sr_totalOutput report,
                 sb_tools = filter (\<lambda>(k, _). k \<noteq> ''tools/list'' \<and> k \<noteq> ''LiopMeshStatus'') (get_per_tool_report s),
                 sb_avgLatency = (if latency > 0 then Some latency else None), sb_otelActive = tg_otelActive s\<rparr>)"

section \<open>Properties\<close>

definition summary_of :: "operation list \<Rightarrow> breakdown option" where
  "summary_of ms =
     (if ms = [] then None
      else Some \<lparr>br_input = sum_list (map op_input ms), br_output = sum_list (map op_output ms), br_calls = length ms,
                 br_avgDurationMs = sum_list (map duration_or_zero ms) / real (length ms)\<rparr>)"

lemma breakdown_step:
  assumes "map_of report k = summary_of ms"
  shows "map_of (add_to_breakdown m report) k = summary_of (if tool_key m = k then ms @ [m] else ms)"
proof (cases "tool_key m = k")
  case True
  have "sum_list (map duration_or_zero ms) / real (length ms) * real (length ms) = sum_list (map duration_or_zero ms)" if "ms \<noteq> []"
    using that by simp
  then show ?thesis using assms True
    by (cases "ms = []") (auto simp: add_to_breakdown_def summary_of_def liop_simps Let_def add.commute)
qed (use assms in \<open>simp add: add_to_breakdown_def liop_simps Let_def\<close>)

lemma per_tool_report:
  "map_of (get_per_tool_report s) k = summary_of (filter (\<lambda>m. tool_key m = k) (tg_operations s))"
proof -
  have "map_of (fold add_to_breakdown ops []) k = summary_of (filter (\<lambda>m. tool_key m = k) ops)" for ops
  proof (induction ops rule: rev_induct)
    case (snoc m ops)
    then show ?case using breakdown_step [OF snoc.IH, of m] by (simp split: if_splits)
  qed (simp add: summary_of_def)
  then show ?thesis by (simp add: get_per_tool_report_def)
qed

text \<open>
  The report per tool, which the code keeps as a running average, is the sum over the operations of each
  tool: tokens, calls and the mean of the durations, with an operation of unknown duration counted as none.
\<close>
theorem per_tool_report_exact:
  "map_of (get_per_tool_report s) k = summary_of (filter (\<lambda>m. tool_key m = k) (tg_operations s))"
  by (rule per_tool_report)

lemma sum_update:
  "sum_list (map (\<lambda>p. g (snd p)) (AList.update k v m)) =
     sum_list (map (\<lambda>p. g (snd p)) m) + g v - (case map_of m k of None \<Rightarrow> 0 | Some u \<Rightarrow> g u)" for g :: "'a \<Rightarrow> int"
  by (induction m) (auto split: option.splits)

text \<open>
  Nothing is lost between the reports: the rows of the tools and the rows of the types each add up to the
  totals of the session.
\<close>
theorem report_totals_agree:
  "sum_list (map (\<lambda>p. br_input (snd p)) (get_per_tool_report s)) = sr_totalInput (get_report now s) \<and>
   sum_list (map (\<lambda>p. br_output (snd p)) (get_per_tool_report s)) = sr_totalOutput (get_report now s) \<and>
   sum_list (map (\<lambda>p. ty_input (snd p)) (fold add_to_types (tg_operations s) [])) = sr_totalInput (get_report now s) \<and>
   sum_list (map (\<lambda>p. ty_output (snd p)) (fold add_to_types (tg_operations s) [])) = sr_totalOutput (get_report now s)"
proof -
  have tool: "sum_list (map (\<lambda>p. br_input (snd p)) (fold add_to_breakdown ops m)) = sum_list (map (\<lambda>p. br_input (snd p)) m) + sum_list (map op_input ops)"
    "sum_list (map (\<lambda>p. br_output (snd p)) (fold add_to_breakdown ops m)) = sum_list (map (\<lambda>p. br_output (snd p)) m) + sum_list (map op_output ops)"
    for ops m
    by (induction ops arbitrary: m) (auto simp: add_to_breakdown_def Let_def sum_update split: option.splits)
  have kind: "sum_list (map (\<lambda>p. ty_input (snd p)) (fold add_to_types ops m)) = sum_list (map (\<lambda>p. ty_input (snd p)) m) + sum_list (map op_input ops)"
    "sum_list (map (\<lambda>p. ty_output (snd p)) (fold add_to_types ops m)) = sum_list (map (\<lambda>p. ty_output (snd p)) m) + sum_list (map op_output ops)"
    for ops m
    by (induction ops arbitrary: m) (auto simp: add_to_types_def Let_def sum_update split: option.splits)
  show ?thesis by (simp add: get_per_tool_report_def get_report_def tool kind)
qed

lemma named_get:
  "metric_get le l (metric_named (mr_counters (inc_named le n l' v r)) n' []) =
     metric_get le l (metric_named (mr_counters r) n' []) +
       (if n' = n \<and> 0 \<le> v \<and> labels_to_key le l = labels_to_key le l' then of_int v else 0)"
  by (auto simp: inc_named_def metric_named_def counter_inc_def get_add_value Let_def liop_simps split: option.splits)

lemma observe_counters [simp]: "mr_counters (observe_named le n l v r) = mr_counters r"
  by (simp add: observe_named_def Let_def)

definition counted :: "(string \<Rightarrow> string \<Rightarrow> bool) \<Rightarrow> string \<Rightarrow> labels option \<Rightarrow> metrics_registry \<Rightarrow> real" where
  "counted le name l r = metric_get le l (metric_named (mr_counters r) name [])"

lemma record_counts:
  "counted le ''liop_tokens_input_total'' l (record_metrics le m r) = counted le ''liop_tokens_input_total'' l r +
     (if labels_to_key le l = labels_to_key le (prom_labels m) then of_int (max 0 (op_input m)) else 0)"
  "counted le ''liop_tokens_saved_total'' l (record_metrics le m r) = counted le ''liop_tokens_saved_total'' l r +
     (if labels_to_key le l = labels_to_key le (tool_label m) then of_int (case saved_tokens m of Some n \<Rightarrow> n | None \<Rightarrow> 0) else 0)"
  by (auto simp: counted_def record_metrics_def named_get Let_def max_def saved_tokens_def split: option.splits if_splits)

text \<open>
  The exported counters agree with the operations. After any recorded operations the input tokens of a
  label set are the sum over the operations with these labels, and the saved tokens of a tool are exactly the
  differences measured against an origin that was given and is larger.
\<close>
theorem token_counters_exact:
  assumes "(s', r') = fold (record_operation le) ms (s, r)"
  shows "counted le ''liop_tokens_input_total'' l r' = counted le ''liop_tokens_input_total'' l r +
       of_int (sum_list (map (\<lambda>m. max 0 (op_input m)) (filter (\<lambda>m. labels_to_key le (prom_labels m) = labels_to_key le l) ms))) \<and>
     counted le ''liop_tokens_saved_total'' l r' = counted le ''liop_tokens_saved_total'' l r +
       of_int (sum_list (map (\<lambda>m. case saved_tokens m of Some n \<Rightarrow> n | None \<Rightarrow> 0)
         (filter (\<lambda>m. labels_to_key le (tool_label m) = labels_to_key le l) ms))) \<and>
     tg_operations s' = tg_operations s @ ms"
  using assms
  by (induction ms arbitrary: s r) (auto simp: record_operation_def record_counts)

definition demo_operation :: operation where
  "demo_operation = \<lparr>op_type = Tool_Call, op_method = ''tools/call'', op_input = 5, op_output = 2, op_timestamp = 0,
     op_toolName = Some ''sum'', op_durationMs = Some 100, op_originDatasetTokens = Some 9\<rparr>"

definition demo_engine :: telemetry where
  "demo_engine = \<lparr>tg_operations = [], tg_sessionId = ''s'', tg_startedAt = 0, tg_estimator = Heuristic_Estimator, tg_otelActive = False, tg_otel = []\<rparr>"

theorem token_counters_exact_witness:
  "\<exists>s' r'. (s', r') = fold (record_operation (\<lambda>_ _. True)) [demo_operation, demo_operation]
       (demo_engine, \<lparr>mr_counters = [], mr_gauges = [], mr_histograms = []\<rparr>) \<and>
     counted (\<lambda>_ _. True) ''liop_tokens_saved_total'' (tool_label demo_operation) r' = 14"
proof -
  let ?r = "\<lparr>mr_counters = [], mr_gauges = [], mr_histograms = []\<rparr>"
  obtain s' r' where f: "(s', r') = fold (record_operation (\<lambda>_ _. True)) [demo_operation, demo_operation] (demo_engine, ?r)"
    by (metis surj_pair)
  have "saved_tokens demo_operation = Some 7" by (simp add: saved_tokens_def demo_operation_def)
  moreover have "counted (\<lambda>_ _. True) ''liop_tokens_saved_total'' (tool_label demo_operation) ?r = 0"
    by (simp add: counted_def metric_get_def metric_named_def)
  ultimately have "counted (\<lambda>_ _. True) ''liop_tokens_saved_total'' (tool_label demo_operation) r' = 14"
    using token_counters_exact [OF f, of "tool_label demo_operation"] by simp
  with f show ?thesis by blast
qed

text \<open>
  Counting never fails: an exception of the tokenizer leads to a quarter of the length, and the result of
  the heuristic is within one token of it.
\<close>
theorem count_tokens_total:
  "count_tokens s [] = 0 \<and>
   (estimate (tg_estimator s) t = None \<longrightarrow> count_tokens s t = chars_by_four t) \<and>
   int (length t) \<le> 4 * chars_by_four t \<and> 4 * chars_by_four t < int (length t) + 4"
proof -
  have "count_tokens s [] = 0" by (cases "tg_estimator s") (simp_all add: count_tokens_def)
  then show ?thesis using ceil_div_bounds [of 4 "int (length t)"] by (simp add: count_tokens_def chars_by_four_def)
qed

text \<open>
  An operation without a duration halves the average of its tool, and leaves the average of the session as
  it is: the two numbers of one status block disagree.
\<close>
theorem untimed_operation_dilutes_average:
  "map_of (get_per_tool_report (demo_engine\<lparr>tg_operations := [demo_operation, demo_operation\<lparr>op_durationMs := None\<rparr>]\<rparr>)) ''sum'' =
     Some \<lparr>br_input = 10, br_output = 4, br_calls = 2, br_avgDurationMs = 50\<rparr> \<and>
   average_latency [demo_operation, demo_operation\<lparr>op_durationMs := None\<rparr>] = 100"
  by (simp add: per_tool_report) (simp add: summary_of_def tool_key_def given_name_def demo_operation_def
      duration_or_zero_def average_latency_def)

text \<open>
  The uptime is shown in units that fit: below an hour the text names whole minutes and seconds that make
  up the time, above it hours and minutes, each smaller unit below sixty.
\<close>
theorem format_uptime_exact:
  assumes "0 \<le> ms"
  shows "\<exists>a b. 0 \<le> b \<and> b < 60 \<and>
     (format_uptime ms = show_int b @ ''s'' \<and> ms div 1000 = b \<or>
      format_uptime ms = show_int a @ ''m '' @ show_int b @ ''s'' \<and> ms div 1000 = 60 * a + b \<and> 0 < a \<and> a < 60 \<or>
      format_uptime ms = show_int a @ ''h '' @ show_int b @ ''m'' \<and> ms div 60000 = 60 * a + b \<and> 0 < a)"
proof -
  let ?s = "ms div 1000"
  have m: "ms div 60000 = ?s div 60" using zdiv_zmult2_eq [of 60 ms 1000] by simp
  have split: "?s = 60 * (?s div 60) + ?s mod 60" "?s div 60 = 60 * (?s div 60 div 60) + ?s div 60 mod 60" by simp_all
  consider "?s < 60" | "60 \<le> ?s" "?s div 60 < 60" | "60 \<le> ?s div 60" by linarith
  then show ?thesis
  proof cases
    case 1
    then have "format_uptime ms = show_int ?s @ ''s''" by (simp add: format_uptime_def Let_def)
    moreover have "0 \<le> ?s" using assms by simp
    ultimately show ?thesis using 1 by blast
  next
    case 2
    then have "format_uptime ms = show_int (?s div 60) @ ''m '' @ show_int (?s mod 60) @ ''s''"
      by (simp only: format_uptime_def Let_def if_False if_True not_less [symmetric])
    moreover have "0 < ?s div 60" "0 \<le> ?s mod 60" "?s mod 60 < 60" using 2 by linarith+
    ultimately show ?thesis using 2 split(1) by blast
  next
    case 3
    then have "\<not> ?s < 60" "\<not> ?s div 60 < 60" by linarith+
    then have "format_uptime ms = show_int (?s div 60 div 60) @ ''h '' @ show_int (?s div 60 mod 60) @ ''m''"
      by (simp only: format_uptime_def Let_def if_False)
    moreover have "0 < ?s div 60 div 60" "0 \<le> ?s div 60 mod 60" "?s div 60 mod 60 < 60" using 3 by linarith+
    ultimately show ?thesis using split(2) m by metis
  qed
qed

theorem format_uptime_exact_witness:
  "\<exists>a b. 0 \<le> b \<and> b < 60 \<and>
     (format_uptime 5000 = show_int b @ ''s'' \<and> 5000 div 1000 = b \<or>
      format_uptime 5000 = show_int a @ ''m '' @ show_int b @ ''s'' \<and> 5000 div 1000 = 60 * a + b \<and> 0 < a \<and> a < 60 \<or>
      format_uptime 5000 = show_int a @ ''h '' @ show_int b @ ''m'' \<and> 5000 div 60000 = 60 * a + b \<and> 0 < a)"
  by (rule format_uptime_exact) simp

end
