(* ===== verification/Studio_Access.thy ===== *)
theory Studio_Access
  imports Mcp_Bridge
begin

text \<open>
  The access rules of the studio (\<open>tools/liop-studio/src\<close>): the checks of commands, URLs and host headers
  (\<open>security/sanitizer.ts\<close>), the token of the nexus (\<open>security/token-resolver.ts\<close>), the choice of a transport
  (\<open>transports/index.ts\<close>) and the routes of the local server that change its target or count its nodes
  (\<open>server/index.ts\<close>).

  The URL parser is a function from a text to the scheme and the host name it finds, \<open>None\<close> for a
  \<open>TypeError\<close>. A request body is what its JSON text means, the declared type of the route.
\<close>

section \<open>Checks\<close>

definition FORBIDDEN_SHELL_CHARS :: string where
  "FORBIDDEN_SHELL_CHARS = '';&|`$<>'' @ [CHR 0x0D, CHR 0x0A]"

definition has_shell_char :: "string \<Rightarrow> bool" where
  "has_shell_char t \<longleftrightarrow> list_ex (\<lambda>c. c \<in> set FORBIDDEN_SHELL_CHARS) t"

datatype command_error = Empty_Command | Forbidden_Command string | Forbidden_Argument string

definition sanitize_command :: "string \<Rightarrow> string list \<Rightarrow> command_error + string" where
  "sanitize_command command args =
     (let trimmed = trim command in
      if trimmed = [] then Inl Empty_Command
      else if has_shell_char trimmed then Inl (Forbidden_Command trimmed)
      else case filter has_shell_char args of a # _ \<Rightarrow> Inl (Forbidden_Argument a) | [] \<Rightarrow> Inr trimmed)"

record target_url =
  tu_protocol :: string
  tu_hostname :: string
  tu_text :: string

definition BLOCKED_SSRF_HOSTS :: "string list" where
  "BLOCKED_SSRF_HOSTS = [''169.254.169.254'', ''metadata.google.internal'', ''instance-data'', ''100.100.100.200'']"

datatype url_error = Invalid_Url string | Unsupported_Protocol string | Blocked_Host string

definition validate_http_target :: "(string \<Rightarrow> target_url option) \<Rightarrow> string \<Rightarrow> url_error + target_url" where
  "validate_http_target url targetUrl =
     (case url targetUrl of
        None \<Rightarrow> Inl (Invalid_Url targetUrl)
      | Some parsed \<Rightarrow>
          if tu_protocol parsed \<noteq> ''http:'' \<and> tu_protocol parsed \<noteq> ''https:'' then Inl (Unsupported_Protocol (tu_protocol parsed))
          else (let hostname = to_lower (tu_hostname parsed) in
                if hostname \<in> set BLOCKED_SSRF_HOSTS then Inl (Blocked_Host hostname) else Inr parsed))"

definition DEFAULT_ALLOWED_HOSTS :: "string list" where
  "DEFAULT_ALLOWED_HOSTS = [''localhost'', ''127.0.0.1'', ''0.0.0.0'', ''::1'', ''[::1]'']"

text \<open>The host name of a header: up to the closing bracket, the whole of a text with several colons, or up to
  the colon.\<close>

definition header_hostname :: "string \<Rightarrow> string" where
  "header_hostname host =
     (let trimmed = trim host in
      to_lower
        (if starts_with trimmed ''['' then
           (if CHR '']'' \<in> set trimmed then takeWhile (\<lambda>c. c \<noteq> CHR '']'') trimmed @ '']'' else trimmed)
         else if 1 < length (filter (\<lambda>c. c = CHR '':'') trimmed) then trimmed
         else hd (split_on CHR '':'' trimmed)))"

definition validate_host_header :: "string option \<Rightarrow> string list \<Rightarrow> bool" where
  "validate_host_header host allowedHosts =
     (case host of
        Some (c # cs) \<Rightarrow>
          (let hostname = header_hostname (c # cs) in
           list_ex (\<lambda>a. to_lower a = hostname \<or> (hostname = ''[::1]'' \<and> to_lower a = ''::1'') \<or> (hostname = ''::1'' \<and> to_lower a = ''[::1]''))
             allowedHosts)
      | _ \<Rightarrow> False)"

section \<open>The token of the nexus\<close>

record cached_token =
  ct_token :: string
  ct_expiresAt :: int

record resolver_options =
  rv_nexusUrl :: "string option"
  rv_clientId :: "string option"
  rv_clientSecret :: "string option"
  rv_scope :: "string option"
  rv_resource :: "string option"
  rv_forceRefresh :: bool

text \<open>What a request to a token endpoint leads to: \<open>None\<close> for an exception or a status that is not a success.\<close>

record token_reply =
  tk_access_token :: "string option"
  tk_expires_in :: "int option"

record token_request =
  tq_endpoint :: string
  tq_form :: "(string \<times> string) list"

definition any_given :: "string option list \<Rightarrow> string \<Rightarrow> string" where
  "any_given os fallback = (case filter (\<lambda>v. v \<noteq> None \<and> v \<noteq> Some []) os of Some t # _ \<Rightarrow> t | _ \<Rightarrow> fallback)"

definition drop_last_slash :: "string \<Rightarrow> string" where
  "drop_last_slash u = (if ends_with u ''/'' then butlast u else u)"

definition token_request_of :: "(string \<Rightarrow> string option) \<Rightarrow> resolver_options \<Rightarrow> token_request" where
  "token_request_of variable opts =
     (let nexusUrl = any_given [rv_nexusUrl opts, variable ''LIOP_NEXUS_URL'', variable ''NEXUS_URL''] ''http://127.0.0.1:15000'' in
      \<lparr>tq_endpoint = drop_last_slash nexusUrl @ ''/oidc/token'',
       tq_form =
         [(''grant_type'', ''client_credentials''),
          (''client_id'', any_given [rv_clientId opts, variable ''LIOP_CLIENT_ID''] ''liop-mesh-agent''),
          (''client_secret'', any_given [rv_clientSecret opts, variable ''LIOP_CLIENT_SECRET''] ''dev-secret-change-me''),
          (''resource'', any_given [rv_resource opts] ''urn:liop:mesh:api''),
          (''scope'', any_given [rv_scope opts]
             ''liop:tools:call liop:tools:list liop:resources:read liop:schema:read liop:mesh:query'')]\<rparr>)"

definition resolve_oidc_token ::
    "(string \<Rightarrow> string option) \<Rightarrow> (token_request \<Rightarrow> token_reply option) \<Rightarrow> int \<Rightarrow> resolver_options \<Rightarrow> cached_token option
      \<Rightarrow> cached_token option \<times> string option" where
  "resolve_oidc_token variable fetch now opts cache =
     (case (if rv_forceRefresh opts then None else case cache of Some c \<Rightarrow> if ct_expiresAt c > now + 30000 then Some c else None | None \<Rightarrow> None) of
        Some c \<Rightarrow> (cache, Some (ct_token c))
      | None \<Rightarrow>
          (case fetch (token_request_of variable opts) of
             None \<Rightarrow> (cache, None)
           | Some data \<Rightarrow>
               (case tk_access_token data of
                  Some (c # cs) \<Rightarrow>
                    (Some \<lparr>ct_token = c # cs, ct_expiresAt = now + (case tk_expires_in data of Some n \<Rightarrow> n | None \<Rightarrow> 3600) * 1000\<rparr>,
                     Some (c # cs))
                | _ \<Rightarrow> (cache, None))))"

definition clear_token_cache :: "cached_token option \<Rightarrow> cached_token option" where
  "clear_token_cache cache = None"

section \<open>Transports\<close>

text \<open>Of a configuration and a report, the fields that the modelled operations read.\<close>

record target_config =
  tc_type :: "string option"
  tc_command :: "string option"      \<comment> \<open>\<open>stdio.command\<close>\<close>
  tc_args :: "string list"
  tc_url :: "string option"          \<comment> \<open>\<open>http.url\<close>\<close>
  tc_authToken :: "string option"
  tc_target :: "string option"       \<comment> \<open>\<open>grpc.target\<close>\<close>
  tc_bootstrap :: "string list"      \<comment> \<open>\<open>mesh.bootstrapNodes\<close>\<close>

datatype studio_transport =
  Stdio_Transport string "string list"
| Http_Transport string "string option"
| Grpc_Transport string
| Mesh_Transport "string list"

datatype transport_error = Missing_Setting string | Bad_Command command_error | Bad_Url url_error | Unsupported_Type string

definition DEFAULT_BOOTSTRAP :: "string list" where
  "DEFAULT_BOOTSTRAP = [''/ip4/127.0.0.1/tcp/13000/ws/p2p/12D3KooWRv8p6s5eQhP1pD6E9vG9T1N6L2E7Z5D8S2D9L5K4F1A2'']"

text \<open>\<open>createTransport\<close> with the checks of the constructors it calls.\<close>

definition create_transport :: "(string \<Rightarrow> target_url option) \<Rightarrow> target_config \<Rightarrow> transport_error + studio_transport" where
  "create_transport url config =
     (case tc_type config of
        None \<Rightarrow> Inl (Unsupported_Type ''undefined'')
      | Some kind \<Rightarrow>
          if kind = ''stdio'' then
            (case tc_command config of
               Some (c # cs) \<Rightarrow>
                 (case sanitize_command (c # cs) (tc_args config) of
                    Inl e \<Rightarrow> Inl (Bad_Command e) | Inr _ \<Rightarrow> Inr (Stdio_Transport (c # cs) (tc_args config)))
             | _ \<Rightarrow> Inl (Missing_Setting ''command''))
          else if kind = ''http'' then
            (case tc_url config of
               Some (c # cs) \<Rightarrow>
                 (case validate_http_target url (c # cs) of
                    Inl e \<Rightarrow> Inl (Bad_Url e) | Inr parsed \<Rightarrow> Inr (Http_Transport (drop_last_slash (tu_text parsed)) (tc_authToken config)))
             | _ \<Rightarrow> Inl (Missing_Setting ''url''))
          else if kind = ''grpc'' then
            (case tc_target config of Some (c # cs) \<Rightarrow> Inr (Grpc_Transport (c # cs)) | _ \<Rightarrow> Inl (Missing_Setting ''target''))
          else if kind = ''mesh'' then Inr (Mesh_Transport (if tc_bootstrap config = [] then DEFAULT_BOOTSTRAP else tc_bootstrap config))
          else Inl (Unsupported_Type kind))"

section \<open>The server\<close>

record scanned_node =
  sn_tier :: "nat option"
  sn_status :: string

record scan_report =
  rp_status :: string
  rp_nodes :: "scanned_node list"
  rp_latencyMs :: int

text \<open>\<open>sv_opened\<close> holds the transports whose \<open>connect\<close> was called: for \<open>stdio\<close>, the commands that were started.\<close>

record studio_server =
  sv_config :: target_config
  sv_transport :: studio_transport
  sv_connected :: bool
  sv_report :: "scan_report option"
  sv_opened :: "studio_transport list"

record studio_request =
  rq_host :: "string option"
  rq_origin :: "string option"
  rq_contentType :: "string option"
  rq_body :: "target_config option"      \<comment> \<open>\<open>None\<close>: not JSON\<close>

datatype studio_response = Forbidden | Missing_Type | Server_Error "transport_error option" | Connected bool scan_report

definition host_guard :: "string option \<Rightarrow> bool" where
  "host_guard host \<longleftrightarrow>
     (case host of Some (c # cs) \<Rightarrow> validate_host_header (Some (c # cs)) [''localhost'', ''127.0.0.1'', ''0.0.0.0''] | _ \<Rightarrow> True)"

text \<open>\<open>POST /api/connect\<close> behind the guard. \<open>connects\<close> tells whether \<open>connect\<close> and the \<open>connect\<close> inside \<open>scan\<close> leave the
  transport connected, \<open>scan\<close> is the report of the new transport.\<close>

definition api_connect ::
    "(string \<Rightarrow> target_url option) \<Rightarrow> (studio_transport \<Rightarrow> bool) \<Rightarrow> (studio_transport \<Rightarrow> scan_report) \<Rightarrow> studio_request \<Rightarrow> studio_server
      \<Rightarrow> studio_server \<times> studio_response" where
  "api_connect url connects scan rq s =
     (if \<not> host_guard (rq_host rq) then (s, Forbidden)
      else case rq_body rq of
        None \<Rightarrow> (s, Server_Error None)
      | Some body \<Rightarrow>
          if tc_type body = None \<or> tc_type body = Some [] then (s, Missing_Type)
          else (let s = s\<lparr>sv_connected := False, sv_config := body\<rparr> in
            case create_transport url body of
              Inl e \<Rightarrow> (s, Server_Error (Some e))
            | Inr t \<Rightarrow>
                (s\<lparr>sv_transport := t, sv_connected := connects t, sv_report := Some (scan t), sv_opened := sv_opened s @ [t]\<rparr>,
                 Connected (connects t \<and> rp_status (scan t) = ''online'') (scan t))))"

text \<open>\<open>GET /health\<close>: the status and the type it names.\<close>

definition health_status :: "studio_server \<Rightarrow> bool \<times> string option" where
  "health_status s =
     (sv_connected s \<and> (case sv_report s of Some r \<Rightarrow> rp_status r = ''online'' | None \<Rightarrow> False), tc_type (sv_config s))"

record nodes_summary =
  ns_totalNodes :: nat
  ns_onlineNodes :: nat
  ns_offlineNodes :: nat
  ns_avgLatencyMs :: int
  ns_tier1 :: nat
  ns_tier2 :: nat
  ns_tier3 :: nat
  ns_standalone :: nat

definition api_nodes :: "scan_report option \<Rightarrow> nodes_summary" where
  "api_nodes report =
     (let nodes = (case report of Some r \<Rightarrow> rp_nodes r | None \<Rightarrow> []);
          online = filter (\<lambda>n. sn_status n = ''online'') nodes;
          count = (\<lambda>t. length (filter (\<lambda>n. sn_tier n = t) online)) in
      \<lparr>ns_totalNodes = length nodes, ns_onlineNodes = length online, ns_offlineNodes = length nodes - length online,
       ns_avgLatencyMs = (if 0 < length online then (case report of Some r \<Rightarrow> rp_latencyMs r | None \<Rightarrow> 0) else 0),
       ns_tier1 = count (Some 1), ns_tier2 = count (Some 2), ns_tier3 = count (Some 3), ns_standalone = count None\<rparr>)"

text \<open>The test \<open>POST /api/execute\<close> makes before it calls a tool.\<close>

definition without_underscores :: "string \<Rightarrow> string" where
  "without_underscores t = filter (\<lambda>c. c \<noteq> CHR ''_'') t"

definition is_supported :: "string list \<Rightarrow> string \<Rightarrow> bool" where
  "is_supported availableTools tool \<longleftrightarrow>
     availableTools = [] \<or>
     list_ex (\<lambda>t. to_lower t = to_lower tool \<or> without_underscores (to_lower t) = without_underscores (to_lower tool)) availableTools"

section \<open>Properties\<close>

lemma shell_iff: "has_shell_char t \<longleftrightarrow> set t \<inter> set FORBIDDEN_SHELL_CHARS \<noteq> {}"
  by (auto simp: has_shell_char_def list_ex_iff)

lemma sanitized_iff:
  "sanitize_command command args = Inr c \<longleftrightarrow>
     c = trim command \<and> c \<noteq> [] \<and> (\<forall>t\<in>insert c (set args). set t \<inter> set FORBIDDEN_SHELL_CHARS = {})"
proof (cases "filter has_shell_char args")
  case Nil
  then show ?thesis by (auto simp: sanitize_command_def Let_def shell_iff filter_empty_conv)
next
  case (Cons a as)
  then have "a \<in> set args" "has_shell_char a" by (auto simp: filter_eq_Cons_iff)
  then show ?thesis using Cons by (auto simp: sanitize_command_def Let_def shell_iff)
qed

text \<open>
  A command passes exactly when it is not blank and neither it nor an argument holds a character that a shell
  reads; what is started is the trimmed command.
\<close>
theorem sanitize_command_exact:
  "sanitize_command command args = Inr c \<longleftrightarrow>
     c = trim command \<and> c \<noteq> [] \<and> (\<forall>t\<in>insert c (set args). set t \<inter> set FORBIDDEN_SHELL_CHARS = {})"
  by (rule sanitized_iff)

theorem sanitize_command_exact_witness: "sanitize_command '' node '' [''server.js''] = Inr ''node''"
  by (subst sanitize_command_exact) (simp add: FORBIDDEN_SHELL_CHARS_def trim_def js_space_def)

text \<open>
  The block list compares whole names: a URL of http passes exactly when its host name is none of the four, so
  that the name of the metadata service with a dot at its end, which resolves to the same address, passes.
\<close>
theorem block_list_exact:
  assumes "url u = Some p" "tu_protocol p = ''http:''"
  shows "(validate_http_target url u = Inr p \<longleftrightarrow> to_lower (tu_hostname p) \<notin> set BLOCKED_SSRF_HOSTS) \<and>
     (tu_hostname p = ''metadata.google.internal.'' \<longrightarrow> validate_http_target url u = Inr p)"
  using assms by (simp add: validate_http_target_def BLOCKED_SSRF_HOSTS_def to_lower_def to_lower_char_def Let_def)

theorem block_list_exact_witness:
  "validate_http_target (\<lambda>u. Some \<lparr>tu_protocol = ''http:'', tu_hostname = ''metadata.google.internal.'', tu_text = u\<rparr>) ''u'' =
     Inr \<lparr>tu_protocol = ''http:'', tu_hostname = ''metadata.google.internal.'', tu_text = ''u''\<rparr>"
  by (rule conjunct2 [OF block_list_exact, THEN mp]) simp_all

lemma host_guard_iff:
  "host_guard host \<longleftrightarrow>
     (case host of Some (c # cs) \<Rightarrow> header_hostname (c # cs) \<in> {''localhost'', ''127.0.0.1'', ''0.0.0.0''} | _ \<Rightarrow> True)"
  by (auto simp: host_guard_def validate_host_header_def Let_def to_lower_def to_lower_char_def split: option.splits list.splits)

lemmas host_text = header_hostname_def trim_def js_space_def starts_with_def to_lower_def to_lower_char_def

text \<open>
  The guard against DNS rebinding: a request with a host header passes exactly for three names of this machine
  with any port, one without a host header always. The loopback address of IPv6, which the check supports by
  default, is refused, because the server passes a list of its own.
\<close>
theorem host_guard_exact:
  "(host_guard host \<longleftrightarrow>
      (case host of Some (c # cs) \<Rightarrow> header_hostname (c # cs) \<in> {''localhost'', ''127.0.0.1'', ''0.0.0.0''} | _ \<Rightarrow> True)) \<and>
   \<not> host_guard (Some ''[::1]:16000'') \<and> validate_host_header (Some ''[::1]:16000'') DEFAULT_ALLOWED_HOSTS"
proof (intro conjI)
  show "\<not> host_guard (Some ''[::1]:16000'')" by (simp add: host_guard_iff host_text)
  show "validate_host_header (Some ''[::1]:16000'') DEFAULT_ALLOWED_HOSTS"
    by (simp add: validate_host_header_def host_text DEFAULT_ALLOWED_HOSTS_def Let_def)
qed (rule host_guard_iff)

section \<open>What the server opens\<close>

definition opened_ok :: "studio_transport \<Rightarrow> bool" where
  "opened_ok t \<longleftrightarrow>
     (case t of
        Stdio_Transport c args \<Rightarrow> \<forall>a\<in>insert (trim c) (set args). set a \<inter> set FORBIDDEN_SHELL_CHARS = {}
      | _ \<Rightarrow> True)"

lemma created_ok: "create_transport url config = Inr t \<Longrightarrow> opened_ok t"
  by (auto simp: create_transport_def opened_ok_def sanitized_iff split: option.splits list.splits if_splits sum.splits)

type_synonym studio_event = "studio_request \<times> (studio_transport \<Rightarrow> bool) \<times> (studio_transport \<Rightarrow> scan_report)"

definition connect_step :: "(string \<Rightarrow> target_url option) \<Rightarrow> studio_server \<Rightarrow> studio_event \<Rightarrow> studio_server" where
  "connect_step url s e = (case e of (rq, connects, scan) \<Rightarrow> fst (api_connect url connects scan rq s))"

interpretation studio_opened: preserved "connect_step url" "\<lambda>s. list_all opened_ok (sv_opened s)" for url
  by unfold_locales (auto simp: connect_step_def api_connect_def Let_def dest: created_ok split: option.splits sum.splits prod.splits)

text \<open>
  Whatever is posted, in any number of requests, no command or argument the studio starts holds a character that
  a shell reads.
\<close>
theorem started_commands_clean:
  assumes "sv_opened s = []" "Stdio_Transport c args \<in> set (sv_opened (run (connect_step url) s es))"
  shows "\<forall>a\<in>insert (trim c) (set args). set a \<inter> set FORBIDDEN_SHELL_CHARS = {}"
proof -
  have "opened_ok (Stdio_Transport c args)"
    using studio_opened.run_inv [of s url es] assms by (simp add: list_all_iff)
  then show ?thesis by (simp add: opened_ok_def)
qed

definition demo_config :: target_config where
  "demo_config = \<lparr>tc_type = Some ''stdio'', tc_command = Some ''node'', tc_args = [''x.js''], tc_url = None, tc_authToken = None,
     tc_target = None, tc_bootstrap = []\<rparr>"

definition demo_studio :: studio_server where
  "demo_studio = \<lparr>sv_config = demo_config\<lparr>tc_type := Some ''mesh''\<rparr>, sv_transport = Mesh_Transport [], sv_connected = True, sv_report = None,
     sv_opened = []\<rparr>"

definition demo_post :: "target_config \<Rightarrow> studio_request" where
  "demo_post body = \<lparr>rq_host = Some ''127.0.0.1:16000'', rq_origin = Some ''https://elsewhere.example'', rq_contentType = Some ''text/plain'',
     rq_body = Some body\<rparr>"

definition demo_report :: "studio_transport \<Rightarrow> scan_report" where
  "demo_report t = \<lparr>rp_status = ''online'', rp_nodes = [\<lparr>sn_tier = None, sn_status = ''online''\<rparr>], rp_latencyMs = 1\<rparr>"

lemma demo_host: "host_guard (Some ''127.0.0.1:16000'')"
  by (simp add: host_guard_iff host_text)

lemma demo_created: "create_transport url demo_config = Inr (Stdio_Transport ''node'' [''x.js''])"
  by (simp add: create_transport_def demo_config_def sanitize_command_def has_shell_char_def FORBIDDEN_SHELL_CHARS_def trim_def js_space_def)

theorem started_commands_clean_witness:
  "\<exists>es. Stdio_Transport ''node'' [''x.js''] \<in> set (sv_opened (run (connect_step (\<lambda>_. None)) demo_studio es)) \<and>
     (\<forall>a\<in>insert (trim ''node'') (set [''x.js'']). set a \<inter> set FORBIDDEN_SHELL_CHARS = {})"
proof -
  let ?es = "[(demo_post demo_config, \<lambda>_. True, demo_report)]"
  have o: "Stdio_Transport ''node'' [''x.js''] \<in> set (sv_opened (run (connect_step (\<lambda>_. None)) demo_studio ?es))"
    using demo_host demo_created by (simp add: connect_step_def api_connect_def demo_post_def demo_config_def Let_def)
  have "sv_opened demo_studio = []" by (simp add: demo_studio_def)
  from started_commands_clean [OF this o] o show ?thesis by blast
qed

text \<open>
  The origin of a request is never looked at. Any page that posts a configuration to the studio, with a content
  type no preflight asks for, starts the command it names: the answer and the commands are the same as for
  the user interface of the studio itself.
\<close>
theorem foreign_page_starts_command:
  assumes "host_guard (rq_host rq)" "rq_body rq = Some body" "create_transport url body = Inr (Stdio_Transport c args)"
  shows "sv_opened (fst (api_connect url connects scan (rq\<lparr>rq_origin := o1, rq_contentType := t1\<rparr>) s)) = sv_opened s @ [Stdio_Transport c args] \<and>
     api_connect url connects scan (rq\<lparr>rq_origin := o1, rq_contentType := t1\<rparr>) s = api_connect url connects scan rq s"
proof -
  have "tc_type body = Some ''stdio''"
    using assms(3) by (auto simp: create_transport_def split: option.splits list.splits if_splits sum.splits)
  then show ?thesis using assms by (simp add: api_connect_def Let_def)
qed

theorem foreign_page_starts_command_witness:
  "sv_opened (fst (api_connect (\<lambda>_. None) (\<lambda>_. True) demo_report (demo_post demo_config) demo_studio)) = [Stdio_Transport ''node'' [''x.js'']]"
proof -
  have r: "host_guard (rq_host (demo_post demo_config))" "rq_body (demo_post demo_config) = Some demo_config"
    by (simp_all add: demo_post_def demo_host)
  have "demo_post demo_config = demo_post demo_config\<lparr>rq_origin := Some ''https://elsewhere.example'', rq_contentType := Some ''text/plain''\<rparr>"
    by (simp add: demo_post_def)
  then show ?thesis using foreign_page_starts_command [OF r demo_created, where ?o1.0 = "Some ''https://elsewhere.example''" and ?t1.0 = "Some ''text/plain''"]
    by (metis append_Nil demo_studio_def studio_server.select_convs(5))
qed

text \<open>
  A configuration that is refused takes effect in part: the old transport is disconnected and stays, and the
  server names the type of the refused configuration as its target.
\<close>
theorem refused_target_stays_configured:
  assumes "host_guard (rq_host rq)" "rq_body rq = Some body" "tc_type body = Some (k # ks)" "create_transport url body = Inl e"
  shows "\<exists>s'. api_connect url connects scan rq s = (s', Server_Error (Some e)) \<and> sv_transport s' = sv_transport s \<and>
     \<not> sv_connected s' \<and> health_status s' = (False, Some (k # ks))"
  using assms by (simp add: api_connect_def health_status_def Let_def)

theorem refused_target_stays_configured_witness:
  "\<exists>s'. api_connect (\<lambda>_. None) (\<lambda>_. True) demo_report (demo_post (demo_config\<lparr>tc_command := None\<rparr>)) demo_studio =
       (s', Server_Error (Some (Missing_Setting ''command''))) \<and>
     sv_transport s' = Mesh_Transport [] \<and> health_status s' = (False, Some ''stdio'')"
proof -
  have r: "host_guard (rq_host (demo_post (demo_config\<lparr>tc_command := None\<rparr>)))"
    "rq_body (demo_post (demo_config\<lparr>tc_command := None\<rparr>)) = Some (demo_config\<lparr>tc_command := None\<rparr>)"
    "tc_type (demo_config\<lparr>tc_command := None\<rparr>) = Some ''stdio''"
    "create_transport (\<lambda>_. None) (demo_config\<lparr>tc_command := None\<rparr>) = Inl (Missing_Setting ''command'')"
    by (simp_all add: demo_post_def demo_host demo_config_def create_transport_def)
  from refused_target_stays_configured [OF r, of "\<lambda>_. True" demo_report demo_studio]
  show ?thesis by (auto simp: demo_studio_def)
qed

section \<open>Tokens and counts\<close>

text \<open>
  The token cache has one place for all nexuses and clients. As long as the cached token has more than 30 seconds
  left, every caller gets it, whatever nexus, client and scope it asked for, and no request is made; a token
  that comes from the cache is never closer to its end.
\<close>
theorem token_cache_ignores_options:
  assumes "\<not> rv_forceRefresh opts"
  shows "(now + 30000 < ct_expiresAt c \<longrightarrow> resolve_oidc_token variable fetch now opts (Some c) = (Some c, Some (ct_token c))) \<and>
     (resolve_oidc_token variable (\<lambda>_. None) now opts cache = (cache', Some t) \<longrightarrow>
        cache' = cache \<and> (\<exists>c. cache = Some c \<and> t = ct_token c \<and> now + 30000 < ct_expiresAt c))"
  using assms by (auto simp: resolve_oidc_token_def split: option.splits if_splits)

definition demo_opts :: "string \<Rightarrow> resolver_options" where
  "demo_opts nexus = \<lparr>rv_nexusUrl = Some nexus, rv_clientId = None, rv_clientSecret = None, rv_scope = None, rv_resource = None,
     rv_forceRefresh = False\<rparr>"

theorem token_cache_ignores_options_witness:
  "resolve_oidc_token (\<lambda>_. None) (\<lambda>_. None) 0 (demo_opts ''http://other'') (Some \<lparr>ct_token = ''t'', ct_expiresAt = 40000\<rparr>) =
     (Some \<lparr>ct_token = ''t'', ct_expiresAt = 40000\<rparr>, Some ''t'')"
  using token_cache_ignores_options [of "demo_opts ''http://other''" 0 "\<lparr>ct_token = ''t'', ct_expiresAt = 40000\<rparr>" "\<lambda>_. None" "\<lambda>_. None"]
  by (simp add: demo_opts_def)

lemma tier_split:
  "list_all (\<lambda>n. sn_tier n \<in> {None, Some 1, Some 2, Some 3}) ns \<Longrightarrow>
   length ns = length (filter (\<lambda>n. sn_tier n = Some 1) ns) + length (filter (\<lambda>n. sn_tier n = Some 2) ns) +
     length (filter (\<lambda>n. sn_tier n = Some 3) ns) + length (filter (\<lambda>n. sn_tier n = None) ns)"
  by (induction ns) auto

text \<open>The summary adds up: every node is online or not, and every online node is counted in one tier.\<close>

theorem nodes_summary_adds_up:
  assumes "list_all (\<lambda>n. sn_tier n \<in> {None, Some 1, Some 2, Some 3}) (rp_nodes r)"
  shows "let n = api_nodes (Some r) in ns_totalNodes n = ns_onlineNodes n + ns_offlineNodes n \<and>
     ns_onlineNodes n = ns_tier1 n + ns_tier2 n + ns_tier3 n + ns_standalone n"
proof -
  have "list_all (\<lambda>n. sn_tier n \<in> {None, Some 1, Some 2, Some 3}) (filter (\<lambda>n. sn_status n = ''online'') (rp_nodes r))"
    using assms by (auto simp: list_all_iff)
  from tier_split [OF this] length_filter_le [of "\<lambda>n. sn_status n = ''online''" "rp_nodes r"] show ?thesis
    by (simp add: api_nodes_def Let_def)
qed

theorem nodes_summary_adds_up_witness: "ns_onlineNodes (api_nodes (Some (demo_report (Mesh_Transport [])))) = 1"
proof -
  let ?r = "demo_report (Mesh_Transport [])"
  have "list_all (\<lambda>n. sn_tier n \<in> {None, Some 1, Some 2, Some 3}) (rp_nodes ?r)" by (simp add: demo_report_def)
  from nodes_summary_adds_up [OF this] show ?thesis by (simp add: api_nodes_def demo_report_def Let_def)
qed

text \<open>
  A tool passes the test of the studio under any capitals and underscores, and is then called by the name that was
  typed: on a target that compares names exactly, a tool the studio found supported is not found.
\<close>
theorem supported_under_another_name:
  "is_supported [''Analyze_HFT_Market_Data''] ''analyzehftmarketdata'' \<and> ''analyzehftmarketdata'' \<notin> set [''Analyze_HFT_Market_Data''] \<and>
   (t \<in> set ts \<longrightarrow> is_supported ts t)"
proof -
  have "is_supported [''Analyze_HFT_Market_Data''] ''analyzehftmarketdata''" by code_simp
  then show ?thesis by (auto simp: is_supported_def list_ex_iff)
qed

theorem supported_under_another_name_witness: "is_supported [''a'', ''b''] ''b''"
  using supported_under_another_name [of "''b''" "[''a'', ''b'']"] by simp

end
