(* ===== verification/Studio_Transports.thy ===== *)
theory Studio_Transports
  imports Studio_Access
begin

text \<open>
  Two transports of the studio: the JSON-RPC pipe to a subprocess (\<open>transports/stdio.transport.ts\<close>) as a state
  machine over what the subprocess writes and the studio asks, and a request and a tool call over HTTP
  (\<open>transports/http.transport.ts\<close>).

  \<open>parse\<close> is \<open>JSON.parse\<close> of a line, reduced to what the code reads of it: \<open>None\<close> for a text that is not JSON or
  an answer without properties, else the identifier when it is a number, and the error or the result. A promise
  is its identifier; how it settles is an entry of \<open>sp_settled\<close>. The telemetry of a result is left out.
\<close>

section \<open>The pipe\<close>

datatype rpc_outcome = Rpc_Error string | Rpc_Result jval

record rpc_line =
  rl_id :: "int option"
  rl_outcome :: rpc_outcome

datatype settlement = Fulfilled jval | Rejected string

record stdio_pipe =
  sp_connected :: bool
  sp_child :: bool                       \<comment> \<open>\<open>child\<close> is set\<close>
  sp_pending :: "int list"
  sp_nextRequestId :: int
  sp_stdoutBuffer :: string
  sp_settled :: "(int \<times> settlement) list"
  sp_crashed :: bool                     \<comment> \<open>an exception left an event handler\<close>

definition MAX_STDIO_BUFFER :: nat where
  "MAX_STDIO_BUFFER = 16 * 1024 * 1024"

definition settle_pending :: "int \<Rightarrow> settlement \<Rightarrow> stdio_pipe \<Rightarrow> stdio_pipe" where
  "settle_pending i r s =
     (if i \<in> set (sp_pending s)
      then s\<lparr>sp_pending := filter (\<lambda>j. j \<noteq> i) (sp_pending s), sp_settled := sp_settled s @ [(i, r)]\<rparr> else s)"

definition handle_line :: "(string \<Rightarrow> rpc_line option) \<Rightarrow> string \<Rightarrow> stdio_pipe \<Rightarrow> stdio_pipe" where
  "handle_line parse l s =
     (if trim l = [] then s
      else case parse (trim l) of
        None \<Rightarrow> s
      | Some json \<Rightarrow>
          (case rl_id json of
             None \<Rightarrow> s
           | Some i \<Rightarrow>
               settle_pending i (case rl_outcome json of Rpc_Error m \<Rightarrow> Rejected m | Rpc_Result v \<Rightarrow> Fulfilled v) s))"

definition stdio_disconnect :: "stdio_pipe \<Rightarrow> stdio_pipe" where
  "stdio_disconnect s = s\<lparr>sp_connected := False, sp_child := False, sp_pending := []\<rparr>"

definition handle_stdout_chunk :: "nat \<Rightarrow> (string \<Rightarrow> rpc_line option) \<Rightarrow> string \<Rightarrow> stdio_pipe \<Rightarrow> stdio_pipe" where
  "handle_stdout_chunk bound parse chunk s =
     (let buffer = sp_stdoutBuffer s @ chunk in
      if length buffer > bound then (stdio_disconnect (s\<lparr>sp_stdoutBuffer := buffer\<rparr>))\<lparr>sp_crashed := True\<rparr>
      else (let parts = split_on (CHR 0x0A) buffer in
            (fold (handle_line parse) (butlast parts) s)\<lparr>sp_stdoutBuffer := last parts\<rparr>))"

text \<open>A request is rejected at once, without an identifier, when there is no connection.\<close>

definition send_request :: "stdio_pipe \<Rightarrow> stdio_pipe \<times> int option" where
  "send_request s =
     (if \<not> sp_child s \<or> \<not> sp_connected s then (s, None)
      else (s\<lparr>sp_pending := sp_pending s @ [sp_nextRequestId s], sp_nextRequestId := sp_nextRequestId s + 1\<rparr>, Some (sp_nextRequestId s)))"

text \<open>The handlers of \<open>error\<close> and \<open>exit\<close>.\<close>

definition reject_pending :: "string \<Rightarrow> stdio_pipe \<Rightarrow> stdio_pipe" where
  "reject_pending e s =
     s\<lparr>sp_connected := False, sp_settled := sp_settled s @ map (\<lambda>i. (i, Rejected e)) (sp_pending s), sp_pending := []\<rparr>"

datatype stdio_event = Stdout_Chunk string | Ask | Child_Ends string | Disconnects | Spawned

fun stdio_step :: "nat \<Rightarrow> (string \<Rightarrow> rpc_line option) \<Rightarrow> stdio_pipe \<Rightarrow> stdio_event \<Rightarrow> stdio_pipe" where
  "stdio_step bound parse s (Stdout_Chunk c) = (if sp_crashed s then s else handle_stdout_chunk bound parse c s)"
| "stdio_step bound parse s Ask = (if sp_crashed s then s else fst (send_request s))"
| "stdio_step bound parse s (Child_Ends e) = (if sp_crashed s then s else reject_pending e s)"
| "stdio_step bound parse s Disconnects = (if sp_crashed s then s else stdio_disconnect s)"
| "stdio_step bound parse s Spawned = (if sp_crashed s then s else s\<lparr>sp_connected := True, sp_child := True\<rparr>)"

section \<open>Properties of the pipe\<close>

lemma split_on_append: "split_on c (xs @ ys) = butlast (split_on c xs) @ split_on c (last (split_on c xs) @ ys)"
proof (induction xs)
  case (Cons x xs)
  obtain p ps where ps: "split_on c xs = p # ps" by (cases "split_on c xs") (simp_all add: split_on_nonempty)
  obtain q qs where qs: "split_on c (xs @ ys) = q # qs" by (cases "split_on c (xs @ ys)") (simp_all add: split_on_nonempty)
  show ?case using Cons ps qs by (cases ps) (auto split: list.splits)
qed simp

text \<open>
  The framing does not depend on how the pipe cuts the text: any chunks of an output that fits the buffer settle
  the same requests, with the same results and in the same order, as the output in one piece.
\<close>

lemma fold_handle_buffer [simp]:
  "sp_stdoutBuffer (fold (handle_line parse) ls s) = sp_stdoutBuffer s" "sp_crashed (fold (handle_line parse) ls s) = sp_crashed s"
proof -
  have "sp_stdoutBuffer (handle_line parse l s) = sp_stdoutBuffer s" "sp_crashed (handle_line parse l s) = sp_crashed s" for l s
    by (auto simp: handle_line_def settle_pending_def split: option.splits)
  then show "sp_stdoutBuffer (fold (handle_line parse) ls s) = sp_stdoutBuffer s" "sp_crashed (fold (handle_line parse) ls s) = sp_crashed s"
    by (induction ls arbitrary: s) simp_all
qed

lemma handle_line_buffer: "handle_line parse l (s\<lparr>sp_stdoutBuffer := b\<rparr>) = (handle_line parse l s)\<lparr>sp_stdoutBuffer := b\<rparr>"
  by (auto simp: handle_line_def settle_pending_def split: option.splits)

lemma fold_line_buffer: "fold (handle_line parse) ls (s\<lparr>sp_stdoutBuffer := b\<rparr>) = (fold (handle_line parse) ls s)\<lparr>sp_stdoutBuffer := b\<rparr>"
  by (induction ls arbitrary: s) (simp_all add: handle_line_buffer)

lemma last_split_length: "length (last (split_on c xs)) \<le> length xs"
proof (induction xs)
  case (Cons x xs)
  obtain p ps where "split_on c xs = p # ps" by (cases "split_on c xs") (simp_all add: split_on_nonempty)
  then show ?case using Cons by (cases ps) auto
qed simp

lemma two_chunks:
  assumes "length (sp_stdoutBuffer s @ a @ b) \<le> bound"
  shows "handle_stdout_chunk bound parse b (handle_stdout_chunk bound parse a s) = handle_stdout_chunk bound parse (a @ b) s"
proof -
  let ?x = "sp_stdoutBuffer s @ a"
  have l: "length (last (split_on (CHR 0x0A) ?x) @ b) \<le> bound"
    using last_split_length [of "CHR 0x0A" ?x] assms by simp
  have a: "length ?x \<le> bound" using assms by simp
  have "split_on (CHR 0x0A) (sp_stdoutBuffer s @ a @ b) = butlast (split_on (CHR 0x0A) ?x) @ split_on (CHR 0x0A) (last (split_on (CHR 0x0A) ?x) @ b)"
    using split_on_append [of "CHR 0x0A" ?x b] by simp
  then show ?thesis using a l assms
    by (simp add: handle_stdout_chunk_def Let_def fold_line_buffer butlast_append split_on_nonempty)
qed

theorem framing_independent_of_chunks:
  assumes "length (sp_stdoutBuffer s @ concat cs) \<le> bound" "\<not> sp_crashed s" "cs \<noteq> []"
  shows "run (stdio_step bound parse) s (map Stdout_Chunk cs) = stdio_step bound parse s (Stdout_Chunk (concat cs))"
  using assms
proof (induction cs rule: rev_induct)
  case (snoc c cs)
  show ?case
  proof (cases "cs = []")
    case False
    have "length (sp_stdoutBuffer s @ concat cs) \<le> bound" using snoc.prems(1) by simp
    then have "run (stdio_step bound parse) s (map Stdout_Chunk cs) = handle_stdout_chunk bound parse (concat cs) s"
      using snoc False by simp
    moreover have "\<not> sp_crashed (handle_stdout_chunk bound parse (concat cs) s)"
      using snoc.prems(1,2) by (simp add: handle_stdout_chunk_def Let_def)
    ultimately show ?thesis using two_chunks [of s "concat cs" c bound parse] snoc.prems by simp
  qed (use snoc.prems in simp)
qed simp

definition demo_pipe :: stdio_pipe where
  "demo_pipe = \<lparr>sp_connected = True, sp_child = True, sp_pending = [1], sp_nextRequestId = 2, sp_stdoutBuffer = [], sp_settled = [],
     sp_crashed = False\<rparr>"

definition demo_line :: "string \<Rightarrow> rpc_line option" where
  "demo_line l = (if l = ''ok'' then Some \<lparr>rl_id = Some 1, rl_outcome = Rpc_Result JNull\<rparr> else None)"

theorem framing_independent_of_chunks_witness:
  "sp_settled (run (stdio_step 100 demo_line) demo_pipe (map Stdout_Chunk [''o'', ''k'', [CHR 0x0A]])) = [(1, Fulfilled JNull)]"
proof -
  have "run (stdio_step 100 demo_line) demo_pipe (map Stdout_Chunk [''o'', ''k'', [CHR 0x0A]]) =
      stdio_step 100 demo_line demo_pipe (Stdout_Chunk (concat [''o'', ''k'', [CHR 0x0A]]))"
    by (rule framing_independent_of_chunks) (simp_all add: demo_pipe_def)
  also have "\<dots> = (handle_line demo_line ''ok'' demo_pipe)\<lparr>sp_stdoutBuffer := []\<rparr>"
    by (simp add: handle_stdout_chunk_def demo_pipe_def Let_def)
  finally show ?thesis
    by (simp add: handle_line_def demo_line_def settle_pending_def demo_pipe_def trim_def js_space_def)
qed

definition pipe_ok :: "stdio_pipe \<Rightarrow> bool" where
  "pipe_ok s \<longleftrightarrow>
     distinct (sp_pending s @ map fst (sp_settled s)) \<and> (\<forall>i\<in>set (sp_pending s @ map fst (sp_settled s)). i < sp_nextRequestId s)"

lemma settle_ok: "pipe_ok s \<Longrightarrow> pipe_ok (settle_pending i r s)"
  by (auto simp: pipe_ok_def settle_pending_def)

lemma lines_ok: "pipe_ok s \<Longrightarrow> pipe_ok (fold (handle_line parse) ls s)"
  by (induction ls arbitrary: s) (auto simp: handle_line_def intro: settle_ok split: option.splits)

lemma buffer_ok [simp]: "pipe_ok (s\<lparr>sp_stdoutBuffer := b\<rparr>) = pipe_ok s" "pipe_ok (s\<lparr>sp_crashed := c\<rparr>) = pipe_ok s"
  by (simp_all add: pipe_ok_def)

lemma disconnect_ok: "pipe_ok s \<Longrightarrow> pipe_ok (stdio_disconnect s)"
  by (auto simp: pipe_ok_def stdio_disconnect_def)

lemma request_ok: "pipe_ok s \<Longrightarrow> pipe_ok (fst (send_request s))"
proof (cases "sp_child s \<and> sp_connected s")
  case True
  assume ok: "pipe_ok s"
  then have bound: "\<forall>i\<in>set (sp_pending s) \<union> fst ` set (sp_settled s). i < sp_nextRequestId s" by (auto simp: pipe_ok_def)
  then have fresh: "sp_nextRequestId s \<notin> set (sp_pending s)" "sp_nextRequestId s \<notin> fst ` set (sp_settled s)" by blast+
  have "\<forall>i\<in>set (sp_pending s) \<union> fst ` set (sp_settled s). i < sp_nextRequestId s + 1"
  proof
    fix i assume "i \<in> set (sp_pending s) \<union> fst ` set (sp_settled s)"
    then have "i < sp_nextRequestId s" using bound by blast
    then show "i < sp_nextRequestId s + 1" by simp
  qed
  with fresh show ?thesis using ok True by (auto simp: pipe_ok_def send_request_def)
qed (auto simp: send_request_def)

interpretation pipe_sound: preserved "stdio_step bound parse" pipe_ok for bound parse
proof
  fix s e
  assume ok: "pipe_ok s"
  show "pipe_ok (stdio_step bound parse s e)"
  proof (cases e)
    case (Stdout_Chunk c)
    then show ?thesis using ok by (simp add: handle_stdout_chunk_def Let_def lines_ok disconnect_ok)
  next
    case Ask
    then show ?thesis using ok request_ok by simp
  next
    case (Child_Ends m)
    then show ?thesis using ok by (auto simp: pipe_ok_def reject_pending_def comp_def)
  next
    case Disconnects
    then show ?thesis using ok disconnect_ok by simp
  qed (use ok in \<open>simp add: pipe_ok_def\<close>)
qed

text \<open>
  A request settles at most once, whatever the subprocess writes: no later answer with the same identifier
  reaches it, and the answers to requests that were never made are ignored.
\<close>
theorem request_settles_at_most_once:
  assumes "sp_pending s = []" "sp_settled s = []"
  shows "distinct (map fst (sp_settled (run (stdio_step bound parse) s es)))"
proof -
  have "pipe_ok s" using assms by (simp add: pipe_ok_def)
  from pipe_sound.run_inv [OF this] show ?thesis by (simp add: pipe_ok_def)
qed

theorem request_settles_at_most_once_witness:
  "distinct (map fst (sp_settled (run (stdio_step 9 demo_line) (demo_pipe\<lparr>sp_pending := []\<rparr>) [Ask, Stdout_Chunk ''ok''])))"
  by (rule request_settles_at_most_once) (simp_all add: demo_pipe_def)

definition lost :: "int \<Rightarrow> stdio_pipe \<Rightarrow> bool" where
  "lost i s \<longleftrightarrow> i \<notin> set (sp_pending s) \<and> i \<notin> fst ` set (sp_settled s) \<and> i < sp_nextRequestId s"

lemma lost_settle: "lost i s \<Longrightarrow> lost i (settle_pending j r s)"
  by (auto simp: lost_def settle_pending_def)

lemma lost_lines: "lost i s \<Longrightarrow> lost i (fold (handle_line parse) ls s)"
  by (induction ls arbitrary: s) (auto simp: handle_line_def intro: lost_settle split: option.splits)

interpretation pipe_lost: preserved "stdio_step bound parse" "lost i" for bound parse i
proof
  fix s e
  assume l: "lost i s"
  then have d: "lost i (stdio_disconnect s)" "lost i (reject_pending m s)" "lost i (fst (send_request s))" for m
    by (auto simp: lost_def stdio_disconnect_def reject_pending_def send_request_def)
  have c: "lost i (handle_stdout_chunk bound parse x s)" for x
    using lost_lines [OF l] l by (simp add: handle_stdout_chunk_def Let_def) (auto simp: lost_def stdio_disconnect_def)
  show "lost i (stdio_step bound parse s e)" using l c d by (cases e) (auto simp: lost_def)
qed

text \<open>
  A disconnection forgets the requests that wait, without rejecting them: none of them settles any more, whatever
  comes later, and the calls that await them never return. An end of the subprocess rejects them all.
\<close>
theorem disconnected_requests_never_settle:
  assumes "pipe_ok s" "i \<in> set (sp_pending s)" "\<not> sp_crashed s"
  shows "i \<notin> fst ` set (sp_settled (run (stdio_step bound parse) s (Disconnects # es))) \<and>
     (i, Rejected e) \<in> set (sp_settled (stdio_step bound parse s (Child_Ends e)))"
proof -
  have "lost i (stdio_disconnect s)" using assms by (auto simp: pipe_ok_def lost_def stdio_disconnect_def)
  from pipe_lost.run_inv [OF this] assms show ?thesis by (auto simp: lost_def reject_pending_def)
qed

theorem disconnected_requests_never_settle_witness:
  "1 \<notin> fst ` set (sp_settled (run (stdio_step 9 demo_line) demo_pipe [Disconnects, Spawned, Stdout_Chunk (''ok'' @ [CHR 0x0A])]))"
  using disconnected_requests_never_settle [of demo_pipe 1 9 demo_line "[Spawned, Stdout_Chunk (''ok'' @ [CHR 0x0A])]"]
  by (simp add: demo_pipe_def pipe_ok_def)

text \<open>
  A subprocess can end the studio: an output beyond the bound raises inside the handler of the stream, where
  nothing catches it.
\<close>
theorem long_output_ends_studio:
  assumes "bound < length (sp_stdoutBuffer s @ chunk)" "\<not> sp_crashed s"
  shows "sp_crashed (run (stdio_step bound parse) s (Stdout_Chunk chunk # es))"
proof -
  have stays: "sp_crashed t \<Longrightarrow> sp_crashed (run (stdio_step bound parse) t es)" for t
  proof (induction es arbitrary: t)
    case (Cons e es)
    have "stdio_step bound parse t e = t" using Cons.prems by (cases e) simp_all
    then show ?case using Cons by simp
  qed simp
  have "sp_crashed (handle_stdout_chunk bound parse chunk s)" using assms(1) by (simp add: handle_stdout_chunk_def Let_def)
  then show ?thesis using stays assms(2) by simp
qed

theorem long_output_ends_studio_witness: "sp_crashed (run (stdio_step 2 demo_line) demo_pipe [Stdout_Chunk ''abc''])"
  by (rule long_output_ends_studio) (simp_all add: demo_pipe_def)

section \<open>HTTP\<close>

record http_transport =
  ht_targetUrl :: string
  ht_authToken :: "string option"

text \<open>What comes of a POST: a text is the message of an exception of \<open>fetch\<close> or of \<open>res.json()\<close>.\<close>

record http_reply =
  hr_status :: int
  hr_statusText :: string
  hr_error :: "string option"      \<comment> \<open>the text of a truthy \<open>error\<close>\<close>
  hr_result :: jval

record http_post =
  hp_url :: string
  hp_authorization :: "string option"
  hp_method :: string
  hp_params :: jval

definition mcp_endpoint :: "http_transport \<Rightarrow> string" where
  "mcp_endpoint t = (if ends_with (ht_targetUrl t) ''/mcp'' then ht_targetUrl t else ht_targetUrl t @ ''/mcp'')"

text \<open>The token of a request: the one of the transport or else whatever \<open>resolveOidcToken()\<close> gives.\<close>

definition active_token :: "http_transport \<Rightarrow> string option \<Rightarrow> string option" where
  "active_token t resolved = (case ht_authToken t of Some (c # cs) \<Rightarrow> Some (c # cs) | _ \<Rightarrow> resolved)"

definition rpc_post :: "http_transport \<Rightarrow> string option \<Rightarrow> string \<Rightarrow> jval \<Rightarrow> http_post" where
  "rpc_post t resolved method params =
     \<lparr>hp_url = mcp_endpoint t,
      hp_authorization = (case active_token t resolved of Some (c # cs) \<Rightarrow> Some (''Bearer '' @ c # cs) | _ \<Rightarrow> None),
      hp_method = method, hp_params = params\<rparr>"

definition post_json_rpc ::
    "(http_post \<Rightarrow> string + http_reply) \<Rightarrow> http_transport \<Rightarrow> string option \<Rightarrow> string \<Rightarrow> jval \<Rightarrow> string + jval" where
  "post_json_rpc fetch t resolved method params =
     (case fetch (rpc_post t resolved method params) of
        Inl e \<Rightarrow> Inl e
      | Inr r \<Rightarrow>
          if hr_status r < 200 \<or> 299 < hr_status r then Inl (''HTTP '' @ show_int (hr_status r) @ '': '' @ hr_statusText r)
          else case hr_error r of Some e \<Rightarrow> Inl e | None \<Rightarrow> Inr (hr_result r))"

datatype step_status = Running | Success | Failed

record execution_result =
  er_failed :: bool
  er_title :: string
  er_payload :: jval
  er_verifiedZk :: bool
  er_zkHash :: string
  er_shieldBlocked :: bool
  er_steps :: "(string \<times> step_status) list"    \<comment> \<open>the calls of \<open>onStep\<close>\<close>

definition first_text :: "jval \<Rightarrow> string" where
  "first_text v =
     (case opt_prop v ''content'' of
        JArr i (c # cs) \<Rightarrow> (case opt_prop c ''text'' of JStr t \<Rightarrow> t | _ \<Rightarrow> [])
      | _ \<Rightarrow> [])"

definition names_shield :: "string \<Rightarrow> bool" where
  "names_shield msg \<longleftrightarrow> list_ex (\<lambda>p. str_includes (to_lower msg) p) [''shield'', ''pii'', ''blocked'']"

definition failed_result :: "string \<Rightarrow> string \<Rightarrow> bool \<Rightarrow> (string \<times> step_status) list \<Rightarrow> execution_result" where
  "failed_result title desc shield steps =
     \<lparr>er_failed = True, er_title = title, er_payload = JStr desc, er_verifiedZk = False, er_zkHash = [], er_shieldBlocked = shield,
      er_steps = steps @ [(''execution'', Failed)]\<rparr>"

text \<open>\<open>callTool\<close>. \<open>stringify\<close> is \<open>JSON.stringify\<close>, \<open>None\<close> for a value without a text, which raises in the telemetry;
  \<open>hmac\<close> is the HMAC of a text under the key of the code.\<close>

definition http_call_tool ::
    "(string \<Rightarrow> jval option) \<Rightarrow> (jval \<Rightarrow> string option) \<Rightarrow> (string \<Rightarrow> string \<Rightarrow> string) \<Rightarrow> (http_post \<Rightarrow> string + http_reply) \<Rightarrow>
     http_transport \<Rightarrow> string option \<Rightarrow> string \<Rightarrow> jval \<Rightarrow> string \<Rightarrow> execution_result" where
  "http_call_tool parse stringify hmac fetch t resolved name args envelope =
     (let rawCode = (if envelope \<noteq> [] then envelope else case opt_prop args ''payload'' of JStr p \<Rightarrow> p | _ \<Rightarrow> []);
          callParams = (if envelope \<noteq> [] then set_field ''payload'' (JStr envelope) args else args);
          before = [(''bootstrap'', Success), (''discovery'', Success), (''pqc'', Success), (''sealing'', Success), (''execution'', Running)] in
      case post_json_rpc fetch t resolved ''tools/call'' (JObj None [(''name'', JStr name), (''arguments'', callParams)]) of
        Inl e \<Rightarrow> failed_result ''HTTP Network Error'' e False before
      | Inr rpcRes \<Rightarrow>
          if truthy (opt_prop rpcRes ''isError'') then
            (let errorMsg = (if first_text rpcRes \<noteq> [] then first_text rpcRes else ''Tool execution failed on remote server'') in
             failed_result (if names_shield errorMsg then ''Egress PII Shield Blocked'' else ''Remote Error'') errorMsg (names_shield errorMsg) before)
          else
            (let after = before @ [(''execution'', Success), (''zk_verify'', Success)];
                 parsedOutput =
                   (if first_text rpcRes \<noteq> []
                    then case parse (first_text rpcRes) of Some v \<Rightarrow> v | None \<Rightarrow> JObj None [(''rawText'', JStr (first_text rpcRes))]
                    else rpcRes) in
             case stringify parsedOutput of
               None \<Rightarrow> failed_result ''HTTP Network Error'' ''TypeError'' False after
             | Some outputJson \<Rightarrow>
                 \<lparr>er_failed = False, er_title = [], er_payload = parsedOutput, er_verifiedZk = True,
                  er_zkHash = ''zk-hmac-sha256:'' @ take 32 (hmac ''pqc-session-key'' (rawCode @ outputJson)),
                  er_shieldBlocked = False, er_steps = after\<rparr>))"

subsection \<open>Properties\<close>

text \<open>The output of a successful answer, and what is shown for it.\<close>

definition shown_output :: "(string \<Rightarrow> jval option) \<Rightarrow> jval \<Rightarrow> jval" where
  "shown_output parse rpcRes =
     (if first_text rpcRes \<noteq> []
      then case parse (first_text rpcRes) of Some v \<Rightarrow> v | None \<Rightarrow> JObj None [(''rawText'', JStr (first_text rpcRes))]
      else rpcRes)"

lemma call_result_cases:
  obtains (Error) title desc shield steps where "http_call_tool parse stringify hmac fetch t resolved name args envelope = failed_result title desc shield steps"
  | (Shown) rpcRes outputJson where "stringify (shown_output parse rpcRes) = Some outputJson" "\<not> truthy (opt_prop rpcRes ''isError'')"
      "er_verifiedZk (http_call_tool parse stringify hmac fetch t resolved name args envelope)"
      "(''zk_verify'', Success) \<in> set (er_steps (http_call_tool parse stringify hmac fetch t resolved name args envelope))"
proof (cases "post_json_rpc fetch t resolved ''tools/call''
    (JObj None [(''name'', JStr name), (''arguments'', if envelope \<noteq> [] then set_field ''payload'' (JStr envelope) args else args)])")
  case (Inl e)
  then show ?thesis using Error by (simp only: http_call_tool_def Let_def sum.case)
next
  case (Inr rpcRes)
  show ?thesis
  proof (cases "truthy (opt_prop rpcRes ''isError'')")
    case True
    then show ?thesis using Error Inr by (simp only: http_call_tool_def Let_def sum.case if_True)
  next
    case no: False
    show ?thesis
    proof (cases "stringify (shown_output parse rpcRes)")
      case None
      then show ?thesis using Error Inr no
        by (simp only: http_call_tool_def Let_def sum.case if_False shown_output_def [symmetric] option.case)
    next
      case (Some out)
      have r: "http_call_tool parse stringify hmac fetch t resolved name args envelope =
          \<lparr>er_failed = False, er_title = [], er_payload = shown_output parse rpcRes, er_verifiedZk = True,
           er_zkHash = ''zk-hmac-sha256:'' @ take 32 (hmac ''pqc-session-key''
              ((if envelope \<noteq> [] then envelope else case opt_prop args ''payload'' of JStr p \<Rightarrow> p | _ \<Rightarrow> []) @ out)),
           er_shieldBlocked = False,
           er_steps = [(''bootstrap'', Success), (''discovery'', Success), (''pqc'', Success), (''sealing'', Success), (''execution'', Running)] @
             [(''execution'', Success), (''zk_verify'', Success)]\<rparr>"
        using Inr no Some by (simp only: http_call_tool_def Let_def sum.case if_False shown_output_def [symmetric] option.case)
      show ?thesis using Shown [OF Some no] unfolding r by simp
    qed
  qed
qed

text \<open>
  The verification the studio reports does not happen. Every call that ends without an error is shown as
  verified, with a step that says so, although no receipt is read.
\<close>
theorem studio_verifies_nothing:
  assumes "\<not> er_failed (http_call_tool parse stringify hmac fetch t resolved name args envelope)"
  shows "er_verifiedZk (http_call_tool parse stringify hmac fetch t resolved name args envelope) \<and>
     (''zk_verify'', Success) \<in> set (er_steps (http_call_tool parse stringify hmac fetch t resolved name args envelope))"
  using assms
  by (cases rule: call_result_cases [of parse stringify hmac fetch t resolved name args envelope]) (simp_all add: failed_result_def)

definition demo_reply :: "jval \<Rightarrow> http_post \<Rightarrow> string + http_reply" where
  "demo_reply v p = Inr \<lparr>hr_status = 200, hr_statusText = [], hr_error = None, hr_result = v\<rparr>"

definition demo_http :: http_transport where
  "demo_http = \<lparr>ht_targetUrl = ''http://other'', ht_authToken = None\<rparr>"

theorem studio_verifies_nothing_witness:
  "er_verifiedZk (http_call_tool (\<lambda>_. None) (\<lambda>_. Some ''x'') (\<lambda>_ _. []) (demo_reply (JObj None [])) demo_http None ''t'' (JObj None []) [])"
proof -
  have "\<not> er_failed (http_call_tool (\<lambda>_. None) (\<lambda>_. Some ''x'') (\<lambda>_ _. []) (demo_reply (JObj None [])) demo_http None ''t'' (JObj None []) [])"
    by (simp add: http_call_tool_def post_json_rpc_def demo_reply_def Let_def first_text_def opt_prop_def)
  from studio_verifies_nothing [OF this] show ?thesis by blast
qed

text \<open>
  The receipt of an answer has no influence: two answers with the same text, one with a receipt and one with
  another or with none, give the same result, and its hash is made in the studio with a published key.
\<close>
theorem receipt_not_read:
  assumes "\<not> truthy (opt_prop r ''isError'')" "\<not> truthy (opt_prop r' ''isError'')" "first_text r = first_text r'" "first_text r \<noteq> []"
    and "\<And>p. fetch p = Inr \<lparr>hr_status = 200, hr_statusText = [], hr_error = None, hr_result = r\<rparr>"
    and "\<And>p. fetch' p = Inr \<lparr>hr_status = 200, hr_statusText = [], hr_error = None, hr_result = r'\<rparr>"
  shows "http_call_tool parse stringify hmac fetch t resolved name args envelope = http_call_tool parse stringify hmac fetch' t resolved name args envelope"
proof -
  have post: "post_json_rpc fetch t resolved m ps = Inr r" "post_json_rpc fetch' t resolved m ps = Inr r'" for m ps
    by (simp_all add: post_json_rpc_def assms(5,6))
  have shown: "shown_output parse r = shown_output parse r'" by (simp add: shown_output_def assms(3) assms(4) [unfolded assms(3)] split: option.split)
  show ?thesis using assms(1,2) unfolding http_call_tool_def Let_def post
    by (simp only: sum.case if_False shown_output_def [symmetric] shown)
qed

definition demo_answer_with :: "jval \<Rightarrow> jval" where
  "demo_answer_with receipt =
     JObj None [(''content'', JArr None [JObj None [(''type'', JStr ''text''), (''text'', JStr ''3'')]]), (''zkReceipt'', receipt)]"

theorem receipt_not_read_witness:
  "http_call_tool (\<lambda>_. None) (\<lambda>_. None) (\<lambda>_ _. []) (demo_reply (demo_answer_with (JStr ''forged''))) demo_http None ''t'' JNull [] =
   http_call_tool (\<lambda>_. None) (\<lambda>_. None) (\<lambda>_ _. []) (demo_reply (demo_answer_with JUndef)) demo_http None ''t'' JNull []"
  by (rule receipt_not_read) (simp_all add: demo_reply_def demo_answer_with_def first_text_def opt_prop_def)

text \<open>
  A transport without a token of its own sends the token of the nexus to its target, whatever the target is. A
  target URL named by the body of a connect request (\<open>foreign_page_starts_command\<close>) thus receives the token of
  the user; only the transport's own token keeps the cached one back.
\<close>
theorem nexus_token_reaches_any_target:
  assumes "resolve_oidc_token variable fetch now opts (Some c) = (Some c, Some (ct_token c))" "ct_token c \<noteq> []"
    and "create_transport url config = Inr (Http_Transport u (tc_authToken config))"
  shows "hp_authorization (rpc_post \<lparr>ht_targetUrl = u, ht_authToken = tc_authToken config\<rparr>
       (snd (resolve_oidc_token variable fetch now opts (Some c))) method params) =
     Some (''Bearer '' @ (case tc_authToken config of Some (x # xs) \<Rightarrow> x # xs | _ \<Rightarrow> ct_token c))"
  using assms by (cases "ct_token c") (auto simp: rpc_post_def active_token_def split: option.splits list.splits)

theorem nexus_token_reaches_any_target_witness:
  "hp_authorization (rpc_post \<lparr>ht_targetUrl = ''http://other'', ht_authToken = None\<rparr> (Some ''secret'') ''initialize'' JNull) = Some ''Bearer secret''"
proof -
  let ?c = "\<lparr>ct_token = ''secret'', ct_expiresAt = 40000\<rparr>"
  let ?url = "\<lambda>u. Some \<lparr>tu_protocol = ''http:'', tu_hostname = ''other'', tu_text = u\<rparr>"
  let ?config = "demo_config\<lparr>tc_type := Some ''http'', tc_url := Some ''http://other''\<rparr>"
  have token: "resolve_oidc_token (\<lambda>_. None) (\<lambda>_. None) 0 (demo_opts ''n'') (Some ?c) = (Some ?c, Some (ct_token ?c))"
    by (simp add: resolve_oidc_token_def demo_opts_def)
  have "create_transport ?url ?config = Inr (Http_Transport ''http://other'' (tc_authToken ?config))"
    by (simp add: create_transport_def demo_config_def validate_http_target_def BLOCKED_SSRF_HOSTS_def to_lower_def to_lower_char_def
        drop_last_slash_def ends_with_def Let_def)
  from nexus_token_reaches_any_target [OF token _ this] show ?thesis
    by (simp add: resolve_oidc_token_def demo_opts_def demo_config_def)
qed

end
