(* ===== verification/Spec2Isabelle.thy ===== *)
theory Spec2Isabelle
  imports Routing_Table Token_Manager Session_Bridge Server_Properties Client_Properties Manifest_Exchange Gateway_Properties Swarm_Key Agent_Properties
    Registry_Properties Authorization_Server Trace_Log Token_Economy Studio_Transports
begin

text \<open>
  Verification of the TypeScript SDK of LIOP (\<open>sdks/typescript/src\<close>), the Logic-Injection-on-Origin
  Protocol: a client sends a small program to the node that holds the data, the node runs it in a sandbox
  and returns only a screened result with a receipt. All paths below are relative to that directory.

  \<^bold>\<open>The program and the theories.\<close>

  \<^item> Shared: \<open>Liop_Prelude\<close> (JavaScript strings, maps, hexadecimal and big-endian numbers, the locales
    \<open>js_map_ops\<close> and \<open>preserved\<close>), \<open>Js_Values\<close> (values, errors, bytes), \<open>Json_Text\<close> (canonical text).
  \<^item> Admission to a node: \<open>Access_Control\<close> (security/rbac.ts, prm.ts, jwt-validator.ts, and the token gate and
    \<open>negotiateIntent\<close> of server/index.ts), \<open>Rate_Limits\<close> (gateway/rate-limiter.ts and the call limits of
    server/index.ts), \<open>Token_Manager\<close> (runtime/token-manager.ts).
  \<^item> Before a program runs: \<open>Taint_Analyzer\<close> (security/taint-analyzer.ts), \<open>Egress_Policy\<close> (preflight, output
    schema and aggregation policy of server/index.ts), \<open>Query_Budget\<close> (budgets per client and field).
  \<^item> The run: \<open>Sandbox\<close> (sandbox/wasi.ts and the two guardians), \<open>Logic_Worker\<close> (workers/logic-execution.ts),
    \<open>Privacy_Engine\<close> (security/dp-engine.ts, server/output-sanitizer.ts), \<open>Pii_Scanner\<close> (server/pii.ts,
    server/ner-scanner.ts).
  \<^item> The receipt: \<open>Receipt_Codec\<close> (security/zk.ts), \<open>Receipt_Verifier\<close> (crypto/*.ts, workers/zk-verifier.ts),
    \<open>Crypto_Wrappers\<close> (rpc/crypto/*.ts).
  \<^item> The server as a whole: \<open>Logic_Server\<close> (\<open>callTool\<close>, the middleware, \<open>executeInWorkerPool\<close>, \<open>executeLogic\<close>),
    \<open>Audit_Chain\<close> (security/audit-logger.ts, interceptors/audit-interceptor.ts), \<open>Server_Properties\<close>.
  \<^item> The client: \<open>Liop_Client\<close> (client/index.ts, the tokens of rpc/client.ts), \<open>Client_Properties\<close>.
  \<^item> MCP front ends: \<open>Mcp_Bridge\<close> (bridge/index.ts), \<open>Session_Bridge\<close> (bridge/stream.ts), \<open>Routing_Table\<close>
    (runtime/routing-table.ts), \<open>Mcp_Router\<close> and \<open>Router_Properties\<close> (gateway/router.ts, utils/mcpCompact.ts),
    \<open>Hybrid_Gateway\<close> and \<open>Gateway_Properties\<close> (gateway/hybrid.ts, gateway/interceptor.ts, gateway/grpc-web.ts).
  \<^item> The mesh: \<open>Mesh_Node\<close> (mesh/node.ts), \<open>Swarm_Key\<close> (mesh/swarm-key.ts, down to the Base64 text of the
    key file), \<open>Manifest_Exchange\<close> (the manifests of server/index.ts and gateway/router.ts on their way into
    a cache).
  \<^item> The command line agent: \<open>Topology_Probe\<close> (runtime/topology-probe.ts), \<open>Agent_Bootstrap\<close> and
    \<open>Adaptive_Agent\<close> (bin/agent.ts: the bootstrap search, and the three modes with their line handlers and
    polls), \<open>Agent_Properties\<close>.
  \<^item> What a node offers: \<open>Prompt_Texts\<close> (the texts given to a model: server/index.ts and prompts/adapters.ts),
    \<open>Server_Registry\<close> (registration, listings, resources, prompts and the constructor of server/index.ts, the
    two modes of bridge/index.ts on them), \<open>Registry_Properties\<close>.
  \<^item> Set-up and operation: \<open>Transport_Tls\<close> (rpc/tls.ts, security/cert-manager.ts), \<open>Authorization_Server\<close>
    (security/oauth-server.ts, rpc/server.ts), \<open>Metrics_Registry\<close> (observability/metrics.ts), \<open>Trace_Log\<close>
    (observability/tracing.ts, utils/logger.ts, interceptors/log-interceptor.ts), \<open>Token_Economy\<close> (economy/*.ts).
  \<^item> The studio (tools/liop-studio/src, beside the SDK): \<open>Studio_Access\<close> (security/*.ts, transports/index.ts and
    the routes of server/index.ts that change its target), \<open>Studio_Transports\<close> (the pipe of
    transports/stdio.transport.ts, requests and calls of transports/http.transport.ts).

  \<^bold>\<open>How the code is modelled.\<close> A class is a record, a method a function from state to state and result, an
  exception a value of a sum type, a JavaScript \<open>Map\<close> an association list in insertion order. The clock is an
  argument. Asynchronous code is a state machine over the events that resume it, and a claim about its life
  is a claim about \<open>run step s es\<close> for all sequences of events; the locale \<open>preserved\<close> gives the induction.
  What the SDK calls and does not contain (SHA-256, HMAC, AES-GCM, ML-KEM, ML-DSA, \<open>JSON.parse\<close>, jose, acorn,
  zod, the regular expressions of a policy, the sandbox engine, libp2p, gRPC, the disk, the environment) is a
  field of a record: \<open>verifier_env\<close>, \<open>worker_host\<close>, \<open>engine\<close>, \<open>node_env\<close>, \<open>client_env\<close>, \<open>mesh_env\<close>, \<open>router_env\<close>,
  \<open>gateway_env\<close>, \<open>probe_env\<close>, \<open>agent_env\<close>, \<open>relay_env\<close>, \<open>registry_env\<close>, \<open>tls_env\<close>, \<open>cert_files\<close>. Claims that rest on
  such a field name the documented behaviour they use as a hypothesis (\<open>gcm_correct\<close>,
  \<open>dsa_correct\<close>, \<open>prints_json\<close>, \<open>json_parser\<close>, injectivity of a digest), and a witness instantiates it.
  Finite numbers are real numbers and their printed form is a parameter. Log lines, metrics and spans are left
  out of the request paths; the objects that take them are modelled on their own.

  \<^bold>\<open>Bounds.\<close> JSON text inside JSON strings is followed with fuel; \<open>weight\<close> of the value is enough and the
  functions are shown not to depend on more. The taint verdict uses fuel \<open>2 * size + 2\<close>, shown to be enough
  (\<open>taint_fuel_enough\<close>). Laplace sampling repeats until a sample is usable: a run over an exhausted supply of
  randomness is \<open>None\<close>, a request that does not return, and claims of released values are about \<open>Some\<close>.
  A promise that never settles is \<open>Hangs\<close>.

  \<^bold>\<open>What is shown.\<close> Lemmas named \<open>_exact\<close> or \<open>_iff\<close> give the complete behaviour of an operation on every branch;
  \<open>_roundtrip\<close> and \<open>_canonical\<close> say that what is encoded is decoded, and only that; the groups in
  \<open>Server_Properties\<close> follow a request through every gate to the released evidence; this theory joins client and
  server. Theorems about what the code does not do (an audit that binds nothing, a token that leaves, a policy
  that is overridden) are stated the way the code behaves.

  \<^bold>\<open>Not modelled.\<close> The gRPC service definition and channel options (rpc/proto.ts, rpc/channel-options.ts) are data
  for grpc-js; the provider of security/oauth-server.ts, the exporters of OpenTelemetry and the tokenizer are
  libraries; the scripts, the examples and the scanner, command line and user interface of liop-studio are no
  part of the protocol. In
  modelled files the libp2p event handlers of mesh/node.ts, the worker pool of server/index.ts, the relaunch
  of the agent with the certificates of the system, its signals, the layout of the status texts, and the
  user-defined callbacks (tool handlers, zod schemas, transformers) belong to the host. The agent answers a
  line before the next one arrives: what other lines do while one is awaited is not interleaved.
\<close>

section \<open>The protocol round\<close>

lemma negotiated_session:
  assumes "negotiate_intent jwt url sha io hdr intent uuid (pk, sk) auth = (a, Inr answer)"
  shows "\<exists>ses. map_of (as_sessions a) (ir_session_token answer) = Some ses \<and> gs_kyber_sk ses = sk \<and>
     gs_capability_hash ses = ir_capability_hash intent \<and> ir_kyber_public_key answer = pk"
  using assms by (auto simp: negotiate_intent_def jm.get_put split: prod.splits sum.splits)

lemma seal_request_token: "seal_request env a payload args = Inr (req, secret) \<Longrightarrow> lr_session_token req = ia_session_token a"
  by (auto simp: seal_request_def split: option.splits sum.splits)

text \<open>What the client asks the verifier about an honest response.\<close>

lemma client_question_honest:
  assumes "wr_zk_receipt w = Some r64" "lp_zk_receipt resp = cd_fromBase64 (wh_codec h) r64" "hex_of (lp_cryptographic_proof resp) = wr_image_id w"
    and "lp_semantic_evidence resp = output_text (wh_env h) (wr_output w)" "verdict_of w = ''hmac'' \<Longrightarrow> \<not> is_v2 (lp_zk_receipt resp)"
  shows "honest_task h payload secret w
     (task_of reg payload (hex_of (lp_cryptographic_proof resp)) (lp_zk_receipt resp)
        (Options \<lparr>vz_sessionSecret = Some secret, vz_expectedOutput = JStr (lp_semantic_evidence resp), vz_guestImageIdHex = None,
           vz_vkeyRaw = None, vz_zkPolicy = Some (if is_v2 (lp_zk_receipt resp) then ''required'' else ''none''), vz_circuitName = None\<rparr>)
        JUndef)"
  using assms by (auto simp: honest_task_def task_of_def Let_def)

lemma honest_response:
  assumes "host_faithful (ne_host env)" "codec_faithful (ne_host env)" "gcm_correct (wh_aes (ne_host env))" "prints_json env" "json_parser (ne_parse env)"
    and "ce_aes cenv = wh_aes (ne_host env)" "ce_verifier cenv = wh_env (ne_host env)" "\<forall>i. length (ce_nonce cenv i) = 12"
    and kem: "\<forall>ct ss. ce_encap cenv pk = Some (ct, ss) \<longrightarrow> wh_decap (ne_host env) ct sk = Some ss"
    and negotiated: "negotiate_intent (ne_jwt env) (ne_url env) (ne_sha env) io hdr intent uuid (pk, sk) (ln_auth s) = (a, Inr answer)"
    and sealed: "seal_request cenv (reply_of answer) payload args = Inr (req, secret)"
    and readable: "received_inputs (wh_env (ne_host env)) args ([], JUndef) = Some ins"
    and served: "execute_logic env io' fr hdr' req (s\<lparr>ln_auth := a\<rparr>) = Some (s', Response resp)" "\<not> lp_is_error resp"
    and program: "plain_program (wh_env (ne_host env)) payload" "try_extract_proxy_output (wh_env (ne_host env)) payload = None"
  shows "\<exists>ses w. map_of (as_sessions a) (ir_session_token answer) = Some ses \<and>
     run_pool env (remote_task s req ses (session_policy s ses)) = Some (Inr w) \<and>
     open_request (ne_host env) (remote_task s req ses (session_policy s ses)) = Inr (payload, ins, secret) \<and>
     (plain_output env (wr_output w) \<longrightarrow>
        verify_response cenv \<lparr>co_zkPolicy = None, co_circuitName = None\<rparr> payload secret resp \<and>
        lp_semantic_evidence resp = output_text (wh_env (ne_host env)) (wr_output w))"
proof -
  let ?h = "ne_host env"
  obtain ses where ses: "map_of (as_sessions a) (ir_session_token answer) = Some ses" "gs_kyber_sk ses = sk" "ir_kyber_public_key answer = pk"
    using negotiated_session [OF negotiated] by blast
  have token: "lr_session_token req = ir_session_token answer" using seal_request_token [OF sealed] by (simp add: reply_of_def)
  obtain b w v inner where rel: "released env (io_now io') fr req ses (s\<lparr>ln_auth := b\<rparr>) s' resp w v inner"
    using execute_logic_released [OF assms(5) served] ses(1) token by auto
  let ?u = "s\<lparr>ln_auth := b\<rparr>"
  let ?task = "remote_task s req ses (session_policy s ses)"
  have "remote_task ?u req ses (session_policy ?u ses) = ?task"
    using remote_task_frame [of s ?u] same_node_session [of s ?u] by simp
  then have pool: "run_pool env ?task = Some (Inr w)" using rel by (simp add: released_def Let_def)
  have decap: "\<forall>pk' ct ss. ce_encap cenv pk' = Some (ct, ss) \<and> ia_publicKey (reply_of answer) = Some pk' \<longrightarrow> wh_decap ?h ct sk = Some ss"
    using kem ses(3) by (simp add: reply_of_def)
  have decoded: "\<forall>s. ve_text (wh_env ?h) (utf8 s) = s" using assms(1) by (simp add: host_faithful_def)
  have opened: "open_request ?h ?task = Inr (payload, ins, secret)"
    by (rule sealed_request_opened [OF assms(3,6,7) decoded assms(8) decap sealed readable]) (simp_all add: remote_task_def ses(2))
  have "verify_response cenv \<lparr>co_zkPolicy = None, co_circuitName = None\<rparr> payload secret resp \<and>
      lp_semantic_evidence resp = output_text (wh_env ?h) (wr_output w)" if plain: "plain_output env (wr_output w)"
  proof -
    note receipt = released_receipt [OF assms(1,2,4) rel plain]
    obtain r64 where r64: "wr_zk_receipt w = Some r64" "lp_zk_receipt resp = cd_fromBase64 (wh_codec ?h) r64"
      using receipt by (cases "wr_zk_receipt w") auto
    have hmac: "verdict_of w = ''hmac'' \<Longrightarrow> \<not> is_v2 (lp_zk_receipt resp)"
      using receipt by (auto simp: is_v2_def receipt_consts split: if_splits)
    have "\<not> wd_isWarmup ?task" by (simp add: remote_task_def)
    note accepted = worker_receipt_accepted [OF run_pool_process [OF pool] this assms(1) opened program]
    have "honest_task ?h payload secret w
       (task_of (ce_vkeys cenv) payload (hex_of (lp_cryptographic_proof resp)) (lp_zk_receipt resp)
        (Options \<lparr>vz_sessionSecret = Some secret, vz_expectedOutput = JStr (lp_semantic_evidence resp), vz_guestImageIdHex = None,
           vz_vkeyRaw = None, vz_zkPolicy = Some (if is_v2 (lp_zk_receipt resp) then ''required'' else ''none''), vz_circuitName = None\<rparr>)
        JUndef)"
      by (rule client_question_honest [OF r64]) (use receipt hmac in blast)+
    from accepted [OF this] have "verify_response cenv \<lparr>co_zkPolicy = None, co_circuitName = None\<rparr> payload secret resp"
      using assms(7) by (simp add: verify_response_def liop_verify_zk_receipt_def Let_def)
    then show ?thesis using receipt by blast
  qed
  then show ?thesis using ses(1) pool opened by blast
qed


lemma demo_negotiated:
  "negotiate_intent (ne_jwt demo_node_env) (ne_url demo_node_env) (ne_sha demo_node_env) (demo_io\<lparr>io_now := 500\<rparr>) None
     \<lparr>ir_capability_hash = ''count'', ir_agent_did = ''did''\<rparr> ''t'' (replicate 1184 0, []) (ln_auth demo_node) =
   (ln_auth demo_node, Inr demo_answer)"
  by (simp add: negotiate_intent_def auth_gate_def demo_node_def demo_session_def demo_io_def)

lemma demo_readable:
  "received_inputs (wh_env (ne_host demo_node_env)) [] ([], JUndef) = Some ([], JUndef)"
  "plain_program (wh_env (ne_host demo_node_env)) (utf8 ''return records.length'')"
  "try_extract_proxy_output (wh_env (ne_host demo_node_env)) (utf8 ''return records.length'') = None"
  by (simp_all add: demo_program)

lemma demo_output:
  assumes "map_of (as_sessions (ln_auth demo_node)) ''t'' = Some ses"
    "run_pool demo_node_env (remote_task demo_node (demo_request None) ses (session_policy demo_node ses)) = Some (Inr w)"
  shows "plain_output demo_node_env (wr_output w)" "output_text (wh_env (ne_host demo_node_env)) (wr_output w) = ''3''"
proof -
  have ses: "ses = demo_session ''count''" using assms(1) by (simp add: demo_node_def)
  have policy: "session_policy demo_node (demo_session ''count'') = demo_policy ''optimistic''"
    by (simp add: session_policy_def demo_session_def policy_of_def demo_node_def)
  have "requested_mode None (demo_policy ''optimistic'') = PROOF_MODE_ZK_OPTIMISTIC"
    by (simp add: requested_mode_def demo_policy_def policy_proof_mode_def)
  then have "wr_output w = JNum (Fin 3)"
    using demo_remote [of "demo_policy ''optimistic''" None "''count''"] assms(2) by (auto simp: ses policy)
  then show "plain_output demo_node_env (wr_output w)" "output_text (wh_env (ne_host demo_node_env)) (wr_output w) = ''3''"
    using demo_prints(3) by (simp_all add: output_text_def)
qed


text \<open>A client with one connection, to the concrete server.\<close>

definition demo_calling :: "logic_response \<Rightarrow> client_env" where
  "demo_calling resp = demo_client_env\<lparr>ce_negotiate := (\<lambda>c n. negotiation.Answered (reply_of demo_answer)),
     ce_stream := (\<lambda>c req. [Data resp, Verified 0, End])\<rparr>"

definition demo_caller :: liop_client where
  "demo_caller = \<lparr>lc_connected = True, lc_rpcClients = [(''static'', \<lparr>rc_address = ''x'', rc_token = Resolver None\<rparr>)],
     lc_manifests = [], lc_oauthToken = None, lc_managed = False\<rparr>"

theorem resolved_call_verified_witness:
  "\<exists>resp s' r. client_call_tool (demo_calling resp) ''count'' [] (utf8 ''return records.length'') \<lparr>co_zkPolicy = None, co_circuitName = None\<rparr> demo_caller =
     (s', Some (Resolved r)) \<and> \<not> cr_isError r \<and> cr_zkVerified r"
proof -
  let ?code = "utf8 ''return records.length''" and ?opts = "\<lparr>co_zkPolicy = None, co_circuitName = None\<rparr>"
  obtain s' resp where served: "execute_logic demo_node_env demo_io demo_fresh None (demo_request None) (demo_node\<lparr>ln_auth := ln_auth demo_node\<rparr>) = Some (s', Response resp)"
    "\<not> lp_is_error resp" using demo_release by auto
  from honest_response [OF demo_parties demo_negotiated demo_sealed demo_readable(1) served demo_readable(2,3)]
  obtain ses w where w: "map_of (as_sessions (ln_auth demo_node)) ''t'' = Some ses"
    "run_pool demo_node_env (remote_task demo_node (demo_request None) ses (session_policy demo_node ses)) = Some (Inr w)"
    and ok: "plain_output demo_node_env (wr_output w) \<longrightarrow> verify_response demo_client_env ?opts ?code (replicate 32 0) resp"
    by auto
  have "verify_response demo_client_env ?opts ?code (replicate 32 0) resp" using ok demo_output(1) [OF w] by blast
  then have verified: "verify_response (demo_calling resp) ?opts ?code (replicate 32 0) resp"
    by (simp add: verify_response_def demo_calling_def)
  have sealing: "seal_request (demo_calling resp) (reply_of demo_answer) ?code [] = Inr (demo_request None, replicate 32 0)"
    by (simp add: seal_request_def reply_of_def encapsulate_asymmetric_def demo_calling_def demo_client_env_def encrypt_payload_def
        demo_gcm_def demo_request_def)
  have "\<exists>u. client_call_tool (demo_calling resp) ''count'' [] ?code ?opts demo_caller = (u, Some (Resolved (call_result resp)))"
  proof -
    have "negotiate (demo_calling resp) ''static'' c u = (u, c, Inr (reply_of demo_answer))" for c u
      by (simp add: negotiate_def negotiate_first_def demo_calling_def reply_of_def)
    moreover have "route (demo_calling resp) ''count'' demo_caller =
        (demo_caller, Inr (''static'', ''static'', \<lparr>rc_address = ''x'', rc_token = Resolver None\<rparr>))"
      by (simp add: route_def demo_caller_def)
    moreover have "ce_stream (demo_calling resp) c req = [Data resp, Verified 0, End]" for c req by (simp add: demo_calling_def)
    moreover have "lc_connected demo_caller" by (simp add: demo_caller_def)
    ultimately show ?thesis
      using served(2) verified by (simp add: client_call_tool_def sealing stream_start_def fulfil_def settle_def)
  qed
  then obtain u where call: "client_call_tool (demo_calling resp) ''count'' [] ?code ?opts demo_caller = (u, Some (Resolved (call_result resp)))"
    by blast
  have "\<not> cr_isError (call_result resp)" using served(2) by (simp add: call_result_def)
  from resolved_call_verified [OF call this] call this show ?thesis by blast
qed

end
